(* ===== verification/Prelude.thy ===== *)
theory Prelude
  imports Main "HOL-Library.Word" "HOL-Library.Option_ord" "HOL-Library.Product_Lexorder"
    "HOL-Library.List_Lexorder" "HOL-Library.Char_ord" "HOL-Library.Multiset"
begin

text \<open>
  Shared vocabulary of the development: the exceptions the server raises as values of one
  error type, sequencing of fallible computations, transactions that roll back on an
  exception, UUIDs with their order and their canonical text, decimal and hexadecimal
  numerals, and the few facts on lists that several components use.

  Instants are \<open>int\<close> counts of microseconds since the epoch, the resolution of both
  Python's \<open>datetime\<close> and PostgreSQL's \<open>timestamptz\<close>. Python strings are
  \<open>string\<close>; a \<open>char\<close> stands for a code point below 256.
\<close>

named_theorems exec_defs \<open>definitions unfolded to run the model on concrete input\<close>
named_theorems frame \<open>tables an operation leaves unchanged\<close>

type_synonym instant = int

subsection \<open>Exceptions as values\<close>

text \<open>
  One constructor per exception class the modelled code raises or catches.
  \<open>HTTPException\<close> carries the status code, the detail and the extra response headers.
\<close>

datatype exc =
    HTTPException int string "(string \<times> string) list"
  | IntegrityError
  | DataError
  | MultipleResultsFound
  | NoResultFound
  | ValueError string
  | RuntimeError string
  | AuthenticationError
  | RateLimitExceeded int
  | SecretEncryptionUnavailable string
  | SecretDecryptionError string
  | AttributeError

abbreviation http :: "int \<Rightarrow> string \<Rightarrow> exc" where
  "http code detail \<equiv> HTTPException code detail []"

definition bindE :: "'e + 'a \<Rightarrow> ('a \<Rightarrow> 'e + 'b) \<Rightarrow> 'e + 'b" where
  "bindE r f = (case r of Inl e \<Rightarrow> Inl e | Inr x \<Rightarrow> f x)"

lemma bindE_Inl [simp]: "bindE (Inl e) f = Inl e"
  by (simp add: bindE_def)

lemma bindE_Inr [simp]: "bindE (Inr x) f = f x"
  by (simp add: bindE_def)

lemma bindE_eq_Inr: "bindE r f = Inr y \<longleftrightarrow> (\<exists>x. r = Inr x \<and> f x = Inr y)"
  by (cases r) simp_all

lemma bindE_eq_Inl:
  "bindE r f = Inl e \<longleftrightarrow> r = Inl e \<or> (\<exists>x. r = Inr x \<and> f x = Inl e)"
  by (cases r) simp_all

lemma bindE_InrE [elim!]:
  assumes "bindE r f = Inr y"
  obtains x where "r = Inr x" and "f x = Inr y"
  using assms by (auto simp: bindE_eq_Inr)

lemma bindE_cong [fundef_cong]:
  "r = r' \<Longrightarrow> (\<And>x. r' = Inr x \<Longrightarrow> f x = g x) \<Longrightarrow> bindE r f = bindE r' g"
  by (cases r') simp_all

subsection \<open>Transactions\<close>

text \<open>
  \<open>async with engine.begin() as connection\<close>: the body runs on the state and its writes are
  kept when it returns and dropped when it raises.
\<close>

definition run_tx :: "('s \<Rightarrow> exc + ('a \<times> 's)) \<Rightarrow> 's \<Rightarrow> (exc + 'a) \<times> 's" where
  "run_tx body s = (case body s of Inl e \<Rightarrow> (Inl e, s) | Inr (x, s') \<Rightarrow> (Inr x, s'))"

lemma run_tx_Inl: "body s = Inl e \<Longrightarrow> run_tx body s = (Inl e, s)"
  by (simp add: run_tx_def)

lemma run_tx_Inr: "body s = Inr (x, s') \<Longrightarrow> run_tx body s = (Inr x, s')"
  by (simp add: run_tx_def)

lemma run_tx_rollback: "fst (run_tx body s) = Inl e \<Longrightarrow> snd (run_tx body s) = s"
  by (auto simp: run_tx_def split: sum.splits prod.splits)

lemma run_tx_cases:
  obtains (raised) e where "body s = Inl e" "run_tx body s = (Inl e, s)"
  | (committed) x s' where "body s = Inr (x, s')" "run_tx body s = (Inr x, s')"
  by (cases "body s") (auto simp: run_tx_def)

text \<open>A read-only transaction, and a request step after another one that kept its writes.\<close>

definition read_tx :: "('s \<Rightarrow> exc + 'a) \<Rightarrow> 's \<Rightarrow> (exc + 'a) \<times> 's" where
  "read_tx body s = (body s, s)"

definition then_tx ::
  "(exc + 'a) \<times> 's \<Rightarrow> ('a \<Rightarrow> 's \<Rightarrow> (exc + 'b) \<times> 's) \<Rightarrow> (exc + 'b) \<times> 's" where
  "then_tx r f = (case r of (Inl e, s) \<Rightarrow> (Inl e, s) | (Inr x, s) \<Rightarrow> f x s)"

lemma then_tx_simps [simp]:
  "then_tx (Inl e, s) f = (Inl e, s)" "then_tx (Inr x, s) f = f x s"
  by (simp_all add: then_tx_def)

lemma read_tx_snd [simp]: "snd (read_tx body s) = s"
  by (simp add: read_tx_def)

lemma then_tx_cases:
  obtains (stopped) e s where "r = (Inl e, s)" "then_tx r f = (Inl e, s)"
  | (went_on) x s where "r = (Inr x, s)" "then_tx r f = f x s"
  by (cases r; cases "fst r") auto

text \<open>\<open>except IntegrityError: raise HTTPException(...)\<close> around a transaction.\<close>

definition catch_integrity :: "exc \<Rightarrow> (exc + 'a) \<times> 's \<Rightarrow> (exc + 'a) \<times> 's" where
  "catch_integrity e r =
     (case r of (Inl IntegrityError, s) \<Rightarrow> (Inl e, s) | _ \<Rightarrow> r)"

lemma catch_integrity_snd [simp]: "snd (catch_integrity e r) = snd r"
  by (auto simp: catch_integrity_def split: prod.splits sum.splits exc.splits)

lemma catch_integrity_Inr [simp]: "catch_integrity e (Inr x, s) = (Inr x, s)"
  by (simp add: catch_integrity_def)

lemma catch_integrity_hit [simp]: "catch_integrity e (Inl IntegrityError, s) = (Inl e, s)"
  by (simp add: catch_integrity_def)

lemma catch_integrity_http [simp]:
  "catch_integrity e (Inl (HTTPException c m h), s) = (Inl (HTTPException c m h), s)"
  by (simp add: catch_integrity_def)

subsection \<open>Numerals as text\<close>

definition digit_char :: "nat \<Rightarrow> char" where
  "digit_char n = ''0123456789abcdef'' ! (n mod 16)"

lemma digit_char_inj: "m < 16 \<Longrightarrow> n < 16 \<Longrightarrow> digit_char m = digit_char n \<Longrightarrow> m = n"
proof -
  assume "m < 16" "n < 16" "digit_char m = digit_char n"
  then have "''0123456789abcdef'' ! m = ''0123456789abcdef'' ! n"
    by (simp add: digit_char_def)
  moreover have "distinct ''0123456789abcdef''" by simp
  ultimately show ?thesis
    using \<open>m < 16\<close> \<open>n < 16\<close> by (subst (asm) nth_eq_iff_index_eq) auto
qed

lemma digit_char_not_dash: "digit_char n \<noteq> CHR ''-''"
proof -
  have "\<forall>c \<in> set ''0123456789abcdef''. c \<noteq> CHR ''-''" by simp
  moreover have "digit_char n \<in> set ''0123456789abcdef''"
    unfolding digit_char_def by (rule nth_mem) simp
  ultimately show ?thesis by blast
qed

fun dec_nat :: "nat \<Rightarrow> string" where
  "dec_nat n = (if n < 10 then [digit_char n] else dec_nat (n div 10) @ [digit_char (n mod 10)])"

declare dec_nat.simps [simp del]

definition dec_int :: "int \<Rightarrow> string" where
  "dec_int i = (if i < 0 then CHR ''-'' # dec_nat (nat (- i)) else dec_nat (nat i))"


subsection \<open>UUIDs\<close>

text \<open>
  A UUID is 128 bits; PostgreSQL orders the \<open>uuid\<close> type bytewise, which is the unsigned
  order of the word. \<open>uuid_str\<close> is Python's \<open>str(uuid)\<close>: 32 lower-case hexadecimal
  digits, most significant first, in groups of 8, 4, 4, 4 and 12.
\<close>

datatype uuid = UUID (uuid_bits: "128 word")

instantiation uuid :: linorder
begin

definition less_eq_uuid :: "uuid \<Rightarrow> uuid \<Rightarrow> bool" where
  "less_eq_uuid a b \<longleftrightarrow> uuid_bits a \<le> uuid_bits b"

definition less_uuid :: "uuid \<Rightarrow> uuid \<Rightarrow> bool" where
  "less_uuid a b \<longleftrightarrow> uuid_bits a < uuid_bits b"

instance
  by standard (auto simp: less_eq_uuid_def less_uuid_def intro: uuid.expand)

end

lemma UUID_less_eq [simp]: "UUID a \<le> UUID b \<longleftrightarrow> a \<le> b"
  by (simp add: less_eq_uuid_def)

lemma UUID_less [simp]: "UUID a < UUID b \<longleftrightarrow> a < b"
  by (simp add: less_uuid_def)

definition nibble :: "128 word \<Rightarrow> nat \<Rightarrow> nat" where
  "nibble w i = unat (take_bit 4 (drop_bit (4 * i) w))"

lemma nibble_less: "nibble w i < 16"
proof -
  have "nibble w i = take_bit 4 (unat (drop_bit (4 * i) w))"
    by (simp add: nibble_def unsigned_take_bit_eq)
  then show ?thesis
    using take_bit_nat_less_exp [of 4 "unat (drop_bit (4 * i) w)"] by simp
qed

lemma nibble_inj:
  assumes "\<And>i. i < 32 \<Longrightarrow> nibble v i = nibble w i"
  shows "v = w"
proof (rule bit_word_eqI)
  fix n :: nat
  assume "n < LENGTH(128)"
  then have n: "n div 4 < 32" "n mod 4 < 4" "4 * (n div 4) + n mod 4 = n" by simp_all
  have "unat (take_bit 4 (drop_bit (4 * (n div 4)) v))
      = unat (take_bit 4 (drop_bit (4 * (n div 4)) w))"
    using assms [OF n(1)] by (simp add: nibble_def)
  then have "take_bit 4 (drop_bit (4 * (n div 4)) v) = take_bit 4 (drop_bit (4 * (n div 4)) w)"
    by (rule word_unat_eq_iff [THEN iffD2])
  then have "bit (take_bit 4 (drop_bit (4 * (n div 4)) v)) (n mod 4)
      = bit (take_bit 4 (drop_bit (4 * (n div 4)) w)) (n mod 4)"
    by (rule arg_cong)
  then show "bit v n = bit w n"
    using n by (simp add: bit_take_bit_iff bit_drop_bit_eq)
qed

definition hex_run :: "128 word \<Rightarrow> nat list \<Rightarrow> string" where
  "hex_run w is = map (\<lambda>i. digit_char (nibble w i)) is"

definition uuid_str :: "uuid \<Rightarrow> string" where
  "uuid_str u = (let w = uuid_bits u in
     hex_run w (rev [24..<32]) @ ''-'' @ hex_run w (rev [20..<24]) @ ''-'' @
     hex_run w (rev [16..<20]) @ ''-'' @ hex_run w (rev [12..<16]) @ ''-'' @
     hex_run w (rev [0..<12]))"

lemma length_hex_run [simp]: "length (hex_run w is) = length is"
  by (simp add: hex_run_def)

lemma length_uuid_str: "length (uuid_str u) = 36"
  by (simp add: uuid_str_def Let_def)

lemma hex_run_eq:
  "hex_run v is = hex_run w is \<longleftrightarrow> (\<forall>i \<in> set is. nibble v i = nibble w i)"
  by (auto simp: hex_run_def intro: digit_char_inj nibble_less)

lemma filter_hex_run: "filter (\<lambda>c. c \<noteq> CHR ''-'') (hex_run w is) = hex_run w is"
  by (auto simp: hex_run_def filter_id_conv digit_char_not_dash)

lemma hex_run_append: "hex_run w is @ hex_run w js = hex_run w (is @ js)"
  by (simp add: hex_run_def)

lemma uuid_str_digits:
  "filter (\<lambda>c. c \<noteq> CHR ''-'') (uuid_str u) = hex_run (uuid_bits u) (rev [0..<32])"
proof -
  have "filter (\<lambda>c. c \<noteq> CHR ''-'') (uuid_str u)
      = hex_run (uuid_bits u)
          (rev [24..<32] @ rev [20..<24] @ rev [16..<20] @ rev [12..<16] @ rev [0..<12])"
    unfolding uuid_str_def Let_def filter_append filter_hex_run hex_run_append [symmetric]
    by simp
  also have "rev [24..<32] @ rev [20..<24] @ rev [16..<20] @ rev [12..<16] @ rev [0..<12]
      = rev [0..<32]"
    by (simp add: upt_rec)
  finally show ?thesis .
qed

lemma uuid_str_inj: "uuid_str a = uuid_str b \<Longrightarrow> a = b"
proof -
  assume "uuid_str a = uuid_str b"
  then have "hex_run (uuid_bits a) (rev [0..<32]) = hex_run (uuid_bits b) (rev [0..<32])"
    unfolding uuid_str_digits [symmetric] by (rule arg_cong)
  then have "\<forall>i \<in> set (rev [0..<32]). nibble (uuid_bits a) i = nibble (uuid_bits b) i"
    unfolding hex_run_eq .
  then have "\<And>i. i < 32 \<Longrightarrow> nibble (uuid_bits a) i = nibble (uuid_bits b) i"
    unfolding set_rev atLeastLessThan_upt [symmetric] by simp
  then have "uuid_bits a = uuid_bits b" by (rule nibble_inj)
  then show ?thesis by (rule uuid.expand)
qed

subsection \<open>Sorting and filtering\<close>

lemma set_take_drop_subset: "set (take m (drop n xs)) \<subseteq> set xs"
  by (meson order_trans set_drop_subset set_take_subset)

lemma sort_key_hd_least:
  assumes "sort_key f xs = x # ys" and "y \<in> set xs"
  shows "f x \<le> f y"
proof -
  have "sorted (map f (x # ys))" using assms(1) by (metis sorted_sort_key)
  moreover have "y \<in> set (x # ys)" using assms by (metis set_sort)
  ultimately show ?thesis by auto
qed

lemma sort_key_hd_mem: "sort_key f xs = x # ys \<Longrightarrow> x \<in> set xs"
  by (metis list.set_intros(1) set_sort)

lemma sort_key_Nil_iff [simp]: "sort_key f xs = [] \<longleftrightarrow> xs = []"
  by (metis length_0_conv length_sort)

lemma distinct_map_inj_mem:
  "distinct (map f xs) \<Longrightarrow> x \<in> set xs \<Longrightarrow> y \<in> set xs \<Longrightarrow> f x = f y \<Longrightarrow> x = y"
  by (auto simp: distinct_map inj_on_def)

end
