(* ===== verification/Tables.thy ===== *)
theory Tables
  imports Prelude
begin

text \<open>
  The SQL statements the server issues, as functions on a table: a table is the list of its
  rows in insertion order. \<open>filter\<close> is a \<open>WHERE\<close>, \<open>sort_key\<close> an \<open>ORDER BY\<close>,
  \<open>page\<close> an \<open>OFFSET\<close> with a \<open>LIMIT\<close>, \<open>update_where\<close> and \<open>delete_where\<close> the
  statements of those names. \<open>one_or_none\<close> and \<open>one\<close> are SQLAlchemy's result accessors,
  which raise when a query returns more rows than they allow.
\<close>

definition one_or_none :: "'r list \<Rightarrow> exc + 'r option" where
  "one_or_none rows =
     (case rows of [] \<Rightarrow> Inr None | [r] \<Rightarrow> Inr (Some r) | _ \<Rightarrow> Inl MultipleResultsFound)"

definition one :: "'r list \<Rightarrow> exc + 'r" where
  "one rows =
     (case rows of [] \<Rightarrow> Inl NoResultFound | [r] \<Rightarrow> Inr r | _ \<Rightarrow> Inl MultipleResultsFound)"

definition first_row :: "'r list \<Rightarrow> 'r option" where
  "first_row rows = (case rows of [] \<Rightarrow> None | r # _ \<Rightarrow> Some r)"

definition page :: "int \<Rightarrow> int \<Rightarrow> 'r list \<Rightarrow> 'r list" where
  "page offset limit rows = take (nat limit) (drop (nat offset) rows)"

definition update_where :: "('r \<Rightarrow> bool) \<Rightarrow> ('r \<Rightarrow> 'r) \<Rightarrow> 'r list \<Rightarrow> 'r list" where
  "update_where p f rows = map (\<lambda>r. if p r then f r else r) rows"

definition delete_where :: "('r \<Rightarrow> bool) \<Rightarrow> 'r list \<Rightarrow> 'r list" where
  "delete_where p rows = filter (\<lambda>r. \<not> p r) rows"

definition unique_on :: "('r \<Rightarrow> 'k) \<Rightarrow> 'r list \<Rightarrow> bool" where
  "unique_on key rows \<longleftrightarrow> distinct (map key rows)"

definition coalesce :: "'a option \<Rightarrow> 'a \<Rightarrow> 'a" where
  "coalesce x y = (case x of None \<Rightarrow> y | Some v \<Rightarrow> v)"

text \<open>\<open>if row is None: raise\<close> after a query.\<close>

definition found_or :: "exc \<Rightarrow> 'a option \<Rightarrow> exc + 'a" where
  "found_or e row = (case row of None \<Rightarrow> Inl e | Some r \<Rightarrow> Inr r)"

subsection \<open>Field constraints of the request models\<close>

text \<open>
  Pydantic's length constraints, an optional field, and the outcome of a failed constraint
  (\<open>ValidationError\<close> is a \<open>ValueError\<close>).
\<close>

definition text_ok :: "nat \<Rightarrow> nat \<Rightarrow> string \<Rightarrow> bool" where
  "text_ok lo hi s \<longleftrightarrow> lo \<le> length s \<and> length s \<le> hi"

definition opt_ok :: "('a \<Rightarrow> bool) \<Rightarrow> 'a option \<Rightarrow> bool" where
  "opt_ok p x = (case x of None \<Rightarrow> True | Some y \<Rightarrow> p y)"

definition check_fields :: "bool \<Rightarrow> exc + unit" where
  "check_fields b = (if b then Inr () else Inl (ValueError ''field constraint''))"

subsection \<open>Row accessors\<close>

lemma one_or_none_simps [simp]:
  "one_or_none [] = Inr None"
  "one_or_none [r] = Inr (Some r)"
  "one_or_none (r # r' # rs) = Inl MultipleResultsFound"
  by (simp_all add: one_or_none_def)

lemma one_simps [simp]:
  "one [] = Inl NoResultFound"
  "one [r] = Inr r"
  "one (r # r' # rs) = Inl MultipleResultsFound"
  by (simp_all add: one_def)

lemma first_row_simps [simp]: "first_row [] = None" "first_row (r # rs) = Some r"
  by (simp_all add: first_row_def)

lemma one_or_none_None_iff [simp]: "one_or_none rows = Inr None \<longleftrightarrow> rows = []"
  by (simp add: one_or_none_def split: list.splits)

lemma one_or_none_Some_iff [simp]: "one_or_none rows = Inr (Some r) \<longleftrightarrow> rows = [r]"
  by (auto simp: one_or_none_def split: list.splits)

lemma one_Inr_iff [simp]: "one rows = Inr r \<longleftrightarrow> rows = [r]"
  by (auto simp: one_def split: list.splits)

lemma first_row_None_iff [simp]: "first_row rows = None \<longleftrightarrow> rows = []"
  by (simp add: first_row_def split: list.splits)

lemma first_row_Some_mem: "first_row rows = Some r \<Longrightarrow> r \<in> set rows"
  by (auto simp: first_row_def split: list.splits)

lemma filter_singleD:
  assumes "filter p rows = [r]"
  shows "r \<in> set rows" and "p r" and "\<And>x. x \<in> set rows \<Longrightarrow> p x \<Longrightarrow> x = r"
proof -
  have "set (filter p rows) = {r}" by (simp add: assms)
  then show "r \<in> set rows" "p r" "\<And>x. x \<in> set rows \<Longrightarrow> p x \<Longrightarrow> x = r" by auto
qed

subsection \<open>Unique keys\<close>

lemma unique_on_inj: "unique_on key rows \<Longrightarrow> x \<in> set rows \<Longrightarrow> y \<in> set rows \<Longrightarrow> key x = key y \<Longrightarrow> x = y"
  by (auto simp: unique_on_def dest: distinct_map_inj_mem)

lemma unique_on_Nil [simp]: "unique_on key []"
  by (simp add: unique_on_def)

lemma unique_on_snoc [simp]:
  "unique_on key (rows @ [r]) \<longleftrightarrow> unique_on key rows \<and> key r \<notin> key ` set rows"
  by (auto simp: unique_on_def)

lemma unique_on_filter: "unique_on key rows \<Longrightarrow> unique_on key (filter p rows)"
  by (simp add: unique_on_def distinct_map_filter)

lemma distinct_set_single: "distinct xs \<Longrightarrow> set xs = {x} \<Longrightarrow> xs = [x]"
  by (cases xs; cases "tl xs") auto

lemma unique_on_filter_single:
  assumes "unique_on key rows" and "r \<in> set rows" and "p r"
    and "\<And>x. x \<in> set rows \<Longrightarrow> p x \<Longrightarrow> key x = key r"
  shows "filter p rows = [r]"
proof (rule distinct_set_single)
  show "distinct (filter p rows)"
    using assms(1) by (simp add: unique_on_def distinct_map)
  have "x = r" if "x \<in> set rows" "p x" for x
  proof -
    have "key x = key r" using that by (rule assms(4))
    with assms(1) that(1) assms(2) show ?thesis by (rule unique_on_inj)
  qed
  with assms(2,3) show "set (filter p rows) = {r}" unfolding set_filter by blast
qed

lemma unique_on_one_or_none:
  assumes "unique_on key rows" and "\<And>x. p x \<Longrightarrow> key x = k"
  shows "\<exists>res. one_or_none (filter p rows) = Inr res"
proof (cases "filter p rows")
  case (Cons r rs)
  then have "r \<in> set (filter p rows)" by simp
  then have r: "r \<in> set rows" "p r" by simp_all
  have "filter p rows = [r]"
    by (rule unique_on_filter_single [of key rows r p, OF assms(1) r]) (simp add: assms(2) r(2))
  then show ?thesis by simp
qed simp

subsection \<open>Updates and deletions\<close>

lemma set_update_where:
  "set (update_where p f rows) = f ` {r \<in> set rows. p r} \<union> {r \<in> set rows. \<not> p r}"
  by (auto simp: update_where_def)

lemma length_update_where [simp]: "length (update_where p f rows) = length rows"
  by (simp add: update_where_def)

lemma update_where_none: "(\<And>r. r \<in> set rows \<Longrightarrow> \<not> p r) \<Longrightarrow> update_where p f rows = rows"
  by (simp add: update_where_def map_idI)

lemma map_update_where:
  "(\<And>r. r \<in> set rows \<Longrightarrow> p r \<Longrightarrow> g (f r) = g r) \<Longrightarrow> map g (update_where p f rows) = map g rows"
  by (simp add: update_where_def)

lemma image_update_where:
  "(\<And>r. key (f r) = key r) \<Longrightarrow> key ` set (update_where p f rows) = key ` set rows"
  using map_update_where [of rows p key f] by (metis list.set_map)

lemma unique_on_update_where:
  "(\<And>r. key (f r) = key r) \<Longrightarrow> unique_on key (update_where p f rows) = unique_on key rows"
  by (simp add: unique_on_def map_update_where)

lemma unique_on_update_one:
  assumes ids: "unique_on i rows" and keys: "unique_on key rows" and f: "\<And>r. i (f r) = i r"
    and one: "\<And>r r'. r \<in> set rows \<Longrightarrow> r' \<in> set rows \<Longrightarrow> p r \<Longrightarrow> p r' \<Longrightarrow> r = r'"
    and free: "\<And>r x. r \<in> set rows \<Longrightarrow> p r \<Longrightarrow> x \<in> set rows \<Longrightarrow> \<not> p x \<Longrightarrow> key (f r) \<noteq> key x"
  shows "unique_on key (update_where p f rows)"
proof -
  let ?f = "\<lambda>r. if p r then f r else r"
  have "inj_on (\<lambda>r. key (?f r)) (set rows)"
  proof (rule inj_onI)
    fix x y assume xy: "x \<in> set rows" "y \<in> set rows" and eq: "key (?f x) = key (?f y)"
    consider "p x" "p y" | "p x" "\<not> p y" | "\<not> p x" "p y" | "\<not> p x" "\<not> p y" by blast
    then show "x = y"
    proof cases
      case 1 with xy show ?thesis by (intro one)
    next
      case 2 with xy eq free [of x y] show ?thesis by simp
    next
      case 3 with xy eq free [of y x] show ?thesis by simp
    next
      case 4 with xy eq unique_on_inj [OF keys xy] show ?thesis by simp
    qed
  qed
  moreover have "distinct rows" using ids by (simp add: unique_on_def distinct_map)
  ultimately have "distinct (map (\<lambda>r. key (?f r)) rows)" by (simp add: distinct_map)
  then show ?thesis by (simp add: unique_on_def update_where_def comp_def)
qed

lemma filter_update_where:
  "(\<And>r. r \<in> set rows \<Longrightarrow> q (if p r then f r else r) = q r) \<Longrightarrow>
     filter q (update_where p f rows) = update_where p f (filter q rows)"
  by (induction rows) (auto simp: update_where_def)

lemma filter_update_where_other:
  "(\<And>r. p r \<Longrightarrow> \<not> q r) \<Longrightarrow> (\<And>r. p r \<Longrightarrow> \<not> q (f r)) \<Longrightarrow>
     filter q (update_where p f rows) = filter q rows"
  by (induction rows) (auto simp: update_where_def)

lemma length_filter_update_where_le:
  "(\<And>r. r \<in> set rows \<Longrightarrow> p r \<Longrightarrow> q (f r) \<Longrightarrow> q r) \<Longrightarrow>
     length (filter q (update_where p f rows)) \<le> length (filter q rows)"
  by (induction rows) (auto simp: update_where_def)

lemma update_where_memE:
  assumes "x \<in> set (update_where p f rows)"
  obtains (changed) r where "r \<in> set rows" "p r" "x = f r" | (kept) "x \<in> set rows" "\<not> p x"
  using assms by (auto simp: set_update_where)

lemma length_filter_update_single:
  assumes "distinct rows" and "r \<in> set rows" and "\<And>x. x \<in> set rows \<Longrightarrow> p x \<longleftrightarrow> x = r"
    and "\<not> q (f r)"
  shows "length (filter q rows) = length (filter q (update_where p f rows)) + (if q r then 1 else 0)"
proof -
  obtain a b where rows: "rows = a @ r # b" using assms(2) by (auto dest: split_list)
  then have "r \<notin> set a" "r \<notin> set b" using assms(1) by auto
  then have "\<not> p x" if "x \<in> set a \<union> set b" for x using assms(3) [of x] that rows by auto
  then have "update_where p f rows = a @ f r # b"
    using assms(3) [of r] rows by (auto simp: update_where_def map_idI)
  then show ?thesis using assms(4) rows by simp
qed

lemma update_where_single [simp]: "update_where p f [r] = [if p r then f r else r]"
  by (simp add: update_where_def)

lemma update_where_Nil [simp]: "update_where p f [] = []"
  by (simp add: update_where_def)

lemma update_where_Cons [simp]:
  "update_where p f (r # rs) = (if p r then f r else r) # update_where p f rs"
  by (simp add: update_where_def)

lemma list_all_update_where:
  "list_all q rows \<Longrightarrow> (\<And>r. r \<in> set rows \<Longrightarrow> p r \<Longrightarrow> q r \<Longrightarrow> q (f r)) \<Longrightarrow>
     list_all q (update_where p f rows)"
  by (auto simp: update_where_def list_all_iff)

lemma set_delete_where [simp]: "set (delete_where p rows) = {r \<in> set rows. \<not> p r}"
  by (auto simp: delete_where_def)

lemma delete_where_twice [simp]: "delete_where p (delete_where p rows) = delete_where p rows"
  by (simp add: delete_where_def)

subsection \<open>Pages\<close>

lemma length_page_le: "length (page offset limit rows) \<le> nat limit"
  by (simp add: page_def)

lemma set_page_subset: "set (page offset limit rows) \<subseteq> set rows"
  by (simp add: page_def set_take_drop_subset)

lemma page_append_next:
  "0 \<le> offset \<Longrightarrow> 0 \<le> l1 \<Longrightarrow> 0 \<le> l2 \<Longrightarrow>
     page offset l1 rows @ page (offset + l1) l2 rows = page offset (l1 + l2) rows"
  by (simp add: page_def nat_add_distrib take_add add.commute)

lemma page_all: "int (length rows) \<le> limit \<Longrightarrow> page 0 limit rows = rows"
  by (simp add: page_def)

end
