(* ===== verification/Json.thy ===== *)
theory Json
  imports Prelude
begin

text \<open>
  The part of Python's \<open>json\<close> module the server uses for canonical texts: JSON values and
  \<open>json.dumps(value, sort_keys=..., separators=(",", ":"))\<close> with the default
  \<open>ensure_ascii\<close>. A float carries the text \<open>repr\<close> gives it.
\<close>

datatype json =
    JNull
  | JBool bool
  | JInt int
  | JFloat string
  | JStr string
  | JList "json list"
  | JObj "(string \<times> json) list"

fun intercalate :: "'a list \<Rightarrow> 'a list list \<Rightarrow> 'a list" where
  "intercalate sep [] = []"
| "intercalate sep [x] = x"
| "intercalate sep (x # y # ys) = x @ sep @ intercalate sep (y # ys)"

definition json_escape :: "char \<Rightarrow> string" where
  "json_escape c =
     (if c = CHR 0x22 then [CHR 0x5C, CHR 0x22]
      else if c = CHR 0x5C then [CHR 0x5C, CHR 0x5C]
      else if c = CHR 0x0A then [CHR 0x5C, CHR ''n'']
      else if c = CHR 0x0D then [CHR 0x5C, CHR ''r'']
      else if c = CHR 0x09 then [CHR 0x5C, CHR ''t'']
      else if c = CHR 0x0C then [CHR 0x5C, CHR ''f'']
      else if c = CHR 0x08 then [CHR 0x5C, CHR ''b'']
      else if 32 \<le> (of_char c :: nat) \<and> (of_char c :: nat) \<le> 126 then [c]
      else [CHR 0x5C] @ ''u00'' @ [digit_char (of_char c div 16), digit_char (of_char c mod 16)])"

definition json_string :: "string \<Rightarrow> string" where
  "json_string s = [CHR 0x22] @ concat (map json_escape s) @ [CHR 0x22]"

text \<open>\<open>repr\<close> of a text, as f-strings and lists print it: the quote it chooses, the escapes.\<close>

definition repr_char :: "char \<Rightarrow> char \<Rightarrow> string" where
  "repr_char q c = (let n = of_char c :: nat in
     if c = q \<or> n = 92 then [CHR 0x5C, c]
     else if n = 10 then [CHR 0x5C, CHR ''n'']
     else if n = 13 then [CHR 0x5C, CHR ''r'']
     else if n = 9 then [CHR 0x5C, CHR ''t'']
     else if n < 32 \<or> (127 \<le> n \<and> n \<le> 160) \<or> n = 173
       then [CHR 0x5C, CHR ''x'', digit_char (n div 16), digit_char (n mod 16)]
     else [c])"

definition repr_text :: "string \<Rightarrow> string" where
  "repr_text s =
     (let q = if CHR 0x27 \<in> set s \<and> CHR 0x22 \<notin> set s then CHR 0x22 else CHR 0x27
      in q # concat (map (repr_char q) s) @ [q])"

text \<open>\<open>float.__repr__\<close>, except that the special values have names of their own.\<close>

definition float_token :: "string \<Rightarrow> string" where
  "float_token s =
     (if s = ''nan'' then ''NaN'' else if s = ''inf'' then ''Infinity'' else if s = ''-inf'' then ''-Infinity'' else s)"

fun json_dumps :: "bool \<Rightarrow> json \<Rightarrow> string" where
  "json_dumps sk JNull = ''null''"
| "json_dumps sk (JBool b) = (if b then ''true'' else ''false'')"
| "json_dumps sk (JInt i) = dec_int i"
| "json_dumps sk (JFloat s) = float_token s"
| "json_dumps sk (JStr s) = json_string s"
| "json_dumps sk (JList js) = ''['' @ intercalate '','' (map (json_dumps sk) js) @ '']''"
| "json_dumps sk (JObj kvs) =
     (let items = map (\<lambda>(k, v). (k, json_dumps sk v)) kvs;
          ordered = (if sk then sort_key fst items else items)
      in ''{'' @ intercalate '','' (map (\<lambda>(k, t). json_string k @ '':'' @ t) ordered) @ ''}'')"

text \<open>
  A label mapping \<open>dict[str, str]\<close> is an association list without duplicate keys, in
  insertion order. \<open>labels[key] = value\<close> overwrites in place or appends;
  \<open>labels_contain\<close> is the JSONB containment \<open>stored @> selector\<close> of two flat string
  objects.
\<close>

type_synonym labels = "(string \<times> string) list"

fun dict_set :: "'k \<Rightarrow> 'v \<Rightarrow> ('k \<times> 'v) list \<Rightarrow> ('k \<times> 'v) list" where
  "dict_set k v [] = [(k, v)]"
| "dict_set k v ((k', v') # kvs) = (if k = k' then (k, v) # kvs else (k', v') # dict_set k v kvs)"

definition labels_contain :: "labels \<Rightarrow> labels \<Rightarrow> bool" where
  "labels_contain stored selector \<longleftrightarrow>
     list_all (\<lambda>k. map_of stored k = map_of selector k) (map fst selector)"

lemma map_of_dict_set [simp]: "map_of (dict_set k v kvs) = (map_of kvs)(k \<mapsto> v)"
  by (induction k v kvs rule: dict_set.induct) auto

lemma fst_dict_set: "fst ` set (dict_set k v kvs) = insert k (fst ` set kvs)"
  by (induction k v kvs rule: dict_set.induct) auto

lemma distinct_dict_set: "distinct (map fst kvs) \<Longrightarrow> distinct (map fst (dict_set k v kvs))"
proof (induction k v kvs rule: dict_set.induct)
  case (2 k v k' v' kvs)
  have "set (map fst (dict_set k v kvs)) = insert k (set (map fst kvs))"
    using fst_dict_set [of k v kvs] by simp
  with 2 show ?case by (cases "k = k'") auto
qed simp

lemma labels_contain_iff:
  "labels_contain stored selector \<longleftrightarrow>
     (\<forall>k v. map_of selector k = Some v \<longrightarrow> map_of stored k = Some v)"
proof -
  have "(\<forall>k \<in> set (map fst selector). map_of stored k = map_of selector k) \<longleftrightarrow>
      (\<forall>k v. map_of selector k = Some v \<longrightarrow> map_of stored k = Some v)"
    by (metis (no_types, opaque_lifting) domI domIff dom_map_of_conv_image_fst list.set_map
        option.exhaust)
  then show ?thesis by (simp only: labels_contain_def list_all_iff)
qed

lemma labels_contain_Nil [simp]: "labels_contain stored []"
  by (simp add: labels_contain_def)

lemma labels_contain_refl [simp]: "labels_contain labels labels"
  by (simp add: labels_contain_def list_all_iff)

end
