(* ===== verification/Schema.thy ===== *)
theory Schema
  imports Tables Json
begin

text \<open>
  The database of the server (\<open>database_models.py\<close>): one record per table row, the
  \<open>CHECK\<close>, \<open>UNIQUE\<close>, primary-key and foreign-key constraints PostgreSQL enforces on every
  statement, and the statements that write a table. A statement whose result breaks a
  constraint raises \<open>IntegrityError\<close>. The migrations install a trigger that sets
  \<open>updated_at\<close> to the transaction's timestamp on every update of \<open>principals\<close>,
  \<open>groups\<close>, \<open>resources\<close> and \<open>resource_secrets\<close>; the update functions do the same.
  \<open>CHECK (x IN (...))\<close> constraints are the datatypes below. An audit event's autoincrement
  id is its position in the list.
\<close>

subsection \<open>Enumerated columns\<close>

datatype principal_kind = User | Service
datatype principal_role = Admin | RegularUser
datatype sharing_mode = Exclusive | Shared
datatype visibility_mode = Public | Restricted
datatype expiration_mode = Required | Optional
datatype operational_status = Active | Cleaning | Quarantined | Disabled
datatype end_reason = Released | Expired | Revoked
datatype secret_mode = Managed | External

subsection \<open>Rows\<close>

record principal =
  p_id :: uuid
  p_kind :: principal_kind
  p_role :: principal_role
  p_name :: string
  p_display_name :: string
  p_archived_at :: "instant option"
  p_created_at :: instant
  p_updated_at :: instant

record credential =
  pc_principal_id :: uuid
  pc_password_hash :: string
  pc_updated_at :: instant

record api_token =
  t_id :: uuid
  t_principal_id :: uuid
  t_name :: string
  t_token_hash :: string
  t_created_at :: instant
  t_expires_at :: "instant option"
  t_last_used_at :: "instant option"
  t_revoked_at :: "instant option"

record rate_window =
  w_scope :: string
  w_subject_hash :: string
  w_started_at :: instant
  w_expires_at :: instant
  w_attempts :: int

record group_row =
  g_id :: uuid
  g_name :: string
  g_description :: "string option"
  g_archived_at :: "instant option"
  g_created_at :: instant
  g_updated_at :: instant

record membership =
  m_group_id :: uuid
  m_principal_id :: uuid
  m_created_at :: instant

record resource =
  r_id :: uuid
  r_name :: string
  r_type :: string
  r_labels :: labels
  r_sharing_mode :: sharing_mode
  r_visibility_mode :: visibility_mode
  r_expiration_mode :: expiration_mode
  r_default_ttl :: "int option"
  r_max_ttl :: "int option"
  r_status :: operational_status
  r_version :: int
  r_last_leased_at :: "instant option"
  r_archived_at :: "instant option"
  r_created_at :: instant
  r_updated_at :: instant

record principal_grant =
  pg_resource_id :: uuid
  pg_principal_id :: uuid
  pg_created_at :: instant

record group_grant =
  gg_resource_id :: uuid
  gg_group_id :: uuid
  gg_created_at :: instant

record secret =
  s_id :: uuid
  s_resource_id :: uuid
  s_name :: string
  s_description :: "string option"
  s_mode :: secret_mode
  s_encrypted_value :: "string option"
  s_encryption_key_id :: "string option"
  s_external_provider :: "string option"
  s_external_reference :: "string option"
  s_version :: int
  s_created_at :: instant
  s_updated_at :: instant

record lease =
  l_id :: uuid
  l_resource_id :: uuid
  l_acquired_by :: uuid
  l_consumer :: "string option"
  l_acquired_at :: instant
  l_expires_at :: "instant option"
  l_last_renewed_at :: "instant option"
  l_ended_at :: "instant option"
  l_end_reason :: "end_reason option"
  l_idempotency_key :: string
  l_request_hash :: string
  l_metadata :: "(string \<times> json) list"

record audit_event =
  a_actor_id :: "uuid option"
  a_action :: string
  a_subject_type :: string
  a_subject_id :: string
  a_correlation_id :: string
  a_metadata :: labels
  a_created_at :: instant

record db =
  db_principals :: "principal list"
  db_credentials :: "credential list"
  db_tokens :: "api_token list"
  db_windows :: "rate_window list"
  db_groups :: "group_row list"
  db_memberships :: "membership list"
  db_resources :: "resource list"
  db_pgrants :: "principal_grant list"
  db_ggrants :: "group_grant list"
  db_secrets :: "secret list"
  db_leases :: "lease list"
  db_audit :: "audit_event list"

definition empty_db :: db where
  "empty_db = \<lparr>db_principals = [], db_credentials = [], db_tokens = [], db_windows = [],
     db_groups = [], db_memberships = [], db_resources = [], db_pgrants = [], db_ggrants = [],
     db_secrets = [], db_leases = [], db_audit = []\<rparr>"

text \<open>
  What a handler reads besides its arguments: the transaction's \<open>CURRENT_TIMESTAMP\<close>
  (\<open>func.now()\<close>, constant within one transaction) and the correlation id of the request's
  context variable. Readings of the application's own clock, \<open>datetime.now(UTC)\<close>, are
  separate arguments of the operations that take them.
\<close>

record ctx =
  cx_now :: instant
  cx_correlation :: string

subsection \<open>Constraints\<close>

definition api_token_check :: "api_token \<Rightarrow> bool" where
  "api_token_check t \<longleftrightarrow> (case t_expires_at t of None \<Rightarrow> True | Some e \<Rightarrow> e > t_created_at t)"

definition rate_window_check :: "rate_window \<Rightarrow> bool" where
  "rate_window_check w \<longleftrightarrow> w_attempts w > 0 \<and> w_expires_at w > w_started_at w"

definition positive_ttl :: "int option \<Rightarrow> bool" where
  "positive_ttl t \<longleftrightarrow> (case t of None \<Rightarrow> True | Some n \<Rightarrow> n > 0)"

definition ttl_within :: "int option \<Rightarrow> int option \<Rightarrow> bool" where
  "ttl_within d m \<longleftrightarrow> (case (d, m) of (Some n, Some k) \<Rightarrow> n \<le> k | _ \<Rightarrow> True)"

definition resource_check :: "resource \<Rightarrow> bool" where
  "resource_check r \<longleftrightarrow>
     positive_ttl (r_default_ttl r) \<and>
     positive_ttl (r_max_ttl r) \<and>
     ttl_within (r_default_ttl r) (r_max_ttl r) \<and>
     (r_expiration_mode r = Optional \<or> r_default_ttl r \<noteq> None) \<and>
     r_version r > 0"

definition secret_check :: "secret \<Rightarrow> bool" where
  "secret_check s \<longleftrightarrow>
     (s_mode s = Managed \<and> s_encrypted_value s \<noteq> None \<and> s_encryption_key_id s \<noteq> None \<and>
        s_external_provider s = None \<and> s_external_reference s = None \<or>
      s_mode s = External \<and> s_encrypted_value s = None \<and> s_encryption_key_id s = None \<and>
        s_external_provider s \<noteq> None \<and> s_external_reference s \<noteq> None) \<and>
     s_version s > 0"

definition lease_check :: "lease \<Rightarrow> bool" where
  "lease_check l \<longleftrightarrow>
     (case l_expires_at l of None \<Rightarrow> True | Some e \<Rightarrow> e > l_acquired_at l) \<and>
     (l_ended_at l = None \<longleftrightarrow> l_end_reason l = None)"

definition principal_exists :: "db \<Rightarrow> uuid \<Rightarrow> bool" where
  "principal_exists d i \<longleftrightarrow> list_ex (\<lambda>p. p_id p = i) (db_principals d)"

definition group_exists :: "db \<Rightarrow> uuid \<Rightarrow> bool" where
  "group_exists d i \<longleftrightarrow> list_ex (\<lambda>g. g_id g = i) (db_groups d)"

definition resource_exists :: "db \<Rightarrow> uuid \<Rightarrow> bool" where
  "resource_exists d i \<longleftrightarrow> list_ex (\<lambda>r. r_id r = i) (db_resources d)"

definition principals_valid :: "db \<Rightarrow> principal list \<Rightarrow> bool" where
  "principals_valid d rows \<longleftrightarrow> unique_on p_id rows \<and> unique_on p_name rows"

definition credentials_valid :: "db \<Rightarrow> credential list \<Rightarrow> bool" where
  "credentials_valid d rows \<longleftrightarrow>
     unique_on pc_principal_id rows \<and> list_all (\<lambda>c. principal_exists d (pc_principal_id c)) rows"

definition tokens_valid :: "db \<Rightarrow> api_token list \<Rightarrow> bool" where
  "tokens_valid d rows \<longleftrightarrow>
     unique_on t_id rows \<and> unique_on t_token_hash rows \<and>
     list_all (\<lambda>t. api_token_check t \<and> principal_exists d (t_principal_id t)) rows"

definition windows_valid :: "db \<Rightarrow> rate_window list \<Rightarrow> bool" where
  "windows_valid d rows \<longleftrightarrow>
     unique_on (\<lambda>w. (w_scope w, w_subject_hash w)) rows \<and> list_all rate_window_check rows"

definition groups_valid :: "db \<Rightarrow> group_row list \<Rightarrow> bool" where
  "groups_valid d rows \<longleftrightarrow> unique_on g_id rows \<and> unique_on g_name rows"

definition memberships_valid :: "db \<Rightarrow> membership list \<Rightarrow> bool" where
  "memberships_valid d rows \<longleftrightarrow>
     unique_on (\<lambda>m. (m_group_id m, m_principal_id m)) rows \<and>
     list_all (\<lambda>m. group_exists d (m_group_id m) \<and> principal_exists d (m_principal_id m)) rows"

definition resources_valid :: "db \<Rightarrow> resource list \<Rightarrow> bool" where
  "resources_valid d rows \<longleftrightarrow>
     unique_on r_id rows \<and> unique_on r_name rows \<and> list_all resource_check rows"

definition pgrants_valid :: "db \<Rightarrow> principal_grant list \<Rightarrow> bool" where
  "pgrants_valid d rows \<longleftrightarrow>
     unique_on (\<lambda>g. (pg_resource_id g, pg_principal_id g)) rows \<and>
     list_all (\<lambda>g. resource_exists d (pg_resource_id g) \<and> principal_exists d (pg_principal_id g)) rows"

definition ggrants_valid :: "db \<Rightarrow> group_grant list \<Rightarrow> bool" where
  "ggrants_valid d rows \<longleftrightarrow>
     unique_on (\<lambda>g. (gg_resource_id g, gg_group_id g)) rows \<and>
     list_all (\<lambda>g. resource_exists d (gg_resource_id g) \<and> group_exists d (gg_group_id g)) rows"

definition secrets_valid :: "db \<Rightarrow> secret list \<Rightarrow> bool" where
  "secrets_valid d rows \<longleftrightarrow>
     unique_on s_id rows \<and> unique_on (\<lambda>s. (s_resource_id s, s_name s)) rows \<and>
     list_all (\<lambda>s. secret_check s \<and> resource_exists d (s_resource_id s)) rows"

definition leases_valid :: "db \<Rightarrow> lease list \<Rightarrow> bool" where
  "leases_valid d rows \<longleftrightarrow>
     unique_on l_id rows \<and> unique_on (\<lambda>l. (l_acquired_by l, l_idempotency_key l)) rows \<and>
     list_all (\<lambda>l. lease_check l \<and> resource_exists d (l_resource_id l) \<and>
                   principal_exists d (l_acquired_by l)) rows"

definition audit_valid :: "db \<Rightarrow> audit_event list \<Rightarrow> bool" where
  "audit_valid d rows \<longleftrightarrow>
     list_all (\<lambda>a. case a_actor_id a of None \<Rightarrow> True | Some i \<Rightarrow> principal_exists d i) rows"

text \<open>Every constraint of the schema holds.\<close>

definition db_ok :: "db \<Rightarrow> bool" where
  "db_ok d \<longleftrightarrow>
     principals_valid d (db_principals d) \<and> credentials_valid d (db_credentials d) \<and>
     tokens_valid d (db_tokens d) \<and> windows_valid d (db_windows d) \<and>
     groups_valid d (db_groups d) \<and> memberships_valid d (db_memberships d) \<and>
     resources_valid d (db_resources d) \<and> pgrants_valid d (db_pgrants d) \<and>
     ggrants_valid d (db_ggrants d) \<and> secrets_valid d (db_secrets d) \<and>
     leases_valid d (db_leases d) \<and> audit_valid d (db_audit d)"

lemmas valid_defs =
  principals_valid_def credentials_valid_def tokens_valid_def windows_valid_def groups_valid_def
  memberships_valid_def resources_valid_def pgrants_valid_def ggrants_valid_def secrets_valid_def
  leases_valid_def audit_valid_def

lemmas check_defs =
  api_token_check_def rate_window_check_def positive_ttl_def ttl_within_def resource_check_def
  secret_check_def lease_check_def

lemmas exists_defs = principal_exists_def group_exists_def resource_exists_def

lemma exists_update [simp]:
  "principal_exists (d\<lparr>db_credentials := x_credentials\<rparr>) i = principal_exists d i"
  "principal_exists (d\<lparr>db_tokens := x_tokens\<rparr>) i = principal_exists d i"
  "principal_exists (d\<lparr>db_windows := x_windows\<rparr>) i = principal_exists d i"
  "principal_exists (d\<lparr>db_groups := x_groups\<rparr>) i = principal_exists d i"
  "principal_exists (d\<lparr>db_memberships := x_memberships\<rparr>) i = principal_exists d i"
  "principal_exists (d\<lparr>db_resources := x_resources\<rparr>) i = principal_exists d i"
  "principal_exists (d\<lparr>db_pgrants := x_pgrants\<rparr>) i = principal_exists d i"
  "principal_exists (d\<lparr>db_ggrants := x_ggrants\<rparr>) i = principal_exists d i"
  "principal_exists (d\<lparr>db_secrets := x_secrets\<rparr>) i = principal_exists d i"
  "principal_exists (d\<lparr>db_leases := x_leases\<rparr>) i = principal_exists d i"
  "principal_exists (d\<lparr>db_audit := x_audit\<rparr>) i = principal_exists d i"
  "group_exists (d\<lparr>db_principals := x_principals\<rparr>) i = group_exists d i"
  "group_exists (d\<lparr>db_credentials := x_credentials\<rparr>) i = group_exists d i"
  "group_exists (d\<lparr>db_tokens := x_tokens\<rparr>) i = group_exists d i"
  "group_exists (d\<lparr>db_windows := x_windows\<rparr>) i = group_exists d i"
  "group_exists (d\<lparr>db_memberships := x_memberships\<rparr>) i = group_exists d i"
  "group_exists (d\<lparr>db_resources := x_resources\<rparr>) i = group_exists d i"
  "group_exists (d\<lparr>db_pgrants := x_pgrants\<rparr>) i = group_exists d i"
  "group_exists (d\<lparr>db_ggrants := x_ggrants\<rparr>) i = group_exists d i"
  "group_exists (d\<lparr>db_secrets := x_secrets\<rparr>) i = group_exists d i"
  "group_exists (d\<lparr>db_leases := x_leases\<rparr>) i = group_exists d i"
  "group_exists (d\<lparr>db_audit := x_audit\<rparr>) i = group_exists d i"
  "resource_exists (d\<lparr>db_principals := x_principals\<rparr>) i = resource_exists d i"
  "resource_exists (d\<lparr>db_credentials := x_credentials\<rparr>) i = resource_exists d i"
  "resource_exists (d\<lparr>db_tokens := x_tokens\<rparr>) i = resource_exists d i"
  "resource_exists (d\<lparr>db_windows := x_windows\<rparr>) i = resource_exists d i"
  "resource_exists (d\<lparr>db_groups := x_groups\<rparr>) i = resource_exists d i"
  "resource_exists (d\<lparr>db_memberships := x_memberships\<rparr>) i = resource_exists d i"
  "resource_exists (d\<lparr>db_pgrants := x_pgrants\<rparr>) i = resource_exists d i"
  "resource_exists (d\<lparr>db_ggrants := x_ggrants\<rparr>) i = resource_exists d i"
  "resource_exists (d\<lparr>db_secrets := x_secrets\<rparr>) i = resource_exists d i"
  "resource_exists (d\<lparr>db_leases := x_leases\<rparr>) i = resource_exists d i"
  "resource_exists (d\<lparr>db_audit := x_audit\<rparr>) i = resource_exists d i"
  by (simp_all add: exists_defs)

lemma valid_update [simp]:
  "principals_valid (d\<lparr>db_principals := x_principals\<rparr>) rows_principals = principals_valid d rows_principals"
  "principals_valid (d\<lparr>db_credentials := x_credentials\<rparr>) rows_principals = principals_valid d rows_principals"
  "principals_valid (d\<lparr>db_tokens := x_tokens\<rparr>) rows_principals = principals_valid d rows_principals"
  "principals_valid (d\<lparr>db_windows := x_windows\<rparr>) rows_principals = principals_valid d rows_principals"
  "principals_valid (d\<lparr>db_groups := x_groups\<rparr>) rows_principals = principals_valid d rows_principals"
  "principals_valid (d\<lparr>db_memberships := x_memberships\<rparr>) rows_principals = principals_valid d rows_principals"
  "principals_valid (d\<lparr>db_resources := x_resources\<rparr>) rows_principals = principals_valid d rows_principals"
  "principals_valid (d\<lparr>db_pgrants := x_pgrants\<rparr>) rows_principals = principals_valid d rows_principals"
  "principals_valid (d\<lparr>db_ggrants := x_ggrants\<rparr>) rows_principals = principals_valid d rows_principals"
  "principals_valid (d\<lparr>db_secrets := x_secrets\<rparr>) rows_principals = principals_valid d rows_principals"
  "principals_valid (d\<lparr>db_leases := x_leases\<rparr>) rows_principals = principals_valid d rows_principals"
  "principals_valid (d\<lparr>db_audit := x_audit\<rparr>) rows_principals = principals_valid d rows_principals"
  "credentials_valid (d\<lparr>db_credentials := x_credentials\<rparr>) rows_credentials = credentials_valid d rows_credentials"
  "credentials_valid (d\<lparr>db_tokens := x_tokens\<rparr>) rows_credentials = credentials_valid d rows_credentials"
  "credentials_valid (d\<lparr>db_windows := x_windows\<rparr>) rows_credentials = credentials_valid d rows_credentials"
  "credentials_valid (d\<lparr>db_groups := x_groups\<rparr>) rows_credentials = credentials_valid d rows_credentials"
  "credentials_valid (d\<lparr>db_memberships := x_memberships\<rparr>) rows_credentials = credentials_valid d rows_credentials"
  "credentials_valid (d\<lparr>db_resources := x_resources\<rparr>) rows_credentials = credentials_valid d rows_credentials"
  "credentials_valid (d\<lparr>db_pgrants := x_pgrants\<rparr>) rows_credentials = credentials_valid d rows_credentials"
  "credentials_valid (d\<lparr>db_ggrants := x_ggrants\<rparr>) rows_credentials = credentials_valid d rows_credentials"
  "credentials_valid (d\<lparr>db_secrets := x_secrets\<rparr>) rows_credentials = credentials_valid d rows_credentials"
  "credentials_valid (d\<lparr>db_leases := x_leases\<rparr>) rows_credentials = credentials_valid d rows_credentials"
  "credentials_valid (d\<lparr>db_audit := x_audit\<rparr>) rows_credentials = credentials_valid d rows_credentials"
  "tokens_valid (d\<lparr>db_credentials := x_credentials\<rparr>) rows_tokens = tokens_valid d rows_tokens"
  "tokens_valid (d\<lparr>db_tokens := x_tokens\<rparr>) rows_tokens = tokens_valid d rows_tokens"
  "tokens_valid (d\<lparr>db_windows := x_windows\<rparr>) rows_tokens = tokens_valid d rows_tokens"
  "tokens_valid (d\<lparr>db_groups := x_groups\<rparr>) rows_tokens = tokens_valid d rows_tokens"
  "tokens_valid (d\<lparr>db_memberships := x_memberships\<rparr>) rows_tokens = tokens_valid d rows_tokens"
  "tokens_valid (d\<lparr>db_resources := x_resources\<rparr>) rows_tokens = tokens_valid d rows_tokens"
  "tokens_valid (d\<lparr>db_pgrants := x_pgrants\<rparr>) rows_tokens = tokens_valid d rows_tokens"
  "tokens_valid (d\<lparr>db_ggrants := x_ggrants\<rparr>) rows_tokens = tokens_valid d rows_tokens"
  "tokens_valid (d\<lparr>db_secrets := x_secrets\<rparr>) rows_tokens = tokens_valid d rows_tokens"
  "tokens_valid (d\<lparr>db_leases := x_leases\<rparr>) rows_tokens = tokens_valid d rows_tokens"
  "tokens_valid (d\<lparr>db_audit := x_audit\<rparr>) rows_tokens = tokens_valid d rows_tokens"
  "windows_valid (d\<lparr>db_principals := x_principals\<rparr>) rows_windows = windows_valid d rows_windows"
  "windows_valid (d\<lparr>db_credentials := x_credentials\<rparr>) rows_windows = windows_valid d rows_windows"
  "windows_valid (d\<lparr>db_tokens := x_tokens\<rparr>) rows_windows = windows_valid d rows_windows"
  "windows_valid (d\<lparr>db_windows := x_windows\<rparr>) rows_windows = windows_valid d rows_windows"
  "windows_valid (d\<lparr>db_groups := x_groups\<rparr>) rows_windows = windows_valid d rows_windows"
  "windows_valid (d\<lparr>db_memberships := x_memberships\<rparr>) rows_windows = windows_valid d rows_windows"
  "windows_valid (d\<lparr>db_resources := x_resources\<rparr>) rows_windows = windows_valid d rows_windows"
  "windows_valid (d\<lparr>db_pgrants := x_pgrants\<rparr>) rows_windows = windows_valid d rows_windows"
  "windows_valid (d\<lparr>db_ggrants := x_ggrants\<rparr>) rows_windows = windows_valid d rows_windows"
  "windows_valid (d\<lparr>db_secrets := x_secrets\<rparr>) rows_windows = windows_valid d rows_windows"
  "windows_valid (d\<lparr>db_leases := x_leases\<rparr>) rows_windows = windows_valid d rows_windows"
  "windows_valid (d\<lparr>db_audit := x_audit\<rparr>) rows_windows = windows_valid d rows_windows"
  "groups_valid (d\<lparr>db_principals := x_principals\<rparr>) rows_groups = groups_valid d rows_groups"
  "groups_valid (d\<lparr>db_credentials := x_credentials\<rparr>) rows_groups = groups_valid d rows_groups"
  "groups_valid (d\<lparr>db_tokens := x_tokens\<rparr>) rows_groups = groups_valid d rows_groups"
  "groups_valid (d\<lparr>db_windows := x_windows\<rparr>) rows_groups = groups_valid d rows_groups"
  "groups_valid (d\<lparr>db_groups := x_groups\<rparr>) rows_groups = groups_valid d rows_groups"
  "groups_valid (d\<lparr>db_memberships := x_memberships\<rparr>) rows_groups = groups_valid d rows_groups"
  "groups_valid (d\<lparr>db_resources := x_resources\<rparr>) rows_groups = groups_valid d rows_groups"
  "groups_valid (d\<lparr>db_pgrants := x_pgrants\<rparr>) rows_groups = groups_valid d rows_groups"
  "groups_valid (d\<lparr>db_ggrants := x_ggrants\<rparr>) rows_groups = groups_valid d rows_groups"
  "groups_valid (d\<lparr>db_secrets := x_secrets\<rparr>) rows_groups = groups_valid d rows_groups"
  "groups_valid (d\<lparr>db_leases := x_leases\<rparr>) rows_groups = groups_valid d rows_groups"
  "groups_valid (d\<lparr>db_audit := x_audit\<rparr>) rows_groups = groups_valid d rows_groups"
  "memberships_valid (d\<lparr>db_credentials := x_credentials\<rparr>) rows_memberships = memberships_valid d rows_memberships"
  "memberships_valid (d\<lparr>db_tokens := x_tokens\<rparr>) rows_memberships = memberships_valid d rows_memberships"
  "memberships_valid (d\<lparr>db_windows := x_windows\<rparr>) rows_memberships = memberships_valid d rows_memberships"
  "memberships_valid (d\<lparr>db_memberships := x_memberships\<rparr>) rows_memberships = memberships_valid d rows_memberships"
  "memberships_valid (d\<lparr>db_resources := x_resources\<rparr>) rows_memberships = memberships_valid d rows_memberships"
  "memberships_valid (d\<lparr>db_pgrants := x_pgrants\<rparr>) rows_memberships = memberships_valid d rows_memberships"
  "memberships_valid (d\<lparr>db_ggrants := x_ggrants\<rparr>) rows_memberships = memberships_valid d rows_memberships"
  "memberships_valid (d\<lparr>db_secrets := x_secrets\<rparr>) rows_memberships = memberships_valid d rows_memberships"
  "memberships_valid (d\<lparr>db_leases := x_leases\<rparr>) rows_memberships = memberships_valid d rows_memberships"
  "memberships_valid (d\<lparr>db_audit := x_audit\<rparr>) rows_memberships = memberships_valid d rows_memberships"
  "resources_valid (d\<lparr>db_principals := x_principals\<rparr>) rows_resources = resources_valid d rows_resources"
  "resources_valid (d\<lparr>db_credentials := x_credentials\<rparr>) rows_resources = resources_valid d rows_resources"
  "resources_valid (d\<lparr>db_tokens := x_tokens\<rparr>) rows_resources = resources_valid d rows_resources"
  "resources_valid (d\<lparr>db_windows := x_windows\<rparr>) rows_resources = resources_valid d rows_resources"
  "resources_valid (d\<lparr>db_groups := x_groups\<rparr>) rows_resources = resources_valid d rows_resources"
  "resources_valid (d\<lparr>db_memberships := x_memberships\<rparr>) rows_resources = resources_valid d rows_resources"
  "resources_valid (d\<lparr>db_resources := x_resources\<rparr>) rows_resources = resources_valid d rows_resources"
  "resources_valid (d\<lparr>db_pgrants := x_pgrants\<rparr>) rows_resources = resources_valid d rows_resources"
  "resources_valid (d\<lparr>db_ggrants := x_ggrants\<rparr>) rows_resources = resources_valid d rows_resources"
  "resources_valid (d\<lparr>db_secrets := x_secrets\<rparr>) rows_resources = resources_valid d rows_resources"
  "resources_valid (d\<lparr>db_leases := x_leases\<rparr>) rows_resources = resources_valid d rows_resources"
  "resources_valid (d\<lparr>db_audit := x_audit\<rparr>) rows_resources = resources_valid d rows_resources"
  "pgrants_valid (d\<lparr>db_credentials := x_credentials\<rparr>) rows_pgrants = pgrants_valid d rows_pgrants"
  "pgrants_valid (d\<lparr>db_tokens := x_tokens\<rparr>) rows_pgrants = pgrants_valid d rows_pgrants"
  "pgrants_valid (d\<lparr>db_windows := x_windows\<rparr>) rows_pgrants = pgrants_valid d rows_pgrants"
  "pgrants_valid (d\<lparr>db_groups := x_groups\<rparr>) rows_pgrants = pgrants_valid d rows_pgrants"
  "pgrants_valid (d\<lparr>db_memberships := x_memberships\<rparr>) rows_pgrants = pgrants_valid d rows_pgrants"
  "pgrants_valid (d\<lparr>db_pgrants := x_pgrants\<rparr>) rows_pgrants = pgrants_valid d rows_pgrants"
  "pgrants_valid (d\<lparr>db_ggrants := x_ggrants\<rparr>) rows_pgrants = pgrants_valid d rows_pgrants"
  "pgrants_valid (d\<lparr>db_secrets := x_secrets\<rparr>) rows_pgrants = pgrants_valid d rows_pgrants"
  "pgrants_valid (d\<lparr>db_leases := x_leases\<rparr>) rows_pgrants = pgrants_valid d rows_pgrants"
  "pgrants_valid (d\<lparr>db_audit := x_audit\<rparr>) rows_pgrants = pgrants_valid d rows_pgrants"
  "ggrants_valid (d\<lparr>db_principals := x_principals\<rparr>) rows_ggrants = ggrants_valid d rows_ggrants"
  "ggrants_valid (d\<lparr>db_credentials := x_credentials\<rparr>) rows_ggrants = ggrants_valid d rows_ggrants"
  "ggrants_valid (d\<lparr>db_tokens := x_tokens\<rparr>) rows_ggrants = ggrants_valid d rows_ggrants"
  "ggrants_valid (d\<lparr>db_windows := x_windows\<rparr>) rows_ggrants = ggrants_valid d rows_ggrants"
  "ggrants_valid (d\<lparr>db_memberships := x_memberships\<rparr>) rows_ggrants = ggrants_valid d rows_ggrants"
  "ggrants_valid (d\<lparr>db_pgrants := x_pgrants\<rparr>) rows_ggrants = ggrants_valid d rows_ggrants"
  "ggrants_valid (d\<lparr>db_ggrants := x_ggrants\<rparr>) rows_ggrants = ggrants_valid d rows_ggrants"
  "ggrants_valid (d\<lparr>db_secrets := x_secrets\<rparr>) rows_ggrants = ggrants_valid d rows_ggrants"
  "ggrants_valid (d\<lparr>db_leases := x_leases\<rparr>) rows_ggrants = ggrants_valid d rows_ggrants"
  "ggrants_valid (d\<lparr>db_audit := x_audit\<rparr>) rows_ggrants = ggrants_valid d rows_ggrants"
  "secrets_valid (d\<lparr>db_principals := x_principals\<rparr>) rows_secrets = secrets_valid d rows_secrets"
  "secrets_valid (d\<lparr>db_credentials := x_credentials\<rparr>) rows_secrets = secrets_valid d rows_secrets"
  "secrets_valid (d\<lparr>db_tokens := x_tokens\<rparr>) rows_secrets = secrets_valid d rows_secrets"
  "secrets_valid (d\<lparr>db_windows := x_windows\<rparr>) rows_secrets = secrets_valid d rows_secrets"
  "secrets_valid (d\<lparr>db_groups := x_groups\<rparr>) rows_secrets = secrets_valid d rows_secrets"
  "secrets_valid (d\<lparr>db_memberships := x_memberships\<rparr>) rows_secrets = secrets_valid d rows_secrets"
  "secrets_valid (d\<lparr>db_pgrants := x_pgrants\<rparr>) rows_secrets = secrets_valid d rows_secrets"
  "secrets_valid (d\<lparr>db_ggrants := x_ggrants\<rparr>) rows_secrets = secrets_valid d rows_secrets"
  "secrets_valid (d\<lparr>db_secrets := x_secrets\<rparr>) rows_secrets = secrets_valid d rows_secrets"
  "secrets_valid (d\<lparr>db_leases := x_leases\<rparr>) rows_secrets = secrets_valid d rows_secrets"
  "secrets_valid (d\<lparr>db_audit := x_audit\<rparr>) rows_secrets = secrets_valid d rows_secrets"
  "leases_valid (d\<lparr>db_credentials := x_credentials\<rparr>) rows_leases = leases_valid d rows_leases"
  "leases_valid (d\<lparr>db_tokens := x_tokens\<rparr>) rows_leases = leases_valid d rows_leases"
  "leases_valid (d\<lparr>db_windows := x_windows\<rparr>) rows_leases = leases_valid d rows_leases"
  "leases_valid (d\<lparr>db_groups := x_groups\<rparr>) rows_leases = leases_valid d rows_leases"
  "leases_valid (d\<lparr>db_memberships := x_memberships\<rparr>) rows_leases = leases_valid d rows_leases"
  "leases_valid (d\<lparr>db_pgrants := x_pgrants\<rparr>) rows_leases = leases_valid d rows_leases"
  "leases_valid (d\<lparr>db_ggrants := x_ggrants\<rparr>) rows_leases = leases_valid d rows_leases"
  "leases_valid (d\<lparr>db_secrets := x_secrets\<rparr>) rows_leases = leases_valid d rows_leases"
  "leases_valid (d\<lparr>db_leases := x_leases\<rparr>) rows_leases = leases_valid d rows_leases"
  "leases_valid (d\<lparr>db_audit := x_audit\<rparr>) rows_leases = leases_valid d rows_leases"
  "audit_valid (d\<lparr>db_credentials := x_credentials\<rparr>) rows_audit = audit_valid d rows_audit"
  "audit_valid (d\<lparr>db_tokens := x_tokens\<rparr>) rows_audit = audit_valid d rows_audit"
  "audit_valid (d\<lparr>db_windows := x_windows\<rparr>) rows_audit = audit_valid d rows_audit"
  "audit_valid (d\<lparr>db_groups := x_groups\<rparr>) rows_audit = audit_valid d rows_audit"
  "audit_valid (d\<lparr>db_memberships := x_memberships\<rparr>) rows_audit = audit_valid d rows_audit"
  "audit_valid (d\<lparr>db_resources := x_resources\<rparr>) rows_audit = audit_valid d rows_audit"
  "audit_valid (d\<lparr>db_pgrants := x_pgrants\<rparr>) rows_audit = audit_valid d rows_audit"
  "audit_valid (d\<lparr>db_ggrants := x_ggrants\<rparr>) rows_audit = audit_valid d rows_audit"
  "audit_valid (d\<lparr>db_secrets := x_secrets\<rparr>) rows_audit = audit_valid d rows_audit"
  "audit_valid (d\<lparr>db_leases := x_leases\<rparr>) rows_audit = audit_valid d rows_audit"
  "audit_valid (d\<lparr>db_audit := x_audit\<rparr>) rows_audit = audit_valid d rows_audit"
  by (simp_all add: valid_defs exists_update cong: option.case_cong)

lemma db_ok_empty: "db_ok empty_db"
  by (simp add: db_ok_def empty_db_def valid_defs)

end
