(* ===== verification/Store.thy ===== *)
theory Store
  imports Schema
begin

text \<open>
  Writing a table: \<open>write_<table> rows d\<close> replaces the rows of one table if the result
  satisfies the table's constraints and raises \<open>IntegrityError\<close> otherwise, which is what
  PostgreSQL does with the result of an \<open>INSERT\<close>, \<open>UPDATE\<close> or \<open>DELETE\<close>.
  The locale \<open>db_table\<close> is the contract the components rely on (a key, a validity
  check, a write that fails with \<open>IntegrityError\<close> only); every keyed table of the database
  interprets it.
\<close>

subsection \<open>Writes\<close>

definition write_principals :: "principal list \<Rightarrow> db \<Rightarrow> exc + db" where
  "write_principals rows d =
     (if principals_valid d rows then Inr (d\<lparr>db_principals := rows\<rparr>) else Inl IntegrityError)"

definition write_credentials :: "credential list \<Rightarrow> db \<Rightarrow> exc + db" where
  "write_credentials rows d =
     (if credentials_valid d rows then Inr (d\<lparr>db_credentials := rows\<rparr>) else Inl IntegrityError)"

definition write_tokens :: "api_token list \<Rightarrow> db \<Rightarrow> exc + db" where
  "write_tokens rows d =
     (if tokens_valid d rows then Inr (d\<lparr>db_tokens := rows\<rparr>) else Inl IntegrityError)"

definition write_windows :: "rate_window list \<Rightarrow> db \<Rightarrow> exc + db" where
  "write_windows rows d =
     (if windows_valid d rows then Inr (d\<lparr>db_windows := rows\<rparr>) else Inl IntegrityError)"

definition write_groups :: "group_row list \<Rightarrow> db \<Rightarrow> exc + db" where
  "write_groups rows d =
     (if groups_valid d rows then Inr (d\<lparr>db_groups := rows\<rparr>) else Inl IntegrityError)"

definition write_memberships :: "membership list \<Rightarrow> db \<Rightarrow> exc + db" where
  "write_memberships rows d =
     (if memberships_valid d rows then Inr (d\<lparr>db_memberships := rows\<rparr>) else Inl IntegrityError)"

definition write_resources :: "resource list \<Rightarrow> db \<Rightarrow> exc + db" where
  "write_resources rows d =
     (if resources_valid d rows then Inr (d\<lparr>db_resources := rows\<rparr>) else Inl IntegrityError)"

definition write_pgrants :: "principal_grant list \<Rightarrow> db \<Rightarrow> exc + db" where
  "write_pgrants rows d =
     (if pgrants_valid d rows then Inr (d\<lparr>db_pgrants := rows\<rparr>) else Inl IntegrityError)"

definition write_ggrants :: "group_grant list \<Rightarrow> db \<Rightarrow> exc + db" where
  "write_ggrants rows d =
     (if ggrants_valid d rows then Inr (d\<lparr>db_ggrants := rows\<rparr>) else Inl IntegrityError)"

definition write_secrets :: "secret list \<Rightarrow> db \<Rightarrow> exc + db" where
  "write_secrets rows d =
     (if secrets_valid d rows then Inr (d\<lparr>db_secrets := rows\<rparr>) else Inl IntegrityError)"

definition write_leases :: "lease list \<Rightarrow> db \<Rightarrow> exc + db" where
  "write_leases rows d =
     (if leases_valid d rows then Inr (d\<lparr>db_leases := rows\<rparr>) else Inl IntegrityError)"

definition write_audit :: "audit_event list \<Rightarrow> db \<Rightarrow> exc + db" where
  "write_audit rows d =
     (if audit_valid d rows then Inr (d\<lparr>db_audit := rows\<rparr>) else Inl IntegrityError)"

lemmas write_defs =
  write_principals_def write_credentials_def write_tokens_def write_windows_def
  write_groups_def write_memberships_def write_resources_def write_pgrants_def
  write_ggrants_def write_secrets_def write_leases_def write_audit_def

subsection \<open>The contract of a table\<close>

locale db_table =
  fixes rows :: "'d \<Rightarrow> 'r list"
    and put :: "'r list \<Rightarrow> 'd \<Rightarrow> exc + 'd"
    and valid :: "'d \<Rightarrow> 'r list \<Rightarrow> bool"
    and key :: "'r \<Rightarrow> 'k"
  assumes write_valid: "valid d rs \<Longrightarrow> \<exists>d'. put rs d = Inr d' \<and> rows d' = rs"
    and write_invalid: "\<not> valid d rs \<Longrightarrow> put rs d = Inl IntegrityError"
    and valid_unique: "valid d rs \<Longrightarrow> unique_on key rs"
begin

lemma write_InrD:
  assumes "put rs d = Inr d'"
  shows "valid d rs" and "rows d' = rs" and "unique_on key rs"
proof -
  show v: "valid d rs" using assms write_invalid by (cases "valid d rs") auto
  then show "rows d' = rs" using assms write_valid [OF v] by auto
  show "unique_on key rs" using v by (rule valid_unique)
qed

lemma write_InlD: "put rs d = Inl e \<Longrightarrow> e = IntegrityError"
  using write_valid write_invalid by (cases "valid d rs") fastforce+

lemma insert_lookup:
  assumes "put (rows d @ [r]) d = Inr d'"
  shows "filter (\<lambda>x. key x = key r) (rows d') = [r]"
proof -
  have "rows d' = rows d @ [r]" "unique_on key (rows d @ [r])"
    using write_InrD [OF assms] by simp_all
  then show ?thesis by (auto simp: filter_empty_conv image_iff)
qed

lemma insert_fresh: "put (rows d @ [r]) d = Inr d' \<Longrightarrow> key r \<notin> key ` set (rows d)"
  using write_InrD(3) [of "rows d @ [r]" d d'] by simp

lemma insert_other:
  "put (rows d @ [r]) d = Inr d' \<Longrightarrow> k \<noteq> key r \<Longrightarrow>
     filter (\<lambda>x. key x = k) (rows d') = filter (\<lambda>x. key x = k) (rows d)"
  using write_InrD(2) [of "rows d @ [r]" d d'] by auto

lemma update_lookup:
  assumes "put (update_where p f (rows d)) d = Inr d'"
    and "filter (\<lambda>x. key x = k) (rows d) = [r]"
    and "\<And>x. key (f x) = key x"
  shows "filter (\<lambda>x. key x = k) (rows d') = [if p r then f r else r]"
proof -
  have "rows d' = update_where p f (rows d)" by (rule write_InrD(2) [OF assms(1)])
  moreover have "filter (\<lambda>x. key x = k) (update_where p f (rows d))
      = update_where p f (filter (\<lambda>x. key x = k) (rows d))"
    using assms(3) by (intro filter_update_where) simp
  ultimately show ?thesis by (simp add: assms(2))
qed

lemma delete_lookup:
  "put (delete_where (\<lambda>x. key x = k) (rows d)) d = Inr d' \<Longrightarrow>
     filter (\<lambda>x. key x = k) (rows d') = []"
  using write_InrD(2) [of "delete_where (\<lambda>x. key x = k) (rows d)" d d']
  by (simp add: filter_empty_conv)

end

interpretation principals: db_table db_principals write_principals principals_valid p_id
  by unfold_locales (auto simp: write_principals_def principals_valid_def)

interpretation credentials: db_table db_credentials write_credentials credentials_valid pc_principal_id
  by unfold_locales (auto simp: write_credentials_def credentials_valid_def)

interpretation tokens: db_table db_tokens write_tokens tokens_valid t_id
  by unfold_locales (auto simp: write_tokens_def tokens_valid_def)

interpretation windows: db_table db_windows write_windows windows_valid "\<lambda>w. (w_scope w, w_subject_hash w)"
  by unfold_locales (auto simp: write_windows_def windows_valid_def)

interpretation groups: db_table db_groups write_groups groups_valid g_id
  by unfold_locales (auto simp: write_groups_def groups_valid_def)

interpretation memberships: db_table db_memberships write_memberships memberships_valid "\<lambda>m. (m_group_id m, m_principal_id m)"
  by unfold_locales (auto simp: write_memberships_def memberships_valid_def)

interpretation resources: db_table db_resources write_resources resources_valid r_id
  by unfold_locales (auto simp: write_resources_def resources_valid_def)

interpretation pgrants: db_table db_pgrants write_pgrants pgrants_valid "\<lambda>g. (pg_resource_id g, pg_principal_id g)"
  by unfold_locales (auto simp: write_pgrants_def pgrants_valid_def)

interpretation ggrants: db_table db_ggrants write_ggrants ggrants_valid "\<lambda>g. (gg_resource_id g, gg_group_id g)"
  by unfold_locales (auto simp: write_ggrants_def ggrants_valid_def)

interpretation secrets: db_table db_secrets write_secrets secrets_valid s_id
  by unfold_locales (auto simp: write_secrets_def secrets_valid_def)

interpretation leases: db_table db_leases write_leases leases_valid l_id
  by unfold_locales (auto simp: write_leases_def leases_valid_def)

subsection \<open>Constraints are invariant under writes\<close>

text \<open>Every key another table can reference is still there.\<close>

definition extends :: "db \<Rightarrow> db \<Rightarrow> bool" where
  "extends d d' \<longleftrightarrow>
     (\<forall>i. principal_exists d i \<longrightarrow> principal_exists d' i) \<and>
     (\<forall>i. group_exists d i \<longrightarrow> group_exists d' i) \<and>
     (\<forall>i. resource_exists d i \<longrightarrow> resource_exists d' i)"

lemma extends_refl [simp]: "extends d d"
  by (simp add: extends_def)

lemma extends_trans: "extends a b \<Longrightarrow> extends b c \<Longrightarrow> extends a c"
  by (simp add: extends_def)

lemma exists_iff:
  "principal_exists d i \<longleftrightarrow> i \<in> p_id ` set (db_principals d)"
  "group_exists d i \<longleftrightarrow> i \<in> g_id ` set (db_groups d)"
  "resource_exists d i \<longleftrightarrow> i \<in> r_id ` set (db_resources d)"
  by (auto simp: exists_defs list_ex_iff)

lemma valid_extends:
  assumes "extends d d'"
  shows "principals_valid d ps \<Longrightarrow> principals_valid d' ps"
    and "credentials_valid d cs \<Longrightarrow> credentials_valid d' cs"
    and "tokens_valid d ts \<Longrightarrow> tokens_valid d' ts"
    and "windows_valid d ws \<Longrightarrow> windows_valid d' ws"
    and "groups_valid d gs \<Longrightarrow> groups_valid d' gs"
    and "memberships_valid d ms \<Longrightarrow> memberships_valid d' ms"
    and "resources_valid d rs \<Longrightarrow> resources_valid d' rs"
    and "pgrants_valid d pgs \<Longrightarrow> pgrants_valid d' pgs"
    and "ggrants_valid d ggs \<Longrightarrow> ggrants_valid d' ggs"
    and "secrets_valid d ss \<Longrightarrow> secrets_valid d' ss"
    and "leases_valid d ls \<Longrightarrow> leases_valid d' ls"
    and "audit_valid d evs \<Longrightarrow> audit_valid d' evs"
  using assms by (auto simp: extends_def valid_defs list_all_iff split: option.splits)

lemma db_ok_extends:
  "extends d d' \<Longrightarrow>
     principals_valid d (db_principals d') \<and> credentials_valid d (db_credentials d') \<and>
     tokens_valid d (db_tokens d') \<and> windows_valid d (db_windows d') \<and>
     groups_valid d (db_groups d') \<and> memberships_valid d (db_memberships d') \<and>
     resources_valid d (db_resources d') \<and> pgrants_valid d (db_pgrants d') \<and>
     ggrants_valid d (db_ggrants d') \<and> secrets_valid d (db_secrets d') \<and>
     leases_valid d (db_leases d') \<and> audit_valid d (db_audit d') \<Longrightarrow> db_ok d'"
  unfolding db_ok_def by (simp add: valid_extends)

lemma write_keeps_ok:
  assumes "db_ok d"
  shows "write_principals ps d = Inr d' \<Longrightarrow> p_id ` set (db_principals d) \<subseteq> p_id ` set ps \<Longrightarrow>
           db_ok d' \<and> extends d d'"
    and "write_credentials cs d = Inr d' \<Longrightarrow> db_ok d' \<and> extends d d'"
    and "write_tokens ts d = Inr d' \<Longrightarrow> db_ok d' \<and> extends d d'"
    and "write_windows ws d = Inr d' \<Longrightarrow> db_ok d' \<and> extends d d'"
    and "write_groups gs d = Inr d' \<Longrightarrow> g_id ` set (db_groups d) \<subseteq> g_id ` set gs \<Longrightarrow>
           db_ok d' \<and> extends d d'"
    and "write_memberships ms d = Inr d' \<Longrightarrow> db_ok d' \<and> extends d d'"
    and "write_resources rs d = Inr d' \<Longrightarrow> r_id ` set (db_resources d) \<subseteq> r_id ` set rs \<Longrightarrow>
           db_ok d' \<and> extends d d'"
    and "write_pgrants pgs d = Inr d' \<Longrightarrow> db_ok d' \<and> extends d d'"
    and "write_ggrants ggs d = Inr d' \<Longrightarrow> db_ok d' \<and> extends d d'"
    and "write_secrets ss d = Inr d' \<Longrightarrow> db_ok d' \<and> extends d d'"
    and "write_leases ls d = Inr d' \<Longrightarrow> db_ok d' \<and> extends d d'"
    and "write_audit evs d = Inr d' \<Longrightarrow> db_ok d' \<and> extends d d'"
proof -
  note parts = assms [unfolded db_ok_def]
  show "write_principals ps d = Inr d' \<Longrightarrow> p_id ` set (db_principals d) \<subseteq> p_id ` set ps \<Longrightarrow>
      db_ok d' \<and> extends d d'"
    using parts
    by (auto intro!: db_ok_extends [of d] simp: image_subset_iff write_principals_def extends_def exists_iff split: if_splits)
  show "write_credentials cs d = Inr d' \<Longrightarrow> db_ok d' \<and> extends d d'"
    using parts
    by (auto intro!: db_ok_extends [of d] simp: image_subset_iff write_credentials_def extends_def exists_iff split: if_splits)
  show "write_tokens ts d = Inr d' \<Longrightarrow> db_ok d' \<and> extends d d'"
    using parts
    by (auto intro!: db_ok_extends [of d] simp: image_subset_iff write_tokens_def extends_def exists_iff split: if_splits)
  show "write_windows ws d = Inr d' \<Longrightarrow> db_ok d' \<and> extends d d'"
    using parts
    by (auto intro!: db_ok_extends [of d] simp: image_subset_iff write_windows_def extends_def exists_iff split: if_splits)
  show "write_groups gs d = Inr d' \<Longrightarrow> g_id ` set (db_groups d) \<subseteq> g_id ` set gs \<Longrightarrow> db_ok d' \<and> extends d d'"
    using parts
    by (auto intro!: db_ok_extends [of d] simp: image_subset_iff write_groups_def extends_def exists_iff split: if_splits)
  show "write_memberships ms d = Inr d' \<Longrightarrow> db_ok d' \<and> extends d d'"
    using parts
    by (auto intro!: db_ok_extends [of d] simp: image_subset_iff write_memberships_def extends_def exists_iff split: if_splits)
  show "write_resources rs d = Inr d' \<Longrightarrow> r_id ` set (db_resources d) \<subseteq> r_id ` set rs \<Longrightarrow> db_ok d' \<and> extends d d'"
    using parts
    by (auto intro!: db_ok_extends [of d] simp: image_subset_iff write_resources_def extends_def exists_iff split: if_splits)
  show "write_pgrants pgs d = Inr d' \<Longrightarrow> db_ok d' \<and> extends d d'"
    using parts
    by (auto intro!: db_ok_extends [of d] simp: image_subset_iff write_pgrants_def extends_def exists_iff split: if_splits)
  show "write_ggrants ggs d = Inr d' \<Longrightarrow> db_ok d' \<and> extends d d'"
    using parts
    by (auto intro!: db_ok_extends [of d] simp: image_subset_iff write_ggrants_def extends_def exists_iff split: if_splits)
  show "write_secrets ss d = Inr d' \<Longrightarrow> db_ok d' \<and> extends d d'"
    using parts
    by (auto intro!: db_ok_extends [of d] simp: image_subset_iff write_secrets_def extends_def exists_iff split: if_splits)
  show "write_leases ls d = Inr d' \<Longrightarrow> db_ok d' \<and> extends d d'"
    using parts
    by (auto intro!: db_ok_extends [of d] simp: image_subset_iff write_leases_def extends_def exists_iff split: if_splits)
  show "write_audit evs d = Inr d' \<Longrightarrow> db_ok d' \<and> extends d d'"
    using parts
    by (auto intro!: db_ok_extends [of d] simp: image_subset_iff write_audit_def extends_def exists_iff split: if_splits)
qed

end
