(* ===== verification/Audit_Trail.thy ===== *)
theory Audit_Trail
  imports Store
begin

text \<open>
  Request correlation (\<open>request_context.py\<close>) and the audit trail (\<open>audit.py\<close>):
  selection of the correlation id, the closed set of metadata fields an audit event may
  carry, and the append of an event within the caller's transaction.
\<close>

subsection \<open>Correlation ids\<close>

text \<open>
  \<open>str.isalnum\<close> on one character below 256: the ASCII letters and digits and the
  alphanumeric characters of Latin-1 (header values are decoded as Latin-1).
\<close>

definition isalnum :: "char \<Rightarrow> bool" where
  "isalnum c = (let n = (of_char c :: nat) in
     (48 \<le> n \<and> n \<le> 57) \<or> (65 \<le> n \<and> n \<le> 90) \<or> (97 \<le> n \<and> n \<le> 122) \<or>
     n \<in> {170, 178, 179, 181, 185, 186, 188, 189, 190} \<or>
     (192 \<le> n \<and> n \<le> 214) \<or> (216 \<le> n \<and> n \<le> 246) \<or> (248 \<le> n \<and> n \<le> 255))"

definition safe_correlation :: "string \<Rightarrow> bool" where
  "safe_correlation s \<longleftrightarrow>
     s \<noteq> [] \<and> length s \<le> 128 \<and> list_all (\<lambda>c. isalnum c \<or> c \<in> set ''-_.'') s"

definition select_correlation_id :: "string option \<Rightarrow> uuid \<Rightarrow> string" where
  "select_correlation_id supplied fresh =
     (case supplied of
        Some s \<Rightarrow> if safe_correlation s then s else uuid_str fresh
      | None \<Rightarrow> uuid_str fresh)"

subsection \<open>Audit events\<close>

definition SAFE_METADATA_FIELDS :: "string list" where
  "SAFE_METADATA_FIELDS =
     [''access_path'', ''lease_id'', ''mode'', ''resource_id'', ''target_id'', ''target_type'']"

text \<open>The message's list of offending fields, \<open>sorted(unexpected_fields)\<close>.\<close>

definition unexpected_fields :: "labels \<Rightarrow> string list" where
  "unexpected_fields metadata =
     sort (remdups (filter (\<lambda>k. k \<notin> set SAFE_METADATA_FIELDS) (map fst metadata)))"

definition py_list_repr :: "string list \<Rightarrow> string" where
  "py_list_repr xs =
     ''['' @ intercalate '', '' (map repr_text xs) @ '']''"

definition validate_audit_metadata :: "labels \<Rightarrow> exc + unit" where
  "validate_audit_metadata metadata =
     (if unexpected_fields metadata \<noteq> []
      then Inl (ValueError (''Unsafe audit metadata fields: '' @
             py_list_repr (unexpected_fields metadata)))
      else Inr ())"

definition record_audit_event ::
  "ctx \<Rightarrow> uuid option \<Rightarrow> string \<Rightarrow> string \<Rightarrow> uuid \<Rightarrow> labels \<Rightarrow> db \<Rightarrow> exc + db" where
  "record_audit_event cx actor action subject_type subject_id metadata d =
     bindE (validate_audit_metadata metadata) (\<lambda>_.
       write_audit (db_audit d @
         [\<lparr>a_actor_id = actor, a_action = action, a_subject_type = subject_type,
           a_subject_id = uuid_str subject_id, a_correlation_id = cx_correlation cx,
           a_metadata = metadata, a_created_at = cx_now cx\<rparr>]) d)"

subsection \<open>Facts\<close>

lemma unexpected_fields_Nil_iff:
  "unexpected_fields m = [] \<longleftrightarrow> fst ` set m \<subseteq> set SAFE_METADATA_FIELDS"
proof -
  have "unexpected_fields m = [] \<longleftrightarrow> set (unexpected_fields m) = {}"
    by (metis set_empty)
  then show ?thesis by (auto simp: unexpected_fields_def)
qed

lemma record_audit_eventD:
  assumes "record_audit_event cx actor action st sid m d = Inr d'"
  shows "d' = d\<lparr>db_audit := db_audit d @
         [\<lparr>a_actor_id = actor, a_action = action, a_subject_type = st,
           a_subject_id = uuid_str sid, a_correlation_id = cx_correlation cx,
           a_metadata = m, a_created_at = cx_now cx\<rparr>]\<rparr>"
  using assms
  by (auto simp: record_audit_event_def write_audit_def split: if_splits)

lemma record_audit_event_ok:
  "record_audit_event cx actor action st sid m d = Inr d' \<Longrightarrow> db_ok d \<Longrightarrow>
     db_ok d' \<and> extends d d'"
  by (auto simp: record_audit_event_def dest: write_keeps_ok(12))

lemma record_audit_event_succeeds:
  assumes "audit_valid d (db_audit d)"
    and "case actor of None \<Rightarrow> True | Some i \<Rightarrow> principal_exists d i"
    and "fst ` set m \<subseteq> set SAFE_METADATA_FIELDS"
  shows "record_audit_event cx actor action st sid m d =
     Inr (d\<lparr>db_audit := db_audit d @
         [\<lparr>a_actor_id = actor, a_action = action, a_subject_type = st,
           a_subject_id = uuid_str sid, a_correlation_id = cx_correlation cx,
           a_metadata = m, a_created_at = cx_now cx\<rparr>]\<rparr>)"
  using assms unexpected_fields_Nil_iff [of m]
  by (simp add: record_audit_event_def validate_audit_metadata_def write_audit_def
      audit_valid_def)

lemma record_audit_event_exists:
  assumes "db_ok d" and "case actor of None \<Rightarrow> True | Some i \<Rightarrow> principal_exists d i"
    and "fst ` set m \<subseteq> set SAFE_METADATA_FIELDS"
  shows "\<exists>d'. record_audit_event cx actor action st sid m d = Inr d'"
  using record_audit_event_succeeds [of d actor m] assms by (simp add: db_ok_def)

lemma record_audit_event_frame [frame]:
  assumes "record_audit_event cx actor action st sid m d = Inr d'"
  shows "db_principals d' = db_principals d" "db_credentials d' = db_credentials d"
    "db_tokens d' = db_tokens d" "db_windows d' = db_windows d"
    "db_groups d' = db_groups d" "db_memberships d' = db_memberships d"
    "db_resources d' = db_resources d" "db_pgrants d' = db_pgrants d"
    "db_ggrants d' = db_ggrants d" "db_secrets d' = db_secrets d" "db_leases d' = db_leases d"
  using record_audit_eventD [OF assms] by simp_all

text \<open>The trail only grows: an operation that keeps this can remove or rewrite no event.\<close>

definition trail_extends :: "db \<Rightarrow> db \<Rightarrow> bool" where
  "trail_extends d d' \<longleftrightarrow> (\<exists>evs. db_audit d' = db_audit d @ evs)"

lemma trail_extends_refl [simp]: "trail_extends d d"
  by (simp add: trail_extends_def)

lemma trail_extends_trans: "trail_extends a b \<Longrightarrow> trail_extends b c \<Longrightarrow> trail_extends a c"
  by (auto simp: trail_extends_def)

lemma record_audit_event_trail:
  "record_audit_event cx actor action st sid m d = Inr d' \<Longrightarrow> trail_extends d d'"
  by (auto dest: record_audit_eventD simp: trail_extends_def)

end
