(* ===== verification/Identity.thy ===== *)
theory Identity
  imports Audit_Trail
begin

text \<open>
  Identity (\<open>identity/models.py\<close>, \<open>identity/authentication.py\<close>,
  \<open>identity/persistence.py\<close>, \<open>identity/bootstrap.py\<close>): principals, password credentials,
  bearer tokens and groups. The digest \<open>sha\<close> (hexadecimal SHA-256 of the UTF-8 text) and the
  Argon2 verification \<open>verify\<close> are arguments; a hash that \<open>PasswordHasher.hash\<close> produces
  with a fresh salt is an argument of the operation that stores it, as are the UUIDs and the
  random text of a token. The advisory lock and the row locks have no effect in this model of
  one transaction at a time.
\<close>

subsection \<open>Request and response models\<close>

definition validate_login_request :: "string \<Rightarrow> string \<Rightarrow> exc + unit" where
  "validate_login_request username password =
     check_fields (text_ok 1 255 username \<and> text_ok 1 1024 password)"

definition validate_password :: "string \<Rightarrow> exc + unit" where
  "validate_password password = check_fields (text_ok 12 1024 password)"

record principal_create =
  pn_name :: string
  pn_display_name :: string
  pn_role :: principal_role
  pn_password :: "string option"

definition validate_principal_create :: "principal_create \<Rightarrow> exc + principal_create" where
  "validate_principal_create rq =
     bindE (check_fields (text_ok 1 255 (pn_name rq) \<and> text_ok 1 255 (pn_display_name rq) \<and>
       opt_ok (text_ok 12 1024) (pn_password rq))) (\<lambda>_. Inr rq)"

record principal_update =
  pu_display_name :: "string option"
  pu_role :: "principal_role option"

definition validate_principal_update :: "principal_update \<Rightarrow> exc + principal_update" where
  "validate_principal_update rq =
     bindE (check_fields (opt_ok (text_ok 1 255) (pu_display_name rq))) (\<lambda>_. Inr rq)"

record token_create =
  tc_name :: string
  tc_expires_at :: "instant option"

definition validate_token_create :: "token_create \<Rightarrow> exc + token_create" where
  "validate_token_create rq = bindE (check_fields (text_ok 1 255 (tc_name rq))) (\<lambda>_. Inr rq)"

text \<open>The token as the API shows it, never with its digest; \<open>TokenIssued\<close> adds the text.\<close>

record token_response =
  tr_id :: uuid
  tr_name :: string
  tr_created_at :: instant
  tr_expires_at :: "instant option"
  tr_last_used_at :: "instant option"
  tr_revoked_at :: "instant option"

record token_issued = token_response +
  ti_token :: string

record group_create =
  gn_name :: string
  gn_description :: "string option"

text \<open>A group update omits its description (\<open>None\<close>) or sets it, possibly to null.\<close>

type_synonym group_update = "string option option"

record authenticated_principal =
  ap_principal :: principal
  ap_token_id :: uuid

record login_response =
  lo_access_token :: string
  lo_expires_at :: instant

text \<open>\<open>PrincipalResponse\<close> and \<open>GroupResponse\<close> have exactly the columns of their tables.\<close>

definition principal_from_row :: "principal \<Rightarrow> principal" where
  "principal_from_row row = row"

definition group_from_row :: "group_row \<Rightarrow> group_row" where
  "group_from_row row = row"

subsection \<open>Statements\<close>

definition update_principals :: "ctx \<Rightarrow> (principal \<Rightarrow> bool) \<Rightarrow> (principal \<Rightarrow> principal) \<Rightarrow> db \<Rightarrow> exc + db" where
  "update_principals cx p f d =
     write_principals (update_where p (\<lambda>r. (f r)\<lparr>p_updated_at := cx_now cx\<rparr>) (db_principals d)) d"

definition update_groups :: "ctx \<Rightarrow> (group_row \<Rightarrow> bool) \<Rightarrow> (group_row \<Rightarrow> group_row) \<Rightarrow> db \<Rightarrow> exc + db" where
  "update_groups cx p f d =
     write_groups (update_where p (\<lambda>r. (f r)\<lparr>g_updated_at := cx_now cx\<rparr>) (db_groups d)) d"

definition update_tokens :: "(api_token \<Rightarrow> bool) \<Rightarrow> (api_token \<Rightarrow> api_token) \<Rightarrow> db \<Rightarrow> exc + db" where
  "update_tokens p f d = write_tokens (update_where p f (db_tokens d)) d"

definition update_credentials :: "(credential \<Rightarrow> bool) \<Rightarrow> (credential \<Rightarrow> credential) \<Rightarrow> db \<Rightarrow> exc + db" where
  "update_credentials p f d = write_credentials (update_where p f (db_credentials d)) d"

subsection \<open>Passwords and tokens\<close>

text \<open>The outcomes of \<open>PasswordHasher.verify\<close>; an undecodable hash raises a \<open>ValueError\<close>.\<close>

datatype argon2_result = Matches | VerificationError | InvalidHash

definition verify_password ::
  "(string \<Rightarrow> string \<Rightarrow> argon2_result) \<Rightarrow> string \<Rightarrow> string \<Rightarrow> exc + bool" where
  "verify_password verify password_hash password =
     (case verify password_hash password of
        Matches \<Rightarrow> Inr True
      | VerificationError \<Rightarrow> Inr False
      | InvalidHash \<Rightarrow> Inl (ValueError ''Invalid hash''))"

definition token_hash :: "(string \<Rightarrow> string) \<Rightarrow> string \<Rightarrow> string" where
  "token_hash sha token = sha token"

definition issue_token ::
  "(string \<Rightarrow> string) \<Rightarrow> ctx \<Rightarrow> uuid \<Rightarrow> string \<Rightarrow> uuid \<Rightarrow> string \<Rightarrow> instant option \<Rightarrow> db \<Rightarrow>
     exc + (token_issued \<times> db)" where
  "issue_token sha cx token_id random principal_id name expires_at d =
     (let token = ''srm_'' @ random in
      bindE (write_tokens (db_tokens d @
          [\<lparr>t_id = token_id, t_principal_id = principal_id, t_name = name,
            t_token_hash = token_hash sha token, t_created_at = cx_now cx,
            t_expires_at = expires_at, t_last_used_at = None, t_revoked_at = None\<rparr>]) d) (\<lambda>d1.
        Inr (\<lparr>tr_id = token_id, tr_name = name, tr_created_at = cx_now cx,
              tr_expires_at = expires_at, tr_last_used_at = None, tr_revoked_at = None,
              ti_token = token\<rparr>, d1)))"

definition token_live :: "instant \<Rightarrow> api_token \<Rightarrow> bool" where
  "token_live now t \<longleftrightarrow>
     t_revoked_at t = None \<and> (case t_expires_at t of None \<Rightarrow> True | Some e \<Rightarrow> e > now)"

definition token_rows :: "string \<Rightarrow> ctx \<Rightarrow> db \<Rightarrow> (principal \<times> api_token) list" where
  "token_rows digest cx d =
     [(p, t). p \<leftarrow> db_principals d, t \<leftarrow> db_tokens d, t_principal_id t = p_id p \<and>
        t_token_hash t = digest \<and> token_live (cx_now cx) t \<and> p_archived_at p = None]"

definition authenticate_token ::
  "(string \<Rightarrow> string) \<Rightarrow> ctx \<Rightarrow> string \<Rightarrow> db \<Rightarrow> exc + (authenticated_principal \<times> db)" where
  "authenticate_token sha cx token d =
     bindE (one_or_none (token_rows (token_hash sha token) cx d)) (\<lambda>row.
       case row of
         None \<Rightarrow> Inl AuthenticationError
       | Some (p, t) \<Rightarrow>
           bindE (update_tokens (\<lambda>x. t_id x = t_id t) (\<lambda>x. x\<lparr>t_last_used_at := Some (cx_now cx)\<rparr>) d)
             (\<lambda>d1. Inr (\<lparr>ap_principal = p, ap_token_id = t_id t\<rparr>, d1)))"

definition login_rows :: "string \<Rightarrow> db \<Rightarrow> (uuid \<times> string) list" where
  "login_rows username d =
     [(p_id p, pc_password_hash c). p \<leftarrow> db_principals d, c \<leftarrow> db_credentials d,
        pc_principal_id c = p_id p \<and> p_name p = username \<and> p_kind p = User \<and> p_archived_at p = None]"

definition login ::
  "(string \<Rightarrow> string) \<Rightarrow> (string \<Rightarrow> string \<Rightarrow> argon2_result) \<Rightarrow> string \<Rightarrow> int \<Rightarrow> ctx \<Rightarrow> instant \<Rightarrow>
     uuid \<Rightarrow> string \<Rightarrow> string \<Rightarrow> string \<Rightarrow> db \<Rightarrow> exc + (login_response \<times> db)" where
  "login sha verify dummy_hash login_ttl cx app_now token_id random username password d =
     bindE (one_or_none (login_rows username d)) (\<lambda>row.
     bindE (verify_password verify (case row of Some (_, h) \<Rightarrow> h | None \<Rightarrow> dummy_hash) password) (\<lambda>valid.
       case row of
         None \<Rightarrow> Inl AuthenticationError
       | Some (pid, _) \<Rightarrow>
           if \<not> valid then Inl AuthenticationError
           else
             let expires_at = app_now + login_ttl * 1000000 in
             bindE (issue_token sha cx token_id random pid ''login'' (Some expires_at) d) (\<lambda>(issued, d1).
             bindE (record_audit_event cx (Some pid) ''authentication.login'' ''ApiToken'' (tr_id issued) [] d1)
               (\<lambda>d2. Inr (\<lparr>lo_access_token = ti_token issued, lo_expires_at = expires_at\<rparr>, d2)))))"

definition token_from_row :: "api_token \<Rightarrow> token_response" where
  "token_from_row t = \<lparr>tr_id = t_id t, tr_name = t_name t, tr_created_at = t_created_at t,
     tr_expires_at = t_expires_at t, tr_last_used_at = t_last_used_at t, tr_revoked_at = t_revoked_at t\<rparr>"

definition list_tokens :: "uuid \<Rightarrow> db \<Rightarrow> token_response list" where
  "list_tokens principal_id d =
     map token_from_row (sort_key (\<lambda>t. (t_created_at t, t_id t))
       (filter (\<lambda>t. t_principal_id t = principal_id) (db_tokens d)))"

subsection \<open>Principals\<close>

definition fetch_principal :: "uuid \<Rightarrow> principal_kind \<Rightarrow> db \<Rightarrow> exc + principal" where
  "fetch_principal principal_id kind d =
     bindE (one_or_none (filter (\<lambda>p. p_id p = principal_id \<and> p_kind p = kind) (db_principals d)))
       (\<lambda>row. bindE (found_or (http 404 ''Principal not found'') row) (\<lambda>p. Inr (principal_from_row p)))"

text \<open>\<open>hashed\<close> is the Argon2 hash of the request's password, when it has one.\<close>

definition create_principal ::
  "ctx \<Rightarrow> uuid \<Rightarrow> string \<Rightarrow> principal_create \<Rightarrow> principal_kind \<Rightarrow> uuid \<Rightarrow> db \<Rightarrow> exc + (principal \<times> db)" where
  "create_principal cx principal_id hashed rq kind actor_id d =
     (if kind = User \<and> pn_password rq = None
      then Inl (http 400 ''A password is required for a user'')
      else if kind = Service \<and> pn_password rq \<noteq> None
      then Inl (http 400 ''Service identities cannot have passwords'')
      else
        let row = \<lparr>p_id = principal_id, p_kind = kind, p_role = pn_role rq, p_name = pn_name rq,
                   p_display_name = pn_display_name rq, p_archived_at = None,
                   p_created_at = cx_now cx, p_updated_at = cx_now cx\<rparr> in
        bindE (write_principals (db_principals d @ [row]) d) (\<lambda>d1.
        bindE (if pn_password rq \<noteq> None
               then write_credentials (db_credentials d1 @
                      [\<lparr>pc_principal_id = principal_id, pc_password_hash = hashed,
                        pc_updated_at = cx_now cx\<rparr>]) d1
               else Inr d1) (\<lambda>d2.
        bindE (record_audit_event cx (Some actor_id) ''principal.created'' ''Principal'' principal_id [] d2)
          (\<lambda>d3. Inr (principal_from_row row, d3)))))"

definition list_principals :: "(string \<Rightarrow> 'k::linorder) \<Rightarrow> principal_kind \<Rightarrow> db \<Rightarrow> principal list" where
  "list_principals coll kind d =
     map principal_from_row (sort_key (\<lambda>p. (coll (p_name p), p_id p))
       (filter (\<lambda>p. p_kind p = kind) (db_principals d)))"

definition apply_principal_update :: "principal_update \<Rightarrow> principal \<Rightarrow> principal" where
  "apply_principal_update rq p =
     p\<lparr>p_display_name := coalesce (pu_display_name rq) (p_display_name p),
       p_role := coalesce (pu_role rq) (p_role p)\<rparr>"

definition update_principal ::
  "ctx \<Rightarrow> uuid \<Rightarrow> principal_update \<Rightarrow> principal_kind \<Rightarrow> uuid \<Rightarrow> db \<Rightarrow> exc + (principal \<times> db)" where
  "update_principal cx principal_id rq kind actor_id d =
     (if pu_display_name rq = None \<and> pu_role rq = None
      then bindE (fetch_principal principal_id kind d) (\<lambda>p. Inr (p, d))
      else
        let p = (\<lambda>x. p_id x = principal_id \<and> p_kind x = kind) in
        bindE (update_principals cx p (apply_principal_update rq) d) (\<lambda>d1.
        bindE (one_or_none (filter p (db_principals d1))) (\<lambda>row.
        bindE (found_or (http 404 ''Principal not found'') row) (\<lambda>row.
        bindE (record_audit_event cx (Some actor_id) ''principal.updated'' ''Principal'' principal_id [] d1)
          (\<lambda>d2. Inr (principal_from_row row, d2))))))"

text \<open>The administrators who can log in: the query the lockout guards run.\<close>

definition active_administrators :: "db \<Rightarrow> uuid list" where
  "active_administrators d =
     [p_id p. p \<leftarrow> db_principals d, c \<leftarrow> db_credentials d,
        pc_principal_id c = p_id p \<and> p_kind p = User \<and> p_role p = Admin \<and> p_archived_at p = None]"

definition archive_principal :: "ctx \<Rightarrow> uuid \<Rightarrow> principal_kind \<Rightarrow> uuid \<Rightarrow> db \<Rightarrow> exc + (unit \<times> db)" where
  "archive_principal cx principal_id kind actor_id d =
     (let p = (\<lambda>x. p_id x = principal_id \<and> p_kind x = kind) in
      bindE (one_or_none (filter p (db_principals d))) (\<lambda>row.
      bindE (found_or (http 404 ''Principal not found'') row) (\<lambda>target.
        if kind = User \<and> p_role target = Admin \<and> active_administrators d = [principal_id]
        then Inl (http 409 ''The final active administrator cannot be archived'')
        else
          bindE (update_principals cx p
              (\<lambda>x. x\<lparr>p_archived_at := Some (coalesce (p_archived_at x) (cx_now cx))\<rparr>) d) (\<lambda>d1.
          bindE (one_or_none (filter p (db_principals d1))) (\<lambda>row1.
          bindE (found_or (http 404 ''Principal not found'') row1) (\<lambda>_.
          bindE (record_audit_event cx (Some actor_id) ''principal.archived'' ''Principal'' principal_id [] d1)
            (\<lambda>d2. Inr ((), d2))))))))"

subsection \<open>Groups\<close>

definition fetch_group :: "uuid \<Rightarrow> db \<Rightarrow> exc + group_row" where
  "fetch_group group_id d =
     bindE (one_or_none (filter (\<lambda>g. g_id g = group_id) (db_groups d))) (\<lambda>row.
     bindE (found_or (http 404 ''Group not found'') row) (\<lambda>g. Inr (group_from_row g)))"

definition create_group :: "ctx \<Rightarrow> uuid \<Rightarrow> group_create \<Rightarrow> uuid \<Rightarrow> db \<Rightarrow> exc + (group_row \<times> db)" where
  "create_group cx group_id rq actor_id d =
     (let row = \<lparr>g_id = group_id, g_name = gn_name rq, g_description = gn_description rq,
                 g_archived_at = None, g_created_at = cx_now cx, g_updated_at = cx_now cx\<rparr> in
      bindE (write_groups (db_groups d @ [row]) d) (\<lambda>d1.
      bindE (record_audit_event cx (Some actor_id) ''group.created'' ''Group'' group_id [] d1)
        (\<lambda>d2. Inr (group_from_row row, d2))))"

definition list_groups :: "(string \<Rightarrow> 'k::linorder) \<Rightarrow> db \<Rightarrow> group_row list" where
  "list_groups coll d = map group_from_row (sort_key (\<lambda>g. (coll (g_name g), g_id g)) (db_groups d))"

definition update_group :: "ctx \<Rightarrow> uuid \<Rightarrow> group_update \<Rightarrow> uuid \<Rightarrow> db \<Rightarrow> exc + (group_row \<times> db)" where
  "update_group cx group_id rq actor_id d =
     (case rq of
        None \<Rightarrow> bindE (fetch_group group_id d) (\<lambda>g. Inr (g, d))
      | Some description \<Rightarrow>
          let p = (\<lambda>x. g_id x = group_id) in
          bindE (update_groups cx p (\<lambda>g. g\<lparr>g_description := description\<rparr>) d) (\<lambda>d1.
          bindE (one_or_none (filter p (db_groups d1))) (\<lambda>row.
          bindE (found_or (http 404 ''Group not found'') row) (\<lambda>row.
          bindE (record_audit_event cx (Some actor_id) ''group.updated'' ''Group'' group_id [] d1)
            (\<lambda>d2. Inr (group_from_row row, d2))))))"

definition archive_group :: "ctx \<Rightarrow> uuid \<Rightarrow> uuid \<Rightarrow> db \<Rightarrow> exc + (unit \<times> db)" where
  "archive_group cx group_id actor_id d =
     (let p = (\<lambda>x. g_id x = group_id) in
      bindE (update_groups cx p
          (\<lambda>g. g\<lparr>g_archived_at := Some (coalesce (g_archived_at g) (cx_now cx))\<rparr>) d) (\<lambda>d1.
      bindE (one_or_none (filter p (db_groups d1))) (\<lambda>row.
      bindE (found_or (http 404 ''Group not found'') row) (\<lambda>_.
      bindE (record_audit_event cx (Some actor_id) ''group.archived'' ''Group'' group_id [] d1)
        (\<lambda>d2. Inr ((), d2))))))"

subsection \<open>Bootstrap of the first administrator\<close>

text \<open>
  \<open>bootstrap_administrator\<close> inserts its audit event with SQL of its own: no actor, the
  correlation id \<open>bootstrap\<close>.
\<close>

definition bootstrap_administrator ::
  "ctx \<Rightarrow> uuid \<Rightarrow> string \<Rightarrow> string \<Rightarrow> string \<Rightarrow> db \<Rightarrow> exc + (uuid \<times> db)" where
  "bootstrap_administrator cx principal_id hashed username display_name d =
     (if active_administrators d \<noteq> [] then Inl (RuntimeError ''an administrator already exists'')
      else
        bindE (write_principals (db_principals d @
          [\<lparr>p_id = principal_id, p_kind = User, p_role = Admin, p_name = username,
            p_display_name = display_name, p_archived_at = None,
            p_created_at = cx_now cx, p_updated_at = cx_now cx\<rparr>]) d) (\<lambda>d1.
        bindE (write_credentials (db_credentials d1 @
          [\<lparr>pc_principal_id = principal_id, pc_password_hash = hashed, pc_updated_at = cx_now cx\<rparr>]) d1) (\<lambda>d2.
        bindE (write_audit (db_audit d2 @
          [\<lparr>a_actor_id = None, a_action = ''administrator.bootstrapped'', a_subject_type = ''Principal'',
            a_subject_id = uuid_str principal_id, a_correlation_id = ''bootstrap'',
            a_metadata = [], a_created_at = cx_now cx\<rparr>]) d2) (\<lambda>d3. Inr (principal_id, d3)))))"

text \<open>The checks of the console command around it.\<close>

datatype command_result = Exit string | Uncaught exc | Created uuid

definition bootstrap_command ::
  "ctx \<Rightarrow> uuid \<Rightarrow> string \<Rightarrow> string \<Rightarrow> string option \<Rightarrow> string \<Rightarrow> string \<Rightarrow> db \<Rightarrow> command_result \<times> db" where
  "bootstrap_command cx principal_id hashed username display_name password confirmation d =
     (if password \<noteq> confirmation then (Exit ''Passwords do not match'', d)
      else if length password < 12 then (Exit ''Password must contain at least 12 characters'', d)
      else
        let shown = (case display_name of Some n \<Rightarrow> if n = [] then username else n | None \<Rightarrow> username) in
        case run_tx (bootstrap_administrator cx principal_id hashed username shown) d of
          (Inl (RuntimeError m), d') \<Rightarrow> (Exit m, d')
        | (Inl e, d') \<Rightarrow> (Uncaught e, d')
        | (Inr i, d') \<Rightarrow> (Created i, d'))"

end
