(* ===== verification/Encoding.thy ===== *)
theory Encoding
  imports Json
begin

text \<open>
  The codecs of the standard library the server uses on secrets and digests: UTF-8, Base64 and
  \<open>json.loads\<close>. Bytes are natural numbers below 256, texts are \<open>string\<close>s of code points
  below 256. \<open>json_loads\<close> reads ASCII documents (the only ones \<open>json.dumps\<close> writes); a
  document that is not, or that escapes a code point above 255, is rejected. \<open>float_of\<close> maps
  the text of a JSON number with a fraction or an exponent to the \<open>repr\<close> of its value.
\<close>

type_synonym bytes = "nat list"

subsection \<open>UTF-8\<close>

definition utf8_point :: "nat \<Rightarrow> bytes" where
  "utf8_point n = (if n < 128 then [n] else [192 + n div 64, 128 + n mod 64])"

definition utf8_encode :: "string \<Rightarrow> bytes" where
  "utf8_encode s = concat (map (\<lambda>c. utf8_point (of_char c)) s)"

text \<open>\<open>bytes.decode()\<close>, for code points below 256.\<close>

fun utf8_decode :: "bytes \<Rightarrow> string option" where
  "utf8_decode [] = Some []"
| "utf8_decode (b # bs) =
     (if b < 128 then map_option ((#) (char_of b)) (utf8_decode bs)
      else case bs of
        [] \<Rightarrow> None
      | c # cs \<Rightarrow>
          if (b = 194 \<or> b = 195) \<and> 128 \<le> c \<and> c < 192
          then map_option ((#) (char_of ((b - 192) * 64 + (c - 128)))) (utf8_decode cs)
          else None)"

subsection \<open>Base64\<close>

definition base64_alphabet :: string where
  "base64_alphabet = ''ABCDEFGHIJKLMNOPQRSTUVWXYZabcdefghijklmnopqrstuvwxyz0123456789+/''"

definition b64_char :: "nat \<Rightarrow> char" where
  "b64_char n = base64_alphabet ! n"

fun position :: "'a \<Rightarrow> 'a list \<Rightarrow> nat option" where
  "position x [] = None"
| "position x (y # ys) = (if x = y then Some 0 else map_option Suc (position x ys))"

definition b64_value :: "char \<Rightarrow> nat option" where
  "b64_value c = position c base64_alphabet"

abbreviation pad :: char where
  "pad \<equiv> CHR ''=''"

fun b64encode :: "bytes \<Rightarrow> string" where
  "b64encode [] = []"
| "b64encode [a] = [b64_char (a div 4), b64_char (a mod 4 * 16), pad, pad]"
| "b64encode [a, b] =
     [b64_char (a div 4), b64_char (a mod 4 * 16 + b div 16), b64_char (b mod 16 * 4), pad]"
| "b64encode (a # b # c # bs) =
     b64_char (a div 4) # b64_char (a mod 4 * 16 + b div 16) #
     b64_char (b mod 16 * 4 + c div 64) # b64_char (c mod 64) # b64encode bs"

text \<open>
  \<open>base64.b64decode(text, validate=True)\<close>: groups of four digits, padding only in the last
  group; the bits a padded group leaves over are ignored.
\<close>

fun b64decode :: "string \<Rightarrow> bytes option" where
  "b64decode [] = Some []"
| "b64decode (p # q # r # s # rest) =
     (case (b64_value p, b64_value q) of
        (Some i, Some j) \<Rightarrow>
          (case (b64_value r, b64_value s) of
             (Some k, Some l) \<Rightarrow>
               map_option (\<lambda>bs. (i * 4 + j div 16) # (j mod 16 * 16 + k div 4) # (k mod 4 * 64 + l) # bs)
                 (b64decode rest)
           | (Some k, None) \<Rightarrow>
               if s = pad \<and> rest = [] then Some [i * 4 + j div 16, j mod 16 * 16 + k div 4] else None
           | (None, None) \<Rightarrow>
               if r = pad \<and> s = pad \<and> rest = [] then Some [i * 4 + j div 16] else None
           | _ \<Rightarrow> None)
      | _ \<Rightarrow> None)"
| "b64decode _ = None"

subsection \<open>Reading JSON\<close>

definition json_ws :: "char \<Rightarrow> bool" where
  "json_ws c \<longleftrightarrow> c \<in> {CHR 0x20, CHR 0x09, CHR 0x0A, CHR 0x0D}"

definition skip_ws :: "string \<Rightarrow> string" where
  "skip_ws s = dropWhile json_ws s"

definition hex_value :: "char \<Rightarrow> nat option" where
  "hex_value c = (let n = (of_char c :: nat) in
     if 48 \<le> n \<and> n \<le> 57 then Some (n - 48)
     else if 97 \<le> n \<and> n \<le> 102 then Some (n - 87)
     else if 65 \<le> n \<and> n \<le> 70 then Some (n - 55)
     else None)"

definition unescape :: "char \<Rightarrow> char option" where
  "unescape e =
     (if e = CHR 0x22 then Some (CHR 0x22)
      else if e = CHR 0x5C then Some (CHR 0x5C)
      else if e = CHR 0x2F then Some (CHR 0x2F)
      else if e = CHR ''b'' then Some (CHR 0x08)
      else if e = CHR ''f'' then Some (CHR 0x0C)
      else if e = CHR ''n'' then Some (CHR 0x0A)
      else if e = CHR ''r'' then Some (CHR 0x0D)
      else if e = CHR ''t'' then Some (CHR 0x09)
      else None)"

text \<open>The characters of a string after its opening quote, and the text behind the closing one.\<close>

fun json_chars :: "string \<Rightarrow> (string \<times> string) option" where
  "json_chars [] = None"
| "json_chars (c # cs) =
     (if c = CHR 0x22 then Some ([], cs)
      else if c = CHR 0x5C then
        (case cs of
           [] \<Rightarrow> None
         | e # es \<Rightarrow>
             if e = CHR ''u'' then
               (case es of
                  h1 # h2 # h3 # h4 # rest \<Rightarrow>
                    (case (hex_value h1, hex_value h2, hex_value h3, hex_value h4) of
                       (Some 0, Some 0, Some a, Some b) \<Rightarrow>
                         map_option (\<lambda>(t, r). (char_of (a * 16 + b) # t, r)) (json_chars rest)
                     | _ \<Rightarrow> None)
                | _ \<Rightarrow> None)
             else
               (case unescape e of
                  Some x \<Rightarrow> map_option (\<lambda>(t, r). (x # t, r)) (json_chars es)
                | None \<Rightarrow> None))
      else if (of_char c :: nat) < 32 then None
      else map_option (\<lambda>(t, r). (c # t, r)) (json_chars cs))"

definition is_digit :: "char \<Rightarrow> bool" where
  "is_digit c \<longleftrightarrow> 48 \<le> (of_char c :: nat) \<and> (of_char c :: nat) \<le> 57"

definition digits_value :: "string \<Rightarrow> int" where
  "digits_value ds = foldl (\<lambda>n c. n * 10 + int (of_char c - 48)) 0 ds"

text \<open>The integer part, the optional fraction and exponent of a number, and the rest.\<close>

definition take_int :: "string \<Rightarrow> (string \<times> string) option" where
  "take_int s =
     (case s of
        c # cs \<Rightarrow>
          if c = CHR ''0'' then Some ([c], cs)
          else if is_digit c then Some (takeWhile is_digit s, dropWhile is_digit s)
          else None
      | [] \<Rightarrow> None)"

definition take_frac :: "string \<Rightarrow> string \<times> string" where
  "take_frac s =
     (case s of
        c # cs \<Rightarrow>
          if c = CHR ''.'' \<and> takeWhile is_digit cs \<noteq> []
          then (c # takeWhile is_digit cs, dropWhile is_digit cs) else ([], s)
      | [] \<Rightarrow> ([], s))"

definition take_exp :: "string \<Rightarrow> string \<times> string" where
  "take_exp s =
     (case s of
        c # cs \<Rightarrow>
          if c = CHR ''e'' \<or> c = CHR ''E'' then
            (let (sgn, ds) = (case cs of
                 x # xs \<Rightarrow> if x = CHR ''+'' \<or> x = CHR ''-'' then ([x], xs) else ([], cs)
               | [] \<Rightarrow> ([], cs)) in
             if takeWhile is_digit ds \<noteq> [] then (c # sgn @ takeWhile is_digit ds, dropWhile is_digit ds)
             else ([], s))
          else ([], s)
      | [] \<Rightarrow> ([], s))"

text \<open>\<open>int()\<close> refuses more than 4300 digits.\<close>

definition json_number :: "(string \<Rightarrow> string) \<Rightarrow> string \<Rightarrow> (json \<times> string) option" where
  "json_number float_of s =
     (let (minus, body) = (case s of c # cs \<Rightarrow> if c = CHR ''-'' then ([c], cs) else ([], s) | [] \<Rightarrow> ([], s)) in
      case take_int body of
        None \<Rightarrow> None
      | Some (ds, r1) \<Rightarrow>
          let (frac, r2) = take_frac r1; (expo, r3) = take_exp r2 in
          if frac = [] \<and> expo = []
          then if length ds > 4300 then None
               else Some (JInt (if minus = [] then digits_value ds else - digits_value ds), r3)
          else Some (JFloat (float_of (minus @ ds @ frac @ expo)), r3))"

definition strip_prefix :: "string \<Rightarrow> string \<Rightarrow> string option" where
  "strip_prefix p s = (if take (length p) s = p then Some (drop (length p) s) else None)"

fun json_word :: "(string \<times> json) list \<Rightarrow> string \<Rightarrow> (json \<times> string) option" where
  "json_word [] s = None"
| "json_word ((w, j) # ws) s =
     (case strip_prefix w s of Some rest \<Rightarrow> Some (j, rest) | None \<Rightarrow> json_word ws s)"

definition json_constants :: "(string \<times> json) list" where
  "json_constants =
     [(''null'', JNull), (''true'', JBool True), (''false'', JBool False),
      (''NaN'', JFloat ''nan''), (''Infinity'', JFloat ''inf''), (''-Infinity'', JFloat ''-inf'')]"

text \<open>
  A value, the items of an array and the members of an object (after the opening bracket and
  after a comma). Every call consumes a character, so the length of the text is fuel enough.
  A repeated key overwrites the earlier member.
\<close>

fun json_value :: "(string \<Rightarrow> string) \<Rightarrow> nat \<Rightarrow> string \<Rightarrow> (json \<times> string) option"
  and json_items :: "(string \<Rightarrow> string) \<Rightarrow> nat \<Rightarrow> string \<Rightarrow> (json list \<times> string) option"
  and json_members ::
    "(string \<Rightarrow> string) \<Rightarrow> nat \<Rightarrow> (string \<times> json) list \<Rightarrow> string \<Rightarrow> ((string \<times> json) list \<times> string) option"
where
  "json_value fo 0 s = None"
| "json_value fo (Suc n) s =
     (case s of
        [] \<Rightarrow> None
      | c # cs \<Rightarrow>
          if c = CHR 0x22 then map_option (\<lambda>(t, r). (JStr t, r)) (json_chars cs)
          else if c = CHR 0x5B then
            (case skip_ws cs of
               [] \<Rightarrow> None
             | d # ds \<Rightarrow>
                 if d = CHR 0x5D then Some (JList [], ds)
                 else map_option (\<lambda>(js, r). (JList js, r)) (json_items fo n (d # ds)))
          else if c = CHR 0x7B then
            (case skip_ws cs of
               [] \<Rightarrow> None
             | d # ds \<Rightarrow>
                 if d = CHR 0x7D then Some (JObj [], ds)
                 else map_option (\<lambda>(kvs, r). (JObj kvs, r)) (json_members fo n [] (d # ds)))
          else case json_word json_constants s of
              Some res \<Rightarrow> Some res
            | None \<Rightarrow> json_number fo s)"
| "json_items fo 0 s = None"
| "json_items fo (Suc n) s =
     (case json_value fo n s of
        None \<Rightarrow> None
      | Some (j, r) \<Rightarrow>
          (case skip_ws r of
             [] \<Rightarrow> None
           | d # ds \<Rightarrow>
               if d = CHR 0x5D then Some ([j], ds)
               else if d = CHR 0x2C then
                 map_option (\<lambda>(js, r'). (j # js, r')) (json_items fo n (skip_ws ds))
               else None))"
| "json_members fo 0 acc s = None"
| "json_members fo (Suc n) acc s =
     (case s of
        [] \<Rightarrow> None
      | q # cs \<Rightarrow>
          if q \<noteq> CHR 0x22 then None
          else case json_chars cs of
            None \<Rightarrow> None
          | Some (k, r) \<Rightarrow>
              (case skip_ws r of
                 [] \<Rightarrow> None
               | d # ds \<Rightarrow>
                   if d \<noteq> CHR 0x3A then None
                   else case json_value fo n (skip_ws ds) of
                     None \<Rightarrow> None
                   | Some (j, r2) \<Rightarrow>
                       (case skip_ws r2 of
                          [] \<Rightarrow> None
                        | e # es \<Rightarrow>
                            if e = CHR 0x7D then Some (dict_set k j acc, es)
                            else if e = CHR 0x2C then json_members fo n (dict_set k j acc) (skip_ws es)
                            else None)))"

definition json_loads :: "(string \<Rightarrow> string) \<Rightarrow> string \<Rightarrow> json option" where
  "json_loads float_of s =
     (if list_all (\<lambda>c. (of_char c :: nat) < 128) s
      then case json_value float_of (Suc (length s)) (skip_ws s) of
          Some (j, rest) \<Rightarrow> if skip_ws rest = [] then Some j else None
        | None \<Rightarrow> None
      else None)"

subsection \<open>Round trips\<close>

lemma utf8_roundtrip: "utf8_decode (utf8_encode s) = Some s"
proof (induction s)
  case (Cons c s)
  let ?n = "of_char c :: nat"
  have n: "?n < 256" by (rule nat_of_char_less_256)
  show ?case
  proof (cases "?n < 128")
    case True
    with Cons show ?thesis by (simp add: utf8_encode_def utf8_point_def)
  next
    case False
    then have "192 + ?n div 64 = 194 \<or> 192 + ?n div 64 = 195" using n by linarith
    moreover have "?n div 64 * 64 + ?n mod 64 = ?n" by simp
    ultimately show ?thesis using Cons False by (auto simp: utf8_encode_def utf8_point_def)
  qed
qed (simp add: utf8_encode_def)

lemma position_nth: "distinct ys \<Longrightarrow> n < length ys \<Longrightarrow> position (ys ! n) ys = Some n"
  by (induction ys arbitrary: n) (auto simp: nth_Cons split: nat.splits)

lemma position_None: "position x ys = None \<longleftrightarrow> x \<notin> set ys"
  by (induction ys) auto

lemma distinct_base64: "distinct base64_alphabet"
  by (simp add: base64_alphabet_def)

lemma length_base64: "length base64_alphabet = 64"
  by (simp add: base64_alphabet_def)

lemma b64_value_char [simp]: "n < 64 \<Longrightarrow> b64_value (b64_char n) = Some n"
  unfolding b64_value_def b64_char_def by (rule position_nth [OF distinct_base64]) (simp add: length_base64)

lemma b64_value_pad [simp]: "b64_value pad = None"
  by (simp add: b64_value_def position_None base64_alphabet_def)

lemma pack: "y < k \<Longrightarrow> (x * k + y) div k = x \<and> (x * k + y) mod k = (y :: nat)"
  by simp

lemma base64_roundtrip: "\<forall>b \<in> set bs. b < 256 \<Longrightarrow> b64decode (b64encode bs) = Some bs"
proof (induction bs rule: b64encode.induct)
  case (4 a b c bs)
  have less: "a < 256" "b < 256" "c < 256" using "4.prems" by simp_all
  then have "a div 4 < 64" "a mod 4 * 16 + b div 16 < 64" "b mod 16 * 4 + c div 64 < 64" "c mod 64 < 64"
    by linarith+
  moreover have "b div 16 < 16" "c div 64 < 4" using less by linarith+
  then have "a div 4 * 4 + (a mod 4 * 16 + b div 16) div 16 = a"
    "(a mod 4 * 16 + b div 16) mod 16 * 16 + (b mod 16 * 4 + c div 64) div 4 = b"
    "(b mod 16 * 4 + c div 64) mod 4 * 64 + c mod 64 = c"
    using pack [of "b div 16" 16 "a mod 4"] pack [of "c div 64" 4 "b mod 16"] by (metis div_mult_mod_eq)+
  ultimately show ?case using 4 by simp
next
  case (2 a)
  then have "a < 256" by simp
  moreover from this have "a div 4 < 64" "a mod 4 * 16 < 64" by linarith+
  moreover have "a div 4 * 4 + a mod 4 * 16 div 16 = a" by simp
  ultimately show ?case by simp
next
  case (3 a b)
  then have less: "a < 256" "b < 256" by simp_all
  then have "a div 4 < 64" "a mod 4 * 16 + b div 16 < 64" "b mod 16 * 4 < 64" by linarith+
  moreover have "b div 16 < 16" using less by linarith
  then have "a div 4 * 4 + (a mod 4 * 16 + b div 16) div 16 = a"
    "(a mod 4 * 16 + b div 16) mod 16 * 16 + b mod 16 * 4 div 4 = b"
    using pack [of "b div 16" 16 "a mod 4"] by (simp_all add: div_mult_mod_eq)
  ultimately show ?case by simp
qed simp

end
