(* ===== verification/Rate_Limits.thy ===== *)
theory Rate_Limits
  imports Audit_Trail Encoding
begin

text \<open>
  The distributed request limiter (\<open>rate_limits.py\<close>): fixed windows counted in the database,
  one row per scope and subject digest. \<open>sha_bytes\<close> stands for the hexadecimal SHA-256 digest
  of a byte sequence. The locale \<open>fixed_window\<close> states what a limiter promises its clients
  and how many attempts of a burst pass; the model's limiter interprets it.
\<close>

subsection \<open>Subjects\<close>

text \<open>
  \<open>str.strip()\<close>, \<open>str.casefold()\<close> and \<open>str.encode()\<close> on the code points below 256:
  casefolding maps the sharp s to two letters and the micro sign to the Greek letter mu.
\<close>

definition whitespace :: "nat \<Rightarrow> bool" where
  "whitespace n \<longleftrightarrow> (9 \<le> n \<and> n \<le> 13) \<or> (28 \<le> n \<and> n \<le> 32) \<or> n = 133 \<or> n = 160"

definition strip_points :: "nat list \<Rightarrow> nat list" where
  "strip_points xs = rev (dropWhile whitespace (rev (dropWhile whitespace xs)))"

definition casefold_point :: "nat \<Rightarrow> nat list" where
  "casefold_point n =
     (if 65 \<le> n \<and> n \<le> 90 \<or> 192 \<le> n \<and> n \<le> 222 \<and> n \<noteq> 215 then [n + 32]
      else if n = 223 then [115, 115]
      else if n = 181 then [956]
      else [n])"

definition login_subject :: "(bytes \<Rightarrow> string) \<Rightarrow> string \<Rightarrow> string" where
  "login_subject sha_bytes username =
     sha_bytes (concat (map utf8_point (concat (map casefold_point (strip_points (map of_char username))))))"

definition uuid_bytes :: "uuid \<Rightarrow> bytes" where
  "uuid_bytes i = (case i of UUID w \<Rightarrow>
     map (\<lambda>k. (unat w div 256 ^ (15 - k)) mod 256) [0..<16])"

definition principal_subject :: "(bytes \<Rightarrow> string) \<Rightarrow> uuid \<Rightarrow> string" where
  "principal_subject sha_bytes principal_id = sha_bytes (uuid_bytes principal_id)"

subsection \<open>Counting an attempt\<close>

text \<open>The cleanup deletes at most 100 expired windows, the earliest first.\<close>

definition cleanup_windows :: "instant \<Rightarrow> rate_window list \<Rightarrow> rate_window list" where
  "cleanup_windows now ws =
     (let stale = take 100 (sort_key w_expires_at (filter (\<lambda>w. w_expires_at w \<le> now) ws)) in
      delete_where (\<lambda>w. w \<in> set stale) ws)"

definition fresh_window :: "instant \<Rightarrow> string \<Rightarrow> string \<Rightarrow> int \<Rightarrow> rate_window" where
  "fresh_window now scope subject_hash window_seconds =
     \<lparr>w_scope = scope, w_subject_hash = subject_hash, w_started_at = now,
      w_expires_at = now + window_seconds * 1000000, w_attempts = 1\<rparr>"

definition bump_window :: "instant \<Rightarrow> int \<Rightarrow> rate_window \<Rightarrow> rate_window" where
  "bump_window now window_seconds w =
     (if w_expires_at w \<le> now
      then w\<lparr>w_started_at := now, w_expires_at := now + window_seconds * 1000000, w_attempts := 1\<rparr>
      else w\<lparr>w_attempts := w_attempts w + 1\<rparr>)"

text \<open>The column \<open>attempts\<close> is a 32-bit integer; PostgreSQL raises when it overflows.\<close>

definition MAX_ATTEMPTS :: int where
  "MAX_ATTEMPTS = 2147483647"

definition is_window :: "string \<Rightarrow> string \<Rightarrow> rate_window \<Rightarrow> bool" where
  "is_window scope subject_hash w \<longleftrightarrow> w_scope w = scope \<and> w_subject_hash w = subject_hash"

definition upsert_window ::
  "instant \<Rightarrow> string \<Rightarrow> string \<Rightarrow> int \<Rightarrow> rate_window list \<Rightarrow> exc + rate_window list" where
  "upsert_window now scope subject_hash window_seconds ws =
     (if list_ex (is_window scope subject_hash) ws
      then if list_ex (\<lambda>w. is_window scope subject_hash w \<and>
                           w_attempts (bump_window now window_seconds w) > MAX_ATTEMPTS) ws
           then Inl DataError
           else Inr (update_where (is_window scope subject_hash) (bump_window now window_seconds) ws)
      else Inr (ws @ [fresh_window now scope subject_hash window_seconds]))"

text \<open>\<open>math.ceil\<close> of the microseconds left, in seconds.\<close>

definition ceil_seconds :: "int \<Rightarrow> int" where
  "ceil_seconds us = - ((- us) div 1000000)"

definition count_attempt ::
  "ctx \<Rightarrow> string \<Rightarrow> string \<Rightarrow> int \<Rightarrow> db \<Rightarrow> exc + ((int \<times> int) \<times> db)" where
  "count_attempt cx scope subject_hash window_seconds d =
     bindE (write_windows (cleanup_windows (cx_now cx) (db_windows d)) d) (\<lambda>d1.
     bindE (upsert_window (cx_now cx) scope subject_hash window_seconds (db_windows d1)) (\<lambda>ws.
     bindE (write_windows ws d1) (\<lambda>d2.
     bindE (one (filter (is_window scope subject_hash) (db_windows d2))) (\<lambda>w.
       Inr ((w_attempts w, ceil_seconds (w_expires_at w - cx_now cx)), d2)))))"

definition enforce_rate_limit ::
  "ctx \<Rightarrow> string \<Rightarrow> string \<Rightarrow> int \<Rightarrow> int \<Rightarrow> db \<Rightarrow> (exc + unit) \<times> db" where
  "enforce_rate_limit cx scope subject_hash allowed_attempts window_seconds d =
     then_tx (run_tx (count_attempt cx scope subject_hash window_seconds) d) (\<lambda>(attempts, retry) d'.
       if attempts > allowed_attempts
       then (Inl (RateLimitExceeded (max 1 retry)), d')
       else (Inr (), d'))"

end
