(* ===== verification/Identity_Api.thy ===== *)
theory Identity_Api
  imports Identity Rate_Limits
begin

text \<open>
  The identity routes (\<open>identity/api\<close>): the authentication dependencies and one
  definition per route. A route runs on the database and returns its response or the exception
  with the database it leaves: authentication is a transaction of its own, committed before
  the body of the route runs in another one. A route receives the request body after FastAPI
  has validated it. \<open>204\<close> responses are \<open>()\<close>.
\<close>

subsection \<open>Authentication dependencies\<close>

text \<open>
  The request: the scheme and the credentials of the \<open>Authorization\<close> header when there is one,
  the timestamps of the authentication transaction and of the route's own transaction.
\<close>

record request_env =
  rv_credentials :: "(string \<times> string) option"
  rv_auth :: ctx
  rv_cx :: ctx

definition lower_char :: "char \<Rightarrow> char" where
  "lower_char c = (let n = (of_char c :: nat) in
     if 65 \<le> n \<and> n \<le> 90 \<or> 192 \<le> n \<and> n \<le> 222 \<and> n \<noteq> 215 then char_of (n + 32) else c)"

definition authenticated ::
  "(string \<Rightarrow> string) \<Rightarrow> request_env \<Rightarrow> db \<Rightarrow> (exc + authenticated_principal) \<times> db" where
  "authenticated sha env d =
     (case rv_credentials env of
        None \<Rightarrow> (Inl (http 401 ''Authentication required''), d)
      | Some (scheme, token) \<Rightarrow>
          if map lower_char scheme \<noteq> ''bearer'' then (Inl (http 401 ''Authentication required''), d)
          else case run_tx (authenticate_token sha (rv_auth env) token) d of
              (Inl AuthenticationError, d') \<Rightarrow> (Inl (http 401 ''Invalid bearer token''), d')
            | r \<Rightarrow> r)"

definition administrator ::
  "(string \<Rightarrow> string) \<Rightarrow> request_env \<Rightarrow> db \<Rightarrow> (exc + authenticated_principal) \<times> db" where
  "administrator sha env d =
     then_tx (authenticated sha env d) (\<lambda>current d'.
       if p_role (ap_principal current) \<noteq> Admin
       then (Inl (http 403 ''Administrator permission required''), d')
       else (Inr current, d'))"

abbreviation actor_of :: "authenticated_principal \<Rightarrow> uuid" where
  "actor_of current \<equiv> p_id (ap_principal current)"

subsection \<open>Login\<close>

text \<open>\<open>Retry-After\<close> carries the seconds in decimal.\<close>

definition login_route ::
  "(bytes \<Rightarrow> string) \<Rightarrow> (string \<Rightarrow> string) \<Rightarrow> (string \<Rightarrow> string \<Rightarrow> argon2_result) \<Rightarrow> string \<Rightarrow>
   int \<Rightarrow> int \<Rightarrow> int \<Rightarrow> ctx \<Rightarrow> ctx \<Rightarrow> instant \<Rightarrow> uuid \<Rightarrow> string \<Rightarrow> string \<Rightarrow> string \<Rightarrow> db \<Rightarrow>
     (exc + login_response) \<times> db" where
  "login_route sha_bytes sha verify dummy_hash login_ttl attempts window cx_limit cx app_now
       token_id random username password d =
     (case then_tx (enforce_rate_limit cx_limit ''login'' (login_subject sha_bytes username)
                      attempts window d)
            (\<lambda>_. run_tx (login sha verify dummy_hash login_ttl cx app_now token_id random
                           username password)) of
        (Inl (RateLimitExceeded n), d') \<Rightarrow>
          (Inl (HTTPException 429 ''Too many login attempts'' [(''Retry-After'', dec_int n)]), d')
      | (Inl AuthenticationError, d') \<Rightarrow> (Inl (http 401 ''Invalid username or password''), d')
      | r \<Rightarrow> r)"

subsection \<open>Users\<close>

definition create_user where
  "create_user sha env user_id hashed rq d =
     then_tx (administrator sha env d) (\<lambda>admin d1.
       catch_integrity (http 409 ''Principal name already exists'')
         (run_tx (create_principal (rv_cx env) user_id hashed rq User (actor_of admin)) d1))"

definition list_users where
  "list_users sha coll env d =
     then_tx (administrator sha env d) (\<lambda>_. read_tx (\<lambda>d1. Inr (list_principals coll User d1)))"

definition get_user where
  "get_user sha env user_id d =
     then_tx (administrator sha env d) (\<lambda>_. read_tx (fetch_principal user_id User))"

text \<open>The body of the update transaction: the demotion guard, then the update.\<close>

definition guarded_update ::
  "ctx \<Rightarrow> uuid \<Rightarrow> principal_update \<Rightarrow> uuid \<Rightarrow> db \<Rightarrow> exc + (principal \<times> db)" where
  "guarded_update cx user_id rq actor_id d =
     (if pu_role rq = Some RegularUser \<and> active_administrators d = [user_id]
      then Inl (http 409 ''The final active administrator cannot be demoted'')
      else update_principal cx user_id rq User actor_id d)"

definition update_user where
  "update_user sha env user_id rq d =
     then_tx (administrator sha env d) (\<lambda>admin.
       run_tx (guarded_update (rv_cx env) user_id rq (actor_of admin)))"

definition archive_user where
  "archive_user sha env user_id d =
     then_tx (administrator sha env d) (\<lambda>admin.
       run_tx (archive_principal (rv_cx env) user_id User (actor_of admin)))"

definition set_password :: "ctx \<Rightarrow> uuid \<Rightarrow> string \<Rightarrow> db \<Rightarrow> exc + db" where
  "set_password cx principal_id hashed =
     update_credentials (\<lambda>c. pc_principal_id c = principal_id)
       (\<lambda>c. c\<lparr>pc_password_hash := hashed, pc_updated_at := cx_now cx\<rparr>)"

definition reset_password :: "ctx \<Rightarrow> uuid \<Rightarrow> string \<Rightarrow> uuid \<Rightarrow> db \<Rightarrow> exc + (unit \<times> db)" where
  "reset_password cx user_id hashed actor_id d =
     bindE (set_password cx user_id hashed d) (\<lambda>d1.
     bindE (one_or_none (filter (\<lambda>c. pc_principal_id c = user_id) (db_credentials d1))) (\<lambda>row.
     bindE (found_or (http 404 ''User not found'') row) (\<lambda>_.
     bindE (record_audit_event cx (Some actor_id) ''password.reset'' ''Principal'' user_id [] d1)
       (\<lambda>d2. Inr ((), d2)))))"

definition reset_user_password where
  "reset_user_password sha env user_id hashed d =
     then_tx (administrator sha env d) (\<lambda>admin.
       run_tx (reset_password (rv_cx env) user_id hashed (actor_of admin)))"

subsection \<open>Service identities and tokens\<close>

definition create_service where
  "create_service sha env identity_id hashed rq d =
     then_tx (administrator sha env d) (\<lambda>admin d1.
       catch_integrity (http 409 ''Principal name already exists'')
         (run_tx (create_principal (rv_cx env) identity_id hashed rq Service (actor_of admin)) d1))"

definition list_services where
  "list_services sha coll env d =
     then_tx (administrator sha env d) (\<lambda>_. read_tx (\<lambda>d1. Inr (list_principals coll Service d1)))"

definition get_service where
  "get_service sha env identity_id d =
     then_tx (administrator sha env d) (\<lambda>_. read_tx (fetch_principal identity_id Service))"

definition update_service where
  "update_service sha env identity_id rq d =
     then_tx (administrator sha env d) (\<lambda>admin.
       run_tx (update_principal (rv_cx env) identity_id rq Service (actor_of admin)))"

definition archive_service where
  "archive_service sha env identity_id d =
     then_tx (administrator sha env d) (\<lambda>admin.
       run_tx (archive_principal (rv_cx env) identity_id Service (actor_of admin)))"

definition issue_service_token ::
  "(string \<Rightarrow> string) \<Rightarrow> ctx \<Rightarrow> uuid \<Rightarrow> string \<Rightarrow> uuid \<Rightarrow> token_create \<Rightarrow> uuid \<Rightarrow> db \<Rightarrow> exc + (token_issued \<times> db)" where
  "issue_service_token sha cx token_id random identity_id rq actor_id d =
     bindE (fetch_principal identity_id Service d) (\<lambda>_.
     bindE (issue_token sha cx token_id random identity_id (tc_name rq) (tc_expires_at rq) d) (\<lambda>(issued, d1).
     bindE (record_audit_event cx (Some actor_id) ''api_token.created'' ''ApiToken'' (tr_id issued) [] d1)
       (\<lambda>d2. Inr (issued, d2))))"

definition past_expiry :: "instant \<Rightarrow> token_create \<Rightarrow> bool" where
  "past_expiry app_now rq \<longleftrightarrow> (case tc_expires_at rq of None \<Rightarrow> False | Some e \<Rightarrow> e \<le> app_now)"

definition create_service_token where
  "create_service_token sha env app_now token_id random identity_id rq d =
     then_tx (administrator sha env d) (\<lambda>admin d1.
       if past_expiry app_now rq then (Inl (http 400 ''Token expiration must be in the future''), d1)
       else run_tx (issue_service_token sha (rv_cx env) token_id random identity_id rq (actor_of admin)) d1)"

definition list_service_tokens where
  "list_service_tokens sha env identity_id d =
     then_tx (administrator sha env d) (\<lambda>_. read_tx (\<lambda>d1.
       bindE (fetch_principal identity_id Service d1) (\<lambda>_. Inr (list_tokens identity_id d1))))"

text \<open>The body shared by the two revocation routes: the token must be the named principal's.\<close>

definition revoke_token :: "ctx \<Rightarrow> uuid \<Rightarrow> uuid \<Rightarrow> uuid \<Rightarrow> db \<Rightarrow> exc + (unit \<times> db)" where
  "revoke_token cx token_id principal_id actor_id d =
     (let p = (\<lambda>t. t_id t = token_id \<and> t_principal_id t = principal_id) in
      bindE (update_tokens p (\<lambda>t. t\<lparr>t_revoked_at := Some (coalesce (t_revoked_at t) (cx_now cx))\<rparr>) d) (\<lambda>d1.
      bindE (one_or_none (filter p (db_tokens d1))) (\<lambda>row.
      bindE (found_or (http 404 ''Token not found'') row) (\<lambda>_.
      bindE (record_audit_event cx (Some actor_id) ''api_token.revoked'' ''ApiToken'' token_id [] d1)
        (\<lambda>d2. Inr ((), d2))))))"

definition revoke_service_token where
  "revoke_service_token sha env identity_id token_id d =
     then_tx (administrator sha env d) (\<lambda>admin.
       run_tx (revoke_token (rv_cx env) token_id identity_id (actor_of admin)))"

subsection \<open>The authenticated principal itself\<close>

definition get_me where
  "get_me sha env d = then_tx (authenticated sha env d) (\<lambda>current d1. (Inr (ap_principal current), d1))"

definition change_password :: "ctx \<Rightarrow> uuid \<Rightarrow> string \<Rightarrow> db \<Rightarrow> exc + (unit \<times> db)" where
  "change_password cx principal_id hashed d =
     bindE (set_password cx principal_id hashed d) (\<lambda>d1.
     bindE (record_audit_event cx (Some principal_id) ''password.changed'' ''Principal'' principal_id [] d1)
       (\<lambda>d2. Inr ((), d2)))"

definition change_my_password where
  "change_my_password sha env hashed d =
     then_tx (authenticated sha env d) (\<lambda>current d1.
       if p_kind (ap_principal current) \<noteq> User
       then (Inl (http 400 ''Service identities do not have passwords''), d1)
       else run_tx (change_password (rv_cx env) (actor_of current) hashed) d1)"

definition issue_my_token ::
  "(string \<Rightarrow> string) \<Rightarrow> ctx \<Rightarrow> uuid \<Rightarrow> string \<Rightarrow> uuid \<Rightarrow> token_create \<Rightarrow> db \<Rightarrow> exc + (token_issued \<times> db)" where
  "issue_my_token sha cx token_id random principal_id rq d =
     bindE (issue_token sha cx token_id random principal_id (tc_name rq) (tc_expires_at rq) d) (\<lambda>(issued, d1).
     bindE (record_audit_event cx (Some principal_id) ''api_token.created'' ''ApiToken'' (tr_id issued) [] d1)
       (\<lambda>d2. Inr (issued, d2)))"

definition create_my_token where
  "create_my_token sha env app_now token_id random rq d =
     then_tx (authenticated sha env d) (\<lambda>current d1.
       if past_expiry app_now rq then (Inl (http 400 ''Token expiration must be in the future''), d1)
       else run_tx (issue_my_token sha (rv_cx env) token_id random (actor_of current) rq) d1)"

definition list_my_tokens where
  "list_my_tokens sha env d =
     then_tx (authenticated sha env d) (\<lambda>current. read_tx (\<lambda>d1. Inr (list_tokens (actor_of current) d1)))"

definition revoke_my_token where
  "revoke_my_token sha env token_id d =
     then_tx (authenticated sha env d) (\<lambda>current.
       run_tx (revoke_token (rv_cx env) token_id (actor_of current) (actor_of current)))"

subsection \<open>Groups and memberships\<close>

definition create_group_route where
  "create_group_route sha env group_id rq d =
     then_tx (administrator sha env d) (\<lambda>admin d1.
       catch_integrity (http 409 ''Group name already exists'')
         (run_tx (create_group (rv_cx env) group_id rq (actor_of admin)) d1))"

definition list_groups_route where
  "list_groups_route sha coll env d =
     then_tx (administrator sha env d) (\<lambda>_. read_tx (\<lambda>d1. Inr (list_groups coll d1)))"

definition get_group where
  "get_group sha env group_id d =
     then_tx (administrator sha env d) (\<lambda>_. read_tx (fetch_group group_id))"

definition update_group_route where
  "update_group_route sha env group_id rq d =
     then_tx (administrator sha env d) (\<lambda>admin.
       run_tx (update_group (rv_cx env) group_id rq (actor_of admin)))"

definition archive_group_route where
  "archive_group_route sha env group_id d =
     then_tx (administrator sha env d) (\<lambda>admin.
       run_tx (archive_group (rv_cx env) group_id (actor_of admin)))"

definition is_member :: "uuid \<Rightarrow> uuid \<Rightarrow> membership \<Rightarrow> bool" where
  "is_member group_id user_id m \<longleftrightarrow> m_group_id m = group_id \<and> m_principal_id m = user_id"

definition add_member :: "ctx \<Rightarrow> uuid \<Rightarrow> uuid \<Rightarrow> uuid \<Rightarrow> db \<Rightarrow> exc + (unit \<times> db)" where
  "add_member cx group_id user_id actor_id d =
     bindE (fetch_principal user_id User d) (\<lambda>principal.
       if p_archived_at principal \<noteq> None
       then Inl (http 409 ''Archived users cannot join groups'')
       else
         bindE (if list_ex (is_member group_id user_id) (db_memberships d) then Inr d
                else write_memberships (db_memberships d @
                  [\<lparr>m_group_id = group_id, m_principal_id = user_id, m_created_at = cx_now cx\<rparr>]) d) (\<lambda>d1.
         bindE (record_audit_event cx (Some actor_id) ''group.member_added'' ''Group'' group_id [] d1)
           (\<lambda>d2. Inr ((), d2))))"

definition add_group_member where
  "add_group_member sha env group_id user_id d =
     then_tx (administrator sha env d) (\<lambda>admin d1.
       catch_integrity (http 404 ''Group not found'')
         (run_tx (add_member (rv_cx env) group_id user_id (actor_of admin)) d1))"

definition remove_member :: "ctx \<Rightarrow> uuid \<Rightarrow> uuid \<Rightarrow> uuid \<Rightarrow> db \<Rightarrow> exc + (unit \<times> db)" where
  "remove_member cx group_id user_id actor_id d =
     bindE (write_memberships (delete_where (is_member group_id user_id) (db_memberships d)) d) (\<lambda>d1.
     bindE (record_audit_event cx (Some actor_id) ''group.member_removed'' ''Group'' group_id [] d1)
       (\<lambda>d2. Inr ((), d2)))"

definition remove_group_member where
  "remove_group_member sha env group_id user_id d =
     then_tx (administrator sha env d) (\<lambda>admin.
       run_tx (remove_member (rv_cx env) group_id user_id (actor_of admin)))"

end
