(* ===== verification/Identity_Laws.thy ===== *)
theory Identity_Laws
  imports Identity_Api
begin

text \<open>
  What identity guarantees: which bearer tokens authenticate, that revocation and archival end
  access, that a failed login says nothing about the account, and that the last administrator
  who can log in is never lost.
\<close>

subsection \<open>Tables after the statements\<close>

lemma update_principalsD:
  assumes "update_principals cx p f d = Inr d'"
  shows "d' = d\<lparr>db_principals := update_where p (\<lambda>r. (f r)\<lparr>p_updated_at := cx_now cx\<rparr>) (db_principals d)\<rparr>"
  using assms by (auto simp: update_principals_def write_principals_def split: if_splits)

lemma update_tokensD: "update_tokens p f d = Inr d' \<Longrightarrow> d' = d\<lparr>db_tokens := update_where p f (db_tokens d)\<rparr>"
  by (auto simp: update_tokens_def write_tokens_def split: if_splits)

lemma update_credentialsD:
  "update_credentials p f d = Inr d' \<Longrightarrow> d' = d\<lparr>db_credentials := update_where p f (db_credentials d)\<rparr>"
  by (auto simp: update_credentials_def write_credentials_def split: if_splits)

lemma update_groupsD:
  assumes "update_groups cx p f d = Inr d'"
  shows "d' = d\<lparr>db_groups := update_where p (\<lambda>r. (f r)\<lparr>g_updated_at := cx_now cx\<rparr>) (db_groups d)\<rparr>"
  using assms by (auto simp: update_groups_def write_groups_def split: if_splits)

lemma principals_unique: "db_ok d \<Longrightarrow> unique_on p_id (db_principals d)"
  by (simp add: db_ok_def principals_valid_def)

lemma principal_id_inj:
  "db_ok d \<Longrightarrow> p \<in> set (db_principals d) \<Longrightarrow> q \<in> set (db_principals d) \<Longrightarrow> p_id p = p_id q \<Longrightarrow> p = q"
  by (rule unique_on_inj [OF principals_unique])

lemma tokens_unique: "db_ok d \<Longrightarrow> unique_on t_id (db_tokens d) \<and> unique_on t_token_hash (db_tokens d)"
  by (simp add: db_ok_def tokens_valid_def)

lemma token_hash_inj:
  "db_ok d \<Longrightarrow> t \<in> set (db_tokens d) \<Longrightarrow> u \<in> set (db_tokens d) \<Longrightarrow> t_token_hash t = t_token_hash u \<Longrightarrow> t = u"
  using unique_on_inj [of t_token_hash "db_tokens d"] tokens_unique by blast

lemma credentials_unique: "db_ok d \<Longrightarrow> unique_on pc_principal_id (db_credentials d)"
  by (simp add: db_ok_def credentials_valid_def)

lemma unique_on_distinct: "unique_on key rows \<Longrightarrow> distinct rows"
  by (simp add: unique_on_def distinct_map)

subsection \<open>Joins\<close>

text \<open>The rows of an inner join: distinct when both tables are.\<close>

lemma join_as_filter: "[(x, y). x \<leftarrow> xs, y \<leftarrow> ys, q x y] = filter (\<lambda>(x, y). q x y) (List.product xs ys)"
proof (induction xs)
  case (Cons x xs)
  have "concat (map (\<lambda>y. if q x y then [(x, y)] else []) ys) = filter (\<lambda>(x, y). q x y) (map (Pair x) ys)"
    by (induction ys) auto
  with Cons show ?case by simp
qed simp

lemma distinct_join: "distinct xs \<Longrightarrow> distinct ys \<Longrightarrow> distinct [(x, y). x \<leftarrow> xs, y \<leftarrow> ys, q x y]"
  by (subst join_as_filter) (simp add: distinct_product)

lemma single_row:
  assumes "distinct rows" and "x \<in> set rows" and "\<And>y. y \<in> set rows \<Longrightarrow> y = x"
  shows "rows = [x]"
proof (rule distinct_set_single [OF assms(1)])
  show "set rows = {x}" using assms(2,3) by blast
qed

subsection \<open>Bearer tokens\<close>

lemma token_rows_mem:
  "(p, t) \<in> set (token_rows digest cx d) \<longleftrightarrow>
     p \<in> set (db_principals d) \<and> t \<in> set (db_tokens d) \<and> t_principal_id t = p_id p \<and>
     t_token_hash t = digest \<and> token_live (cx_now cx) t \<and> p_archived_at p = None"
  by (auto simp: token_rows_def)

lemma token_live_iff:
  "token_live now t \<longleftrightarrow> t_revoked_at t = None \<and> (\<forall>e. t_expires_at t = Some e \<longrightarrow> now < e)"
  by (auto simp: token_live_def split: option.splits)

lemma token_rows_single:
  assumes "db_ok d" and "(p, t) \<in> set (token_rows digest cx d)"
  shows "token_rows digest cx d = [(p, t)]"
proof (rule single_row [OF _ assms(2)])
  show "distinct (token_rows digest cx d)"
    unfolding token_rows_def
    using unique_on_distinct [OF principals_unique [OF assms(1)]] tokens_unique [OF assms(1)]
    by (intro distinct_join) (auto dest: unique_on_distinct)
  fix row assume "row \<in> set (token_rows digest cx d)"
  moreover obtain q u where "row = (q, u)" by (cases row)
  ultimately have row: "row = (q, u)" "(q, u) \<in> set (token_rows digest cx d)" by simp_all
  have "u = t" using row assms token_hash_inj [OF assms(1), of u t] by (auto simp: token_rows_mem)
  moreover have "q = p"
    using principal_id_inj [OF assms(1), of q p] row assms(2) \<open>u = t\<close> by (auto simp: token_rows_mem)
  ultimately show "row = (p, t)" using row by simp
qed

lemma api_token_check_touch [simp]:
  "api_token_check (t\<lparr>t_last_used_at := x\<rparr>) = api_token_check t"
  "api_token_check (t\<lparr>t_revoked_at := x\<rparr>) = api_token_check t"
  by (simp_all add: api_token_check_def split: option.splits)

lemma touch_token_succeeds:
  assumes "db_ok d" and "\<And>t. t_id (f t) = t_id t" and "\<And>t. t_token_hash (f t) = t_token_hash t"
    and "\<And>t. api_token_check t \<Longrightarrow> api_token_check (f t)" and "\<And>t. t_principal_id (f t) = t_principal_id t"
  shows "update_tokens p f d = Inr (d\<lparr>db_tokens := update_where p f (db_tokens d)\<rparr>)"
proof -
  have v: "tokens_valid d (db_tokens d)" using assms(1) by (simp add: db_ok_def)
  have "list_all (\<lambda>t. api_token_check t \<and> principal_exists d (t_principal_id t)) (update_where p f (db_tokens d))"
    using v assms(4,5) by (intro list_all_update_where) (auto simp: tokens_valid_def)
  with v assms(2,3) show ?thesis
    by (simp add: update_tokens_def write_tokens_def tokens_valid_def unique_on_update_where)
qed

text \<open>
  C27: A bearer token authenticates exactly when a stored token has its digest, is neither revoked
  nor expired, and belongs to a principal that is not archived; then the answer is that
  principal and only the token's last-use time changes. Otherwise authentication fails the same
  way whatever the reason.
\<close>

theorem authenticate_token_iff:
  assumes "db_ok d"
  shows "(case authenticate_token sha cx token d of
      Inr (a, d') \<Rightarrow> \<exists>t \<in> set (db_tokens d). t_token_hash t = sha token \<and> t_revoked_at t = None \<and>
        (\<forall>e. t_expires_at t = Some e \<longrightarrow> cx_now cx < e) \<and> ap_token_id a = t_id t \<and>
        ap_principal a \<in> set (db_principals d) \<and> p_id (ap_principal a) = t_principal_id t \<and>
        p_archived_at (ap_principal a) = None \<and>
        d' = d\<lparr>db_tokens := map (\<lambda>x. if t_id x = t_id t then x\<lparr>t_last_used_at := Some (cx_now cx)\<rparr> else x)
               (db_tokens d)\<rparr>
    | Inl e \<Rightarrow> e = AuthenticationError \<and>
        \<not> (\<exists>t \<in> set (db_tokens d). \<exists>p \<in> set (db_principals d). t_token_hash t = sha token \<and>
             t_principal_id t = p_id p \<and> t_revoked_at t = None \<and>
             (\<forall>e. t_expires_at t = Some e \<longrightarrow> cx_now cx < e) \<and> p_archived_at p = None))"
proof (cases "token_rows (sha token) cx d")
  case Nil
  have "\<not> (t \<in> set (db_tokens d) \<and> p \<in> set (db_principals d) \<and> t_token_hash t = sha token \<and>
      t_principal_id t = p_id p \<and> token_live (cx_now cx) t \<and> p_archived_at p = None)" for p t
    using Nil token_rows_mem [of p t "sha token" cx d] by simp
  then show ?thesis
    using Nil unfolding token_live_iff by (simp add: authenticate_token_def token_hash_def)
next
  case (Cons row rest)
  obtain p t where row: "row = (p, t)" by fastforce
  then have mem: "(p, t) \<in> set (token_rows (sha token) cx d)" using Cons by simp
  have up: "update_tokens (\<lambda>x. t_id x = t_id t) (\<lambda>x. x\<lparr>t_last_used_at := Some (cx_now cx)\<rparr>) d =
      Inr (d\<lparr>db_tokens := update_where (\<lambda>x. t_id x = t_id t)
        (\<lambda>x. x\<lparr>t_last_used_at := Some (cx_now cx)\<rparr>) (db_tokens d)\<rparr>)"
    by (rule touch_token_succeeds [OF assms]) simp_all
  have facts: "t \<in> set (db_tokens d)" "t_token_hash t = sha token" "t_revoked_at t = None"
    "\<forall>e. t_expires_at t = Some e \<longrightarrow> cx_now cx < e" "p \<in> set (db_principals d)"
    "p_id p = t_principal_id t" "p_archived_at p = None"
    using mem by (auto simp: token_rows_mem token_live_def split: option.splits)
  show ?thesis
    using token_rows_single [OF assms mem] up facts
    by (auto simp: authenticate_token_def token_hash_def update_where_def)
qed

lemma authenticate_token_Inr:
  assumes "db_ok d" and "(p, t) \<in> set (token_rows (sha token) cx d)"
  shows "\<exists>d'. authenticate_token sha cx token d = Inr (\<lparr>ap_principal = p, ap_token_id = t_id t\<rparr>, d')"
proof -
  have up: "update_tokens (\<lambda>x. t_id x = t_id t) (\<lambda>x. x\<lparr>t_last_used_at := Some (cx_now cx)\<rparr>) d =
      Inr (d\<lparr>db_tokens := update_where (\<lambda>x. t_id x = t_id t)
        (\<lambda>x. x\<lparr>t_last_used_at := Some (cx_now cx)\<rparr>) (db_tokens d)\<rparr>)"
    by (rule touch_token_succeeds [OF assms(1)]) simp_all
  show ?thesis
    using token_rows_single [OF assms] up by (simp add: authenticate_token_def token_hash_def)
qed

lemma authenticate_token_Inl:
  "token_rows (sha token) cx d = [] \<Longrightarrow> authenticate_token sha cx token d = Inl AuthenticationError"
  by (simp add: authenticate_token_def token_hash_def)

lemma issued_token_row:
  assumes "issue_token sha cx token_id random principal_id name expires_at d = Inr (issued, d')" and "db_ok d"
  obtains t where "d' = d\<lparr>db_tokens := db_tokens d @ [t]\<rparr>" "t_principal_id t = principal_id"
    "t_token_hash t = sha (ti_token issued)" "t_id t = token_id" "tr_id issued = token_id"
    "t_revoked_at t = None" "t_expires_at t = expires_at" "ti_token issued = ''srm_'' @ random"
    "db_ok d' \<and> extends d d'"
proof -
  let ?t = "\<lparr>t_id = token_id, t_principal_id = principal_id, t_name = name,
      t_token_hash = sha (''srm_'' @ random), t_created_at = cx_now cx,
      t_expires_at = expires_at, t_last_used_at = None, t_revoked_at = None\<rparr>"
  have w: "write_tokens (db_tokens d @ [?t]) d = Inr d'"
    and issued: "ti_token issued = ''srm_'' @ random" "tr_id issued = token_id"
    using assms(1) by (auto simp: issue_token_def token_hash_def Let_def bindE_eq_Inr)
  have "d' = d\<lparr>db_tokens := db_tokens d @ [?t]\<rparr>"
    using w by (auto simp: write_tokens_def split: if_splits)
  with issued write_keeps_ok(3) [OF assms(2) w] show thesis by (intro that [of ?t]) simp_all
qed

lemma live_token_authenticates:
  assumes "db_ok d" and "t \<in> set (db_tokens d)" and "p \<in> set (db_principals d)"
    and "t_principal_id t = p_id p" and "t_token_hash t = sha token" and "p_archived_at p = None"
    and "token_live (cx_now cx) t"
  shows "\<exists>d'. authenticate_token sha cx token d = Inr (\<lparr>ap_principal = p, ap_token_id = t_id t\<rparr>, d')"
  by (rule authenticate_token_Inr [OF assms(1)]) (use assms(2-7) in \<open>simp add: token_rows_mem\<close>)

text \<open>
  Issuing a token and presenting it are inverse: the text returned at issue authenticates as
  the principal it was issued for, under the identifier it was issued with, at any time before
  its expiry.
\<close>

theorem issued_token_authenticates:
  assumes "issue_token sha cx token_id random principal_id name expires_at d = Inr (issued, d')"
    and "db_ok d" and "p \<in> set (db_principals d)" and "p_id p = principal_id" and "p_archived_at p = None"
    and "case expires_at of None \<Rightarrow> True | Some e \<Rightarrow> cx_now cx2 < e"
  shows "\<exists>d''. authenticate_token sha cx2 (ti_token issued) d' =
    Inr (\<lparr>ap_principal = p, ap_token_id = tr_id issued\<rparr>, d'')"
  using assms(1,2)
proof (cases rule: issued_token_row)
  case (1 t)
  have "token_live (cx_now cx2) t" using 1 assms(6) by (simp add: token_live_def)
  with 1 assms(3-5) live_token_authenticates [of d' t p sha "ti_token issued" cx2] show ?thesis by simp
qed

text \<open>
  C32: Revocation is immediate: once a token has been revoked, no text with its digest
  authenticates, at any time; revoking it again keeps the time of the first revocation.
\<close>

theorem revoked_token_rejected:
  assumes "revoke_token cx token_id principal_id actor_id d = Inr ((), d')" and "db_ok d"
    and "t \<in> set (db_tokens d)" and "t_id t = token_id" and "sha token = t_token_hash t"
  shows "authenticate_token sha cx2 token d' = Inl AuthenticationError \<and>
    (\<exists>t' \<in> set (db_tokens d'). t_id t' = token_id \<and>
       t_revoked_at t' = Some (case t_revoked_at t of None \<Rightarrow> cx_now cx | Some r \<Rightarrow> r))"
proof -
  let ?p = "\<lambda>t. t_id t = token_id \<and> t_principal_id t = principal_id"
  let ?f = "\<lambda>t. t\<lparr>t_revoked_at := Some (coalesce (t_revoked_at t) (cx_now cx))\<rparr>"
  obtain d1 row where up: "update_tokens ?p ?f d = Inr d1"
    and row: "filter ?p (db_tokens d1) = [row]"
    and ev: "record_audit_event cx (Some actor_id) ''api_token.revoked'' ''ApiToken'' token_id [] d1 = Inr d'"
    using assms(1) by (auto simp: revoke_token_def Let_def bindE_eq_Inr found_or_def split: option.splits)
  have toks: "db_tokens d' = update_where ?p ?f (db_tokens d)"
    using update_tokensD [OF up] frame(3) [OF ev] by simp
  have same: "u = t" if "u \<in> set (db_tokens d)" "t_id u = token_id" for u
    using unique_on_inj [of t_id "db_tokens d" u t] tokens_unique [OF assms(2)] that assms(3,4) by simp
  have hit: "?p t"
  proof -
    have "row \<in> set (update_where ?p ?f (db_tokens d))" "?p row"
      using filter_singleD(1,2) [OF row] update_tokensD [OF up] by simp_all
    then obtain u where "u \<in> set (db_tokens d)" "?p u" by (cases rule: update_where_memE) auto
    with same show ?thesis by blast
  qed
  have t': "?f t \<in> set (db_tokens d')"
    using assms(3) hit by (auto simp: toks set_update_where)
  have "\<not> ((p, u) \<in> set (token_rows (sha token) cx2 d'))" for p u
  proof
    assume "(p, u) \<in> set (token_rows (sha token) cx2 d')"
    then have u: "u \<in> set (update_where ?p ?f (db_tokens d))" "t_token_hash u = t_token_hash t" "t_revoked_at u = None"
      using assms(5) toks by (auto simp: token_rows_mem token_live_def)
    from u(1) show False
    proof (cases rule: update_where_memE)
      case (changed v) with u(3) show False by simp
    next
      case kept
      then have "u = t" using token_hash_inj [OF assms(2) _ assms(3)] u(2) by blast
      with kept hit show False by blast
    qed
  qed
  then have "token_rows (sha token) cx2 d' = []" by (cases "token_rows (sha token) cx2 d'") force+
  then show ?thesis
    using authenticate_token_Inl t' assms(4) by (auto simp: coalesce_def intro!: bexI [OF _ t'])
qed

subsection \<open>Login\<close>

lemma join_map:
  "[f x y. x \<leftarrow> xs, y \<leftarrow> ys, q x y] = map (\<lambda>(x, y). f x y) [(x, y). x \<leftarrow> xs, y \<leftarrow> ys, q x y]"
proof (induction xs)
  case (Cons x xs)
  have "concat (map (\<lambda>y. if q x y then [f x y] else []) ys) =
      map (\<lambda>(x, y). f x y) (concat (map (\<lambda>y. if q x y then [(x, y)] else []) ys))"
    by (induction ys) auto
  with Cons show ?case by simp
qed simp

text \<open>The account a username and a stored hash belong to.\<close>

definition account :: "db \<Rightarrow> string \<Rightarrow> principal \<Rightarrow> credential \<Rightarrow> bool" where
  "account d username p c \<longleftrightarrow> p \<in> set (db_principals d) \<and> c \<in> set (db_credentials d) \<and>
     pc_principal_id c = p_id p \<and> p_name p = username \<and> p_kind p = User \<and> p_archived_at p = None"

lemma account_unique:
  assumes "db_ok d" and "account d username p c" and "account d username q e"
  shows "q = p" and "e = c"
proof -
  have "unique_on p_name (db_principals d)" using assms(1) by (simp add: db_ok_def principals_valid_def)
  then show "q = p" by (rule unique_on_inj) (use assms(2,3) in \<open>auto simp: account_def\<close>)
  with credentials_unique [OF assms(1)] show "e = c"
    by (elim unique_on_inj) (use assms(2,3) in \<open>auto simp: account_def\<close>)
qed

lemma login_rows_account:
  assumes "db_ok d" and "account d username p c"
  shows "login_rows username d = [(p_id p, pc_password_hash c)]"
proof -
  let ?q = "\<lambda>p c. pc_principal_id c = p_id p \<and> p_name p = username \<and> p_kind p = User \<and> p_archived_at p = None"
  let ?j = "[(p, c). p \<leftarrow> db_principals d, c \<leftarrow> db_credentials d, ?q p c]"
  have mem: "(q, e) \<in> set ?j \<longleftrightarrow> account d username q e" for q e by (auto simp: account_def)
  have "?j = [(p, c)]"
  proof (rule single_row)
    show "distinct ?j"
      using unique_on_distinct [OF principals_unique [OF assms(1)]]
        unique_on_distinct [OF credentials_unique [OF assms(1)]] by (rule distinct_join)
    show "(p, c) \<in> set ?j" using mem assms(2) by blast
    fix row assume row: "row \<in> set ?j"
    obtain q e where "row = (q, e)" by (cases row)
    with row mem have "account d username q e" "row = (q, e)" by blast+
    with account_unique [OF assms] show "row = (p, c)" by simp
  qed
  then show ?thesis
    unfolding login_rows_def join_map [where f = "\<lambda>p c. (p_id p, pc_password_hash c)"] by simp
qed

lemma login_rows_none:
  assumes "\<And>p c. \<not> account d username p c"
  shows "login_rows username d = []"
proof -
  have "(i, h) \<notin> set (login_rows username d)" for i h
    using assms by (fastforce simp: login_rows_def account_def)
  then show ?thesis by (cases "login_rows username d") force+
qed

text \<open>
  C28: Login fails in one way: a username that does not exist, an archived account, a service
  identity and a wrong password all raise the same error and leave the database as it was, and
  only a stored password that verifies is accepted: the dummy hash that is verified for unknown
  names never admits anybody. The stored hashes and the dummy hash are taken to be hashes Argon2 can
  decode, as its own \<open>hash\<close> makes them.
\<close>

theorem login_rejects_iff:
  assumes "db_ok d"
    and "\<forall>h \<in> insert dummy_hash (pc_password_hash ` set (db_credentials d)). verify h password \<noteq> InvalidHash"
  shows "login sha verify dummy_hash ttl cx app_now token_id random username password d =
      Inl AuthenticationError \<longleftrightarrow>
    \<not> (\<exists>p \<in> set (db_principals d). \<exists>c \<in> set (db_credentials d). pc_principal_id c = p_id p \<and>
         p_name p = username \<and> p_kind p = User \<and> p_archived_at p = None \<and>
         verify (pc_password_hash c) password = Matches)"
proof (cases "\<exists>p c. account d username p c")
  case False
  then have "login_rows username d = []" by (intro login_rows_none) blast
  moreover have "verify dummy_hash password = Matches \<or> verify dummy_hash password = VerificationError"
    using assms(2) by (cases "verify dummy_hash password") auto
  ultimately have "login sha verify dummy_hash ttl cx app_now token_id random username password d =
      Inl AuthenticationError"
    by (auto simp: login_def verify_password_def)
  moreover note False
  ultimately show ?thesis by (auto simp: account_def)
next
  case True
  then obtain p c where acc: "account d username p c" by blast
  have only: "account d username q e \<longleftrightarrow> q = p \<and> e = c" for q e
    using account_unique [OF assms(1) acc] acc by blast
  have rhs: "(\<exists>p \<in> set (db_principals d). \<exists>c \<in> set (db_credentials d). pc_principal_id c = p_id p \<and>
         p_name p = username \<and> p_kind p = User \<and> p_archived_at p = None \<and>
         verify (pc_password_hash c) password = Matches) \<longleftrightarrow> verify (pc_password_hash c) password = Matches"
  proof -
    have "(\<exists>p \<in> set (db_principals d). \<exists>c \<in> set (db_credentials d). pc_principal_id c = p_id p \<and>
         p_name p = username \<and> p_kind p = User \<and> p_archived_at p = None \<and>
         verify (pc_password_hash c) password = Matches) \<longleftrightarrow>
      (\<exists>q e. account d username q e \<and> verify (pc_password_hash e) password = Matches)"
      by (auto simp: account_def)
    then show ?thesis by (simp add: only)
  qed
  have rows: "login_rows username d = [(p_id p, pc_password_hash c)]"
    by (rule login_rows_account [OF assms(1) acc])
  show ?thesis
  proof (cases "verify (pc_password_hash c) password")
    case Matches
    then show ?thesis
      unfolding rhs using rows
      by (auto simp: login_def verify_password_def issue_token_def record_audit_event_def write_tokens_def
          validate_audit_metadata_def write_audit_def Let_def bindE_eq_Inl split: if_splits)
  next
    case VerificationError
    then show ?thesis unfolding rhs using rows by (simp add: login_def verify_password_def)
  next
    case InvalidHash
    then show ?thesis using assms(2) acc by (auto simp: account_def)
  qed
qed

text \<open>
  A successful login yields a working session: the access token authenticates as the user who
  logged in, from the time of the answer until the reported expiry, and the login is in the
  audit trail.
\<close>

theorem login_session:
  assumes "login sha verify dummy_hash ttl cx app_now token_id random username password d = Inr (resp, d')"
    and "db_ok d" and "cx_now cx2 < lo_expires_at resp"
  shows "\<exists>p d''. authenticate_token sha cx2 (lo_access_token resp) d' =
      Inr (\<lparr>ap_principal = p, ap_token_id = token_id\<rparr>, d'') \<and>
    p \<in> set (db_principals d) \<and> p_name p = username \<and> p_kind p = User \<and>
    lo_expires_at resp = app_now + ttl * 1000000 \<and>
    (\<exists>ev. db_audit d' = db_audit d @ [ev] \<and> a_action ev = ''authentication.login'' \<and>
       a_actor_id ev = Some (p_id p))"
proof -
  obtain p c where acc: "account d username p c"
  proof (rule ccontr)
    assume "\<not> thesis"
    then have "login_rows username d = []" using that by (intro login_rows_none) blast
    with assms(1) show False by (auto simp: login_def)
  qed
  let ?e = "app_now + ttl * 1000000"
  note rows = login_rows_account [OF assms(2) acc]
  obtain issued d1 where issue: "issue_token sha cx token_id random (p_id p) ''login'' (Some ?e) d = Inr (issued, d1)"
    and ev: "record_audit_event cx (Some (p_id p)) ''authentication.login'' ''ApiToken'' (tr_id issued) [] d1 = Inr d'"
    and resp: "lo_access_token resp = ti_token issued" "lo_expires_at resp = ?e"
    using assms(1) by (auto simp: login_def rows Let_def bindE_eq_Inr split: if_splits)
  from issue assms(2) show ?thesis
  proof (cases rule: issued_token_row)
    case (1 t)
    have "db_ok d'" using record_audit_event_ok [OF ev] 1 by blast
    moreover have "t \<in> set (db_tokens d')" "db_principals d' = db_principals d" "db_audit d1 = db_audit d"
      using 1 frame(1,3) [OF ev] by simp_all
    moreover have "token_live (cx_now cx2) t" using 1 assms(3) resp by (simp add: token_live_def)
    ultimately have "\<exists>d''. authenticate_token sha cx2 (ti_token issued) d' =
        Inr (\<lparr>ap_principal = p, ap_token_id = t_id t\<rparr>, d'')"
      using 1 acc by (intro live_token_authenticates) (auto simp: account_def)
    then show ?thesis
      using acc 1 resp record_audit_eventD [OF ev] by (auto simp: account_def)
  qed
qed

end
