(* ===== verification/Catalog.thy ===== *)
theory Catalog
  imports Audit_Trail
begin

text \<open>
  The resource catalog (\<open>catalog/models.py\<close>, \<open>catalog/persistence.py\<close> and
  \<open>parse_labels\<close> of \<open>catalog/api.py\<close>): request validation, the visibility rule, the
  canonical projection with derived availability, and the transactional operations. Each
  operation takes the transaction context, the UUIDs \<open>uuid4()\<close> draws and the database, and
  returns its result with the new database or the exception it raises. Row locks have no
  effect in this model of one transaction at a time. The order of names is the database's
  collation, a parameter \<open>coll\<close> that maps a text to its sort key.
\<close>

subsection \<open>Request models\<close>

definition MAX_TTL_SECONDS :: int where
  "MAX_TTL_SECONDS = 2147483647"

definition ttl_seconds_ok :: "int option \<Rightarrow> bool" where
  "ttl_seconds_ok t \<longleftrightarrow> (case t of None \<Rightarrow> True | Some n \<Rightarrow> 1 \<le> n \<and> n \<le> MAX_TTL_SECONDS)"

definition validate_expiration_policy ::
  "expiration_mode \<Rightarrow> int option \<Rightarrow> int option \<Rightarrow> exc + unit" where
  "validate_expiration_policy mode default_ttl max_ttl =
     (if mode = Required \<and> default_ttl = None
      then Inl (ValueError ''Required expiration needs a default TTL'')
      else case (default_ttl, max_ttl) of
        (Some dflt, Some mx) \<Rightarrow>
          if dflt > mx then Inl (ValueError ''Default TTL cannot exceed maximum TTL'') else Inr ()
      | _ \<Rightarrow> Inr ())"

definition validate_labels :: "labels \<Rightarrow> exc + labels" where
  "validate_labels ls =
     (if length ls > 64 then Inl (ValueError ''at most 64 labels are allowed'')
      else if list_ex (\<lambda>(k, v). k = [] \<or> length k > 128) ls
        then Inl (ValueError ''label keys must contain 1 to 128 characters'')
      else if list_ex (\<lambda>(k, v). length v > 255) ls
        then Inl (ValueError ''label values must contain at most 255 characters'')
      else Inr ls)"

record resource_create =
  rc_name :: string
  rc_type :: string
  rc_sharing_mode :: sharing_mode
  rc_visibility_mode :: visibility_mode
  rc_expiration_mode :: expiration_mode
  rc_default_ttl :: "int option"
  rc_max_ttl :: "int option"
  rc_labels :: labels

definition validate_resource_create :: "resource_create \<Rightarrow> exc + resource_create" where
  "validate_resource_create rq =
     bindE (check_fields (text_ok 1 255 (rc_name rq) \<and> text_ok 1 255 (rc_type rq) \<and>
              ttl_seconds_ok (rc_default_ttl rq) \<and> ttl_seconds_ok (rc_max_ttl rq))) (\<lambda>_.
     bindE (validate_labels (rc_labels rq)) (\<lambda>_.
     bindE (validate_expiration_policy (rc_expiration_mode rq) (rc_default_ttl rq) (rc_max_ttl rq))
       (\<lambda>_. Inr rq)))"

text \<open>
  An update carries the fields the request set: \<open>None\<close> is an omitted field. The two
  nullable fields distinguish omission (\<open>None\<close>) from an explicit null (\<open>Some None\<close>);
  the others reject null before validation (\<open>reject_explicit_nulls\<close>).
\<close>

record resource_update =
  ru_version :: int
  ru_name :: "string option"
  ru_type :: "string option"
  ru_sharing_mode :: "sharing_mode option"
  ru_visibility_mode :: "visibility_mode option"
  ru_expiration_mode :: "expiration_mode option"
  ru_default_ttl :: "int option option"
  ru_max_ttl :: "int option option"
  ru_labels :: "labels option"

definition set_field :: "'a option \<Rightarrow> 'a \<Rightarrow> 'a" where
  "set_field change old = (case change of None \<Rightarrow> old | Some new \<Rightarrow> new)"

definition validate_resource_update :: "resource_update \<Rightarrow> exc + resource_update" where
  "validate_resource_update rq =
     bindE (check_fields (1 \<le> ru_version rq \<and> opt_ok (text_ok 1 255) (ru_name rq) \<and>
              opt_ok (text_ok 1 255) (ru_type rq) \<and> opt_ok ttl_seconds_ok (ru_default_ttl rq) \<and>
              opt_ok ttl_seconds_ok (ru_max_ttl rq))) (\<lambda>_.
     bindE (case ru_labels rq of None \<Rightarrow> Inr [] | Some ls \<Rightarrow> validate_labels ls) (\<lambda>_.
     Inr rq))"

definition no_changes :: "resource_update \<Rightarrow> bool" where
  "no_changes rq \<longleftrightarrow>
     ru_name rq = None \<and> ru_type rq = None \<and> ru_sharing_mode rq = None \<and>
     ru_visibility_mode rq = None \<and> ru_expiration_mode rq = None \<and> ru_default_ttl rq = None \<and>
     ru_max_ttl rq = None \<and> ru_labels rq = None"

definition apply_changes :: "resource_update \<Rightarrow> resource \<Rightarrow> resource" where
  "apply_changes rq r = r\<lparr>
     r_name := set_field (ru_name rq) (r_name r),
     r_type := set_field (ru_type rq) (r_type r),
     r_labels := set_field (ru_labels rq) (r_labels r),
     r_sharing_mode := set_field (ru_sharing_mode rq) (r_sharing_mode r),
     r_visibility_mode := set_field (ru_visibility_mode rq) (r_visibility_mode r),
     r_expiration_mode := set_field (ru_expiration_mode rq) (r_expiration_mode r),
     r_default_ttl := set_field (ru_default_ttl rq) (r_default_ttl r),
     r_max_ttl := set_field (ru_max_ttl rq) (r_max_ttl r)\<rparr>"

record resource_response =
  rr_id :: uuid
  rr_name :: string
  rr_type :: string
  rr_labels :: labels
  rr_sharing_mode :: sharing_mode
  rr_visibility_mode :: visibility_mode
  rr_expiration_mode :: expiration_mode
  rr_default_ttl :: "int option"
  rr_max_ttl :: "int option"
  rr_status :: operational_status
  rr_version :: int
  rr_available :: bool
  rr_active_lease_count :: nat
  rr_archived_at :: "instant option"
  rr_created_at :: instant
  rr_updated_at :: instant

record 'a page_response =
  pr_items :: "'a list"
  pr_offset :: int
  pr_limit :: int
  pr_total :: nat

record resource_access =
  ra_principal_ids :: "uuid list"
  ra_group_ids :: "uuid list"

subsection \<open>Label selectors\<close>

text \<open>\<open>value.partition("=")\<close>: the text before the first separator, whether there is one,
  and the text after it.\<close>

fun partition_eq :: "string \<Rightarrow> string \<times> bool \<times> string" where
  "partition_eq [] = ([], False, [])"
| "partition_eq (c # cs) =
     (if c = CHR ''='' then ([], True, cs)
      else case partition_eq cs of (k, sep, v) \<Rightarrow> (c # k, sep, v))"

fun parse_labels_from :: "labels \<Rightarrow> string list \<Rightarrow> exc + labels" where
  "parse_labels_from acc [] = Inr acc"
| "parse_labels_from acc (value # rest) =
     (case partition_eq value of (key, sep, label_value) \<Rightarrow>
        if \<not> sep \<or> key = [] then Inl (http 400 ''Labels must use key=value syntax'')
        else if map_of acc key \<noteq> None \<and> map_of acc key \<noteq> Some label_value
          then Inl (http 400 (''Label '' @ repr_text key @ '' has conflicting values''))
        else parse_labels_from (dict_set key label_value acc) rest)"

definition parse_labels :: "string list \<Rightarrow> exc + labels" where
  "parse_labels values = parse_labels_from [] values"

subsection \<open>Active leases, visibility, projection\<close>

text \<open>\<open>ACTIVE_LEASE\<close>: not ended, and no expiration or one after the transaction's time.\<close>

definition active_lease :: "instant \<Rightarrow> lease \<Rightarrow> bool" where
  "active_lease now l \<longleftrightarrow>
     l_ended_at l = None \<and> (case l_expires_at l of None \<Rightarrow> True | Some e \<Rightarrow> e > now)"

definition active_leases :: "instant \<Rightarrow> db \<Rightarrow> uuid \<Rightarrow> lease list" where
  "active_leases now d rid =
     filter (\<lambda>l. l_resource_id l = rid \<and> active_lease now l) (db_leases d)"

definition active_count :: "instant \<Rightarrow> db \<Rightarrow> uuid \<Rightarrow> nat" where
  "active_count now d rid = length (active_leases now d rid)"

definition direct_grant :: "db \<Rightarrow> uuid \<Rightarrow> uuid \<Rightarrow> bool" where
  "direct_grant d pid rid \<longleftrightarrow>
     list_ex (\<lambda>g. pg_resource_id g = rid \<and> pg_principal_id g = pid) (db_pgrants d)"

definition group_grant_via :: "db \<Rightarrow> uuid \<Rightarrow> uuid \<Rightarrow> bool" where
  "group_grant_via d pid rid \<longleftrightarrow>
     list_ex (\<lambda>gg. gg_resource_id gg = rid \<and>
        list_ex (\<lambda>g. g_id g = gg_group_id gg \<and> g_archived_at g = None) (db_groups d) \<and>
        list_ex (\<lambda>m. m_group_id m = gg_group_id gg \<and> m_principal_id m = pid) (db_memberships d))
       (db_ggrants d)"

definition resource_visible :: "db \<Rightarrow> uuid \<Rightarrow> resource \<Rightarrow> bool" where
  "resource_visible d pid r \<longleftrightarrow>
     r_visibility_mode r = Public \<or> direct_grant d pid (r_id r) \<or> group_grant_via d pid (r_id r)"

definition project_resource :: "instant \<Rightarrow> db \<Rightarrow> resource \<Rightarrow> resource_response" where
  "project_resource now d r =
     \<lparr>rr_id = r_id r, rr_name = r_name r, rr_type = r_type r, rr_labels = r_labels r,
      rr_sharing_mode = r_sharing_mode r, rr_visibility_mode = r_visibility_mode r,
      rr_expiration_mode = r_expiration_mode r, rr_default_ttl = r_default_ttl r,
      rr_max_ttl = r_max_ttl r, rr_status = r_status r, rr_version = r_version r,
      rr_available = (r_archived_at r = None \<and> r_status r = Active \<and>
        (r_sharing_mode r = Shared \<or> active_count now d (r_id r) = 0)),
      rr_active_lease_count = active_count now d (r_id r),
      rr_archived_at = r_archived_at r, rr_created_at = r_created_at r,
      rr_updated_at = r_updated_at r\<rparr>"

definition resource_statement ::
  "instant \<Rightarrow> db \<Rightarrow> (resource \<Rightarrow> bool) \<Rightarrow> resource_response list" where
  "resource_statement now d where_clause =
     map (project_resource now d) (filter where_clause (db_resources d))"

subsection \<open>Reads\<close>

definition fetch_resource :: "ctx \<Rightarrow> uuid \<Rightarrow> db \<Rightarrow> exc + resource_response" where
  "fetch_resource cx rid d =
     bindE (one_or_none (resource_statement (cx_now cx) d (\<lambda>r. r_id r = rid)))
       (found_or (http 404 ''Resource not found''))"

definition fetch_visible_resource :: "ctx \<Rightarrow> uuid \<Rightarrow> uuid \<Rightarrow> db \<Rightarrow> exc + resource_response" where
  "fetch_visible_resource cx rid pid d =
     bindE (one_or_none (resource_statement (cx_now cx) d
              (\<lambda>r. r_id r = rid \<and> r_archived_at r = None \<and> resource_visible d pid r)))
       (found_or (http 404 ''Resource not found''))"

record resource_query =
  rq_type :: "string option"
  rq_sharing_mode :: "sharing_mode option"
  rq_status :: "operational_status option"
  rq_available :: "bool option"
  rq_labels :: labels
  rq_include_archived :: bool
  rq_offset :: int
  rq_limit :: int

definition resource_filters :: "resource_query \<Rightarrow> uuid \<Rightarrow> bool \<Rightarrow> db \<Rightarrow> resource \<Rightarrow> bool" where
  "resource_filters q pid administrator d r \<longleftrightarrow>
     (rq_include_archived q \<or> r_archived_at r = None) \<and>
     opt_ok (\<lambda>t. r_type r = t) (rq_type q) \<and>
     opt_ok (\<lambda>m. r_sharing_mode r = m) (rq_sharing_mode q) \<and>
     opt_ok (\<lambda>st. r_status r = st) (rq_status q) \<and>
     (rq_labels q = [] \<or> labels_contain (r_labels r) (rq_labels q)) \<and>
     (administrator \<or> resource_visible d pid r)"

definition matching_resources ::
  "ctx \<Rightarrow> resource_query \<Rightarrow> uuid \<Rightarrow> bool \<Rightarrow> db \<Rightarrow> resource_response list" where
  "matching_resources cx q pid administrator d =
     filter (\<lambda>rr. opt_ok (\<lambda>a. rr_available rr = a) (rq_available q))
       (resource_statement (cx_now cx) d (resource_filters q pid administrator d))"

definition list_resources ::
  "(string \<Rightarrow> 'k::linorder) \<Rightarrow> ctx \<Rightarrow> resource_query \<Rightarrow> uuid \<Rightarrow> bool \<Rightarrow> db \<Rightarrow>
     resource_response page_response" where
  "list_resources coll cx q pid administrator d =
     (let filtered = matching_resources cx q pid administrator d in
      \<lparr>pr_items = page (rq_offset q) (rq_limit q)
         (sort_key (\<lambda>rr. (coll (rr_name rr), rr_id rr)) filtered),
       pr_offset = rq_offset q, pr_limit = rq_limit q, pr_total = length filtered\<rparr>)"

definition lock_row :: "uuid \<Rightarrow> db \<Rightarrow> exc + resource" where
  "lock_row rid d =
     bindE (one_or_none (filter (\<lambda>r. r_id r = rid) (db_resources d)))
       (found_or (http 404 ''Resource not found''))"

definition lock_managed_resource :: "uuid \<Rightarrow> db \<Rightarrow> exc + resource" where
  "lock_managed_resource rid d =
     bindE (lock_row rid d) (\<lambda>target.
       if r_archived_at target \<noteq> None
       then Inl (http 409 ''Archived resources cannot change access'')
       else Inr target)"

definition fetch_resource_access :: "ctx \<Rightarrow> uuid \<Rightarrow> db \<Rightarrow> exc + resource_access" where
  "fetch_resource_access cx rid d =
     bindE (fetch_resource cx rid d) (\<lambda>_. Inr
       \<lparr>ra_principal_ids =
          sort (map pg_principal_id (filter (\<lambda>g. pg_resource_id g = rid) (db_pgrants d))),
        ra_group_ids =
          sort (map gg_group_id (filter (\<lambda>g. gg_resource_id g = rid) (db_ggrants d)))\<rparr>)"

subsection \<open>Writes\<close>

text \<open>An \<open>UPDATE resources\<close> with the \<open>updated_at\<close> trigger.\<close>

definition update_resources ::
  "ctx \<Rightarrow> (resource \<Rightarrow> bool) \<Rightarrow> (resource \<Rightarrow> resource) \<Rightarrow> db \<Rightarrow> exc + db" where
  "update_resources cx p f d =
     write_resources (update_where p (\<lambda>r. (f r)\<lparr>r_updated_at := cx_now cx\<rparr>) (db_resources d)) d"

definition new_resource :: "ctx \<Rightarrow> uuid \<Rightarrow> resource_create \<Rightarrow> resource" where
  "new_resource cx new_id rq =
     \<lparr>r_id = new_id, r_name = rc_name rq, r_type = rc_type rq, r_labels = rc_labels rq,
      r_sharing_mode = rc_sharing_mode rq, r_visibility_mode = rc_visibility_mode rq,
      r_expiration_mode = rc_expiration_mode rq, r_default_ttl = rc_default_ttl rq,
      r_max_ttl = rc_max_ttl rq, r_status = Active, r_version = 1, r_last_leased_at = None,
      r_archived_at = None, r_created_at = cx_now cx, r_updated_at = cx_now cx\<rparr>"

definition create_resource ::
  "ctx \<Rightarrow> uuid \<Rightarrow> resource_create \<Rightarrow> uuid \<Rightarrow> db \<Rightarrow> exc + (resource_response \<times> db)" where
  "create_resource cx new_id rq actor d =
     bindE (write_resources (db_resources d @ [new_resource cx new_id rq]) d) (\<lambda>d1.
     bindE (record_audit_event cx (Some actor) ''resource.created'' ''Resource'' new_id [] d1) (\<lambda>d2.
     bindE (fetch_resource cx new_id d2) (\<lambda>resp. Inr (resp, d2))))"

datatype grant_target = Principal | Group

definition target_name :: "grant_target \<Rightarrow> string" where
  "target_name t = (case t of Principal \<Rightarrow> ''Principal'' | Group \<Rightarrow> ''Group'')"

definition target_exists :: "grant_target \<Rightarrow> uuid \<Rightarrow> db \<Rightarrow> bool" where
  "target_exists t i d = (case t of
     Principal \<Rightarrow> list_ex (\<lambda>p. p_id p = i \<and> p_archived_at p = None) (db_principals d)
   | Group \<Rightarrow> list_ex (\<lambda>g. g_id g = i \<and> g_archived_at g = None) (db_groups d))"

definition has_grant :: "grant_target \<Rightarrow> uuid \<Rightarrow> uuid \<Rightarrow> db \<Rightarrow> bool" where
  "has_grant t rid i d = (case t of
     Principal \<Rightarrow> list_ex (\<lambda>g. pg_resource_id g = rid \<and> pg_principal_id g = i) (db_pgrants d)
   | Group \<Rightarrow> list_ex (\<lambda>g. gg_resource_id g = rid \<and> gg_group_id g = i) (db_ggrants d))"

text \<open>\<open>INSERT ... ON CONFLICT DO NOTHING\<close> and \<open>DELETE\<close>; the flag is whether a row was
  returned, that is, inserted or deleted.\<close>

definition write_grant ::
  "ctx \<Rightarrow> grant_target \<Rightarrow> uuid \<Rightarrow> uuid \<Rightarrow> bool \<Rightarrow> db \<Rightarrow> exc + (bool \<times> db)" where
  "write_grant cx t rid i granted d =
     (if granted then
        (if has_grant t rid i d then Inr (False, d)
         else bindE (case t of
            Principal \<Rightarrow> write_pgrants (db_pgrants d @
              [\<lparr>pg_resource_id = rid, pg_principal_id = i, pg_created_at = cx_now cx\<rparr>]) d
          | Group \<Rightarrow> write_ggrants (db_ggrants d @
              [\<lparr>gg_resource_id = rid, gg_group_id = i, gg_created_at = cx_now cx\<rparr>]) d)
            (\<lambda>d1. Inr (True, d1)))
      else bindE (case t of
            Principal \<Rightarrow> write_pgrants (delete_where
              (\<lambda>g. pg_resource_id g = rid \<and> pg_principal_id g = i) (db_pgrants d)) d
          | Group \<Rightarrow> write_ggrants (delete_where
              (\<lambda>g. gg_resource_id g = rid \<and> gg_group_id g = i) (db_ggrants d)) d)
            (\<lambda>d1. Inr (has_grant t rid i d, d1)))"

definition set_resource_grant ::
  "ctx \<Rightarrow> uuid \<Rightarrow> uuid \<Rightarrow> grant_target \<Rightarrow> bool \<Rightarrow> uuid \<Rightarrow> db \<Rightarrow> exc + (unit \<times> db)" where
  "set_resource_grant cx rid i t granted actor d =
     bindE (lock_managed_resource rid d) (\<lambda>_.
       if granted \<and> \<not> target_exists t i d then Inl (http 404 (target_name t @ '' not found''))
       else bindE (write_grant cx t rid i granted d) (\<lambda>(changed, d1).
         if changed then
           bindE (record_audit_event cx (Some actor)
               (''resource.access.'' @ (if granted then ''granted'' else ''revoked''))
               ''Resource'' rid
               [(''target_type'', target_name t), (''target_id'', uuid_str i)] d1)
             (\<lambda>d2. Inr ((), d2))
         else Inr ((), d1)))"

text \<open>\<open>except ValueError as error: raise HTTPException(409, str(error))\<close>.\<close>

definition policy_conflict :: "exc + 'a \<Rightarrow> exc + 'a" where
  "policy_conflict r = (case r of Inl (ValueError m) \<Rightarrow> Inl (http 409 m) | _ \<Rightarrow> r)"

definition update_resource ::
  "ctx \<Rightarrow> uuid \<Rightarrow> resource_update \<Rightarrow> uuid \<Rightarrow> db \<Rightarrow> exc + (resource_response \<times> db)" where
  "update_resource cx rid rq actor d =
     bindE (lock_row rid d) (\<lambda>target.
       if r_archived_at target \<noteq> None
         then Inl (http 409 ''Archived resources cannot be updated'')
       else if r_version target \<noteq> ru_version rq
         then Inl (http 409 ''Resource version is stale'')
       else if no_changes rq then bindE (fetch_resource cx rid d) (\<lambda>resp. Inr (resp, d))
       else
         bindE (policy_conflict (validate_expiration_policy
             (set_field (ru_expiration_mode rq) (r_expiration_mode target))
             (set_field (ru_default_ttl rq) (r_default_ttl target))
             (set_field (ru_max_ttl rq) (r_max_ttl target)))) (\<lambda>_.
         bindE (update_resources cx (\<lambda>r. r_id r = rid)
             (\<lambda>r. (apply_changes rq r)\<lparr>r_version := r_version r + 1\<rparr>) d) (\<lambda>d1.
         bindE (record_audit_event cx (Some actor) ''resource.updated'' ''Resource'' rid [] d1) (\<lambda>d2.
         bindE (fetch_resource cx rid d2) (\<lambda>resp. Inr (resp, d2))))))"

definition archive_resource :: "ctx \<Rightarrow> uuid \<Rightarrow> uuid \<Rightarrow> db \<Rightarrow> exc + (unit \<times> db)" where
  "archive_resource cx rid actor d =
     bindE (lock_row rid d) (\<lambda>target.
       if r_archived_at target \<noteq> None then Inr ((), d)
       else if active_leases (cx_now cx) d rid \<noteq> []
         then Inl (http 409 ''A resource with active leases cannot be archived'')
       else
         bindE (update_resources cx (\<lambda>r. r_id r = rid)
             (\<lambda>r. r\<lparr>r_archived_at := Some (cx_now cx), r_version := r_version r + 1\<rparr>) d) (\<lambda>d1.
         bindE (record_audit_event cx (Some actor) ''resource.archived'' ''Resource'' rid [] d1)
           (\<lambda>d2. Inr ((), d2))))"

datatype transition = Disable | Enable | Quarantine | Recover

definition transition_name :: "transition \<Rightarrow> string" where
  "transition_name t = (case t of Disable \<Rightarrow> ''disable'' | Enable \<Rightarrow> ''enable''
     | Quarantine \<Rightarrow> ''quarantine'' | Recover \<Rightarrow> ''recover'')"

definition status_name :: "operational_status \<Rightarrow> string" where
  "status_name st = (case st of Active \<Rightarrow> ''Active'' | Cleaning \<Rightarrow> ''Cleaning''
     | Quarantined \<Rightarrow> ''Quarantined'' | Disabled \<Rightarrow> ''Disabled'')"

definition allowed :: "transition \<Rightarrow> operational_status list \<times> operational_status" where
  "allowed t = (case t of
     Disable \<Rightarrow> ([Active, Quarantined], Disabled)
   | Enable \<Rightarrow> ([Disabled], Active)
   | Quarantine \<Rightarrow> ([Active], Quarantined)
   | Recover \<Rightarrow> ([Quarantined], Active))"

definition transition_action :: "transition \<Rightarrow> string" where
  "transition_action t = (case t of Disable \<Rightarrow> ''resource.disabled'' | Enable \<Rightarrow> ''resource.enabled''
     | Quarantine \<Rightarrow> ''resource.quarantined'' | Recover \<Rightarrow> ''resource.recovered'')"

definition transition_resource ::
  "ctx \<Rightarrow> uuid \<Rightarrow> transition \<Rightarrow> uuid \<Rightarrow> db \<Rightarrow> exc + (resource_response \<times> db)" where
  "transition_resource cx rid t actor d =
     bindE (lock_row rid d) (\<lambda>target.
       if r_archived_at target \<noteq> None
         then Inl (http 409 ''Archived resources cannot change state'')
       else case allowed t of (sources, destination) \<Rightarrow>
         if r_status target \<notin> set sources
         then Inl (http 409 (''Cannot '' @ transition_name t @ '' a resource in '' @
                status_name (r_status target) @ '' state''))
         else
           bindE (update_resources cx (\<lambda>r. r_id r = rid)
               (\<lambda>r. r\<lparr>r_status := destination, r_version := r_version r + 1\<rparr>) d) (\<lambda>d1.
           bindE (record_audit_event cx (Some actor) (transition_action t) ''Resource'' rid [] d1) (\<lambda>d2.
           bindE (fetch_resource cx rid d2) (\<lambda>resp. Inr (resp, d2)))))"

end
