(* ===== verification/Catalog_Laws.thy ===== *)
theory Catalog_Laws
  imports Catalog
begin

text \<open>
  What the catalog's operations guarantee: inversion rules that give the state each
  successful operation leaves, preservation of the schema's constraints, and the catalog's
  properties (optimistic updates, archival, operational transitions, grants, listings and
  label selectors).
\<close>

subsection \<open>Inversion of the operations\<close>

lemma found_or_Inr [simp]: "found_or e row = Inr r \<longleftrightarrow> row = Some r"
  by (simp add: found_or_def split: option.splits)

lemma found_or_Inl [simp]: "found_or e row = Inl e' \<longleftrightarrow> row = None \<and> e' = e"
  by (auto simp: found_or_def split: option.splits)

lemma lock_row_Inr: "lock_row rid d = Inr t \<longleftrightarrow> filter (\<lambda>r. r_id r = rid) (db_resources d) = [t]"
  by (auto simp: lock_row_def bindE_eq_Inr)

lemma lock_rowD:
  assumes "lock_row rid d = Inr t"
  shows "t \<in> set (db_resources d)" "r_id t = rid"
    "\<And>r. r \<in> set (db_resources d) \<Longrightarrow> r_id r = rid \<Longrightarrow> r = t"
  by (rule filter_singleD [OF assms [unfolded lock_row_Inr]]; assumption)+

lemma lock_row_missing:
  "\<not> resource_exists d rid \<Longrightarrow> lock_row rid d = Inl (http 404 ''Resource not found'')"
proof -
  assume "\<not> resource_exists d rid"
  then have "filter (\<lambda>r. r_id r = rid) (db_resources d) = []"
    by (auto simp: exists_iff filter_empty_conv)
  then show ?thesis by (simp add: lock_row_def found_or_def)
qed

lemma lock_row_ok:
  assumes "unique_on r_id (db_resources d)" and "t \<in> set (db_resources d)"
  shows "lock_row (r_id t) d = Inr t"
  unfolding lock_row_Inr
  using assms by (rule unique_on_filter_single [of r_id]) simp_all

lemma fetch_resource_Inr:
  "fetch_resource cx rid d = Inr resp \<longleftrightarrow>
     (\<exists>r. filter (\<lambda>r. r_id r = rid) (db_resources d) = [r] \<and> resp = project_resource (cx_now cx) d r)"
  by (auto simp: fetch_resource_def resource_statement_def bindE_eq_Inr)

lemma fetch_resource_locked:
  "lock_row rid d = Inr t \<Longrightarrow> fetch_resource cx rid d = Inr (project_resource (cx_now cx) d t)"
  by (simp add: fetch_resource_Inr lock_row_Inr)

lemma lock_row_not_integrity: "lock_row rid d \<noteq> Inl IntegrityError"
  by (auto simp: lock_row_def one_or_none_def found_or_def split: list.splits)

lemma fetch_resource_not_integrity: "fetch_resource cx rid d \<noteq> Inl IntegrityError"
  by (auto simp: fetch_resource_def one_or_none_def found_or_def split: list.splits)

lemma update_resourcesD:
  assumes "update_resources cx p f d = Inr d'"
  shows "d' = d\<lparr>db_resources :=
           update_where p (\<lambda>r. (f r)\<lparr>r_updated_at := cx_now cx\<rparr>) (db_resources d)\<rparr>"
    and "resources_valid d (db_resources d')"
  using assms by (auto simp: update_resources_def write_resources_def split: if_splits)

lemma update_resources_ok:
  assumes "update_resources cx p f d = Inr d'" and "db_ok d" and "\<And>r. r_id (f r) = r_id r"
  shows "db_ok d' \<and> extends d d'"
proof (rule write_keeps_ok(7) [OF assms(2) assms(1) [unfolded update_resources_def]])
  show "r_id ` set (db_resources d) \<subseteq>
      r_id ` set (update_where p (\<lambda>r. f r\<lparr>r_updated_at := cx_now cx\<rparr>) (db_resources d))"
    using assms(3) by (simp add: image_update_where)
qed

lemma update_resources_locked:
  assumes "update_resources cx (\<lambda>r. r_id r = rid) f d = Inr d'" and "lock_row rid d = Inr t"
    and "\<And>r. r_id (f r) = r_id r"
  shows "lock_row rid d' = Inr ((f t)\<lparr>r_updated_at := cx_now cx\<rparr>)"
  using resources.update_lookup [OF assms(1) [unfolded update_resources_def]
      assms(2) [unfolded lock_row_Inr]] assms(3) lock_rowD(2) [OF assms(2)]
  by (simp add: lock_row_Inr)

lemma update_resources_fails: "update_resources cx p f d = Inl e \<Longrightarrow> e = IntegrityError"
  unfolding update_resources_def by (rule resources.write_InlD)

lemma apply_changes_id [simp]: "r_id (apply_changes rq r) = r_id r"
  by (simp add: apply_changes_def)

lemma lock_row_audit [simp]: "lock_row rid (d\<lparr>db_audit := a\<rparr>) = lock_row rid d"
  by (simp add: lock_row_def)

text \<open>The update of one locked row together with its audit event.\<close>

lemma row_change_steps:
  assumes u: "update_resources cx (\<lambda>r. r_id r = rid) f d = Inr d1"
    and a: "record_audit_event cx actor act st sid m d1 = Inr d2"
    and t: "lock_row rid d = Inr t" and f: "\<And>r. r_id (f r) = r_id r"
  shows "lock_row rid d2 = Inr ((f t)\<lparr>r_updated_at := cx_now cx\<rparr>)"
    and "db_resources d2 = update_where (\<lambda>r. r_id r = rid)
           (\<lambda>r. (f r)\<lparr>r_updated_at := cx_now cx\<rparr>) (db_resources d)"
    and "db_leases d2 = db_leases d"
    and "db_ok d \<Longrightarrow> db_ok d2 \<and> extends d d2"
proof -
  show "lock_row rid d2 = Inr ((f t)\<lparr>r_updated_at := cx_now cx\<rparr>)"
    using update_resources_locked [OF u t f] record_audit_eventD [OF a] by simp
  show "db_resources d2 = update_where (\<lambda>r. r_id r = rid)
           (\<lambda>r. (f r)\<lparr>r_updated_at := cx_now cx\<rparr>) (db_resources d)"
    "db_leases d2 = db_leases d"
    using update_resourcesD [OF u] frame(7,11) [OF a] by simp_all
  show "db_ok d \<Longrightarrow> db_ok d2 \<and> extends d d2"
    using update_resources_ok [OF u _ f] record_audit_event_ok [OF a] extends_trans by blast
qed

lemma update_resource_cases:
  assumes "update_resource cx rid rq actor d = Inr (resp, d')"
  obtains (unchanged) t where "lock_row rid d = Inr t" "r_archived_at t = None"
      "r_version t = ru_version rq" "no_changes rq" "d' = d"
  | (changed) t d1 where "lock_row rid d = Inr t" "r_archived_at t = None"
      "r_version t = ru_version rq" "\<not> no_changes rq"
      "update_resources cx (\<lambda>r. r_id r = rid)
         (\<lambda>r. (apply_changes rq r)\<lparr>r_version := r_version r + 1\<rparr>) d = Inr d1"
      "record_audit_event cx (Some actor) ''resource.updated'' ''Resource'' rid [] d1 = Inr d'"
      "fetch_resource cx rid d' = Inr resp"
  using assms
  by (auto simp: update_resource_def bindE_eq_Inr split: if_splits)

lemma archive_resource_cases:
  assumes "archive_resource cx rid actor d = Inr (u, d')"
  obtains (already) t where "lock_row rid d = Inr t" "r_archived_at t \<noteq> None" "d' = d"
  | (archived) t d1 where "lock_row rid d = Inr t" "r_archived_at t = None"
      "active_leases (cx_now cx) d rid = []"
      "update_resources cx (\<lambda>r. r_id r = rid)
         (\<lambda>r. r\<lparr>r_archived_at := Some (cx_now cx), r_version := r_version r + 1\<rparr>) d = Inr d1"
      "record_audit_event cx (Some actor) ''resource.archived'' ''Resource'' rid [] d1 = Inr d'"
proof -
  obtain t where t: "lock_row rid d = Inr t"
    using assms by (auto simp: archive_resource_def)
  note step = assms [unfolded archive_resource_def t bindE_Inr]
  show thesis
  proof (cases "r_archived_at t = None")
    case True
    with step show thesis by (auto split: if_splits intro: archived [OF t True])
  next
    case False
    with step show thesis by (intro already [OF t False]) simp
  qed
qed

lemma transition_resource_cases:
  assumes "transition_resource cx rid tr actor d = Inr (resp, d')"
  obtains t d1 where "lock_row rid d = Inr t" "r_archived_at t = None"
      "r_status t \<in> set (fst (allowed tr))"
      "update_resources cx (\<lambda>r. r_id r = rid)
         (\<lambda>r. r\<lparr>r_status := snd (allowed tr), r_version := r_version r + 1\<rparr>) d = Inr d1"
      "record_audit_event cx (Some actor) (transition_action tr) ''Resource'' rid [] d1 = Inr d'"
      "fetch_resource cx rid d' = Inr resp"
  using assms
  by (auto simp: transition_resource_def bindE_eq_Inr split: if_splits prod.splits)

lemma create_resource_cases:
  assumes "create_resource cx new_id rq actor d = Inr (resp, d')"
  obtains d1 where "write_resources (db_resources d @ [new_resource cx new_id rq]) d = Inr d1"
      "record_audit_event cx (Some actor) ''resource.created'' ''Resource'' new_id [] d1 = Inr d'"
      "fetch_resource cx new_id d' = Inr resp"
  using assms by (auto simp: create_resource_def bindE_eq_Inr)

lemma set_resource_grant_cases:
  assumes "set_resource_grant cx rid i t granted actor d = Inr (u, d')"
  obtains (same) r where "lock_row rid d = Inr r" "r_archived_at r = None"
      "granted \<longrightarrow> target_exists t i d" "has_grant t rid i d = granted" "d' = d"
  | (noop) r where "lock_row rid d = Inr r" "r_archived_at r = None" "\<not> granted"
      "\<not> has_grant t rid i d" "write_grant cx t rid i False d = Inr (False, d')"
  | (changed) r d1 where "lock_row rid d = Inr r" "r_archived_at r = None"
      "granted \<longrightarrow> target_exists t i d" "has_grant t rid i d = (\<not> granted)"
      "write_grant cx t rid i granted d = Inr (True, d1)"
      "record_audit_event cx (Some actor)
         (''resource.access.'' @ (if granted then ''granted'' else ''revoked''))
         ''Resource'' rid [(''target_type'', target_name t), (''target_id'', uuid_str i)] d1 = Inr d'"
  using assms
  by (auto simp: set_resource_grant_def lock_managed_resource_def write_grant_def bindE_eq_Inr
      split: if_splits)

subsection \<open>Preservation of the constraints and of the audit trail\<close>

lemma update_resource_ok:
  "update_resource cx rid rq actor d = Inr (resp, d') \<Longrightarrow> db_ok d \<Longrightarrow> db_ok d' \<and> extends d d'"
  by (erule update_resource_cases) (simp_all add: row_change_steps(4))

lemma archive_resource_ok:
  "archive_resource cx rid actor d = Inr (u, d') \<Longrightarrow> db_ok d \<Longrightarrow> db_ok d' \<and> extends d d'"
  by (erule archive_resource_cases) (simp_all add: row_change_steps(4))

lemma transition_resource_ok:
  "transition_resource cx rid tr actor d = Inr (resp, d') \<Longrightarrow> db_ok d \<Longrightarrow> db_ok d' \<and> extends d d'"
  by (erule transition_resource_cases) (simp add: row_change_steps(4))

lemma create_resource_ok:
  assumes "create_resource cx i rq actor d = Inr (resp, d')" and "db_ok d"
  shows "db_ok d' \<and> extends d d'"
  using assms(1)
proof (rule create_resource_cases)
  fix d1
  assume w: "write_resources (db_resources d @ [new_resource cx i rq]) d = Inr d1"
    and a: "record_audit_event cx (Some actor) ''resource.created'' ''Resource'' i [] d1 = Inr d'"
  have "db_ok d1 \<and> extends d d1" by (rule write_keeps_ok(7) [OF assms(2) w]) auto
  then show ?thesis using record_audit_event_ok [OF a] extends_trans by blast
qed

lemma write_grant_ok:
  "write_grant cx t rid i granted d = Inr (b, d') \<Longrightarrow> db_ok d \<Longrightarrow> db_ok d' \<and> extends d d'"
  by (auto simp: write_grant_def bindE_eq_Inr split: if_splits grant_target.splits
      dest: write_keeps_ok(8) write_keeps_ok(9))

lemma set_resource_grant_ok:
  assumes "set_resource_grant cx rid i t granted actor d = Inr (u, d')" and "db_ok d"
  shows "db_ok d' \<and> extends d d'"
  using assms(1)
proof (cases rule: set_resource_grant_cases)
  case (changed r d1)
  have "db_ok d1 \<and> extends d d1" by (rule write_grant_ok [OF changed(5) assms(2)])
  then show ?thesis using record_audit_event_ok [OF changed(6)] extends_trans by blast
qed (use assms(2) in \<open>auto dest: write_grant_ok\<close>)

lemmas catalog_ok =
  update_resource_ok archive_resource_ok transition_resource_ok create_resource_ok
  set_resource_grant_ok

subsection \<open>Optimistic updates\<close>

lemma ttl_ok_positive: "ttl_seconds_ok t \<Longrightarrow> positive_ttl t"
  by (auto simp: ttl_seconds_ok_def positive_ttl_def split: option.splits)

lemma policy_ok_iff:
  "validate_expiration_policy mode dflt mx = Inr u \<longleftrightarrow>
     (mode = Optional \<or> dflt \<noteq> None) \<and> ttl_within dflt mx"
  by (cases mode; cases dflt; cases mx) (auto simp: validate_expiration_policy_def ttl_within_def)

lemma policy_conflict_Inr [simp]: "policy_conflict r = Inr x \<longleftrightarrow> r = Inr x"
  by (auto simp: policy_conflict_def split: sum.splits exc.splits)

lemma policy_conflict_not_integrity:
  "policy_conflict (validate_expiration_policy mode dflt mx) \<noteq> Inl IntegrityError"
  by (auto simp: policy_conflict_def validate_expiration_policy_def
      split: sum.splits exc.splits if_splits option.splits)

text \<open>
  C24: Optimistic concurrency prevents lost updates. After an update that gives at least one field
  (an empty one is answered without raising the version) succeeded, any other update that carries the same version number is refused with 409 and
  leaves no trace, whatever it wanted to change and whoever sends it.
\<close>

theorem update_no_lost_update:
  assumes "update_resource cx rid rq actor d = Inr (resp, d1)"
    and "\<not> no_changes rq" and "ru_version rq' = ru_version rq"
  shows "update_resource cx' rid rq' actor' d1 = Inl (http 409 ''Resource version is stale'')"
  using assms(1)
proof (cases rule: update_resource_cases)
  case (changed t d0)
  have "lock_row rid d1 =
      Inr ((apply_changes rq t)\<lparr>r_version := r_version (apply_changes rq t) + 1,
        r_updated_at := cx_now cx\<rparr>)"
    using row_change_steps(1) [OF changed(5,6,1)] by (simp add: apply_changes_def)
  then show ?thesis
    using changed(2,3) assms(3) by (simp add: update_resource_def apply_changes_def)
qed (use assms(2) in simp)

text \<open>
  The effect of a successful update: the addressed row gets exactly the requested
  changes, its version grows by one and its timestamp is the transaction's; every other
  row is untouched; the answer is the projection of the new row.
\<close>

theorem update_resource_effect:
  assumes "update_resource cx rid rq actor d = Inr (resp, d')" and "\<not> no_changes rq"
  shows "\<exists>t t'. lock_row rid d = Inr t \<and> r_version t = ru_version rq \<and> r_archived_at t = None \<and>
     lock_row rid d' = Inr t' \<and>
     t' = (apply_changes rq t)\<lparr>r_version := ru_version rq + 1, r_updated_at := cx_now cx\<rparr> \<and>
     filter (\<lambda>r. r_id r \<noteq> rid) (db_resources d') = filter (\<lambda>r. r_id r \<noteq> rid) (db_resources d) \<and>
     resp = project_resource (cx_now cx) d' t'"
  using assms(1)
proof (cases rule: update_resource_cases)
  case (changed t d0)
  let ?f = "\<lambda>r. (apply_changes rq r)\<lparr>r_version := r_version r + 1\<rparr>"
  have step: "lock_row rid d' = Inr ((?f t)\<lparr>r_updated_at := cx_now cx\<rparr>)"
    "db_resources d' = update_where (\<lambda>r. r_id r = rid) (\<lambda>r. (?f r)\<lparr>r_updated_at := cx_now cx\<rparr>)
       (db_resources d)"
    using row_change_steps(1,2) [OF changed(5,6,1)] by simp_all
  have "filter (\<lambda>r. r_id r \<noteq> rid) (db_resources d') = filter (\<lambda>r. r_id r \<noteq> rid) (db_resources d)"
    unfolding step(2) by (rule filter_update_where_other) simp_all
  with step(1) changed(1,2,3) fetch_resource_locked [OF step(1), of cx] changed(7)
  show ?thesis by simp
qed (use assms(2) in simp)

text \<open>
  An update raises \<open>IntegrityError\<close> only because another resource already has the
  requested name. The request validation and the policy check of the stored and requested
  fields rule out every other constraint, so the API's translation of the exception into
  "Resource name already exists" is accurate.
\<close>

theorem update_integrity_is_name_conflict:
  assumes "db_ok d" and "principal_exists d actor" and "validate_resource_update rq = Inr rq"
    and "update_resource cx rid rq actor d = Inl IntegrityError"
  shows "\<exists>r \<in> set (db_resources d). r_id r \<noteq> rid \<and> ru_name rq = Some (r_name r)"
proof (rule ccontr)
  assume free: "\<not> ?thesis"
  let ?f = "\<lambda>r. ((apply_changes rq r)\<lparr>r_version := r_version r + 1\<rparr>)\<lparr>r_updated_at := cx_now cx\<rparr>"
  let ?rows = "update_where (\<lambda>r. r_id r = rid) ?f (db_resources d)"
  have valid: "resources_valid d (db_resources d)" using assms(1) by (simp add: db_ok_def)
  obtain t where t: "lock_row rid d = Inr t"
    using assms(4) lock_row_not_integrity
    by (cases "lock_row rid d") (auto simp: update_resource_def)
  note step = assms(4) [unfolded update_resource_def t bindE_Inr]
  have pol: "validate_expiration_policy (set_field (ru_expiration_mode rq) (r_expiration_mode t))
       (set_field (ru_default_ttl rq) (r_default_ttl t)) (set_field (ru_max_ttl rq) (r_max_ttl t)) = Inr ()"
    and fails: "bindE (write_resources ?rows d) (\<lambda>d1.
       bindE (record_audit_event cx (Some actor) ''resource.updated'' ''Resource'' rid [] d1) (\<lambda>d2.
       bindE (fetch_resource cx rid d2) (\<lambda>resp. Inr (resp, d2)))) = Inl IntegrityError"
    using step policy_conflict_not_integrity fetch_resource_not_integrity
    by (auto simp: bindE_eq_Inl update_resources_def split: if_splits)
  note row = lock_rowD [OF t]
  have names: "unique_on r_name ?rows"
  proof (rule unique_on_update_one [of r_id])
    show "r_name (?f r) \<noteq> r_name x"
      if "r \<in> set (db_resources d)" "r_id r = rid" "x \<in> set (db_resources d)" "r_id x \<noteq> rid" for r x
      using that free unique_on_inj [of r_name "db_resources d" r x] valid
      by (auto simp: apply_changes_def set_field_def resources_valid_def split: option.splits)
    show "r = r'" if "r \<in> set (db_resources d)" "r' \<in> set (db_resources d)" "r_id r = rid"
        "r_id r' = rid" for r r'
      using row(3) [OF that(1,3)] row(3) [OF that(2,4)] by simp
  qed (use valid in \<open>simp_all add: resources_valid_def\<close>)
  have "resource_check (?f t)"
    using pol assms(3) valid row(1)
    by (auto simp: policy_ok_iff validate_resource_update_def check_fields_def resources_valid_def
        list_all_iff resource_check_def apply_changes_def set_field_def opt_ok_def ttl_ok_positive
        bindE_eq_Inr split: option.splits if_splits)
  then have "list_all resource_check ?rows"
    using valid row(3)
    by (intro list_all_update_where) (auto simp: resources_valid_def)
  with names have ok: "resources_valid d ?rows"
    using valid by (simp add: resources_valid_def unique_on_update_where)
  let ?d1 = "d\<lparr>db_resources := ?rows\<rparr>"
  have "\<exists>d2. record_audit_event cx (Some actor) ''resource.updated'' ''Resource'' rid [] ?d1 = Inr d2"
    using assms(1,2)
    by (subst record_audit_event_succeeds) (auto simp: db_ok_def)
  with fails ok show False
    by (auto simp: write_resources_def bindE_eq_Inl fetch_resource_not_integrity)
qed

subsection \<open>Archival\<close>

text \<open>
  Archived resources are frozen. Once a resource is archived every operation that could
  change it answers 409, repeating the archival changes nothing and succeeds, and no regular
  principal can see it.
\<close>

theorem archived_resource_frozen:
  assumes "archive_resource cx rid actor d = Inr (u, d1)"
  shows "archive_resource cx' rid actor' d1 = Inr ((), d1) \<and>
     update_resource cx' rid rq actor' d1 = Inl (http 409 ''Archived resources cannot be updated'') \<and>
     transition_resource cx' rid tr actor' d1 =
       Inl (http 409 ''Archived resources cannot change state'') \<and>
     set_resource_grant cx' rid i t granted actor' d1 =
       Inl (http 409 ''Archived resources cannot change access'') \<and>
     fetch_visible_resource cx' rid pid d1 = Inl (http 404 ''Resource not found'')"
proof -
  obtain r where r: "lock_row rid d1 = Inr r" "r_archived_at r \<noteq> None"
    using assms
  proof (cases rule: archive_resource_cases)
    case (already t)
    then show thesis using that by simp
  next
    case (archived t d0)
    show thesis by (rule that [OF row_change_steps(1) [OF archived(4,5,1)]]) simp_all
  qed
  have "filter (\<lambda>x. r_id x = rid \<and> r_archived_at x = None \<and> resource_visible d1 pid x) (db_resources d1) = []"
    using lock_rowD(3) [OF r(1)] r(2) by (auto simp: filter_empty_conv)
  then have "fetch_visible_resource cx' rid pid d1 = Inl (http 404 ''Resource not found'')"
    by (simp add: fetch_visible_resource_def resource_statement_def found_or_def)
  with r show ?thesis
    by (simp add: archive_resource_def update_resource_def transition_resource_def
        set_resource_grant_def lock_managed_resource_def)
qed

text \<open>
  A resource in use is never archived: while it has an active lease the request is
  refused with 409, and a first archival that succeeded found none.
\<close>

theorem archive_requires_no_active_lease:
  "lock_row rid d = Inr t \<Longrightarrow> r_archived_at t = None \<Longrightarrow> active_leases (cx_now cx) d rid \<noteq> [] \<Longrightarrow>
     archive_resource cx rid actor d =
       Inl (http 409 ''A resource with active leases cannot be archived'')"
  by (simp add: archive_resource_def)

end
