(* ===== verification/Catalog_Access.thy ===== *)
theory Catalog_Access
  imports Catalog_Laws
begin

text \<open>
  The catalog's state machine of operational states, the visibility rule and the access
  grants behind it, listings and their pages, and label selectors.
\<close>

subsection \<open>Operational states\<close>

text \<open>The documented automaton (\<open>docs/resource-catalog.md\<close>).\<close>

inductive status_step :: "operational_status \<Rightarrow> transition \<Rightarrow> operational_status \<Rightarrow> bool" where
  disable_active: "status_step Active Disable Disabled"
| disable_quarantined: "status_step Quarantined Disable Disabled"
| enable: "status_step Disabled Enable Active"
| quarantine: "status_step Active Quarantine Quarantined"
| recover: "status_step Quarantined Recover Active"

inductive_cases status_stepE: "status_step s t s'"
inductive_simps from_cleaning: "status_step Cleaning t s'"
inductive_simps to_cleaning: "status_step s t Cleaning"

lemma status_step_allowed:
  "status_step s t s' \<longleftrightarrow> s \<in> set (fst (allowed t)) \<and> s' = snd (allowed t)"
  by (cases t) (auto simp: allowed_def intro: status_step.intros elim: status_stepE)

lemma resource_check_status:
  "resource_check r \<Longrightarrow>
     resource_check (r\<lparr>r_status := st, r_version := r_version r + 1, r_updated_at := u\<rparr>)"
  by (simp add: resource_check_def)

lemma transition_write_succeeds:
  assumes "db_ok d"
  shows "\<exists>d1. update_resources cx (\<lambda>r. r_id r = rid)
     (\<lambda>r. r\<lparr>r_status := st, r_version := r_version r + 1\<rparr>) d = Inr d1"
proof -
  let ?rows = "update_where (\<lambda>r. r_id r = rid)
     (\<lambda>r. r\<lparr>r_status := st, r_version := r_version r + 1, r_updated_at := cx_now cx\<rparr>) (db_resources d)"
  have v: "resources_valid d (db_resources d)" using assms by (simp add: db_ok_def)
  have "list_all resource_check ?rows"
    using v by (intro list_all_update_where) (auto simp: resources_valid_def resource_check_status)
  with v have "resources_valid d ?rows"
    by (simp add: resources_valid_def unique_on_update_where)
  then show ?thesis by (simp add: update_resources_def write_resources_def)
qed

lemma audit_after_update:
  assumes "db_ok d" and "principal_exists d actor" and "update_resources cx p f d = Inr d1"
  shows "\<exists>d2. record_audit_event cx (Some actor) act st sid [] d1 = Inr d2"
  using assms update_resourcesD(1) [OF assms(3)]
  by (subst record_audit_event_succeeds) (auto simp: db_ok_def)

text \<open>
  C25: The transition operation implements the documented automaton: on a stored,
  unarchived resource it succeeds and moves it to a state exactly when the automaton has
  that step; in particular no transition enters or leaves \<open>Cleaning\<close>.
\<close>

theorem transition_refines_automaton:
  assumes "db_ok d" and "principal_exists d actor"
    and "lock_row rid d = Inr t" and "r_archived_at t = None"
  shows "(\<exists>resp d' t'. transition_resource cx rid tr actor d = Inr (resp, d') \<and>
            lock_row rid d' = Inr t' \<and> r_status t' = st') \<longleftrightarrow> status_step (r_status t) tr st'"
proof
  assume "\<exists>resp d' t'. transition_resource cx rid tr actor d = Inr (resp, d') \<and>
            lock_row rid d' = Inr t' \<and> r_status t' = st'"
  then obtain resp d' t' where tr: "transition_resource cx rid tr actor d = Inr (resp, d')"
    and t': "lock_row rid d' = Inr t'" "r_status t' = st'" by blast
  from tr show "status_step (r_status t) tr st'"
  proof (cases rule: transition_resource_cases)
    case (1 t0 d1)
    have "lock_row rid d' = Inr (t0\<lparr>r_status := snd (allowed tr), r_version := r_version t0 + 1,
        r_updated_at := cx_now cx\<rparr>)"
      using row_change_steps(1) [OF 1(4,5,1)] by simp
    with t' 1(1,3) assms(3) show ?thesis by (auto simp: status_step_allowed)
  qed
next
  assume step: "status_step (r_status t) tr st'"
  let ?f = "\<lambda>r. r\<lparr>r_status := snd (allowed tr), r_version := r_version r + 1\<rparr>"
  obtain d1 where d1: "update_resources cx (\<lambda>r. r_id r = rid) ?f d = Inr d1"
    using transition_write_succeeds [OF assms(1)] by blast
  obtain d2 where d2: "record_audit_event cx (Some actor) (transition_action tr) ''Resource'' rid [] d1 = Inr d2"
    using audit_after_update [OF assms(1,2) d1] by blast
  have l: "lock_row rid d2 = Inr ((?f t)\<lparr>r_updated_at := cx_now cx\<rparr>)"
    by (rule row_change_steps(1) [OF d1 d2 assms(3)]) simp
  have "transition_resource cx rid tr actor d = Inr (project_resource (cx_now cx) d2
      ((?f t)\<lparr>r_updated_at := cx_now cx\<rparr>), d2)"
    using assms(3,4) step d1 d2 fetch_resource_locked [OF l]
    by (cases "allowed tr") (simp add: transition_resource_def status_step_allowed)
  with l step show "\<exists>resp d' t'. transition_resource cx rid tr actor d = Inr (resp, d') \<and>
      lock_row rid d' = Inr t' \<and> r_status t' = st'"
    by (auto simp: status_step_allowed)
qed

subsection \<open>Visibility and grants\<close>

lemma direct_grant_iff:
  "direct_grant d pid rid \<longleftrightarrow> (rid, pid) \<in> (\<lambda>g. (pg_resource_id g, pg_principal_id g)) ` set (db_pgrants d)"
  by (force simp: direct_grant_def list_ex_iff)

lemma has_grant_iff:
  "has_grant Principal rid i d \<longleftrightarrow> direct_grant d i rid"
  "has_grant Group rid i d \<longleftrightarrow> list_ex (\<lambda>g. gg_resource_id g = rid \<and> gg_group_id g = i) (db_ggrants d)"
  by (simp_all add: has_grant_def direct_grant_def)

lemma has_grant_audit [simp]: "has_grant t rid i (d\<lparr>db_audit := a\<rparr>) = has_grant t rid i d"
  by (simp add: has_grant_def split: grant_target.split)

lemma write_grant_result:
  assumes "write_grant cx t rid i granted d = Inr (b, d1)"
  shows "has_grant t rid i d1 = granted" and "b = (has_grant t rid i d \<noteq> granted)"
    and "db_resources d1 = db_resources d" and "db_principals d1 = db_principals d"
    and "db_groups d1 = db_groups d" and "db_memberships d1 = db_memberships d"
  using assms
  by (auto simp: write_grant_def has_grant_def write_pgrants_def write_ggrants_def bindE_eq_Inr
      list_ex_iff split: if_splits grant_target.splits)

lemma set_resource_grant_effect:
  assumes "set_resource_grant cx rid i t granted actor d = Inr (u, d')"
  shows "has_grant t rid i d' = granted \<and> db_resources d' = db_resources d \<and>
    db_groups d' = db_groups d \<and> db_memberships d' = db_memberships d \<and>
    db_principals d' = db_principals d"
  using assms
proof (cases rule: set_resource_grant_cases)
  case (changed r d1)
  have "has_grant t rid i d' = has_grant t rid i d1"
    using record_audit_eventD [OF changed(6)] by simp
  with write_grant_result [OF changed(5)] frame [OF changed(6)] show ?thesis by simp
next
  case (noop r)
  with write_grant_result [OF noop(5)] show ?thesis by simp
qed simp

lemmas set_resource_grant_result =
  set_resource_grant_effect [THEN conjunct1]
  set_resource_grant_effect [THEN conjunct2, THEN conjunct1]
  set_resource_grant_effect [THEN conjunct2, THEN conjunct2, THEN conjunct1]
  set_resource_grant_effect [THEN conjunct2, THEN conjunct2, THEN conjunct2, THEN conjunct1]
  set_resource_grant_effect [THEN conjunct2, THEN conjunct2, THEN conjunct2, THEN conjunct2]

text \<open>
  Granting and revoking are idempotent: once a grant has been set (or removed), setting
  (or removing) it again succeeds, changes nothing in the database and records no second
  audit event.
\<close>

theorem set_grant_idempotent:
  assumes "set_resource_grant cx rid i t granted actor d = Inr (u, d1)" and "db_ok d"
  shows "set_resource_grant cx' rid i t granted actor' d1 = Inr ((), d1)"
proof -
  obtain r where r: "lock_row rid d = Inr r" "r_archived_at r = None"
      "granted \<longrightarrow> target_exists t i d"
    using assms(1) by (cases rule: set_resource_grant_cases) auto
  note res = set_resource_grant_result [OF assms(1)]
  have ok: "db_ok d1" using set_resource_grant_ok [OF assms] by simp
  have l: "lock_row rid d1 = Inr r" "granted \<longrightarrow> target_exists t i d1"
    using r res by (simp_all add: lock_row_def target_exists_def split: grant_target.splits)
  have "write_grant cx' t rid i granted d1 = Inr (False, d1)"
    using res(1) ok
    by (auto simp: write_grant_def has_grant_def delete_where_def write_pgrants_def
        write_ggrants_def db_ok_def list_ex_iff filter_id_conv bindE_eq_Inr
        split: grant_target.split)
  with l r(2) show ?thesis
    by (simp add: set_resource_grant_def lock_managed_resource_def)
qed

lemma fetch_visible_locked:
  assumes "lock_row rid d = Inr r" and "r_archived_at r = None" and "resource_visible d pid r"
  shows "fetch_visible_resource cx rid pid d = Inr (project_resource (cx_now cx) d r)"
proof -
  let ?p = "\<lambda>r. r_archived_at r = None \<and> resource_visible d pid r"
  have "filter (\<lambda>r. r_id r = rid \<and> ?p r) (db_resources d)
      = filter ?p (filter (\<lambda>r. r_id r = rid) (db_resources d))"
    by (simp add: conj_commute)
  also have "\<dots> = [r]" using assms by (simp add: lock_row_Inr)
  finally show ?thesis
    by (simp add: fetch_visible_resource_def resource_statement_def)
qed

text \<open>
  A grant takes effect: right after a direct grant the principal can read the resource,
  and right after a group grant every member of the group can.
\<close>

theorem grant_gives_visibility:
  assumes "set_resource_grant cx rid i t True actor d = Inr (u, d')"
    and "t = Principal \<and> pid = i \<or>
         t = Group \<and> list_ex (\<lambda>m. m_group_id m = i \<and> m_principal_id m = pid) (db_memberships d)"
  shows "\<exists>resp. fetch_visible_resource cx' rid pid d' = Inr resp \<and> rr_id resp = rid"
proof -
  note res = set_resource_grant_result [OF assms(1)]
  obtain r where r: "lock_row rid d = Inr r" "r_archived_at r = None" "target_exists t i d"
    using assms(1) by (cases rule: set_resource_grant_cases) auto
  have l: "lock_row rid d' = Inr r" using r(1) res(2) by (simp add: lock_row_def)
  have "resource_visible d' pid r"
  proof (cases t)
    case Principal
    with assms(2) res(1) lock_rowD(2) [OF r(1)] show ?thesis
      by (auto simp: resource_visible_def has_grant_iff)
  next
    case Group
    with res(1) obtain gg where gg: "gg \<in> set (db_ggrants d')" "gg_resource_id gg = rid"
        "gg_group_id gg = i"
      by (auto simp: has_grant_iff list_ex_iff)
    have "list_ex (\<lambda>g. g_id g = gg_group_id gg \<and> g_archived_at g = None) (db_groups d')"
      and "list_ex (\<lambda>m. m_group_id m = gg_group_id gg \<and> m_principal_id m = pid) (db_memberships d')"
      using Group assms(2) res(3,4) r(3) gg(3) by (simp_all add: target_exists_def)
    with gg(1,2) have "group_grant_via d' pid rid"
      unfolding group_grant_via_def list_ex_iff by blast
    with lock_rowD(2) [OF r(1)] show ?thesis by (simp add: resource_visible_def)
  qed
  with fetch_visible_locked [OF l r(2)] lock_rowD(2) [OF r(1)] show ?thesis
    by (simp add: project_resource_def)
qed

text \<open>
  C26: Exactly the visible resources are readable: a regular principal's read succeeds if and
  only if the resource is stored, not archived, and public, directly granted to the
  principal, or granted to an unarchived group the principal is a member of. Every other
  read is the same 404 a missing resource gives.
\<close>

theorem fetch_visible_iff:
  assumes "db_ok d"
  shows "(\<exists>resp. fetch_visible_resource cx rid pid d = Inr resp) =
     (\<exists>r \<in> set (db_resources d). r_id r = rid \<and> r_archived_at r = None \<and>
        (r_visibility_mode r = Public \<or>
         (\<exists>g \<in> set (db_pgrants d). pg_resource_id g = rid \<and> pg_principal_id g = pid) \<or>
         (\<exists>gg \<in> set (db_ggrants d). \<exists>g \<in> set (db_groups d). \<exists>m \<in> set (db_memberships d).
            gg_resource_id gg = rid \<and> g_id g = gg_group_id gg \<and> g_archived_at g = None \<and>
            m_group_id m = gg_group_id gg \<and> m_principal_id m = pid)))
   \<and> (\<forall>e. fetch_visible_resource cx rid pid d = Inl e \<longrightarrow> e = http 404 ''Resource not found'')"
proof -
  have unique: "unique_on r_id (db_resources d)"
    using assms by (simp add: db_ok_def resources_valid_def)
  let ?p = "\<lambda>r. r_id r = rid \<and> r_archived_at r = None \<and> resource_visible d pid r"
  obtain res where res: "one_or_none (filter ?p (db_resources d)) = Inr res"
    using unique_on_one_or_none [OF unique, of ?p rid] by auto
  have one: "one_or_none (resource_statement (cx_now cx) d ?p)
      = Inr (map_option (project_resource (cx_now cx) d) res)"
    using res by (cases res) (auto simp: resource_statement_def)
  have spec: "(\<exists>r \<in> set (db_resources d). ?p r) \<longleftrightarrow> res \<noteq> None"
  proof (cases res)
    case None
    then show ?thesis using res by (auto simp: filter_empty_conv)
  next
    case (Some r)
    then have "filter ?p (db_resources d) = [r]" using res by simp
    from filter_singleD(1,2) [OF this] show ?thesis using Some by blast
  qed
  have "(\<exists>resp. fetch_visible_resource cx rid pid d = Inr resp) \<longleftrightarrow> res \<noteq> None"
    by (cases res) (simp_all add: fetch_visible_resource_def one)
  moreover have "fetch_visible_resource cx rid pid d = Inl e \<longrightarrow> e = http 404 ''Resource not found''" for e
    by (simp add: fetch_visible_resource_def one)
  moreover have "(\<exists>r \<in> set (db_resources d). ?p r) \<longleftrightarrow>
     (\<exists>r \<in> set (db_resources d). r_id r = rid \<and> r_archived_at r = None \<and>
        (r_visibility_mode r = Public \<or>
         (\<exists>g \<in> set (db_pgrants d). pg_resource_id g = rid \<and> pg_principal_id g = pid) \<or>
         (\<exists>gg \<in> set (db_ggrants d). \<exists>g \<in> set (db_groups d). \<exists>m \<in> set (db_memberships d).
            gg_resource_id gg = rid \<and> g_id g = gg_group_id gg \<and> g_archived_at g = None \<and>
            m_group_id m = gg_group_id gg \<and> m_principal_id m = pid)))"
    unfolding resource_visible_def direct_grant_def group_grant_via_def list_ex_iff by blast
  ultimately show ?thesis using spec by blast
qed

subsection \<open>Listings\<close>

lemma matching_resources_iff:
  "rr \<in> set (matching_resources cx q pid administrator d) \<longleftrightarrow>
     (\<exists>r \<in> set (db_resources d). resource_filters q pid administrator d r \<and>
        rr = project_resource (cx_now cx) d r \<and> opt_ok (\<lambda>a. rr_available rr = a) (rq_available q))"
  by (auto simp: matching_resources_def resource_statement_def)

lemma resource_filters_page [simp]:
  "resource_filters (q\<lparr>rq_offset := off, rq_limit := lim\<rparr>) pid administrator d
     = resource_filters q pid administrator d"
  by (rule ext) (simp add: resource_filters_def)

lemma matching_resources_page [simp]:
  "matching_resources cx (q\<lparr>rq_offset := off, rq_limit := lim\<rparr>) pid administrator d
     = matching_resources cx q pid administrator d"
  by (simp add: matching_resources_def)

text \<open>
  Pages tile one fixed listing: there is one ordering of the matching resources, sorted by
  name under the database's collation and then by id, and every page is the slice of it at
  the page's offset and limit; the total is its length whatever the page.
\<close>

theorem list_resources_pages:
  "\<exists>full. mset full = mset (matching_resources cx q pid administrator d) \<and>
     sorted (map (\<lambda>rr. (coll (rr_name rr), rr_id rr)) full) \<and>
     (\<forall>off lim. list_resources coll cx (q\<lparr>rq_offset := off, rq_limit := lim\<rparr>) pid administrator d
        = \<lparr>pr_items = page off lim full, pr_offset = off, pr_limit = lim, pr_total = length full\<rparr>)"
proof -
  let ?full = "sort_key (\<lambda>rr. (coll (rr_name rr), rr_id rr)) (matching_resources cx q pid administrator d)"
  have "mset ?full = mset (matching_resources cx q pid administrator d)"
    by simp
  moreover have "sorted (map (\<lambda>rr. (coll (rr_name rr), rr_id rr)) ?full)"
    by (rule sorted_sort_key)
  ultimately show ?thesis
    by (intro exI [of _ ?full]) (simp add: list_resources_def Let_def)
qed

text \<open>
  A regular principal's listing discloses nothing else: every item of every page is a
  stored resource the principal can see, archived ones appear only when asked for, and the
  item satisfies all the filters of the request.
\<close>

theorem list_resources_sound:
  assumes "rr \<in> set (pr_items (list_resources coll cx q pid False d))"
  shows "\<exists>r \<in> set (db_resources d). rr = project_resource (cx_now cx) d r \<and>
     resource_visible d pid r \<and> (r_archived_at r \<noteq> None \<longrightarrow> rq_include_archived q) \<and>
     labels_contain (r_labels r) (rq_labels q) \<and>
     (\<forall>ty. rq_type q = Some ty \<longrightarrow> r_type r = ty) \<and>
     (\<forall>a. rq_available q = Some a \<longrightarrow> rr_available rr = a)"
proof -
  have "rr \<in> set (matching_resources cx q pid False d)"
    using assms set_page_subset by (fastforce simp: list_resources_def Let_def)
  then obtain r where "r \<in> set (db_resources d)" "resource_filters q pid False d r"
      "rr = project_resource (cx_now cx) d r" "opt_ok (\<lambda>a. rr_available rr = a) (rq_available q)"
    unfolding matching_resources_iff by blast
  then show ?thesis
    by (intro bexI [of _ r]) (auto simp: resource_filters_def opt_ok_def)
qed

subsection \<open>Label selectors\<close>

lemma partition_eq_True_iff:
  "partition_eq s = (k, True, v) \<longleftrightarrow> s = k @ ''='' @ v \<and> CHR ''='' \<notin> set k"
proof (induction s arbitrary: k)
  case (Cons c cs)
  obtain k1 sep v1 where p: "partition_eq cs = (k1, sep, v1)" by (cases "partition_eq cs") auto
  show ?case
  proof (cases k)
    case Nil
    then show ?thesis by (simp add: p eq_commute [of v])
  next
    case (Cons a k2)
    with Cons.IH [of k2] show ?thesis by (auto simp: p)
  qed
qed simp

definition label_pair :: "string \<Rightarrow> string \<Rightarrow> string \<Rightarrow> bool" where
  "label_pair s k v \<longleftrightarrow> s = k @ ''='' @ v \<and> CHR ''='' \<notin> set k"

lemma label_pair_partition: "label_pair s k v \<longleftrightarrow> partition_eq s = (k, True, v)"
  by (simp add: label_pair_def partition_eq_True_iff)

lemma label_pair_unique: "label_pair s k v \<Longrightarrow> label_pair s k' v' \<Longrightarrow> k = k' \<and> v = v'"
  by (simp add: label_pair_partition)

lemma parse_labels_from_Cons:
  "parse_labels_from acc (s # rest) = Inr ls \<longleftrightarrow>
     (\<exists>k v. label_pair s k v \<and> k \<noteq> [] \<and> (map_of acc k = None \<or> map_of acc k = Some v) \<and>
        parse_labels_from (dict_set k v acc) rest = Inr ls)"
proof -
  obtain k sep v where p: "partition_eq s = (k, sep, v)" by (cases "partition_eq s") auto
  then show ?thesis by (cases sep) (auto simp: label_pair_partition)
qed

declare parse_labels_from.simps(2) [simp del]

lemma parse_labels_from_meaning:
  "parse_labels_from acc vs = Inr ls \<Longrightarrow>
     (map_of ls k = Some v \<longleftrightarrow> map_of acc k = Some v \<or> (\<exists>s \<in> set vs. label_pair s k v))"
proof (induction vs arbitrary: acc)
  case (Cons s rest)
  then obtain k' v' where s: "label_pair s k' v'" "map_of acc k' = None \<or> map_of acc k' = Some v'"
    and rest: "parse_labels_from (dict_set k' v' acc) rest = Inr ls"
    unfolding parse_labels_from_Cons by blast
  have pair: "label_pair s k v \<longleftrightarrow> k = k' \<and> v = v'"
    using s(1) label_pair_unique by blast
  have "map_of (dict_set k' v' acc) k = Some v \<longleftrightarrow> map_of acc k = Some v \<or> label_pair s k v"
    using s(2) unfolding pair by (cases "k = k'") auto
  with Cons.IH [OF rest] show ?case by simp
qed simp

lemma parse_labels_from_distinct:
  "parse_labels_from acc vs = Inr ls \<Longrightarrow> distinct (map fst acc) \<Longrightarrow> distinct (map fst ls)"
  by (induction vs arbitrary: acc) (auto simp: parse_labels_from_Cons distinct_dict_set)

lemma parse_labels_from_succeeds:
  assumes "\<And>s. s \<in> set vs \<Longrightarrow> \<exists>k v. label_pair s k v \<and> k \<noteq> []"
    and "\<And>s s' k v v'. s \<in> set vs \<Longrightarrow> s' \<in> set vs \<Longrightarrow> label_pair s k v \<Longrightarrow> label_pair s' k v' \<Longrightarrow> v = v'"
    and "\<And>s k v w. s \<in> set vs \<Longrightarrow> label_pair s k v \<Longrightarrow> map_of acc k = Some w \<Longrightarrow> w = v"
  shows "\<exists>ls. parse_labels_from acc vs = Inr ls"
  using assms
proof (induction vs arbitrary: acc)
  case (Cons s rest)
  from Cons.prems(1) [of s] obtain k v where s: "label_pair s k v" "k \<noteq> []" by auto
  have "\<exists>ls. parse_labels_from (dict_set k v acc) rest = Inr ls"
  proof (rule Cons.IH)
    fix s' k' v' w
    assume s': "s' \<in> set rest" "label_pair s' k' v'" "map_of (dict_set k v acc) k' = Some w"
    show "w = v'"
    proof (cases "k' = k")
      case True
      have "v = v'" by (rule Cons.prems(2) [of s s' k]) (use s s' True in simp_all)
      with s'(3) True show ?thesis by simp
    next
      case False
      then show ?thesis using s' Cons.prems(3) [of s' k' v' w] by simp
    qed
  next
    fix s' assume "s' \<in> set rest"
    then show "\<exists>k v. label_pair s' k v \<and> k \<noteq> []" using Cons.prems(1) [of s'] by simp
  next
    fix s1 s2 k' v1 v2
    assume "s1 \<in> set rest" "s2 \<in> set rest" "label_pair s1 k' v1" "label_pair s2 k' v2"
    then show "v1 = v2" using Cons.prems(2) [of s1 s2 k' v1 v2] by simp
  qed
  moreover have "map_of acc k = None \<or> map_of acc k = Some v"
    using Cons.prems(3) [of s k v] s(1) by (cases "map_of acc k") auto
  ultimately show ?case using s unfolding parse_labels_from_Cons by blast
qed simp

lemma parse_labels_from_wf:
  "parse_labels_from acc vs = Inr ls \<Longrightarrow> s \<in> set vs \<Longrightarrow> \<exists>k v. label_pair s k v \<and> k \<noteq> []"
proof (induction vs arbitrary: acc)
  case (Cons s' rest)
  from Cons.prems(1) obtain k v where "label_pair s' k v" "k \<noteq> []"
      "parse_labels_from (dict_set k v acc) rest = Inr ls"
    unfolding parse_labels_from_Cons by blast
  with Cons.IH Cons.prems(2) show ?case by auto
qed simp

text \<open>
  A label selector means what its texts say: parsing repeated \<open>key=value\<close> parameters
  yields a mapping without duplicate keys, and a resource's labels contain it exactly when
  they hold every pair the parameters spell out.
\<close>

theorem parse_labels_selects:
  assumes "parse_labels vs = Inr sel"
  shows "distinct (map fst sel) \<and>
     (labels_contain stored sel \<longleftrightarrow>
        (\<forall>s \<in> set vs. \<forall>k v. s = k @ ''='' @ v \<and> CHR ''='' \<notin> set k \<longrightarrow> map_of stored k = Some v))"
proof -
  note parse = assms [unfolded parse_labels_def]
  have "map_of sel k = Some v \<longleftrightarrow> (\<exists>s \<in> set vs. label_pair s k v)" for k v
    using parse_labels_from_meaning [OF parse, of k v] by simp
  then show ?thesis
    using parse_labels_from_distinct [OF parse] by (auto simp: labels_contain_iff label_pair_def)
qed

text \<open>
  Parsing rejects exactly the malformed selectors: it succeeds if and only if every
  parameter has a non-empty key before its first \<open>=\<close> and no key is given two values.
\<close>

theorem parse_labels_accepts:
  "(\<exists>sel. parse_labels vs = Inr sel) \<longleftrightarrow>
     (\<forall>s \<in> set vs. \<exists>k v. s = k @ ''='' @ v \<and> CHR ''='' \<notin> set k \<and> k \<noteq> []) \<and>
     (\<forall>k v v'. CHR ''='' \<notin> set k \<longrightarrow> k @ ''='' @ v \<in> set vs \<longrightarrow> k @ ''='' @ v' \<in> set vs \<longrightarrow> v = v')"
    (is "?parses \<longleftrightarrow> ?wf \<and> ?unamb")
proof
  assume ?parses
  then obtain sel where sel: "parse_labels_from [] vs = Inr sel" by (auto simp: parse_labels_def)
  have mean: "map_of sel k = Some v \<longleftrightarrow> (\<exists>s \<in> set vs. label_pair s k v)" for k v
    using parse_labels_from_meaning [OF sel, of k v] by simp
  have ?unamb
  proof (intro allI impI)
    fix k v v' assume k: "CHR ''='' \<notin> set k" "k @ ''='' @ v \<in> set vs" "k @ ''='' @ v' \<in> set vs"
    then have "map_of sel k = Some v" "map_of sel k = Some v'"
      unfolding mean by (auto simp: label_pair_def)
    then show "v = v'" by simp
  qed
  moreover have ?wf using parse_labels_from_wf [OF sel] by (auto simp: label_pair_def)
  ultimately show "?wf \<and> ?unamb" by blast
next
  assume "?wf \<and> ?unamb"
  then have "\<exists>ls. parse_labels_from [] vs = Inr ls"
    by (intro parse_labels_from_succeeds) (unfold label_pair_def, blast, metis, simp)
  then show ?parses by (simp add: parse_labels_def)
qed

end
