(* ===== verification/Identity_Access.thy ===== *)
theory Identity_Access
  imports Identity_Laws Catalog_Access
begin

text \<open>
  Consequences of identity changes: archiving a principal locks it out, the last administrator
  who can log in cannot be archived or demoted, and groups give visibility only while they
  are active and only to their members.
\<close>

subsection \<open>Inversion\<close>

lemma archive_principal_cases:
  assumes "archive_principal cx principal_id kind actor_id d = Inr ((), d')"
  obtains target d1 where
    "filter (\<lambda>x. p_id x = principal_id \<and> p_kind x = kind) (db_principals d) = [target]"
    "\<not> (kind = User \<and> p_role target = Admin \<and> active_administrators d = [principal_id])"
    "update_principals cx (\<lambda>x. p_id x = principal_id \<and> p_kind x = kind)
       (\<lambda>x. x\<lparr>p_archived_at := Some (coalesce (p_archived_at x) (cx_now cx))\<rparr>) d = Inr d1"
    "record_audit_event cx (Some actor_id) ''principal.archived'' ''Principal'' principal_id [] d1 = Inr d'"
  using assms
  by (auto simp: archive_principal_def Let_def bindE_eq_Inr found_or_def split: if_splits option.splits)

lemma update_principal_cases:
  assumes "update_principal cx principal_id rq kind actor_id d = Inr (resp, d')"
  obtains (unchanged) "d' = d" "pu_display_name rq = None" "pu_role rq = None"
  | (updated) d1 row where
      "update_principals cx (\<lambda>x. p_id x = principal_id \<and> p_kind x = kind) (apply_principal_update rq) d = Inr d1"
      "filter (\<lambda>x. p_id x = principal_id \<and> p_kind x = kind) (db_principals d1) = [row]" "resp = row"
      "record_audit_event cx (Some actor_id) ''principal.updated'' ''Principal'' principal_id [] d1 = Inr d'"
  using assms
  by (auto simp: update_principal_def Let_def bindE_eq_Inr found_or_def principal_from_row_def
      split: if_splits option.splits)

lemma create_principal_cases:
  assumes "create_principal cx principal_id hashed rq kind actor_id d = Inr (resp, d')"
  obtains d1 d2 where "write_principals (db_principals d @ [resp]) d = Inr d1"
    "if pn_password rq \<noteq> None
     then write_credentials (db_credentials d1 @ [\<lparr>pc_principal_id = principal_id,
            pc_password_hash = hashed, pc_updated_at = cx_now cx\<rparr>]) d1 = Inr d2
     else d2 = d1"
    "record_audit_event cx (Some actor_id) ''principal.created'' ''Principal'' principal_id [] d2 = Inr d'"
    "p_id resp = principal_id" "p_kind resp = kind" "p_role resp = pn_role rq" "p_archived_at resp = None"
  using assms
  by (cases kind; cases "pn_password rq")
    (auto simp: create_principal_def Let_def bindE_eq_Inr principal_from_row_def)

lemma bootstrap_cases:
  assumes "bootstrap_administrator cx principal_id hashed username display_name d = Inr (i, d')"
  obtains row d1 d2 ev where "active_administrators d = []"
    "write_principals (db_principals d @ [row]) d = Inr d1"
    "write_credentials (db_credentials d1 @ [\<lparr>pc_principal_id = principal_id,
            pc_password_hash = hashed, pc_updated_at = cx_now cx\<rparr>]) d1 = Inr d2"
    "write_audit (db_audit d2 @ [ev]) d2 = Inr d'" "a_actor_id ev = None"
    "p_id row = principal_id" "p_kind row = User" "p_role row = Admin" "p_archived_at row = None"
    "p_name row = username"
  using assms by (auto simp: bootstrap_administrator_def bindE_eq_Inr split: if_splits)

subsection \<open>Archived principals\<close>

text \<open>
  Archiving a principal ends its access at once: no bearer token authenticates as it any
  more, at any time, and login under its name fails like any other failed login.
\<close>

theorem archived_principal_locked_out:
  assumes "archive_principal cx principal_id kind actor_id d = Inr ((), d')" and "db_ok d"
    and "p \<in> set (db_principals d)" and "p_id p = principal_id"
    and "verify dummy_hash password \<noteq> InvalidHash"
  shows "(\<forall>a d''. authenticate_token sha cx2 token d' = Inr (a, d'') \<longrightarrow>
      p_id (ap_principal a) \<noteq> principal_id) \<and>
    login sha verify dummy_hash ttl cx3 app_now token_id random (p_name p) password d' =
      Inl AuthenticationError"
  using assms(1)
proof (cases rule: archive_principal_cases)
  case (1 target d1)
  let ?q = "\<lambda>x. p_id x = principal_id \<and> p_kind x = kind"
  let ?f = "\<lambda>x. x\<lparr>p_archived_at := Some (coalesce (p_archived_at x) (cx_now cx)), p_updated_at := cx_now cx\<rparr>"
  have rows: "db_principals d' = update_where ?q ?f (db_principals d)"
    using update_principalsD [OF 1(3)] frame(1) [OF 1(4)] by simp
  have target: "target = p"
    using principal_id_inj [OF assms(2) _ assms(3)] filter_singleD(1,2) [OF 1(1)] assms(4) by simp
  then have kind: "p_kind p = kind" using filter_singleD(2) [OF 1(1)] by simp
  have archived: "p_archived_at r \<noteq> None" if "r \<in> set (db_principals d')" "p_id r = principal_id" for r
    using that(1) unfolding rows
  proof (cases rule: update_where_memE)
    case kept
    then have "r = p" using principal_id_inj [OF assms(2) kept(1) assms(3)] that(2) assms(4) by simp
    with kept kind assms(4) show ?thesis by blast
  qed simp
  have names: "p_id r = principal_id" if "r \<in> set (db_principals d')" "p_name r = p_name p" for r
    using that(1) unfolding rows
  proof (cases rule: update_where_memE)
    case kept
    have "unique_on p_name (db_principals d)" using assms(2) by (simp add: db_ok_def principals_valid_def)
    then have "r = p" using kept(1) assms(3) that(2) by (rule unique_on_inj)
    with assms(4) show ?thesis by simp
  qed simp
  have "p_id (ap_principal a) \<noteq> principal_id" if a: "authenticate_token sha cx2 token d' = Inr (a, d'')" for a d''
  proof -
    have "(ap_principal a, t) \<in> set (token_rows (sha token) cx2 d') \<longrightarrow> p_archived_at (ap_principal a) = None" for t
      by (simp add: token_rows_mem)
    moreover obtain t where "token_rows (sha token) cx2 d' = [(ap_principal a, t)]"
      using a by (auto simp: authenticate_token_def token_hash_def bindE_eq_Inr split: option.splits)
    ultimately have "ap_principal a \<in> set (db_principals d')" "p_archived_at (ap_principal a) = None"
      using token_rows_mem [of "ap_principal a" t "sha token" cx2 d'] by auto
    with archived show ?thesis by blast
  qed
  moreover have "login_rows (p_name p) d' = []"
    by (rule login_rows_none) (use archived names in \<open>auto simp: account_def\<close>)
  then have "login sha verify dummy_hash ttl cx3 app_now token_id random (p_name p) password d' =
      Inl AuthenticationError"
    using assms(5) by (auto simp: login_def verify_password_def split: argon2_result.splits)
  ultimately show ?thesis by blast
qed

subsection \<open>The last administrator\<close>

definition can_administer :: "db \<Rightarrow> principal \<Rightarrow> bool" where
  "can_administer d p \<longleftrightarrow> p \<in> set (db_principals d) \<and> p_kind p = User \<and> p_role p = Admin \<and>
     p_archived_at p = None \<and> p_id p \<in> pc_principal_id ` set (db_credentials d)"

lemma active_administrators_mem:
  "a \<in> set (active_administrators d) \<longleftrightarrow> (\<exists>p. can_administer d p \<and> p_id p = a)"
proof -
  let ?q = "\<lambda>p c. pc_principal_id c = p_id p \<and> p_kind p = User \<and> p_role p = Admin \<and> p_archived_at p = None"
  have "active_administrators d =
      map (\<lambda>(p, c). p_id p) (filter (\<lambda>(p, c). ?q p c) (List.product (db_principals d) (db_credentials d)))"
    unfolding active_administrators_def join_map [where f = "\<lambda>p c. p_id p"]
    by (subst join_as_filter) (rule refl)
  then show ?thesis by (force simp: can_administer_def)
qed

lemma active_administrators_none:
  "active_administrators d = [] \<longleftrightarrow> (\<forall>p. \<not> can_administer d p)"
  using active_administrators_mem [of _ d] by (metis list.set_intros(1) neq_Nil_conv list.distinct(1) empty_iff list.set(1))

lemma distinct_active_administrators:
  assumes "db_ok d"
  shows "distinct (active_administrators d)"
proof -
  let ?q = "\<lambda>p c. pc_principal_id c = p_id p \<and> p_kind p = User \<and> p_role p = Admin \<and> p_archived_at p = None"
  let ?j = "[(p, c). p \<leftarrow> db_principals d, c \<leftarrow> db_credentials d, ?q p c]"
  have "distinct ?j"
    using unique_on_distinct [OF principals_unique [OF assms]]
      unique_on_distinct [OF credentials_unique [OF assms]] by (rule distinct_join)
  moreover have "inj_on (\<lambda>(p, c). p_id p) (set ?j)"
  proof (rule inj_onI)
    fix x y assume xy: "x \<in> set ?j" "y \<in> set ?j" and eq: "(\<lambda>(p, c). p_id p) x = (\<lambda>(p, c). p_id p) y"
    obtain p c q e where split: "x = (p, c)" "y = (q, e)" by (cases x; cases y)
    with xy have m: "p \<in> set (db_principals d)" "c \<in> set (db_credentials d)" "pc_principal_id c = p_id p"
      "q \<in> set (db_principals d)" "e \<in> set (db_credentials d)" "pc_principal_id e = p_id q" by auto
    have "p = q" using principal_id_inj [OF assms m(1,4)] eq split by simp
    moreover have "c = e" using unique_on_inj [OF credentials_unique [OF assms] m(2,5)] m(3,6) eq split by simp
    ultimately show "x = y" using split by simp
  qed
  ultimately have "distinct (map (\<lambda>(p, c). p_id p) ?j)" by (simp only: distinct_map)
  then show ?thesis unfolding active_administrators_def join_map [where f = "\<lambda>p c. p_id p"] .
qed

lemma another_administrator:
  assumes "db_ok d" and "active_administrators d \<noteq> []" and "active_administrators d \<noteq> [i]"
  obtains p where "can_administer d p" "p_id p \<noteq> i"
proof (cases "active_administrators d")
  case Nil
  with assms(2) show thesis by blast
next
  case (Cons a as)
  have "\<exists>b \<in> set (active_administrators d). b \<noteq> i"
  proof (cases "a = i")
    case True
    with Cons assms(3) obtain b bs where "as = b # bs" by (cases as) auto
    with Cons distinct_active_administrators [OF assms(1)] True show ?thesis by auto
  qed (use Cons in simp)
  then show thesis using that by (auto simp: active_administrators_mem)
qed

lemma administrator_survives:
  assumes "can_administer d p"
    and "db_principals d' = update_where q f (db_principals d)"
    and "q p \<Longrightarrow> p_id (f p) = p_id p \<and> p_kind (f p) = User \<and> p_role (f p) = Admin \<and> p_archived_at (f p) = None"
    and "pc_principal_id ` set (db_credentials d) \<subseteq> pc_principal_id ` set (db_credentials d')"
  shows "active_administrators d' \<noteq> []"
proof -
  let ?p = "if q p then f p else p"
  have "?p \<in> set (db_principals d')"
    using assms(1,2) by (auto simp: can_administer_def set_update_where)
  then have "can_administer d' ?p" using assms(1,3,4) by (auto simp: can_administer_def)
  then show ?thesis by (auto simp: active_administrators_none)
qed

lemma administrator_survives_append:
  assumes "active_administrators d \<noteq> []"
    and "set (db_principals d) \<subseteq> set (db_principals d')"
    and "pc_principal_id ` set (db_credentials d) \<subseteq> pc_principal_id ` set (db_credentials d')"
  shows "active_administrators d' \<noteq> []"
proof -
  obtain p where "can_administer d p" using assms(1) by (auto simp: active_administrators_none)
  then have "can_administer d' p" using assms(2,3) unfolding can_administer_def by blast
  then show ?thesis by (auto simp: active_administrators_none)
qed

lemma archive_principal_keeps_administrator:
  assumes "archive_principal cx principal_id kind actor_id d = Inr ((), d')" and "db_ok d"
    and "active_administrators d \<noteq> []"
  shows "active_administrators d' \<noteq> []"
  using assms(1)
proof (cases rule: archive_principal_cases)
  case (1 target d1)
  have rows: "db_principals d' = update_where (\<lambda>x. p_id x = principal_id \<and> p_kind x = kind)
      (\<lambda>x. x\<lparr>p_archived_at := Some (coalesce (p_archived_at x) (cx_now cx)), p_updated_at := cx_now cx\<rparr>)
      (db_principals d)" "db_credentials d' = db_credentials d"
    using update_principalsD [OF 1(3)] frame(1,2) [OF 1(4)] by simp_all
  have "\<exists>p. can_administer d p \<and> \<not> (p_id p = principal_id \<and> p_kind p = kind)"
  proof (cases "active_administrators d = [principal_id]")
    case True
    then obtain p where p: "can_administer d p" "p_id p = principal_id"
      using active_administrators_mem [of principal_id d] by auto
    have "target = p" if "p_kind p = kind"
      using filter_singleD(3) [OF 1(1), of p] p that by (auto simp: can_administer_def)
    with 1(2) True p have "p_kind p \<noteq> kind" by (auto simp: can_administer_def)
    with p show ?thesis by blast
  next
    case False
    with another_administrator [OF assms(2,3)] show ?thesis by blast
  qed
  then obtain p where "can_administer d p" "\<not> (p_id p = principal_id \<and> p_kind p = kind)" by blast
  then show ?thesis by (intro administrator_survives [OF _ rows(1)]) (auto simp: rows(2))
qed

lemma update_principal_keeps_administrator:
  assumes "update_principal cx principal_id rq kind actor_id d = Inr (resp, d')"
    and "can_administer d p"
    and "p_id p = principal_id \<Longrightarrow> p_kind p = kind \<Longrightarrow> pu_role rq \<noteq> Some RegularUser"
  shows "active_administrators d' \<noteq> []"
  using assms(1)
proof (cases rule: update_principal_cases)
  case unchanged
  with assms(2) show ?thesis by (auto simp: active_administrators_none)
next
  case (updated d1 row)
  have rows: "db_principals d' = update_where (\<lambda>x. p_id x = principal_id \<and> p_kind x = kind)
      (\<lambda>x. (apply_principal_update rq x)\<lparr>p_updated_at := cx_now cx\<rparr>) (db_principals d)"
    "db_credentials d' = db_credentials d"
    using update_principalsD [OF updated(1)] frame(1,2) [OF updated(4)] by simp_all
  have "coalesce (pu_role rq) (p_role p) = Admin" if "p_id p = principal_id" "p_kind p = kind"
    using assms(2) assms(3) [OF that]
    by (cases "pu_role rq"; cases "the (pu_role rq)") (auto simp: coalesce_def can_administer_def)
  with assms(2) rows(2) show ?thesis
    by (intro administrator_survives [OF assms(2) rows(1)])
      (auto simp: apply_principal_update_def can_administer_def)
qed

lemma guarded_update_keeps_administrator:
  assumes "guarded_update cx user_id rq actor_id d = Inr (resp, d')" and "db_ok d"
    and "active_administrators d \<noteq> []"
  shows "active_administrators d' \<noteq> []"
proof -
  have up: "update_principal cx user_id rq User actor_id d = Inr (resp, d')"
    and guard: "pu_role rq = Some RegularUser \<Longrightarrow> active_administrators d \<noteq> [user_id]"
    using assms(1) by (auto simp: guarded_update_def split: if_splits)
  have "\<exists>p. can_administer d p \<and> (p_id p = user_id \<longrightarrow> pu_role rq \<noteq> Some RegularUser)"
  proof (cases "pu_role rq = Some RegularUser")
    case True
    with another_administrator [OF assms(2,3) guard] show ?thesis by blast
  next
    case False
    with assms(3) show ?thesis by (auto simp: active_administrators_none)
  qed
  then show ?thesis using update_principal_keeps_administrator [OF up] by blast
qed

lemma update_service_keeps_administrator:
  assumes "update_principal cx identity_id rq Service actor_id d = Inr (resp, d')"
    and "active_administrators d \<noteq> []"
  shows "active_administrators d' \<noteq> []"
proof -
  obtain p where p: "can_administer d p" using assms(2) by (auto simp: active_administrators_none)
  then have "p_kind p \<noteq> Service" by (simp add: can_administer_def)
  with p show ?thesis by (intro update_principal_keeps_administrator [OF assms(1)]) auto
qed

lemma create_principal_keeps_administrator:
  assumes "create_principal cx principal_id hashed rq kind actor_id d = Inr (resp, d')"
    and "active_administrators d \<noteq> []"
  shows "active_administrators d' \<noteq> []"
  using assms(1)
proof (cases rule: create_principal_cases)
  case (1 d1 d2)
  have "set (db_principals d) \<subseteq> set (db_principals d')" "set (db_credentials d) \<subseteq> set (db_credentials d')"
    using 1(1,2) frame(1,2) [OF 1(3)]
    by (auto simp: write_principals_def write_credentials_def split: if_splits)
  then show ?thesis by (intro administrator_survives_append [OF assms(2)]) auto
qed

text \<open>
  Bootstrap creates the first administrator and only the first: it succeeds only when nobody can
  administer the system, afterwards somebody can, and a second bootstrap is refused.
\<close>

theorem bootstrap_exactly_once:
  assumes "bootstrap_administrator cx principal_id hashed username display_name d = Inr (i, d')"
  shows "active_administrators d = [] \<and> principal_id \<in> set (active_administrators d') \<and>
    bootstrap_administrator cx2 id2 hashed2 username2 display_name2 d' =
      Inl (RuntimeError ''an administrator already exists'')"
  using assms
proof (cases rule: bootstrap_cases)
  case (1 row d1 d2 ev)
  have "db_principals d' = db_principals d @ [row]"
    "principal_id \<in> pc_principal_id ` set (db_credentials d')"
    using 1(2-4) by (auto simp: write_principals_def write_credentials_def write_audit_def split: if_splits)
  then have "can_administer d' row" using 1 by (auto simp: can_administer_def)
  then have mem: "principal_id \<in> set (active_administrators d')"
    using 1(6) by (auto simp: active_administrators_mem)
  then have "active_administrators d' \<noteq> []" by auto
  with 1(1) mem show ?thesis by (simp add: bootstrap_administrator_def)
qed

subsection \<open>Groups\<close>

lemma archive_group_cases:
  assumes "archive_group cx group_id actor_id d = Inr ((), d')"
  obtains d1 where "update_groups cx (\<lambda>x. g_id x = group_id)
      (\<lambda>g. g\<lparr>g_archived_at := Some (coalesce (g_archived_at g) (cx_now cx))\<rparr>) d = Inr d1"
    "record_audit_event cx (Some actor_id) ''group.archived'' ''Group'' group_id [] d1 = Inr d'"
  using assms by (auto simp: archive_group_def Let_def bindE_eq_Inr)

text \<open>
  An archived group gives access to nothing: after archiving a group, a restricted resource is
  visible to a principal exactly when it was before by a direct grant or through another
  active group of which the principal is a member.
\<close>

theorem archived_group_hides:
  assumes "archive_group cx group_id actor_id d = Inr ((), d')"
  shows "resource_visible d' pid r \<longleftrightarrow> r_visibility_mode r = Public \<or> direct_grant d pid (r_id r) \<or>
    (\<exists>gg \<in> set (db_ggrants d). \<exists>g \<in> set (db_groups d). \<exists>m \<in> set (db_memberships d).
       gg_resource_id gg = r_id r \<and> g_id g = gg_group_id gg \<and> g_id g \<noteq> group_id \<and>
       g_archived_at g = None \<and> m_group_id m = gg_group_id gg \<and> m_principal_id m = pid)"
  using assms
proof (cases rule: archive_group_cases)
  case (1 d1)
  let ?f = "\<lambda>g. g\<lparr>g_archived_at := Some (coalesce (g_archived_at g) (cx_now cx)), g_updated_at := cx_now cx\<rparr>"
  have tables: "db_groups d' = update_where (\<lambda>x. g_id x = group_id) ?f (db_groups d)"
    "db_ggrants d' = db_ggrants d" "db_memberships d' = db_memberships d" "db_pgrants d' = db_pgrants d"
    using update_groupsD [OF 1(1)] frame(5,6,8,9) [OF 1(2)] by simp_all
  have "list_ex (\<lambda>g. g_id g = i \<and> g_archived_at g = None) (db_groups d') \<longleftrightarrow>
      list_ex (\<lambda>g. g_id g = i \<and> g_id g \<noteq> group_id \<and> g_archived_at g = None) (db_groups d)" for i
    unfolding tables(1) update_where_def by (auto simp: list_ex_iff)
  then show ?thesis
    unfolding resource_visible_def direct_grant_def group_grant_via_def tables(2-4) list_ex_iff by blast
qed

end
