(* ===== verification/Cipher.thy ===== *)
theory Cipher
  imports Encoding
begin

text \<open>
  Managed-secret encryption (\<open>resource_secrets/crypto.py\<close>): the key ring of \<open>SecretCipher\<close>,
  the versioned envelope and the data that binds it to one secret of one resource. AES-256-GCM
  is a parameter: \<open>ae_seal key nonce plaintext associated\<close> and its inverse, which gives
  \<open>None\<close> where the library raises \<open>InvalidTag\<close> or \<open>ValueError\<close>. The nonce
  \<open>os.urandom(12)\<close> draws is an argument.
\<close>

record aead =
  ae_seal :: "bytes \<Rightarrow> bytes \<Rightarrow> bytes \<Rightarrow> bytes \<Rightarrow> bytes"
  ae_open :: "bytes \<Rightarrow> bytes \<Rightarrow> bytes \<Rightarrow> bytes \<Rightarrow> bytes option"

definition all_bytes :: "bytes \<Rightarrow> bool" where
  "all_bytes bs \<longleftrightarrow> list_all (\<lambda>b. b < 256) bs"

text \<open>What the library documents: opening what was sealed gives the plaintext back.\<close>

definition aead_correct :: "aead \<Rightarrow> bool" where
  "aead_correct ae \<longleftrightarrow>
     (\<forall>k n p a. ae_open ae k n (ae_seal ae k n p a) a = Some p \<and>
        (all_bytes p \<and> all_bytes a \<longrightarrow> all_bytes (ae_seal ae k n p a)))"

subsection \<open>The key ring\<close>

record cipher =
  ci_active :: "string option"
  ci_keys :: "(string \<times> bytes) list"

definition decode_key :: "string \<Rightarrow> exc + bytes" where
  "decode_key encoded =
     (case b64decode encoded of
        None \<Rightarrow> Inl (SecretEncryptionUnavailable ''A secret encryption key is invalid'')
      | Some key \<Rightarrow>
          if length key \<noteq> 32
          then Inl (SecretEncryptionUnavailable ''Secret encryption keys must contain 32 bytes'')
          else Inr key)"

fun decode_keys :: "(string \<times> string) list \<Rightarrow> exc + (string \<times> bytes) list" where
  "decode_keys [] = Inr []"
| "decode_keys ((key_id, encoded) # rest) =
     bindE (decode_key encoded) (\<lambda>key. bindE (decode_keys rest) (\<lambda>ks. Inr ((key_id, key) # ks)))"

definition new_cipher :: "string option \<Rightarrow> (string \<times> string) list \<Rightarrow> exc + cipher" where
  "new_cipher active_key_id encoded_keys =
     bindE (decode_keys encoded_keys) (\<lambda>ks. Inr \<lparr>ci_active = active_key_id, ci_keys = ks\<rparr>)"

subsection \<open>Envelopes\<close>

definition associated_data :: "uuid \<Rightarrow> uuid \<Rightarrow> bytes" where
  "associated_data resource_id secret_id =
     utf8_encode (''shepherd-rm:resource-secret:'' @ uuid_str resource_id @ '':'' @ uuid_str secret_id)"

definition envelope_json :: "string \<Rightarrow> string \<Rightarrow> json" where
  "envelope_json nonce ciphertext = JObj
     [(''version'', JInt 1), (''algorithm'', JStr ''AES-256-GCM''),
      (''nonce'', JStr nonce), (''ciphertext'', JStr ciphertext)]"

text \<open>An encrypted secret is its envelope and the identifier of the key that sealed it.\<close>

definition encrypt ::
  "aead \<Rightarrow> cipher \<Rightarrow> bytes \<Rightarrow> string \<Rightarrow> uuid \<Rightarrow> uuid \<Rightarrow> exc + (string \<times> string)" where
  "encrypt ae cipher nonce plain resource_id secret_id =
     (case ci_active cipher of
        None \<Rightarrow> Inl (SecretEncryptionUnavailable ''Managed-secret encryption is not configured'')
      | Some key_id \<Rightarrow>
          (case map_of (ci_keys cipher) key_id of
             None \<Rightarrow> Inl (SecretEncryptionUnavailable ''Managed-secret encryption is not configured'')
           | Some key \<Rightarrow>
               let ciphertext = ae_seal ae key nonce (utf8_encode plain) (associated_data resource_id secret_id)
               in Inr (json_dumps False (envelope_json (b64encode nonce) (b64encode ciphertext)), key_id)))"

text \<open>Python's \<open>value == 1\<close> on a parsed JSON value.\<close>

definition equals_one :: "json option \<Rightarrow> bool" where
  "equals_one v \<longleftrightarrow> v = Some (JInt 1) \<or> v = Some (JBool True) \<or> v = Some (JFloat ''1.0'')"

definition decoded_field :: "(string \<times> json) list \<Rightarrow> string \<Rightarrow> bytes option" where
  "decoded_field payload field =
     (case map_of payload field of Some (JStr t) \<Rightarrow> b64decode t | _ \<Rightarrow> None)"

text \<open>
  Every exception the \<open>except\<close> clause names becomes \<open>SecretDecryptionError\<close>; a document that
  is not an object has no \<open>get\<close>, and that \<open>AttributeError\<close> is not named.
\<close>

definition decrypt ::
  "aead \<Rightarrow> (string \<Rightarrow> string) \<Rightarrow> cipher \<Rightarrow> string \<Rightarrow> string \<Rightarrow> uuid \<Rightarrow> uuid \<Rightarrow> exc + string" where
  "decrypt ae float_of cipher envelope key_id resource_id secret_id =
     (case map_of (ci_keys cipher) key_id of
        None \<Rightarrow> Inl (SecretEncryptionUnavailable ''The required secret encryption key is unavailable'')
      | Some key \<Rightarrow>
          let failed = Inl (SecretDecryptionError ''Managed secret could not be decrypted'') in
          (case json_loads float_of envelope of
             None \<Rightarrow> failed
           | Some (JObj payload) \<Rightarrow>
               if \<not> equals_one (map_of payload ''version'') \<or>
                  map_of payload ''algorithm'' \<noteq> Some (JStr ''AES-256-GCM'')
               then failed
               else
                 (case (decoded_field payload ''nonce'', decoded_field payload ''ciphertext'') of
                    (Some nonce, Some ciphertext) \<Rightarrow>
                      (case ae_open ae key nonce ciphertext (associated_data resource_id secret_id) of
                         None \<Rightarrow> failed
                       | Some plaintext \<Rightarrow>
                           (case utf8_decode plaintext of None \<Rightarrow> failed | Some t \<Rightarrow> Inr t))
                  | _ \<Rightarrow> failed)
           | Some _ \<Rightarrow> Inl AttributeError))"

subsection \<open>The envelope is read back\<close>

definition plain_char :: "char \<Rightarrow> bool" where
  "plain_char c \<longleftrightarrow> c \<noteq> CHR 0x22 \<and> c \<noteq> CHR 0x5C \<and> 32 \<le> (of_char c :: nat) \<and> (of_char c :: nat) \<le> 126"

lemma json_escape_plain: "plain_char c \<Longrightarrow> json_escape c = [c]"
  by (auto simp: json_escape_def plain_char_def)

lemma escape_plain: "list_all plain_char s \<Longrightarrow> concat (map json_escape s) = s"
  by (induction s) (simp_all add: json_escape_plain)

lemma json_string_plain: "list_all plain_char s \<Longrightarrow> json_string s = CHR 0x22 # s @ [CHR 0x22]"
  by (simp add: json_string_def escape_plain)

lemma json_chars_plain: "list_all plain_char s \<Longrightarrow> json_chars (s @ CHR 0x22 # r) = Some (s, r)"
  by (induction s) (auto simp: plain_char_def)

lemma b64_char_plain: "n < 64 \<Longrightarrow> plain_char (b64_char n)"
proof -
  assume "n < 64"
  then have "b64_char n \<in> set base64_alphabet" by (simp add: b64_char_def length_base64)
  moreover have "list_all plain_char base64_alphabet" by (simp add: base64_alphabet_def plain_char_def)
  ultimately show ?thesis by (simp add: list_all_iff)
qed

lemma pad_plain [simp]: "plain_char pad"
  by (simp add: plain_char_def)

lemma b64encode_plain: "all_bytes bs \<Longrightarrow> list_all plain_char (b64encode bs)"
proof (induction bs rule: b64encode.induct)
  case (4 a b c bs)
  then have "a < 256" "b < 256" "c < 256" by (simp_all add: all_bytes_def)
  then have "a div 4 < 64" "a mod 4 * 16 + b div 16 < 64" "b mod 16 * 4 + c div 64 < 64" "c mod 64 < 64"
    by linarith+
  with 4 show ?case by (simp add: b64_char_plain all_bytes_def)
next
  case (3 a b)
  then have "a < 256" "b < 256" by (simp_all add: all_bytes_def)
  then have "a div 4 < 64" "a mod 4 * 16 + b div 16 < 64" "b mod 16 * 4 < 64" by linarith+
  then show ?case by (simp add: b64_char_plain)
next
  case (2 a)
  then have "a < 256" by (simp add: all_bytes_def)
  then have "a div 4 < 64" "a mod 4 * 16 < 64" by linarith+
  then show ?case by (simp add: b64_char_plain)
qed simp

lemma plain_ascii: "list_all plain_char s \<Longrightarrow> list_all (\<lambda>c. (of_char c :: nat) < 128) s"
  by (induction s) (simp_all add: plain_char_def)

lemma envelope_text:
  assumes "list_all plain_char n" and "list_all plain_char c"
  shows "json_dumps False (envelope_json n c) =
    [CHR 0x7B, CHR 0x22] @ ''version'' @ [CHR 0x22] @ '':1,'' @ [CHR 0x22] @ ''algorithm'' @ [CHR 0x22] @ '':'' @
    [CHR 0x22] @ ''AES-256-GCM'' @ [CHR 0x22] @ '','' @ [CHR 0x22] @ ''nonce'' @ [CHR 0x22] @ '':'' @ [CHR 0x22] @ n @
    [CHR 0x22] @ '','' @ [CHR 0x22] @ ''ciphertext'' @ [CHR 0x22] @ '':'' @ [CHR 0x22] @ c @ [CHR 0x22] @ [CHR 0x7D]"
  using assms
  by (simp add: envelope_json_def escape_plain json_string_def json_escape_def dec_int_def dec_nat.simps digit_char_def)

lemma json_value_string:
  "list_all plain_char s \<Longrightarrow> json_value fo (Suc k) (CHR 0x22 # s @ CHR 0x22 # r) = Some (JStr s, r)"
  by (simp add: json_chars_plain)

lemma json_loads_envelope:
  assumes "list_all plain_char n" and "list_all plain_char c"
  shows "json_loads fo (json_dumps False (envelope_json n c)) = Some (envelope_json n c)"
proof -
  let ?s = "json_dumps False (envelope_json n c)"
  have ascii: "list_all (\<lambda>c. (of_char c :: nat) < 128) ?s"
    unfolding envelope_text [OF assms] by (simp add: plain_ascii assms)
  obtain k where k: "length ?s = Suc (Suc (Suc (Suc (Suc (Suc k)))))"
    unfolding envelope_text [OF assms] by simp
  have "json_value fo (Suc (length ?s)) ?s = Some (envelope_json n c, [])"
    unfolding k unfolding envelope_text [OF assms]
    by (simp add: skip_ws_def json_ws_def json_chars_plain [OF assms(1)] json_chars_plain [OF assms(2)]
        json_constants_def strip_prefix_def json_number_def take_int_def take_frac_def take_exp_def
        digits_value_def is_digit_def envelope_json_def)
  moreover have "skip_ws ?s = ?s"
    unfolding envelope_text [OF assms] by (simp add: skip_ws_def json_ws_def)
  ultimately show ?thesis using ascii by (simp add: json_loads_def skip_ws_def)
qed

end
