(* ===== verification/Leasing.thy ===== *)
theory Leasing
  imports Catalog_Access
begin

text \<open>
  Leases (\<open>leasing/models.py\<close>, \<open>leasing/persistence.py\<close>): acquisition of a matching resource
  with principal-scoped idempotency, reads, renewal, release, revocation and the expiration
  of due leases. Where the code reads the application's clock (\<open>datetime.now(UTC)\<close>) the
  reading is an argument of its own, apart from the transaction's timestamp in the context:
  the two clocks need not agree. \<open>sha\<close> stands for the hexadecimal SHA-256 digest.
\<close>

subsection \<open>Request and response models\<close>

text \<open>
  \<open>ttl_seconds\<close> has three request forms: omitted (\<open>None\<close>), an explicit null
  (\<open>Some None\<close>) and an explicit number of seconds.
\<close>

record lease_create =
  lc_resource_type :: string
  lc_sharing_mode :: sharing_mode
  lc_labels :: labels
  lc_ttl :: "int option option"
  lc_consumer :: "string option"
  lc_metadata :: "(string \<times> json) list"

definition supplied_ttl :: "int option option \<Rightarrow> int option" where
  "supplied_ttl t = (case t of None \<Rightarrow> None | Some v \<Rightarrow> v)"

definition validate_lease_create :: "lease_create \<Rightarrow> exc + lease_create" where
  "validate_lease_create rq =
     bindE (check_fields (text_ok 1 255 (lc_resource_type rq) \<and>
              ttl_seconds_ok (supplied_ttl (lc_ttl rq)) \<and> opt_ok (text_ok 1 500) (lc_consumer rq))) (\<lambda>_.
     bindE (validate_labels (lc_labels rq)) (\<lambda>_. Inr rq))"

datatype lease_state = ActiveLease | EndedLease end_reason

record lease_response =
  lr_id :: uuid
  lr_resource :: resource_response
  lr_acquired_by :: uuid
  lr_consumer :: "string option"
  lr_state :: lease_state
  lr_acquired_at :: instant
  lr_expires_at :: "instant option"
  lr_last_renewed_at :: "instant option"
  lr_ended_at :: "instant option"
  lr_end_reason :: "end_reason option"
  lr_duration :: int
  lr_metadata :: "(string \<times> json) list"

subsection \<open>Canonical request digest\<close>

definition sharing_name :: "sharing_mode \<Rightarrow> string" where
  "sharing_name m = (case m of Exclusive \<Rightarrow> ''Exclusive'' | Shared \<Rightarrow> ''Shared'')"

definition opt_json :: "('a \<Rightarrow> json) \<Rightarrow> 'a option \<Rightarrow> json" where
  "opt_json f x = (case x of None \<Rightarrow> JNull | Some y \<Rightarrow> f y)"

definition request_payload :: "lease_create \<Rightarrow> json" where
  "request_payload rq = JObj
     [(''resource_type'', JStr (lc_resource_type rq)),
      (''sharing_mode'', JStr (sharing_name (lc_sharing_mode rq))),
      (''labels'', JObj (map (\<lambda>(k, v). (k, JStr v)) (lc_labels rq))),
      (''ttl_seconds'', opt_json JInt (supplied_ttl (lc_ttl rq))),
      (''consumer'', opt_json JStr (lc_consumer rq)),
      (''metadata'', JObj (lc_metadata rq)),
      (''ttl_seconds_intent'', JStr (if lc_ttl rq = None then ''omitted'' else ''explicit''))]"

definition request_hash :: "(string \<Rightarrow> string) \<Rightarrow> lease_create \<Rightarrow> string" where
  "request_hash sha rq = sha (json_dumps True (request_payload rq))"

subsection \<open>Projection\<close>

definition state_expression :: "lease \<Rightarrow> lease_state" where
  "state_expression l = (case l_end_reason l of None \<Rightarrow> ActiveLease | Some r \<Rightarrow> EndedLease r)"

definition project_lease :: "instant \<Rightarrow> resource_response \<Rightarrow> lease \<Rightarrow> lease_response" where
  "project_lease now res l =
     \<lparr>lr_id = l_id l, lr_resource = res, lr_acquired_by = l_acquired_by l,
      lr_consumer = l_consumer l, lr_state = state_expression l,
      lr_acquired_at = l_acquired_at l, lr_expires_at = l_expires_at l,
      lr_last_renewed_at = l_last_renewed_at l, lr_ended_at = l_ended_at l,
      lr_end_reason = l_end_reason l,
      lr_duration = coalesce (l_ended_at l) now - l_acquired_at l,
      lr_metadata = l_metadata l\<rparr>"

definition lease_from_row :: "ctx \<Rightarrow> lease \<Rightarrow> db \<Rightarrow> exc + lease_response" where
  "lease_from_row cx l d =
     bindE (fetch_resource cx (l_resource_id l) d) (\<lambda>res. Inr (project_lease (cx_now cx) res l))"

definition authorized_lease :: "uuid \<Rightarrow> bool \<Rightarrow> lease \<Rightarrow> bool" where
  "authorized_lease pid administrator l \<longleftrightarrow> administrator \<or> l_acquired_by l = pid"

subsection \<open>TTL policy\<close>

definition resolve_ttl :: "resource \<Rightarrow> int option \<Rightarrow> bool \<Rightarrow> exc + int option" where
  "resolve_ttl r ttl_seconds supplied =
     (let resolved = (if supplied then ttl_seconds else r_default_ttl r) in
      if resolved = None \<and> r_expiration_mode r = Required
        then Inl (http 409 ''Selected resource requires expiration'')
      else case (resolved, r_max_ttl r) of
        (Some n, Some mx) \<Rightarrow>
          if n > mx then Inl (http 409 ''Requested TTL exceeds resource maximum'') else Inr resolved
      | _ \<Rightarrow> Inr resolved)"

text \<open>\<open>instant + timedelta(seconds=ttl) if ttl is not None else None\<close>.\<close>

definition expiry :: "instant \<Rightarrow> int option \<Rightarrow> instant option" where
  "expiry start ttl = map_option (\<lambda>n. start + n * 1000000) ttl"

subsection \<open>Acquisition\<close>

definition candidate_ok :: "ctx \<Rightarrow> lease_create \<Rightarrow> uuid \<Rightarrow> bool \<Rightarrow> db \<Rightarrow> resource \<Rightarrow> bool" where
  "candidate_ok cx rq pid administrator d r \<longleftrightarrow>
     r_archived_at r = None \<and>
     r_status r = Active \<and>
     r_type r = lc_resource_type rq \<and>
     r_sharing_mode r = lc_sharing_mode rq \<and>
     labels_contain (r_labels r) (lc_labels rq) \<and>
     (administrator \<or> resource_visible d pid r) \<and>
     (case lc_ttl rq of
        Some None \<Rightarrow> r_expiration_mode r = Optional
      | Some (Some n) \<Rightarrow> (case r_max_ttl r of None \<Rightarrow> True | Some mx \<Rightarrow> mx \<ge> n)
      | None \<Rightarrow> r_default_ttl r \<noteq> None \<or> r_expiration_mode r = Optional) \<and>
     (lc_sharing_mode rq = Exclusive \<longrightarrow> active_count (cx_now cx) d (r_id r) = 0)"

definition candidate_key :: "ctx \<Rightarrow> db \<Rightarrow> resource \<Rightarrow> nat \<times> instant option \<times> uuid" where
  "candidate_key cx d r = (active_count (cx_now cx) d (r_id r), r_last_leased_at r, r_id r)"

definition select_candidate :: "ctx \<Rightarrow> lease_create \<Rightarrow> uuid \<Rightarrow> bool \<Rightarrow> db \<Rightarrow> resource option" where
  "select_candidate cx rq pid administrator d =
     first_row (sort_key (candidate_key cx d)
       (filter (candidate_ok cx rq pid administrator d) (db_resources d)))"

definition new_lease ::
  "uuid \<Rightarrow> uuid \<Rightarrow> uuid \<Rightarrow> lease_create \<Rightarrow> instant \<Rightarrow> int option \<Rightarrow> string \<Rightarrow> string \<Rightarrow> lease" where
  "new_lease lid rid pid rq acquired_at ttl key hash =
     \<lparr>l_id = lid, l_resource_id = rid, l_acquired_by = pid, l_consumer = lc_consumer rq,
      l_acquired_at = acquired_at, l_expires_at = expiry acquired_at ttl,
      l_last_renewed_at = None, l_ended_at = None, l_end_reason = None,
      l_idempotency_key = key, l_request_hash = hash, l_metadata = lc_metadata rq\<rparr>"

text \<open>The statements after a candidate has been found and locked.\<close>

definition create_lease ::
  "ctx \<Rightarrow> instant \<Rightarrow> uuid \<Rightarrow> lease_create \<Rightarrow> string \<Rightarrow> string \<Rightarrow> uuid \<Rightarrow> resource \<Rightarrow> db \<Rightarrow>
     exc + (lease_response \<times> db)" where
  "create_lease cx app_now lid rq key hash pid candidate d =
     bindE (resolve_ttl candidate (supplied_ttl (lc_ttl rq)) (lc_ttl rq \<noteq> None)) (\<lambda>ttl.
     let l = new_lease lid (r_id candidate) pid rq app_now ttl key hash in
     bindE (write_leases (db_leases d @ [l]) d) (\<lambda>d1.
     bindE (update_resources cx (\<lambda>r. r_id r = r_id candidate)
              (\<lambda>r. r\<lparr>r_last_leased_at := Some app_now\<rparr>) d1) (\<lambda>d2.
     bindE (record_audit_event cx (Some pid) ''lease.acquired'' ''Lease'' lid [] d2) (\<lambda>d3.
     bindE (fetch_resource cx (r_id candidate) d3) (\<lambda>res.
       Inr ((project_lease app_now res l)\<lparr>lr_state := ActiveLease, lr_duration := 0\<rparr>, d3))))))"

definition acquire_lease ::
  "(string \<Rightarrow> string) \<Rightarrow> ctx \<Rightarrow> instant \<Rightarrow> uuid \<Rightarrow> lease_create \<Rightarrow> string \<Rightarrow> uuid \<Rightarrow> bool \<Rightarrow> db \<Rightarrow>
     exc + (lease_response \<times> db)" where
  "acquire_lease sha cx app_now lid rq key pid administrator d =
     bindE (one_or_none (filter (\<lambda>l. l_acquired_by l = pid \<and> l_idempotency_key l = key) (db_leases d)))
       (\<lambda>existing. case existing of
          Some l \<Rightarrow>
            if l_request_hash l \<noteq> request_hash sha rq
            then Inl (http 409 ''Idempotency key was used for another request'')
            else bindE (lease_from_row cx l d) (\<lambda>resp. Inr (resp, d))
        | None \<Rightarrow>
            (case select_candidate cx rq pid administrator d of
               None \<Rightarrow> Inl (http 409 ''No matching resource is available'')
             | Some candidate \<Rightarrow>
                 if lc_sharing_mode rq = Exclusive \<and>
                    first_row (active_leases (cx_now cx) d (r_id candidate)) \<noteq> None
                 then Inl (http 409 ''No matching resource is available'')
                 else create_lease cx app_now lid rq key (request_hash sha rq) pid candidate d))"

subsection \<open>Reads\<close>

definition fetch_lease :: "ctx \<Rightarrow> uuid \<Rightarrow> uuid \<Rightarrow> bool \<Rightarrow> db \<Rightarrow> exc + lease_response" where
  "fetch_lease cx lid pid administrator d =
     bindE (one_or_none (filter (\<lambda>l. l_id l = lid \<and> authorized_lease pid administrator l) (db_leases d)))
       (\<lambda>row. case row of
          None \<Rightarrow> Inl (http 404 ''Lease not found'')
        | Some l \<Rightarrow> lease_from_row cx l d)"

record lease_query =
  lq_resource_id :: "uuid option"
  lq_state :: "lease_state option"
  lq_acquired_by :: "uuid option"
  lq_consumer :: "string option"
  lq_acquired_after :: "instant option"
  lq_acquired_before :: "instant option"
  lq_expires_after :: "instant option"
  lq_expires_before :: "instant option"
  lq_offset :: int
  lq_limit :: int

text \<open>A comparison with a null \<open>expires_at\<close> is not true in SQL.\<close>

definition lease_filters :: "lease_query \<Rightarrow> uuid \<Rightarrow> bool \<Rightarrow> lease \<Rightarrow> bool" where
  "lease_filters q pid administrator l \<longleftrightarrow>
     authorized_lease pid administrator l \<and>
     opt_ok (\<lambda>i. l_resource_id l = i) (lq_resource_id q) \<and>
     opt_ok (\<lambda>st. state_expression l = st) (lq_state q) \<and>
     opt_ok (\<lambda>i. l_acquired_by l = i) (lq_acquired_by q) \<and>
     opt_ok (\<lambda>c. l_consumer l = Some c) (lq_consumer q) \<and>
     opt_ok (\<lambda>t. l_acquired_at l \<ge> t) (lq_acquired_after q) \<and>
     opt_ok (\<lambda>t. l_acquired_at l < t) (lq_acquired_before q) \<and>
     opt_ok (\<lambda>t. case l_expires_at l of None \<Rightarrow> False | Some e \<Rightarrow> e \<ge> t) (lq_expires_after q) \<and>
     opt_ok (\<lambda>t. case l_expires_at l of None \<Rightarrow> False | Some e \<Rightarrow> e < t) (lq_expires_before q)"

fun map_rows :: "('a \<Rightarrow> exc + 'b) \<Rightarrow> 'a list \<Rightarrow> exc + 'b list" where
  "map_rows f [] = Inr []"
| "map_rows f (x # xs) = bindE (f x) (\<lambda>y. bindE (map_rows f xs) (\<lambda>ys. Inr (y # ys)))"

definition list_leases ::
  "ctx \<Rightarrow> lease_query \<Rightarrow> uuid \<Rightarrow> bool \<Rightarrow> db \<Rightarrow> exc + lease_response page_response" where
  "list_leases cx q pid administrator d =
     (if (case lq_acquired_by q of None \<Rightarrow> False | Some i \<Rightarrow> \<not> administrator \<and> i \<noteq> pid)
      then Inr \<lparr>pr_items = [], pr_offset = lq_offset q, pr_limit = lq_limit q, pr_total = 0\<rparr>
      else
        let filtered = filter (lease_filters q pid administrator) (db_leases d);
            rows = page (lq_offset q) (lq_limit q)
              (sort_key (\<lambda>l. (- l_acquired_at l, l_id l)) filtered)
        in bindE (map_rows (\<lambda>l. lease_from_row cx l d) rows) (\<lambda>items.
             Inr \<lparr>pr_items = items, pr_offset = lq_offset q, pr_limit = lq_limit q,
                  pr_total = length filtered\<rparr>))"

subsection \<open>Renewal, release and revocation\<close>

definition lock_lease_for_change :: "uuid \<Rightarrow> uuid \<Rightarrow> bool \<Rightarrow> db \<Rightarrow> exc + lease" where
  "lock_lease_for_change lid pid owner_required d =
     bindE (one_or_none (filter (\<lambda>l. l_id l = lid \<and> (owner_required \<longrightarrow> l_acquired_by l = pid)) (db_leases d)))
       (found_or (http 404 ''Lease not found''))"

definition update_leases :: "(lease \<Rightarrow> bool) \<Rightarrow> (lease \<Rightarrow> lease) \<Rightarrow> db \<Rightarrow> exc + db" where
  "update_leases p f d = write_leases (update_where p f (db_leases d)) d"

text \<open>\<open>checked_at\<close> and \<open>app_now\<close> are the two readings of the application's clock.\<close>

definition renew_lease ::
  "ctx \<Rightarrow> instant \<Rightarrow> instant \<Rightarrow> uuid \<Rightarrow> int option option \<Rightarrow> uuid \<Rightarrow> db \<Rightarrow> exc + (lease_response \<times> db)" where
  "renew_lease cx checked_at app_now lid ttl_request pid d =
     bindE (lock_lease_for_change lid pid True d) (\<lambda>l.
       if l_ended_at l \<noteq> None \<or> (case l_expires_at l of None \<Rightarrow> False | Some e \<Rightarrow> e \<le> checked_at)
       then Inl (http 409 ''Only an active lease can be renewed'')
       else
         bindE (one (filter (\<lambda>r. r_id r = l_resource_id l) (db_resources d))) (\<lambda>resource.
         bindE (resolve_ttl resource (supplied_ttl ttl_request) (ttl_request \<noteq> None)) (\<lambda>ttl.
         bindE (update_leases (\<lambda>x. l_id x = lid)
                  (\<lambda>x. x\<lparr>l_expires_at := expiry app_now ttl, l_last_renewed_at := Some app_now\<rparr>) d) (\<lambda>d1.
         bindE (record_audit_event cx (Some pid) ''lease.renewed'' ''Lease'' lid [] d1) (\<lambda>d2.
         bindE (fetch_lease cx lid pid False d2) (\<lambda>resp. Inr (resp, d2)))))))"

definition reason_lower :: "end_reason \<Rightarrow> string" where
  "reason_lower r = (case r of Released \<Rightarrow> ''released'' | Expired \<Rightarrow> ''expired'' | Revoked \<Rightarrow> ''revoked'')"

definition end_lease ::
  "ctx \<Rightarrow> uuid \<Rightarrow> uuid \<Rightarrow> end_reason \<Rightarrow> db \<Rightarrow> exc + (lease_response \<times> db)" where
  "end_lease cx lid pid reason d =
     bindE (lock_lease_for_change lid pid (reason = Released) d) (\<lambda>l.
     bindE (if l_ended_at l = None then
              bindE (update_leases (\<lambda>x. l_id x = lid)
                  (\<lambda>x. x\<lparr>l_ended_at := Some (cx_now cx), l_end_reason := Some reason\<rparr>) d) (\<lambda>d1.
              record_audit_event cx (Some pid) (''lease.'' @ reason_lower reason) ''Lease'' lid [] d1)
            else Inr d) (\<lambda>d2.
     bindE (fetch_lease cx lid pid (reason = Revoked) d2) (\<lambda>resp. Inr (resp, d2))))"

subsection \<open>Expiration of due leases\<close>

definition due_lease :: "instant \<Rightarrow> lease \<Rightarrow> bool" where
  "due_lease now l \<longleftrightarrow>
     l_ended_at l = None \<and> (case l_expires_at l of None \<Rightarrow> False | Some e \<Rightarrow> e \<le> now)"

definition due_ids :: "instant \<Rightarrow> int \<Rightarrow> db \<Rightarrow> uuid list" where
  "due_ids now batch_size d =
     map l_id (take (nat batch_size)
       (sort_key (\<lambda>l. (l_expires_at l, l_id l)) (filter (due_lease now) (db_leases d))))"

definition expire_row :: "lease \<Rightarrow> lease" where
  "expire_row l = l\<lparr>l_ended_at := l_expires_at l, l_end_reason := Some Expired\<rparr>"

fun expire_ids :: "ctx \<Rightarrow> uuid list \<Rightarrow> nat \<Rightarrow> db \<Rightarrow> exc + (nat \<times> db)" where
  "expire_ids cx [] expired d = Inr (expired, d)"
| "expire_ids cx (lid # rest) expired d =
     bindE (one (filter (\<lambda>l. l_id l = lid) (db_leases d))) (\<lambda>l.
     let p = (\<lambda>x. l_id x = lid \<and> due_lease (cx_now cx) x) in
     bindE (update_leases p expire_row d) (\<lambda>d1.
       if filter p (db_leases d) \<noteq> [] then
         bindE (record_audit_event cx None ''lease.expired'' ''Lease'' lid [] d1) (\<lambda>d2.
         expire_ids cx rest (Suc expired) d2)
       else expire_ids cx rest expired d1))"

definition expire_due_leases :: "ctx \<Rightarrow> int \<Rightarrow> db \<Rightarrow> exc + (nat \<times> db)" where
  "expire_due_leases cx batch_size d = expire_ids cx (due_ids (cx_now cx) batch_size d) 0 d"

end
