(* ===== verification/Secrets.thy ===== *)
theory Secrets
  imports Cipher Leasing Identity_Api
begin

text \<open>
  Resource secrets (\<open>resource_secrets/models.py\<close>, \<open>resource_secrets/persistence.py\<close>,
  \<open>resource_secrets/api.py\<close>): administration of secrets under a resource, the disclosure of
  their material to administrators and through an active lease, and the routes with their
  limiter and their translation of cryptographic failures.
\<close>

subsection \<open>Request and response models\<close>

datatype material = ManagedMaterial string | ExternalMaterial string string

definition material_ok :: "material \<Rightarrow> bool" where
  "material_ok m = (case m of
       ManagedMaterial v \<Rightarrow> text_ok 1 65536 v
     | ExternalMaterial provider reference \<Rightarrow> text_ok 1 255 provider \<and> text_ok 1 2048 reference)"

record secret_create =
  sc_name :: string
  sc_description :: "string option"
  sc_material :: material

definition validate_secret_create :: "secret_create \<Rightarrow> exc + secret_create" where
  "validate_secret_create rq =
     bindE (check_fields (text_ok 1 255 (sc_name rq) \<and> opt_ok (text_ok 0 1000) (sc_description rq) \<and>
       material_ok (sc_material rq))) (\<lambda>_. Inr rq)"

text \<open>
  An update omits a field (\<open>None\<close>) or sets it; only the description may be set to null, the
  validator rejects an explicit null name or material.
\<close>

record secret_update =
  su_version :: int
  su_name :: "string option"
  su_description :: "string option option"
  su_material :: "material option"

definition validate_secret_update :: "secret_update \<Rightarrow> exc + secret_update" where
  "validate_secret_update rq =
     bindE (check_fields (1 \<le> su_version rq \<and> opt_ok (text_ok 1 255) (su_name rq) \<and>
       opt_ok (opt_ok (text_ok 0 1000)) (su_description rq) \<and> opt_ok material_ok (su_material rq)))
       (\<lambda>_. Inr rq)"

record secret_metadata =
  sm_id :: uuid
  sm_resource_id :: uuid
  sm_name :: string
  sm_description :: "string option"
  sm_mode :: secret_mode
  sm_version :: int
  sm_created_at :: instant
  sm_updated_at :: instant

datatype secret_access =
    ManagedSecretAccess uuid string string
  | ExternalSecretAccess uuid string string string

definition metadata_from_row :: "secret \<Rightarrow> secret_metadata" where
  "metadata_from_row s =
     \<lparr>sm_id = s_id s, sm_resource_id = s_resource_id s, sm_name = s_name s,
      sm_description = s_description s, sm_mode = s_mode s, sm_version = s_version s,
      sm_created_at = s_created_at s, sm_updated_at = s_updated_at s\<rparr>"

subsection \<open>Locking reads\<close>

definition lock_secret_resource :: "uuid \<Rightarrow> bool \<Rightarrow> db \<Rightarrow> exc + resource" where
  "lock_secret_resource resource_id require_active d =
     bindE (one_or_none (filter (\<lambda>r. r_id r = resource_id) (db_resources d))) (\<lambda>row.
     bindE (found_or (http 404 ''Resource not found'') row) (\<lambda>r.
       if require_active \<and> r_archived_at r \<noteq> None
       then Inl (http 409 ''Archived resources cannot change secrets'')
       else Inr r))"

definition lock_secret :: "uuid \<Rightarrow> uuid \<Rightarrow> db \<Rightarrow> exc + secret" where
  "lock_secret resource_id secret_id d =
     bindE (one_or_none (filter (\<lambda>s. s_id s = secret_id \<and> s_resource_id s = resource_id) (db_secrets d)))
       (found_or (http 404 ''Resource secret not found''))"

subsection \<open>Administration\<close>

text \<open>The five material columns: mode, envelope, key id, provider and reference.\<close>

type_synonym material_columns =
  "secret_mode \<times> string option \<times> string option \<times> string option \<times> string option"

definition material_values ::
  "aead \<Rightarrow> cipher \<Rightarrow> bytes \<Rightarrow> material \<Rightarrow> uuid \<Rightarrow> uuid \<Rightarrow> exc + material_columns" where
  "material_values ae cipher nonce material resource_id secret_id =
     (case material of
        ManagedMaterial v \<Rightarrow>
          bindE (encrypt ae cipher nonce v resource_id secret_id) (\<lambda>(envelope, key_id).
            Inr (Managed, Some envelope, Some key_id, None, None))
      | ExternalMaterial provider reference \<Rightarrow>
          Inr (External, None, None, Some provider, Some reference))"

definition set_material :: "material_columns \<Rightarrow> secret \<Rightarrow> secret" where
  "set_material cols s = (case cols of (mode, envelope, key_id, provider, reference) \<Rightarrow>
     s\<lparr>s_mode := mode, s_encrypted_value := envelope, s_encryption_key_id := key_id,
       s_external_provider := provider, s_external_reference := reference\<rparr>)"

definition mode_name :: "material \<Rightarrow> string" where
  "mode_name m = (case m of ManagedMaterial _ \<Rightarrow> ''Managed'' | ExternalMaterial _ _ \<Rightarrow> ''External'')"

definition create_resource_secret ::
  "aead \<Rightarrow> cipher \<Rightarrow> ctx \<Rightarrow> uuid \<Rightarrow> bytes \<Rightarrow> uuid \<Rightarrow> secret_create \<Rightarrow> uuid \<Rightarrow> db \<Rightarrow>
     exc + (secret_metadata \<times> db)" where
  "create_resource_secret ae cipher cx secret_id nonce resource_id rq actor_id d =
     bindE (lock_secret_resource resource_id True d) (\<lambda>_.
     bindE (material_values ae cipher nonce (sc_material rq) resource_id secret_id) (\<lambda>cols.
     let row = set_material cols
       \<lparr>s_id = secret_id, s_resource_id = resource_id, s_name = sc_name rq,
        s_description = sc_description rq, s_mode = Managed, s_encrypted_value = None,
        s_encryption_key_id = None, s_external_provider = None, s_external_reference = None,
        s_version = 1, s_created_at = cx_now cx, s_updated_at = cx_now cx\<rparr> in
     bindE (write_secrets (db_secrets d @ [row]) d) (\<lambda>d1.
     bindE (record_audit_event cx (Some actor_id) ''resource_secret.created'' ''ResourceSecret'' secret_id
              [(''resource_id'', uuid_str resource_id), (''mode'', mode_name (sc_material rq))] d1) (\<lambda>d2.
       Inr (metadata_from_row row, d2)))))"

definition secrets_of :: "(string \<Rightarrow> 'k::linorder) \<Rightarrow> uuid \<Rightarrow> db \<Rightarrow> secret_metadata list" where
  "secrets_of coll resource_id d =
     map metadata_from_row (sort_key (\<lambda>s. (coll (s_name s), s_id s))
       (filter (\<lambda>s. s_resource_id s = resource_id) (db_secrets d)))"

definition list_resource_secrets ::
  "(string \<Rightarrow> 'k::linorder) \<Rightarrow> uuid \<Rightarrow> db \<Rightarrow> exc + secret_metadata list" where
  "list_resource_secrets coll resource_id d =
     bindE (lock_secret_resource resource_id False d) (\<lambda>_. Inr (secrets_of coll resource_id d))"

definition get_resource_secret :: "uuid \<Rightarrow> uuid \<Rightarrow> db \<Rightarrow> exc + secret_metadata" where
  "get_resource_secret resource_id secret_id d =
     bindE (lock_secret_resource resource_id False d) (\<lambda>_.
     bindE (lock_secret resource_id secret_id d) (\<lambda>s. Inr (metadata_from_row s)))"

definition set_secret_fields :: "secret_update \<Rightarrow> secret \<Rightarrow> secret" where
  "set_secret_fields rq s =
     s\<lparr>s_name := coalesce (su_name rq) (s_name s),
       s_description := coalesce (su_description rq) (s_description s)\<rparr>"

definition update_resource_secret ::
  "aead \<Rightarrow> cipher \<Rightarrow> ctx \<Rightarrow> bytes \<Rightarrow> uuid \<Rightarrow> uuid \<Rightarrow> secret_update \<Rightarrow> uuid \<Rightarrow> db \<Rightarrow>
     exc + (secret_metadata \<times> db)" where
  "update_resource_secret ae cipher cx nonce resource_id secret_id rq actor_id d =
     bindE (lock_secret_resource resource_id True d) (\<lambda>_.
     bindE (lock_secret resource_id secret_id d) (\<lambda>target.
       if s_version target \<noteq> su_version rq
       then Inl (http 409 ''Resource secret version is stale'')
       else
         bindE (case su_material rq of
                  None \<Rightarrow> Inr (\<lambda>s. s)
                | Some m \<Rightarrow> bindE (material_values ae cipher nonce m resource_id secret_id)
                    (\<lambda>cols. Inr (set_material cols))) (\<lambda>replace.
         if su_name rq = None \<and> su_description rq = None \<and> su_material rq = None
         then Inr (metadata_from_row target, d)
         else
           bindE (write_secrets (update_where (\<lambda>s. s_id s = secret_id)
                    (\<lambda>s. (replace (set_secret_fields rq s))\<lparr>s_version := s_version s + 1, s_updated_at := cx_now cx\<rparr>)
                    (db_secrets d)) d) (\<lambda>d1.
           bindE (one (filter (\<lambda>s. s_id s = secret_id) (db_secrets d1))) (\<lambda>row.
           bindE (record_audit_event cx (Some actor_id) ''resource_secret.updated'' ''ResourceSecret'' secret_id
                    [(''resource_id'', uuid_str resource_id)] d1) (\<lambda>d2.
             Inr (metadata_from_row row, d2)))))))"

definition delete_resource_secret :: "ctx \<Rightarrow> uuid \<Rightarrow> uuid \<Rightarrow> uuid \<Rightarrow> db \<Rightarrow> exc + (unit \<times> db)" where
  "delete_resource_secret cx resource_id secret_id actor_id d =
     bindE (lock_secret_resource resource_id False d) (\<lambda>_.
     let p = (\<lambda>s. s_id s = secret_id \<and> s_resource_id s = resource_id) in
     bindE (write_secrets (delete_where p (db_secrets d)) d) (\<lambda>d1.
     bindE (one_or_none (filter p (db_secrets d))) (\<lambda>deleted.
       case deleted of
         None \<Rightarrow> Inr ((), d1)
       | Some _ \<Rightarrow>
           bindE (record_audit_event cx (Some actor_id) ''resource_secret.deleted'' ''ResourceSecret'' secret_id
                    [(''resource_id'', uuid_str resource_id)] d1) (\<lambda>d2. Inr ((), d2)))))"

subsection \<open>Disclosure\<close>

datatype access_path = Administration | LeasePath uuid

definition access_metadata :: "uuid \<Rightarrow> access_path \<Rightarrow> labels" where
  "access_metadata resource_id path =
     (case path of
        Administration \<Rightarrow>
          [(''resource_id'', uuid_str resource_id), (''access_path'', ''Administration'')]
      | LeasePath lease_id \<Rightarrow>
          [(''resource_id'', uuid_str resource_id), (''access_path'', ''Lease''),
           (''lease_id'', uuid_str lease_id)])"

definition reveal :: "aead \<Rightarrow> (string \<Rightarrow> string) \<Rightarrow> cipher \<Rightarrow> secret \<Rightarrow> exc + secret_access" where
  "reveal ae float_of cipher s =
     (if s_mode s = Managed then
        (case (s_encrypted_value s, s_encryption_key_id s) of
           (Some envelope, Some key_id) \<Rightarrow>
             bindE (decrypt ae float_of cipher envelope key_id (s_resource_id s) (s_id s)) (\<lambda>v.
               Inr (ManagedSecretAccess (s_id s) (s_name s) v))
         | _ \<Rightarrow> Inl (RuntimeError ''Managed resource secret has incomplete encrypted material''))
      else
        (case (s_external_provider s, s_external_reference s) of
           (Some provider, Some reference) \<Rightarrow>
             Inr (ExternalSecretAccess (s_id s) (s_name s) provider reference)
         | _ \<Rightarrow> Inl (RuntimeError ''External resource secret has incomplete reference material'')))"

definition access_locked_secret ::
  "aead \<Rightarrow> (string \<Rightarrow> string) \<Rightarrow> cipher \<Rightarrow> ctx \<Rightarrow> secret \<Rightarrow> uuid \<Rightarrow> access_path \<Rightarrow> db \<Rightarrow>
     exc + (secret_access \<times> db)" where
  "access_locked_secret ae float_of cipher cx s actor_id path d =
     bindE (reveal ae float_of cipher s) (\<lambda>result.
     bindE (record_audit_event cx (Some actor_id) ''resource_secret.accessed'' ''ResourceSecret'' (s_id s)
              (access_metadata (s_resource_id s) path) d) (\<lambda>d1.
       Inr (result, d1)))"

definition access_resource_secret_as_admin ::
  "aead \<Rightarrow> (string \<Rightarrow> string) \<Rightarrow> cipher \<Rightarrow> ctx \<Rightarrow> uuid \<Rightarrow> uuid \<Rightarrow> uuid \<Rightarrow> db \<Rightarrow>
     exc + (secret_access \<times> db)" where
  "access_resource_secret_as_admin ae float_of cipher cx resource_id secret_id actor_id d =
     bindE (lock_secret_resource resource_id False d) (\<lambda>_.
     bindE (lock_secret resource_id secret_id d) (\<lambda>s.
       access_locked_secret ae float_of cipher cx s actor_id Administration d))"

definition lock_active_authorized_lease ::
  "ctx \<Rightarrow> uuid \<Rightarrow> uuid \<Rightarrow> bool \<Rightarrow> db \<Rightarrow> exc + lease" where
  "lock_active_authorized_lease cx lease_id actor_id adm d =
     bindE (one_or_none (filter (\<lambda>l. l_id l = lease_id \<and> active_lease (cx_now cx) l \<and>
                                     (adm \<or> l_acquired_by l = actor_id)) (db_leases d))) (\<lambda>row.
     bindE (found_or (http 404 ''Active lease not found'') row) (\<lambda>l.
       if adm then Inr l
       else if first_row (filter (\<lambda>r. r_id r = l_resource_id l) (db_resources d)) = None
         then Inl (http 404 ''Active lease not found'')
       else if first_row (filter (\<lambda>r. r_id r = l_resource_id l \<and> r_archived_at r = None \<and>
                                      resource_visible d actor_id r) (db_resources d)) = None
         then Inl (http 404 ''Active lease not found'')
       else Inr l))"

definition list_lease_secrets ::
  "(string \<Rightarrow> 'k::linorder) \<Rightarrow> ctx \<Rightarrow> uuid \<Rightarrow> uuid \<Rightarrow> bool \<Rightarrow> db \<Rightarrow> exc + secret_metadata list" where
  "list_lease_secrets coll cx lease_id actor_id adm d =
     bindE (lock_active_authorized_lease cx lease_id actor_id adm d) (\<lambda>l.
       Inr (secrets_of coll (l_resource_id l) d))"

definition access_lease_secret ::
  "aead \<Rightarrow> (string \<Rightarrow> string) \<Rightarrow> cipher \<Rightarrow> ctx \<Rightarrow> uuid \<Rightarrow> uuid \<Rightarrow> uuid \<Rightarrow> bool \<Rightarrow> db \<Rightarrow>
     exc + (secret_access \<times> db)" where
  "access_lease_secret ae float_of cipher cx lease_id secret_id actor_id adm d =
     bindE (lock_active_authorized_lease cx lease_id actor_id adm d) (\<lambda>l.
     bindE (lock_secret (l_resource_id l) secret_id d) (\<lambda>s.
       access_locked_secret ae float_of cipher cx s actor_id (LeasePath lease_id) d))"

subsection \<open>Routes\<close>

text \<open>\<open>_raise_safe_crypto_problem\<close> on the two exceptions it is called with.\<close>

definition safe_crypto_problem :: "exc \<Rightarrow> exc" where
  "safe_crypto_problem e =
     (case e of
        SecretEncryptionUnavailable m \<Rightarrow> http 503 m
      | SecretDecryptionError m \<Rightarrow> http 500 ''Managed secret could not be accessed''
      | _ \<Rightarrow> e)"

definition catch_crypto :: "(exc + 'a) \<times> db \<Rightarrow> (exc + 'a) \<times> db" where
  "catch_crypto r = (case r of (Inl e, d) \<Rightarrow> (Inl (safe_crypto_problem e), d) | _ \<Rightarrow> r)"

definition NO_STORE :: "(string \<times> string) list" where
  "NO_STORE = [(''Cache-Control'', ''no-store''), (''Pragma'', ''no-cache'')]"

text \<open>The response headers \<open>_prevent_caching\<close> adds to a disclosure.\<close>

definition prevent_caching :: "(exc + 'a) \<times> db \<Rightarrow> (exc + ('a \<times> (string \<times> string) list)) \<times> db" where
  "prevent_caching r = (case r of (Inl e, d) \<Rightarrow> (Inl e, d) | (Inr x, d) \<Rightarrow> (Inr (x, NO_STORE), d))"

definition enforce_secret_access_limit ::
  "(bytes \<Rightarrow> string) \<Rightarrow> int \<Rightarrow> int \<Rightarrow> ctx \<Rightarrow> authenticated_principal \<Rightarrow> db \<Rightarrow> (exc + unit) \<times> db" where
  "enforce_secret_access_limit sha_bytes attempts window cx current d =
     (case enforce_rate_limit cx ''secret_access'' (principal_subject sha_bytes (actor_of current)) attempts window d of
        (Inl (RateLimitExceeded n), d') \<Rightarrow>
          (Inl (HTTPException 429 ''Too many secret access attempts'' [(''Retry-After'', dec_int n)]), d')
      | r \<Rightarrow> r)"

definition create_secret_route where
  "create_secret_route sha ae cipher env secret_id nonce resource_id rq d =
     then_tx (administrator sha env d) (\<lambda>admin d1.
       catch_integrity (http 409 ''Resource secret name already exists'')
         (catch_crypto (run_tx (create_resource_secret ae cipher (rv_cx env) secret_id nonce resource_id rq
                                  (actor_of admin)) d1)))"

definition list_for_resource_route where
  "list_for_resource_route sha coll env resource_id d =
     then_tx (administrator sha env d) (\<lambda>_. read_tx (list_resource_secrets coll resource_id))"

definition get_secret_route where
  "get_secret_route sha env resource_id secret_id d =
     then_tx (administrator sha env d) (\<lambda>_. read_tx (get_resource_secret resource_id secret_id))"

definition update_secret_route where
  "update_secret_route sha ae cipher env nonce resource_id secret_id rq d =
     then_tx (administrator sha env d) (\<lambda>admin d1.
       catch_integrity (http 409 ''Resource secret name already exists'')
         (catch_crypto (run_tx (update_resource_secret ae cipher (rv_cx env) nonce resource_id secret_id rq
                                  (actor_of admin)) d1)))"

definition delete_secret_route where
  "delete_secret_route sha env resource_id secret_id d =
     then_tx (administrator sha env d) (\<lambda>admin.
       run_tx (delete_resource_secret (rv_cx env) resource_id secret_id (actor_of admin)))"

definition access_as_admin_route where
  "access_as_admin_route sha sha_bytes ae float_of cipher attempts window cx_limit env resource_id secret_id d =
     then_tx (administrator sha env d) (\<lambda>admin d1.
     then_tx (enforce_secret_access_limit sha_bytes attempts window cx_limit admin d1) (\<lambda>_ d2.
       prevent_caching (catch_crypto (run_tx
         (access_resource_secret_as_admin ae float_of cipher (rv_cx env) resource_id secret_id (actor_of admin)) d2))))"

definition list_for_lease_route where
  "list_for_lease_route sha coll env lease_id d =
     then_tx (authenticated sha env d) (\<lambda>current. read_tx (\<lambda>d1.
       list_lease_secrets coll (rv_cx env) lease_id (actor_of current) (p_role (ap_principal current) = Admin) d1))"

definition access_through_lease_route where
  "access_through_lease_route sha sha_bytes ae float_of cipher attempts window cx_limit env lease_id secret_id d =
     then_tx (authenticated sha env d) (\<lambda>current d1.
     then_tx (enforce_secret_access_limit sha_bytes attempts window cx_limit current d1) (\<lambda>_ d2.
       prevent_caching (catch_crypto (run_tx
         (access_lease_secret ae float_of cipher (rv_cx env) lease_id secret_id (actor_of current)
            (p_role (ap_principal current) = Admin)) d2))))"

end
