(* ===== verification/Cipher_Laws.thy ===== *)
theory Cipher_Laws
  imports Cipher
begin

text \<open>
  What managed-secret encryption guarantees: encryption and decryption are inverse as long as
  the sealing key is kept, an envelope is bound to one secret of one resource, and how every
  failure shows.
\<close>

lemma utf8_encode_inj:
  assumes "utf8_encode s = utf8_encode t"
  shows "s = t"
proof -
  have "utf8_decode (utf8_encode s) = utf8_decode (utf8_encode t)" using assms by (rule arg_cong)
  then show ?thesis by (simp only: utf8_roundtrip option.inject)
qed

lemma utf8_point_bytes: "n < 256 \<Longrightarrow> all_bytes (utf8_point n)"
  by (auto simp: all_bytes_def utf8_point_def)

lemma utf8_encode_bytes: "all_bytes (utf8_encode s)"
proof (induction s)
  case (Cons c s)
  have "all_bytes (utf8_point (of_char c))" by (rule utf8_point_bytes [OF nat_of_char_less_256])
  with Cons show ?case by (simp add: all_bytes_def utf8_encode_def)
qed (simp add: all_bytes_def utf8_encode_def)

lemma associated_data_inj:
  assumes "associated_data r s = associated_data r' s'"
  shows "r = r' \<and> s = s'"
proof -
  have "uuid_str r @ '':'' @ uuid_str s = uuid_str r' @ '':'' @ uuid_str s'"
    using assms unfolding associated_data_def by (auto dest: utf8_encode_inj)
  then have "uuid_str r = uuid_str r' \<and> uuid_str s = uuid_str s'"
    by (simp add: length_uuid_str)
  then show ?thesis by (auto dest: uuid_str_inj)
qed

lemma encrypt_Inr:
  assumes "encrypt ae cipher nonce plain r s = Inr (envelope, key_id)"
  shows "\<exists>key. ci_active cipher = Some key_id \<and> map_of (ci_keys cipher) key_id = Some key \<and>
    envelope = json_dumps False (envelope_json (b64encode nonce)
      (b64encode (ae_seal ae key nonce (utf8_encode plain) (associated_data r s))))"
  using assms by (auto simp: encrypt_def Let_def split: option.splits)

lemma decrypt_envelope:
  assumes "map_of (ci_keys cipher) key_id = Some key" and "all_bytes nonce" and "all_bytes ciphertext"
  shows "decrypt ae fo cipher (json_dumps False (envelope_json (b64encode nonce) (b64encode ciphertext))) key_id r s =
    (case ae_open ae key nonce ciphertext (associated_data r s) of
       None \<Rightarrow> Inl (SecretDecryptionError ''Managed secret could not be decrypted'')
     | Some p \<Rightarrow> (case utf8_decode p of
         None \<Rightarrow> Inl (SecretDecryptionError ''Managed secret could not be decrypted'') | Some t \<Rightarrow> Inr t))"
proof -
  have b64: "b64decode (b64encode bs) = Some bs" if "all_bytes bs" for bs
    using base64_roundtrip [of bs] that by (simp add: all_bytes_def list_all_iff)
  have "json_loads fo (json_dumps False (envelope_json (b64encode nonce) (b64encode ciphertext))) =
      Some (envelope_json (b64encode nonce) (b64encode ciphertext))"
    using assms(2,3) by (intro json_loads_envelope b64encode_plain)
  then show ?thesis
    using assms(1) b64 [OF assms(2)] b64 [OF assms(3)]
    by (simp add: decrypt_def envelope_json_def equals_one_def decoded_field_def Let_def)
qed

lemma decrypt_encrypt_run:
  assumes "aead_correct ae" and "all_bytes nonce"
    and "encrypt ae cipher nonce plain r s = Inr (envelope, key_id)"
    and "map_of (ci_keys later) key_id = map_of (ci_keys cipher) key_id"
  shows "decrypt ae fo later envelope key_id r s = Inr plain"
proof -
  obtain key where key: "map_of (ci_keys cipher) key_id = Some key"
    and env: "envelope = json_dumps False (envelope_json (b64encode nonce)
      (b64encode (ae_seal ae key nonce (utf8_encode plain) (associated_data r s))))"
    using encrypt_Inr [OF assms(3)] by blast
  let ?c = "ae_seal ae key nonce (utf8_encode plain) (associated_data r s)"
  have "all_bytes ?c"
    using assms(1) utf8_encode_bytes by (simp add: aead_correct_def associated_data_def)
  moreover have "ae_open ae key nonce ?c (associated_data r s) = Some (utf8_encode plain)"
    using assms(1) by (simp add: aead_correct_def)
  ultimately show ?thesis
    using assms(2,4) key by (simp add: env decrypt_envelope utf8_roundtrip)
qed

text \<open>
  Decryption inverts encryption, through the JSON document, Base64 and UTF-8: a value sealed
  for a secret is read back for the same secret by every key ring that still holds the sealing
  key under its identifier, whichever key is active by then.
\<close>

theorem decrypt_encrypt:
  assumes "aead_correct ae" and "all_bytes nonce"
    and "encrypt ae cipher nonce plain r s = Inr (envelope, key_id)"
    and "map_of (ci_keys later) key_id = map_of (ci_keys cipher) key_id"
  shows "decrypt ae fo later envelope key_id r s = Inr plain"
  using assms by (rule decrypt_encrypt_run)

text \<open>
  An envelope moved to another secret is rejected: if the primitive refuses a ciphertext under
  associated data other than its own, decrypting the envelope for any other resource or secret is
  a \<open>SecretDecryptionError\<close>.
\<close>

theorem moved_envelope_rejected:
  assumes "encrypt ae cipher nonce plain r s = Inr (envelope, key_id)"
    and "all_bytes nonce" and "aead_correct ae" and "(r', s') \<noteq> (r, s)"
    and "\<And>k a. a \<noteq> associated_data r s \<Longrightarrow>
      ae_open ae k nonce (ae_seal ae k nonce (utf8_encode plain) (associated_data r s)) a = None"
  shows "decrypt ae fo cipher envelope key_id r' s' =
    Inl (SecretDecryptionError ''Managed secret could not be decrypted'')"
proof -
  obtain key where key: "map_of (ci_keys cipher) key_id = Some key"
    and env: "envelope = json_dumps False (envelope_json (b64encode nonce)
      (b64encode (ae_seal ae key nonce (utf8_encode plain) (associated_data r s))))"
    using encrypt_Inr [OF assms(1)] by blast
  let ?c = "ae_seal ae key nonce (utf8_encode plain) (associated_data r s)"
  have "all_bytes ?c"
    using assms(3) utf8_encode_bytes by (simp add: aead_correct_def associated_data_def)
  moreover have "associated_data r' s' \<noteq> associated_data r s"
    using assms(4) associated_data_inj by auto
  then have "ae_open ae key nonce ?c (associated_data r' s') = None" by (rule assms(5))
  ultimately show ?thesis using assms(2) key by (simp add: env decrypt_envelope)
qed

text \<open>
  How decryption fails: an unknown key identifier is reported as unavailable encryption, any
  document that is a JSON object or no JSON at all gives plaintext or \<open>SecretDecryptionError\<close>,
  and nothing else is raised unless the stored document is JSON but not an object.
\<close>

theorem decrypt_outcomes:
  "case decrypt ae fo cipher envelope key_id r s of
     Inr t \<Rightarrow> \<exists>key payload nonce ct. map_of (ci_keys cipher) key_id = Some key \<and>
       json_loads fo envelope = Some (JObj payload) \<and>
       decoded_field payload ''nonce'' = Some nonce \<and> decoded_field payload ''ciphertext'' = Some ct \<and>
       (\<exists>p. ae_open ae key nonce ct (associated_data r s) = Some p \<and> utf8_decode p = Some t)
   | Inl e \<Rightarrow>
       (e = SecretEncryptionUnavailable ''The required secret encryption key is unavailable'' \<and>
          map_of (ci_keys cipher) key_id = None) \<or>
       (e = SecretDecryptionError ''Managed secret could not be decrypted'' \<and>
          map_of (ci_keys cipher) key_id \<noteq> None) \<or>
       (e = AttributeError \<and> (\<exists>j. json_loads fo envelope = Some j \<and> (\<forall>payload. j \<noteq> JObj payload)))"
proof (cases "map_of (ci_keys cipher) key_id")
  case None
  then show ?thesis by (simp add: decrypt_def)
next
  case (Some key)
  show ?thesis
  proof (cases "json_loads fo envelope")
    case None
    with Some show ?thesis by (simp add: decrypt_def)
  next
    case j: (Some j)
    show ?thesis
    proof (cases j)
      case (JObj payload)
      let ?ok = "equals_one (map_of payload ''version'') \<and>
        map_of payload ''algorithm'' = Some (JStr ''AES-256-GCM'')"
      have run: "decrypt ae fo cipher envelope key_id r s =
          (if \<not> ?ok then Inl (SecretDecryptionError ''Managed secret could not be decrypted'')
           else case (decoded_field payload ''nonce'', decoded_field payload ''ciphertext'') of
             (Some nonce, Some ct) \<Rightarrow> (case ae_open ae key nonce ct (associated_data r s) of
                None \<Rightarrow> Inl (SecretDecryptionError ''Managed secret could not be decrypted'')
              | Some p \<Rightarrow> (case utf8_decode p of
                  None \<Rightarrow> Inl (SecretDecryptionError ''Managed secret could not be decrypted'')
                | Some t \<Rightarrow> Inr t))
           | _ \<Rightarrow> Inl (SecretDecryptionError ''Managed secret could not be decrypted''))"
        unfolding decrypt_def Some j JObj Let_def option.case json.case by (simp only: de_Morgan_conj)
      show ?thesis
        unfolding run Some j JObj
        by (cases "decoded_field payload ''nonce''"; cases "decoded_field payload ''ciphertext''"; cases ?ok;
            cases "ae_open ae key (the (decoded_field payload ''nonce'')) (the (decoded_field payload ''ciphertext''))
              (associated_data r s)";
            cases "utf8_decode (the (ae_open ae key (the (decoded_field payload ''nonce''))
              (the (decoded_field payload ''ciphertext'')) (associated_data r s)))") simp_all
    qed (use Some j in \<open>simp_all add: decrypt_def\<close>)
  qed
qed

end
