(* ===== verification/Leasing_Laws.thy ===== *)
theory Leasing_Laws
  imports Leasing
begin

text \<open>
  What the lease operations guarantee: which leases count as active or due and how time and
  expiration act on them (the locale \<open>activity\<close>), inversion rules, preservation of the
  constraints, and the properties of acquisition, idempotency, renewal, release and
  revocation.
\<close>

subsection \<open>Active, due and ended leases\<close>

locale activity =
  fixes active :: "instant \<Rightarrow> 'l \<Rightarrow> bool"
    and due :: "instant \<Rightarrow> 'l \<Rightarrow> bool"
    and ended :: "'l \<Rightarrow> bool"
    and expire :: "'l \<Rightarrow> 'l"
  assumes live: "\<not> ended l \<Longrightarrow> active t l \<longleftrightarrow> \<not> due t l"
    and ended_inactive: "ended l \<Longrightarrow> \<not> active t l \<and> \<not> due t l"
    and due_later: "due t l \<Longrightarrow> t \<le> t' \<Longrightarrow> due t' l"
    and expire_ends: "due t l \<Longrightarrow> ended (expire l)"
begin

lemma active_earlier: "active t' l \<Longrightarrow> t \<le> t' \<Longrightarrow> active t l"
  using live [of l t'] live [of l t] ended_inactive [of l t'] due_later [of t l t'] by blast

lemma not_active_and_due: "\<not> (active t l \<and> due t l)"
  using live ended_inactive by blast

lemma expire_keeps_active:
  "t \<le> t' \<Longrightarrow> filter (active t') (update_where (\<lambda>l. q l \<and> due t l) expire ls) = filter (active t') ls"
  using ended_inactive expire_ends due_later not_active_and_due
  by (intro filter_update_where_other) blast+

lemma length_active_earlier:
  "t \<le> t' \<Longrightarrow> length (filter (\<lambda>l. q l \<and> active t' l) ls) \<le> length (filter (\<lambda>l. q l \<and> active t l) ls)"
  by (induction ls) (auto dest: active_earlier)

lemma expire_removes_due:
  "filter (due t) (update_where (\<lambda>l. q l \<and> due t l) expire ls) = filter (\<lambda>l. due t l \<and> \<not> q l) ls"
proof (induction ls)
  case (Cons l ls)
  then show ?case using expire_ends [of t l] ended_inactive [of "expire l" t] by auto
qed simp

end

interpretation lease_activity: activity active_lease due_lease "\<lambda>l. l_ended_at l \<noteq> None" expire_row
  by unfold_locales
    (auto simp: active_lease_def due_lease_def expire_row_def split: option.splits)

lemma active_count_later: "t \<le> t' \<Longrightarrow> active_count t' d rid \<le> active_count t d rid"
  unfolding active_count_def active_leases_def by (rule lease_activity.length_active_earlier)

subsection \<open>Inversion of the operations\<close>

lemma update_leasesD:
  assumes "update_leases p f d = Inr d'"
  shows "d' = d\<lparr>db_leases := update_where p f (db_leases d)\<rparr>"
    and "leases_valid d (update_where p f (db_leases d))"
  using assms by (auto simp: update_leases_def write_leases_def split: if_splits)

lemma update_leases_ok: "update_leases p f d = Inr d' \<Longrightarrow> db_ok d \<Longrightarrow> db_ok d' \<and> extends d d'"
  unfolding update_leases_def by (rule write_keeps_ok(11))

lemma lock_lease_Inr:
  "lock_lease_for_change lid pid owner d = Inr l \<longleftrightarrow>
     filter (\<lambda>l. l_id l = lid \<and> (owner \<longrightarrow> l_acquired_by l = pid)) (db_leases d) = [l]"
  by (auto simp: lock_lease_for_change_def bindE_eq_Inr)

lemma lock_leaseD:
  assumes "lock_lease_for_change lid pid owner d = Inr l"
  shows "l \<in> set (db_leases d)" "l_id l = lid" "owner \<longrightarrow> l_acquired_by l = pid"
  using filter_singleD(1,2) [OF assms [unfolded lock_lease_Inr]] by blast+

lemma leases_unique: "db_ok d \<Longrightarrow> unique_on l_id (db_leases d)"
  by (simp add: db_ok_def leases_valid_def)

lemma lease_by_id:
  assumes "db_ok d" and "l \<in> set (db_leases d)"
  shows "filter (\<lambda>x. l_id x = l_id l) (db_leases d) = [l]"
  using leases_unique [OF assms(1)] assms(2)
  by (rule unique_on_filter_single) simp_all

lemma lease_id_inj:
  "db_ok d \<Longrightarrow> l \<in> set (db_leases d) \<Longrightarrow> l' \<in> set (db_leases d) \<Longrightarrow> l_id l = l_id l' \<Longrightarrow> l = l'"
  by (rule unique_on_inj [OF leases_unique])

lemma select_candidateD:
  assumes "select_candidate cx rq pid administrator d = Some r"
  shows "r \<in> set (db_resources d)" and "candidate_ok cx rq pid administrator d r"
    and "\<And>r'. r' \<in> set (db_resources d) \<Longrightarrow> candidate_ok cx rq pid administrator d r' \<Longrightarrow>
           candidate_key cx d r \<le> candidate_key cx d r'"
proof -
  let ?ok = "filter (candidate_ok cx rq pid administrator d) (db_resources d)"
  obtain rs where rs: "sort_key (candidate_key cx d) ?ok = r # rs"
    using assms by (auto simp: select_candidate_def first_row_def split: list.splits)
  have "r \<in> set ?ok" by (rule sort_key_hd_mem [OF rs])
  then show "r \<in> set (db_resources d)" "candidate_ok cx rq pid administrator d r" by simp_all
  show "candidate_key cx d r \<le> candidate_key cx d r'"
    if "r' \<in> set (db_resources d)" "candidate_ok cx rq pid administrator d r'" for r'
    using that by (intro sort_key_hd_least [OF rs]) simp
qed

lemma select_candidate_None_iff:
  "select_candidate cx rq pid administrator d = None \<longleftrightarrow>
     (\<forall>r \<in> set (db_resources d). \<not> candidate_ok cx rq pid administrator d r)"
  by (simp add: select_candidate_def filter_empty_conv)

text \<open>Resource policy and TTL requests agree, so no candidate fails to resolve.\<close>

lemma candidate_ttl_resolves:
  assumes "candidate_ok cx rq pid administrator d r" and "resource_check r"
  shows "\<exists>ttl. resolve_ttl r (supplied_ttl (lc_ttl rq)) (lc_ttl rq \<noteq> None) = Inr ttl"
  using assms
  by (cases "lc_ttl rq"; cases "r_default_ttl r"; cases "r_max_ttl r"; cases "the (lc_ttl rq)";
      cases "r_expiration_mode r")
    (auto simp: candidate_ok_def resolve_ttl_def supplied_ttl_def resource_check_def ttl_within_def
      Let_def)

lemma resolve_ttl_Inr:
  "resolve_ttl r t supplied = Inr ttl \<longleftrightarrow>
     ttl = (if supplied then t else r_default_ttl r) \<and>
     \<not> (ttl = None \<and> r_expiration_mode r = Required) \<and> ttl_within ttl (r_max_ttl r)"
  by (auto simp: resolve_ttl_def Let_def ttl_within_def split: option.splits)

lemma create_lease_cases:
  assumes "create_lease cx app_now lid rq key hash pid c d = Inr (resp, d')"
  obtains ttl l d1 d2 where
    "resolve_ttl c (supplied_ttl (lc_ttl rq)) (lc_ttl rq \<noteq> None) = Inr ttl"
    "l = new_lease lid (r_id c) pid rq app_now ttl key hash"
    "write_leases (db_leases d @ [l]) d = Inr d1"
    "update_resources cx (\<lambda>r. r_id r = r_id c) (\<lambda>r. r\<lparr>r_last_leased_at := Some app_now\<rparr>) d1 = Inr d2"
    "record_audit_event cx (Some pid) ''lease.acquired'' ''Lease'' lid [] d2 = Inr d'"
    "\<exists>res. fetch_resource cx (r_id c) d' = Inr res \<and>
       resp = (project_lease app_now res l)\<lparr>lr_state := ActiveLease, lr_duration := 0\<rparr>"
  using assms by (auto simp: create_lease_def bindE_eq_Inr Let_def)

lemma create_lease_tables:
  assumes "create_lease cx app_now lid rq key hash pid c d = Inr (resp, d')"
  obtains ttl where
    "resolve_ttl c (supplied_ttl (lc_ttl rq)) (lc_ttl rq \<noteq> None) = Inr ttl"
    "db_leases d' = db_leases d @ [new_lease lid (r_id c) pid rq app_now ttl key hash]"
    "db_resources d' = update_where (\<lambda>r. r_id r = r_id c)
       (\<lambda>r. r\<lparr>r_last_leased_at := Some app_now, r_updated_at := cx_now cx\<rparr>) (db_resources d)"
    "lr_id resp = lid" "rr_id (lr_resource resp) = r_id c" "db_ok d \<Longrightarrow> db_ok d' \<and> extends d d'"
  using assms
proof (cases rule: create_lease_cases)
  case (1 ttl l d1 d2)
  have d1: "db_leases d1 = db_leases d @ [l]" "db_resources d1 = db_resources d"
    using 1(3) by (auto simp: write_leases_def split: if_splits)
  have d2: "db_leases d2 = db_leases d1"
    "db_resources d2 = update_where (\<lambda>r. r_id r = r_id c)
       (\<lambda>r. r\<lparr>r_last_leased_at := Some app_now, r_updated_at := cx_now cx\<rparr>) (db_resources d)"
    using update_resourcesD(1) [OF 1(4)] d1(2) by simp_all
  have ok: "db_ok d' \<and> extends d d'" if "db_ok d"
  proof -
    have a: "db_ok d1 \<and> extends d d1" by (rule write_keeps_ok(11) [OF that 1(3)])
    have b: "db_ok d2 \<and> extends d1 d2" using a by (intro update_resources_ok [OF 1(4)]) simp_all
    have c: "db_ok d' \<and> extends d2 d'" using b by (intro record_audit_event_ok [OF 1(5)]) simp
    show ?thesis using a b c extends_trans [of d d1 d2] extends_trans [of d d2 d'] by simp
  qed
  obtain res where res: "fetch_resource cx (r_id c) d' = Inr res"
    "resp = (project_lease app_now res l)\<lparr>lr_state := ActiveLease, lr_duration := 0\<rparr>"
    using 1(6) by blast
  have "rr_id res = r_id c"
    using res(1) by (auto simp: fetch_resource_Inr project_resource_def dest: filter_singleD(2))
  with 1(1,2) d1 d2 res(2) frame(7,11) [OF 1(5)] ok show thesis
    by (intro that [of ttl]) (simp_all add: project_lease_def new_lease_def)
qed

lemma acquire_lease_cases:
  assumes "acquire_lease sha cx app_now lid rq key pid adm d = Inr (resp, d')"
  obtains (replayed) l where
      "filter (\<lambda>l. l_acquired_by l = pid \<and> l_idempotency_key l = key) (db_leases d) = [l]"
      "l_request_hash l = request_hash sha rq" "lease_from_row cx l d = Inr resp" "d' = d"
  | (created) c where
      "filter (\<lambda>l. l_acquired_by l = pid \<and> l_idempotency_key l = key) (db_leases d) = []"
      "select_candidate cx rq pid adm d = Some c"
      "create_lease cx app_now lid rq key (request_hash sha rq) pid c d = Inr (resp, d')"
proof -
  obtain ex where ex: "one_or_none (filter (\<lambda>l. l_acquired_by l = pid \<and> l_idempotency_key l = key)
      (db_leases d)) = Inr ex"
    using assms by (auto simp: acquire_lease_def)
  note step = assms [unfolded acquire_lease_def ex bindE_Inr]
  show thesis
  proof (cases ex)
    case None
    then obtain c where "select_candidate cx rq pid adm d = Some c"
        "create_lease cx app_now lid rq key (request_hash sha rq) pid c d = Inr (resp, d')"
      using step by (auto split: option.splits if_splits)
    with None ex show thesis by (intro created) simp_all
  next
    case (Some l)
    with step have "l_request_hash l = request_hash sha rq" "lease_from_row cx l d = Inr resp" "d' = d"
      by (auto simp: bindE_eq_Inr split: if_splits)
    with Some ex show thesis by (intro replayed) simp_all
  qed
qed

lemma renew_lease_cases:
  assumes "renew_lease cx checked_at app_now lid t pid d = Inr (resp, d')"
  obtains l r ttl d1 where "lock_lease_for_change lid pid True d = Inr l"
    "l_ended_at l = None" "case l_expires_at l of None \<Rightarrow> True | Some e \<Rightarrow> e > checked_at"
    "filter (\<lambda>r. r_id r = l_resource_id l) (db_resources d) = [r]"
    "resolve_ttl r (supplied_ttl t) (t \<noteq> None) = Inr ttl"
    "update_leases (\<lambda>x. l_id x = lid)
       (\<lambda>x. x\<lparr>l_expires_at := expiry app_now ttl, l_last_renewed_at := Some app_now\<rparr>) d = Inr d1"
    "record_audit_event cx (Some pid) ''lease.renewed'' ''Lease'' lid [] d1 = Inr d'"
    "fetch_lease cx lid pid False d' = Inr resp"
  using assms by (auto simp: renew_lease_def bindE_eq_Inr split: if_splits option.splits)

lemma end_lease_cases:
  assumes "end_lease cx lid pid reason d = Inr (resp, d')"
  obtains (already) l where "lock_lease_for_change lid pid (reason = Released) d = Inr l"
      "l_ended_at l \<noteq> None" "d' = d" "fetch_lease cx lid pid (reason = Revoked) d' = Inr resp"
  | (ended) l d1 where "lock_lease_for_change lid pid (reason = Released) d = Inr l"
      "l_ended_at l = None"
      "update_leases (\<lambda>x. l_id x = lid)
         (\<lambda>x. x\<lparr>l_ended_at := Some (cx_now cx), l_end_reason := Some reason\<rparr>) d = Inr d1"
      "record_audit_event cx (Some pid) (''lease.'' @ reason_lower reason) ''Lease'' lid [] d1 = Inr d'"
      "fetch_lease cx lid pid (reason = Revoked) d' = Inr resp"
proof -
  obtain l where l: "lock_lease_for_change lid pid (reason = Released) d = Inr l"
    using assms by (auto simp: end_lease_def)
  note step = assms [unfolded end_lease_def l bindE_Inr]
  show thesis
  proof (cases "l_ended_at l = None")
    case True
    with step show thesis by (auto simp: bindE_eq_Inr intro: ended [OF l True])
  next
    case False
    with step show thesis by (auto simp: bindE_eq_Inr intro: already [OF l False])
  qed
qed

end
