(* ===== verification/Secrets_Laws.thy ===== *)
theory Secrets_Laws
  imports Secrets Cipher_Laws Identity_Laws Leasing_Laws
begin

text \<open>
  What the secret operations guarantee: who may see material and that every disclosure is on
  the audit trail, that stored material is read back, optimistic updates, idempotent deletion,
  and that the routes turn cryptographic failures into safe answers.
\<close>

subsection \<open>Inversion\<close>

lemma lock_secret_resourceD:
  assumes "lock_secret_resource rid req d = Inr r"
  shows "filter (\<lambda>x. r_id x = rid) (db_resources d) = [r]" and "req \<longrightarrow> r_archived_at r = None"
  using assms by (auto simp: lock_secret_resource_def bindE_eq_Inr split: if_splits)

lemma lock_secret_Inr:
  "lock_secret rid sid d = Inr s \<longleftrightarrow> filter (\<lambda>s. s_id s = sid \<and> s_resource_id s = rid) (db_secrets d) = [s]"
  by (auto simp: lock_secret_def bindE_eq_Inr)

lemma secrets_unique: "db_ok d \<Longrightarrow> unique_on s_id (db_secrets d)"
  by (simp add: db_ok_def secrets_valid_def)

lemma secret_id_inj:
  "db_ok d \<Longrightarrow> s \<in> set (db_secrets d) \<Longrightarrow> s' \<in> set (db_secrets d) \<Longrightarrow> s_id s = s_id s' \<Longrightarrow> s = s'"
  by (rule unique_on_inj [OF secrets_unique])

lemma access_locked_secret_Inr:
  assumes "access_locked_secret ae fo cipher cx s pid path d = Inr (result, d')"
  shows "reveal ae fo cipher s = Inr result"
    and "d' = d\<lparr>db_audit := db_audit d @ [\<lparr>a_actor_id = Some pid, a_action = ''resource_secret.accessed'',
      a_subject_type = ''ResourceSecret'', a_subject_id = uuid_str (s_id s),
      a_correlation_id = cx_correlation cx, a_metadata = access_metadata (s_resource_id s) path,
      a_created_at = cx_now cx\<rparr>]\<rparr>"
  using assms record_audit_eventD by (auto simp: access_locked_secret_def bindE_eq_Inr)

lemma lock_active_authorized_leaseD:
  assumes "lock_active_authorized_lease cx lid pid adm d = Inr l"
  shows "l \<in> set (db_leases d)" "l_id l = lid" "active_lease (cx_now cx) l" "adm \<or> l_acquired_by l = pid"
    and "adm \<or> (\<exists>r \<in> set (db_resources d). r_id r = l_resource_id l \<and> r_archived_at r = None \<and>
           resource_visible d pid r)"
proof -
  let ?p = "\<lambda>l. l_id l = lid \<and> active_lease (cx_now cx) l \<and> (adm \<or> l_acquired_by l = pid)"
  have f: "filter ?p (db_leases d) = [l]"
    using assms by (auto simp: lock_active_authorized_lease_def bindE_eq_Inr split: if_splits)
  show "l \<in> set (db_leases d)" "l_id l = lid" "active_lease (cx_now cx) l" "adm \<or> l_acquired_by l = pid"
    using filter_singleD(1,2) [OF f] by blast+
  show "adm \<or> (\<exists>r \<in> set (db_resources d). r_id r = l_resource_id l \<and> r_archived_at r = None \<and>
           resource_visible d pid r)"
    using assms f
    by (auto simp: lock_active_authorized_lease_def bindE_eq_Inr filter_empty_conv split: if_splits)
qed

subsection \<open>Disclosure\<close>

text \<open>
  C22: Material is disclosed through a lease only while the lease is active at the transaction's
  time, only to its holder or to an administrator, only for a secret of the leased resource, and
  to the holder only while the resource is neither archived nor hidden from it. The disclosure
  appends one audit event naming the actor, the secret, the resource and the lease, and changes nothing else.
\<close>

theorem lease_disclosure_authorized:
  assumes "access_lease_secret ae fo cipher cx lid sid pid adm d = Inr (result, d')"
  shows "\<exists>l \<in> set (db_leases d). \<exists>s \<in> set (db_secrets d).
    l_id l = lid \<and> l_ended_at l = None \<and> (\<forall>e. l_expires_at l = Some e \<longrightarrow> cx_now cx < e) \<and>
    (adm \<or> l_acquired_by l = pid \<and> (\<exists>r \<in> set (db_resources d). r_id r = l_resource_id l \<and>
       r_archived_at r = None \<and> resource_visible d pid r)) \<and>
    s_id s = sid \<and> s_resource_id s = l_resource_id l \<and> reveal ae fo cipher s = Inr result \<and>
    d' = d\<lparr>db_audit := db_audit d @ [\<lparr>a_actor_id = Some pid, a_action = ''resource_secret.accessed'',
      a_subject_type = ''ResourceSecret'', a_subject_id = uuid_str sid, a_correlation_id = cx_correlation cx,
      a_metadata = [(''resource_id'', uuid_str (l_resource_id l)), (''access_path'', ''Lease''),
        (''lease_id'', uuid_str lid)], a_created_at = cx_now cx\<rparr>]\<rparr>"
proof -
  obtain l s where l: "lock_active_authorized_lease cx lid pid adm d = Inr l"
    and s: "lock_secret (l_resource_id l) sid d = Inr s"
    and acc: "access_locked_secret ae fo cipher cx s pid (LeasePath lid) d = Inr (result, d')"
    using assms by (auto simp: access_lease_secret_def bindE_eq_Inr)
  note l_facts = lock_active_authorized_leaseD [OF l]
  have s_facts: "s \<in> set (db_secrets d)" "s_id s = sid" "s_resource_id s = l_resource_id l"
    using filter_singleD(1,2) [OF s [unfolded lock_secret_Inr]] by blast+
  have act: "l_ended_at l = None" "\<forall>e. l_expires_at l = Some e \<longrightarrow> cx_now cx < e"
    using l_facts(3) by (auto simp: active_lease_def)
  show ?thesis
    using l_facts act s_facts access_locked_secret_Inr [OF acc]
    by (intro bexI [of _ l] bexI [of _ s]) (auto simp: access_metadata_def)
qed

lemma secret_row:
  assumes "db_ok d" and "s \<in> set (db_secrets d)"
  shows "lock_secret (s_resource_id s) (s_id s) d = Inr s"
proof -
  have "filter (\<lambda>x. s_id x = s_id s \<and> s_resource_id x = s_resource_id s) (db_secrets d) = [s]"
    using secrets_unique [OF assms(1)] assms(2) by (rule unique_on_filter_single) simp_all
  then show ?thesis by (simp add: lock_secret_Inr)
qed

lemma secret_resource_row:
  assumes "db_ok d" and "s \<in> set (db_secrets d)"
  shows "\<exists>r. lock_secret_resource (s_resource_id s) False d = Inr r"
proof -
  have "resource_exists d (s_resource_id s)"
    using assms by (auto simp: db_ok_def secrets_valid_def list_all_iff)
  then obtain r where r: "r \<in> set (db_resources d)" "r_id r = s_resource_id s" by (auto simp: exists_iff)
  have "filter (\<lambda>x. r_id x = s_resource_id s) (db_resources d) = [r]"
    by (rule unique_on_filter_single [of r_id]) (use assms(1) r in \<open>auto simp: db_ok_def resources_valid_def\<close>)
  then show ?thesis by (simp add: lock_secret_resource_def found_or_def)
qed

lemma create_resource_secret_cases:
  assumes "create_resource_secret ae cipher cx sid nonce rid rq pid d = Inr (resp, d')"
  obtains cols row d1 r where "lock_secret_resource rid True d = Inr r"
    "material_values ae cipher nonce (sc_material rq) rid sid = Inr cols"
    "row = set_material cols
       \<lparr>s_id = sid, s_resource_id = rid, s_name = sc_name rq, s_description = sc_description rq,
        s_mode = Managed, s_encrypted_value = None, s_encryption_key_id = None,
        s_external_provider = None, s_external_reference = None, s_version = 1,
        s_created_at = cx_now cx, s_updated_at = cx_now cx\<rparr>"
    "write_secrets (db_secrets d @ [row]) d = Inr d1"
    "record_audit_event cx (Some pid) ''resource_secret.created'' ''ResourceSecret'' sid
       [(''resource_id'', uuid_str rid), (''mode'', mode_name (sc_material rq))] d1 = Inr d'"
    "resp = metadata_from_row row"
  using assms by (auto simp: create_resource_secret_def bindE_eq_Inr Let_def)

lemma set_material_ids [simp]:
  "s_id (set_material cols s) = s_id s" "s_resource_id (set_material cols s) = s_resource_id s"
  "s_name (set_material cols s) = s_name s"
  by (simp_all add: set_material_def split: prod.splits)

lemma reveal_material:
  assumes "aead_correct ae" and "all_bytes nonce"
    and "material_values ae cipher nonce m rid sid = Inr cols"
    and "s_id s = sid" and "s_resource_id s = rid"
    and "\<forall>k. map_of (ci_keys cipher) k \<noteq> None \<longrightarrow> map_of (ci_keys later) k = map_of (ci_keys cipher) k"
  shows "reveal ae fo later (set_material cols s) = Inr (case m of
      ManagedMaterial v \<Rightarrow> ManagedSecretAccess sid (s_name s) v
    | ExternalMaterial provider reference \<Rightarrow> ExternalSecretAccess sid (s_name s) provider reference)"
proof (cases m)
  case (ManagedMaterial v)
  then obtain envelope key_id where enc: "encrypt ae cipher nonce v rid sid = Inr (envelope, key_id)"
    and cols: "cols = (Managed, Some envelope, Some key_id, None, None)"
    using assms(3) by (auto simp: material_values_def bindE_eq_Inr)
  have "map_of (ci_keys later) key_id = map_of (ci_keys cipher) key_id"
    using encrypt_Inr [OF enc] assms(6) by auto
  with decrypt_encrypt_run [OF assms(1,2) enc] have "decrypt ae fo later envelope key_id rid sid = Inr v"
    by blast
  then show ?thesis using ManagedMaterial assms(4,5) by (simp add: reveal_def cols set_material_def)
next
  case (ExternalMaterial provider reference)
  then show ?thesis
    using assms(3,4) by (auto simp: material_values_def reveal_def set_material_def)
qed

text \<open>
  C23: Stored material is read back: after a secret has been created, the administrator's access
  under the same resource discloses exactly the material of the request, a managed value through
  encryption and decryption, also with a rotated key ring that keeps the old keys.
\<close>

theorem created_secret_is_disclosed:
  assumes "create_resource_secret ae cipher cx sid nonce rid rq pid d = Inr (resp, d')"
    and "db_ok d" and "aead_correct ae" and "all_bytes nonce" and "principal_exists d admin"
    and "\<forall>k. map_of (ci_keys cipher) k \<noteq> None \<longrightarrow> map_of (ci_keys later) k = map_of (ci_keys cipher) k"
  shows "\<exists>d''. access_resource_secret_as_admin ae fo later cx2 rid sid admin d' =
    Inr (case sc_material rq of
        ManagedMaterial v \<Rightarrow> ManagedSecretAccess sid (sc_name rq) v
      | ExternalMaterial provider reference \<Rightarrow> ExternalSecretAccess sid (sc_name rq) provider reference, d'')"
  using assms(1)
proof (cases rule: create_resource_secret_cases)
  case (1 cols row d1 r)
  have ids: "s_id row = sid" "s_resource_id row = rid" "s_name row = sc_name rq"
    using 1(3) by simp_all
  have ok1: "db_ok d1 \<and> extends d d1" by (rule write_keeps_ok(10) [OF assms(2) 1(4)])
  then have ok: "db_ok d' \<and> extends d1 d'" by (intro record_audit_event_ok [OF 1(5)]) simp
  have "row \<in> set (db_secrets d')"
    using 1(4) frame(10) [OF 1(5)] by (auto simp: write_secrets_def split: if_splits)
  then have lock: "lock_secret rid sid d' = Inr row" "\<exists>r. lock_secret_resource rid False d' = Inr r"
    using secret_row [of d' row] secret_resource_row [of d' row] ok ids by simp_all
  have rev: "reveal ae fo later row = Inr (case sc_material rq of
      ManagedMaterial v \<Rightarrow> ManagedSecretAccess sid (sc_name rq) v
    | ExternalMaterial provider reference \<Rightarrow> ExternalSecretAccess sid (sc_name rq) provider reference)"
    unfolding 1(3) by (subst reveal_material [OF assms(3,4) 1(2) _ _ assms(6)]) (simp_all split: material.split)
  have "principal_exists d' admin" using assms(5) ok ok1 by (auto simp: extends_def)
  then have "\<exists>d''. record_audit_event cx2 (Some admin) ''resource_secret.accessed'' ''ResourceSecret'' sid
      (access_metadata rid Administration) d' = Inr d''"
    using ok by (intro record_audit_event_exists) (auto simp: access_metadata_def SAFE_METADATA_FIELDS_def)
  then show ?thesis
    using lock rev ids by (auto simp: access_resource_secret_as_admin_def access_locked_secret_def)
qed

subsection \<open>Updates and deletion\<close>

lemma update_resource_secret_cases:
  assumes "update_resource_secret ae cipher cx nonce rid sid rq pid d = Inr (resp, d')"
  obtains (unchanged) s where "lock_secret rid sid d = Inr s" "s_version s = su_version rq" "d' = d"
      "resp = metadata_from_row s" "su_name rq = None" "su_description rq = None" "su_material rq = None"
  | (updated) s r replace d1 row where "lock_secret_resource rid True d = Inr r"
      "lock_secret rid sid d = Inr s" "s_version s = su_version rq"
      "replace = (\<lambda>s. s) \<or> (\<exists>m cols. su_material rq = Some m \<and>
         material_values ae cipher nonce m rid sid = Inr cols \<and> replace = set_material cols)"
      "write_secrets (update_where (\<lambda>s. s_id s = sid)
         (\<lambda>s. (replace (set_secret_fields rq s))\<lparr>s_version := s_version s + 1, s_updated_at := cx_now cx\<rparr>)
         (db_secrets d)) d = Inr d1"
      "filter (\<lambda>s. s_id s = sid) (db_secrets d1) = [row]" "resp = metadata_from_row row"
      "record_audit_event cx (Some pid) ''resource_secret.updated'' ''ResourceSecret'' sid
         [(''resource_id'', uuid_str rid)] d1 = Inr d'"
proof -
  obtain r where r: "lock_secret_resource rid True d = Inr r"
    using assms by (auto simp: update_resource_secret_def)
  note step1 = assms [unfolded update_resource_secret_def r bindE_Inr]
  obtain s where s: "lock_secret rid sid d = Inr s" using step1 by auto
  note step2 = step1 [unfolded s bindE_Inr]
  have v: "s_version s = su_version rq" using step2 by (auto split: if_splits)
  obtain replace where rep: "(case su_material rq of None \<Rightarrow> Inr (\<lambda>s. s)
      | Some m \<Rightarrow> bindE (material_values ae cipher nonce m rid sid) (\<lambda>cols. Inr (set_material cols))) = Inr replace"
    using step2 v by auto
  note step3 = step2 [unfolded rep bindE_Inr]
  have rep': "replace = (\<lambda>s. s) \<or> (\<exists>m cols. su_material rq = Some m \<and>
         material_values ae cipher nonce m rid sid = Inr cols \<and> replace = set_material cols)"
    using rep by (auto split: option.splits)
  show thesis
  proof (cases "su_name rq = None \<and> su_description rq = None \<and> su_material rq = None")
    case True
    then have "d' = d" "resp = metadata_from_row s" using step3 v by simp_all
    with True show thesis by (intro unchanged [OF s v]) simp_all
  next
    case False
    with step3 v show thesis by (auto simp: bindE_eq_Inr intro: updated [OF r s v rep'])
  qed
qed

lemma update_secret_row_fields:
  assumes "replace = (\<lambda>s. s) \<or> (\<exists>cols. replace = set_material cols)"
  shows "s_id (replace (set_secret_fields rq s)) = s_id s"
    and "s_resource_id (replace (set_secret_fields rq s)) = s_resource_id s"
    and "s_name (replace (set_secret_fields rq s)) = coalesce (su_name rq) (s_name s)"
  using assms by (auto simp: set_secret_fields_def)

text \<open>
  Secret updates are optimistic: an update is applied only to the version the caller has seen,
  it then raises the version by one and touches no other secret, so of two updates that name the
  same version only the first to commit can change anything.
\<close>

theorem secret_update_no_lost_update:
  assumes "update_resource_secret ae cipher cx nonce rid sid rq pid d = Inr (resp, d')" and "db_ok d"
    and "su_name rq \<noteq> None \<or> su_description rq \<noteq> None \<or> su_material rq \<noteq> None"
  shows "(\<exists>s \<in> set (db_secrets d). s_id s = sid \<and> s_version s = su_version rq) \<and>
    (\<forall>s \<in> set (db_secrets d'). s_id s = sid \<longrightarrow> s_version s = su_version rq + 1) \<and>
    filter (\<lambda>s. s_id s \<noteq> sid) (db_secrets d') = filter (\<lambda>s. s_id s \<noteq> sid) (db_secrets d) \<and>
    (\<forall>rq2 cx2 nonce2 pid2 res. su_version rq2 = su_version rq \<longrightarrow>
       update_resource_secret ae cipher cx2 nonce2 rid sid rq2 pid2 d' \<noteq> Inr res)"
  using assms(1)
proof (cases rule: update_resource_secret_cases)
  case (unchanged s)
  then show ?thesis using assms(3) by simp
next
  case (updated s r replace d1 row)
  let ?f = "\<lambda>s. (replace (set_secret_fields rq s))\<lparr>s_version := s_version s + 1, s_updated_at := cx_now cx\<rparr>"
  have fields: "s_id (?f x) = s_id x" for x
    using update_secret_row_fields(1) [of replace rq x] updated(4) by fastforce
  have rows: "db_secrets d' = update_where (\<lambda>s. s_id s = sid) ?f (db_secrets d)"
    using updated(5) frame(10) [OF updated(8)] by (auto simp: write_secrets_def split: if_splits)
  have s: "s \<in> set (db_secrets d)" "s_id s = sid"
    using filter_singleD(1,2) [OF updated(2) [unfolded lock_secret_Inr]] by blast+
  have new: "s_version x = su_version rq + 1" if x: "x \<in> set (db_secrets d')" "s_id x = sid" for x
    using x(1) unfolding rows
  proof (cases rule: update_where_memE)
    case (changed y)
    then have "y = s" using secret_id_inj [OF assms(2) changed(1) s(1)] s(2) by simp
    with changed updated(3) show ?thesis by simp
  qed (use x(2) in simp)
  have others: "filter (\<lambda>s. s_id s \<noteq> sid) (db_secrets d') = filter (\<lambda>s. s_id s \<noteq> sid) (db_secrets d)"
    unfolding rows by (rule filter_update_where_other) (simp_all add: fields)
  have stale: "update_resource_secret ae cipher cx2 nonce2 rid sid rq2 pid2 d' \<noteq> Inr res"
    if "su_version rq2 = su_version rq" for rq2 cx2 nonce2 pid2 res
  proof
    assume ok: "update_resource_secret ae cipher cx2 nonce2 rid sid rq2 pid2 d' = Inr res"
    obtain resp2 d2 where "res = (resp2, d2)" by (cases res)
    with ok obtain s2 where s2: "lock_secret rid sid d' = Inr s2" "s_version s2 = su_version rq2"
      by (auto elim: update_resource_secret_cases)
    then have "s2 \<in> set (db_secrets d')" "s_id s2 = sid"
      using filter_singleD(1,2) [OF s2(1) [unfolded lock_secret_Inr]] by blast+
    with new s2(2) that show False by fastforce
  qed
  show ?thesis using s updated(3) new others stale by blast
qed

lemma delete_resource_secret_run:
  assumes "db_ok d" and "lock_secret_resource rid False d = Inr r"
    and "filter (\<lambda>s. s_id s = sid \<and> s_resource_id s = rid) (db_secrets d) = []"
  shows "delete_resource_secret cx rid sid pid d = Inr ((), d)"
proof -
  have "delete_where (\<lambda>s. s_id s = sid \<and> s_resource_id s = rid) (db_secrets d) = db_secrets d"
    using assms(3) by (simp add: delete_where_def filter_empty_conv)
  then show ?thesis
    using assms by (simp add: delete_resource_secret_def Let_def write_secrets_def db_ok_def)
qed

lemma delete_resource_secret_tables:
  assumes "delete_resource_secret cx rid sid pid d = Inr ((), d')" and "db_ok d"
  shows "db_secrets d' = delete_where (\<lambda>s. s_id s = sid \<and> s_resource_id s = rid) (db_secrets d) \<and>
    db_resources d' = db_resources d \<and> db_ok d'"
proof -
  let ?p = "\<lambda>s. s_id s = sid \<and> s_resource_id s = rid"
  obtain r where r: "lock_secret_resource rid False d = Inr r"
    using assms(1) by (auto simp: delete_resource_secret_def)
  obtain d1 where w: "write_secrets (delete_where ?p (db_secrets d)) d = Inr d1"
    using assms(1) by (auto simp: delete_resource_secret_def Let_def bindE_eq_Inr)
  have "bindE (one_or_none (filter ?p (db_secrets d))) (\<lambda>deleted. case deleted of None \<Rightarrow> Inr ((), d1)
       | Some _ \<Rightarrow> bindE (record_audit_event cx (Some pid) ''resource_secret.deleted'' ''ResourceSecret'' sid
                    [(''resource_id'', uuid_str rid)] d1) (\<lambda>d2. Inr ((), d2))) = Inr ((), d')"
    using assms(1) by (simp add: delete_resource_secret_def Let_def r w)
  then obtain row :: "secret option" where rest: "(case row of None \<Rightarrow> Inr ((), d1)
       | Some _ \<Rightarrow> bindE (record_audit_event cx (Some pid) ''resource_secret.deleted'' ''ResourceSecret'' sid
                    [(''resource_id'', uuid_str rid)] d1) (\<lambda>d2. Inr ((), d2))) = Inr ((), d')"
    by (rule bindE_InrE)
  have ok1: "db_ok d1" using write_keeps_ok(10) [OF assms(2) w] by simp
  have d1: "d1 = d\<lparr>db_secrets := delete_where ?p (db_secrets d)\<rparr>"
    using w by (auto simp: write_secrets_def split: if_splits)
  show ?thesis
  proof (cases row)
    case None
    with rest have "d' = d1" by simp
    with d1 ok1 show ?thesis by simp
  next
    case (Some x)
    with rest obtain d2 where ev: "record_audit_event cx (Some pid) ''resource_secret.deleted'' ''ResourceSecret'' sid
        [(''resource_id'', uuid_str rid)] d1 = Inr d2" and "d' = d2" by (auto simp: bindE_eq_Inr)
    then show ?thesis using frame(7,10) [OF ev] record_audit_event_ok [OF ev ok1] d1 by simp
  qed
qed

text \<open>
  Deletion is idempotent and final: afterwards the secret is not found by any read, update or
  disclosure under its resource, and deleting it again succeeds without changing anything.
\<close>

theorem secret_deletion_final:
  assumes "delete_resource_secret cx rid sid pid d = Inr ((), d')" and "db_ok d"
  shows "delete_resource_secret cx2 rid sid pid2 d' = Inr ((), d') \<and>
    get_resource_secret rid sid d' = Inl (http 404 ''Resource secret not found'') \<and>
    access_resource_secret_as_admin ae fo cipher cx2 rid sid pid2 d' =
      Inl (http 404 ''Resource secret not found'')"
proof -
  obtain r where r: "lock_secret_resource rid False d = Inr r"
    using assms(1) by (auto simp: delete_resource_secret_def)
  note tables = delete_resource_secret_tables [OF assms]
  have gone: "filter (\<lambda>s. s_id s = sid \<and> s_resource_id s = rid) (db_secrets d') = []"
    using tables by (simp add: delete_where_def filter_empty_conv)
  have r': "lock_secret_resource rid False d' = Inr r"
    using r tables by (simp add: lock_secret_resource_def)
  have "lock_secret rid sid d' = Inl (http 404 ''Resource secret not found'')"
    using gone by (simp add: lock_secret_def found_or_def)
  then show ?thesis
    using delete_resource_secret_run [OF _ r' gone] tables r'
    by (simp add: get_resource_secret_def access_resource_secret_as_admin_def)
qed

subsection \<open>Routes\<close>

lemma authenticated_audit: "db_audit (snd (authenticated sha env d)) = db_audit d"
  by (auto simp: authenticated_def authenticate_token_def run_tx_def bindE_eq_Inr bindE_eq_Inl
      dest!: update_tokensD split: option.splits sum.splits exc.splits if_splits)

lemma enforce_rate_limit_audit: "db_audit (snd (enforce_rate_limit cx sc su n w d)) = db_audit d"
proof -
  have "db_audit d' = db_audit d" if "count_attempt cx sc su w d = Inr (x, d')" for x d'
    using that by (auto simp: count_attempt_def bindE_eq_Inr write_windows_def split: if_splits)
  then show ?thesis
    by (auto simp: enforce_rate_limit_def run_tx_def then_tx_def split: sum.splits prod.splits)
qed

lemma secret_limit_audit: "db_audit (snd (enforce_secret_access_limit sb n w cx current d)) = db_audit d"
  using enforce_rate_limit_audit [of cx "''secret_access''" "principal_subject sb (actor_of current)" n w d]
  by (auto simp: enforce_secret_access_limit_def split: prod.splits sum.splits exc.splits)

definition crypto_error :: "exc \<Rightarrow> bool" where
  "crypto_error e \<longleftrightarrow> (\<exists>m. e = SecretEncryptionUnavailable m \<or> e = SecretDecryptionError m)"

lemma safe_crypto: "\<not> crypto_error (safe_crypto_problem e)"
  by (cases e) (simp_all add: crypto_error_def safe_crypto_problem_def)

text \<open>
  The disclosure route through a lease: it answers with material exactly together with one more
  event on the audit trail and with headers that forbid caching; when it fails, no cryptographic
  exception leaves it and the trail is unchanged.
\<close>

theorem lease_secret_route_outcome:
  assumes "access_through_lease_route sha sb ae fo cipher n w cx_limit env lid sid d = (res, d')"
  shows "case res of
      Inr (result, headers) \<Rightarrow> headers = NO_STORE \<and>
        (\<exists>ev. db_audit d' = db_audit d @ [ev] \<and> a_action ev = ''resource_secret.accessed'' \<and>
           a_subject_id ev = uuid_str sid)
    | Inl e \<Rightarrow> (crypto_error e \<longrightarrow> fst (authenticated sha env d) = Inl e \<or>
          (\<exists>a d1. authenticated sha env d = (Inr a, d1) \<and> fst (enforce_secret_access_limit sb n w cx_limit a d1) = Inl e)) \<and>
        db_audit d' = db_audit d"
proof (cases "authenticated sha env d")
  case (Pair ra d1)
  have a1: "db_audit d1 = db_audit d" using authenticated_audit [of sha env d] Pair by simp
  show ?thesis
  proof (cases ra)
    case (Inl e)
    then show ?thesis using assms Pair a1 by (auto simp: access_through_lease_route_def)
  next
    case (Inr current)
    obtain rl d2 where lim: "enforce_secret_access_limit sb n w cx_limit current d1 = (rl, d2)" by fastforce
    have a2: "db_audit d2 = db_audit d" using secret_limit_audit [of sb n w cx_limit current d1] lim a1 by simp
    show ?thesis
    proof (cases rl)
      case (Inl e)
      then show ?thesis using assms Pair Inr lim a2 by (auto simp: access_through_lease_route_def)
    next
      case r2: (Inr u)
      let ?body = "access_lease_secret ae fo cipher (rv_cx env) lid sid (actor_of current)
        (p_role (ap_principal current) = Admin)"
      have run: "prevent_caching (catch_crypto (run_tx ?body d2)) = (res, d')"
        using assms Pair Inr lim r2 by (simp add: access_through_lease_route_def)
      show ?thesis
      proof (cases "?body d2")
        case (Inl e)
        then show ?thesis using run a2 safe_crypto [of e]
          by (auto simp: run_tx_def catch_crypto_def prevent_caching_def)
      next
        case (Inr xd)
        obtain x d3 where xd: "xd = (x, d3)" by (cases xd)
        then obtain l :: lease and s where s: "lock_secret (l_resource_id l) sid d2 = Inr s"
          and acc: "access_locked_secret ae fo cipher (rv_cx env) s (actor_of current) (LeasePath lid) d2 = Inr (x, d3)"
          using Inr by (auto simp: access_lease_secret_def bindE_eq_Inr)
        have "s_id s = sid" using filter_singleD(2) [OF s [unfolded lock_secret_Inr]] by blast
        then show ?thesis
          using run Inr xd a2 access_locked_secret_Inr(2) [OF acc]
          by (auto simp: run_tx_def catch_crypto_def prevent_caching_def)
      qed
    qed
  qed
qed

end
