(* ===== verification/Leasing_Acquire.thy ===== *)
theory Leasing_Acquire
  imports Leasing_Laws
begin

text \<open>
  Properties of acquisition: exclusive resources are never leased twice, acquisition succeeds
  exactly when a matching resource exists, the choice is the documented least one, TTL
  policy is respected, and idempotency keys replay or conflict.
\<close>

subsection \<open>Statements that cannot fail\<close>

lemma update_resources_succeeds:
  assumes "db_ok d" and "\<And>r. r_id (f r) = r_id r" and "\<And>r. r_name (f r) = r_name r"
    and "\<And>r. resource_check r \<Longrightarrow> resource_check ((f r)\<lparr>r_updated_at := cx_now cx\<rparr>)"
  shows "update_resources cx p f d = Inr (d\<lparr>db_resources :=
     update_where p (\<lambda>r. (f r)\<lparr>r_updated_at := cx_now cx\<rparr>) (db_resources d)\<rparr>)"
proof -
  let ?rows = "update_where p (\<lambda>r. (f r)\<lparr>r_updated_at := cx_now cx\<rparr>) (db_resources d)"
  have v: "resources_valid d (db_resources d)" using assms(1) by (simp add: db_ok_def)
  have "list_all resource_check ?rows"
    using v assms(4) by (intro list_all_update_where) (auto simp: resources_valid_def)
  with v assms(2,3) have "resources_valid d ?rows"
    by (simp add: resources_valid_def unique_on_update_where)
  then show ?thesis by (simp add: update_resources_def write_resources_def)
qed

lemma fetch_resource_exists:
  assumes "db_ok d" and "resource_exists d rid"
  shows "\<exists>res. fetch_resource cx rid d = Inr res \<and> rr_id res = rid"
proof -
  obtain r where r: "r \<in> set (db_resources d)" "r_id r = rid"
    using assms(2) by (auto simp: exists_iff)
  have "lock_row (r_id r) d = Inr r"
    using assms(1) r(1) by (intro lock_row_ok) (simp add: db_ok_def resources_valid_def)
  then show ?thesis using r(2) fetch_resource_locked [of "r_id r" d r cx]
    by (simp add: project_resource_def)
qed

lemma lease_resource_exists:
  "db_ok d \<Longrightarrow> l \<in> set (db_leases d) \<Longrightarrow> resource_exists d (l_resource_id l)"
  by (auto simp: db_ok_def leases_valid_def list_all_iff)

lemma lease_from_row_succeeds:
  assumes "db_ok d" and "l \<in> set (db_leases d)"
  shows "\<exists>res. lease_from_row cx l d = Inr (project_lease (cx_now cx) res l) \<and>
     rr_id res = l_resource_id l"
  using fetch_resource_exists [OF assms(1) lease_resource_exists [OF assms], of cx]
  by (auto simp: lease_from_row_def)

lemma granted_ttl_positive:
  assumes "validate_lease_create rq = Inr rq" and "resource_check c"
    and "resolve_ttl c (supplied_ttl (lc_ttl rq)) (lc_ttl rq \<noteq> None) = Inr ttl"
  shows "positive_ttl ttl"
  using assms ttl_ok_positive [of "supplied_ttl (lc_ttl rq)"]
  by (auto simp: resolve_ttl_Inr validate_lease_create_def check_fields_def resource_check_def
      bindE_eq_Inr split: if_splits)

lemma lease_check_new:
  "positive_ttl ttl \<Longrightarrow> lease_check (new_lease lid rid pid rq t ttl key hash)"
  by (auto simp: lease_check_def new_lease_def expiry_def positive_ttl_def split: option.splits)

lemma create_lease_succeeds:
  assumes "db_ok d" and "principal_exists d pid" and "validate_lease_create rq = Inr rq"
    and c: "c \<in> set (db_resources d)" "candidate_ok cx rq pid adm s c"
    and fresh: "lid \<notin> l_id ` set (db_leases d)"
    and key: "filter (\<lambda>l. l_acquired_by l = pid \<and> l_idempotency_key l = key) (db_leases d) = []"
  shows "\<exists>resp d'. create_lease cx app_now lid rq key hash pid c d = Inr (resp, d')"
proof -
  have check: "resource_check c"
    using assms(1) c(1) by (simp add: db_ok_def resources_valid_def list_all_iff)
  obtain ttl where ttl: "resolve_ttl c (supplied_ttl (lc_ttl rq)) (lc_ttl rq \<noteq> None) = Inr ttl"
    using candidate_ttl_resolves [OF c(2) check] by blast
  let ?l = "new_lease lid (r_id c) pid rq app_now ttl key hash"
  have "leases_valid d (db_leases d @ [?l])"
    using assms(1,2) fresh key c(1) lease_check_new [OF granted_ttl_positive [OF assms(3) check ttl]]
    by (auto simp: db_ok_def leases_valid_def new_lease_def exists_iff filter_empty_conv)
  then have w: "write_leases (db_leases d @ [?l]) d = Inr (d\<lparr>db_leases := db_leases d @ [?l]\<rparr>)"
    by (simp add: write_leases_def)
  let ?d1 = "d\<lparr>db_leases := db_leases d @ [?l]\<rparr>"
  have ok1: "db_ok ?d1" using write_keeps_ok(11) [OF assms(1) w] by simp
  obtain d2 where d2: "update_resources cx (\<lambda>r. r_id r = r_id c)
      (\<lambda>r. r\<lparr>r_last_leased_at := Some app_now\<rparr>) ?d1 = Inr d2"
    using update_resources_succeeds [OF ok1, of "\<lambda>r. r\<lparr>r_last_leased_at := Some app_now\<rparr>"]
    by (simp add: resource_check_def)
  have ok2: "db_ok d2 \<and> extends ?d1 d2" by (rule update_resources_ok [OF d2 ok1]) simp
  have "principal_exists d2 pid" using ok2 assms(2) by (simp add: extends_def)
  then obtain d3 where d3: "record_audit_event cx (Some pid) ''lease.acquired'' ''Lease'' lid [] d2 = Inr d3"
    using ok2 record_audit_event_exists [of d2 "Some pid" "[]" cx "''lease.acquired''" "''Lease''" lid]
    by auto
  have "db_ok d3 \<and> extends d2 d3" by (rule record_audit_event_ok [OF d3]) (use ok2 in simp)
  then have "db_ok d3" "resource_exists d3 (r_id c)"
    using ok2 c(1) by (auto simp: extends_def exists_iff(3) [of d])
  then obtain res where "fetch_resource cx (r_id c) d3 = Inr res"
    using fetch_resource_exists by blast
  with ttl w d2 d3 show ?thesis by (simp add: create_lease_def Let_def)
qed

subsection \<open>Exclusivity\<close>

text \<open>At an instant, no resource in exclusive mode has two active leases.\<close>

definition exclusive_ok :: "instant \<Rightarrow> db \<Rightarrow> bool" where
  "exclusive_ok t d \<longleftrightarrow>
     list_all (\<lambda>r. r_sharing_mode r = Exclusive \<longrightarrow> active_count t d (r_id r) \<le> 1) (db_resources d)"

lemma exclusive_ok_later: "exclusive_ok t d \<Longrightarrow> t \<le> t' \<Longrightarrow> exclusive_ok t' d"
  using active_count_later [of t t' d]
  by (auto simp: exclusive_ok_def list_all_iff intro: order_trans)

lemma active_count_snoc:
  "db_leases d' = db_leases d @ [l] \<Longrightarrow> active_count t d' rid =
     active_count t d rid + (if l_resource_id l = rid \<and> active_lease t l then 1 else 0)"
  by (simp add: active_count_def active_leases_def)

lemma resource_id_inj:
  "db_ok d \<Longrightarrow> r \<in> set (db_resources d) \<Longrightarrow> r' \<in> set (db_resources d) \<Longrightarrow> r_id r = r_id r' \<Longrightarrow> r = r'"
  by (rule unique_on_inj [of r_id "db_resources d"]) (simp_all add: db_ok_def resources_valid_def)

lemma exclusive_ok_created:
  assumes "create_lease cx app_now lid rq key hash pid c d = Inr (resp, d')"
    and "db_ok d" and "exclusive_ok t d" and c: "c \<in> set (db_resources d)"
    and free: "r_sharing_mode c = Exclusive \<longrightarrow> active_count t d (r_id c) = 0"
  shows "exclusive_ok t d'"
proof -
  obtain ttl where leases: "db_leases d' = db_leases d @ [new_lease lid (r_id c) pid rq app_now ttl key hash]"
    and rows: "db_resources d' = update_where (\<lambda>r. r_id r = r_id c)
        (\<lambda>r. r\<lparr>r_last_leased_at := Some app_now, r_updated_at := cx_now cx\<rparr>) (db_resources d)"
    using assms(1) by (rule create_lease_tables) blast
  have "active_count t d' (r_id r) \<le> 1"
    if r: "r \<in> set (db_resources d)" "r_sharing_mode r = Exclusive" for r
  proof (cases "r_id r = r_id c")
    case True
    with r c have "r = c" using resource_id_inj [OF assms(2)] by blast
    with free r(2) have "active_count t d (r_id r) = 0" by simp
    then show ?thesis by (simp add: active_count_snoc [OF leases])
  next
    case False
    with r assms(3) show ?thesis
      by (auto simp: active_count_snoc [OF leases] exclusive_ok_def list_all_iff new_lease_def)
  qed
  then show ?thesis
    unfolding exclusive_ok_def rows list_all_iff set_update_where by fastforce
qed

lemma exclusive_ok_acquired:
  assumes "acquire_lease sha cx app_now lid rq key pid adm d = Inr (resp, d')"
    and "db_ok d" and "exclusive_ok (cx_now cx) d"
  shows "exclusive_ok (cx_now cx) d'"
  using assms(1)
proof (cases rule: acquire_lease_cases)
  case (created c)
  note c = select_candidateD [OF created(2)]
  show ?thesis
    by (rule exclusive_ok_created [OF created(3) assms(2,3) c(1)]) (use c(2) in \<open>auto simp: candidate_ok_def\<close>)
qed (use assms(3) in simp)

text \<open>
  Exclusive resources are never double-booked by an acquisition: whoever asks, whatever
  the application's clock says, if no exclusive resource had two active leases at the
  transaction's time, then none has after the acquisition.
\<close>

theorem acquire_keeps_exclusivity:
  assumes "acquire_lease sha cx app_now lid rq key pid adm d = Inr (resp, d')"
    and "db_ok d" and "exclusive_ok (cx_now cx) d"
  shows "exclusive_ok (cx_now cx) d'"
  using assms by (rule exclusive_ok_acquired)

text \<open>
  C12: Acquisition fails only for lack of a resource: for a validated request with an unused
  idempotency key it succeeds exactly when some stored resource matches, and otherwise the
  answer is 409 "No matching resource is available". The TTL errors and the second
  availability check after the lock are unreachable, since the candidate query already
  implies them.
\<close>

theorem acquire_succeeds_iff_candidate:
  assumes "db_ok d" and "principal_exists d pid" and "validate_lease_create rq = Inr rq"
    and "lid \<notin> l_id ` set (db_leases d)"
    and "\<not> (\<exists>l \<in> set (db_leases d). l_acquired_by l = pid \<and> l_idempotency_key l = key)"
  shows "if \<exists>r \<in> set (db_resources d). candidate_ok cx rq pid adm d r
     then \<exists>resp d'. acquire_lease sha cx app_now lid rq key pid adm d = Inr (resp, d')
     else acquire_lease sha cx app_now lid rq key pid adm d =
       Inl (http 409 ''No matching resource is available'')"
proof -
  have key: "filter (\<lambda>l. l_acquired_by l = pid \<and> l_idempotency_key l = key) (db_leases d) = []"
    using assms(5) by (auto simp: filter_empty_conv)
  show ?thesis
  proof (cases "select_candidate cx rq pid adm d")
    case None
    then have "\<not> (\<exists>r \<in> set (db_resources d). candidate_ok cx rq pid adm d r)"
      by (simp add: select_candidate_None_iff)
    with None key show ?thesis by (simp add: acquire_lease_def)
  next
    case (Some c)
    note c = select_candidateD(1,2) [OF Some]
    have idle: "lc_sharing_mode rq = Exclusive \<Longrightarrow> active_leases (cx_now cx) d (r_id c) = []"
      using c(2) by (simp add: candidate_ok_def active_count_def)
    obtain resp d' where
      "create_lease cx app_now lid rq key (request_hash sha rq) pid c d = Inr (resp, d')"
      using create_lease_succeeds [OF assms(1-3) c assms(4) key] by blast
    with Some key idle have "acquire_lease sha cx app_now lid rq key pid adm d = Inr (resp, d')"
      by (auto simp: acquire_lease_def)
    with c show ?thesis by auto
  qed
qed

subsection \<open>Choice of the resource\<close>

text \<open>
  C17: The acquired resource is the documented choice: it matches the request, and among all
  matching resources it has the least load, ties going to the one leased least recently
  (never-leased ones first) and then to the smallest identifier.
\<close>

theorem acquire_chooses_least:
  assumes "acquire_lease sha cx app_now lid rq key pid adm d = Inr (resp, d')"
    and "\<not> (\<exists>l \<in> set (db_leases d). l_acquired_by l = pid \<and> l_idempotency_key l = key)"
  shows "\<exists>c \<in> set (db_resources d). candidate_ok cx rq pid adm d c \<and>
    rr_id (lr_resource resp) = r_id c \<and>
    (\<forall>r \<in> set (db_resources d). candidate_ok cx rq pid adm d r \<longrightarrow>
       (active_count (cx_now cx) d (r_id c), r_last_leased_at c, r_id c) \<le>
       (active_count (cx_now cx) d (r_id r), r_last_leased_at r, r_id r))"
  using assms(1)
proof (cases rule: acquire_lease_cases)
  case (replayed l)
  then show ?thesis using assms(2) by (auto simp: filter_eq_Cons_iff)
next
  case (created c)
  note c = select_candidateD [OF created(2)]
  have "rr_id (lr_resource resp) = r_id c" using created(3) by (rule create_lease_tables) blast
  with c show ?thesis unfolding candidate_key_def by blast
qed

text \<open>
  The lifetime of a new lease follows the resource's policy: an explicit TTL is taken as
  it is, an omitted one falls back to the resource's default; the granted lifetime never
  exceeds the resource's maximum, and a lease without expiry is granted only by a resource
  whose expiration is optional.
\<close>

theorem acquire_respects_ttl_policy:
  assumes "acquire_lease sha cx app_now lid rq key pid adm d = Inr (resp, d')"
    and "\<not> (\<exists>l \<in> set (db_leases d). l_acquired_by l = pid \<and> l_idempotency_key l = key)"
  shows "\<exists>c l ttl. c \<in> set (db_resources d) \<and> db_leases d' = db_leases d @ [l] \<and>
    l_resource_id l = r_id c \<and> l_acquired_by l = pid \<and> l_acquired_at l = app_now \<and>
    l_expires_at l = map_option (\<lambda>n. app_now + n * 1000000) ttl \<and>
    ttl = (case lc_ttl rq of Some t \<Rightarrow> t | None \<Rightarrow> r_default_ttl c) \<and>
    (case ttl of None \<Rightarrow> r_expiration_mode c = Optional
       | Some n \<Rightarrow> (case r_max_ttl c of None \<Rightarrow> True | Some mx \<Rightarrow> n \<le> mx))"
  using assms(1)
proof (cases rule: acquire_lease_cases)
  case (replayed l)
  then show ?thesis using assms(2) by (auto simp: filter_eq_Cons_iff)
next
  case (created c)
  obtain ttl where ttl: "resolve_ttl c (supplied_ttl (lc_ttl rq)) (lc_ttl rq \<noteq> None) = Inr ttl"
    and l: "db_leases d' = db_leases d @ [new_lease lid (r_id c) pid rq app_now ttl key (request_hash sha rq)]"
    using created(3) by (rule create_lease_tables) blast
  have "(case ttl of None \<Rightarrow> r_expiration_mode c = Optional
       | Some n \<Rightarrow> (case r_max_ttl c of None \<Rightarrow> True | Some mx \<Rightarrow> n \<le> mx))"
    using conjunct2 [OF ttl [unfolded resolve_ttl_Inr]]
    by (cases "r_expiration_mode c"; cases ttl; cases "r_max_ttl c") (auto simp: ttl_within_def)
  moreover have "ttl = (case lc_ttl rq of Some t \<Rightarrow> t | None \<Rightarrow> r_default_ttl c)"
    using ttl by (auto simp: resolve_ttl_Inr supplied_ttl_def split: option.splits)
  ultimately show ?thesis
    using l select_candidateD(1) [OF created(2)]
    by (intro exI [of _ c] exI [of _ ttl]
        exI [of _ "new_lease lid (r_id c) pid rq app_now ttl key (request_hash sha rq)"])
      (simp add: new_lease_def expiry_def)
qed

subsection \<open>Idempotency keys\<close>

lemma acquire_with_used_key:
  assumes "db_ok d" and "l \<in> set (db_leases d)"
  shows "acquire_lease sha cx app_now lid rq (l_idempotency_key l) (l_acquired_by l) adm d =
    (if l_request_hash l \<noteq> request_hash sha rq
     then Inl (http 409 ''Idempotency key was used for another request'')
     else bindE (lease_from_row cx l d) (\<lambda>resp. Inr (resp, d)))"
proof -
  have "unique_on (\<lambda>l. (l_acquired_by l, l_idempotency_key l)) (db_leases d)"
    using assms(1) by (simp add: db_ok_def leases_valid_def)
  then have "filter (\<lambda>x. l_acquired_by x = l_acquired_by l \<and> l_idempotency_key x = l_idempotency_key l)
      (db_leases d) = [l]"
    using assms(2) by (rule unique_on_filter_single) auto
  then show ?thesis by (simp add: acquire_lease_def)
qed

lemma acquired_row:
  assumes "acquire_lease sha cx app_now lid rq key pid adm d = Inr (resp, d')" and "db_ok d"
  shows "\<exists>l \<in> set (db_leases d'). l_acquired_by l = pid \<and> l_idempotency_key l = key \<and>
    l_request_hash l = request_hash sha rq \<and> l_id l = lr_id resp \<and>
    l_resource_id l = rr_id (lr_resource resp) \<and> db_ok d'"
  using assms(1)
proof (cases rule: acquire_lease_cases)
  case (replayed l)
  have l: "l \<in> set (db_leases d)" "l_acquired_by l = pid" "l_idempotency_key l = key"
    using filter_singleD [OF replayed(1)] by blast+
  with lease_from_row_succeeds [OF assms(2) l(1), of cx] replayed assms(2) show ?thesis
    by (intro bexI [of _ l]) (auto simp: project_lease_def)
next
  case (created c)
  obtain ttl where "db_leases d' = db_leases d @
        [new_lease lid (r_id c) pid rq app_now ttl key (request_hash sha rq)]"
    "lr_id resp = lid" "rr_id (lr_resource resp) = r_id c" "db_ok d'"
    using created(3) by (rule create_lease_tables) (use assms(2) in blast)
  then show ?thesis by (simp add: new_lease_def)
qed

text \<open>
  C18: Retrying an acquisition is safe: repeating the request with the same key and principal,
  at any later time and under any fresh identifier, changes nothing and answers with the
  lease and the resource of the first answer.
\<close>

theorem acquire_replay:
  assumes "acquire_lease sha cx app_now lid rq key pid adm d = Inr (resp, d')" and "db_ok d"
  shows "\<exists>resp2. acquire_lease sha cx2 app_now2 lid2 rq key pid adm2 d' = Inr (resp2, d') \<and>
    lr_id resp2 = lr_id resp \<and> rr_id (lr_resource resp2) = rr_id (lr_resource resp)"
proof -
  obtain l where l: "l \<in> set (db_leases d')" "l_acquired_by l = pid" "l_idempotency_key l = key"
    "l_request_hash l = request_hash sha rq" "l_id l = lr_id resp"
    "l_resource_id l = rr_id (lr_resource resp)" and ok: "db_ok d'"
    using acquired_row [OF assms] by blast
  show ?thesis
    using acquire_with_used_key [OF ok l(1), of sha cx2 app_now2 lid2 rq adm2]
      lease_from_row_succeeds [OF ok l(1), of cx2] l
    by (auto simp: project_lease_def)
qed

text \<open>
  An idempotency key stands for one request: once a principal has used it, a request with
  another digest is refused with 409 and changes nothing, whatever became of the lease; keys
  of other principals do not interfere.
\<close>

theorem acquire_key_conflict:
  assumes "acquire_lease sha cx app_now lid rq key pid adm d = Inr (resp, d')" and "db_ok d"
    and "request_hash sha rq2 \<noteq> request_hash sha rq"
  shows "acquire_lease sha cx2 app_now2 lid2 rq2 key pid adm2 d' =
    Inl (http 409 ''Idempotency key was used for another request'')"
proof -
  obtain l where l: "l \<in> set (db_leases d')" "l_acquired_by l = pid" "l_idempotency_key l = key"
    "l_request_hash l = request_hash sha rq" and ok: "db_ok d'"
    using acquired_row [OF assms(1,2)] by blast
  show ?thesis
    using acquire_with_used_key [OF ok l(1), of sha cx2 app_now2 lid2 rq2 adm2] l assms(3) by simp
qed

end
