(* ===== verification/Leasing_Lifecycle.thy ===== *)
theory Leasing_Lifecycle
  imports Leasing_Acquire
begin

text \<open>
  Properties of the later life of a lease: renewal, release, revocation, reads and the
  expiration of due leases.
\<close>

subsection \<open>Tables after the operations\<close>

lemma renew_lease_tables:
  assumes "renew_lease cx checked_at app_now lid t pid d = Inr (resp, d')"
  obtains l r ttl where "filter (\<lambda>x. l_id x = lid \<and> l_acquired_by x = pid) (db_leases d) = [l]"
    "l_ended_at l = None" "case l_expires_at l of None \<Rightarrow> True | Some e \<Rightarrow> e > checked_at"
    "filter (\<lambda>r. r_id r = l_resource_id l) (db_resources d) = [r]"
    "resolve_ttl r (supplied_ttl t) (t \<noteq> None) = Inr ttl"
    "db_leases d' = update_where (\<lambda>x. l_id x = lid)
       (\<lambda>x. x\<lparr>l_expires_at := expiry app_now ttl, l_last_renewed_at := Some app_now\<rparr>) (db_leases d)"
    "db_resources d' = db_resources d"
    "fetch_lease cx lid pid False d' = Inr resp" "db_ok d \<Longrightarrow> db_ok d' \<and> extends d d'"
  using assms
proof (cases rule: renew_lease_cases)
  case (1 l r ttl d1)
  have ok: "db_ok d' \<and> extends d d'" if "db_ok d"
    using update_leases_ok [OF 1(6) that] record_audit_event_ok [OF 1(7)] extends_trans [of d d1 d']
    by blast
  from 1 update_leasesD(1) [OF 1(6)] frame(7,11) [OF 1(7)] ok show thesis
    by (intro that [of l r ttl]) (simp_all add: lock_lease_Inr)
qed

lemma end_lease_tables:
  assumes "end_lease cx lid pid reason d = Inr (resp, d')"
  obtains l where
    "filter (\<lambda>x. l_id x = lid \<and> (reason = Released \<longrightarrow> l_acquired_by x = pid)) (db_leases d) = [l]"
    "db_leases d' = (if l_ended_at l = None
       then update_where (\<lambda>x. l_id x = lid)
         (\<lambda>x. x\<lparr>l_ended_at := Some (cx_now cx), l_end_reason := Some reason\<rparr>) (db_leases d)
       else db_leases d)"
    "l_ended_at l \<noteq> None \<longrightarrow> d' = d" "db_resources d' = db_resources d"
    "fetch_lease cx lid pid (reason = Revoked) d' = Inr resp" "db_ok d \<Longrightarrow> db_ok d' \<and> extends d d'"
  using assms
proof (cases rule: end_lease_cases)
  case (already l)
  moreover obtain e where "l_ended_at l = Some e" using already(2) by blast
  ultimately show thesis by (intro that [of l]) (simp_all add: lock_lease_Inr)
next
  case (ended l d1)
  have ok: "db_ok d' \<and> extends d d'" if "db_ok d"
    using update_leases_ok [OF ended(3) that] record_audit_event_ok [OF ended(4)]
      extends_trans [of d d1 d'] by blast
  from ended update_leasesD(1) [OF ended(3)] frame(7,11) [OF ended(4)] ok show thesis
    by (intro that [of l]) (simp_all add: lock_lease_Inr)
qed

subsection \<open>Renewal\<close>

lemma active_count_update_le:
  assumes "db_leases d' = update_where p f (db_leases d)"
    and "\<And>l. l_resource_id (f l) = l_resource_id l"
    and "\<And>l. l \<in> set (db_leases d) \<Longrightarrow> p l \<Longrightarrow> active_lease t (f l) \<Longrightarrow> active_lease t l"
  shows "active_count t d' rid \<le> active_count t d rid"
  unfolding active_count_def active_leases_def assms(1)
  by (rule length_filter_update_where_le) (use assms(2,3) in auto)

lemma exclusive_ok_count_le:
  assumes "db_resources d' = db_resources d" and "exclusive_ok t d"
    and "\<And>rid. active_count t d' rid \<le> active_count t d rid"
  shows "exclusive_ok t d'"
  using assms by (auto simp: exclusive_ok_def list_all_iff intro: order_trans)

lemma exclusive_ok_renewed:
  assumes "renew_lease cx checked_at app_now lid t pid d = Inr (resp, d')"
    and "db_ok d" and "exclusive_ok (cx_now cx) d" and "cx_now cx \<le> checked_at"
  shows "exclusive_ok (cx_now cx) d'"
  using assms(1)
proof (cases rule: renew_lease_tables)
  case (1 l r ttl)
  note l = filter_singleD(1,2) [OF 1(1)]
  have act: "active_lease (cx_now cx) l"
    using 1(2,3) assms(4) by (auto simp: active_lease_def split: option.splits)
  have "active_lease (cx_now cx) x" if "x \<in> set (db_leases d)" "l_id x = lid" for x
    using lease_id_inj [OF assms(2) that(1) l(1)] that(2) l(2) act by simp
  then show ?thesis
    by (intro exclusive_ok_count_le [OF 1(7) assms(3)] active_count_update_le [OF 1(6)]) simp_all
qed

text \<open>
  Renewal never double-books an exclusive resource, provided the application's clock, when
  renewal checks the expiry, is not behind the transaction's timestamp.
\<close>

theorem renew_keeps_exclusivity:
  assumes "renew_lease cx checked_at app_now lid t pid d = Inr (resp, d')"
    and "db_ok d" and "exclusive_ok (cx_now cx) d" and "cx_now cx \<le> checked_at"
  shows "exclusive_ok (cx_now cx) d'"
  using assms by (rule exclusive_ok_renewed)

text \<open>
  C19: What a renewal does: only the holder of a live lease can renew it, the new expiry is
  counted from the application's time by the resource's TTL policy, every other column of the
  lease and every other row of the table is as it was.
\<close>

theorem renew_effect:
  assumes "renew_lease cx checked_at app_now lid t pid d = Inr (resp, d')" and "db_ok d"
  shows "\<exists>l ttl. l \<in> set (db_leases d) \<and> l_id l = lid \<and> l_acquired_by l = pid \<and>
    l_ended_at l = None \<and> (\<forall>e. l_expires_at l = Some e \<longrightarrow> checked_at < e) \<and>
    (\<exists>r \<in> set (db_resources d). r_id r = l_resource_id l \<and>
       resolve_ttl r (supplied_ttl t) (t \<noteq> None) = Inr ttl) \<and>
    db_leases d' = map (\<lambda>x. if x = l then l\<lparr>l_expires_at := map_option (\<lambda>n. app_now + n * 1000000) ttl,
       l_last_renewed_at := Some app_now\<rparr> else x) (db_leases d)"
  using assms(1)
proof (cases rule: renew_lease_tables)
  case (1 l r ttl)
  note l = filter_singleD(1,2) [OF 1(1)]
  have "l_id x = lid \<longleftrightarrow> x = l" if "x \<in> set (db_leases d)" for x
    using lease_id_inj [OF assms(2) that l(1)] l(2) by auto
  then have "db_leases d' = map (\<lambda>x. if x = l then l\<lparr>l_expires_at := map_option (\<lambda>n. app_now + n * 1000000) ttl,
       l_last_renewed_at := Some app_now\<rparr> else x) (db_leases d)"
    unfolding 1(6) update_where_def expiry_def by (intro map_cong) auto
  moreover have "\<forall>e. l_expires_at l = Some e \<longrightarrow> checked_at < e"
    using 1(3) by auto
  moreover note filter_singleD(1,2) [OF 1(4)]
  ultimately show ?thesis using l 1(2,5) by (intro exI [of _ l] exI [of _ ttl]) auto
qed

text \<open>
  A lease that has ended, or whose expiry the application's clock has reached, cannot be
  renewed: the answer is 409, so an expired lease never comes back to life.
\<close>

theorem renew_refuses_dead_lease:
  assumes "db_ok d" and "l \<in> set (db_leases d)"
    and "l_ended_at l \<noteq> None \<or> due_lease checked_at l"
  shows "renew_lease cx checked_at app_now (l_id l) t (l_acquired_by l) d =
    Inl (http 409 ''Only an active lease can be renewed'')"
proof -
  have "filter (\<lambda>x. l_id x = l_id l \<and> l_acquired_by x = l_acquired_by l) (db_leases d) = [l]"
    using leases_unique [OF assms(1)] assms(2) by (rule unique_on_filter_single) auto
  then have "lock_lease_for_change (l_id l) (l_acquired_by l) True d = Inr l"
    by (simp add: lock_lease_Inr)
  then show ?thesis
    using assms(3) by (auto simp: renew_lease_def due_lease_def split: option.splits)
qed

subsection \<open>Release and revocation\<close>

lemma fetch_lease_Inr:
  "fetch_lease cx lid pid adm d = Inr resp \<longleftrightarrow>
     (\<exists>l. filter (\<lambda>l. l_id l = lid \<and> authorized_lease pid adm l) (db_leases d) = [l] \<and>
          lease_from_row cx l d = Inr resp)"
  by (auto simp: fetch_lease_def bindE_eq_Inr split: option.splits)

lemma end_lease_missing:
  assumes "db_ok d" and "l \<in> set (db_leases d)" and "l_acquired_by l \<noteq> pid"
  shows "end_lease cx (l_id l) pid Released d = Inl (http 404 ''Lease not found'')"
proof -
  have "x = l" if "x \<in> set (db_leases d)" "l_id x = l_id l" for x
    using lease_id_inj [OF assms(1) that(1) assms(2) that(2)] .
  then have "filter (\<lambda>x. l_id x = l_id l \<and> (Released = Released \<longrightarrow> l_acquired_by x = pid)) (db_leases d) = []"
    using assms(3) by (auto simp: filter_empty_conv)
  then have "lock_lease_for_change (l_id l) pid (Released = Released) d = Inl (http 404 ''Lease not found'')"
    unfolding lock_lease_for_change_def by (simp add: found_or_def)
  then show ?thesis by (simp add: end_lease_def)
qed

text \<open>An ended lease answers every later call that may lock it with what is stored.\<close>

lemma end_lease_again:
  assumes "db_ok d" and "l \<in> set (db_leases d)" and "l_ended_at l \<noteq> None"
    and may: "reason = Revoked \<or> l_acquired_by l = pid"
  shows "\<exists>resp. end_lease cx (l_id l) pid reason d = Inr (resp, d) \<and>
    lr_ended_at resp = l_ended_at l \<and> lr_end_reason resp = l_end_reason l"
proof -
  note one = unique_on_filter_single [OF leases_unique [OF assms(1)] assms(2)]
  have lock: "lock_lease_for_change (l_id l) pid (reason = Released) d = Inr l"
    unfolding lock_lease_Inr by (rule one) (use may in auto)
  have "filter (\<lambda>x. l_id x = l_id l \<and> authorized_lease pid (reason = Revoked) x) (db_leases d) = [l]"
    by (rule one) (use may in \<open>auto simp: authorized_lease_def\<close>)
  moreover obtain res where "lease_from_row cx l d = Inr (project_lease (cx_now cx) res l)"
    using lease_from_row_succeeds [OF assms(1,2)] by blast
  ultimately have "fetch_lease cx (l_id l) pid (reason = Revoked) d = Inr (project_lease (cx_now cx) res l)"
    by (simp add: fetch_lease_def)
  then have "end_lease cx (l_id l) pid reason d = Inr (project_lease (cx_now cx) res l, d)"
    using lock assms(3) by (elim not_None_eq [THEN iffD1, THEN exE]) (simp add: end_lease_def)
  then show ?thesis by (simp add: project_lease_def)
qed

text \<open>What the first call stores and answers.\<close>

lemma end_lease_stored:
  assumes "end_lease cx lid pid reason d = Inr (resp, d')" and "db_ok d"
  shows "\<exists>l \<in> set (db_leases d'). db_ok d' \<and> l_id l = lid \<and> l_ended_at l \<noteq> None \<and>
    lr_ended_at resp = l_ended_at l \<and> lr_end_reason resp = l_end_reason l \<and> lr_acquired_by resp = l_acquired_by l \<and>
    (\<forall>x \<in> set (db_leases d). l_id x = lid \<longrightarrow> l_acquired_by x = l_acquired_by l \<and>
       (if l_ended_at x = None then l_ended_at l = Some (cx_now cx) \<and> l_end_reason l = Some reason else l = x))"
  using assms(1)
proof (cases rule: end_lease_tables)
  case (1 l)
  have ok: "db_ok d'" using 1(6) assms(2) by blast
  obtain l' where f: "filter (\<lambda>x. l_id x = lid \<and> authorized_lease pid (reason = Revoked) x)
      (db_leases d') = [l']" and r: "lease_from_row cx l' d' = Inr resp"
    using 1(5) by (auto simp: fetch_lease_Inr)
  note l' = filter_singleD(1,2) [OF f]
  have l: "l \<in> set (db_leases d)" "l_id l = lid" using filter_singleD(1,2) [OF 1(1)] by blast+
  have same: "x = l" if "x \<in> set (db_leases d)" "l_id x = lid" for x
    using lease_id_inj [OF assms(2) that(1) l(1)] that(2) l(2) by simp
  have new: "if l_ended_at l = None then l_ended_at l' = Some (cx_now cx) \<and> l_end_reason l' = Some reason \<and>
      l_acquired_by l' = l_acquired_by l else l' = l"
  proof (cases "l_ended_at l = None")
    case True
    have "l' \<in> set (update_where (\<lambda>x. l_id x = lid)
        (\<lambda>x. x\<lparr>l_ended_at := Some (cx_now cx), l_end_reason := Some reason\<rparr>) (db_leases d))"
      using l'(1) unfolding 1(2) if_P [OF True] .
    then show ?thesis
    proof (cases rule: update_where_memE)
      case (changed x)
      with same True show ?thesis by auto
    qed (use l'(2) in auto)
  next
    case False
    then have "d' = d" using 1(3) by blast
    with False show ?thesis using same l' by simp
  qed
  have "lr_ended_at resp = l_ended_at l'" "lr_end_reason resp = l_end_reason l'" "lr_acquired_by resp = l_acquired_by l'"
    using r by (auto simp: lease_from_row_def bindE_eq_Inr project_lease_def)
  with ok l' new same show ?thesis by (intro bexI [of _ l']) (auto split: if_splits)
qed

text \<open>
  C20: Ending a lease is idempotent and final. The call that ends a lease gives it its own time and its own
  reason. Whatever ended it, any later revocation, and any later release by its holder, at whatever time, succeeds,
  answers with that first time and reason and changes nothing; a release by anyone else is refused as
  a lease not found.
\<close>

theorem end_lease_idempotent:
  assumes "end_lease cx lid pid reason d = Inr (resp, d')" and "db_ok d"
  shows "(\<forall>l \<in> set (db_leases d). l_id l = lid \<and> l_ended_at l = None \<longrightarrow>
      lr_ended_at resp = Some (cx_now cx) \<and> lr_end_reason resp = Some reason) \<and>
    (if reason2 = Revoked \<or> pid2 = lr_acquired_by resp
     then \<exists>resp2. end_lease cx2 lid pid2 reason2 d' = Inr (resp2, d') \<and> lr_ended_at resp \<noteq> None \<and>
       lr_ended_at resp2 = lr_ended_at resp \<and> lr_end_reason resp2 = lr_end_reason resp
     else reason2 = Released \<longrightarrow> end_lease cx2 lid pid2 reason2 d' = Inl (http 404 ''Lease not found''))"
proof -
  obtain l where l: "l \<in> set (db_leases d')" "db_ok d'" "l_id l = lid" "l_ended_at l \<noteq> None"
      "lr_ended_at resp = l_ended_at l" "lr_end_reason resp = l_end_reason l" "lr_acquired_by resp = l_acquired_by l"
      "\<forall>x \<in> set (db_leases d). l_id x = lid \<longrightarrow> l_acquired_by x = l_acquired_by l \<and>
         (if l_ended_at x = None then l_ended_at l = Some (cx_now cx) \<and> l_end_reason l = Some reason else l = x)"
    using end_lease_stored [OF assms] by blast
  then show ?thesis
    using end_lease_again [OF l(2,1,4), of reason2 pid2 cx2] end_lease_missing [OF l(2,1), of pid2 cx2] by auto
qed

text \<open>
  Releasing frees the resource at once: after a successful release or revocation the lease is
  not active at any time, and the resource has exactly one active lease less when it was.
\<close>

theorem end_lease_frees_resource:
  assumes "end_lease cx lid pid reason d = Inr (resp, d')" and "db_ok d"
    and "l \<in> set (db_leases d)" and "l_id l = lid"
  shows "active_count t d (l_resource_id l) =
    active_count t d' (l_resource_id l) + (if active_lease t l then 1 else 0)"
  using assms(1)
proof (cases rule: end_lease_tables)
  case (1 l')
  note l' = filter_singleD(1,2) [OF 1(1)]
  then have eq: "l' = l" using lease_id_inj [OF assms(2) l'(1) assms(3)] assms(4) by simp
  show ?thesis
  proof (cases "l_ended_at l = None")
    case True
    have "db_leases d' = update_where (\<lambda>x. l_id x = lid)
         (\<lambda>x. x\<lparr>l_ended_at := Some (cx_now cx), l_end_reason := Some reason\<rparr>) (db_leases d)"
      using 1(2) eq True by simp
    moreover have "distinct (db_leases d)"
      using leases_unique [OF assms(2)] by (simp add: unique_on_def distinct_map)
    moreover have "l_id x = lid \<longleftrightarrow> x = l" if "x \<in> set (db_leases d)" for x
      using lease_id_inj [OF assms(2) that assms(3)] assms(4) by auto
    ultimately show ?thesis
      unfolding active_count_def active_leases_def
      using length_filter_update_single [of "db_leases d" l "\<lambda>x. l_id x = lid"
          "\<lambda>x. l_resource_id x = l_resource_id l \<and> active_lease t x"
          "\<lambda>x. x\<lparr>l_ended_at := Some (cx_now cx), l_end_reason := Some reason\<rparr>"] assms(3)
      by (simp add: active_lease_def)
  next
    case False
    then show ?thesis using 1(3) eq by (auto simp: active_lease_def)
  qed
qed

end
