(* ===== verification/Leasing_Expiry.thy ===== *)
theory Leasing_Expiry
  imports Leasing_Lifecycle
begin

text \<open>
  The expiration worker (\<open>leasing/worker.py\<close>) and what a batch of \<open>expire_due_leases\<close>
  and a run of the worker achieve, and the confidentiality of the lease reads.
\<close>

subsection \<open>The worker loop\<close>

datatype worker_event =
    MetricsSuccess nat
  | MetricsFailure
  | LogExpired nat
  | Sleep
  | WorkerRaised exc

text \<open>
  One iteration per transaction context: expire a batch, publish the metrics, log and go round
  again at once after a non-empty batch, sleep after an empty one. A failed transaction is rolled
  back, reported and raised again, which stops the loop. \<open>publish_worker_metrics\<close> logs an \<open>OSError\<close> and
  returns; any other exception of it (the second component of the iteration; \<open>publish_event\<close> of \<open>Metrics\<close>
  says when) stops the loop too, in place of the error being reported if there is one.
\<close>

type_synonym iteration = "ctx \<times> exc option"

fun run_worker :: "int \<Rightarrow> iteration list \<Rightarrow> db \<Rightarrow> worker_event list \<times> db" where
  "run_worker batch_size [] d = ([], d)"
| "run_worker batch_size ((cx, escaped) # its) d =
     (case expire_due_leases cx batch_size d of
        Inl e \<Rightarrow> ([MetricsFailure, WorkerRaised (case escaped of None \<Rightarrow> e | Some e' \<Rightarrow> e')], d)
      | Inr (expired, d') \<Rightarrow>
          (case escaped of
             Some e \<Rightarrow> ([MetricsSuccess expired, WorkerRaised e], d')
           | None \<Rightarrow>
               let (evs, d'') = run_worker batch_size its d' in
               (MetricsSuccess expired # (if expired \<noteq> 0 then LogExpired expired else Sleep) # evs, d'')))"

definition published :: "iteration list \<Rightarrow> bool" where
  "published its \<longleftrightarrow> list_all (\<lambda>it. snd it = None) its"

subsection \<open>One batch\<close>

lemma lease_check_expire_row: "lease_check l \<Longrightarrow> due_lease t l \<Longrightarrow> lease_check (expire_row l)"
  by (auto simp: lease_check_def expire_row_def due_lease_def split: option.splits)

lemma expire_row_simps [simp]:
  "l_id (expire_row l) = l_id l" "l_resource_id (expire_row l) = l_resource_id l"
  "l_acquired_by (expire_row l) = l_acquired_by l"
  "l_idempotency_key (expire_row l) = l_idempotency_key l"
  by (simp_all add: expire_row_def)

lemma expire_one_succeeds:
  assumes "db_ok d" and "\<And>x. p x \<Longrightarrow> due_lease t x"
  shows "update_leases p expire_row d = Inr (d\<lparr>db_leases := update_where p expire_row (db_leases d)\<rparr>)"
proof -
  have v: "leases_valid d (db_leases d)" using assms(1) by (simp add: db_ok_def)
  have "list_all (\<lambda>l. lease_check l \<and> resource_exists d (l_resource_id l) \<and>
      principal_exists d (l_acquired_by l)) (update_where p expire_row (db_leases d))"
    using v assms(2) lease_check_expire_row
    by (intro list_all_update_where) (auto simp: leases_valid_def)
  with v show ?thesis
    by (simp add: update_leases_def write_leases_def leases_valid_def unique_on_update_where)
qed

definition expired_event :: "ctx \<Rightarrow> uuid \<Rightarrow> audit_event" where
  "expired_event cx lid = \<lparr>a_actor_id = None, a_action = ''lease.expired'', a_subject_type = ''Lease'',
     a_subject_id = uuid_str lid, a_correlation_id = cx_correlation cx, a_metadata = [],
     a_created_at = cx_now cx\<rparr>"

lemma expire_ids_Cons:
  assumes "db_ok d" and "l \<in> set (db_leases d)" and "due_lease (cx_now cx) l"
  defines "d' \<equiv> d\<lparr>db_leases := update_where (\<lambda>x. l_id x = l_id l \<and> due_lease (cx_now cx) x) expire_row
      (db_leases d), db_audit := db_audit d @ [expired_event cx (l_id l)]\<rparr>"
  shows "expire_ids cx (l_id l # rest) n d = expire_ids cx rest (Suc n) d'" and "db_ok d'"
proof -
  let ?p = "\<lambda>x. l_id x = l_id l \<and> due_lease (cx_now cx) x"
  have up: "update_leases ?p expire_row d = Inr (d\<lparr>db_leases := update_where ?p expire_row (db_leases d)\<rparr>)"
    using assms(1) by (rule expire_one_succeeds) blast
  let ?d1 = "d\<lparr>db_leases := update_where ?p expire_row (db_leases d)\<rparr>"
  have ok1: "db_ok ?d1" using update_leases_ok [OF up assms(1)] by simp
  then have ev: "record_audit_event cx None ''lease.expired'' ''Lease'' (l_id l) [] ?d1 = Inr d'"
    using record_audit_event_succeeds [of ?d1 None "[]"] by (simp add: db_ok_def d'_def expired_event_def)
  have "filter ?p (db_leases d) \<noteq> []" using assms(2,3) by (auto simp: filter_empty_conv)
  with lease_by_id [OF assms(1,2)] up ev
  show "expire_ids cx (l_id l # rest) n d = expire_ids cx rest (Suc n) d'" by simp
  show "db_ok d'" using record_audit_event_ok [OF ev ok1] by simp
qed

lemma expire_ids_run:
  assumes "db_ok d" and "distinct (map l_id ls)" and "set ls \<subseteq> set (filter (due_lease (cx_now cx)) (db_leases d))"
  shows "\<exists>d'. expire_ids cx (map l_id ls) n d = Inr (n + length ls, d') \<and> db_ok d' \<and>
    d' = d\<lparr>db_leases := update_where (\<lambda>x. l_id x \<in> l_id ` set ls) expire_row (db_leases d),
          db_audit := db_audit d @ map (expired_event cx) (map l_id ls)\<rparr>"
  using assms
proof (induction ls arbitrary: n d)
  case Nil
  then show ?case by (simp add: update_where_none)
next
  case (Cons l ls)
  let ?now = "cx_now cx"
  let ?p = "\<lambda>x. l_id x = l_id l \<and> due_lease ?now x"
  let ?d1 = "d\<lparr>db_leases := update_where ?p expire_row (db_leases d),
      db_audit := db_audit d @ [expired_event cx (l_id l)]\<rparr>"
  have l: "l \<in> set (db_leases d)" "due_lease ?now l" using Cons.prems(3) by auto
  note step = expire_ids_Cons [OF Cons.prems(1) l]
  have p: "?p x \<longleftrightarrow> l_id x = l_id l" if "x \<in> set (db_leases d)" for x
    using lease_id_inj [OF Cons.prems(1) that l(1)] l(2) by auto
  have "l_id l \<notin> l_id ` set ls" using Cons.prems(2) by simp
  then have other: "l_id x \<noteq> l_id l" if "x \<in> set ls" for x using that by (metis imageI)
  have rest: "set ls \<subseteq> set (filter (due_lease ?now) (db_leases ?d1))"
    using Cons.prems(3) other by (auto simp: set_update_where)
  obtain d' where d': "expire_ids cx (map l_id ls) (Suc n) ?d1 = Inr (Suc n + length ls, d')" "db_ok d'"
    "d' = ?d1\<lparr>db_leases := update_where (\<lambda>x. l_id x \<in> l_id ` set ls) expire_row (db_leases ?d1),
        db_audit := db_audit ?d1 @ map (expired_event cx) (map l_id ls)\<rparr>"
    using Cons.IH [OF step(2) _ rest, of "Suc n"] Cons.prems(2) by auto
  have "update_where (\<lambda>x. l_id x \<in> l_id ` set ls) expire_row (update_where ?p expire_row (db_leases d)) =
      update_where (\<lambda>x. l_id x \<in> l_id ` set (l # ls)) expire_row (db_leases d)"
    using Cons.prems(2) p by (auto simp: update_where_def)
  with d' step(1) show ?case by (intro exI [of _ d']) simp
qed

lemma due_ids_rows:
  "due_ids t b d = map l_id (take (nat b) (sort_key (\<lambda>l. (l_expires_at l, l_id l))
     (filter (due_lease t) (db_leases d))))"
  by (simp add: due_ids_def)

definition due_rows :: "instant \<Rightarrow> int \<Rightarrow> db \<Rightarrow> lease list" where
  "due_rows t b d = take (nat b) (sort_key (\<lambda>l. (l_expires_at l, l_id l)) (filter (due_lease t) (db_leases d)))"

lemma due_rows_facts:
  assumes "db_ok d"
  shows "set (due_rows t b d) \<subseteq> set (filter (due_lease t) (db_leases d))"
    and "distinct (map l_id (due_rows t b d))"
    and "length (due_rows t b d) = min (nat b) (length (filter (due_lease t) (db_leases d)))"
proof -
  let ?s = "sort_key (\<lambda>l. (l_expires_at l, l_id l)) (filter (due_lease t) (db_leases d))"
  show "set (due_rows t b d) \<subseteq> set (filter (due_lease t) (db_leases d))"
    using set_take_subset [of "nat b" ?s] by (simp add: due_rows_def)
  have "distinct (map l_id (filter (due_lease t) (db_leases d)))"
    using leases_unique [OF assms] by (simp add: unique_on_def distinct_map_filter)
  then have "distinct (map l_id ?s)" by (simp add: distinct_map)
  then show "distinct (map l_id (due_rows t b d))"
    unfolding due_rows_def take_map [symmetric] by (rule distinct_take)
  show "length (due_rows t b d) = min (nat b) (length (filter (due_lease t) (db_leases d)))"
    by (simp add: due_rows_def min.commute)
qed

lemma expire_due_leases_run:
  assumes "db_ok d" and "ls = due_rows (cx_now cx) b d"
  shows "\<exists>d'. expire_due_leases cx b d = Inr (length ls, d') \<and> db_ok d' \<and>
    d' = d\<lparr>db_leases := update_where (\<lambda>x. l_id x \<in> l_id ` set ls) expire_row (db_leases d),
          db_audit := db_audit d @ map (expired_event cx) (map l_id ls)\<rparr>"
  using expire_ids_run [OF assms(1) due_rows_facts(2,1) [OF assms(1)], of cx b 0]
  by (simp add: expire_due_leases_def due_ids_rows assms(2) due_rows_def)

text \<open>
  One batch of the expiration worker cannot fail. It ends exactly the first due leases by
  expiry time, at most the batch size of them, each with reason Expired and with its expiry as
  its end time however late the worker ran; no other row of any table changes, and the
  audit trail gains one event per expired lease.
\<close>

theorem expire_batch_effect:
  assumes "db_ok d"
    and due: "due = filter (due_lease (cx_now cx)) (db_leases d)"
    and ids: "ids = due_ids (cx_now cx) batch_size d"
  shows "expire_due_leases cx batch_size d = Inr (min (nat batch_size) (length due),
     d\<lparr>db_leases := map (\<lambda>l. if l_id l \<in> set ids
                             then l\<lparr>l_ended_at := l_expires_at l, l_end_reason := Some Expired\<rparr> else l)
                    (db_leases d),
       db_audit := db_audit d @ map (\<lambda>i. \<lparr>a_actor_id = None, a_action = ''lease.expired'',
         a_subject_type = ''Lease'', a_subject_id = uuid_str i,
         a_correlation_id = cx_correlation cx, a_metadata = [], a_created_at = cx_now cx\<rparr>) ids\<rparr>) \<and>
     set ids \<subseteq> l_id ` set due \<and> distinct ids"
proof -
  let ?ls = "due_rows (cx_now cx) batch_size d"
  have rows: "ids = map l_id ?ls" by (simp add: ids due_ids_rows due_rows_def)
  note facts = due_rows_facts [OF assms(1), of "cx_now cx" batch_size]
  show ?thesis
    using expire_due_leases_run [OF assms(1) refl, of cx batch_size] facts
    by (auto simp: rows due update_where_def expire_row_def expired_event_def comp_def)
qed

text \<open>
  A batch keeps the occupancy of every resource: the leases it ends were already inactive,
  so no resource becomes free or busy through the worker, only through time, release and
  revocation.
\<close>

theorem expire_batch_keeps_occupancy:
  assumes "expire_due_leases cx batch_size d = Inr (n, d')" and "db_ok d" and "cx_now cx \<le> t"
  shows "active_leases t d' rid = active_leases t d rid"
proof -
  let ?ls = "due_rows (cx_now cx) batch_size d"
  have d': "db_leases d' = update_where (\<lambda>x. l_id x \<in> l_id ` set ?ls) expire_row (db_leases d)"
    using expire_due_leases_run [OF assms(2) refl, of cx batch_size] assms(1) by auto
  have due: "due_lease (cx_now cx) x" if x: "x \<in> set (db_leases d)" "l_id x \<in> l_id ` set ?ls" for x
  proof -
    obtain y where y: "y \<in> set ?ls" "l_id x = l_id y" using x(2) by blast
    then have "y \<in> set (db_leases d)" "due_lease (cx_now cx) y"
      using due_rows_facts(1) [OF assms(2)] by fastforce+
    with lease_id_inj [OF assms(2) x(1)] y(2) show ?thesis by blast
  qed
  then have "db_leases d' = update_where (\<lambda>x. l_id x \<in> l_id ` set ?ls \<and> due_lease (cx_now cx) x)
      expire_row (db_leases d)"
    unfolding d' update_where_def by (intro map_cong) auto
  then have "filter (active_lease t) (db_leases d') = filter (active_lease t) (db_leases d)"
    using lease_activity.expire_keeps_active [OF assms(3)] by simp
  then have "filter (\<lambda>l. l_resource_id l = rid) (filter (active_lease t) (db_leases d')) =
    filter (\<lambda>l. l_resource_id l = rid) (filter (active_lease t) (db_leases d))" by simp
  then show ?thesis by (simp add: active_leases_def conj_commute)
qed

subsection \<open>Draining the backlog\<close>

text \<open>The elements of a downward closed set come first in a sorted list.\<close>

lemma filter_take_sorted:
  assumes "sorted_wrt r xs" and "\<And>x y. r x y \<Longrightarrow> q y \<Longrightarrow> q x"
  shows "filter q (take n xs) = take n (filter q xs)"
  using assms(1)
proof (induction xs arbitrary: n)
  case (Cons x xs)
  show ?case
  proof (cases "q x")
    case True
    with Cons show ?thesis by (cases n) simp_all
  next
    case False
    then have none: "\<forall>y \<in> set (x # xs). \<not> q y" using Cons.prems assms(2) by auto
    then have "filter q (x # xs) = []" by (simp only: filter_empty_conv)
    moreover have "filter q (take n (x # xs)) = []"
      using none by (simp only: filter_empty_conv) (blast dest: in_set_takeD)
    ultimately show ?thesis by simp
  qed
qed simp

lemma perm_length_filter:
  assumes "distinct xs" and "distinct ys" and "set ys \<subseteq> set xs"
  shows "length (filter (\<lambda>x. q x \<and> x \<in> set ys) xs) = length (filter q ys)"
proof -
  have "set (filter (\<lambda>x. q x \<and> x \<in> set ys) xs) = set (filter q ys)" using assms(3) by auto
  then show ?thesis
    using assms(1,2) by (metis distinct_card distinct_filter)
qed

definition due_count :: "instant \<Rightarrow> db \<Rightarrow> nat" where
  "due_count t d = length (filter (due_lease t) (db_leases d))"

lemma due_before:
  "(l_expires_at x, l_id x) \<le> (l_expires_at y, l_id y) \<Longrightarrow> due_lease now x \<Longrightarrow> due_lease t y \<Longrightarrow> due_lease t x"
  by (auto simp: due_lease_def less_eq_option_def split: option.splits)

lemma due_rows_early:
  assumes "t \<le> cx_now cx"
  shows "length (filter (due_lease t) (due_rows (cx_now cx) b d)) = min (nat b) (due_count t d)"
proof -
  let ?key = "\<lambda>l. (l_expires_at l, l_id l)"
  let ?s = "sort_key ?key (filter (due_lease (cx_now cx)) (db_leases d))"
  have "sorted_wrt (\<lambda>x y. ?key x \<le> ?key y) ?s"
    using sorted_sort_key [of ?key "filter (due_lease (cx_now cx)) (db_leases d)"]
    by (simp add: sorted_wrt_map)
  then have "sorted_wrt (\<lambda>x y. ?key x \<le> ?key y \<and> due_lease (cx_now cx) x) ?s"
    by (rule sorted_wrt_mono_rel [rotated]) simp
  then have "filter (due_lease t) (take (nat b) ?s) = take (nat b) (filter (due_lease t) ?s)"
    by (rule filter_take_sorted) (use due_before in blast)
  moreover have "length (filter (due_lease t) ?s) = due_count t d"
  proof -
    have "filter (due_lease t) ?s = sort_key ?key (filter (due_lease t) (filter (due_lease (cx_now cx)) (db_leases d)))"
      by (simp add: filter_sort)
    also have "filter (due_lease t) (filter (due_lease (cx_now cx)) (db_leases d)) = filter (due_lease t) (db_leases d)"
      using lease_activity.due_later assms by (auto intro!: filter_cong)
    finally show ?thesis by (simp add: due_count_def)
  qed
  ultimately show ?thesis by (simp add: due_rows_def min.commute)
qed

lemma batch_reduces_due:
  assumes "db_ok d" and "t \<le> cx_now cx"
  obtains n d' where "expire_due_leases cx b d = Inr (n, d')" "db_ok d'"
    "due_count t d' = due_count t d - nat b"
proof -
  let ?ls = "due_rows (cx_now cx) b d"
  let ?p = "\<lambda>x. l_id x \<in> l_id ` set ?ls"
  obtain d' where d': "expire_due_leases cx b d = Inr (length ?ls, d')" "db_ok d'"
    "db_leases d' = update_where ?p expire_row (db_leases d)"
    using expire_due_leases_run [OF assms(1) refl, of cx b] by auto
  have mem: "?p x \<longleftrightarrow> x \<in> set ?ls" if "x \<in> set (db_leases d)" for x
    using lease_id_inj [OF assms(1) that] due_rows_facts(1) [OF assms(1), of "cx_now cx" b] by auto
  have due: "due_lease (cx_now cx) x" if "x \<in> set ?ls" for x
    using due_rows_facts(1) [OF assms(1), of "cx_now cx" b] that by auto
  have "filter (due_lease t) (db_leases d') = filter (\<lambda>x. due_lease t x \<and> x \<notin> set ?ls) (db_leases d)"
  proof -
    have "filter (due_lease t) (update_where ?p expire_row rows) =
        filter (\<lambda>x. due_lease t x \<and> x \<notin> set ?ls) rows" if "set rows \<subseteq> set (db_leases d)" for rows
      using that
    proof (induction rows)
      case (Cons x rows)
      then have "?p x \<longleftrightarrow> x \<in> set ?ls" using mem by simp
      moreover have "\<not> due_lease t (expire_row x)" if "x \<in> set ?ls"
        using lease_activity.ended_inactive [OF lease_activity.expire_ends [OF due [OF that]]] by blast
      ultimately show ?case using Cons by auto
    qed simp
    then show ?thesis by (simp add: d'(3))
  qed
  then have "due_count t d' + length (filter (\<lambda>x. due_lease t x \<and> x \<in> set ?ls) (db_leases d)) = due_count t d"
    using sum_length_filter_compl [of "\<lambda>x. x \<in> set ?ls" "filter (due_lease t) (db_leases d)"]
    by (simp add: due_count_def conj_commute)
  moreover have "length (filter (\<lambda>x. due_lease t x \<and> x \<in> set ?ls) (db_leases d)) =
      length (filter (due_lease t) ?ls)"
  proof (rule perm_length_filter)
    show "distinct (db_leases d)" using leases_unique [OF assms(1)] by (simp add: unique_on_def distinct_map)
    show "distinct ?ls" using due_rows_facts(2) [OF assms(1), of "cx_now cx" b] by (simp add: distinct_map)
    show "set ?ls \<subseteq> set (db_leases d)" using due_rows_facts(1) [OF assms(1), of "cx_now cx" b] by auto
  qed
  ultimately show thesis using d' due_rows_early [OF assms(2)] by (intro that) auto
qed

text \<open>
  C21: The worker keeps up. Over any run of its batches, one after the other (not interrupted by other
  transactions), no batch fails, so the loop stops only on an exception other than \<open>OSError\<close> of the publication of
  its metrics; and if there is none, then after k iterations whose transactions all start at or after a time T,
  every lease due at T has been ended as soon as k times the batch size reaches the number of leases that were due.
\<close>

theorem worker_drains_backlog:
  assumes "db_ok d" and "\<forall>(cx, escaped) \<in> set its. t \<le> cx_now cx" and "run_worker batch_size its d = (evs, d')"
  shows "db_ok d' \<and> MetricsFailure \<notin> set evs \<and> (\<forall>e. WorkerRaised e \<in> set evs \<longrightarrow> Some e \<in> snd ` set its) \<and>
    (published its \<longrightarrow> due_count t d' = due_count t d - length its * nat batch_size)"
  using assms
proof (induction its arbitrary: d evs d')
  case (Cons it its)
  obtain cx escaped where it: "it = (cx, escaped)" by (cases it)
  with Cons.prems have t: "t \<le> cx_now cx" by simp
  obtain n d1 where d1: "expire_due_leases cx batch_size d = Inr (n, d1)" "db_ok d1"
    "due_count t d1 = due_count t d - nat batch_size"
    using Cons.prems(1) t by (rule batch_reduces_due)
  show ?case
  proof (cases escaped)
    case (Some e)
    with Cons.prems(3) d1 it show ?thesis by (auto simp: published_def)
  next
    case None
    obtain evs1 d2 where run: "run_worker batch_size its d1 = (evs1, d2)" by fastforce
    note rest = Cons.IH [OF d1(2) _ run]
    have "d' = d2" "set evs \<subseteq> {MetricsSuccess n, LogExpired n, Sleep} \<union> set evs1"
      using Cons.prems(3) d1(1) run it None by (auto split: if_splits)
    with rest Cons.prems(2) d1(3) show ?thesis by (auto simp: published_def)
  qed
qed (simp add: published_def)

subsection \<open>Reads\<close>

lemma length_filter_mono:
  "(\<And>x. p x \<Longrightarrow> q x) \<Longrightarrow> length (filter p xs) \<le> length (filter q xs)"
  by (induction xs) (auto simp: le_Suc_eq)

lemma map_rows_mem: "map_rows f xs = Inr ys \<Longrightarrow> y \<in> set ys \<Longrightarrow> \<exists>x \<in> set xs. f x = Inr y"
  by (induction xs arbitrary: ys) (auto simp: bindE_eq_Inr)

lemma map_rows_succeeds:
  "(\<And>x. x \<in> set xs \<Longrightarrow> \<exists>y. f x = Inr y) \<Longrightarrow> \<exists>ys. map_rows f xs = Inr ys \<and> length ys = length xs"
proof (induction xs)
  case (Cons x xs)
  obtain y where "f x = Inr y" using Cons.prems [of x] by auto
  moreover obtain ys where "map_rows f xs = Inr ys" "length ys = length xs" using Cons by auto
  ultimately show ?case by simp
qed simp

text \<open>
  Lease history is confidential: a page of leases never fails; a principal without
  administration rights sees only leases of its own, and the reported total counts no other
  lease; every item shown matches the filters of the query.
\<close>

theorem list_leases_confidential:
  assumes "db_ok d"
  shows "\<exists>pg. list_leases cx q pid administrator d = Inr pg \<and>
    (\<forall>i \<in> set (pr_items pg). \<exists>l \<in> set (db_leases d). lr_id i = l_id l \<and> lr_acquired_by i = l_acquired_by l \<and>
       lease_filters q pid administrator l \<and> (administrator \<or> l_acquired_by l = pid)) \<and>
    pr_total pg \<le> length (filter (\<lambda>l. administrator \<or> l_acquired_by l = pid) (db_leases d)) \<and>
    length (pr_items pg) \<le> nat (lq_limit q)"
proof (cases "case lq_acquired_by q of None \<Rightarrow> False | Some i \<Rightarrow> \<not> administrator \<and> i \<noteq> pid")
  case True
  then show ?thesis by (simp add: list_leases_def)
next
  case False
  let ?f = "filter (lease_filters q pid administrator) (db_leases d)"
  let ?rows = "page (lq_offset q) (lq_limit q) (sort_key (\<lambda>l. (- l_acquired_at l, l_id l)) ?f)"
  have rows: "set ?rows \<subseteq> set ?f" using set_page_subset by fastforce
  have total: "length ?f \<le> length (filter (\<lambda>l. administrator \<or> l_acquired_by l = pid) (db_leases d))"
    by (rule length_filter_mono) (simp add: lease_filters_def authorized_lease_def)
  obtain items where items: "map_rows (\<lambda>l. lease_from_row cx l d) ?rows = Inr items"
    "length items = length ?rows"
    using map_rows_succeeds [of ?rows "\<lambda>l. lease_from_row cx l d"] rows
      lease_from_row_succeeds [OF assms, of _ cx] by fastforce
  have "\<exists>l \<in> set ?f. lease_from_row cx l d = Inr i" if "i \<in> set items" for i
    using map_rows_mem [OF items(1) that] rows by blast
  then have "\<exists>l \<in> set (db_leases d). lr_id i = l_id l \<and> lr_acquired_by i = l_acquired_by l \<and>
       lease_filters q pid administrator l \<and> (administrator \<or> l_acquired_by l = pid)" if "i \<in> set items" for i
    using that by (fastforce simp: lease_from_row_def bindE_eq_Inr project_lease_def lease_filters_def
        authorized_lease_def)
  moreover have "length items \<le> nat (lq_limit q)" using items(2) length_page_le by simp
  ultimately show ?thesis using False items total by (auto simp: list_leases_def Let_def)
qed

text \<open>
  Reading a lease: an existing lease is shown to its holder and to administrators; to anyone
  else the answer is the same 404 as for a lease that does not exist.
\<close>

theorem fetch_lease_authorization:
  assumes "db_ok d"
  shows "(case fetch_lease cx lid pid administrator d of
      Inr resp \<Rightarrow> lr_id resp = lid \<and> (\<exists>l \<in> set (db_leases d). l_id l = lid \<and>
        (administrator \<or> l_acquired_by l = pid) \<and> lr_state resp = state_expression l)
    | Inl e \<Rightarrow> e = http 404 ''Lease not found'' \<and>
        \<not> (\<exists>l \<in> set (db_leases d). l_id l = lid \<and> (administrator \<or> l_acquired_by l = pid)))"
proof -
  let ?p = "\<lambda>l. l_id l = lid \<and> authorized_lease pid administrator l"
  obtain row where row: "one_or_none (filter ?p (db_leases d)) = Inr row"
    using unique_on_one_or_none [OF leases_unique [OF assms], of ?p lid] by blast
  show ?thesis
  proof (cases row)
    case None
    with row show ?thesis by (auto simp: fetch_lease_def authorized_lease_def filter_empty_conv)
  next
    case (Some l)
    with row have f: "filter ?p (db_leases d) = [l]" by simp
    note l = filter_singleD(1,2) [OF f]
    obtain res where "lease_from_row cx l d = Inr (project_lease (cx_now cx) res l)"
      using lease_from_row_succeeds [OF assms l(1)] by blast
    with f l show ?thesis by (auto simp: fetch_lease_def project_lease_def authorized_lease_def)
  qed
qed

end
