(* ===== verification/Service_Api.thy ===== *)
theory Service_Api
  imports Leasing Identity_Api
begin

text \<open>
  The catalog and leasing routes (\<open>catalog/api.py\<close>, \<open>leasing/api.py\<close>): authentication,
  the route's own checks, the transaction, and the translation of constraint violations.
  \<open>sha\<close> digests bearer tokens and requests. Query parameters arrive validated by FastAPI.
\<close>

subsection \<open>Catalog\<close>

definition is_admin :: "authenticated_principal \<Rightarrow> bool" where
  "is_admin current \<longleftrightarrow> p_role (ap_principal current) = Admin"

definition create_resource_route where
  "create_resource_route sha env new_id rq d =
     then_tx (administrator sha env d) (\<lambda>admin d1.
       catch_integrity (http 409 ''Resource name already exists'')
         (run_tx (create_resource (rv_cx env) new_id rq (actor_of admin)) d1))"

text \<open>The \<open>label\<close> parameters are parsed inside the transaction, after the archive check.\<close>

definition list_catalog where
  "list_catalog sha coll env label q d =
     then_tx (authenticated sha env d) (\<lambda>current d1.
       if rq_include_archived q \<and> \<not> is_admin current
       then (Inl (http 403 ''Only administrators can list archived resources''), d1)
       else read_tx (\<lambda>d2. bindE (parse_labels label) (\<lambda>ls.
              Inr (list_resources coll (rv_cx env) (q\<lparr>rq_labels := ls\<rparr>) (actor_of current) (is_admin current) d2)))
            d1)"

definition get_resource_route where
  "get_resource_route sha env rid d =
     then_tx (authenticated sha env d) (\<lambda>current. read_tx (\<lambda>d1.
       if is_admin current then fetch_resource (rv_cx env) rid d1
       else fetch_visible_resource (rv_cx env) rid (actor_of current) d1))"

definition update_catalog where
  "update_catalog sha env rid rq d =
     then_tx (administrator sha env d) (\<lambda>admin d1.
       catch_integrity (http 409 ''Resource name already exists'')
         (run_tx (update_resource (rv_cx env) rid rq (actor_of admin)) d1))"

definition archive_resource_route where
  "archive_resource_route sha env rid d =
     then_tx (administrator sha env d) (\<lambda>admin.
       run_tx (archive_resource (rv_cx env) rid (actor_of admin)))"

definition transition_route where
  "transition_route sha env t rid d =
     then_tx (administrator sha env d) (\<lambda>admin.
       run_tx (transition_resource (rv_cx env) rid t (actor_of admin)))"

definition get_access_route where
  "get_access_route sha env rid d =
     then_tx (administrator sha env d) (\<lambda>_. read_tx (fetch_resource_access (rv_cx env) rid))"

definition grant_route where
  "grant_route sha env target granted rid target_id d =
     then_tx (administrator sha env d) (\<lambda>admin.
       run_tx (set_resource_grant (rv_cx env) rid target_id target granted (actor_of admin)))"

subsection \<open>Leases\<close>

text \<open>The label \<open>record_allocation\<close> counts an acquisition under, whatever way it ended.\<close>

definition allocation_outcome :: "exc + 'a \<Rightarrow> string" where
  "allocation_outcome res =
     (case res of
        Inr _ \<Rightarrow> ''acquired''
      | Inl (HTTPException code detail headers) \<Rightarrow>
          if detail = ''No matching resource is available'' then ''unavailable'' else ''rejected''
      | Inl _ \<Rightarrow> ''error'')"

text \<open>The answer and the database, with the allocation the route records when its body runs.\<close>

definition acquire_route ::
  "(string \<Rightarrow> string) \<Rightarrow> request_env \<Rightarrow> instant \<Rightarrow> uuid \<Rightarrow> lease_create \<Rightarrow> string \<Rightarrow> db \<Rightarrow>
     ((exc + lease_response) \<times> db) \<times> (string \<times> sharing_mode) option" where
  "acquire_route sha env app_now lid rq key d =
     (case authenticated sha env d of
        (Inl e, d1) \<Rightarrow> ((Inl e, d1), None)
      | (Inr current, d1) \<Rightarrow>
          let r = run_tx (acquire_lease sha (rv_cx env) app_now lid rq key (actor_of current) (is_admin current)) d1
          in (r, Some (allocation_outcome (fst r), lc_sharing_mode rq)))"

definition list_leases_route where
  "list_leases_route sha env q d =
     then_tx (authenticated sha env d) (\<lambda>current.
       read_tx (list_leases (rv_cx env) q (actor_of current) (is_admin current)))"

definition get_lease_route where
  "get_lease_route sha env lid d =
     then_tx (authenticated sha env d) (\<lambda>current.
       read_tx (fetch_lease (rv_cx env) lid (actor_of current) (is_admin current)))"

definition renew_route where
  "renew_route sha env checked_at app_now lid ttl d =
     then_tx (authenticated sha env d) (\<lambda>current.
       run_tx (renew_lease (rv_cx env) checked_at app_now lid ttl (actor_of current)))"

definition release_route where
  "release_route sha env lid d =
     then_tx (authenticated sha env d) (\<lambda>current.
       run_tx (end_lease (rv_cx env) lid (actor_of current) Released))"

definition revoke_route where
  "revoke_route sha env lid d =
     then_tx (administrator sha env d) (\<lambda>admin d1.
       if \<not> is_admin admin then (Inl (http 403 ''Administrator permission is required''), d1)
       else run_tx (end_lease (rv_cx env) lid (actor_of admin) Revoked) d1)"

end
