(* ===== verification/Evolution.thy ===== *)
theory Evolution
  imports Identity_Access Secrets_Laws Leasing_Expiry Service_Api
begin

text \<open>
  How one transaction may change the database. \<open>safe\<close> is what every transaction promises:
  constraints hold again, no principal, group or resource disappears, the audit trail only grows,
  a lease keeps its origin and, once ended, everything, and somebody can still administer the
  system. \<open>occupancy\<close> says that no exclusive resource becomes double-booked at any instant.
  \<open>audited\<close> says that a transaction that records no audit event changes nothing but
  token usage and rate-limit counters. The relations compose, so each operation is settled by
  the statements it runs.
\<close>

subsection \<open>The relations\<close>

text \<open>A lease keeps what it was acquired as, and an ended lease keeps every column.\<close>

definition lease_kept :: "lease \<Rightarrow> lease \<Rightarrow> bool" where
  "lease_kept l l' \<longleftrightarrow>
     l_id l' = l_id l \<and> l_resource_id l' = l_resource_id l \<and> l_acquired_by l' = l_acquired_by l \<and>
     l_consumer l' = l_consumer l \<and> l_acquired_at l' = l_acquired_at l \<and>
     l_idempotency_key l' = l_idempotency_key l \<and> l_request_hash l' = l_request_hash l \<and>
     l_metadata l' = l_metadata l \<and> (l_ended_at l \<noteq> None \<longrightarrow> l' = l)"

definition lease_history :: "db \<Rightarrow> db \<Rightarrow> bool" where
  "lease_history d d' \<longleftrightarrow> (\<forall>l \<in> set (db_leases d). \<exists>l' \<in> set (db_leases d'). lease_kept l l')"

definition safe :: "db \<Rightarrow> db \<Rightarrow> bool" where
  "safe d d' \<longleftrightarrow> (db_ok d \<longrightarrow>
     db_ok d' \<and> extends d d' \<and> trail_extends d d' \<and> lease_history d d' \<and>
     (active_administrators d \<noteq> [] \<longrightarrow> active_administrators d' \<noteq> []))"

definition occupancy :: "db \<Rightarrow> db \<Rightarrow> bool" where
  "occupancy d d' \<longleftrightarrow> (db_ok d \<longrightarrow> (\<forall>t. exclusive_ok t d \<longrightarrow> exclusive_ok t d'))"

definition calm :: "db \<Rightarrow> db \<Rightarrow> bool" where
  "calm d d' \<longleftrightarrow> safe d d' \<and> occupancy d d'"

text \<open>Everything the audit trail accounts for: all tables but the audit trail itself, the rate-limit
  windows, and the time a token was last used.\<close>

definition unused :: "api_token \<Rightarrow> api_token" where
  "unused t = t\<lparr>t_last_used_at := None\<rparr>"

definition accounted :: "db \<Rightarrow> db \<Rightarrow> bool" where
  "accounted d d' \<longleftrightarrow>
     db_principals d' = db_principals d \<and> db_credentials d' = db_credentials d \<and>
     db_groups d' = db_groups d \<and> db_memberships d' = db_memberships d \<and>
     db_resources d' = db_resources d \<and> db_pgrants d' = db_pgrants d \<and>
     db_ggrants d' = db_ggrants d \<and> db_secrets d' = db_secrets d \<and> db_leases d' = db_leases d \<and>
     map unused (db_tokens d') = map unused (db_tokens d)"

definition audited :: "db \<Rightarrow> db \<Rightarrow> bool" where
  "audited d d' \<longleftrightarrow> (db_ok d \<longrightarrow> db_audit d' = db_audit d \<longrightarrow> accounted d d')"

subsection \<open>Composition\<close>

lemma lease_kept_refl [simp]: "lease_kept l l"
  by (simp add: lease_kept_def)

lemma lease_kept_trans: "lease_kept a b \<Longrightarrow> lease_kept b c \<Longrightarrow> lease_kept a c"
  by (simp add: lease_kept_def)

lemma lease_history_refl [simp]: "lease_history d d"
  unfolding lease_history_def using lease_kept_refl by blast

lemma lease_history_trans: "lease_history a b \<Longrightarrow> lease_history b c \<Longrightarrow> lease_history a c"
  unfolding lease_history_def using lease_kept_trans by blast

lemma lease_history_subset: "set (db_leases d) \<subseteq> set (db_leases d') \<Longrightarrow> lease_history d d'"
  unfolding lease_history_def using lease_kept_refl by blast

lemma safe_refl [simp]: "safe d d"
  by (simp add: safe_def)

lemma safe_trans: "safe a b \<Longrightarrow> safe b c \<Longrightarrow> safe a c"
  unfolding safe_def using extends_trans trail_extends_trans lease_history_trans by blast

lemma safe_ok: "safe d d' \<Longrightarrow> db_ok d \<Longrightarrow> db_ok d'"
  by (simp add: safe_def)

lemma occupancy_trans: "safe a b \<Longrightarrow> occupancy a b \<Longrightarrow> occupancy b c \<Longrightarrow> occupancy a c"
  by (auto simp: occupancy_def dest: safe_ok)

lemma calm_refl [simp]: "calm d d"
  by (simp add: calm_def occupancy_def)

lemma calm_trans: "calm a b \<Longrightarrow> calm b c \<Longrightarrow> calm a c"
  unfolding calm_def using safe_trans occupancy_trans by blast

lemma unused_used [simp]: "unused (t\<lparr>t_last_used_at := x\<rparr>) = unused t"
  by (simp add: unused_def)

lemma accounted_trans: "accounted a b \<Longrightarrow> accounted b c \<Longrightarrow> accounted a c"
  by (simp add: accounted_def)

lemma accounted_refl [simp]: "accounted d d"
  by (simp add: accounted_def)

lemma audited_refl [simp]: "audited d d"
  by (simp add: audited_def)

lemma accounted_audited: "accounted d d' \<Longrightarrow> audited d d'"
  by (simp add: audited_def)

lemma audited_trans:
  assumes "safe a b" "audited a b" "safe b c" "audited b c"
  shows "audited a c"
  unfolding audited_def
proof (intro impI)
  assume ok: "db_ok a" and same: "db_audit c = db_audit a"
  have "db_ok b" "trail_extends a b" "trail_extends b c"
    using assms(1,3) ok by (auto simp: safe_def)
  then obtain xs ys where "db_audit b = db_audit a @ xs" "db_audit c = db_audit b @ ys"
    unfolding trail_extends_def by blast
  with same have "db_audit b = db_audit a" "db_audit c = db_audit b" by simp_all
  with assms(2,4) ok \<open>db_ok b\<close> have "accounted a b" "accounted b c" by (auto simp: audited_def)
  then show "accounted a c" by (simp add: accounted_def)
qed

subsection \<open>Statements\<close>

lemma administrators_same:
  "db_principals d' = db_principals d \<Longrightarrow> db_credentials d' = db_credentials d \<Longrightarrow>
     active_administrators d' = active_administrators d"
  by (simp add: active_administrators_def)

lemma exclusive_ok_same:
  "db_resources d' = db_resources d \<Longrightarrow> db_leases d' = db_leases d \<Longrightarrow>
     exclusive_ok t d' = exclusive_ok t d"
  by (simp add: exclusive_ok_def active_count_def active_leases_def)

text \<open>A statement on a table that neither administration nor leasing reads.\<close>

lemma calm_aside:
  assumes "db_ok d \<Longrightarrow> db_ok d' \<and> extends d d'"
    and "db_principals d' = db_principals d" "db_credentials d' = db_credentials d"
    and "db_resources d' = db_resources d" "db_leases d' = db_leases d" "db_audit d' = db_audit d"
  shows "calm d d'"
  using assms administrators_same [OF assms(2,3)] exclusive_ok_same [OF assms(4,5)]
  by (auto simp: calm_def safe_def occupancy_def trail_extends_def intro!: lease_history_subset)

lemma write_calm:
  shows "write_tokens ts d = Inr d' \<Longrightarrow> calm d d'"
    and "write_windows ws d = Inr d' \<Longrightarrow> calm d d'"
    and "write_memberships ms d = Inr d' \<Longrightarrow> calm d d'"
    and "write_pgrants pgs d = Inr d' \<Longrightarrow> calm d d'"
    and "write_ggrants ggs d = Inr d' \<Longrightarrow> calm d d'"
    and "write_secrets ss d = Inr d' \<Longrightarrow> calm d d'"
    and "write_groups gs d = Inr d' \<Longrightarrow> g_id ` set (db_groups d) \<subseteq> g_id ` set gs \<Longrightarrow> calm d d'"
proof -
  show "write_tokens ts d = Inr d' \<Longrightarrow> calm d d'"
    by (rule calm_aside, rule write_keeps_ok(3)) (auto simp: write_tokens_def split: if_splits)
  show "write_windows ws d = Inr d' \<Longrightarrow> calm d d'"
    by (rule calm_aside, rule write_keeps_ok(4)) (auto simp: write_windows_def split: if_splits)
  show "write_memberships ms d = Inr d' \<Longrightarrow> calm d d'"
    by (rule calm_aside, rule write_keeps_ok(6)) (auto simp: write_memberships_def split: if_splits)
  show "write_pgrants pgs d = Inr d' \<Longrightarrow> calm d d'"
    by (rule calm_aside, rule write_keeps_ok(8)) (auto simp: write_pgrants_def split: if_splits)
  show "write_ggrants ggs d = Inr d' \<Longrightarrow> calm d d'"
    by (rule calm_aside, rule write_keeps_ok(9)) (auto simp: write_ggrants_def split: if_splits)
  show "write_secrets ss d = Inr d' \<Longrightarrow> calm d d'"
    by (rule calm_aside, rule write_keeps_ok(10)) (auto simp: write_secrets_def split: if_splits)
  show "write_groups gs d = Inr d' \<Longrightarrow> g_id ` set (db_groups d) \<subseteq> g_id ` set gs \<Longrightarrow> calm d d'"
    by (rule calm_aside, rule write_keeps_ok(5)) (auto simp: write_groups_def split: if_splits)
qed

lemma update_tokens_calm: "update_tokens p f d = Inr d' \<Longrightarrow> calm d d'"
  unfolding update_tokens_def by (rule write_calm(1))

lemma update_groups_calm:
  assumes "update_groups cx p f d = Inr d'" and "\<And>g. g_id (f g) = g_id g"
  shows "calm d d'"
  using assms(1) unfolding update_groups_def
  by (rule write_calm(7)) (use assms(2) in \<open>simp add: image_update_where\<close>)

text \<open>Accounts: rows are added, or updated with their keys kept.\<close>

lemma accounts_calm:
  assumes "db_ok d \<Longrightarrow> db_ok d' \<and> extends d d'"
    and "set (db_principals d) \<subseteq> set (db_principals d')"
    and "pc_principal_id ` set (db_credentials d) \<subseteq> pc_principal_id ` set (db_credentials d')"
    and "db_resources d' = db_resources d" "db_leases d' = db_leases d" "db_audit d' = db_audit d"
  shows "calm d d'"
  using assms(1,4-6) administrator_survives_append [OF _ assms(2,3)] exclusive_ok_same [OF assms(4,5)]
  by (auto simp: calm_def safe_def occupancy_def trail_extends_def intro!: lease_history_subset)

lemma insert_principal_calm: "write_principals (db_principals d @ [p]) d = Inr d' \<Longrightarrow> calm d d'"
  by (rule accounts_calm, rule write_keeps_ok(1)) (auto simp: write_principals_def split: if_splits)

lemma insert_credential_calm: "write_credentials (db_credentials d @ [c]) d = Inr d' \<Longrightarrow> calm d d'"
  by (rule accounts_calm, rule write_keeps_ok(2)) (auto simp: write_credentials_def split: if_splits)

lemma update_credentials_calm:
  assumes "update_credentials p f d = Inr d'" and "\<And>c. pc_principal_id (f c) = pc_principal_id c"
  shows "calm d d'"
proof (rule accounts_calm)
  show "db_ok d \<Longrightarrow> db_ok d' \<and> extends d d'"
    using write_keeps_ok(2) assms(1) unfolding update_credentials_def by blast
  have rows: "d' = d\<lparr>db_credentials := update_where p f (db_credentials d)\<rparr>"
    using assms(1) by (rule update_credentialsD)
  show "pc_principal_id ` set (db_credentials d) \<subseteq> pc_principal_id ` set (db_credentials d')"
    unfolding rows using assms(2) by (simp add: image_update_where)
qed (use update_credentialsD [OF assms(1)] in simp_all)

text \<open>Audit events: the closing statement of a transaction.\<close>

lemma record_calm:
  assumes "record_audit_event cx actor act st sid m d = Inr d'"
  shows "calm d d'"
  using record_audit_event_ok [OF assms] record_audit_event_trail [OF assms] frame [OF assms]
    administrators_same [OF frame(1,2) [OF assms]] exclusive_ok_same [OF frame(7,11) [OF assms]]
  by (auto simp: calm_def safe_def occupancy_def intro!: lease_history_subset)

lemma recorded_audited:
  assumes "record_audit_event cx actor act st sid m d1 = Inr d'" and "safe d d1"
  shows "audited d d'"
  unfolding audited_def
proof (intro impI)
  assume ok: "db_ok d" and same: "db_audit d' = db_audit d"
  obtain xs where "db_audit d1 = db_audit d @ xs"
    using assms(2) ok unfolding safe_def trail_extends_def by blast
  then have "length (db_audit d') > length (db_audit d)"
    using record_audit_eventD [OF assms(1)] by simp
  with same show "accounted d d'" by simp
qed

definition sound :: "db \<Rightarrow> db \<Rightarrow> bool" where
  "sound d d' \<longleftrightarrow> calm d d' \<and> audited d d'"

lemma sound_refl [simp]: "sound d d"
  by (simp add: sound_def)

lemma sound_trans: "sound a b \<Longrightarrow> sound b c \<Longrightarrow> sound a c"
  unfolding sound_def using calm_trans audited_trans by (metis calm_def)

lemma sound_recorded:
  assumes "calm d d1" and "record_audit_event cx actor act st sid m d1 = Inr d'"
  shows "sound d d'"
  unfolding sound_def
  using calm_trans [OF assms(1) record_calm [OF assms(2)]] recorded_audited [OF assms(2)] assms(1)
  by (auto simp: calm_def)

lemmas statement_calm =
  write_calm update_tokens_calm update_groups_calm insert_principal_calm insert_credential_calm
  update_credentials_calm

end
