(* ===== verification/Operations.thy ===== *)
theory Operations
  imports Evolution
begin

text \<open>
  Every state-changing transaction of the program settled in the terms of \<open>Evolution\<close>:
  \<open>sound\<close> where it can never double-book a resource, and otherwise \<open>safe\<close> and
  \<open>audited\<close> with the instants from which exclusivity is kept.
\<close>

subsection \<open>Identity\<close>

lemma authenticate_token_sound:
  assumes "authenticate_token sha cx token d = Inr (a, d')"
  shows "sound d d'"
proof -
  obtain i where up: "update_tokens (\<lambda>x. t_id x = i) (\<lambda>x. x\<lparr>t_last_used_at := Some (cx_now cx)\<rparr>) d = Inr d'"
    using assms by (auto simp: authenticate_token_def bindE_eq_Inr split: option.splits)
  have "accounted d d'"
    using update_tokensD [OF up] by (simp add: accounted_def update_where_def comp_def if_distrib)
  with update_tokens_calm [OF up] show ?thesis by (simp add: sound_def accounted_audited)
qed

lemma issue_token_calm: "issue_token sha cx i random pid name e d = Inr (r, d') \<Longrightarrow> calm d d'"
  by (auto simp: issue_token_def Let_def bindE_eq_Inr dest: write_calm(1))

lemma login_sound:
  assumes "login sha verify dummy ttl cx app_now i random username password d = Inr (r, d')"
  shows "sound d d'"
  using assms
  by (auto simp: login_def Let_def bindE_eq_Inr split: option.splits if_splits
      dest!: issue_token_calm intro: sound_recorded)

lemma create_principal_sound:
  assumes "create_principal cx i hashed rq kind actor d = Inr (r, d')"
  shows "sound d d'"
  using assms
proof (cases rule: create_principal_cases)
  case (1 d1 d2)
  have "calm d1 d2" using 1(2) by (auto split: if_splits dest: insert_credential_calm)
  with insert_principal_calm [OF 1(1)] have "calm d d2" by (rule calm_trans)
  then show ?thesis using 1(3) by (rule sound_recorded)
qed

lemma bootstrap_sound:
  assumes "bootstrap_administrator cx i hashed username shown d = Inr (j, d')"
  shows "sound d d'"
  using assms
proof (cases rule: bootstrap_cases)
  case (1 row d1 d2 ev)
  have d2: "calm d d2" by (rule calm_trans [OF insert_principal_calm [OF 1(2)] insert_credential_calm [OF 1(3)]])
  have d': "d' = d2\<lparr>db_audit := db_audit d2 @ [ev]\<rparr>"
    using 1(4) by (auto simp: write_audit_def split: if_splits)
  have ok: "db_ok d2 \<Longrightarrow> db_ok d' \<and> extends d2 d'" using write_keeps_ok(12) [OF _ 1(4)] by blast
  have "calm d2 d'"
    using ok administrators_same [of d' d2] exclusive_ok_same [of d' d2]
    by (auto simp: calm_def safe_def occupancy_def trail_extends_def d' intro!: lease_history_subset)
  with d2 have "calm d d'" by (rule calm_trans)
  moreover have "audited d d'"
    using d2 by (auto simp: audited_def calm_def safe_def trail_extends_def d')
  ultimately show ?thesis by (simp add: sound_def)
qed

text \<open>Updates of principals keep the ids; the guards keep an administrator.\<close>

lemma principals_rewritten:
  assumes up: "update_principals cx p f d = Inr d1" and ids: "\<And>x. p_id (f x) = p_id x"
    and ev: "record_audit_event cx actor act st sid m d1 = Inr d'"
    and adm: "db_ok d \<Longrightarrow> active_administrators d \<noteq> [] \<Longrightarrow> active_administrators d' \<noteq> []"
  shows "sound d d'"
proof -
  have d1: "db_resources d1 = db_resources d" "db_leases d1 = db_leases d" "db_audit d1 = db_audit d"
    using update_principalsD [OF up] by simp_all
  have ok: "db_ok d1 \<and> extends d d1" if "db_ok d"
    using that up unfolding update_principals_def
    by (rule write_keeps_ok(1)) (simp add: image_update_where ids)
  have ok': "db_ok d' \<and> extends d d'" if "db_ok d"
    using ok [OF that] record_audit_event_ok [OF ev] extends_trans by blast
  have same: "db_resources d' = db_resources d" "db_leases d' = db_leases d"
    using d1 frame(7,11) [OF ev] by simp_all
  obtain e where d': "db_audit d' = db_audit d @ [e]"
    using record_audit_eventD [OF ev] d1(3) by simp
  have "safe d d'"
    using ok' adm d' same by (auto simp: safe_def trail_extends_def intro!: lease_history_subset)
  moreover have "occupancy d d'"
    using exclusive_ok_same [OF same] by (simp add: occupancy_def)
  moreover have "audited d d'" using d' by (simp add: audited_def)
  ultimately show ?thesis by (simp add: sound_def calm_def)
qed

lemma archive_principal_sound:
  assumes "archive_principal cx i kind actor d = Inr (u, d')"
  shows "sound d d'"
  using assms [simplified]
proof (cases rule: archive_principal_cases)
  case (1 target d1)
  show ?thesis
    using archive_principal_keeps_administrator [OF assms [simplified]]
    by (intro principals_rewritten [OF 1(3) _ 1(4)]) simp_all
qed

lemma guarded_update_sound:
  assumes "guarded_update cx i rq actor d = Inr (r, d')"
  shows "sound d d'"
proof -
  have up: "update_principal cx i rq User actor d = Inr (r, d')"
    using assms by (auto simp: guarded_update_def split: if_splits)
  from up show ?thesis
  proof (cases rule: update_principal_cases)
    case (updated d1 row)
    show ?thesis
      using guarded_update_keeps_administrator [OF assms]
      by (intro principals_rewritten [OF updated(1) _ updated(4)]) (simp_all add: apply_principal_update_def)
  qed simp
qed

lemma update_service_sound:
  assumes "update_principal cx i rq Service actor d = Inr (r, d')"
  shows "sound d d'"
  using assms
proof (cases rule: update_principal_cases)
  case (updated d1 row)
  show ?thesis
    using update_service_keeps_administrator [OF assms]
    by (intro principals_rewritten [OF updated(1) _ updated(4)]) (simp_all add: apply_principal_update_def)
qed simp

lemma set_password_calm: "set_password cx i hashed d = Inr d' \<Longrightarrow> calm d d'"
  unfolding set_password_def by (erule update_credentials_calm) simp

lemma reset_password_sound: "reset_password cx i hashed actor d = Inr (r, d') \<Longrightarrow> sound d d'"
  by (auto simp: reset_password_def bindE_eq_Inr dest!: set_password_calm intro: sound_recorded)

lemma change_password_sound: "change_password cx i hashed d = Inr (r, d') \<Longrightarrow> sound d d'"
  by (auto simp: change_password_def bindE_eq_Inr dest!: set_password_calm intro: sound_recorded)

lemma issue_service_token_sound:
  "issue_service_token sha cx i random pid rq actor d = Inr (r, d') \<Longrightarrow> sound d d'"
  by (auto simp: issue_service_token_def bindE_eq_Inr dest!: issue_token_calm intro: sound_recorded)

lemma issue_my_token_sound: "issue_my_token sha cx i random pid rq d = Inr (r, d') \<Longrightarrow> sound d d'"
  by (auto simp: issue_my_token_def bindE_eq_Inr dest!: issue_token_calm intro: sound_recorded)

lemma revoke_token_sound: "revoke_token cx i pid actor d = Inr (r, d') \<Longrightarrow> sound d d'"
  by (auto simp: revoke_token_def Let_def bindE_eq_Inr dest!: update_tokens_calm intro: sound_recorded)

lemma create_group_sound: "create_group cx i rq actor d = Inr (r, d') \<Longrightarrow> sound d d'"
  by (auto simp: create_group_def Let_def bindE_eq_Inr dest!: write_calm(7) intro: sound_recorded)

lemma update_group_sound:
  assumes "update_group cx i rq actor d = Inr (r, d')"
  shows "sound d d'"
proof (cases rq)
  case None
  with assms show ?thesis by (auto simp: update_group_def bindE_eq_Inr)
next
  case (Some description)
  with assms obtain d1 where "update_groups cx (\<lambda>x. g_id x = i) (\<lambda>g. g\<lparr>g_description := description\<rparr>) d = Inr d1"
    and "record_audit_event cx (Some actor) ''group.updated'' ''Group'' i [] d1 = Inr d'"
    by (auto simp: update_group_def Let_def bindE_eq_Inr)
  then show ?thesis by (auto intro: sound_recorded dest!: update_groups_calm)
qed

lemma archive_group_sound:
  assumes "archive_group cx i actor d = Inr (u, d')"
  shows "sound d d'"
proof -
  obtain d1 where "update_groups cx (\<lambda>x. g_id x = i)
        (\<lambda>g. g\<lparr>g_archived_at := Some (coalesce (g_archived_at g) (cx_now cx))\<rparr>) d = Inr d1"
    and "record_audit_event cx (Some actor) ''group.archived'' ''Group'' i [] d1 = Inr d'"
    using assms by (auto simp: archive_group_def Let_def bindE_eq_Inr)
  then show ?thesis by (auto intro: sound_recorded dest!: update_groups_calm)
qed

lemma add_member_sound:
  assumes "add_member cx gid uid actor d = Inr (u, d')"
  shows "sound d d'"
proof -
  obtain d1 where d1: "(if list_ex (is_member gid uid) (db_memberships d) then Inr d
        else write_memberships (db_memberships d @
          [\<lparr>m_group_id = gid, m_principal_id = uid, m_created_at = cx_now cx\<rparr>]) d) = Inr d1"
    and ev: "record_audit_event cx (Some actor) ''group.member_added'' ''Group'' gid [] d1 = Inr d'"
    using assms by (auto simp: add_member_def bindE_eq_Inr split: if_splits)
  have "calm d d1" using d1 by (auto split: if_splits dest: write_calm(3))
  then show ?thesis using ev by (rule sound_recorded)
qed

lemma remove_member_sound: "remove_member cx gid uid actor d = Inr (r, d') \<Longrightarrow> sound d d'"
  by (auto simp: remove_member_def bindE_eq_Inr dest!: write_calm(3) intro: sound_recorded)

subsection \<open>Rate limits\<close>

lemma count_attempt_sound:
  assumes "count_attempt cx sc su w d = Inr (r, d')"
  shows "sound d d'"
proof -
  obtain d1 ws where 1: "write_windows (cleanup_windows (cx_now cx) (db_windows d)) d = Inr d1"
    and 2: "write_windows ws d1 = Inr d'"
    using assms by (auto simp: count_attempt_def bindE_eq_Inr)
  have "accounted d d'" using 1 2 by (auto simp: accounted_def write_windows_def split: if_splits)
  moreover have "calm d d'" by (rule calm_trans [OF write_calm(2) [OF 1] write_calm(2) [OF 2]])
  ultimately show ?thesis by (simp add: sound_def accounted_audited)
qed

subsection \<open>Secrets\<close>

lemma create_secret_sound:
  assumes "create_resource_secret ae cipher cx sid nonce rid rq actor d = Inr (r, d')"
  shows "sound d d'"
  using assms
  by (auto simp: create_resource_secret_def Let_def bindE_eq_Inr dest!: write_calm(6) intro: sound_recorded)

lemma update_secret_sound:
  assumes "update_resource_secret ae cipher cx nonce rid sid rq actor d = Inr (r, d')"
  shows "sound d d'"
  using assms
proof (cases rule: update_resource_secret_cases)
  case (updated s r replace d1 row)
  then show ?thesis by (intro sound_recorded [OF write_calm(6)])
qed simp

lemma delete_secret_sound:
  assumes "delete_resource_secret cx rid sid actor d = Inr (u, d')"
  shows "sound d d'"
proof -
  let ?p = "\<lambda>s. s_id s = sid \<and> s_resource_id s = rid"
  obtain d1 del where w: "write_secrets (delete_where ?p (db_secrets d)) d = Inr d1"
    and del: "one_or_none (filter ?p (db_secrets d)) = Inr del"
    and ev: "case del of None \<Rightarrow> d' = d1
      | Some _ \<Rightarrow> record_audit_event cx (Some actor) ''resource_secret.deleted'' ''ResourceSecret'' sid
           [(''resource_id'', uuid_str rid)] d1 = Inr d'"
    using assms by (auto simp: delete_resource_secret_def Let_def bindE_eq_Inr split: option.splits)
  show ?thesis
  proof (cases del)
    case None
    then have "delete_where ?p (db_secrets d) = db_secrets d"
      using del by (simp add: delete_where_def filter_empty_conv)
    then have "d1 = d" using w by (auto simp: write_secrets_def split: if_splits)
    with None ev show ?thesis by simp
  next
    case (Some s)
    with ev show ?thesis by (auto intro: sound_recorded [OF write_calm(6) [OF w]])
  qed
qed

lemma access_locked_secret_sound:
  assumes "access_locked_secret ae float_of cipher cx s actor path d = Inr (r, d')"
  shows "sound d d'"
  using assms by (auto simp: access_locked_secret_def bindE_eq_Inr intro: sound_recorded [OF calm_refl])

lemma access_as_admin_sound:
  "access_resource_secret_as_admin ae float_of cipher cx rid sid actor d = Inr (r, d') \<Longrightarrow> sound d d'"
  by (auto simp: access_resource_secret_as_admin_def bindE_eq_Inr dest: access_locked_secret_sound)

lemma access_lease_secret_sound:
  "access_lease_secret ae float_of cipher cx lid sid actor adm d = Inr (r, d') \<Longrightarrow> sound d d'"
  by (auto simp: access_lease_secret_def bindE_eq_Inr dest: access_locked_secret_sound)

subsection \<open>Catalog\<close>

lemma resources_recorded:
  assumes up: "update_resources cx p f d = Inr d1" and ids: "\<And>r. r_id (f r) = r_id r"
    and ev: "record_audit_event cx actor act st sid m d1 = Inr d'"
  shows "safe d d'" and "audited d d'"
    and "(\<And>r. r_sharing_mode (f r) = Exclusive \<Longrightarrow> r_sharing_mode r = Exclusive) \<Longrightarrow> sound d d'"
proof -
  have d1: "db_principals d1 = db_principals d" "db_credentials d1 = db_credentials d"
      "db_leases d1 = db_leases d" "db_audit d1 = db_audit d"
    using update_resourcesD(1) [OF up] by simp_all
  have "safe d d1"
    using update_resources_ok [OF up _ ids] administrators_same [OF d1(1,2)] d1
    by (auto simp: safe_def trail_extends_def intro!: lease_history_subset)
  moreover have "safe d1 d'" using record_calm [OF ev] by (simp add: calm_def)
  ultimately show safe: "safe d d'" by (rule safe_trans)
  show audited: "audited d d'" using ev \<open>safe d d1\<close> by (rule recorded_audited)
  assume mode: "\<And>r. r_sharing_mode (f r) = Exclusive \<Longrightarrow> r_sharing_mode r = Exclusive"
  have "exclusive_ok t d1" if "exclusive_ok t d" for t
    using that mode
    by (auto simp: exclusive_ok_def active_count_def active_leases_def list_all_iff d1(3) ids
        set_update_where update_resourcesD(1) [OF up] split: if_splits)
  then have "occupancy d d1" by (simp add: occupancy_def)
  then have "calm d d1" using \<open>safe d d1\<close> by (simp add: calm_def)
  then show "sound d d'" using ev by (rule sound_recorded)
qed

lemma create_resource_sound:
  assumes "create_resource cx i rq actor d = Inr (r, d')"
  shows "sound d d'"
proof -
  obtain d1 where w: "write_resources (db_resources d @ [new_resource cx i rq]) d = Inr d1"
    and ev: "record_audit_event cx (Some actor) ''resource.created'' ''Resource'' i [] d1 = Inr d'"
    using assms by (auto elim: create_resource_cases)
  have d1: "d1 = d\<lparr>db_resources := db_resources d @ [new_resource cx i rq]\<rparr>"
    using w by (auto simp: write_resources_def split: if_splits)
  have ok: "db_ok d1 \<and> extends d d1" if "db_ok d"
    by (rule write_keeps_ok(7) [OF that w]) auto
  have "exclusive_ok t d1" if "db_ok d" "exclusive_ok t d" for t
  proof -
    have "i \<notin> r_id ` set (db_resources d)"
      using resources.insert_fresh [OF w] by (simp add: new_resource_def)
    moreover have "l_resource_id l \<in> r_id ` set (db_resources d)" if "l \<in> set (db_leases d)" for l
      using \<open>db_ok d\<close> that by (auto simp: db_ok_def leases_valid_def list_all_iff exists_iff)
    ultimately have "active_count t d i = 0"
      by (auto simp: active_count_def active_leases_def filter_empty_conv)
    with that(2) show ?thesis
      by (auto simp: exclusive_ok_def list_all_iff active_count_def active_leases_def d1 new_resource_def)
  qed
  then have "calm d d1"
    using ok administrators_same [of d1 d]
    by (auto simp: calm_def safe_def occupancy_def trail_extends_def d1 intro!: lease_history_subset)
  then show ?thesis using ev by (rule sound_recorded)
qed

lemma archive_resource_sound:
  assumes "archive_resource cx rid actor d = Inr (u, d')"
  shows "sound d d'"
  using assms
proof (cases rule: archive_resource_cases)
  case (archived t d1)
  from resources_recorded(3) [OF archived(4) _ archived(5)] show ?thesis by simp
qed simp

lemma transition_resource_sound:
  assumes "transition_resource cx rid tr actor d = Inr (r, d')"
  shows "sound d d'"
  using assms
proof (cases rule: transition_resource_cases)
  case (1 t d1)
  from resources_recorded(3) [OF 1(4) _ 1(5)] show ?thesis by simp
qed

lemma update_resource_safe:
  assumes "update_resource cx rid rq actor d = Inr (r, d')"
  shows "safe d d'" and "audited d d'" and "ru_sharing_mode rq \<noteq> Some Exclusive \<Longrightarrow> sound d d'"
proof -
  show "safe d d'"
    using assms by (cases rule: update_resource_cases) (auto intro: resources_recorded(1))
  show "audited d d'"
    using assms by (cases rule: update_resource_cases) (auto intro: resources_recorded(2))
  assume mode: "ru_sharing_mode rq \<noteq> Some Exclusive"
  from assms show "sound d d'"
  proof (cases rule: update_resource_cases)
    case (changed t d1)
    have "r_sharing_mode (apply_changes rq r) = Exclusive \<Longrightarrow> r_sharing_mode r = Exclusive" for r
      using mode by (cases "ru_sharing_mode rq") (simp_all add: apply_changes_def set_field_def)
    then show ?thesis by (intro resources_recorded(3) [OF changed(5) _ changed(6)]) simp_all
  qed simp
qed

lemma write_grant_calm: "write_grant cx t rid i granted d = Inr (b, d') \<Longrightarrow> calm d d'"
  by (auto simp: write_grant_def bindE_eq_Inr split: if_splits grant_target.splits
      dest: write_calm(4) write_calm(5))

lemma write_grant_noop:
  assumes "write_grant cx t rid i False d = Inr (False, d')" and "\<not> has_grant t rid i d"
  shows "d' = d"
  using assms
  by (cases t) (auto simp: write_grant_def has_grant_def bindE_eq_Inr write_pgrants_def write_ggrants_def
      delete_where_def list_ex_iff filter_id_conv split: if_splits)

lemma set_resource_grant_sound:
  assumes "set_resource_grant cx rid i t granted actor d = Inr (u, d')"
  shows "sound d d'"
  using assms
proof (cases rule: set_resource_grant_cases)
  case (noop r)
  have "d' = d" using noop(5,4) by (rule write_grant_noop)
  then show ?thesis by simp
next
  case (changed r d1)
  then show ?thesis by (intro sound_recorded [OF write_grant_calm])
qed simp

subsection \<open>Leases\<close>

text \<open>The part of \<open>safe\<close> that is left when accounts are untouched and the leases are known.\<close>

lemma safe_lease_change:
  assumes "db_ok d \<Longrightarrow> db_ok d' \<and> extends d d'" and "db_principals d' = db_principals d"
    and "db_credentials d' = db_credentials d" and "trail_extends d d'"
    and "db_ok d \<Longrightarrow> lease_history d d'"
  shows "safe d d'"
  using assms administrators_same [OF assms(2,3)] by (simp add: safe_def)

lemma lease_history_update:
  assumes "db_leases d' = update_where p f (db_leases d)"
    and "\<And>l. l \<in> set (db_leases d) \<Longrightarrow> p l \<Longrightarrow> lease_kept l (f l)"
  shows "lease_history d d'"
  unfolding lease_history_def
proof
  fix l assume l: "l \<in> set (db_leases d)"
  show "\<exists>l' \<in> set (db_leases d'). lease_kept l l'"
  proof (cases "p l")
    case True
    with l assms show ?thesis by (intro bexI [of _ "f l"]) (auto simp: set_update_where)
  next
    case False
    with l assms(1) show ?thesis by (intro bexI [of _ l]) (auto simp: set_update_where)
  qed
qed

lemma update_leases_recorded:
  assumes up: "update_leases p f d = Inr d1"
    and ev: "record_audit_event cx actor act st sid m d1 = Inr d'"
    and kept: "\<And>l. db_ok d \<Longrightarrow> l \<in> set (db_leases d) \<Longrightarrow> p l \<Longrightarrow> lease_kept l (f l)"
  shows "safe d d'" and "audited d d'"
proof -
  note d1 = update_leasesD(1) [OF up]
  have "safe d d1"
    by (rule safe_lease_change)
      (use update_leases_ok [OF up] kept in \<open>auto simp: d1 trail_extends_def intro: lease_history_update\<close>)
  moreover have "safe d1 d'" using record_calm [OF ev] by (simp add: calm_def)
  ultimately show "safe d d'" by (rule safe_trans)
  show "audited d d'" using ev \<open>safe d d1\<close> by (rule recorded_audited)
qed

lemma acquire_lease_safe:
  assumes "acquire_lease sha cx app_now lid rq key pid adm d = Inr (r, d')"
  shows "safe d d'" and "audited d d'"
proof -
  have "safe d d' \<and> audited d d'"
    using assms
  proof (cases rule: acquire_lease_cases)
    case (created c)
    from created(3) show ?thesis
    proof (cases rule: create_lease_cases)
      case (1 ttl l d1 d2)
      have d1: "d1 = d\<lparr>db_leases := db_leases d @ [l]\<rparr>"
        using 1(3) by (auto simp: write_leases_def split: if_splits)
      have "safe d d1"
        by (rule safe_lease_change)
          (use write_keeps_ok(11) [OF _ 1(3)] in \<open>auto simp: d1 trail_extends_def intro: lease_history_subset\<close>)
      moreover have "safe d1 d'" by (rule resources_recorded(1) [OF 1(4) _ 1(5)]) simp
      moreover have "audited d d'"
      proof (rule recorded_audited [OF 1(5)])
        have "db_principals d2 = db_principals d1" "db_credentials d2 = db_credentials d1"
            "db_leases d2 = db_leases d1" "db_audit d2 = db_audit d1"
          using update_resourcesD(1) [OF 1(4)] by simp_all
        moreover have "db_ok d1 \<Longrightarrow> db_ok d2 \<and> extends d1 d2"
          by (rule update_resources_ok [OF 1(4)]) simp_all
        ultimately have "safe d1 d2"
          by (intro safe_lease_change) (auto simp: trail_extends_def intro: lease_history_subset)
        with \<open>safe d d1\<close> show "safe d d2" by (rule safe_trans)
      qed
      ultimately show ?thesis using safe_trans by blast
    qed
  qed simp
  then show "safe d d'" "audited d d'" by simp_all
qed

lemma renew_lease_safe:
  assumes "renew_lease cx checked_at app_now lid t pid d = Inr (r, d')"
  shows "safe d d'" and "audited d d'"
proof -
  obtain l ttl d1 where l: "lock_lease_for_change lid pid True d = Inr l" "l_ended_at l = None"
    and up: "update_leases (\<lambda>x. l_id x = lid)
       (\<lambda>x. x\<lparr>l_expires_at := expiry app_now ttl, l_last_renewed_at := Some app_now\<rparr>) d = Inr d1"
    and ev: "record_audit_event cx (Some pid) ''lease.renewed'' ''Lease'' lid [] d1 = Inr d'"
    using assms by (rule renew_lease_cases)
  have same: "x = l" if "db_ok d" "x \<in> set (db_leases d)" "l_id x = lid" for x
    using lease_id_inj [OF that(1,2) lock_leaseD(1) [OF l(1)]] lock_leaseD(2) [OF l(1)] that(3) by simp
  have kept: "lease_kept x (x\<lparr>l_expires_at := expiry app_now ttl, l_last_renewed_at := Some app_now\<rparr>)"
    if "db_ok d" "x \<in> set (db_leases d)" "l_id x = lid" for x
    using same [OF that] l(2) by (simp add: lease_kept_def)
  show "safe d d'" "audited d d'"
    using update_leases_recorded [OF up ev kept] by blast+
qed

lemma end_lease_sound:
  assumes "end_lease cx lid pid reason d = Inr (r, d')"
  shows "sound d d'"
  using assms
proof (cases rule: end_lease_cases)
  case (ended l d1)
  let ?f = "\<lambda>x. x\<lparr>l_ended_at := Some (cx_now cx), l_end_reason := Some reason\<rparr>"
  have same: "x = l" if "db_ok d" "x \<in> set (db_leases d)" "l_id x = lid" for x
    using lease_id_inj [OF that(1,2) lock_leaseD(1) [OF ended(1)]] lock_leaseD(2) [OF ended(1)] that(3) by simp
  have kept: "lease_kept x (?f x)" if "db_ok d" "x \<in> set (db_leases d)" "l_id x = lid" for x
    using same [OF that] ended(2) by (simp add: lease_kept_def)
  have safe: "safe d d'" "audited d d'"
    using update_leases_recorded [OF ended(3,4) kept] by blast+
  have rows: "db_leases d' = update_where (\<lambda>x. l_id x = lid) ?f (db_leases d)" "db_resources d' = db_resources d"
    using update_leasesD(1) [OF ended(3)] frame(7,11) [OF ended(4)] by simp_all
  have "exclusive_ok t d'" if "exclusive_ok t d" for t
    using that by (intro exclusive_ok_count_le [OF rows(2)] active_count_update_le [OF rows(1)])
      (simp_all add: active_lease_def)
  then have "occupancy d d'" by (simp add: occupancy_def)
  with safe show ?thesis by (simp add: sound_def calm_def)
qed simp

lemma expire_batch_sound:
  assumes "expire_due_leases cx b d = Inr (n, d')" and "db_ok d"
  shows "sound d d'"
proof -
  let ?ls = "due_rows (cx_now cx) b d"
  let ?p = "\<lambda>x. l_id x \<in> l_id ` set ?ls"
  have run: "db_ok d'" "d' = d\<lparr>db_leases := update_where ?p expire_row (db_leases d),
      db_audit := db_audit d @ map (expired_event cx) (map l_id ?ls)\<rparr>"
    using expire_due_leases_run [OF assms(2) refl, of cx b] assms(1) by auto
  have due: "due_lease (cx_now cx) x" if x: "x \<in> set (db_leases d)" "?p x" for x
  proof -
    obtain y where y: "y \<in> set ?ls" "l_id x = l_id y" using x(2) by blast
    then have "y \<in> set (db_leases d)" "due_lease (cx_now cx) y"
      using due_rows_facts(1) [OF assms(2)] by fastforce+
    with lease_id_inj [OF assms(2) x(1)] y(2) show ?thesis by blast
  qed
  have leases: "db_leases d' = update_where ?p expire_row (db_leases d)" "db_resources d' = db_resources d"
    using run(2) by simp_all
  have "safe d d'"
  proof (rule safe_lease_change)
    show "db_ok d' \<and> extends d d'" using run(1) by (simp add: run(2) extends_def)
    show "lease_history d d'"
      by (rule lease_history_update [OF leases(1)])
        (use due in \<open>auto simp: lease_kept_def expire_row_def due_lease_def\<close>)
  qed (simp_all add: run(2) trail_extends_def)
  moreover have "exclusive_ok t d'" if "exclusive_ok t d" for t
    using that by (intro exclusive_ok_count_le [OF leases(2)] active_count_update_le [OF leases(1)])
      (use due in \<open>auto simp: active_lease_def expire_row_def due_lease_def\<close>)
  moreover have "audited d d'"
  proof (cases "?ls = []")
    case True
    then have "db_leases d' = db_leases d" using leases(1) by (simp add: update_where_none)
    with run(2) show ?thesis by (simp add: accounted_audited accounted_def)
  qed (simp add: audited_def run(2))
  ultimately show ?thesis by (simp add: sound_def calm_def occupancy_def)
qed

end
