(* ===== verification/System.thy ===== *)
theory System
  imports Operations
begin

text \<open>
  The whole service as a transition system over the database: every HTTP operation of the API,
  the bootstrap command and the batches of the expiration worker, in any order and with any
  arguments. An event happens at the timestamp of its transaction; events commit in the order
  of their timestamps. What every reachable database satisfies follows from \<open>Operations\<close>.
\<close>

subsection \<open>Events\<close>

text \<open>Settings and primitives the routes are built with (\<open>create_application\<close>, \<open>application.py\<close>).\<close>

record config =
  cf_sha :: "string \<Rightarrow> string"
  cf_sha_bytes :: "bytes \<Rightarrow> string"
  cf_verify :: "string \<Rightarrow> string \<Rightarrow> argon2_result"
  cf_dummy_hash :: string
  cf_login_ttl :: int
  cf_login_attempts :: int
  cf_login_window :: int
  cf_secret_attempts :: int
  cf_secret_window :: int
  cf_aead :: aead
  cf_float_of :: "string \<Rightarrow> string"
  cf_cipher :: cipher
  cf_coll :: "string \<Rightarrow> string"

text \<open>Arguments in the order of the routes; fresh identifiers and hashes are arguments too.\<close>

datatype identity_call =
    Login ctx instant uuid string string string
  | CreateUser uuid string principal_create
  | ListUsers
  | GetUser uuid
  | UpdateUser uuid principal_update
  | ArchiveUser uuid
  | ResetUserPassword uuid string
  | CreateService uuid string principal_create
  | ListServices
  | GetService uuid
  | UpdateService uuid principal_update
  | ArchiveService uuid
  | CreateServiceToken instant uuid string uuid token_create
  | ListServiceTokens uuid
  | RevokeServiceToken uuid uuid
  | GetMe
  | ChangeMyPassword string
  | CreateMyToken instant uuid string token_create
  | ListMyTokens
  | RevokeMyToken uuid
  | CreateGroup uuid group_create
  | ListGroups
  | GetGroup uuid
  | UpdateGroup uuid group_update
  | ArchiveGroup uuid
  | AddGroupMember uuid uuid
  | RemoveGroupMember uuid uuid

datatype catalog_call =
    CreateResource uuid resource_create
  | ListCatalog "string list" resource_query
  | GetResource uuid
  | UpdateCatalog uuid resource_update
  | ArchiveResource uuid
  | TransitionResource transition uuid
  | GetAccess uuid
  | SetGrant grant_target bool uuid uuid

datatype lease_call =
    Acquire instant uuid lease_create string
  | ListLeases lease_query
  | GetLease uuid
  | Renew instant instant uuid "int option option"
  | Release uuid
  | Revoke uuid

datatype secret_call =
    CreateSecret uuid bytes uuid secret_create
  | ListSecrets uuid
  | GetSecret uuid uuid
  | UpdateSecret bytes uuid uuid secret_update
  | DeleteSecret uuid uuid
  | AccessAsAdmin ctx uuid uuid
  | ListForLease uuid
  | AccessThroughLease ctx uuid uuid

datatype call =
    Identity identity_call
  | Catalog catalog_call
  | Leases lease_call
  | Secrets secret_call

datatype event =
    Request request_env call
  | BootstrapCommand ctx uuid string string "string option" string string
  | ExpireBatch ctx int

fun event_time :: "event \<Rightarrow> instant" where
  "event_time (Request env call) = cx_now (rv_cx env)"
| "event_time (BootstrapCommand cx _ _ _ _ _ _) = cx_now cx"
| "event_time (ExpireBatch cx _) = cx_now cx"

subsection \<open>Handling\<close>

fun handle_identity :: "config \<Rightarrow> request_env \<Rightarrow> identity_call \<Rightarrow> db \<Rightarrow> db" where
  "handle_identity cf env (Login cx_limit app_now i random username password) d =
     snd (login_route (cf_sha_bytes cf) (cf_sha cf) (cf_verify cf) (cf_dummy_hash cf) (cf_login_ttl cf)
       (cf_login_attempts cf) (cf_login_window cf) cx_limit (rv_cx env) app_now i random username password d)"
| "handle_identity cf env (CreateUser i hashed rq) d = snd (create_user (cf_sha cf) env i hashed rq d)"
| "handle_identity cf env ListUsers d = snd (list_users (cf_sha cf) (cf_coll cf) env d)"
| "handle_identity cf env (GetUser i) d = snd (get_user (cf_sha cf) env i d)"
| "handle_identity cf env (UpdateUser i rq) d = snd (update_user (cf_sha cf) env i rq d)"
| "handle_identity cf env (ArchiveUser i) d = snd (archive_user (cf_sha cf) env i d)"
| "handle_identity cf env (ResetUserPassword i hashed) d = snd (reset_user_password (cf_sha cf) env i hashed d)"
| "handle_identity cf env (CreateService i hashed rq) d = snd (create_service (cf_sha cf) env i hashed rq d)"
| "handle_identity cf env ListServices d = snd (list_services (cf_sha cf) (cf_coll cf) env d)"
| "handle_identity cf env (GetService i) d = snd (get_service (cf_sha cf) env i d)"
| "handle_identity cf env (UpdateService i rq) d = snd (update_service (cf_sha cf) env i rq d)"
| "handle_identity cf env (ArchiveService i) d = snd (archive_service (cf_sha cf) env i d)"
| "handle_identity cf env (CreateServiceToken app_now i random pid rq) d =
     snd (create_service_token (cf_sha cf) env app_now i random pid rq d)"
| "handle_identity cf env (ListServiceTokens i) d = snd (list_service_tokens (cf_sha cf) env i d)"
| "handle_identity cf env (RevokeServiceToken pid i) d = snd (revoke_service_token (cf_sha cf) env pid i d)"
| "handle_identity cf env GetMe d = snd (get_me (cf_sha cf) env d)"
| "handle_identity cf env (ChangeMyPassword hashed) d = snd (change_my_password (cf_sha cf) env hashed d)"
| "handle_identity cf env (CreateMyToken app_now i random rq) d =
     snd (create_my_token (cf_sha cf) env app_now i random rq d)"
| "handle_identity cf env ListMyTokens d = snd (list_my_tokens (cf_sha cf) env d)"
| "handle_identity cf env (RevokeMyToken i) d = snd (revoke_my_token (cf_sha cf) env i d)"
| "handle_identity cf env (CreateGroup i rq) d = snd (create_group_route (cf_sha cf) env i rq d)"
| "handle_identity cf env ListGroups d = snd (list_groups_route (cf_sha cf) (cf_coll cf) env d)"
| "handle_identity cf env (GetGroup i) d = snd (get_group (cf_sha cf) env i d)"
| "handle_identity cf env (UpdateGroup i rq) d = snd (update_group_route (cf_sha cf) env i rq d)"
| "handle_identity cf env (ArchiveGroup i) d = snd (archive_group_route (cf_sha cf) env i d)"
| "handle_identity cf env (AddGroupMember gid uid) d = snd (add_group_member (cf_sha cf) env gid uid d)"
| "handle_identity cf env (RemoveGroupMember gid uid) d = snd (remove_group_member (cf_sha cf) env gid uid d)"

fun handle_catalog :: "config \<Rightarrow> request_env \<Rightarrow> catalog_call \<Rightarrow> db \<Rightarrow> db" where
  "handle_catalog cf env (CreateResource i rq) d = snd (create_resource_route (cf_sha cf) env i rq d)"
| "handle_catalog cf env (ListCatalog labels q) d = snd (list_catalog (cf_sha cf) (cf_coll cf) env labels q d)"
| "handle_catalog cf env (GetResource i) d = snd (get_resource_route (cf_sha cf) env i d)"
| "handle_catalog cf env (UpdateCatalog i rq) d = snd (update_catalog (cf_sha cf) env i rq d)"
| "handle_catalog cf env (ArchiveResource i) d = snd (archive_resource_route (cf_sha cf) env i d)"
| "handle_catalog cf env (TransitionResource t i) d = snd (transition_route (cf_sha cf) env t i d)"
| "handle_catalog cf env (GetAccess i) d = snd (get_access_route (cf_sha cf) env i d)"
| "handle_catalog cf env (SetGrant t granted i target) d = snd (grant_route (cf_sha cf) env t granted i target d)"

fun handle_leases :: "config \<Rightarrow> request_env \<Rightarrow> lease_call \<Rightarrow> db \<Rightarrow> db" where
  "handle_leases cf env (Acquire app_now i rq key) d = snd (fst (acquire_route (cf_sha cf) env app_now i rq key d))"
| "handle_leases cf env (ListLeases q) d = snd (list_leases_route (cf_sha cf) env q d)"
| "handle_leases cf env (GetLease i) d = snd (get_lease_route (cf_sha cf) env i d)"
| "handle_leases cf env (Renew checked_at app_now i ttl) d =
     snd (renew_route (cf_sha cf) env checked_at app_now i ttl d)"
| "handle_leases cf env (Release i) d = snd (release_route (cf_sha cf) env i d)"
| "handle_leases cf env (Revoke i) d = snd (revoke_route (cf_sha cf) env i d)"

fun handle_secrets :: "config \<Rightarrow> request_env \<Rightarrow> secret_call \<Rightarrow> db \<Rightarrow> db" where
  "handle_secrets cf env (CreateSecret i nonce rid rq) d =
     snd (create_secret_route (cf_sha cf) (cf_aead cf) (cf_cipher cf) env i nonce rid rq d)"
| "handle_secrets cf env (ListSecrets rid) d = snd (list_for_resource_route (cf_sha cf) (cf_coll cf) env rid d)"
| "handle_secrets cf env (GetSecret rid i) d = snd (get_secret_route (cf_sha cf) env rid i d)"
| "handle_secrets cf env (UpdateSecret nonce rid i rq) d =
     snd (update_secret_route (cf_sha cf) (cf_aead cf) (cf_cipher cf) env nonce rid i rq d)"
| "handle_secrets cf env (DeleteSecret rid i) d = snd (delete_secret_route (cf_sha cf) env rid i d)"
| "handle_secrets cf env (AccessAsAdmin cx_limit rid i) d =
     snd (access_as_admin_route (cf_sha cf) (cf_sha_bytes cf) (cf_aead cf) (cf_float_of cf) (cf_cipher cf)
       (cf_secret_attempts cf) (cf_secret_window cf) cx_limit env rid i d)"
| "handle_secrets cf env (ListForLease lid) d = snd (list_for_lease_route (cf_sha cf) (cf_coll cf) env lid d)"
| "handle_secrets cf env (AccessThroughLease cx_limit lid i) d =
     snd (access_through_lease_route (cf_sha cf) (cf_sha_bytes cf) (cf_aead cf) (cf_float_of cf) (cf_cipher cf)
       (cf_secret_attempts cf) (cf_secret_window cf) cx_limit env lid i d)"

fun handle_call :: "config \<Rightarrow> request_env \<Rightarrow> call \<Rightarrow> db \<Rightarrow> db" where
  "handle_call cf env (Identity c) d = handle_identity cf env c d"
| "handle_call cf env (Catalog c) d = handle_catalog cf env c d"
| "handle_call cf env (Leases c) d = handle_leases cf env c d"
| "handle_call cf env (Secrets c) d = handle_secrets cf env c d"

text \<open>A batch that raises is rolled back (\<open>run_worker\<close> of \<open>Leasing_Expiry\<close> shows the loop).\<close>

fun handle :: "config \<Rightarrow> event \<Rightarrow> db \<Rightarrow> db" where
  "handle cf (Request env c) d = handle_call cf env c d"
| "handle cf (BootstrapCommand cx i hashed username shown password confirmation) d =
     snd (bootstrap_command cx i hashed username shown password confirmation d)"
| "handle cf (ExpireBatch cx batch_size) d = snd (run_tx (expire_due_leases cx batch_size) d)"

subsection \<open>Runs\<close>

text \<open>\<open>reaches ok cf (t, d) (t', d')\<close>: events satisfying \<open>ok\<close> lead from one database to the other.\<close>

inductive reaches ::
  "(event \<Rightarrow> bool) \<Rightarrow> config \<Rightarrow> instant \<times> db \<Rightarrow> instant \<times> db \<Rightarrow> bool" for ok cf where
  start: "reaches ok cf s s"
| happen: "reaches ok cf s (t, d) \<Longrightarrow> ok ev \<Longrightarrow> t \<le> event_time ev \<Longrightarrow>
    reaches ok cf s (event_time ev, handle cf ev d)"

lemma reaches_later: "reaches ok cf s s' \<Longrightarrow> fst s \<le> fst s'"
  by (induction rule: reaches.induct) auto

lemma reaches_trans:
  assumes "reaches ok cf s s'" and "reaches ok cf s' s''"
  shows "reaches ok cf s s''"
  using assms(2,1) by (induction rule: reaches.induct) (auto intro: happen)

end
