(* ===== verification/System_Laws.thy ===== *)
theory System_Laws
  imports System
begin

text \<open>
  The service keeps its promises in every order of events: what a request or a background
  event may do to the database, and the invariants of every reachable database.
\<close>

subsection \<open>From transactions to routes\<close>

text \<open>
  A relation between databases that composes and that authentication satisfies carries over
  from the transaction of a route to the route.
\<close>

locale route_relation =
  fixes R :: "db \<Rightarrow> db \<Rightarrow> bool"
  assumes refl: "R d d"
    and trans: "R a b \<Longrightarrow> R b c \<Longrightarrow> R a c"
    and authenticates: "authenticate_token sha cx token d = Inr (who, d') \<Longrightarrow> R d d'"
begin

lemma transaction: "(\<And>x d'. body d = Inr (x, d') \<Longrightarrow> R d d') \<Longrightarrow> R d (snd (run_tx body d))"
  by (cases rule: run_tx_cases [of body d]) (auto simp: refl)

lemma sequence:
  assumes "R d (snd r)" and "\<And>x s. R s (snd (f x s))"
  shows "R d (snd (then_tx r f))"
proof (cases rule: then_tx_cases [of r f])
  case (stopped e s)
  with assms(1) show ?thesis by simp
next
  case (went_on x s)
  then have "R d s" using assms(1) by simp
  with assms(2) went_on show ?thesis by (auto intro: trans)
qed

lemma authentication: "R d (snd (authenticated sha env d))"
proof -
  have "R d (snd (run_tx (authenticate_token sha cx token) d))" for cx token
    by (rule transaction) (rule authenticates)
  then show ?thesis
    by (auto simp: authenticated_def refl split: option.split prod.split sum.split exc.split)
      (metis snd_conv)+
qed

lemma as_user: "(\<And>who s. R s (snd (f who s))) \<Longrightarrow> R d (snd (then_tx (authenticated sha env d) f))"
  by (rule sequence [OF authentication])

lemma as_admin: "(\<And>who s. R s (snd (f who s))) \<Longrightarrow> R d (snd (then_tx (administrator sha env d) f))"
  by (rule sequence) (auto simp: administrator_def refl intro: as_user)

lemma refused: "R d (snd (Inl e, d))"
  by (simp add: refl)

lemma read: "R d (snd (read_tx body d))"
  by (simp add: refl)

lemma conditional: "R d (snd a) \<Longrightarrow> R d (snd b) \<Longrightarrow> R d (snd (if c then a else b))"
  by simp

end

lemma authenticate_token_tables:
  assumes "authenticate_token sha cx token d = Inr (who, d')"
  shows "calm d d'"
  using authenticate_token_sound [OF assms] by (simp add: sound_def)

interpretation sound: route_relation sound
  by unfold_locales (auto intro: sound_trans authenticate_token_sound)

interpretation accountable: route_relation "\<lambda>d d'. safe d d' \<and> audited d d'"
  using authenticate_token_sound
  by unfold_locales (auto intro: safe_trans audited_trans simp: sound_def calm_def)

lemma authenticate_token_accounted:
  assumes "authenticate_token sha cx token d = Inr (who, d')"
  shows "accounted d d' \<and> db_audit d' = db_audit d"
proof -
  obtain i where "update_tokens (\<lambda>x. t_id x = i) (\<lambda>x. x\<lparr>t_last_used_at := Some (cx_now cx)\<rparr>) d = Inr d'"
    using assms by (auto simp: authenticate_token_def bindE_eq_Inr split: option.splits)
  then show ?thesis
    by (auto dest!: update_tokensD simp: accounted_def update_where_def comp_def if_distrib [of unused])
qed

interpretation unaccounted: route_relation "\<lambda>d d'. accounted d d' \<and> db_audit d' = db_audit d"
  using authenticate_token_accounted by unfold_locales (auto intro: accounted_trans)

definition keeps_exclusive :: "instant \<Rightarrow> db \<Rightarrow> db \<Rightarrow> bool" where
  "keeps_exclusive t d d' \<longleftrightarrow> (db_ok d \<and> exclusive_ok t d \<longrightarrow> db_ok d' \<and> exclusive_ok t d')"

lemma calm_keeps_exclusive: "calm d d' \<Longrightarrow> keeps_exclusive t d d'"
  by (auto simp: calm_def safe_def occupancy_def keeps_exclusive_def)

lemma sound_calm: "sound d d' \<Longrightarrow> calm d d'"
  by (simp add: sound_def)

interpretation exclusive: route_relation "keeps_exclusive t" for t
  using calm_keeps_exclusive [OF authenticate_token_tables]
  by unfold_locales (auto simp: keeps_exclusive_def)

lemma sound_keeps_exclusive: "sound d d' \<Longrightarrow> keeps_exclusive t d d'"
  by (intro calm_keeps_exclusive sound_calm)

subsection \<open>Requests that never touch the occupancy of a resource\<close>

lemma enforce_rate_limit_sound: "sound d (snd (enforce_rate_limit cx sc su n w d))"
  unfolding enforce_rate_limit_def
  by (rule sound.sequence, rule sound.transaction)
    (auto intro: count_attempt_sound split: prod.split)

lemma secret_limit_sound: "sound d (snd (enforce_secret_access_limit sb n w cx who d))"
proof -
  let ?r = "enforce_rate_limit cx ''secret_access'' (principal_subject sb (actor_of who)) n w d"
  have "snd (enforce_secret_access_limit sb n w cx who d) = snd ?r"
    by (auto simp: enforce_secret_access_limit_def split: prod.split sum.split exc.split)
  then show ?thesis using enforce_rate_limit_sound by simp
qed

lemma login_route_sound:
  "sound d (snd (login_route sb sha verify dummy ttl n w cx_limit cx app_now i random username password d))"
proof -
  let ?r = "then_tx (enforce_rate_limit cx_limit ''login'' (login_subject sb username) n w d)
    (\<lambda>_. run_tx (login sha verify dummy ttl cx app_now i random username password))"
  have "snd (login_route sb sha verify dummy ttl n w cx_limit cx app_now i random username password d) = snd ?r"
    by (auto simp: login_route_def split: prod.split sum.split exc.split)
  moreover have "sound d (snd ?r)"
    by (rule sound.sequence [OF enforce_rate_limit_sound], rule sound.transaction) (rule login_sound)
  ultimately show ?thesis by simp
qed

lemmas identity_routes =
  create_user_def list_users_def get_user_def update_user_def archive_user_def reset_user_password_def
  create_service_def list_services_def get_service_def update_service_def archive_service_def
  create_service_token_def list_service_tokens_def revoke_service_token_def get_me_def
  change_my_password_def create_my_token_def list_my_tokens_def revoke_my_token_def
  create_group_route_def list_groups_route_def get_group_def update_group_route_def
  archive_group_route_def add_group_member_def remove_group_member_def

lemmas identity_sound =
  create_principal_sound guarded_update_sound archive_principal_sound reset_password_sound
  update_service_sound issue_service_token_sound revoke_token_sound change_password_sound
  issue_my_token_sound create_group_sound update_group_sound archive_group_sound add_member_sound
  remove_member_sound

lemmas route_steps = sound.as_admin sound.as_user sound.conditional sound.transaction sound.read sound.refused

lemma handle_identity_sound: "sound d (handle_identity cf env c d)"
  by (cases c)
    (simp_all only: handle_identity.simps identity_routes catch_integrity_snd login_route_sound,
     (intro route_steps; (elim identity_sound | simp))+)

lemma catch_crypto_snd [simp]: "snd (catch_crypto r) = snd r"
  by (auto simp: catch_crypto_def split: prod.split sum.split)

lemma prevent_caching_snd [simp]: "snd (prevent_caching r) = snd r"
  by (auto simp: prevent_caching_def split: prod.split sum.split)

lemmas secret_routes =
  create_secret_route_def list_for_resource_route_def get_secret_route_def update_secret_route_def
  delete_secret_route_def list_for_lease_route_def

lemmas secret_sound = create_secret_sound update_secret_sound delete_secret_sound

lemma disclosure_sound:
  assumes "\<And>x d'. body d = Inr (x, d') \<Longrightarrow> sound d d'"
  shows "sound d (snd (prevent_caching (catch_crypto (run_tx body d))))"
  using sound.transaction [of body d] assms by simp

lemma disclosure_routes_sound:
  "sound d (snd (access_as_admin_route sha sb ae fl cipher n w cxl env rid i d))"
  "sound d (snd (access_through_lease_route sha sb ae fl cipher n w cxl env lid i d))"
  unfolding access_as_admin_route_def access_through_lease_route_def
  by (intro sound.as_admin sound.as_user sound.sequence [OF secret_limit_sound] disclosure_sound;
      elim access_as_admin_sound access_lease_secret_sound)+

lemma handle_secrets_sound: "sound d (handle_secrets cf env c d)"
  by (cases c)
    (simp_all only: handle_secrets.simps secret_routes disclosure_routes_sound catch_integrity_snd
      catch_crypto_snd,
     (intro route_steps; (elim secret_sound | simp))+)

lemmas catalog_routes =
  create_resource_route_def list_catalog_def get_resource_route_def update_catalog_def
  archive_resource_route_def transition_route_def get_access_route_def grant_route_def

lemmas catalog_sound =
  create_resource_sound archive_resource_sound transition_resource_sound set_resource_grant_sound

subsection \<open>Requests that may\<close>

text \<open>Making a shared resource exclusive is the only catalog request that may break exclusivity.\<close>

definition makes_exclusive :: "catalog_call \<Rightarrow> bool" where
  "makes_exclusive c \<longleftrightarrow> (case c of UpdateCatalog _ rq \<Rightarrow> ru_sharing_mode rq = Some Exclusive | _ \<Rightarrow> False)"

lemma handle_catalog_sound: "\<not> makes_exclusive c \<Longrightarrow> sound d (handle_catalog cf env c d)"
  by (cases c)
    (simp_all only: handle_catalog.simps catalog_routes catch_integrity_snd,
     (intro route_steps; (elim catalog_sound | (erule update_resource_safe(3), simp add: makes_exclusive_def) | simp))+)

lemma sound_accountable: "sound d d' \<Longrightarrow> safe d d' \<and> audited d d'"
  by (simp add: sound_def calm_def)

lemma handle_catalog_accountable:
  "safe d (handle_catalog cf env c d) \<and> audited d (handle_catalog cf env c d)"
proof (cases "makes_exclusive c")
  case True
  then obtain i rq where c: "c = UpdateCatalog i rq" by (auto simp: makes_exclusive_def split: catalog_call.splits)
  show ?thesis
    unfolding c handle_catalog.simps update_catalog_def
    by (rule accountable.as_admin, unfold catalog_routes catch_integrity_snd, rule accountable.transaction)
      (use update_resource_safe in blast)
qed (use handle_catalog_sound sound_accountable in blast)

definition lagging :: "request_env \<Rightarrow> lease_call \<Rightarrow> bool" where
  "lagging env c \<longleftrightarrow> (case c of Renew checked_at _ _ _ \<Rightarrow> checked_at < cx_now (rv_cx env) | _ \<Rightarrow> False)"

lemmas lease_routes =
  list_leases_route_def get_lease_route_def renew_route_def release_route_def revoke_route_def

lemma acquire_route_run:
  "snd (fst (acquire_route sha env app_now i rq key d)) =
     snd (then_tx (authenticated sha env d) (\<lambda>who.
       run_tx (acquire_lease sha (rv_cx env) app_now i rq key (actor_of who) (is_admin who))))"
  by (auto simp: acquire_route_def then_tx_def Let_def split: prod.split sum.split)

lemma acquire_keeps: "acquire_lease sha cx app_now i rq key pid adm d = Inr (r, d') \<Longrightarrow> keeps_exclusive (cx_now cx) d d'"
  using acquire_lease_safe(1) [of sha cx app_now i rq key pid adm d r d']
    exclusive_ok_acquired [of sha cx app_now i rq key pid adm d r d']
  by (auto simp: keeps_exclusive_def safe_def)

lemma renew_keeps:
  "renew_lease cx checked_at app_now i ttl pid d = Inr (r, d') \<Longrightarrow> cx_now cx \<le> checked_at \<Longrightarrow>
     keeps_exclusive (cx_now cx) d d'"
  using renew_lease_safe(1) [of cx checked_at app_now i ttl pid d r d']
    exclusive_ok_renewed [of cx checked_at app_now i ttl pid d r d']
  by (auto simp: keeps_exclusive_def safe_def)

lemma lease_accountable:
  "acquire_lease sha cx app_now i rq key pid adm d = Inr (r, d') \<Longrightarrow> safe d d' \<and> audited d d'"
  "renew_lease cx checked_at app_now i ttl pid d = Inr (r, d') \<Longrightarrow> safe d d' \<and> audited d d'"
  "end_lease cx i pid reason d = Inr (r, d') \<Longrightarrow> safe d d' \<and> audited d d'"
  by (auto dest: acquire_lease_safe renew_lease_safe sound_accountable [OF end_lease_sound])

lemma handle_leases_accountable:
  "safe d (handle_leases cf env c d) \<and> audited d (handle_leases cf env c d)"
  by (cases c)
    (simp_all only: handle_leases.simps lease_routes acquire_route_run,
     (intro accountable.as_user accountable.as_admin accountable.conditional accountable.transaction
        accountable.read accountable.refused; (elim lease_accountable | simp))+)

lemma end_lease_keeps: "end_lease cx i pid reason d = Inr (r, d') \<Longrightarrow> keeps_exclusive t d d'"
  by (intro sound_keeps_exclusive) (rule end_lease_sound)

lemma handle_leases_keeps:
  "\<not> lagging env c \<Longrightarrow> keeps_exclusive (cx_now (rv_cx env)) d (handle_leases cf env c d)"
  by (cases c)
    (simp_all only: handle_leases.simps lease_routes acquire_route_run,
     (intro exclusive.as_user exclusive.as_admin exclusive.conditional exclusive.transaction
        exclusive.read exclusive.refused;
      (elim acquire_keeps end_lease_keeps | (erule renew_keeps, simp add: lagging_def) | simp))+)

subsection \<open>Every event\<close>

lemma bootstrap_command_sound:
  "sound d (snd (bootstrap_command cx i hashed username shown password confirmation d))"
proof -
  have "sound d (snd (run_tx (bootstrap_administrator cx i hashed username name) d))" for name
    by (rule sound.transaction) (rule bootstrap_sound)
  then show ?thesis
    by (auto simp: bootstrap_command_def Let_def split: prod.split sum.split exc.split option.split)
      (metis snd_conv)+
qed

lemma expire_event_sound: "sound d (snd (run_tx (expire_due_leases cx b) d))"
proof (cases "db_ok d")
  case True
  then show ?thesis by (intro sound.transaction) (rule expire_batch_sound)
next
  case False
  then show ?thesis by (simp add: sound_def calm_def safe_def occupancy_def audited_def)
qed

lemma handle_accountable: "safe d (handle cf ev d) \<and> audited d (handle cf ev d)"
proof (cases ev)
  case (Request env c)
  then show ?thesis
    using handle_catalog_accountable handle_leases_accountable
      sound_accountable [OF handle_identity_sound] sound_accountable [OF handle_secrets_sound]
    by (cases c) simp_all
qed (simp_all add: sound_accountable bootstrap_command_sound expire_event_sound)

text \<open>
  Events that cannot double-book: a renewal whose application clock has not fallen behind the
  database's, and no request that turns a resource exclusive.
\<close>

definition orderly :: "event \<Rightarrow> bool" where
  "orderly ev \<longleftrightarrow> (case ev of
     Request env (Catalog c) \<Rightarrow> \<not> makes_exclusive c
   | Request env (Leases c) \<Rightarrow> \<not> lagging env c
   | _ \<Rightarrow> True)"

lemma handle_keeps_exclusive: "orderly ev \<Longrightarrow> keeps_exclusive (event_time ev) d (handle cf ev d)"
proof (cases ev)
  case (Request env c)
  assume "orderly ev"
  with Request show ?thesis
    by (cases c) (auto simp: orderly_def intro: sound_keeps_exclusive handle_leases_keeps
        handle_catalog_sound handle_identity_sound handle_secrets_sound)
qed (auto intro: sound_keeps_exclusive bootstrap_command_sound expire_event_sound)

subsection \<open>Invariants of runs\<close>

text \<open>
  An invariant that time alone does not break and every permitted event keeps holds throughout
  every run of permitted events that starts in it.
\<close>

locale run_invariant =
  fixes ok :: "event \<Rightarrow> bool" and inv :: "instant \<Rightarrow> db \<Rightarrow> bool"
  assumes waits: "inv t d \<Longrightarrow> t \<le> t' \<Longrightarrow> inv t' d"
    and handles: "ok ev \<Longrightarrow> inv (event_time ev) d \<Longrightarrow> inv (event_time ev) (handle cf ev d)"
begin

lemma throughout: "reaches ok cf s s' \<Longrightarrow> inv (fst s) (snd s) \<Longrightarrow> inv (fst s') (snd s')"
  by (induction rule: reaches.induct) (auto intro: waits handles)

end

text \<open>The history of a run: what has been promised about \<open>d0\<close> still holds.\<close>

interpretation history: run_invariant "\<lambda>_. True" "\<lambda>_ d. db_ok d0 \<and> safe d0 d" for d0
  using handle_accountable by unfold_locales (auto intro: safe_trans)

interpretation exclusivity: run_invariant orderly "\<lambda>t d. db_ok d \<and> exclusive_ok t d"
  by unfold_locales
    (use handle_keeps_exclusive in \<open>auto simp: keeps_exclusive_def intro: exclusive_ok_later\<close>)

lemma reaches_weaken: "reaches ok cf s s' \<Longrightarrow> (\<And>ev. ok ev \<Longrightarrow> ok' ev) \<Longrightarrow> reaches ok' cf s s'"
  by (induction rule: reaches.induct) (auto intro: reaches.intros)

lemma run_safe: "reaches ok cf (t, d) (t', d') \<Longrightarrow> db_ok d \<Longrightarrow> safe d d'"
  using history.throughout [of cf "(t, d)" "(t', d')" d] reaches_weaken [of ok cf "(t, d)" "(t', d')" "\<lambda>_. True"]
  by simp

end
