(* ===== verification/Guarantees.thy ===== *)
theory Guarantees
  imports System_Laws
begin

text \<open>
  What the service guarantees as a whole, over every sequence of events: the exclusivity of resources is
  invariant, the audit trail is append-only and accounts for every change, leases keep their history
  and idempotency keys their lease, an administrator is always left, and administration needs an administrator.
\<close>

subsection \<open>Invariants of every run\<close>

text \<open>
  C1: No exclusive resource is ever double-booked. In every run of the service from a database that
  satisfies the schema and has no double-booked exclusive resource, such as the empty one, an
  exclusive resource has at most one active lease at every later time, as long as no event turns
  a shared resource exclusive and no renewal is judged by an application clock that is behind
  the database's. Acquisitions may use any application clock.
\<close>

theorem exclusive_never_double_booked:
  assumes "reaches orderly cf (t, d) (t', d')" and "db_ok d" and "exclusive_ok t d"
    and "r \<in> set (db_resources d')" and "r_sharing_mode r = Exclusive"
  shows "length (active_leases t' d' (r_id r)) \<le> 1"
proof -
  have "exclusive_ok t' d'" using exclusivity.throughout [OF assms(1)] assms(2,3) by simp
  then show ?thesis using assms(4,5) by (auto simp: exclusive_ok_def active_count_def list_all_iff)
qed

text \<open>
  C7: The service cannot lock everybody out: once an unarchived user with the administrator role and
  a password exists, there is one after every later event.
\<close>

theorem administrator_never_lost:
  assumes "reaches ok cf (t, d) (t', d')" and "db_ok d" and "active_administrators d \<noteq> []"
  shows "\<exists>p \<in> set (db_principals d'). p_kind p = User \<and> p_role p = Admin \<and> p_archived_at p = None \<and>
    (\<exists>c \<in> set (db_credentials d'). pc_principal_id c = p_id p)"
proof -
  have "active_administrators d' \<noteq> []" using run_safe [OF assms(1,2)] assms(2,3) by (simp add: safe_def)
  then obtain p where "can_administer d' p" by (auto simp: active_administrators_none)
  then obtain c where "p \<in> set (db_principals d')" "p_kind p = User" "p_role p = Admin"
      "p_archived_at p = None" "c \<in> set (db_credentials d')" "pc_principal_id c = p_id p"
    by (auto simp: can_administer_def)
  then show ?thesis by blast
qed

text \<open>
  C8: The audit trail is append-only: no event ever removes, reorders or rewrites a recorded one.
\<close>

theorem audit_trail_append_only:
  assumes "reaches ok cf (t, d) (t', d')" and "db_ok d"
  shows "take (length (db_audit d)) (db_audit d') = db_audit d"
proof -
  obtain evs where "db_audit d' = db_audit d @ evs"
    using run_safe [OF assms] assms(2) unfolding safe_def trail_extends_def by blast
  then show ?thesis by simp
qed

text \<open>
  C9: Leases have a permanent history: no lease ever disappears, what it was acquired as (resource,
  holder, consumer, time, idempotency key, request digest, metadata) never changes, and once it
  has ended no column of it changes any more.
\<close>

theorem lease_history_permanent:
  assumes "reaches ok cf (t, d) (t', d')" and "db_ok d" and "l \<in> set (db_leases d)"
  shows "\<exists>l' \<in> set (db_leases d'). l_id l' = l_id l \<and> l_resource_id l' = l_resource_id l \<and>
    l_acquired_by l' = l_acquired_by l \<and> l_consumer l' = l_consumer l \<and>
    l_acquired_at l' = l_acquired_at l \<and> l_idempotency_key l' = l_idempotency_key l \<and>
    l_request_hash l' = l_request_hash l \<and> l_metadata l' = l_metadata l \<and>
    (l_ended_at l \<noteq> None \<longrightarrow> l' = l)"
  using run_safe [OF assms(1,2)] assms(2,3)
  unfolding safe_def lease_history_def lease_kept_def by blast

text \<open>
  C6: An idempotency key is settled for good. Once an acquisition has committed, then after any further
  events of the service (renewals, endings, archiving, new access rules, time), the same principal asking again
  under that key gets the same lease on the same resource and changes nothing if the request has the same digest,
  and is refused with 409 otherwise: a key never yields a second lease.
\<close>

theorem acquisition_key_settled:
  assumes "acquire_lease sha cx app_now lid rq key pid adm d = Inr (resp, d1)" and "db_ok d"
    and "reaches ok cf (t, d1) (t', d')"
  shows "if request_hash sha rq2 = request_hash sha rq
    then \<exists>resp2. acquire_lease sha cx2 app_now2 lid2 rq2 key pid adm2 d' = Inr (resp2, d') \<and>
      lr_id resp2 = lr_id resp \<and> rr_id (lr_resource resp2) = rr_id (lr_resource resp)
    else acquire_lease sha cx2 app_now2 lid2 rq2 key pid adm2 d' =
      Inl (http 409 ''Idempotency key was used for another request'')"
proof -
  obtain l where l: "l \<in> set (db_leases d1)" "l_acquired_by l = pid" "l_idempotency_key l = key"
    "l_request_hash l = request_hash sha rq" "l_id l = lr_id resp"
    "l_resource_id l = rr_id (lr_resource resp)" and ok1: "db_ok d1"
    using acquired_row [OF assms(1,2)] by blast
  have "safe d1 d'" using run_safe [OF assms(3) ok1] .
  then have ok: "db_ok d'" and history: "lease_history d1 d'" using ok1 by (simp_all add: safe_def)
  then obtain l' where l': "l' \<in> set (db_leases d')" "lease_kept l l'"
    using l(1) by (auto simp: lease_history_def)
  then have kept: "l_acquired_by l' = pid" "l_idempotency_key l' = key" "l_request_hash l' = request_hash sha rq"
    "l_id l' = lr_id resp" "l_resource_id l' = rr_id (lr_resource resp)"
    using l by (simp_all add: lease_kept_def)
  show ?thesis
    using acquire_with_used_key [OF ok l'(1), of sha cx2 app_now2 lid2 rq2 adm2]
      lease_from_row_succeeds [OF ok l'(1), of cx2] kept
    by (auto simp: project_lease_def)
qed

text \<open>
  C10: Nothing changes unaudited: an event after which the audit trail is the same has changed no
  principal, credential, group, membership, resource, grant, secret, lease or token; all it may have
  changed is when a token was last used and the rate-limit windows.
\<close>

theorem no_unaudited_change:
  assumes "db_ok d" and "db_audit (handle cf ev d) = db_audit d"
  shows "accounted d (handle cf ev d)"
  using handle_accountable [of d cf ev] assms by (simp add: audited_def)

subsection \<open>Authorization\<close>

text \<open>The operations whose routes depend on \<open>dependencies.administrator\<close>.\<close>

fun administrative :: "call \<Rightarrow> bool" where
  "administrative (Identity c) \<longleftrightarrow> (case c of
     Login _ _ _ _ _ _ \<Rightarrow> False | GetMe \<Rightarrow> False | ChangeMyPassword _ \<Rightarrow> False
   | CreateMyToken _ _ _ _ \<Rightarrow> False | ListMyTokens \<Rightarrow> False | RevokeMyToken _ \<Rightarrow> False | _ \<Rightarrow> True)"
| "administrative (Catalog c) \<longleftrightarrow> (case c of ListCatalog _ _ \<Rightarrow> False | GetResource _ \<Rightarrow> False | _ \<Rightarrow> True)"
| "administrative (Leases c) \<longleftrightarrow> (case c of Revoke _ \<Rightarrow> True | _ \<Rightarrow> False)"
| "administrative (Secrets c) \<longleftrightarrow> (case c of ListForLease _ \<Rightarrow> False | AccessThroughLease _ _ _ \<Rightarrow> False | _ \<Rightarrow> True)"

definition authenticates_as :: "config \<Rightarrow> request_env \<Rightarrow> db \<Rightarrow> authenticated_principal \<Rightarrow> bool" where
  "authenticates_as cf env d who \<longleftrightarrow> fst (authenticated (cf_sha cf) env d) = Inr who"

lemma administrator_refuses:
  assumes "\<forall>who. authenticates_as cf env d who \<longrightarrow> p_role (ap_principal who) \<noteq> Admin"
  shows "snd (then_tx (administrator (cf_sha cf) env d) f) = snd (authenticated (cf_sha cf) env d)"
  using assms
  by (cases "authenticated (cf_sha cf) env d"; cases "fst (authenticated (cf_sha cf) env d)")
    (auto simp: administrator_def authenticates_as_def)

text \<open>
  C11: Administration needs an administrator: an administrative request that does not authenticate as
  an unarchived principal with the administrator role changes nothing that is accounted for and
  leaves no audit event.
\<close>

theorem only_administrators_administer:
  assumes "administrative c"
    and "\<forall>who. authenticates_as cf env d who \<longrightarrow> p_role (ap_principal who) \<noteq> Admin"
  shows "accounted d (handle_call cf env c d) \<and> db_audit (handle_call cf env c d) = db_audit d"
proof -
  note refused = administrator_refuses [OF assms(2)]
  have "handle_call cf env c d = snd (authenticated (cf_sha cf) env d)"
    using assms(1)
    by (cases c rule: administrative.cases)
      (auto simp: refused identity_routes catalog_routes lease_routes secret_routes access_as_admin_route_def
        split: identity_call.splits catalog_call.splits lease_call.splits secret_call.splits)
  then show ?thesis using unaccounted.authentication by simp
qed

end
