(* ===== verification/Request_Limits.thy ===== *)
theory Request_Limits
  imports Audit_Trail Encoding
begin

text \<open>
  Transport-level limits (\<open>request_limits.py\<close>): the middleware that buffers a request body up
  to a byte limit and replays it to the application. A run of the middleware on the messages
  the server delivers ends in a rejection, in a call of the application, or is still waiting
  for a message; the bytes of a body are counted, never interpreted.
\<close>

datatype message =
    HttpRequest bytes bool
  | HttpDisconnect
  | OtherMessage string

text \<open>
  \<open>int(value)\<close> on a header value: optional whitespace around, an optional sign, digits with
  single underscores between them, at most 4300 of them.
\<close>

definition header_space :: "char \<Rightarrow> bool" where
  "header_space c \<longleftrightarrow> (let n = (of_char c :: nat) in
     (9 \<le> n \<and> n \<le> 13) \<or> (28 \<le> n \<and> n \<le> 32) \<or> n = 133 \<or> n = 160)"

definition strip_header :: "string \<Rightarrow> string" where
  "strip_header s = rev (dropWhile header_space (rev (dropWhile header_space s)))"

fun digit_groups :: "string \<Rightarrow> bool" where
  "digit_groups [] = False"
| "digit_groups [c] = is_digit c"
| "digit_groups (c # d # cs) =
     (is_digit c \<and> (if d = CHR ''_'' then digit_groups cs else digit_groups (d # cs)))"

definition parse_int :: "string \<Rightarrow> int option" where
  "parse_int value =
     (let s = strip_header value;
          (neg, body) = (case s of c # cs \<Rightarrow>
              if c = CHR ''-'' then (True, cs) else if c = CHR ''+'' then (False, cs) else (False, s)
            | [] \<Rightarrow> (False, []));
          ds = filter is_digit body in
      if digit_groups body \<and> length ds \<le> 4300
      then Some (if neg then - digits_value ds else digits_value ds) else None)"

definition content_length :: "string option \<Rightarrow> int option" where
  "content_length value = (case value of None \<Rightarrow> None | Some v \<Rightarrow> parse_int v)"

text \<open>
  Buffering: \<open>TooLarge n\<close> after reading \<open>n\<close> messages, \<open>Buffered ms rest\<close> with the messages
  to replay and those not read yet, \<open>Waiting\<close> when the messages so far do not decide.
\<close>

datatype buffering = TooLarge nat | Buffered "message list" "message list" | Waiting

fun buffer_body :: "int \<Rightarrow> int \<Rightarrow> message list \<Rightarrow> message list \<Rightarrow> buffering" where
  "buffer_body limit received buffered [] = Waiting"
| "buffer_body limit received buffered (m # ms) =
     (let buffered' = buffered @ [m] in
      case m of
        HttpRequest body more_body \<Rightarrow>
          let received' = received + int (length body) in
          if received' > limit then TooLarge (length buffered')
          else if \<not> more_body then Buffered buffered' ms
          else buffer_body limit received' buffered' ms
      | HttpDisconnect \<Rightarrow> Buffered buffered' ms
      | OtherMessage _ \<Rightarrow> buffer_body limit received buffered' ms)"

text \<open>What the middleware does with a scope: the application reads the replayed messages first.\<close>

datatype handling =
    PassThrough "message list"
  | Reject413 string
  | CallApp "message list"
  | StillWaiting

definition body_limit_middleware ::
  "int \<Rightarrow> uuid \<Rightarrow> string \<Rightarrow> string option \<Rightarrow> string option \<Rightarrow> message list \<Rightarrow> handling" where
  "body_limit_middleware limit fresh scope_type correlation_header length_header ms =
     (if scope_type \<noteq> ''http'' then PassThrough ms
      else
        let correlation_id = select_correlation_id correlation_header fresh in
        if (case content_length length_header of None \<Rightarrow> False | Some n \<Rightarrow> n > limit)
        then Reject413 correlation_id
        else case buffer_body limit 0 [] ms of
            TooLarge _ \<Rightarrow> Reject413 correlation_id
          | Buffered buffered rest \<Rightarrow> CallApp (buffered @ rest)
          | Waiting \<Rightarrow> StillWaiting)"

subsection \<open>Properties\<close>

fun body_bytes :: "message list \<Rightarrow> int" where
  "body_bytes [] = 0"
| "body_bytes (HttpRequest body more_body # ms) = int (length body) + body_bytes ms"
| "body_bytes (_ # ms) = body_bytes ms"

lemma body_bytes_append: "body_bytes (xs @ ys) = body_bytes xs + body_bytes ys"
  by (induction xs rule: body_bytes.induct) simp_all

lemma body_bytes_nonneg: "0 \<le> body_bytes ms"
  by (induction ms rule: body_bytes.induct) simp_all

lemma buffer_body_Buffered:
  assumes "buffer_body limit received buffered ms = Buffered b rest" and "received = body_bytes buffered"
    and "received \<le> limit"
  shows "b @ rest = buffered @ ms \<and> body_bytes b \<le> limit"
  using assms
proof (induction limit received buffered ms rule: buffer_body.induct)
  case (2 limit received buffered m ms)
  then show ?case
    by (cases m) (auto simp: Let_def body_bytes_append split: if_splits)
qed simp

lemma buffer_body_TooLarge:
  assumes "buffer_body limit received buffered ms = TooLarge n" and "received = body_bytes buffered"
  shows "limit < body_bytes (buffered @ ms) \<and> n \<le> length buffered + length ms"
  using assms
proof (induction limit received buffered ms rule: buffer_body.induct)
  case (2 limit received buffered m ms)
  show ?case
  proof (cases m)
    case (HttpRequest body more_body)
    show ?thesis
    proof (cases "received + int (length body) > limit")
      case True
      then have "n = Suc (length buffered)" "limit < body_bytes (buffered @ [m])"
        using 2(3,4) HttpRequest by (auto simp: body_bytes_append)
      moreover have "body_bytes (buffered @ m # ms) = body_bytes (buffered @ [m]) + body_bytes ms"
        using body_bytes_append [of "buffered @ [m]" ms] by simp
      ultimately show ?thesis using body_bytes_nonneg [of ms] by simp
    next
      case False
      then show ?thesis
        using 2(3,4) 2(1) [OF refl HttpRequest refl] HttpRequest
        by (cases more_body) (simp_all add: body_bytes_append)
    qed
  qed (use 2 in \<open>simp_all add: body_bytes_append\<close>)
qed simp

lemma buffer_body_Waiting:
  assumes "buffer_body limit received buffered ms = Waiting" and "received = body_bytes buffered"
    and "received \<le> limit"
  shows "HttpDisconnect \<notin> set ms \<and> (\<forall>body. HttpRequest body False \<notin> set ms)
    \<and> body_bytes (buffered @ ms) \<le> limit"
  using assms
proof (induction limit received buffered ms rule: buffer_body.induct)
  case (2 limit received buffered m ms)
  then show ?case
    by (cases m) (auto simp: Let_def body_bytes_append split: if_splits)
qed simp

lemma safe_uuid_str: "safe_correlation (uuid_str u)"
proof -
  have digits: "isalnum (digit_char n)" for n
  proof -
    have "\<forall>c \<in> set ''0123456789abcdef''. isalnum c" by code_simp
    moreover have "digit_char n \<in> set ''0123456789abcdef''"
      unfolding digit_char_def by (rule nth_mem) simp
    ultimately show ?thesis by blast
  qed
  have "isalnum c \<or> c = CHR ''-''" if "c \<in> set (uuid_str u)" for c
    using that digits by (auto simp: uuid_str_def Let_def hex_run_def)
  moreover have "uuid_str u \<noteq> []" using length_uuid_str [of u] by force
  ultimately show ?thesis
    by (auto simp: safe_correlation_def list_all_iff length_uuid_str)
qed

lemma safe_selected: "safe_correlation (select_correlation_id supplied fresh)"
  by (simp add: select_correlation_id_def safe_uuid_str split: option.split)

text \<open>
  C31: The application never sees an oversized body, and sees everything else unchanged: when the
  middleware calls it, the messages it will read are exactly those the server delivered, in
  order, and the body bytes buffered before the call are within the limit; a request is rejected
  only when its declared or its actual length is above the limit, under a safe correlation id; and
  the middleware goes on waiting only while the client is connected and the last part of the body
  has not arrived, so it never holds a complete request back.
\<close>

theorem body_limit_transparent:
  assumes "0 \<le> limit"
  shows "case body_limit_middleware limit fresh ''http'' corr len ms of
      CallApp ms' \<Rightarrow> ms' = ms \<and>
        (\<exists>b rest. buffer_body limit 0 [] ms = Buffered b rest \<and> body_bytes b \<le> limit)
    | Reject413 cid \<Rightarrow> safe_correlation cid \<and>
        ((\<exists>n. content_length len = Some n \<and> limit < n) \<or> limit < body_bytes ms)
    | PassThrough ms' \<Rightarrow> False
    | StillWaiting \<Rightarrow> HttpDisconnect \<notin> set ms \<and> (\<forall>body. HttpRequest body False \<notin> set ms)
        \<and> body_bytes ms \<le> limit"
proof (cases "buffer_body limit 0 [] ms")
  case (TooLarge n)
  with buffer_body_TooLarge [OF TooLarge] show ?thesis
    by (auto simp: body_limit_middleware_def Let_def safe_selected split: option.split)
next
  case (Buffered b rest)
  with buffer_body_Buffered [OF Buffered] assms show ?thesis
    by (auto simp: body_limit_middleware_def Let_def safe_selected split: option.split)
next
  case Waiting
  with buffer_body_Waiting [OF Waiting] assms show ?thesis
    by (auto simp: body_limit_middleware_def Let_def safe_selected split: option.split)
qed

end
