(* ===== verification/Demo.thy ===== *)
theory Demo
  imports System_Laws Request_Limits
begin

text \<open>
  A small database and the primitives on which the theorems are tried: an administrator, a user
  in a group, an exclusive and a shared resource, a managed secret, a bearer token and a lease,
  all at instant 0. Text is its own digest; sealing a secret
  prefixes the additional data and its length in unary.
\<close>

definition at :: "instant \<Rightarrow> ctx" where
  "at t = \<lparr>cx_now = t, cx_correlation = ''demo''\<rparr>"

definition root_id :: uuid where "root_id = UUID 1"
definition alice_id :: uuid where "alice_id = UUID 2"
definition robot_id :: uuid where "robot_id = UUID 3"
definition box_id :: uuid where "box_id = UUID 10"
definition pool_id :: uuid where "pool_id = UUID 11"
definition team_id :: uuid where "team_id = UUID 20"
definition key_id :: uuid where "key_id = UUID 30"
definition token_id :: uuid where "token_id = UUID 40"
definition lease_id :: uuid where "lease_id = UUID 50"

lemmas demo_ids =
  root_id_def alice_id_def robot_id_def box_id_def pool_id_def team_id_def key_id_def token_id_def
  lease_id_def

definition root :: principal where
  "root = \<lparr>p_id = root_id, p_kind = User, p_role = Admin, p_name = ''root'', p_display_name = ''Root'',
     p_archived_at = None, p_created_at = 0, p_updated_at = 0\<rparr>"

definition alice :: principal where
  "alice = \<lparr>p_id = alice_id, p_kind = User, p_role = RegularUser, p_name = ''alice'',
     p_display_name = ''Alice'', p_archived_at = None, p_created_at = 0, p_updated_at = 0\<rparr>"

definition box :: resource where
  "box = \<lparr>r_id = box_id, r_name = ''box'', r_type = ''host'', r_labels = [(''os'', ''linux'')],
     r_sharing_mode = Exclusive, r_visibility_mode = Public, r_expiration_mode = Required,
     r_default_ttl = Some 60, r_max_ttl = Some 3600, r_status = Active, r_version = 1,
     r_last_leased_at = None, r_archived_at = None, r_created_at = 0, r_updated_at = 0\<rparr>"

definition pool :: resource where
  "pool = \<lparr>r_id = pool_id, r_name = ''pool'', r_type = ''pool'', r_labels = [],
     r_sharing_mode = Shared, r_visibility_mode = Restricted, r_expiration_mode = Optional,
     r_default_ttl = None, r_max_ttl = None, r_status = Active, r_version = 1,
     r_last_leased_at = None, r_archived_at = None, r_created_at = 0, r_updated_at = 0\<rparr>"

definition demo_token :: api_token where
  "demo_token = \<lparr>t_id = token_id, t_principal_id = alice_id, t_name = ''cli'', t_token_hash = ''srm_alice'',
     t_created_at = 0, t_expires_at = Some 100000000, t_last_used_at = None, t_revoked_at = None\<rparr>"

definition demo_db :: db where
  "demo_db = empty_db\<lparr>
     db_principals := [root, alice],
     db_credentials := [\<lparr>pc_principal_id = root_id, pc_password_hash = ''h1'', pc_updated_at = 0\<rparr>,
                        \<lparr>pc_principal_id = alice_id, pc_password_hash = ''h2'', pc_updated_at = 0\<rparr>],
     db_tokens := [demo_token],
     db_groups := [\<lparr>g_id = team_id, g_name = ''team'', g_description = None, g_archived_at = None,
                    g_created_at = 0, g_updated_at = 0\<rparr>],
     db_memberships := [\<lparr>m_group_id = team_id, m_principal_id = alice_id, m_created_at = 0\<rparr>],
     db_resources := [box, pool],
     db_ggrants := [\<lparr>gg_resource_id = pool_id, gg_group_id = team_id, gg_created_at = 0\<rparr>]\<rparr>"

lemmas demo_defs = at_def demo_ids root_def alice_def box_def pool_def demo_token_def demo_db_def empty_db_def

text \<open>The request for the exclusive host, with the resource's default TTL of a minute.\<close>

definition want_box :: lease_create where
  "want_box = \<lparr>lc_resource_type = ''host'', lc_sharing_mode = Exclusive, lc_labels = [(''os'', ''linux'')],
     lc_ttl = None, lc_consumer = None, lc_metadata = []\<rparr>"

definition demo_lease :: lease where
  "demo_lease = \<lparr>l_id = lease_id, l_resource_id = box_id, l_acquired_by = alice_id, l_consumer = None,
     l_acquired_at = 0, l_expires_at = Some 60000000, l_last_renewed_at = None, l_ended_at = None,
     l_end_reason = None, l_idempotency_key = ''k'', l_request_hash = request_hash id want_box, l_metadata = []\<rparr>"

definition leased_db :: db where
  "leased_db = demo_db\<lparr>db_leases := [demo_lease]\<rparr>"

text \<open>A toy cipher with the laws the code relies on, and a key of 32 bytes.\<close>

definition toy_aead :: aead where
  "toy_aead = \<lparr>ae_seal = (\<lambda>k n p a. replicate (length a) 2 @ 0 # a @ p),
     ae_open = (\<lambda>k n c a. let n = length (takeWhile (\<lambda>b. b = 2) c) in
       if take n (drop (Suc n) c) = a then Some (drop (Suc n + n) c) else None)\<rparr>"

definition toy_cipher :: cipher where
  "toy_cipher = \<lparr>ci_active = Some ''2026'', ci_keys = [(''2026'', replicate 32 7)]\<rparr>"

lemma demo_ok: "db_ok demo_db" "db_ok leased_db"
  by code_simp+

lemma takeWhile_twos [simp]: "takeWhile (\<lambda>b. b = (2::nat)) (replicate n 2 @ 0 # xs) = replicate n 2"
  by (induction n) simp_all

lemma toy_opens: "ae_open toy_aead k n (ae_seal toy_aead k n p a) a' = (if a' = a then Some p else None)"
  by (auto simp: toy_aead_def Let_def)

lemma toy_correct: "aead_correct toy_aead"
  unfolding aead_correct_def
proof (intro allI conjI impI)
  show "ae_open toy_aead k n (ae_seal toy_aead k n p a) a = Some p" for k n p a
    by (simp add: toy_opens)
  show "all_bytes (ae_seal toy_aead k n p a)" if "all_bytes p \<and> all_bytes a" for k n p a
    using that by (auto simp: all_bytes_def toy_aead_def list_all_iff)
qed

lemma ran: "\<not> isl x \<Longrightarrow> \<exists>r d'. x = Inr (r, d')"
  by (cases x) auto

text \<open>Settings under which an event can be handled.\<close>

definition demo_cf :: config where
  "demo_cf = \<lparr>cf_sha = id, cf_sha_bytes = map char_of, cf_verify = (\<lambda>h p. if h = p then Matches else VerificationError),
     cf_dummy_hash = ''none'', cf_login_ttl = 3600, cf_login_attempts = 5, cf_login_window = 60,
     cf_secret_attempts = 5, cf_secret_window = 60, cf_aead = toy_aead, cf_float_of = id,
     cf_cipher = toy_cipher, cf_coll = id\<rparr>"

definition as_alice :: "instant \<Rightarrow> request_env" where
  "as_alice t = \<lparr>rv_credentials = Some (''Bearer'', ''srm_alice''), rv_auth = at t, rv_cx = at t\<rparr>"

end
