(* ===== verification/Witnesses.thy ===== *)
theory Witnesses
  imports Guarantees Demo
begin

text \<open>
  Each theorem with hypotheses applied at a concrete input of \<open>Demo\<close> where they hold.
\<close>

subsection \<open>The service as a whole\<close>

text \<open>A run in which Alice acquires the exclusive host and releases it a minute later.\<close>

definition acquire_event :: event where
  "acquire_event = Request (as_alice 5) (Leases (Acquire 5 lease_id want_box ''k''))"

definition release_event :: event where
  "release_event = Request (as_alice 9) (Leases (Release lease_id))"

definition after_acquire :: db where "after_acquire = handle demo_cf acquire_event demo_db"
definition after_release :: db where "after_release = handle demo_cf release_event after_acquire"

lemma demo_run:
  "reaches orderly demo_cf (0, demo_db) (5, after_acquire)"
  "reaches orderly demo_cf (0, demo_db) (9, after_release)"
proof -
  have times: "event_time acquire_event = 5" "event_time release_event = 9"
    by (simp_all add: acquire_event_def release_event_def as_alice_def at_def)
  have ok: "orderly acquire_event" "orderly release_event"
    by (simp_all add: acquire_event_def release_event_def orderly_def lagging_def)
  show one: "reaches orderly demo_cf (0, demo_db) (5, after_acquire)"
    using happen [of orderly demo_cf "(0, demo_db)" 0 demo_db acquire_event] start ok(1)
    by (simp add: times after_acquire_def)
  show "reaches orderly demo_cf (0, demo_db) (9, after_release)"
    using happen [OF one ok(2)] by (simp add: times after_release_def)
qed

lemma exclusive_never_double_booked_witness:
  "\<exists>r \<in> set (db_resources after_acquire). r_sharing_mode r = Exclusive \<and>
     length (active_leases 5 after_acquire (r_id r)) \<le> 1 \<and> length (active_leases 5 after_acquire box_id) = 1"
proof -
  have "exclusive_ok 0 demo_db" by code_simp
  note claim = exclusive_never_double_booked [OF demo_run(1) demo_ok(1) this]
  have "list_ex (\<lambda>r. r_sharing_mode r = Exclusive) (db_resources after_acquire)"
    "length (active_leases 5 after_acquire box_id) = 1" by code_simp+
  with claim show ?thesis by (auto simp: list_ex_iff)
qed

lemma administrator_never_lost_witness:
  "\<exists>p \<in> set (db_principals after_release). p_kind p = User \<and> p_role p = Admin \<and> p_archived_at p = None \<and>
    (\<exists>c \<in> set (db_credentials after_release). pc_principal_id c = p_id p)"
proof -
  have "active_administrators demo_db \<noteq> []" by code_simp
  then show ?thesis by (rule administrator_never_lost [OF demo_run(2) demo_ok(1)])
qed

lemma later_run: "reaches orderly demo_cf (5, after_acquire) (9, after_release)"
proof -
  have "event_time release_event = 9" "orderly release_event"
    by (simp_all add: release_event_def as_alice_def at_def orderly_def lagging_def)
  then show ?thesis
    using happen [of orderly demo_cf "(5, after_acquire)" 5 after_acquire release_event] start
    by (simp add: after_release_def)
qed

lemma after_acquire_ok: "db_ok after_acquire"
  by code_simp

lemma audit_trail_append_only_witness:
  "take (length (db_audit after_acquire)) (db_audit after_release) = db_audit after_acquire \<and>
   length (db_audit after_acquire) = 1 \<and> length (db_audit after_release) = 2"
proof -
  have "length (db_audit after_acquire) = 1" "length (db_audit after_release) = 2" by code_simp+
  with audit_trail_append_only [OF later_run after_acquire_ok] show ?thesis by blast
qed

lemma lease_history_permanent_witness:
  "\<exists>l \<in> set (db_leases after_acquire). \<exists>l' \<in> set (db_leases after_release).
     l_id l = lease_id \<and> l_id l' = lease_id \<and> l_acquired_at l' = l_acquired_at l"
proof -
  have "list_ex (\<lambda>l. l_id l = lease_id) (db_leases after_acquire)" by code_simp
  then obtain l where "l \<in> set (db_leases after_acquire)" "l_id l = lease_id" by (auto simp: list_ex_iff)
  with lease_history_permanent [OF later_run after_acquire_ok this(1)] show ?thesis by metis
qed

text \<open>Alice reads the catalog; only the use of her token is recorded.\<close>

definition read_event :: event where
  "read_event = Request (as_alice 5) (Catalog (GetResource pool_id))"

lemma no_unaudited_change_witness:
  "accounted demo_db (handle demo_cf read_event demo_db) \<and> handle demo_cf read_event demo_db \<noteq> demo_db"
proof -
  have "db_audit (handle demo_cf read_event demo_db) = db_audit demo_db" by code_simp
  note claim = no_unaudited_change [OF demo_ok(1) this]
  have "map t_last_used_at (db_tokens (handle demo_cf read_event demo_db)) \<noteq> map t_last_used_at (db_tokens demo_db)"
    by code_simp
  with claim show ?thesis by auto
qed

lemma only_administrators_administer_witness:
  "accounted demo_db (handle_call demo_cf (as_alice 5) (Catalog (ArchiveResource box_id)) demo_db)"
proof -
  have "case fst (authenticated (cf_sha demo_cf) (as_alice 5) demo_db) of
      Inl _ \<Rightarrow> False | Inr who \<Rightarrow> p_role (ap_principal who) \<noteq> Admin" by code_simp
  then have "\<forall>who. authenticates_as demo_cf (as_alice 5) demo_db who \<longrightarrow> p_role (ap_principal who) \<noteq> Admin"
    by (auto simp: authenticates_as_def)
  then show ?thesis
    using only_administrators_administer [of "Catalog (ArchiveResource box_id)" demo_cf "as_alice 5" demo_db]
    by simp
qed

subsection \<open>Leases\<close>

lemma want_box_valid: "validate_lease_create want_box = Inr want_box"
  by code_simp

lemma acquire_succeeds_iff_candidate_witness:
  "\<exists>resp d'. acquire_lease id (at 5) 5 lease_id want_box ''k'' alice_id False demo_db = Inr (resp, d')"
proof -
  have "principal_exists demo_db alice_id" "lease_id \<notin> l_id ` set (db_leases demo_db)"
    "\<not> (\<exists>l \<in> set (db_leases demo_db). l_acquired_by l = alice_id \<and> l_idempotency_key l = ''k'')"
    by code_simp+
  note claim = acquire_succeeds_iff_candidate [OF demo_ok(1) this(1) want_box_valid this(2,3),
      where sha = id and cx = "at 5" and app_now = 5 and adm = False]
  have "list_ex (candidate_ok (at 5) want_box alice_id False demo_db) (db_resources demo_db)" by code_simp
  with claim show ?thesis by (auto simp: list_ex_iff split: if_splits)
qed

lemma alice_acquires:
  "\<exists>resp d'. acquire_lease id (at 5) 5 lease_id want_box ''k'' alice_id False demo_db = Inr (resp, d')"
  by (rule ran) code_simp

lemma alice_key_unused:
  "\<not> (\<exists>l \<in> set (db_leases demo_db). l_acquired_by l = alice_id \<and> l_idempotency_key l = ''k'')"
  by code_simp

lemma acquire_chooses_least_witness:
  "\<exists>resp d' c. acquire_lease id (at 5) 5 lease_id want_box ''k'' alice_id False demo_db = Inr (resp, d') \<and>
     c \<in> set (db_resources demo_db) \<and> rr_id (lr_resource resp) = r_id c"
  using alice_acquires acquire_chooses_least [OF _ alice_key_unused] by metis

lemma acquire_respects_ttl_policy_witness:
  "\<exists>resp d' l. acquire_lease id (at 5) 5 lease_id want_box ''k'' alice_id False demo_db = Inr (resp, d') \<and>
     db_leases d' = db_leases demo_db @ [l] \<and> l_acquired_at l = 5"
  using alice_acquires acquire_respects_ttl_policy [OF _ alice_key_unused] by metis

definition acquired_db :: db where
  "acquired_db = (case acquire_lease id (at 5) 5 lease_id want_box ''k'' alice_id False demo_db of
     Inr (_, d') \<Rightarrow> d' | Inl _ \<Rightarrow> demo_db)"

definition released_db :: db where "released_db = handle demo_cf release_event acquired_db"

lemma acquire_replay_witness:
  "\<exists>resp d' resp2. acquire_lease id (at 5) 5 lease_id want_box ''k'' alice_id False demo_db = Inr (resp, d') \<and>
     acquire_lease id (at 9) 9 key_id want_box ''k'' alice_id False d' = Inr (resp2, d') \<and>
     lr_id resp2 = lr_id resp"
  using alice_acquires acquire_replay [OF _ demo_ok(1)] by metis

lemma acquire_key_conflict_witness:
  "\<exists>resp d'. acquire_lease id (at 5) 5 lease_id want_box ''k'' alice_id False demo_db = Inr (resp, d') \<and>
     acquire_lease id (at 9) 9 key_id (want_box\<lparr>lc_ttl := Some None\<rparr>) ''k'' alice_id False d' =
       Inl (http 409 ''Idempotency key was used for another request'')"
proof -
  have "request_hash id (want_box\<lparr>lc_ttl := Some None\<rparr>) \<noteq> request_hash id want_box" by code_simp
  then show ?thesis using alice_acquires acquire_key_conflict [OF _ demo_ok(1)] by metis
qed

lemma acquisition_key_settled_witness:
  "\<exists>resp resp2. acquire_lease id (at 5) 5 lease_id want_box ''k'' alice_id False demo_db = Inr (resp, acquired_db) \<and>
     acquire_lease id (at 20) 20 key_id want_box ''k'' alice_id True released_db = Inr (resp2, released_db) \<and>
     lr_id resp2 = lr_id resp"
proof -
  have "\<exists>resp d'. acquire_lease id (at 5) 5 lease_id want_box ''k'' alice_id False demo_db = Inr (resp, d')"
    by (rule alice_acquires)
  then obtain resp where r: "acquire_lease id (at 5) 5 lease_id want_box ''k'' alice_id False demo_db = Inr (resp, acquired_db)"
    by (auto simp: acquired_db_def)
  have "event_time release_event = 9" by (simp add: release_event_def as_alice_def at_def)
  then have "reaches (\<lambda>_. True) demo_cf (5, acquired_db) (9, released_db)"
    using happen [of "\<lambda>_. True" demo_cf "(5, acquired_db)" 5 acquired_db release_event] start
    by (simp add: released_db_def)
  note claim = acquisition_key_settled [OF r demo_ok(1) this, of want_box "at 20" 20 key_id True]
  have "\<exists>resp2. acquire_lease id (at 20) 20 key_id want_box ''k'' alice_id True released_db = Inr (resp2, released_db) \<and>
      lr_id resp2 = lr_id resp"
    using claim by auto
  with r show ?thesis by blast
qed

lemma acquired_then_released: "map l_end_reason (db_leases released_db) = [Some Released]"
  by code_simp

end
