(* ===== verification/Leasing_Burst.thy ===== *)
theory Leasing_Burst
  imports Leasing_Acquire
begin

text \<open>
  A burst of acquisitions of exclusive resources: as many succeed as there are free matching resources,
  each on a resource of its own. This is what \<open>run_concurrency_probe\<close> of the release acceptance
  expects of a deployed service.
\<close>

subsection \<open>Bursts\<close>

text \<open>One attempt: its transaction, the application's clock, the identifier drawn and the idempotency key.\<close>

record attempt =
  am_cx :: ctx
  am_now :: instant
  am_lease :: uuid
  am_key :: string

fun acquire_each ::
  "(string \<Rightarrow> string) \<Rightarrow> lease_create \<Rightarrow> uuid \<Rightarrow> bool \<Rightarrow> attempt list \<Rightarrow> db \<Rightarrow> (exc + lease_response) list \<times> db" where
  "acquire_each sha rq pid adm [] d = ([], d)"
| "acquire_each sha rq pid adm (a # rest) d =
     (let (r, d1) = run_tx (acquire_lease sha (am_cx a) (am_now a) (am_lease a) rq (am_key a) pid adm) d;
          (rs, d2) = acquire_each sha rq pid adm rest d1
      in (r # rs, d2))"

fun acquired :: "(exc + lease_response) list \<Rightarrow> lease_response list" where
  "acquired [] = []"
| "acquired (Inr r # rest) = r # acquired rest"
| "acquired (Inl e # rest) = acquired rest"

definition clock :: "instant \<Rightarrow> ctx" where
  "clock t = \<lparr>cx_now = t, cx_correlation = []\<rparr>"

text \<open>The resources a request could be given at an instant.\<close>

definition hosts_at :: "instant \<Rightarrow> lease_create \<Rightarrow> uuid \<Rightarrow> bool \<Rightarrow> db \<Rightarrow> uuid list" where
  "hosts_at t rq pid adm d = map r_id (filter (candidate_ok (clock t) rq pid adm d) (db_resources d))"

text \<open>A lease of \<open>r\<close> granted at \<open>now\<close> outlives \<open>t\<close>.\<close>

definition outlives :: "instant \<Rightarrow> lease_create \<Rightarrow> instant \<Rightarrow> resource \<Rightarrow> bool" where
  "outlives t rq now r \<longleftrightarrow> (case (case lc_ttl rq of Some ttl \<Rightarrow> ttl | None \<Rightarrow> r_default_ttl r) of
       None \<Rightarrow> True | Some n \<Rightarrow> t < now + n * 1000000)"

subsection \<open>One acquisition takes one resource\<close>

lemma outlives_stamped [simp]:
  "outlives t rq now (r\<lparr>r_last_leased_at := x, r_updated_at := y\<rparr>) = outlives t rq now r"
  by (cases "lc_ttl rq") (simp_all add: outlives_def)

lemma candidate_ok_clock: "candidate_ok cx rq pid adm d r = candidate_ok (clock (cx_now cx)) rq pid adm d r"
  by (simp add: candidate_ok_def clock_def)

lemma candidate_ok_later:
  assumes "t \<le> t'" and "candidate_ok (clock t) rq pid adm d r"
  shows "candidate_ok (clock t') rq pid adm d r"
  using assms(2) active_count_later [OF assms(1), of d "r_id r"] by (auto simp: candidate_ok_def clock_def)

lemma hosts_later: "t \<le> t' \<Longrightarrow> set (hosts_at t rq pid adm d) \<subseteq> set (hosts_at t' rq pid adm d)"
  by (auto simp: hosts_at_def intro: candidate_ok_later)

lemma create_lease_frame:
  assumes "create_lease cx app_now lid rq key hash pid c d = Inr (resp, d')"
  shows "db_principals d' = db_principals d \<and> db_groups d' = db_groups d \<and> db_memberships d' = db_memberships d \<and>
    db_pgrants d' = db_pgrants d \<and> db_ggrants d' = db_ggrants d"
  using assms
proof (cases rule: create_lease_cases)
  case (1 ttl l d1 d2)
  have "d1 = d\<lparr>db_leases := db_leases d @ [l]\<rparr>"
    using 1(3) by (auto simp: write_leases_def split: if_splits)
  with update_resourcesD(1) [OF 1(4)] record_audit_event_frame [OF 1(5)] show ?thesis by simp
qed

lemma hosts_created:
  assumes "create_lease cx app_now lid rq key hash pid c d = Inr (resp, d')" and "lc_sharing_mode rq = Exclusive"
    and "outlives t1 rq app_now c" and "t \<le> t1"
  shows "hosts_at t rq pid adm d' = filter (\<lambda>i. i \<noteq> r_id c) (hosts_at t rq pid adm d)"
proof -
  let ?f = "\<lambda>r. r\<lparr>r_last_leased_at := Some app_now, r_updated_at := cx_now cx\<rparr>"
  obtain ttl where ttl: "resolve_ttl c (supplied_ttl (lc_ttl rq)) (lc_ttl rq \<noteq> None) = Inr ttl"
    and leases: "db_leases d' = db_leases d @ [new_lease lid (r_id c) pid rq app_now ttl key hash]" (is "_ = _ @ [?l]")
    and rows: "db_resources d' = update_where (\<lambda>r. r_id r = r_id c) ?f (db_resources d)"
    using assms(1) by (rule create_lease_tables) blast
  have "ttl = (case lc_ttl rq of Some t \<Rightarrow> t | None \<Rightarrow> r_default_ttl c)"
    using ttl by (auto simp: resolve_ttl_Inr supplied_ttl_def split: option.splits)
  with assms(3,4) have "active_lease t ?l"
    by (auto simp: outlives_def active_lease_def new_lease_def expiry_def split: option.splits)
  moreover have "l_resource_id ?l = r_id c" by (simp add: new_lease_def)
  ultimately have count: "active_count t d' i = active_count t d i + (if i = r_id c then 1 else 0)" for i
    using active_count_snoc [OF leases, of t i] by auto
  have visible: "resource_visible d' pid r = resource_visible d pid r" for r
    by (simp add: resource_visible_def direct_grant_def group_grant_via_def create_lease_frame [OF assms(1)])
  have ok: "candidate_ok (clock t) rq pid adm d' (if r_id r = r_id c then ?f r else r) \<longleftrightarrow>
      candidate_ok (clock t) rq pid adm d r \<and> r_id r \<noteq> r_id c" for r
    using assms(2)
    by (simp add: candidate_ok_def count clock_def visible [unfolded resource_visible_def] resource_visible_def)
  have "map r_id (filter (candidate_ok (clock t) rq pid adm d') (update_where (\<lambda>r. r_id r = r_id c) ?f rs)) =
      filter (\<lambda>i. i \<noteq> r_id c) (map r_id (filter (candidate_ok (clock t) rq pid adm d) rs))" for rs
    using ok by (induction rs) auto
  then show ?thesis by (simp add: hosts_at_def rows)
qed

lemma distinct_length_filter_other:
  "distinct xs \<Longrightarrow> x \<in> set xs \<Longrightarrow> length xs = Suc (length (filter (\<lambda>y. y \<noteq> x) xs))"
proof (induction xs)
  case (Cons y ys)
  have "filter (\<lambda>z. z \<noteq> y) ys = ys" using Cons.prems by (auto simp: filter_id_conv)
  with Cons show ?case by (cases "x = y") auto
qed simp

subsection \<open>A burst exhausts the free resources\<close>

text \<open>
  A burst that can start: its lease identifiers and keys are new, its transactions run between \<open>t0\<close> and
  \<open>t1\<close>, no resource becomes free by expiry in between, and no lease it is granted expires by \<open>t1\<close>.
\<close>

definition burst_ready ::
  "instant \<Rightarrow> instant \<Rightarrow> lease_create \<Rightarrow> uuid \<Rightarrow> bool \<Rightarrow> attempt list \<Rightarrow> db \<Rightarrow> bool" where
  "burst_ready t0 t1 rq pid adm as d \<longleftrightarrow>
     db_ok d \<and> principal_exists d pid \<and> hosts_at t0 rq pid adm d = hosts_at t1 rq pid adm d \<and>
     distinct (map am_lease as) \<and> distinct (map am_key as) \<and>
     list_all (\<lambda>a. t0 \<le> cx_now (am_cx a) \<and> cx_now (am_cx a) \<le> t1 \<and>
       list_all (\<lambda>l. l_id l \<noteq> am_lease a \<and> (l_acquired_by l, l_idempotency_key l) \<noteq> (pid, am_key a)) (db_leases d) \<and>
       list_all (outlives t1 rq (am_now a)) (db_resources d)) as"

abbreviation no_match :: exc where
  "no_match \<equiv> http 409 ''No matching resource is available''"

lemma burst_step:
  assumes ready: "burst_ready t0 t1 rq pid adm (a # rest) d"
    and rq: "validate_lease_create rq = Inr rq" "lc_sharing_mode rq = Exclusive"
  obtains (refused) "hosts_at t0 rq pid adm d = []" "burst_ready t0 t1 rq pid adm rest d"
      "acquire_lease sha (am_cx a) (am_now a) (am_lease a) rq (am_key a) pid adm d = Inl no_match"
    | (granted) resp d' where
      "acquire_lease sha (am_cx a) (am_now a) (am_lease a) rq (am_key a) pid adm d = Inr (resp, d')"
      "rr_id (lr_resource resp) \<in> set (hosts_at t0 rq pid adm d)"
      "hosts_at t0 rq pid adm d' = filter (\<lambda>i. i \<noteq> rr_id (lr_resource resp)) (hosts_at t0 rq pid adm d)"
      "burst_ready t0 t1 rq pid adm rest d'"
proof -
  let ?t = "cx_now (am_cx a)"
  have within: "t0 \<le> ?t" "?t \<le> t1" and ok: "db_ok d" "principal_exists d pid"
    and steady: "hosts_at t0 rq pid adm d = hosts_at t1 rq pid adm d"
    and fresh: "am_lease a \<notin> l_id ` set (db_leases d)"
    and key: "filter (\<lambda>l. l_acquired_by l = pid \<and> l_idempotency_key l = am_key a) (db_leases d) = []"
    using ready by (auto simp: burst_ready_def list_all_iff filter_empty_conv)
  have hosts: "set (hosts_at ?t rq pid adm d) = set (hosts_at t0 rq pid adm d)"
    using hosts_later [OF within(1), of rq pid adm d] hosts_later [OF within(2), of rq pid adm d] steady by simp
  show ?thesis
  proof (cases "select_candidate (am_cx a) rq pid adm d")
    case None
    then have "hosts_at ?t rq pid adm d = []"
      by (auto simp: select_candidate_None_iff hosts_at_def filter_empty_conv candidate_ok_clock [of "am_cx a"])
    with hosts have "hosts_at t0 rq pid adm d = []" by simp
    moreover have "acquire_lease sha (am_cx a) (am_now a) (am_lease a) rq (am_key a) pid adm d = Inl no_match"
      using None key by (simp add: acquire_lease_def)
    moreover have "burst_ready t0 t1 rq pid adm rest d" using ready by (simp add: burst_ready_def)
    ultimately show ?thesis by (intro refused)
  next
    case (Some c)
    note c = select_candidateD(1,2) [OF Some]
    obtain resp d' where made:
      "create_lease (am_cx a) (am_now a) (am_lease a) rq (am_key a) (request_hash sha rq) pid c d = Inr (resp, d')"
      using create_lease_succeeds [OF ok rq(1) c fresh key] by blast
    have "active_leases ?t d (r_id c) = []"
      using c(2) rq(2) by (simp add: candidate_ok_def active_count_def)
    with Some key made have
      got: "acquire_lease sha (am_cx a) (am_now a) (am_lease a) rq (am_key a) pid adm d = Inr (resp, d')"
      by (simp add: acquire_lease_def)
    obtain ttl where leases: "db_leases d' = db_leases d @
        [new_lease (am_lease a) (r_id c) pid rq (am_now a) ttl (am_key a) (request_hash sha rq)]"
      and rows: "db_resources d' = update_where (\<lambda>r. r_id r = r_id c)
       (\<lambda>r. r\<lparr>r_last_leased_at := Some (am_now a), r_updated_at := ?t\<rparr>) (db_resources d)"
      and rid: "rr_id (lr_resource resp) = r_id c" and kept: "db_ok d' \<and> extends d d'"
      using made by (rule create_lease_tables) (use ok(1) in blast)
    have long: "outlives t1 rq (am_now a) c" using ready c(1) by (simp add: burst_ready_def list_all_iff)
    have taken: "hosts_at t rq pid adm d' = filter (\<lambda>i. i \<noteq> r_id c) (hosts_at t rq pid adm d)" if "t \<le> t1" for t
      by (rule hosts_created [OF made rq(2) long that])
    have "r_id c \<in> set (hosts_at t0 rq pid adm d)"
      unfolding hosts [symmetric] using c by (auto simp: hosts_at_def candidate_ok_clock [of "am_cx a"])
    moreover have "burst_ready t0 t1 rq pid adm rest d'"
      using ready kept ok(2) taken [of t0] taken [of t1] within
      by (auto simp: burst_ready_def list_all_iff leases rows set_update_where new_lease_def extends_def)
    ultimately show ?thesis using granted [OF got] rid taken [of t0] within by simp
  qed
qed

lemma hosts_distinct: "db_ok d \<Longrightarrow> distinct (hosts_at t rq pid adm d)"
  by (simp add: hosts_at_def db_ok_def resources_valid_def unique_on_def distinct_map_filter)

lemma burst_outcome:
  assumes "validate_lease_create rq = Inr rq" and "lc_sharing_mode rq = Exclusive"
    and "burst_ready t0 t1 rq pid adm as d" and "acquire_each sha rq pid adm as d = (rs, d')"
  shows "length (acquired rs) = min (length as) (length (hosts_at t0 rq pid adm d)) \<and>
    distinct (map (\<lambda>r. rr_id (lr_resource r)) (acquired rs)) \<and>
    set (map (\<lambda>r. rr_id (lr_resource r)) (acquired rs)) \<subseteq> set (hosts_at t0 rq pid adm d) \<and>
    length rs = length as \<and> set rs \<subseteq> Inr ` UNIV \<union> {Inl no_match}"
  using assms(3,4)
proof (induction "as" arbitrary: d rs)
  case Nil
  then show ?case by simp
next
  case (Cons a rest)
  obtain rs' where rs': "acquire_each sha rq pid adm rest
      (snd (run_tx (acquire_lease sha (am_cx a) (am_now a) (am_lease a) rq (am_key a) pid adm) d)) = (rs', d')"
    "rs = fst (run_tx (acquire_lease sha (am_cx a) (am_now a) (am_lease a) rq (am_key a) pid adm) d) # rs'"
    using Cons.prems(2) by (auto split: prod.splits)
  from Cons.prems(1) assms(1,2) show ?case
  proof (cases rule: burst_step [where sha = sha])
    case refused
    with rs' Cons.IH [of d rs'] show ?thesis by (auto simp: run_tx_Inl)
  next
    case (granted resp d1)
    have "distinct (hosts_at t0 rq pid adm d)"
      using Cons.prems(1) by (intro hosts_distinct) (simp add: burst_ready_def)
    with granted(2) have "length (hosts_at t0 rq pid adm d) = Suc (length (hosts_at t0 rq pid adm d1))"
      unfolding granted(3) by (simp add: distinct_length_filter_other)
    with rs' granted Cons.IH [of d1 rs'] show ?thesis by (auto simp: run_tx_Inr)
  qed
qed

text \<open>
  C16: A burst of acquisitions of exclusive resources shares the free resources out: of \<open>n\<close> attempts
  with new keys on \<open>m\<close> free matching resources exactly the smaller of \<open>n\<close> and \<open>m\<close> succeed, each on a free
  resource of its own, and every other attempt is answered 409 "No matching resource is available". The
  transactions run one after the other in any order between \<open>t0\<close> and \<open>t1\<close>, each at its own time and with its own application clock, as
  long as no resource frees up by expiry and no new lease expires meanwhile (\<open>burst_ready\<close>). Of transactions that
  interleave one may be refused beside a free resource: \<open>acquisition_refused_beside_free_resource\<close>.
\<close>

theorem exclusive_hosts_exhausted:
  assumes "validate_lease_create rq = Inr rq" and "lc_sharing_mode rq = Exclusive"
    and "burst_ready t0 t1 rq pid adm as d" and "acquire_each sha rq pid adm as d = (rs, d')"
  shows "length (acquired rs) = min (length as) (length (hosts_at t0 rq pid adm d)) \<and>
    distinct (map (\<lambda>r. rr_id (lr_resource r)) (acquired rs)) \<and>
    set (map (\<lambda>r. rr_id (lr_resource r)) (acquired rs)) \<subseteq> set (hosts_at t0 rq pid adm d) \<and>
    length rs = length as \<and> set rs \<subseteq> Inr ` UNIV \<union> {Inl no_match}"
  using assms by (rule burst_outcome)

end
