(* ===== verification/Witnesses_Leases.thy ===== *)
theory Witnesses_Leases
  imports Demo Leasing_Burst
begin

text \<open>The theorems on the later life of a lease and on its secrets, at concrete inputs.\<close>

subsection \<open>Renewal, release and expiration\<close>

lemma alice_renews: "\<exists>resp d'. renew_lease (at 9) 9 10 lease_id None alice_id leased_db = Inr (resp, d')"
  by (rule ran) code_simp

lemma renew_effect_witness:
  "\<exists>resp d' l. renew_lease (at 9) 9 10 lease_id None alice_id leased_db = Inr (resp, d') \<and>
     l \<in> set (db_leases leased_db) \<and> l_id l = lease_id \<and> l_acquired_by l = alice_id \<and> l_ended_at l = None"
proof -
  obtain resp d' where r: "renew_lease (at 9) 9 10 lease_id None alice_id leased_db = Inr (resp, d')"
    using alice_renews by blast
  from renew_effect [OF r demo_ok(2)] r show ?thesis by blast
qed

lemma demo_lease_due: "demo_lease \<in> set (db_leases leased_db)" "due_lease 60000000 demo_lease"
  by code_simp+

lemma renew_refuses_dead_lease_witness:
  "renew_lease (at 9) 60000000 60000001 (l_id demo_lease) None (l_acquired_by demo_lease) leased_db =
     Inl (http 409 ''Only an active lease can be renewed'')"
  using renew_refuses_dead_lease [OF demo_ok(2) demo_lease_due(1)] demo_lease_due(2) by simp

lemma alice_releases: "\<exists>resp d'. end_lease (at 9) lease_id alice_id Released leased_db = Inr (resp, d')"
  by (rule ran) code_simp

lemma end_lease_idempotent_witness:
  "\<exists>resp d' resp2. end_lease (at 9) lease_id alice_id Released leased_db = Inr (resp, d') \<and>
     end_lease (at 12) lease_id root_id Revoked d' = Inr (resp2, d') \<and>
     lr_ended_at resp2 = lr_ended_at resp"
proof -
  obtain resp d' where r: "end_lease (at 9) lease_id alice_id Released leased_db = Inr (resp, d')"
    using alice_releases by blast
  from end_lease_idempotent [OF r demo_ok(2), of Revoked root_id "at 12"] r show ?thesis by auto
qed

lemma end_lease_frees_resource_witness:
  "\<exists>resp d'. end_lease (at 9) lease_id alice_id Released leased_db = Inr (resp, d') \<and>
     active_count 9 leased_db box_id = active_count 9 d' box_id + 1"
proof -
  have l: "l_id demo_lease = lease_id" "l_resource_id demo_lease = box_id" "active_lease 9 demo_lease"
    by code_simp+
  then show ?thesis
    using alice_releases end_lease_frees_resource [OF _ demo_ok(2) demo_lease_due(1) l(1), where t = 9]
    by auto
qed

lemma expire_batch_effect_witness:
  "\<exists>d'. expire_due_leases (at 60000000) 100 leased_db = Inr (1, d') \<and> length (db_audit d') = 1 \<and>
     map l_end_reason (db_leases d') = [Some Expired]"
proof -
  have "length (filter (due_lease (cx_now (at 60000000))) (db_leases leased_db)) = 1"
    "due_ids (cx_now (at 60000000)) 100 leased_db = [lease_id]"
    "map l_id (db_leases leased_db) = [lease_id]" "db_audit leased_db = []" by code_simp+
  with expire_batch_effect [OF demo_ok(2) refl refl, of "at 60000000" 100] show ?thesis by auto
qed

lemma worker_drains_backlog_witness:
  "\<exists>evs d'. run_worker 100 [(at 60000000, None), (at 60000000, None)] leased_db = (evs, d') \<and>
     due_count 60000000 leased_db = 1 \<and> due_count 60000000 d' = 0"
proof -
  obtain evs d' where run: "run_worker 100 [(at 60000000, None), (at 60000000, None)] leased_db = (evs, d')" by fastforce
  have "due_count 60000000 leased_db = 1" by code_simp
  with worker_drains_backlog [OF demo_ok(2) _ run, of 60000000] run show ?thesis by (simp add: at_def published_def)
qed

lemma fetch_lease_authorization_witness:
  "fetch_lease (at 9) lease_id robot_id False leased_db = Inl (http 404 ''Lease not found'')"
proof -
  have "\<not> (\<exists>l \<in> set (db_leases leased_db). l_id l = lease_id \<and> (False \<or> l_acquired_by l = robot_id))"
    by code_simp
  with fetch_lease_authorization [OF demo_ok(2),
      where cx = "at 9" and lid = lease_id and pid = robot_id and administrator = False] show ?thesis
    by (auto split: sum.splits)
qed

definition all_leases :: lease_query where
  "all_leases = \<lparr>lq_resource_id = None, lq_state = None, lq_acquired_by = None, lq_consumer = None,
     lq_acquired_after = None, lq_acquired_before = None, lq_expires_after = None,
     lq_expires_before = None, lq_offset = 0, lq_limit = 50\<rparr>"

lemma list_leases_confidential_witness:
  "\<exists>pg. list_leases (at 9) all_leases alice_id False leased_db = Inr pg \<and>
     (\<forall>i \<in> set (pr_items pg). lr_acquired_by i = alice_id) \<and> length (pr_items pg) = 1"
proof -
  have "case list_leases (at 9) all_leases alice_id False leased_db of
      Inl _ \<Rightarrow> False | Inr pg \<Rightarrow> length (pr_items pg) = 1" by code_simp
  with list_leases_confidential [OF demo_ok(2), of "at 9" all_leases alice_id False] show ?thesis
    by (auto split: sum.splits)
qed

lemma expire_batch_keeps_occupancy_witness:
  "\<exists>n d'. expire_due_leases (at 60000000) 100 leased_db = Inr (n, d') \<and>
     active_leases 60000000 d' box_id = active_leases 60000000 leased_db box_id"
proof -
  have "\<exists>n d'. expire_due_leases (at 60000000) 100 leased_db = Inr (n, d')" by (rule ran) code_simp
  moreover have "cx_now (at 60000000) \<le> 60000000" by (simp add: at_def)
  ultimately show ?thesis using expire_batch_keeps_occupancy [OF _ demo_ok(2)] by metis
qed

subsection \<open>Secrets\<close>

definition ssh_key :: secret_create where
  "ssh_key = \<lparr>sc_name = ''ssh'', sc_description = None, sc_material = ManagedMaterial ''s3cret''\<rparr>"

definition nonce :: bytes where "nonce = replicate 12 9"

lemma nonce_bytes: "all_bytes nonce"
  by code_simp

lemma sealed: "\<exists>envelope kid. encrypt toy_aead toy_cipher nonce ''s3cret'' box_id key_id = Inr (envelope, kid)"
  by (rule ran) code_simp

lemma decrypt_encrypt_witness:
  "\<exists>envelope kid. encrypt toy_aead toy_cipher nonce ''s3cret'' box_id key_id = Inr (envelope, kid) \<and>
     decrypt toy_aead id toy_cipher envelope kid box_id key_id = Inr ''s3cret''"
  using sealed decrypt_encrypt [OF toy_correct nonce_bytes _ refl] by metis

lemma moved_envelope_rejected_witness:
  "\<exists>envelope kid. encrypt toy_aead toy_cipher nonce ''s3cret'' box_id key_id = Inr (envelope, kid) \<and>
     decrypt toy_aead id toy_cipher envelope kid pool_id key_id =
       Inl (SecretDecryptionError ''Managed secret could not be decrypted'')"
proof -
  obtain envelope kid where e: "encrypt toy_aead toy_cipher nonce ''s3cret'' box_id key_id = Inr (envelope, kid)"
    using sealed by blast
  have "(pool_id, key_id) \<noteq> (box_id, key_id)" by code_simp
  from moved_envelope_rejected [OF e nonce_bytes toy_correct this, where fo = id] e
  show ?thesis by (simp add: toy_opens)
qed

lemma root_creates:
  "\<exists>resp d'. create_resource_secret toy_aead toy_cipher (at 3) key_id nonce box_id ssh_key root_id leased_db = Inr (resp, d')"
  by (rule ran) code_simp

lemma created_secret_is_disclosed_witness:
  "\<exists>resp d' d''.
     create_resource_secret toy_aead toy_cipher (at 3) key_id nonce box_id ssh_key root_id leased_db = Inr (resp, d') \<and>
     access_resource_secret_as_admin toy_aead id toy_cipher (at 4) box_id key_id root_id d' =
       Inr (ManagedSecretAccess key_id ''ssh'' ''s3cret'', d'')"
proof -
  obtain resp d' where
    c: "create_resource_secret toy_aead toy_cipher (at 3) key_id nonce box_id ssh_key root_id leased_db = Inr (resp, d')"
    using root_creates by blast
  have "principal_exists leased_db root_id" by code_simp
  from created_secret_is_disclosed [OF c demo_ok(2) toy_correct nonce_bytes this,
      where later = toy_cipher and fo = id and ?cx2.0 = "at 4"] c
  show ?thesis by (auto simp: ssh_key_def)
qed

text \<open>A database with a reference to a secret that is kept elsewhere.\<close>

definition vault_key :: secret_create where
  "vault_key = \<lparr>sc_name = ''ssh'', sc_description = None, sc_material = ExternalMaterial ''vault'' ''kv''\<rparr>"

definition secret_db :: db where
  "secret_db = (case create_resource_secret toy_aead toy_cipher (at 3) key_id nonce box_id vault_key root_id leased_db of
     Inl _ \<Rightarrow> leased_db | Inr (_, d) \<Rightarrow> d)"

lemma secret_db_ok: "db_ok secret_db"
  by code_simp

lemma lease_disclosure_authorized_witness:
  "\<exists>result d' l. access_lease_secret toy_aead id toy_cipher (at 9) lease_id key_id alice_id False secret_db = Inr (result, d') \<and>
     l \<in> set (db_leases secret_db) \<and> l_acquired_by l = alice_id \<and> l_ended_at l = None"
proof -
  have "\<exists>result d'. access_lease_secret toy_aead id toy_cipher (at 9) lease_id key_id alice_id False secret_db = Inr (result, d')"
    by (rule ran) code_simp
  then obtain result d' where
    a: "access_lease_secret toy_aead id toy_cipher (at 9) lease_id key_id alice_id False secret_db = Inr (result, d')"
    by blast
  from lease_disclosure_authorized [OF a] a show ?thesis by blast
qed

lemma lease_secret_route_outcome_witness:
  "\<exists>result d' ev. access_through_lease_route id (\<lambda>_. ''subject'') toy_aead id toy_cipher 5 60 (at 9) (as_alice 9)
      lease_id key_id secret_db = (Inr (result, NO_STORE), d') \<and>
     db_audit d' = db_audit secret_db @ [ev] \<and> a_action ev = ''resource_secret.accessed''"
proof -
  let ?run = "access_through_lease_route id (\<lambda>_. ''subject'') toy_aead id toy_cipher 5 60 (at 9) (as_alice 9)
      lease_id key_id secret_db"
  have "\<not> isl (fst ?run)" by code_simp
  then obtain result headers d' where r: "?run = (Inr (result, headers), d')"
    by (cases ?run; cases "fst ?run") auto
  from lease_secret_route_outcome [OF r] r show ?thesis by auto
qed

definition rename_key :: secret_update where
  "rename_key = \<lparr>su_version = 1, su_name = Some ''ssh2'', su_description = None, su_material = None\<rparr>"

lemma secret_update_no_lost_update_witness:
  "\<exists>resp d'. update_resource_secret toy_aead toy_cipher (at 9) nonce box_id key_id rename_key root_id secret_db = Inr (resp, d') \<and>
     (\<forall>res. update_resource_secret toy_aead toy_cipher (at 10) nonce box_id key_id rename_key root_id d' \<noteq> Inr res)"
proof -
  have "\<exists>resp d'. update_resource_secret toy_aead toy_cipher (at 9) nonce box_id key_id rename_key root_id secret_db = Inr (resp, d')"
    by (rule ran) code_simp
  then obtain resp d' where
    u: "update_resource_secret toy_aead toy_cipher (at 9) nonce box_id key_id rename_key root_id secret_db = Inr (resp, d')"
    by blast
  have "su_name rename_key \<noteq> None \<or> su_description rename_key \<noteq> None \<or> su_material rename_key \<noteq> None"
    by (simp add: rename_key_def)
  from secret_update_no_lost_update [OF u secret_db_ok this] u show ?thesis by blast
qed

subsection \<open>A burst on two hosts\<close>

definition twin_db :: db where
  "twin_db = demo_db\<lparr>db_resources := [box, box\<lparr>r_id := UUID 12, r_name := ''twin''\<rparr>, pool]\<rparr>"

definition burst :: "attempt list" where
  "burst = map (\<lambda>n. \<lparr>am_cx = at (5 + int n), am_now = 4, am_lease = UUID (50 + of_nat n), am_key = replicate n CHR ''k''\<rparr>)
     [0, 2, 1]"

lemma exclusive_hosts_exhausted_witness:
  "\<exists>rs d'. acquire_each id want_box alice_id False burst twin_db = (rs, d') \<and> length burst = 3 \<and>
     hosts_at 5 want_box alice_id False twin_db = [box_id, UUID 12] \<and> length (acquired rs) = 2"
proof -
  have ready: "validate_lease_create want_box = Inr want_box" "lc_sharing_mode want_box = Exclusive"
    "burst_ready 5 9 want_box alice_id False burst twin_db"
    and hosts: "hosts_at 5 want_box alice_id False twin_db = [box_id, UUID 12]" "length burst = 3" by code_simp+
  obtain rs d' where run: "acquire_each id want_box alice_id False burst twin_db = (rs, d')" by fastforce
  from exclusive_hosts_exhausted [OF ready run] run hosts show ?thesis by simp
qed

end
