(* ===== verification/Rate_Limits_Laws.thy ===== *)
theory Rate_Limits_Laws
  imports Rate_Limits
begin

text \<open>
  What the limiter guarantees. The locale \<open>fixed_window\<close> is the contract a client relies on:
  an attempt with no live window opens one and counts as its first, an attempt in a live window
  counts one more, and the answer is the comparison with the allowance. Within it, a burst is
  shown to pass exactly its first attempts. The interpretation on \<open>enforce_rate_limit\<close> shows
  that the cleanup of expired rows and the upsert implement the contract.
\<close>

lemma upt_Suc_first: "[0..<Suc n] = 0 # map Suc [0..<n]"
  by (simp add: upt_conv_Cons map_Suc_upt del: upt_Suc)

locale fixed_window =
  fixes live :: "instant \<Rightarrow> 's \<Rightarrow> (int \<times> instant) option"
    and attempt :: "instant \<Rightarrow> 's \<Rightarrow> bool \<times> 's"
    and valid :: "'s \<Rightarrow> bool"
    and allowed :: int and width :: int and ceiling :: int
  assumes opens: "valid s \<Longrightarrow> live now s = None \<Longrightarrow> \<exists>s'. attempt now s = (1 \<le> allowed, s') \<and> valid s' \<and>
      (\<forall>t. live t s' = (if t < now + width then Some (1, now + width) else None))"
    and counts: "valid s \<Longrightarrow> live now s = Some (n, e) \<Longrightarrow> n < ceiling \<Longrightarrow>
      \<exists>s'. attempt now s = (n + 1 \<le> allowed, s') \<and> valid s' \<and>
        (\<forall>t. live t s' = (if t < e then Some (n + 1, e) else None))"
begin

fun burst :: "instant list \<Rightarrow> 's \<Rightarrow> bool list \<times> 's" where
  "burst [] s = ([], s)"
| "burst (t # ts) s =
     (let (ok, s1) = attempt t s; (oks, s2) = burst ts s1 in (ok # oks, s2))"

lemma burst_in_window:
  assumes "valid s" and "\<And>t. t < e \<Longrightarrow> live t s = Some (n, e)" and "\<forall>t \<in> set ts. t < e"
    and "n + int (length ts) \<le> ceiling"
  shows "fst (burst ts s) = map (\<lambda>k. n + int k + 1 \<le> allowed) [0..<length ts]"
  using assms
proof (induction ts arbitrary: s n)
  case (Cons t ts)
  have "live t s = Some (n, e)" using Cons.prems(2,3) by simp
  moreover have "n < ceiling" using Cons.prems(4) by simp
  ultimately obtain s1 where s1: "attempt t s = (n + 1 \<le> allowed, s1)" "valid s1"
    "\<And>t. live t s1 = (if t < e then Some (n + 1, e) else None)"
    using counts [OF Cons.prems(1)] by blast
  have "fst (burst ts s1) = map (\<lambda>k. n + 1 + int k + 1 \<le> allowed) [0..<length ts]"
    using Cons.prems(3,4) s1(3) by (intro Cons.IH [OF s1(2)]) simp_all
  moreover have "n + int (Suc k) + 1 = n + 1 + int k + 1" for k by simp
  ultimately show ?case using s1(1)
    by (simp only: burst.simps Let_def prod.case fst_conv case_prod_beta length_Cons upt_Suc_first
        list.map list.map_comp comp_def snd_conv) simp
qed simp

lemma fresh_burst:
  assumes "valid s" and "live t s = None" and "\<forall>u \<in> set ts. u < t + width" and "1 + int (length ts) \<le> ceiling"
  shows "fst (burst (t # ts) s) = map (\<lambda>k. int k < allowed) [0..<Suc (length ts)]"
proof -
  obtain s1 where s1: "attempt t s = (1 \<le> allowed, s1)" "valid s1"
    "\<And>u. live u s1 = (if u < t + width then Some (1, t + width) else None)"
    using opens [OF assms(1,2)] by blast
  have "fst (burst ts s1) = map (\<lambda>k. 1 + int k + 1 \<le> allowed) [0..<length ts]"
    using assms(3,4) s1(3) by (intro burst_in_window [OF s1(2)]) simp_all
  moreover have "(1 + int k + 1 \<le> allowed) = (int (Suc k) < allowed)" for k by auto
  moreover have "(1 \<le> allowed) = (0 < allowed)" by auto
  ultimately show ?thesis using s1(1)
    by (simp only: burst.simps Let_def prod.case fst_conv case_prod_beta length_Cons upt_Suc_first
        list.map list.map_comp comp_def snd_conv) simp
qed

end

subsection \<open>The stored windows implement the contract\<close>

definition live_window :: "string \<Rightarrow> string \<Rightarrow> instant \<Rightarrow> db \<Rightarrow> (int \<times> instant) option" where
  "live_window scope subject_hash now d =
     map_option (\<lambda>w. (w_attempts w, w_expires_at w))
       (first_row (filter (\<lambda>w. is_window scope subject_hash w \<and> now < w_expires_at w) (db_windows d)))"

lemma windows_unique: "db_ok d \<Longrightarrow> unique_on (\<lambda>w. (w_scope w, w_subject_hash w)) (db_windows d)"
  by (simp add: db_ok_def windows_valid_def)

lemma windows_of_key:
  assumes "unique_on (\<lambda>w. (w_scope w, w_subject_hash w)) ws" and "w \<in> set ws" and "is_window sc su w"
  shows "filter (is_window sc su) ws = [w]"
  using assms(1,2) by (rule unique_on_filter_single) (use assms(3) in \<open>auto simp: is_window_def\<close>)

lemma live_of_single:
  assumes "filter (is_window sc su) (db_windows d) = [w]"
  shows "live_window sc su t d = (if t < w_expires_at w then Some (w_attempts w, w_expires_at w) else None)"
proof -
  have "filter (\<lambda>w. is_window sc su w \<and> t < w_expires_at w) (db_windows d) =
      filter (\<lambda>w. t < w_expires_at w) (filter (is_window sc su) (db_windows d))"
    by (simp add: conj_commute)
  then show ?thesis by (simp add: live_window_def assms)
qed

lemma live_of_none: "filter (is_window sc su) (db_windows d) = [] \<Longrightarrow> live_window sc su t d = None"
  by (auto simp: live_window_def filter_empty_conv)

lemma cleanup_subset: "set (cleanup_windows now ws) \<subseteq> set ws"
  by (simp add: cleanup_windows_def Let_def)

lemma cleanup_keeps_live: "w \<in> set ws \<Longrightarrow> now < w_expires_at w \<Longrightarrow> w \<in> set (cleanup_windows now ws)"
  by (auto simp: cleanup_windows_def Let_def dest: in_set_takeD)

lemma windows_valid_cleanup: "windows_valid d ws \<Longrightarrow> windows_valid d' (cleanup_windows now ws)"
  by (auto simp: windows_valid_def cleanup_windows_def Let_def delete_where_def list_all_iff
      intro: unique_on_filter)

lemma windows_valid_bump:
  assumes "windows_valid d ws" and "0 < width"
  shows "windows_valid d' (update_where (is_window sc su) (bump_window now width) ws)"
proof -
  have "list_all rate_window_check (update_where (is_window sc su) (bump_window now width) ws)"
    using assms by (intro list_all_update_where) (auto simp: windows_valid_def rate_window_check_def bump_window_def)
  moreover have "unique_on (\<lambda>w. (w_scope w, w_subject_hash w)) (update_where (is_window sc su) (bump_window now width) ws)"
    using assms(1) by (subst unique_on_update_where) (auto simp: windows_valid_def bump_window_def)
  ultimately show ?thesis by (simp add: windows_valid_def)
qed

text \<open>The outcome of counting, by the row that is left after the cleanup.\<close>

lemma count_attempt_run:
  assumes "db_ok d" and "0 < width" and "ws = cleanup_windows (cx_now cx) (db_windows d)"
  shows "count_attempt cx sc su width d =
    (case filter (is_window sc su) ws of
       [] \<Rightarrow> Inr ((1, ceil_seconds (width * 1000000)),
               d\<lparr>db_windows := ws @ [fresh_window (cx_now cx) sc su width]\<rparr>)
     | w # _ \<Rightarrow>
         let b = bump_window (cx_now cx) width w in
         if w_attempts b > MAX_ATTEMPTS then Inl DataError
         else Inr ((w_attempts b, ceil_seconds (w_expires_at b - cx_now cx)),
                d\<lparr>db_windows := update_where (is_window sc su) (bump_window (cx_now cx) width) ws\<rparr>))"
proof -
  have v: "windows_valid e ws" for e
    unfolding assms(3) by (rule windows_valid_cleanup [of d]) (use assms(1) in \<open>simp add: db_ok_def\<close>)
  have w1: "write_windows (cleanup_windows (cx_now cx) (db_windows d)) d = Inr (d\<lparr>db_windows := ws\<rparr>)"
    using v by (simp add: write_windows_def assms(3))
  show ?thesis
  proof (cases "filter (is_window sc su) ws")
    case Nil
    then have none: "\<not> list_ex (is_window sc su) ws" by (auto simp: list_ex_iff filter_empty_conv)
    let ?f = "fresh_window (cx_now cx) sc su width"
    have "windows_valid (d\<lparr>db_windows := ws\<rparr>) (ws @ [?f])"
      using v [of d] assms(2) Nil
      by (auto simp: windows_valid_def rate_window_check_def fresh_window_def filter_empty_conv is_window_def)
    with none Nil w1 show ?thesis
      by (simp add: count_attempt_def upsert_window_def write_windows_def fresh_window_def is_window_def)
  next
    case (Cons w rest)
    then have mem: "w \<in> set ws" "is_window sc su w" by (auto simp: filter_eq_Cons_iff)
    have single: "filter (is_window sc su) ws = [w]"
      using v [of d] mem by (intro windows_of_key) (simp_all add: windows_valid_def)
    have only: "x \<in> set ws \<and> is_window sc su x \<longleftrightarrow> x = w" for x
      using mem filter_singleD(3) [OF single] by blast
    let ?b = "bump_window (cx_now cx) width"
    have ex: "list_ex (is_window sc su) ws" using mem by (auto simp: list_ex_iff)
    have over: "list_ex (\<lambda>x. is_window sc su x \<and> w_attempts (?b x) > MAX_ATTEMPTS) ws \<longleftrightarrow>
        w_attempts (?b w) > MAX_ATTEMPTS"
      unfolding list_ex_iff by (metis only)
    have key: "is_window sc su (?b x) = is_window sc su x" for x by (simp add: is_window_def bump_window_def)
    have "filter (is_window sc su) (update_where (is_window sc su) ?b ws) = [?b w]"
      using mem(2) by (subst filter_update_where) (simp_all add: key single)
    moreover have "windows_valid (d\<lparr>db_windows := ws\<rparr>) (update_where (is_window sc su) ?b ws)"
      using v assms(2) by (rule windows_valid_bump)
    ultimately show ?thesis
      using w1 ex over single
      by (simp add: count_attempt_def upsert_window_def write_windows_def Let_def)
  qed
qed

lemma live_cases:
  assumes "db_ok d" and "ws = cleanup_windows now (db_windows d)"
  obtains (dead) "live_window sc su now d = None" "filter (is_window sc su) ws = []"
  | (stale) w where "live_window sc su now d = None" "filter (is_window sc su) ws = [w]" "w_expires_at w \<le> now"
  | (running) w where "live_window sc su now d = Some (w_attempts w, w_expires_at w)"
      "filter (is_window sc su) ws = [w]" "now < w_expires_at w"
proof (cases "\<exists>w \<in> set (db_windows d). is_window sc su w")
  case False
  then have "filter (is_window sc su) (db_windows d) = []" by (simp add: filter_empty_conv)
  moreover have "filter (is_window sc su) ws = []"
    using False cleanup_subset unfolding assms(2) by (fastforce simp: filter_empty_conv)
  ultimately show thesis by (intro dead live_of_none)
next
  case True
  then obtain w where w: "w \<in> set (db_windows d)" "is_window sc su w" by blast
  have row: "filter (is_window sc su) (db_windows d) = [w]"
    using windows_unique [OF assms(1)] w by (rule windows_of_key)
  have uws: "unique_on (\<lambda>w. (w_scope w, w_subject_hash w)) ws"
    using windows_unique [OF assms(1)]
    by (simp add: assms(2) cleanup_windows_def Let_def delete_where_def unique_on_filter)
  show thesis
  proof (cases "now < w_expires_at w")
    case True
    then have "w \<in> set ws" using w(1) cleanup_keeps_live by (simp add: assms(2))
    then have "filter (is_window sc su) ws = [w]" by (rule windows_of_key [OF uws _ w(2)])
    with True show thesis using live_of_single [OF row, of now] by (intro running [of w]) simp_all
  next
    case False
    then have none: "live_window sc su now d = None" using live_of_single [OF row, of now] by simp
    show thesis
    proof (cases "w \<in> set ws")
      case True
      then have "filter (is_window sc su) ws = [w]" by (rule windows_of_key [OF uws _ w(2)])
      with False none show thesis by (intro stale [of w]) simp_all
    next
      case gone: False
      have "x = w" if "x \<in> set ws" "is_window sc su x" for x
        using that cleanup_subset filter_singleD(3) [OF row, of x] unfolding assms(2) by blast
      then have "\<forall>x \<in> set ws. \<not> is_window sc su x" using gone by metis
      then have "filter (is_window sc su) ws = []" by (simp add: filter_empty_conv)
      with none show thesis by (intro dead)
    qed
  qed
qed

lemma filter_bumped:
  assumes "filter (is_window sc su) ws = [w]"
  shows "filter (is_window sc su) (update_where (is_window sc su) (bump_window now width) ws) =
    [bump_window now width w]"
proof -
  have "is_window sc su (bump_window now width x) = is_window sc su x" for x
    by (simp add: is_window_def bump_window_def)
  then show ?thesis
    using filter_singleD(2) [OF assms] by (subst filter_update_where) (simp_all add: assms)
qed

lemma ceil_seconds_mult [simp]: "ceil_seconds (n * 1000000) = n"
  by (simp add: ceil_seconds_def flip: mult_minus_left)

text \<open>Counting an attempt, seen through the live window of its subject.\<close>

lemma count_attempt_live:
  assumes "db_ok d" and "0 < width"
    and "live_window sc su (cx_now cx) d = None \<or> n < MAX_ATTEMPTS \<and> live_window sc su (cx_now cx) d = Some (n, e)"
    and "(m, f) = (case live_window sc su (cx_now cx) d of None \<Rightarrow> (1, cx_now cx + width * 1000000)
            | Some (n, e) \<Rightarrow> (n + 1, e))"
  shows "\<exists>d'. count_attempt cx sc su width d = Inr ((m, ceil_seconds (f - cx_now cx)), d') \<and> db_ok d' \<and>
    (\<forall>t. live_window sc su t d' = (if t < f then Some (m, f) else None))"
proof -
  let ?ws = "cleanup_windows (cx_now cx) (db_windows d)"
  let ?b = "bump_window (cx_now cx) width"
  let ?f = "fresh_window (cx_now cx) sc su width"
  have v: "windows_valid d ?ws" using assms(1) by (intro windows_valid_cleanup [of d]) (simp add: db_ok_def)
  have upd: "db_ok (d\<lparr>db_windows := update_where (is_window sc su) ?b ?ws\<rparr>)"
    using windows_valid_bump [OF v assms(2), of d sc su "cx_now cx"] assms(1) by (simp add: db_ok_def)
  note run = count_attempt_run [OF assms(1,2) refl, of cx sc su]
  from assms(1) refl [of ?ws] show ?thesis
  proof (cases rule: live_cases [of d ?ws "cx_now cx" sc su])
    case dead
    let ?d = "d\<lparr>db_windows := ?ws @ [?f]\<rparr>"
    have "windows_valid d (?ws @ [?f])"
      using v assms(2) dead(2)
      by (auto simp: windows_valid_def rate_window_check_def fresh_window_def filter_empty_conv is_window_def)
    then have "db_ok ?d" using assms(1) by (simp add: db_ok_def)
    moreover have "filter (is_window sc su) (db_windows ?d) = [?f]"
      using dead(2) by (simp add: fresh_window_def is_window_def)
    then have "live_window sc su t ?d = (if t < w_expires_at ?f then Some (w_attempts ?f, w_expires_at ?f) else None)" for t
      by (rule live_of_single)
    ultimately show ?thesis
      using dead assms(4) run by (intro exI [of _ ?d]) (simp add: fresh_window_def)
  next
    case (stale w)
    let ?d = "d\<lparr>db_windows := update_where (is_window sc su) ?b ?ws\<rparr>"
    have "filter (is_window sc su) (db_windows ?d) = [?b w]" using filter_bumped [OF stale(2)] by simp
    then have "live_window sc su t ?d = (if t < w_expires_at (?b w) then Some (w_attempts (?b w), w_expires_at (?b w)) else None)" for t
      by (rule live_of_single)
    then show ?thesis
      using stale assms(4) run upd by (intro exI [of _ ?d]) (simp add: bump_window_def MAX_ATTEMPTS_def Let_def)
  next
    case (running w)
    let ?d = "d\<lparr>db_windows := update_where (is_window sc su) ?b ?ws\<rparr>"
    have "filter (is_window sc su) (db_windows ?d) = [?b w]" using filter_bumped [OF running(2)] by simp
    then have "live_window sc su t ?d = (if t < w_expires_at (?b w) then Some (w_attempts (?b w), w_expires_at (?b w)) else None)" for t
      by (rule live_of_single)
    then show ?thesis
      using running assms(3,4) run upd by (intro exI [of _ ?d]) (simp add: bump_window_def Let_def)
  qed
qed

definition limiter_attempt :: "string \<Rightarrow> string \<Rightarrow> int \<Rightarrow> int \<Rightarrow> instant \<Rightarrow> db \<Rightarrow> bool \<times> db" where
  "limiter_attempt sc su allowed width now d =
     (let (r, d') = enforce_rate_limit \<lparr>cx_now = now, cx_correlation = []\<rparr> sc su allowed width d
      in (r = Inr (), d'))"

lemma enforce_rate_limit_live:
  assumes "db_ok d" and "0 < width"
    and "live_window sc su (cx_now cx) d = None \<or> n < MAX_ATTEMPTS \<and> live_window sc su (cx_now cx) d = Some (n, e)"
    and "(m, f) = (case live_window sc su (cx_now cx) d of None \<Rightarrow> (1, cx_now cx + width * 1000000)
            | Some (n, e) \<Rightarrow> (n + 1, e))"
  shows "\<exists>d'. enforce_rate_limit cx sc su allowed width d =
      (if m \<le> allowed then Inr () else Inl (RateLimitExceeded (max 1 (ceil_seconds (f - cx_now cx)))), d') \<and>
    db_ok d' \<and> (\<forall>t. live_window sc su t d' = (if t < f then Some (m, f) else None))"
proof -
  obtain d' where "count_attempt cx sc su width d = Inr ((m, ceil_seconds (f - cx_now cx)), d')" "db_ok d'"
    "\<forall>t. live_window sc su t d' = (if t < f then Some (m, f) else None)"
    using count_attempt_live [OF assms] by blast
  then show ?thesis by (intro exI [of _ d']) (simp add: enforce_rate_limit_def run_tx_def)
qed

lemma limiter_opens:
  assumes "db_ok d" and "0 < width" and "live_window sc su now d = None"
  shows "\<exists>d'. limiter_attempt sc su allowed width now d = (1 \<le> allowed, d') \<and> (db_ok d' \<and> 0 < width) \<and>
    (\<forall>t. live_window sc su t d' = (if t < now + width * 1000000 then Some (1, now + width * 1000000) else None))"
proof -
  let ?cx = "\<lparr>cx_now = now, cx_correlation = []\<rparr>"
  let ?e = "now + width * 1000000"
  have "\<exists>d'. enforce_rate_limit ?cx sc su allowed width d =
      (if 1 \<le> allowed then Inr () else Inl (RateLimitExceeded (max 1 (ceil_seconds (?e - cx_now ?cx)))), d') \<and>
    db_ok d' \<and> (\<forall>t. live_window sc su t d' = (if t < ?e then Some (1, ?e) else None))"
    by (rule enforce_rate_limit_live [OF assms(1,2)]) (use assms(3) in simp_all)
  then show ?thesis using assms(2) by (auto simp: limiter_attempt_def)
qed

lemma limiter_counts:
  assumes "db_ok d" and "0 < width" and "live_window sc su now d = Some (n, e)" and "n < MAX_ATTEMPTS"
  shows "\<exists>d'. limiter_attempt sc su allowed width now d = (n + 1 \<le> allowed, d') \<and> (db_ok d' \<and> 0 < width) \<and>
    (\<forall>t. live_window sc su t d' = (if t < e then Some (n + 1, e) else None))"
proof -
  let ?cx = "\<lparr>cx_now = now, cx_correlation = []\<rparr>"
  have "\<exists>d'. enforce_rate_limit ?cx sc su allowed width d =
      (if n + 1 \<le> allowed then Inr () else Inl (RateLimitExceeded (max 1 (ceil_seconds (e - cx_now ?cx)))), d') \<and>
    db_ok d' \<and> (\<forall>t. live_window sc su t d' = (if t < e then Some (n + 1, e) else None))"
    by (rule enforce_rate_limit_live [OF assms(1,2), of sc su ?cx n e]) (use assms(3,4) in simp_all)
  then show ?thesis using assms(2) by (auto simp: limiter_attempt_def)
qed

interpretation limiter: fixed_window "live_window sc su" "limiter_attempt sc su allowed width"
    "\<lambda>d. db_ok d \<and> 0 < width" allowed "width * 1000000" MAX_ATTEMPTS
  for sc su allowed width
  by unfold_locales (use limiter_opens limiter_counts in blast)+

subsection \<open>Properties\<close>

text \<open>Consecutive attempts of one subject, each in a transaction of its own.\<close>

fun run_attempts :: "string \<Rightarrow> string \<Rightarrow> int \<Rightarrow> int \<Rightarrow> ctx list \<Rightarrow> db \<Rightarrow> (exc + unit) list \<times> db" where
  "run_attempts sc su allowed width [] d = ([], d)"
| "run_attempts sc su allowed width (cx # cxs) d =
     (let (r, d1) = enforce_rate_limit cx sc su allowed width d;
          (rs, d2) = run_attempts sc su allowed width cxs d1 in (r # rs, d2))"

lemma enforce_rate_limit_now:
  "enforce_rate_limit cx sc su allowed width d =
     enforce_rate_limit \<lparr>cx_now = cx_now cx, cx_correlation = []\<rparr> sc su allowed width d"
  by (simp add: enforce_rate_limit_def count_attempt_def run_tx_def)

lemma limiter_attempt_enforce:
  "limiter_attempt sc su allowed width (cx_now cx) d =
     (fst (enforce_rate_limit cx sc su allowed width d) = Inr (),
      snd (enforce_rate_limit cx sc su allowed width d))"
  by (simp add: limiter_attempt_def case_prod_beta enforce_rate_limit_now [of cx, symmetric])

lemma run_attempts_burst:
  "map (\<lambda>r. r = Inr ()) (fst (run_attempts sc su allowed width cxs d)) =
     fst (limiter.burst sc su allowed width (map cx_now cxs) d) \<and>
   snd (run_attempts sc su allowed width cxs d) = snd (limiter.burst sc su allowed width (map cx_now cxs) d)"
proof (induction cxs arbitrary: d)
  case (Cons cx cxs)
  show ?case
    using Cons [of "snd (enforce_rate_limit cx sc su allowed width d)"]
    by (simp add: limiter_attempt_enforce Let_def case_prod_beta)
qed simp

text \<open>
  C29: The limiter admits exactly its allowance: of any number of attempts of one subject within a
  window that the first of them opens, precisely the first \<open>allowed\<close> succeed, whatever
  windows of other subjects the cleanup deletes meanwhile.
\<close>

theorem rate_limit_burst:
  assumes "db_ok d" and "0 < width" and "live_window sc su (cx_now cx) d = None"
    and "\<forall>c \<in> set cxs. cx_now c < cx_now cx + width * 1000000"
    and "1 + int (length cxs) \<le> MAX_ATTEMPTS"
  shows "map (\<lambda>r. r = Inr ()) (fst (run_attempts sc su allowed width (cx # cxs) d)) =
    map (\<lambda>k. int k < allowed) [0..<Suc (length cxs)]"
  using limiter.fresh_burst [of d width sc su "cx_now cx" "map cx_now cxs" allowed] assms
    run_attempts_burst [of sc su allowed width "cx # cxs" d]
  by simp

lemma enforce_rate_limit_overflow:
  assumes "db_ok d" and "0 < width" and "live_window sc su (cx_now cx) d = Some (n, e)" and "n \<ge> MAX_ATTEMPTS"
  shows "enforce_rate_limit cx sc su allowed width d = (Inl DataError, d)"
proof -
  let ?ws = "cleanup_windows (cx_now cx) (db_windows d)"
  obtain w where "live_window sc su (cx_now cx) d = Some (w_attempts w, w_expires_at w)"
    "filter (is_window sc su) ?ws = [w]" "cx_now cx < w_expires_at w"
    using assms(1) refl [of ?ws]
    by (cases rule: live_cases [of d ?ws "cx_now cx" sc su]) (use assms(3) in auto)
  then show ?thesis
    using count_attempt_run [OF assms(1,2) refl, of cx sc su] assms(3,4)
    by (simp add: enforce_rate_limit_def run_tx_def bump_window_def Let_def)
qed

lemma ceil_seconds_ge: "us \<le> ceil_seconds us * 1000000"
  by (simp add: ceil_seconds_def)

text \<open>
  The \<open>Retry-After\<close> answer is honest: it is at least one second, and a caller that waits that
  long without further attempts is admitted.
\<close>

theorem retry_after_honest:
  assumes "enforce_rate_limit cx sc su allowed width d = (Inl (RateLimitExceeded n), d')"
    and "db_ok d" and "0 < width" and "1 \<le> allowed" and "cx_now cx + n * 1000000 \<le> cx_now cx2"
  shows "1 \<le> n \<and> fst (enforce_rate_limit cx2 sc su allowed width d') = Inr ()"
proof (cases "live_window sc su (cx_now cx) d")
  case None
  have "\<exists>d'. enforce_rate_limit cx sc su allowed width d =
      (if 1 \<le> allowed then Inr () else Inl (RateLimitExceeded
         (max 1 (ceil_seconds (cx_now cx + width * 1000000 - cx_now cx)))), d') \<and>
    db_ok d' \<and> (\<forall>t. live_window sc su t d' = (if t < cx_now cx + width * 1000000
      then Some (1, cx_now cx + width * 1000000) else None))"
    by (rule enforce_rate_limit_live [OF assms(2,3)]) (use None in simp_all)
  then show ?thesis using assms(1,4) by auto
next
  case (Some row)
  obtain k e where row: "row = (k, e)" by (cases row)
  have k: "k < MAX_ATTEMPTS"
    using enforce_rate_limit_overflow [OF assms(2,3), of sc su cx k e allowed] Some row assms(1) by force
  have "\<exists>d'. enforce_rate_limit cx sc su allowed width d =
      (if k + 1 \<le> allowed then Inr () else Inl (RateLimitExceeded (max 1 (ceil_seconds (e - cx_now cx)))), d') \<and>
    db_ok d' \<and> (\<forall>t. live_window sc su t d' = (if t < e then Some (k + 1, e) else None))"
    by (rule enforce_rate_limit_live [OF assms(2,3), of sc su cx k e]) (use Some row k in simp_all)
  then have n: "n = max 1 (ceil_seconds (e - cx_now cx))" and ok: "db_ok d'"
    and live: "\<And>t. live_window sc su t d' = (if t < e then Some (k + 1, e) else None)"
    using assms(1) by (auto split: if_splits)
  have "e \<le> cx_now cx2" using ceil_seconds_ge [of "e - cx_now cx"] assms(5) n by linarith
  then have none: "live_window sc su (cx_now cx2) d' = None" by (simp add: live)
  have "\<exists>d''. enforce_rate_limit cx2 sc su allowed width d' =
      (if 1 \<le> allowed then Inr () else Inl (RateLimitExceeded
         (max 1 (ceil_seconds (cx_now cx2 + width * 1000000 - cx_now cx2)))), d'') \<and>
    db_ok d'' \<and> (\<forall>t. live_window sc su t d'' = (if t < cx_now cx2 + width * 1000000
      then Some (1, cx_now cx2 + width * 1000000) else None))"
    by (rule enforce_rate_limit_live [OF ok assms(3)]) (use none in simp_all)
  then show ?thesis using assms(4) n by auto
qed

lemma filter_cleanup:
  assumes "\<And>w. q w \<Longrightarrow> now < w_expires_at w"
  shows "filter q (cleanup_windows now ws) = filter q ws"
proof -
  have "w \<notin> set (take 100 (sort_key w_expires_at (filter (\<lambda>w. w_expires_at w \<le> now) ws)))" if "q w" for w
    using assms [OF that] by (auto dest!: in_set_takeD)
  then show ?thesis unfolding cleanup_windows_def Let_def delete_where_def filter_filter
    by (intro filter_cong) auto
qed

text \<open>
  Subjects do not interfere: an attempt leaves the live window of every other scope or subject
  as it was, at the time of the attempt and later, so nobody can lock out somebody else or win
  attempts through the cleanup.
\<close>

theorem rate_limit_isolated:
  assumes "enforce_rate_limit cx sc su allowed width d = (r, d')" and "db_ok d" and "0 < width"
    and "(sc2, su2) \<noteq> (sc, su)" and "cx_now cx \<le> t"
  shows "live_window sc2 su2 t d' = live_window sc2 su2 t d"
proof -
  let ?ws = "cleanup_windows (cx_now cx) (db_windows d)"
  let ?q = "\<lambda>w. is_window sc2 su2 w \<and> t < w_expires_at w"
  let ?b = "bump_window (cx_now cx) width"
  have clean: "filter ?q ?ws = filter ?q (db_windows d)"
    using assms(5) by (intro filter_cleanup) simp
  have other: "\<not> is_window sc2 su2 w" if "is_window sc su w" for w
    using that assms(4) by (auto simp: is_window_def)
  have "filter ?q (update_where (is_window sc su) ?b ?ws) = filter ?q ?ws"
    using other by (intro filter_update_where_other) (auto simp: bump_window_def is_window_def)
  moreover have "\<not> ?q (fresh_window (cx_now cx) sc su width)"
    using assms(4) by (auto simp: fresh_window_def is_window_def)
  ultimately have "filter ?q (db_windows d') = filter ?q (db_windows d)"
    using assms(1) count_attempt_run [OF assms(2,3) refl, of cx sc su] clean
    by (auto simp: enforce_rate_limit_def run_tx_def Let_def split: list.splits if_splits)
  then show ?thesis by (simp add: live_window_def)
qed

end
