(* ===== verification/Witnesses_Access.thy ===== *)
theory Witnesses_Access
  imports Demo Rate_Limits_Laws
begin

text \<open>The theorems on the catalog, on identities and on the limits, at concrete inputs.\<close>

subsection \<open>Catalog\<close>

definition rename_box :: resource_update where
  "rename_box = \<lparr>ru_version = 1, ru_name = Some ''box2'', ru_type = None, ru_sharing_mode = None,
     ru_visibility_mode = None, ru_expiration_mode = None, ru_default_ttl = None, ru_max_ttl = None,
     ru_labels = None\<rparr>"

lemma root_renames: "\<exists>resp d'. update_resource (at 5) box_id rename_box root_id demo_db = Inr (resp, d')"
  by (rule ran) code_simp

lemma rename_changes: "\<not> no_changes rename_box"
  by code_simp

lemma update_no_lost_update_witness:
  "\<exists>resp d'. update_resource (at 5) box_id rename_box root_id demo_db = Inr (resp, d') \<and>
     update_resource (at 6) box_id rename_box root_id d' = Inl (http 409 ''Resource version is stale'')"
proof -
  obtain resp d' where u: "update_resource (at 5) box_id rename_box root_id demo_db = Inr (resp, d')"
    using root_renames by blast
  from update_no_lost_update [OF u rename_changes refl] u show ?thesis by blast
qed

lemma update_resource_effect_witness:
  "\<exists>resp d' t t'. update_resource (at 5) box_id rename_box root_id demo_db = Inr (resp, d') \<and>
     lock_row box_id demo_db = Inr t \<and> r_version t = 1 \<and> lock_row box_id d' = Inr t' \<and> r_version t' = 2"
proof -
  obtain resp d' where u: "update_resource (at 5) box_id rename_box root_id demo_db = Inr (resp, d')"
    using root_renames by blast
  have "ru_version rename_box = 1" by (simp add: rename_box_def)
  with update_resource_effect [OF u rename_changes] u show ?thesis by auto
qed

lemma transition_refines_automaton_witness:
  "\<exists>resp d' t'. transition_resource (at 5) box_id Disable root_id demo_db = Inr (resp, d') \<and>
     lock_row box_id d' = Inr t' \<and> r_status t' = Disabled"
proof -
  have pre: "principal_exists demo_db root_id" "lock_row box_id demo_db = Inr box" "r_archived_at box = None"
    "r_status box = Active" by code_simp+
  have "status_step Active Disable Disabled" by (auto intro: status_step.intros)
  with transition_refines_automaton [OF demo_ok(1) pre(1-3), of "at 5" Disable Disabled] pre(4)
  show ?thesis by simp
qed

lemma fetch_visible_iff_witness:
  "\<exists>resp. fetch_visible_resource (at 5) pool_id alice_id demo_db = Inr resp"
proof -
  have "\<exists>r \<in> set (db_resources demo_db). r_id r = pool_id \<and> r_archived_at r = None \<and>
        (r_visibility_mode r = Public \<or>
         (\<exists>g \<in> set (db_pgrants demo_db). pg_resource_id g = pool_id \<and> pg_principal_id g = alice_id) \<or>
         (\<exists>gg \<in> set (db_ggrants demo_db). \<exists>g \<in> set (db_groups demo_db). \<exists>m \<in> set (db_memberships demo_db).
            gg_resource_id gg = pool_id \<and> g_id g = gg_group_id gg \<and> g_archived_at g = None \<and>
            m_group_id m = gg_group_id gg \<and> m_principal_id m = alice_id))"
    by (simp add: demo_defs)
  with fetch_visible_iff [OF demo_ok(1), of "at 5" pool_id alice_id] show ?thesis by blast
qed

lemma parse_labels_selects_witness:
  "\<exists>sel. parse_labels [''os=linux'', ''os=linux''] = Inr sel \<and> distinct (map fst sel) \<and>
     labels_contain (r_labels box) sel"
proof -
  have p: "parse_labels [''os=linux'', ''os=linux''] = Inr [(''os'', ''linux'')]" by code_simp
  have "labels_contain (r_labels box) [(''os'', ''linux'')]" by code_simp
  with parse_labels_selects [OF p] p show ?thesis by blast
qed

subsection \<open>Identity\<close>

lemma authenticate_token_iff_witness:
  "\<exists>a d' t. authenticate_token id (at 5) ''srm_alice'' demo_db = Inr (a, d') \<and>
     t \<in> set (db_tokens demo_db) \<and> ap_token_id a = t_id t \<and> p_archived_at (ap_principal a) = None"
proof -
  have "\<exists>a d'. authenticate_token id (at 5) ''srm_alice'' demo_db = Inr (a, d')"
    by (rule ran) code_simp
  then obtain a d' where r: "authenticate_token id (at 5) ''srm_alice'' demo_db = Inr (a, d')" by blast
  with authenticate_token_iff [OF demo_ok(1), where sha = id and cx = "at 5" and token = "''srm_alice''"] show ?thesis by auto
qed

lemma revoked_token_rejected_witness:
  "\<exists>d'. revoke_token (at 5) token_id alice_id alice_id demo_db = Inr ((), d') \<and>
     authenticate_token id (at 5) ''srm_alice'' d' = Inl AuthenticationError"
proof -
  have "\<exists>u d'. revoke_token (at 5) token_id alice_id alice_id demo_db = Inr (u, d')"
    by (rule ran) code_simp
  then obtain d' where r: "revoke_token (at 5) token_id alice_id alice_id demo_db = Inr ((), d')" by auto
  have "demo_token \<in> set (db_tokens demo_db)" "t_id demo_token = token_id"
    "id ''srm_alice'' = t_token_hash demo_token" by (simp_all add: demo_defs)
  from revoked_token_rejected [where sha = id and token = "''srm_alice''", OF r demo_ok(1) this] r show ?thesis by blast
qed

text \<open>A password that matches the hash it equals.\<close>

definition plain_verify :: "string \<Rightarrow> string \<Rightarrow> argon2_result" where
  "plain_verify h p = (if h = p then Matches else VerificationError)"

lemma login_rejects_iff_witness:
  "login id plain_verify ''none'' 3600 (at 5) 5 key_id ''r'' ''alice'' ''wrong'' demo_db = Inl AuthenticationError"
proof -
  have "\<not> (\<exists>p \<in> set (db_principals demo_db). \<exists>c \<in> set (db_credentials demo_db). pc_principal_id c = p_id p \<and>
         p_name p = ''alice'' \<and> p_kind p = User \<and> p_archived_at p = None \<and>
         plain_verify (pc_password_hash c) ''wrong'' = Matches)"
    by (simp add: demo_defs plain_verify_def)
  moreover have "\<forall>h \<in> insert ''none'' (pc_password_hash ` set (db_credentials demo_db)).
      plain_verify h ''wrong'' \<noteq> InvalidHash" by (simp add: plain_verify_def)
  ultimately show ?thesis using login_rejects_iff [OF demo_ok(1)] by blast
qed

lemma archived_principal_locked_out_witness:
  "\<exists>d'. archive_principal (at 5) alice_id User root_id demo_db = Inr ((), d') \<and>
     login id plain_verify ''none'' 3600 (at 6) 6 key_id ''r'' ''alice'' ''h2'' d' = Inl AuthenticationError"
proof -
  have "\<exists>u d'. archive_principal (at 5) alice_id User root_id demo_db = Inr (u, d')"
    by (rule ran) code_simp
  then obtain d' where r: "archive_principal (at 5) alice_id User root_id demo_db = Inr ((), d')" by auto
  have pre: "alice \<in> set (db_principals demo_db)" "p_id alice = alice_id" "p_name alice = ''alice''"
    "plain_verify ''none'' ''h2'' \<noteq> InvalidHash" by (simp_all add: demo_defs plain_verify_def)
  from archived_principal_locked_out [where verify = plain_verify and dummy_hash = "''none''" and password = "''h2''",
      OF r demo_ok(1) pre(1,2,4)] r pre(3) show ?thesis by metis
qed

subsection \<open>Limits\<close>

lemma rate_limit_burst_witness:
  "map (\<lambda>r. r = Inr ()) (fst (run_attempts ''login'' ''s'' 2 60 [at 1, at 2, at 3, at 4] demo_db)) =
     [True, True, False, False]"
proof -
  have "live_window ''login'' ''s'' (cx_now (at 1)) demo_db = None"
    by (simp add: live_window_def demo_defs)
  from rate_limit_burst [OF demo_ok(1) _ this, where width = 60 and cxs = "[at 2, at 3, at 4]" and allowed = 2]
  show ?thesis by (simp add: at_def MAX_ATTEMPTS_def upt_rec)
qed

lemma retry_after_honest_witness:
  "\<exists>d d' n. enforce_rate_limit (at 2) ''login'' ''s'' 1 60 d = (Inl (RateLimitExceeded n), d') \<and>
     1 \<le> n \<and> fst (enforce_rate_limit (at (2 + n * 1000000)) ''login'' ''s'' 1 60 d') = Inr ()"
proof -
  let ?d = "snd (enforce_rate_limit (at 1) ''login'' ''s'' 1 60 demo_db)"
  have ok: "db_ok ?d" by code_simp
  have "fst (enforce_rate_limit (at 2) ''login'' ''s'' 1 60 ?d) = Inl (RateLimitExceeded 60)" by code_simp
  then obtain d' where r: "enforce_rate_limit (at 2) ''login'' ''s'' 1 60 ?d = (Inl (RateLimitExceeded 60), d')"
    by (metis prod.collapse)
  have "cx_now (at 2) + 60 * 1000000 \<le> cx_now (at (2 + 60 * 1000000))" by (simp add: at_def)
  from retry_after_honest [OF r ok _ _ this] r show ?thesis by fastforce
qed

lemma body_limit_transparent_witness:
  "body_limit_middleware 10 key_id ''http'' None None [HttpRequest [1, 2] True, HttpRequest [3] False, HttpDisconnect] =
     CallApp [HttpRequest [1, 2] True, HttpRequest [3] False, HttpDisconnect]"
proof -
  let ?ms = "[HttpRequest [1, 2] True, HttpRequest [3] False, HttpDisconnect]"
  have "case body_limit_middleware 10 key_id ''http'' None None ?ms of CallApp _ \<Rightarrow> True | _ \<Rightarrow> False"
    by code_simp
  with body_limit_transparent [of 10, where fresh = key_id and corr = None and len = None and ms = ?ms] show ?thesis
    by (auto split: handling.splits)
qed

end
