(* ===== verification/Json_Roundtrip.thy ===== *)
theory Json_Roundtrip
  imports Encoding
begin

text \<open>
  What \<open>json.dumps\<close> writes, \<open>json.loads\<close> reads back: the value itself, with the members of
  its objects sorted if the writer was asked to sort them. Compact texts of equal values are
  therefore equal and texts of different values differ.
\<close>

subsection \<open>Values that have a text\<close>

text \<open>A finite float is written as a number literal, in ASCII, that stands for itself.\<close>

definition ascii_text :: "string \<Rightarrow> bool" where
  "ascii_text s \<longleftrightarrow> list_all (\<lambda>c. (of_char c :: nat) < 128) s"

definition float_literal :: "(string \<Rightarrow> string) \<Rightarrow> string \<Rightarrow> bool" where
  "float_literal fo s \<longleftrightarrow> ascii_text s \<and> json_number fo s = Some (JFloat s, [])"

definition float_ok :: "(string \<Rightarrow> string) \<Rightarrow> string \<Rightarrow> bool" where
  "float_ok fo s \<longleftrightarrow> s \<in> {''nan'', ''inf'', ''-inf''} \<or> float_literal fo s"

fun json_ok :: "(string \<Rightarrow> string) \<Rightarrow> json \<Rightarrow> bool" where
  "json_ok fo JNull = True"
| "json_ok fo (JBool b) = True"
| "json_ok fo (JInt i) = (length (dec_nat (nat \<bar>i\<bar>)) \<le> 4300)"
| "json_ok fo (JFloat s) = float_ok fo s"
| "json_ok fo (JStr s) = True"
| "json_ok fo (JList js) = list_all (json_ok fo) js"
| "json_ok fo (JObj kvs) = (distinct (map fst kvs) \<and> list_all (\<lambda>kv. json_ok fo (snd kv)) kvs)"

text \<open>The value with the members of every object in the order they are written.\<close>

fun json_sorted :: "bool \<Rightarrow> json \<Rightarrow> json" where
  "json_sorted sk (JList js) = JList (map (json_sorted sk) js)"
| "json_sorted sk (JObj kvs) =
     (let items = map (\<lambda>(k, v). (k, json_sorted sk v)) kvs in JObj (if sk then sort_key fst items else items))"
| "json_sorted sk j = j"

subsection \<open>Decimal numbers\<close>

lemma of_char_digit: "n < 10 \<Longrightarrow> (of_char (digit_char n) :: nat) = 48 + n"
proof -
  assume "n < 10"
  then have "n \<in> {0, 1, 2, 3, 4, 5, 6, 7, 8, 9}" by auto
  then show ?thesis by (auto simp: digit_char_def)
qed

lemma is_digit_char: "n < 10 \<Longrightarrow> is_digit (digit_char n)"
  by (simp add: is_digit_def of_char_digit)

lemma dec_nat_digits: "list_all is_digit (dec_nat n)"
  by (induction n rule: dec_nat.induct) (subst dec_nat.simps, simp add: is_digit_char)

lemma dec_nat_not_Nil [simp]: "dec_nat n \<noteq> []"
  by (subst dec_nat.simps) simp

lemma digits_value_snoc: "digits_value (ds @ [c]) = digits_value ds * 10 + int (of_char c - 48)"
  by (simp add: digits_value_def)

lemma digits_value_dec_nat: "digits_value (dec_nat n) = int n"
proof (induction n rule: dec_nat.induct)
  case (1 n)
  show ?case
  proof (cases "n < 10")
    case True
    then show ?thesis by (subst dec_nat.simps) (simp add: digits_value_def of_char_digit)
  next
    case False
    then have "digits_value (dec_nat n) = int (n div 10) * 10 + int (n mod 10)"
      using 1 by (subst dec_nat.simps) (simp add: digits_value_snoc of_char_digit)
    then show ?thesis by (metis div_mult_mod_eq int_plus of_nat_mult of_nat_numeral)
  qed
qed

lemma dec_nat_zero: "hd (dec_nat n) = CHR ''0'' \<Longrightarrow> dec_nat n = ''0''"
proof (induction n rule: dec_nat.induct)
  case (1 n)
  show ?case
  proof (cases "n < 10")
    case True
    have "of_char (digit_char n) = (48 :: nat)" if "digit_char n = CHR ''0''" using that by simp
    then show ?thesis using 1(2) True of_char_digit [OF True] by (subst dec_nat.simps) (auto simp: dec_nat.simps [of n])
  next
    case False
    then have "dec_nat (n div 10) = ''0''" using 1 by (simp add: dec_nat.simps [of n])
    then have "int (n div 10) = 0" using digits_value_dec_nat [of "n div 10"] by (simp add: digits_value_def)
    with False show ?thesis by simp
  qed
qed

subsection \<open>Texts are read back up to a delimiter\<close>

definition stops :: "string \<Rightarrow> bool" where
  "stops r \<longleftrightarrow> (case r of [] \<Rightarrow> True | c # cs \<Rightarrow> c = CHR '','' \<or> c = CHR '']'' \<or> c = CHR ''}'')"

lemma stops_simps [simp]: "stops []" "stops (CHR '','' # r)" "stops (CHR '']'' # r)" "stops (CHR ''}'' # r)"
  by (simp_all add: stops_def)

lemma stops_cases:
  assumes "stops r"
  shows "takeWhile is_digit r = []" "dropWhile is_digit r = r" "take_frac r = ([], r)" "take_exp r = ([], r)"
  using assms
  by (auto simp: stops_def is_digit_def take_frac_def take_exp_def split: list.splits)

lemma take_int_dec_nat:
  assumes "stops r"
  shows "take_int (dec_nat n @ r) = Some (dec_nat n, r)"
proof -
  obtain c cs where c: "dec_nat n = c # cs" by (cases "dec_nat n") auto
  show ?thesis
  proof (cases "c = CHR ''0''")
    case True
    then show ?thesis using dec_nat_zero [of n] c by (simp add: take_int_def)
  next
    case False
    have "takeWhile is_digit (dec_nat n @ r) = dec_nat n" "dropWhile is_digit (dec_nat n @ r) = r"
      using dec_nat_digits [of n] stops_cases [OF assms] by (simp_all add: list_all_iff)
    moreover have "is_digit c" using dec_nat_digits [of n] c by simp
    ultimately show ?thesis using False c by (simp add: take_int_def)
  qed
qed

lemma dec_nat_no_minus: "dec_nat n = c # cs \<Longrightarrow> c \<noteq> CHR ''-''"
  using dec_nat_digits [of n] by (auto simp: is_digit_def)

lemma json_number_int:
  assumes "stops r" and "length (dec_nat (nat \<bar>i\<bar>)) \<le> 4300"
  shows "json_number fo (dec_int i @ r) = Some (JInt i, r)"
proof (cases "i < 0")
  case True
  then show ?thesis
    using assms take_int_dec_nat [OF assms(1), of "nat (- i)"] stops_cases [OF assms(1)]
    by (simp add: json_number_def dec_int_def digits_value_dec_nat)
next
  case False
  obtain c cs where c: "dec_nat (nat i) = c # cs" by (cases "dec_nat (nat i)") auto
  show ?thesis
    using False assms take_int_dec_nat [OF assms(1), of "nat i"] stops_cases [OF assms(1)]
      dec_nat_no_minus [OF c] digits_value_dec_nat [of "nat i"]
    by (simp add: json_number_def dec_int_def c)
qed

lemma takeWhile_stop:
  assumes "takeWhile p r = []"
  shows "takeWhile p (s @ r) = takeWhile p s" and "dropWhile p (s @ r) = dropWhile p s @ r"
  using assms by (induction s) (auto simp: takeWhile_eq_Nil_iff dropWhile_eq_self_iff split: list.splits)

lemma take_int_append: "take_int s = Some (ds, r1) \<Longrightarrow> stops r \<Longrightarrow> take_int (s @ r) = Some (ds, r1 @ r)"
  using takeWhile_stop [OF stops_cases(1), of r]
  by (cases s) (auto simp: take_int_def split: if_splits)

lemma take_frac_append: "take_frac s = (f, r1) \<Longrightarrow> stops r \<Longrightarrow> take_frac (s @ r) = (f, r1 @ r)"
  using takeWhile_stop [OF stops_cases(1), of r] stops_cases(3) [of r]
  by (cases s) (auto simp: take_frac_def split: if_splits)

lemma take_exp_append:
  assumes "take_exp s = (e, r1)" and "stops r"
  shows "take_exp (s @ r) = (e, r1 @ r)"
proof (cases s)
  case Nil
  then show ?thesis using assms stops_cases(4) [OF assms(2)] by (simp add: take_exp_def)
next
  case (Cons c cs)
  note tw = takeWhile_stop [OF stops_cases(1) [OF assms(2)]]
  have r: "(case r of [] \<Rightarrow> ([], []) | x # xs \<Rightarrow> if x = CHR ''+'' \<or> x = CHR ''-'' then ([x], xs) else ([], r)) = ([], r)"
    using assms(2) by (auto simp: stops_def split: list.splits)
  show ?thesis
    using assms(1) Cons tw r stops_cases(1) [OF assms(2)]
    by (cases cs) (auto simp: take_exp_def Let_def split: if_splits list.splits)
qed

definition number_head :: "string \<Rightarrow> bool" where
  "number_head s \<longleftrightarrow> (case s of [] \<Rightarrow> False
     | c # cs \<Rightarrow> is_digit c \<or> c = CHR ''-'' \<and> (case cs of [] \<Rightarrow> False | d # ds \<Rightarrow> is_digit d))"

lemma take_int_head: "take_int s = Some x \<Longrightarrow> \<exists>c cs. s = c # cs \<and> is_digit c"
  by (cases s) (auto simp: take_int_def is_digit_def split: if_splits)

lemma digit_no_minus: "is_digit c \<Longrightarrow> c \<noteq> CHR ''-''"
  by (auto simp: is_digit_def)

lemma json_number_head:
  assumes "json_number fo s = Some x"
  shows "number_head s"
proof (cases s)
  case Nil
  then show ?thesis using assms by (simp add: json_number_def take_int_def)
next
  case (Cons c cs)
  then show ?thesis
    using assms take_int_head [of cs] take_int_head [of s]
    by (cases "c = CHR ''-''") (auto simp: json_number_def number_head_def split: option.splits)
qed

lemma json_number_append:
  assumes "json_number fo s = Some (JFloat t, [])" and "stops r"
  shows "json_number fo (s @ r) = Some (JFloat t, r)"
proof -
  obtain c cs where s: "s = c # cs" using json_number_head [OF assms(1)] by (cases s) (auto simp: number_head_def)
  define m where "m = (if c = CHR ''-'' then [c] else [])"
  define body where "body = (if c = CHR ''-'' then cs else s)"
  have split: "(case s @ r' of c # cs \<Rightarrow> if c = CHR ''-'' then ([c], cs) else ([], s @ r') | [] \<Rightarrow> ([], s @ r')) =
      (m, body @ r')" for r'
    by (simp add: s m_def body_def)
  have split0: "(case s of c # cs \<Rightarrow> if c = CHR ''-'' then ([c], cs) else ([], s) | [] \<Rightarrow> ([], s)) = (m, body)"
    by (simp add: s m_def body_def)
  obtain ds r1 where i: "take_int body = Some (ds, r1)"
    using assms(1) split0 by (auto simp: json_number_def split: option.splits)
  obtain f r2 where f: "take_frac r1 = (f, r2)" by fastforce
  obtain e r3 where e: "take_exp r2 = (e, r3)" by fastforce
  have all: "\<not> (f = [] \<and> e = [])" "t = fo (m @ ds @ f @ e)" "r3 = []"
    using assms(1) split0 i f e by (auto simp: json_number_def split: if_splits)
  have "take_exp (r2 @ r) = (e, r)" using take_exp_append [OF e assms(2)] all(3) by simp
  then show ?thesis
    using split [of r] take_int_append [OF i assms(2)] take_frac_append [OF f assms(2)] all
    by (simp add: json_number_def)
qed

lemma strip_prefix_Cons: "strip_prefix (x # p) (c # s) = (if c = x then strip_prefix p s else None)"
  by (simp add: strip_prefix_def)

lemma digit_no_word:
  "is_digit c \<Longrightarrow> c \<notin> {CHR ''n'', CHR ''t'', CHR ''f'', CHR ''N'', CHR ''I'', CHR ''-''}"
  by (auto simp: is_digit_def)

lemma number_no_word:
  assumes "number_head s"
  shows "json_word json_constants (s @ r) = None"
proof -
  obtain c cs where s: "s = c # cs" "is_digit c \<or> c = CHR ''-'' \<and> (\<exists>d ds. cs = d # ds \<and> is_digit d)"
    using assms by (auto simp: number_head_def split: list.splits)
  from s(2) show ?thesis
  proof
    assume "is_digit c"
    from digit_no_word [OF this] show ?thesis by (simp add: s(1) json_constants_def strip_prefix_Cons)
  next
    assume "c = CHR ''-'' \<and> (\<exists>d ds. cs = d # ds \<and> is_digit d)"
    then obtain d ds where d: "c = CHR ''-''" "cs = d # ds" "is_digit d" by blast
    from digit_no_word [OF d(3)] show ?thesis by (simp add: s(1) d(1,2) json_constants_def strip_prefix_Cons)
  qed
qed

lemma number_value:
  assumes "number_head s" and "json_number fo (s @ r) = Some x"
  shows "json_value fo (Suc n) (s @ r) = Some x"
proof -
  obtain c cs where s: "s = c # cs" "is_digit c \<or> c = CHR ''-'' \<and> (\<exists>d ds. cs = d # ds \<and> is_digit d)"
    using assms(1) by (auto simp: number_head_def split: list.splits)
  have "json_word json_constants (s @ r) = None" by (rule number_no_word [OF assms(1)])
  moreover have "c \<noteq> CHR 0x22" "c \<noteq> CHR 0x5B" "c \<noteq> CHR 0x7B" using s(2) by (auto simp: is_digit_def)
  ultimately show ?thesis using assms(2) s(1) by simp
qed

lemma dec_int_head: "number_head (dec_int i)"
proof -
  have "\<exists>c cs. dec_nat n = c # cs \<and> is_digit c" for n
    using dec_nat_digits [of n] by (cases "dec_nat n") auto
  then show ?thesis by (auto simp: dec_int_def number_head_def split: list.splits) (metis list.inject)+
qed

lemma int_value:
  assumes "json_ok fo (JInt i)" and "stops r"
  shows "json_value fo (Suc n) (dec_int i @ r) = Some (JInt i, r)"
  using assms by (intro number_value dec_int_head json_number_int) simp_all

lemma float_value:
  assumes "float_ok fo s" and "stops r"
  shows "json_value fo (Suc n) (float_token s @ r) = Some (JFloat s, r)"
proof (cases "s \<in> {''nan'', ''inf'', ''-inf''}")
  case True
  then show ?thesis by (auto simp: float_token_def json_constants_def strip_prefix_def)
next
  case False
  then have "json_number fo s = Some (JFloat s, [])" using assms(1) by (simp add: float_ok_def float_literal_def)
  with False show ?thesis
    using number_value [OF json_number_head json_number_append [OF _ assms(2)]] by (simp add: float_token_def)
qed

subsection \<open>Strings\<close>

lemma hex_value_digit_char: "n < 16 \<Longrightarrow> hex_value (digit_char n) = Some n"
proof -
  have "\<forall>n \<in> set [0..<16]. hex_value (digit_char n) = Some n" by code_simp
  moreover assume "n < 16"
  ultimately show ?thesis by simp
qed

lemma json_chars_escape: "json_chars (json_escape c @ s) = map_option (\<lambda>(t, r). (c # t, r)) (json_chars s)"
proof -
  have n: "(of_char c :: nat) < 256" by (rule nat_of_char_less_256)
  then have "(of_char c :: nat) div 16 < 16" "(of_char c :: nat) mod 16 < 16" by linarith+
  moreover have "(char_of ((of_char c :: nat) div 16 * 16 + of_char c mod 16) :: char) = c" by simp
  ultimately show ?thesis
    by (auto simp: json_escape_def unescape_def hex_value_digit_char hex_value_def [of "CHR ''0''"])
qed

lemma json_chars_string: "json_chars (concat (map json_escape s) @ CHR 0x22 # r) = Some (s, r)"
  by (induction s) (simp_all add: json_chars_escape)

lemma string_value: "json_value fo (Suc n) (json_string s @ r) = Some (JStr s, r)"
  by (simp add: json_string_def json_chars_string)

subsection \<open>Arrays and objects\<close>

definition starts :: "string \<Rightarrow> bool" where
  "starts s \<longleftrightarrow> (case s of [] \<Rightarrow> False | c # cs \<Rightarrow> \<not> json_ws c \<and> c \<noteq> CHR '']'')"

lemma skip_starts [simp]: "starts s \<Longrightarrow> skip_ws (s @ r) = s @ r"
  by (cases s) (simp_all add: starts_def skip_ws_def)

lemma number_starts: "number_head s \<Longrightarrow> starts s"
  by (auto simp: starts_def number_head_def is_digit_def json_ws_def split: list.splits)

lemma json_dumps_starts: "json_ok fo j \<Longrightarrow> starts (json_dumps sk j)"
proof (cases j)
  case (JFloat s)
  assume "json_ok fo j"
  then show ?thesis
    using JFloat json_number_head [of fo s]
    by (auto simp: float_ok_def float_literal_def float_token_def starts_def json_ws_def intro: number_starts [unfolded starts_def])
qed (auto simp: starts_def json_ws_def json_string_def Let_def
    intro: number_starts [OF dec_int_head, unfolded starts_def])

lemma starts_not_Nil: "starts s \<Longrightarrow> 0 < length s"
  by (cases s) (simp_all add: starts_def)

definition member_text :: "bool \<Rightarrow> string \<times> json \<Rightarrow> string" where
  "member_text sk kv = json_string (fst kv) @ '':'' @ json_dumps sk (snd kv)"

definition written :: "bool \<Rightarrow> (string \<times> json) list \<Rightarrow> (string \<times> json) list" where
  "written sk kvs = (if sk then sort_key fst kvs else kvs)"

lemma insort_key_map: "insort_key f (g x) (map g xs) = map g (insort_key (\<lambda>y. f (g y)) x xs)"
  by (induction xs) simp_all

lemma sort_key_map: "sort_key f (map g xs) = map g (sort_key (\<lambda>y. f (g y)) xs)"
  by (induction xs) (simp_all add: insort_key_map)

lemma json_dumps_obj:
  "json_dumps sk (JObj kvs) = ''{'' @ intercalate '','' (map (member_text sk) (written sk kvs)) @ ''}''"
  by (simp add: Let_def written_def sort_key_map comp_def case_prod_unfold member_text_def [abs_def])

lemma json_sorted_obj:
  "json_sorted sk (JObj kvs) = JObj (map (\<lambda>kv. (fst kv, json_sorted sk (snd kv))) (written sk kvs))"
  by (simp add: Let_def written_def sort_key_map comp_def case_prod_unfold)

lemma written_facts: "set (written sk kvs) = set kvs" "distinct (map fst kvs) \<Longrightarrow> distinct (map fst (written sk kvs))"
  by (auto simp: written_def distinct_map)

definition reads :: "(string \<Rightarrow> string) \<Rightarrow> bool \<Rightarrow> json \<Rightarrow> bool" where
  "reads fo sk j \<longleftrightarrow> (\<forall>r n. stops r \<longrightarrow> length (json_dumps sk j) \<le> n \<longrightarrow>
     json_value fo n (json_dumps sk j @ r) = Some (json_sorted sk j, r))"

lemma items_read:
  assumes "js \<noteq> []" and "\<forall>j \<in> set js. reads fo sk j \<and> starts (json_dumps sk j)"
    and "length (intercalate '','' (map (json_dumps sk) js)) < n"
  shows "json_items fo n (intercalate '','' (map (json_dumps sk) js) @ CHR '']'' # r) = Some (map (json_sorted sk) js, r)"
  using assms
proof (induction js arbitrary: n rule: induct_list012)
  case (2 j)
  then obtain m where "n = Suc m" by (cases n) auto
  with 2 show ?case by (simp add: reads_def skip_ws_def json_ws_def)
next
  case (3 j k js)
  then obtain m where m: "n = Suc m" by (cases n) auto
  let ?rest = "intercalate '','' (map (json_dumps sk) (k # js))"
  have "starts (?rest @ CHR '']'' # r)" 
    using 3(4) by (cases js; cases "json_dumps sk k") (auto simp: starts_def)
  then have "skip_ws (?rest @ CHR '']'' # r) = ?rest @ CHR '']'' # r" using skip_starts [of _ "[]"] by simp
  moreover have "json_items fo m (?rest @ CHR '']'' # r) = Some (map (json_sorted sk) (k # js), r)"
    using 3 m by (intro "3.IH"(2)) auto
  moreover have "json_value fo m (json_dumps sk j @ CHR '','' # ?rest @ CHR '']'' # r) =
      Some (json_sorted sk j, CHR '','' # ?rest @ CHR '']'' # r)"
    using 3(4,5) m by (simp add: reads_def)
  ultimately show ?case using m by (simp add: skip_ws_def json_ws_def)
qed simp

lemma dict_set_fresh: "k \<notin> fst ` set kvs \<Longrightarrow> dict_set k v kvs = kvs @ [(k, v)]"
  by (induction k v kvs rule: dict_set.induct) auto

lemma member_starts: "starts (member_text sk kv)"
  by (simp add: starts_def member_text_def json_string_def json_ws_def)

lemma member_step:
  assumes "reads fo sk v" and "starts (json_dumps sk v)" and "stops r" and "length (member_text sk (k, v)) \<le> n"
  shows "json_members fo (Suc n) acc (member_text sk (k, v) @ r) =
    (case r of [] \<Rightarrow> None
     | e # es \<Rightarrow>
         if e = CHR ''}'' then Some (dict_set k (json_sorted sk v) acc, es)
         else if e = CHR '','' then json_members fo n (dict_set k (json_sorted sk v) acc) (skip_ws es)
         else None)"
proof -
  have "json_value fo n (json_dumps sk v @ r) = Some (json_sorted sk v, r)"
    using assms(1,3,4) by (simp add: reads_def member_text_def)
  moreover have "skip_ws (json_dumps sk v @ r) = json_dumps sk v @ r" by (rule skip_starts [OF assms(2)])
  moreover have "skip_ws r = r" using assms(3) by (cases r) (auto simp: stops_def skip_ws_def json_ws_def)
  ultimately show ?thesis
    by (simp add: member_text_def json_string_def json_chars_string skip_ws_def json_ws_def)
qed

lemma members_read:
  assumes "kvs \<noteq> []" and "\<forall>kv \<in> set kvs. reads fo sk (snd kv) \<and> starts (json_dumps sk (snd kv))"
    and "length (intercalate '','' (map (member_text sk) kvs)) < n" and "distinct (map fst (acc @ kvs))"
  shows "json_members fo n acc (intercalate '','' (map (member_text sk) kvs) @ CHR ''}'' # r) =
    Some (acc @ map (\<lambda>kv. (fst kv, json_sorted sk (snd kv))) kvs, r)"
  using assms
proof (induction kvs arbitrary: n acc rule: induct_list012)
  case (2 kv)
  then obtain m where "n = Suc m" by (cases n) auto
  with 2 show ?case
    using member_step [of fo sk "snd kv" "CHR ''}'' # r" "fst kv" m acc] by (simp add: dict_set_fresh)
next
  case (3 kv kv' kvs)
  then obtain m where m: "n = Suc m" by (cases n) auto
  let ?rest = "intercalate '','' (map (member_text sk) (kv' # kvs)) @ CHR ''}'' # r"
  let ?acc = "acc @ [(fst kv, json_sorted sk (snd kv))]"
  have "starts ?rest"
    using member_starts [of sk kv'] by (cases kvs; cases "member_text sk kv'") (auto simp: starts_def)
  then have "skip_ws ?rest = ?rest" using skip_starts [of _ "[]"] by simp
  moreover have "json_members fo m ?acc ?rest = Some (?acc @ map (\<lambda>kv. (fst kv, json_sorted sk (snd kv))) (kv' # kvs), r)"
    using 3(4-6) m by (intro "3.IH"(2)) auto
  moreover have "dict_set (fst kv) (json_sorted sk (snd kv)) acc = ?acc"
    using 3(6) by (intro dict_set_fresh) auto
  ultimately show ?case
    using member_step [of fo sk "snd kv" "CHR '','' # ?rest" "fst kv" m acc] 3(4,5) m by simp
qed simp

lemma starts_intercalate: "xs \<noteq> [] \<Longrightarrow> starts (hd xs) \<Longrightarrow> starts (intercalate sep xs @ r)"
  by (cases xs; cases "tl xs"; cases "hd xs") (auto simp: starts_def)

lemma list_reads:
  assumes "\<forall>j \<in> set js. reads fo sk j \<and> starts (json_dumps sk j)"
  shows "reads fo sk (JList js)"
  unfolding reads_def
proof (intro allI impI)
  fix r n assume n: "length (json_dumps sk (JList js)) \<le> n"
  let ?t = "intercalate '','' (map (json_dumps sk) js)"
  obtain m where m: "n = Suc m" "length ?t < m" using n by (cases n) auto
  show "json_value fo n (json_dumps sk (JList js) @ r) = Some (json_sorted sk (JList js), r)"
  proof (cases "js = []")
    case True
    then show ?thesis using m by (simp add: skip_ws_def json_ws_def)
  next
    case False
    then have t: "starts (?t @ CHR '']'' # r)"
      using assms by (intro starts_intercalate) (auto simp: hd_map)
    then obtain d ds where d: "?t @ CHR '']'' # r = d # ds" "d \<noteq> CHR '']''"
      by (auto simp: starts_def split: list.splits)
    have "skip_ws (?t @ CHR '']'' # r) = d # ds" using skip_starts [OF t, of "[]"] d(1) by simp
    then show ?thesis using items_read [OF False assms m(2), of r] m(1) d by simp
  qed
qed

lemma skip_quote: "s = CHR 0x22 # t \<Longrightarrow> skip_ws s = CHR 0x22 # t"
  by (simp add: skip_ws_def json_ws_def)

lemma obj_reads:
  assumes "\<forall>kv \<in> set kvs. reads fo sk (snd kv) \<and> starts (json_dumps sk (snd kv))" and "distinct (map fst kvs)"
  shows "reads fo sk (JObj kvs)"
  unfolding reads_def
proof (intro allI impI)
  fix r n assume n: "length (json_dumps sk (JObj kvs)) \<le> n"
  let ?ms = "written sk kvs"
  let ?t = "intercalate '','' (map (member_text sk) ?ms)"
  obtain m where m: "n = Suc m" "length ?t < m" using n unfolding json_dumps_obj by (cases n) auto
  show "json_value fo n (json_dumps sk (JObj kvs) @ r) = Some (json_sorted sk (JObj kvs), r)"
    unfolding json_dumps_obj json_sorted_obj
  proof (cases "?ms = []")
    case True
    then show "json_value fo n ((''{'' @ ?t @ ''}'') @ r) =
        Some (JObj (map (\<lambda>kv. (fst kv, json_sorted sk (snd kv))) ?ms), r)"
      using m by (simp add: skip_ws_def json_ws_def)
  next
    case False
    then obtain kv kvs' where ms: "?ms = kv # kvs'" by (cases ?ms) auto
    have first: "?t @ CHR ''}'' # r = CHR 0x22 # tl (?t @ CHR ''}'' # r)"
      unfolding ms by (cases kvs') (simp_all add: member_text_def json_string_def)
    then have skip: "skip_ws (?t @ CHR ''}'' # r) = CHR 0x22 # tl (?t @ CHR ''}'' # r)"
      by (rule skip_quote)
    have "json_members fo m [] (?t @ CHR ''}'' # r) =
        Some ([] @ map (\<lambda>kv. (fst kv, json_sorted sk (snd kv))) ?ms, r)"
      using assms written_facts by (intro members_read [OF False _ m(2)]) auto
    then have members: "json_members fo m [] (CHR 0x22 # tl (?t @ CHR ''}'' # r)) =
        Some (map (\<lambda>kv. (fst kv, json_sorted sk (snd kv))) ?ms, r)"
      by (simp only: first [symmetric] append_Nil)
    have "(''{'' @ ?t @ ''}'') @ r = CHR 0x7B # (?t @ CHR ''}'' # r)" by simp
    then show "json_value fo n ((''{'' @ ?t @ ''}'') @ r) =
        Some (JObj (map (\<lambda>kv. (fst kv, json_sorted sk (snd kv))) ?ms), r)"
      by (simp only: m(1) json_value.simps skip list.case members) simp
  qed
qed

lemma reads_text:
  assumes "starts (json_dumps sk j)"
    and "\<And>r n. stops r \<Longrightarrow> json_value fo (Suc n) (json_dumps sk j @ r) = Some (json_sorted sk j, r)"
  shows "reads fo sk j"
  unfolding reads_def
proof (intro allI impI)
  fix r n assume r: "stops r" and "length (json_dumps sk j) \<le> n"
  then obtain m where "n = Suc m" using starts_not_Nil [OF assms(1)] by (cases n) auto
  with assms(2) [OF r] show "json_value fo n (json_dumps sk j @ r) = Some (json_sorted sk j, r)" by blast
qed

lemma json_reads: "json_ok fo j \<Longrightarrow> reads fo sk j"
proof (induction j)
  case (JList js)
  then show ?case using json_dumps_starts by (intro list_reads) (auto simp: list_all_iff)
next
  case (JObj kvs)
  have "reads fo sk (snd kv) \<and> starts (json_dumps sk (snd kv))" if "kv \<in> set kvs" for kv
    using JObj.IH [OF that, of "snd kv"] JObj.prems that json_dumps_starts by (auto simp: list_all_iff snds.simps)
  then show ?case using JObj.prems by (intro obj_reads) auto
next
  case (JInt i)
  show ?case by (rule reads_text [OF json_dumps_starts [OF JInt]]) (use int_value [OF JInt] in \<open>simp del: json_value.simps\<close>)
next
  case (JFloat s)
  have ok: "float_ok fo s" using JFloat by simp
  show ?case
    by (rule reads_text [OF json_dumps_starts [OF JFloat]]) (use float_value [OF ok] in \<open>simp del: json_value.simps\<close>)
next
  case (JStr s)
  show ?case
    by (rule reads_text [OF json_dumps_starts [OF JStr]]) (simp del: json_value.simps add: string_value)
next
  case (JBool b)
  show ?case
    by (rule reads_text [OF json_dumps_starts [OF JBool]]) (cases b; simp add: json_constants_def strip_prefix_def)
next
  case JNull
  show ?case
    by (rule reads_text [OF json_dumps_starts [OF JNull]]) (simp add: json_constants_def strip_prefix_def)
qed

subsection \<open>Texts are ASCII\<close>

lemma ascii_text_simps [simp]:
  "ascii_text []" "ascii_text (c # s) \<longleftrightarrow> (of_char c :: nat) < 128 \<and> ascii_text s"
  "ascii_text (s @ t) \<longleftrightarrow> ascii_text s \<and> ascii_text t"
  by (simp_all add: ascii_text_def)

lemma ascii_intercalate: "ascii_text sep \<Longrightarrow> list_all ascii_text xs \<Longrightarrow> ascii_text (intercalate sep xs)"
  by (induction xs rule: induct_list012) simp_all

lemma ascii_digits: "list_all is_digit s \<Longrightarrow> ascii_text s"
  by (induction s) (auto simp: is_digit_def)

lemma digit_char_ascii: "n < 16 \<Longrightarrow> (of_char (digit_char n) :: nat) < 128"
proof -
  have "\<forall>n \<in> set [0..<16]. (of_char (digit_char n) :: nat) < 128" by code_simp
  moreover assume "n < 16"
  ultimately show ?thesis by simp
qed

lemma ascii_escape: "ascii_text (json_escape c)"
proof -
  have n: "(of_char c :: nat) < 256" by (rule nat_of_char_less_256)
  then have "(of_char c :: nat) div 16 < 16" "(of_char c :: nat) mod 16 < 16" by linarith+
  then show ?thesis using digit_char_ascii by (simp add: json_escape_def)
qed

lemma ascii_string: "ascii_text (json_string s)"
  unfolding json_string_def by (induction s) (simp_all add: ascii_escape)

lemma ascii_dumps: "json_ok fo j \<Longrightarrow> ascii_text (json_dumps sk j)"
proof (induction j)
  case (JList js)
  then show ?case by (auto simp: list_all_iff intro!: ascii_intercalate)
next
  case (JObj kvs)
  have "ascii_text (member_text sk kv)" if "kv \<in> set kvs" for kv
    using JObj.IH [OF that, of "snd kv"] JObj.prems that
    by (auto simp: list_all_iff snds.simps member_text_def ascii_string)
  then show ?case
    unfolding json_dumps_obj using written_facts(1) [of sk kvs] by (auto simp: list_all_iff intro!: ascii_intercalate)
next
  case (JInt i)
  then show ?case using ascii_digits [OF dec_nat_digits] by (simp add: dec_int_def)
next
  case (JFloat s)
  then show ?case by (auto simp: float_ok_def float_literal_def float_token_def)
qed (simp_all add: ascii_string)

subsection \<open>The round trip\<close>

lemma json_roundtrip_text:
  assumes "json_ok fo j"
  shows "json_loads fo (json_dumps sk j) = Some (json_sorted sk j)"
proof -
  let ?s = "json_dumps sk j"
  have "json_value fo (Suc (length ?s)) (?s @ []) = Some (json_sorted sk j, [])"
    using json_reads [OF assms] unfolding reads_def by (metis le_SucI order_refl stops_simps(1))
  moreover have "skip_ws ?s = ?s" using skip_starts [OF json_dumps_starts [OF assms], of sk "[]"] by simp
  moreover have "list_all (\<lambda>c. (of_char c :: nat) < 128) ?s" using ascii_dumps [OF assms] by (simp add: ascii_text_def)
  ultimately show ?thesis by (simp add: json_loads_def skip_ws_def)
qed

text \<open>
  a value written by \<open>json.dumps\<close> is read back by \<open>json.loads\<close> as the same
  value, its members in the order of their keys when the writer sorts them.
\<close>

theorem json_roundtrip:
  assumes "json_ok fo j"
  shows "json_loads fo (json_dumps sk j) = Some (json_sorted sk j)"
  by (rule json_roundtrip_text [OF assms])

lemma json_dumps_injective:
  assumes "json_ok fo j" and "json_ok fo k" and "json_dumps sk j = json_dumps sk k"
  shows "json_sorted sk j = json_sorted sk k"
  using json_reads [OF assms(1), of sk] json_reads [OF assms(2), of sk] assms(3)
  by (metis Pair_inject option.inject order_refl reads_def stops_simps(1))

lemma json_dumps_sorted: "json_dumps False (json_sorted sk j) = json_dumps sk j"
proof (induction j)
  case (JList js)
  then have "map (json_dumps False) (map (json_sorted sk) js) = map (json_dumps sk) js" by simp
  then show ?case by (simp only: json_sorted.simps json_dumps.simps)
next
  case (JObj kvs)
  have "member_text False (fst kv, json_sorted sk (snd kv)) = member_text sk kv" if "kv \<in> set (written sk kvs)" for kv
    using JObj.IH [of kv "snd kv"] that written_facts(1) [of sk kvs] by (simp add: member_text_def snds.simps)
  then have "map (member_text False) (map (\<lambda>kv. (fst kv, json_sorted sk (snd kv))) (written sk kvs)) =
      map (member_text sk) (written sk kvs)"
    by simp
  then show ?case unfolding json_sorted_obj json_dumps_obj by (simp only: written_def if_False)
qed simp_all

lemma json_dumps_eq_iff:
  "json_ok fo j \<Longrightarrow> json_ok fo k \<Longrightarrow>
    json_dumps sk j = json_dumps sk k \<longleftrightarrow> json_sorted sk j = json_sorted sk k"
  by (metis json_dumps_injective json_dumps_sorted)

end
