(* ===== verification/Request_Digest.thy ===== *)
theory Request_Digest
  imports Json_Roundtrip Leasing
begin

text \<open>
  What the idempotency digest of a lease request identifies: the canonical text decides the
  request up to the order of its label and metadata keys, so two requests get the same digest
  exactly when they ask for the same.
\<close>

definition same_members :: "(string \<times> json) list \<Rightarrow> (string \<times> json) list \<Rightarrow> bool" where
  "same_members kvs kvs' \<longleftrightarrow> json_sorted True (JObj kvs) = json_sorted True (JObj kvs')"

definition same_request :: "lease_create \<Rightarrow> lease_create \<Rightarrow> bool" where
  "same_request a b \<longleftrightarrow>
     lc_resource_type a = lc_resource_type b \<and> lc_sharing_mode a = lc_sharing_mode b \<and>
     map_of (lc_labels a) = map_of (lc_labels b) \<and> lc_ttl a = lc_ttl b \<and>
     lc_consumer a = lc_consumer b \<and> same_members (lc_metadata a) (lc_metadata b)"

text \<open>Dictionaries have no duplicate keys, and a number has a text.\<close>

definition request_ok :: "(string \<Rightarrow> string) \<Rightarrow> lease_create \<Rightarrow> bool" where
  "request_ok fo rq \<longleftrightarrow> distinct (map fst (lc_labels rq)) \<and> json_ok fo (JObj (lc_metadata rq)) \<and>
     json_ok fo (opt_json JInt (supplied_ttl (lc_ttl rq)))"

lemma length_dec_nat: "n < 10 ^ k \<Longrightarrow> 0 < k \<Longrightarrow> length (dec_nat n) \<le> k"
proof (induction n arbitrary: k rule: dec_nat.induct)
  case (1 n)
  show ?case
  proof (cases "n < 10")
    case True
    then show ?thesis using 1(3) by (subst dec_nat.simps) simp
  next
    case False
    obtain j where j: "k = Suc j" using 1(3) by (cases k) auto
    have "0 < j" using False 1(2) j by (cases j) auto
    moreover have "n div 10 < 10 ^ j" using 1(2) j by (simp add: less_mult_imp_div_less mult.commute)
    ultimately have "length (dec_nat (n div 10)) \<le> j" using 1(1) [OF False] by blast
    then show ?thesis using False j by (subst dec_nat.simps) simp
  qed
qed

lemma json_ok_int: "0 \<le> i \<Longrightarrow> i < 10 ^ 4300 \<Longrightarrow> json_ok fo (JInt i)"
proof -
  assume "0 \<le> i" "i < 10 ^ 4300"
  then have "nat i < 10 ^ 4300" by (metis nat_less_iff of_nat_numeral of_nat_power)
  then have "length (dec_nat (nat i)) \<le> 4300" by (rule length_dec_nat) simp
  then show ?thesis using \<open>0 \<le> i\<close> by simp
qed

lemma distinct_label_keys: "distinct (map fst ls) \<Longrightarrow> distinct (map fst (map (\<lambda>(k, v). (k, JStr v)) ls))"
  by (simp add: comp_def case_prod_unfold)

lemma request_payload_ok: "request_ok fo rq \<Longrightarrow> json_ok fo (request_payload rq)"
  using distinct_label_keys [of "lc_labels rq"]
  by (auto simp: request_ok_def request_payload_def opt_json_def list_all_iff split: option.splits)

lemma sort_key_eq_iff:
  assumes "distinct (map fst xs)" and "distinct (map fst ys)"
  shows "sort_key fst xs = sort_key fst ys \<longleftrightarrow> map_of xs = map_of ys"
proof
  assume "sort_key fst xs = sort_key fst ys"
  then have "set xs = set ys" by (metis set_sort)
  then show "map_of xs = map_of ys" using map_of_inject_set [OF assms] by blast
next
  assume "map_of xs = map_of ys"
  then have "set xs = set ys" using assms map_of_inject_set by blast
  then show "sort_key fst xs = sort_key fst ys"
    using assms by (intro map_sorted_distinct_set_unique [where f = fst])
      (auto simp: inj_on_def distinct_map dest: eq_key_imp_eq_value)
qed

lemma json_sorted_payload:
  "json_sorted True (request_payload rq) = JObj
     [(''consumer'', opt_json JStr (lc_consumer rq)),
      (''labels'', JObj (sort_key fst (map (\<lambda>(k, v). (k, JStr v)) (lc_labels rq)))),
      (''metadata'', json_sorted True (JObj (lc_metadata rq))),
      (''resource_type'', JStr (lc_resource_type rq)),
      (''sharing_mode'', JStr (sharing_name (lc_sharing_mode rq))),
      (''ttl_seconds'', opt_json JInt (supplied_ttl (lc_ttl rq))),
      (''ttl_seconds_intent'', JStr (if lc_ttl rq = None then ''omitted'' else ''explicit''))]"
proof -
  have opt: "json_sorted True (opt_json JStr x) = opt_json JStr x" "json_sorted True (opt_json JInt y) = opt_json JInt y"
    for x y by (simp_all add: opt_json_def split: option.splits)
  have "json_sorted True (JObj (map (\<lambda>(k, v). (k, JStr v)) (lc_labels rq))) =
      JObj (sort_key fst (map (\<lambda>(k, v). (k, JStr v)) (lc_labels rq)))"
    by (simp add: comp_def case_prod_unfold)
  then show ?thesis
    unfolding request_payload_def json_sorted_obj [of True "_ # _"] written_def by (simp del: json_sorted.simps(2) add: opt)
qed

lemma labels_json_eq:
  assumes "distinct (map fst (a :: labels))" and "distinct (map fst b)"
  shows "sort_key fst (map (\<lambda>(k, v). (k, JStr v)) a) = sort_key fst (map (\<lambda>(k, v). (k, JStr v)) b) \<longleftrightarrow>
    map_of a = map_of b"
proof -
  have "map (\<lambda>(k, v). (k, JStr v)) xs = map (\<lambda>(k, v). (k, JStr v)) ys \<longleftrightarrow> xs = ys" for xs ys :: labels
    by (rule inj_map_eq_map) (auto simp: inj_on_def)
  then show ?thesis
    using sort_key_eq_iff [OF assms] by (simp add: sort_key_map comp_def case_prod_unfold)
qed

lemma payload_eq_iff:
  assumes "request_ok fo a" and "request_ok fo b"
  shows "json_sorted True (request_payload a) = json_sorted True (request_payload b) \<longleftrightarrow> same_request a b"
proof -
  have "distinct (map fst (lc_labels a))" "distinct (map fst (lc_labels b))"
    using assms by (auto simp: request_ok_def)
  note labels = labels_json_eq [OF this]
  have opt: "opt_json JStr x = opt_json JStr y \<longleftrightarrow> x = y" "opt_json JInt i = opt_json JInt j \<longleftrightarrow> i = j" for x y i j
    by (auto simp: opt_json_def split: option.splits)
  have mode: "sharing_name m = sharing_name n \<longleftrightarrow> m = n" for m n
    by (auto simp: sharing_name_def split: sharing_mode.splits)
  have ttl: "lc_ttl a = lc_ttl b \<longleftrightarrow> supplied_ttl (lc_ttl a) = supplied_ttl (lc_ttl b) \<and>
      (if lc_ttl a = None then ''omitted'' else ''explicit'') = (if lc_ttl b = None then ''omitted'' else ''explicit'')"
    by (auto simp: supplied_ttl_def split: option.splits)
  show ?thesis
    unfolding json_sorted_payload same_request_def same_members_def ttl labels [symmetric]
    by (simp only: json.inject list.inject prod.inject opt mode simp_thms HOL.conj_ac)
qed

text \<open>
  C33: two lease requests get the same idempotency digest exactly when they ask for the same:
  the same type, sharing mode, labels, consumer and metadata, and the same TTL intent (left
  out, explicitly null or a number), whatever the order of their keys. The digest is assumed
  not to collide on the two canonical texts.
\<close>

theorem request_digest_identifies:
  assumes "request_ok fo a" and "request_ok fo b"
    and "sha (json_dumps True (request_payload a)) = sha (json_dumps True (request_payload b)) \<Longrightarrow>
      json_dumps True (request_payload a) = json_dumps True (request_payload b)"
  shows "request_hash sha a = request_hash sha b \<longleftrightarrow> same_request a b"
  using json_dumps_eq_iff [OF request_payload_ok request_payload_ok, OF assms(1,2), of True]
    payload_eq_iff [OF assms(1,2)] assms(3)
  by (auto simp: request_hash_def)

end
