(* ===== verification/Metrics.thy ===== *)
theory Metrics
  imports Complex_Main Request_Digest Service_Api Leasing_Expiry
begin

text \<open>
  Operational metrics (\<open>observability.py\<close>): the process counters, the gauges read from the
  database during a scrape, the snapshot file through which the expiration worker publishes
  its totals to the server process, and the samples of one rendering. A file holds bytes or
  is missing; a float is its \<open>repr\<close>, as in \<open>Json\<close>.
\<close>

subsection \<open>Process counters\<close>

text \<open>A counter per label tuple; a histogram is kept as the values it observed.\<close>

record process_metrics =
  pm_requests :: "(string \<times> string \<times> string) \<Rightarrow> nat"
  pm_request_durations :: "(string \<times> string) \<Rightarrow> rat list"
  pm_allocations :: "(string \<times> sharing_mode) \<Rightarrow> nat"
  pm_allocation_durations :: "(string \<times> sharing_mode) \<Rightarrow> rat list"

definition no_process_metrics :: process_metrics where
  "no_process_metrics = \<lparr>pm_requests = \<lambda>_. 0, pm_request_durations = \<lambda>_. [],
     pm_allocations = \<lambda>_. 0, pm_allocation_durations = \<lambda>_. []\<rparr>"

definition http_methods :: "string list" where
  "http_methods = [''DELETE'', ''GET'', ''HEAD'', ''OPTIONS'', ''PATCH'', ''POST'', ''PUT'']"

definition method_label :: "string \<Rightarrow> string" where
  "method_label m = (if m \<in> set http_methods then m else ''OTHER'')"

definition status_class :: "int \<Rightarrow> string" where
  "status_class code = dec_int (code div 100) @ ''xx''"

definition record_http_request :: "string \<Rightarrow> string \<Rightarrow> int \<Rightarrow> rat \<Rightarrow> process_metrics \<Rightarrow> process_metrics" where
  "record_http_request method route status_code duration pm =
     (let m = method_label method; key = (m, route, status_class status_code) in
      pm\<lparr>pm_requests := (pm_requests pm)(key := pm_requests pm key + 1),
         pm_request_durations := (pm_request_durations pm)
           ((m, route) := pm_request_durations pm (m, route) @ [duration])\<rparr>)"

definition record_allocation :: "string \<Rightarrow> sharing_mode \<Rightarrow> rat \<Rightarrow> process_metrics \<Rightarrow> process_metrics" where
  "record_allocation outcome mode duration pm =
     pm\<lparr>pm_allocations := (pm_allocations pm)((outcome, mode) := pm_allocations pm (outcome, mode) + 1),
        pm_allocation_durations := (pm_allocation_durations pm)
          ((outcome, mode) := pm_allocation_durations pm (outcome, mode) @ [duration])\<rparr>"

subsection \<open>Gauges of the database\<close>

text \<open>\<open>LEFT JOIN ... ON\<close> and \<open>GROUP BY\<close>: the groups with their rows.\<close>

definition left_join :: "('a \<Rightarrow> 'b \<Rightarrow> bool) \<Rightarrow> 'a list \<Rightarrow> 'b list \<Rightarrow> ('a \<times> 'b option) list" where
  "left_join on as bs = concat (map (\<lambda>a.
     case filter (on a) bs of [] \<Rightarrow> [(a, None)] | ms \<Rightarrow> map (\<lambda>b. (a, Some b)) ms) as)"

definition group_by :: "('r \<Rightarrow> 'k) \<Rightarrow> 'r list \<Rightarrow> ('k \<times> 'r list) list" where
  "group_by key rows = map (\<lambda>k. (k, filter (\<lambda>r. key r = k) rows)) (remdups (map key rows))"

record resource_load =
  rl_mode :: sharing_mode
  rl_available :: bool
  rl_active :: nat

record sharing_metrics =
  sm_active_leases :: nat
  sm_utilized_resources :: nat
  sm_total_resources :: nat

text \<open>The lag is kept in microseconds.\<close>

record metrics_snapshot =
  ms_sharing :: "sharing_mode \<rightharpoonup> sharing_metrics"
  ms_backlog :: nat
  ms_lag :: int

definition available :: "resource \<Rightarrow> bool" where
  "available r \<longleftrightarrow> r_archived_at r = None \<and> r_status r = Active"

definition per_resource :: "instant \<Rightarrow> db \<Rightarrow> resource_load list" where
  "per_resource now d =
     map (\<lambda>((i, mode, av), rows).
         \<lparr>rl_mode = mode, rl_available = av, rl_active = length (filter (\<lambda>(r, l). l \<noteq> None) rows)\<rparr>)
       (group_by (\<lambda>(r, l). (r_id r, r_sharing_mode r, available r))
         (left_join (\<lambda>r l. l_resource_id l = r_id r \<and> active_lease now l) (db_resources d) (db_leases d)))"

definition sharing_rows :: "instant \<Rightarrow> db \<Rightarrow> (sharing_mode \<times> nat \<times> nat \<times> nat) list" where
  "sharing_rows now d =
     map (\<lambda>(mode, rows).
         (mode, sum_list (map rl_active rows),
          length (filter (\<lambda>r. rl_available r \<and> rl_active r > 0) rows), length (filter rl_available rows)))
       (group_by rl_mode (per_resource now d))"

definition expiration_row :: "instant \<Rightarrow> db \<Rightarrow> nat \<times> int" where
  "expiration_row now d =
     (let overdue = map (\<lambda>l. the (l_expires_at l)) (filter (due_lease now) (db_leases d)) in
      (length overdue, case overdue of [] \<Rightarrow> 0 | e # es \<Rightarrow> now - foldl min e es))"

definition collect_database_metrics :: "instant \<Rightarrow> db \<Rightarrow> metrics_snapshot" where
  "collect_database_metrics now d =
     \<lparr>ms_sharing = foldl (\<lambda>m (mode, active, utilized, total).
        m(mode \<mapsto> \<lparr>sm_active_leases = active, sm_utilized_resources = utilized, sm_total_resources = total\<rparr>))
        (\<lambda>_. None) (sharing_rows now d),
      ms_backlog = fst (expiration_row now d), ms_lag = max 0 (snd (expiration_row now d))\<rparr>"

subsection \<open>The snapshot of the worker\<close>

record worker_snapshot =
  wm_available :: bool
  wm_revision :: string
  wm_success :: int
  wm_failure :: int
  wm_expired :: int
  wm_last_success :: string
  wm_last_failure :: string

definition no_worker_snapshot :: worker_snapshot where
  "no_worker_snapshot = \<lparr>wm_available = False, wm_revision = ''unknown'', wm_success = 0, wm_failure = 0,
     wm_expired = 0, wm_last_success = ''0.0'', wm_last_failure = ''0.0''\<rparr>"

definition lower_hex :: "char \<Rightarrow> bool" where
  "lower_hex c \<longleftrightarrow> is_digit c \<or> (97 \<le> (of_char c :: nat) \<and> (of_char c :: nat) \<le> 102)"

definition build_revision :: "(string \<Rightarrow> string) \<Rightarrow> string option \<Rightarrow> string" where
  "build_revision lower env =
     (let revision = lower (case env of None \<Rightarrow> ''unknown'' | Some v \<Rightarrow> v) in
      if 7 \<le> length revision \<and> length revision \<le> 64 \<and> list_all lower_hex revision
      then revision else ''unknown'')"

text \<open>\<open>dict.get\<close>, with \<open>JNull\<close> for a missing key: the checks treat both alike.\<close>

definition dict_get :: "string \<Rightarrow> (string \<times> json) list \<Rightarrow> json" where
  "dict_get k kvs = (case map_of kvs k of None \<Rightarrow> JNull | Some v \<Rightarrow> v)"

fun total_value :: "json \<Rightarrow> int option" where
  "total_value (JInt i) = (if i < 0 then None else Some i)"
| "total_value _ = None"

text \<open>
  A timestamp is a number, booleans included; \<open>negative\<close> reads the sign off a \<open>repr\<close>, and
  \<open>float_of_int\<close> is \<open>repr(float(i))\<close>, without a value where \<open>OverflowError\<close> is raised.
\<close>

definition negative :: "string \<Rightarrow> bool" where
  "negative s \<longleftrightarrow> s \<noteq> [] \<and> hd s = CHR ''-'' \<and> s \<noteq> ''-0.0''"

fun timestamp_ok :: "json \<Rightarrow> bool" where
  "timestamp_ok (JInt i) = (0 \<le> i)"
| "timestamp_ok (JFloat s) = (\<not> negative s)"
| "timestamp_ok (JBool b) = True"
| "timestamp_ok _ = False"

fun as_float :: "(int \<Rightarrow> string option) \<Rightarrow> json \<Rightarrow> string option" where
  "as_float float_of_int (JInt i) = float_of_int i"
| "as_float float_of_int (JBool b) = float_of_int (if b then 1 else 0)"
| "as_float float_of_int (JFloat s) = Some s"
| "as_float float_of_int _ = None"

text \<open>
  The file is missing or unreadable (\<open>None\<close>) or holds bytes. Reading it never raises an
  \<open>OSError\<close>: that, undecodable bytes and text that is not a JSON object all mean that there
  is no signal. Only an integer too large for a float raises. What is read is taken to be ASCII
  with integers \<open>int\<close> accepts, as the worker writes it (\<open>json_loads\<close>).
\<close>

type_synonym content = "bytes option"

datatype io_error = OSError | OverflowError

definition load_worker_metrics ::
  "(string \<Rightarrow> string) \<Rightarrow> (int \<Rightarrow> string option) \<Rightarrow> string \<Rightarrow> content option \<Rightarrow> io_error + worker_snapshot" where
  "load_worker_metrics fo float_of_int revision path =
     (case path of
        None \<Rightarrow> Inr no_worker_snapshot
      | Some content \<Rightarrow>
         (case Option.bind (Option.bind content utf8_decode) (json_loads fo) of
            Some (JObj payload) \<Rightarrow>
              let totals = map (\<lambda>k. total_value (dict_get k payload))
                    [''success_total'', ''failure_total'', ''expired_leases_total''];
                  stamps = map (\<lambda>k. dict_get k payload) [''last_success_timestamp'', ''last_failure_timestamp''] in
              if dict_get ''revision'' payload \<noteq> JStr revision then Inr no_worker_snapshot
              else if None \<in> set totals then Inr no_worker_snapshot
              else if \<not> list_all timestamp_ok stamps then Inr no_worker_snapshot
              else (case map (as_float float_of_int) stamps of
                 [Some s, Some f] \<Rightarrow>
                   Inr \<lparr>wm_available = True, wm_revision = revision, wm_success = the (totals ! 0),
                        wm_failure = the (totals ! 1), wm_expired = the (totals ! 2),
                        wm_last_success = s, wm_last_failure = f\<rparr>
               | _ \<Rightarrow> Inl OverflowError)
          | _ \<Rightarrow> Inr no_worker_snapshot))"

datatype outcome = Success | Failure

definition worker_payload :: "string \<Rightarrow> worker_snapshot \<Rightarrow> outcome \<Rightarrow> int \<Rightarrow> string \<Rightarrow> json" where
  "worker_payload revision current outcome expired now = JObj
     [(''revision'', JStr revision),
      (''success_total'', JInt (wm_success current + (if outcome = Success then 1 else 0))),
      (''failure_total'', JInt (wm_failure current + (if outcome = Failure then 1 else 0))),
      (''expired_leases_total'', JInt (wm_expired current + expired)),
      (''last_success_timestamp'', JFloat (if outcome = Success then now else wm_last_success current)),
      (''last_failure_timestamp'', JFloat (if outcome = Failure then now else wm_last_failure current))]"

text \<open>
  \<open>update_worker_metrics\<close> under its file lock. \<open>broken\<close> says that an operation on the directory,
  the lock or the temporary file fails: the file is replaced as a whole or not at all.
  \<open>publish_worker_metrics\<close> survives such a failure.
\<close>

definition update_worker_metrics ::
  "(string \<Rightarrow> string) \<Rightarrow> (int \<Rightarrow> string option) \<Rightarrow> string \<Rightarrow> bool \<Rightarrow> outcome \<Rightarrow> int \<Rightarrow> string \<Rightarrow>
     content option \<Rightarrow> io_error + content option" where
  "update_worker_metrics fo float_of_int revision broken outcome expired now path =
     (case path of
        None \<Rightarrow> Inr None
      | Some content \<Rightarrow>
          if broken then Inl OSError
          else case load_worker_metrics fo float_of_int revision (Some content) of
            Inl e \<Rightarrow> Inl e
          | Inr current \<Rightarrow>
              Inr (Some (Some (utf8_encode
                (json_dumps False (worker_payload revision current outcome expired now))))))"

definition publish_worker_metrics ::
  "(string \<Rightarrow> string) \<Rightarrow> (int \<Rightarrow> string option) \<Rightarrow> string \<Rightarrow> bool \<Rightarrow> outcome \<Rightarrow> int \<Rightarrow> string \<Rightarrow>
     content option \<Rightarrow> io_error + content option" where
  "publish_worker_metrics fo float_of_int revision broken outcome expired now path =
     (case update_worker_metrics fo float_of_int revision broken outcome expired now path of
        Inl OSError \<Rightarrow> Inr path
      | r \<Rightarrow> r)"

text \<open>
  The signals of a run of the worker, in order, each with whether the file operations fail
  and the time it is published.
\<close>

definition publish_event ::
  "(string \<Rightarrow> string) \<Rightarrow> (int \<Rightarrow> string option) \<Rightarrow> string \<Rightarrow> worker_event \<Rightarrow> bool \<Rightarrow> string \<Rightarrow>
     content option \<Rightarrow> io_error + content option" where
  "publish_event fo float_of_int revision ev broken now path =
     (case ev of
        MetricsSuccess n \<Rightarrow> publish_worker_metrics fo float_of_int revision broken Success (int n) now path
      | MetricsFailure \<Rightarrow> publish_worker_metrics fo float_of_int revision broken Failure 0 now path
      | _ \<Rightarrow> Inr path)"

fun publish_events ::
  "(string \<Rightarrow> string) \<Rightarrow> (int \<Rightarrow> string option) \<Rightarrow> string \<Rightarrow> (worker_event \<times> bool \<times> string) list \<Rightarrow>
     content option \<Rightarrow> io_error + content option" where
  "publish_events fo float_of_int revision [] path = Inr path"
| "publish_events fo float_of_int revision ((ev, broken, now) # evs) path =
     (case publish_event fo float_of_int revision ev broken now path of
        Inl e \<Rightarrow> Inl e
      | Inr path' \<Rightarrow> publish_events fo float_of_int revision evs path')"

subsection \<open>Rendering\<close>

datatype sample_value = Number rat | FloatText string

text \<open>
  The samples a scrape adds to the process counters: the name without the prefix
  \<open>shepherd_rm_\<close>, the label values and the value.
\<close>

definition mode_metrics :: "metrics_snapshot \<Rightarrow> sharing_mode \<Rightarrow> sharing_metrics" where
  "mode_metrics snapshot mode = (case ms_sharing snapshot mode of Some v \<Rightarrow> v
     | None \<Rightarrow> \<lparr>sm_active_leases = 0, sm_utilized_resources = 0, sm_total_resources = 0\<rparr>)"

definition utilization :: "sharing_metrics \<Rightarrow> rat" where
  "utilization v = (if sm_total_resources v \<noteq> 0
     then of_nat (sm_utilized_resources v) / of_nat (sm_total_resources v) else 0)"

definition render_metrics ::
  "string \<Rightarrow> metrics_snapshot \<Rightarrow> worker_snapshot \<Rightarrow> (string \<times> string list \<times> sample_value) list" where
  "render_metrics revision snapshot worker =
     [(''build_info'', [''0.1.0'', revision], Number 1)] @
     concat (map (\<lambda>m. let v = mode_metrics snapshot m in
         [(''active_leases'', [sharing_name m], Number (of_nat (sm_active_leases v))),
          (''resource_utilization_ratio'', [sharing_name m], Number (utilization v))]) [Exclusive, Shared]) @
     [(''expired_leases'', [], Number (of_int (wm_expired worker))),
      (''expiration_backlog_leases'', [], Number (of_nat (ms_backlog snapshot))),
      (''expiration_lag_seconds'', [], Number (of_int (ms_lag snapshot) / 1000000)),
      (''worker_metrics_available'', [], Number (if wm_available worker then 1 else 0)),
      (''worker_loops'', [''success''], Number (of_int (wm_success worker))),
      (''worker_loops'', [''failure''], Number (of_int (wm_failure worker))),
      (''worker_last_loop_timestamp_seconds'', [''success''], FloatText (wm_last_success worker)),
      (''worker_last_loop_timestamp_seconds'', [''failure''], FloatText (wm_last_failure worker))]"

end
