(* ===== verification/Metrics_Laws.thy ===== *)
theory Metrics_Laws
  imports Metrics
begin

text \<open>
  What the metrics of a scrape count: the aggregation queries against direct counts over the
  tables, the totals of the worker against what it did, and the bounds of the values and labels.
\<close>

subsection \<open>Joins and groups\<close>

lemma remdups_replicated:
  "xs \<noteq> [] \<Longrightarrow> \<forall>x \<in> set xs. x = k \<Longrightarrow> k \<notin> set ys \<Longrightarrow> remdups (xs @ ys) = k # remdups ys"
proof (induction xs)
  case (Cons x xs)
  then have x: "x = k" "\<forall>x \<in> set xs. x = k" by simp_all
  show ?case
  proof (cases "xs = []")
    case True
    then show ?thesis using x(1) Cons.prems(3) by simp
  next
    case False
    have "remdups (xs @ ys) = k # remdups ys" by (rule Cons.IH [OF False x(2) Cons.prems(3)])
    moreover have "k \<in> set xs" using False x(2) by (cases xs) auto
    ultimately show ?thesis using x(1) by simp
  qed
qed simp

definition joined :: "('a \<Rightarrow> 'b \<Rightarrow> bool) \<Rightarrow> 'b list \<Rightarrow> 'a \<Rightarrow> ('a \<times> 'b option) list" where
  "joined on bs a = (case filter (on a) bs of [] \<Rightarrow> [(a, None)] | ms \<Rightarrow> map (\<lambda>b. (a, Some b)) ms)"

lemma left_join_joined: "left_join on as bs = concat (map (joined on bs) as)"
  by (simp add: left_join_def joined_def [abs_def])

lemma joined_facts: "joined on bs a \<noteq> []" "x \<in> set (joined on bs a) \<Longrightarrow> fst x = a"
  "length (filter (\<lambda>(a, b). \<exists>x. b = Some x) (joined on bs a)) = length (filter (on a) bs)"
  by (auto simp: joined_def comp_def split: list.splits)

lemma filter_joined: "filter (\<lambda>(a', b). k a' = k a) (joined on bs a) = joined on bs a"
  by (rule filter_True) (use joined_facts(2) [of _ on bs a] in force)

lemma filter_joined_other: "k a \<noteq> v \<Longrightarrow> filter (\<lambda>(a', b). k a' = v) (joined on bs a) = []"
  by (rule filter_False) (use joined_facts(2) [of _ on bs a] in force)

lemma keys_joined: "\<forall>v \<in> set (map (\<lambda>(a', b). k a') (joined on bs a)). v = k a"
  using joined_facts(2) [of _ on bs a] by force

lemma keys_left_join: "set (map (\<lambda>(a, b). k a) (left_join on as bs)) = k ` set as"
proof -
  have "(\<lambda>(a, b). k a) ` set (joined on bs a) = {k a}" for a
    using joined_facts(1) [of on bs a] joined_facts(2) [of _ on bs a] by (cases "joined on bs a") force+
  then show ?thesis by (auto simp: left_join_joined image_UN)
qed

lemma group_by_join:
  "distinct (map k as) \<Longrightarrow>
    group_by (\<lambda>(a, b). k a) (left_join on as bs) = map (\<lambda>a. (k a, joined on bs a)) as"
proof (induction as)
  case (Cons a as)
  let ?rest = "left_join on as bs"
  let ?key = "\<lambda>(a, b). k a"
  have fresh: "k a \<notin> set (map ?key ?rest)" using Cons.prems by (simp only: keys_left_join) auto
  have split: "left_join on (a # as) bs = joined on bs a @ ?rest" by (simp add: left_join_joined)
  have dups: "remdups (map ?key (left_join on (a # as) bs)) = k a # remdups (map ?key ?rest)"
    unfolding split map_append
    by (rule remdups_replicated [OF _ _ fresh]) (use joined_facts(1) [of on bs a] keys_joined [of k on bs a] in simp_all)
  have none: "filter (\<lambda>r. ?key r = k a) ?rest = []"
    using fresh by (force simp: filter_empty_conv)
  have other: "filter (\<lambda>r. ?key r = v) (joined on bs a) = []" if "v \<in> set (remdups (map ?key ?rest))" for v
  proof -
    have "v \<noteq> k a" using that fresh by (metis set_remdups)
    then show ?thesis using filter_joined_other [of k a v] by (simp add: case_prod_unfold)
  qed
  have "group_by ?key (left_join on (a # as) bs) = (k a, joined on bs a) # group_by ?key ?rest"
    unfolding group_by_def dups using none other filter_joined [of k a]
    by (simp add: split case_prod_unfold del: set_remdups)
  with Cons show ?case by simp
qed (simp add: left_join_def group_by_def)

lemma map_of_group_by:
  "map_of (group_by key rows) k = (if k \<in> key ` set rows then Some (filter (\<lambda>r. key r = k) rows) else None)"
  by (simp add: group_by_def map_of_map_restrict restrict_map_def)

lemma distinct_group_by: "distinct (map fst (group_by key rows))"
  by (simp add: group_by_def comp_def)

lemma foldl_upd_map_of:
  "distinct (map fst xs) \<Longrightarrow>
    foldl (\<lambda>m (k, v). m(k \<mapsto> f v)) m xs k = (case map_of xs k of Some v \<Rightarrow> Some (f v) | None \<Rightarrow> m k)"
proof (induction xs arbitrary: m)
  case (Cons x xs)
  obtain k' v where x: "x = (k', v)" by (cases x)
  show ?case
  proof (cases "k' = k")
    case True
    then have "map_of xs k = None" using Cons.prems x by (simp add: map_of_eq_None_iff)
    then show ?thesis using Cons True x by simp
  next
    case False
    then show ?thesis using Cons x by (simp split: option.split)
  qed
qed simp

subsection \<open>The gauges\<close>

lemma per_resource_direct:
  assumes "db_ok d"
  shows "per_resource now d = map (\<lambda>r. \<lparr>rl_mode = r_sharing_mode r, rl_available = available r,
     rl_active = length (active_leases now d (r_id r))\<rparr>) (db_resources d)"
proof -
  have "distinct (map r_id (db_resources d))"
    using assms by (auto simp: db_ok_def resources_valid_def unique_on_def)
  then have "distinct (map (\<lambda>r. (r_id r, r_sharing_mode r, available r)) (db_resources d))"
    by (auto simp: distinct_map inj_on_def)
  from group_by_join [OF this, of "\<lambda>r l. l_resource_id l = r_id r \<and> active_lease now l" "db_leases d"]
  show ?thesis by (simp add: per_resource_def comp_def joined_facts(3) active_leases_def)
qed

definition of_mode :: "sharing_mode \<Rightarrow> db \<Rightarrow> resource list" where
  "of_mode m d = filter (\<lambda>r. r_sharing_mode r = m) (db_resources d)"

lemma mode_metrics_direct:
  assumes "db_ok d"
  shows "mode_metrics (collect_database_metrics now d) m =
    \<lparr>sm_active_leases = sum_list (map (\<lambda>r. length (active_leases now d (r_id r))) (of_mode m d)),
     sm_utilized_resources = length (filter (\<lambda>r. available r \<and> active_leases now d (r_id r) \<noteq> []) (of_mode m d)),
     sm_total_resources = length (filter available (of_mode m d))\<rparr>"
proof -
  let ?row = "\<lambda>r. \<lparr>rl_mode = r_sharing_mode r, rl_available = available r,
     rl_active = length (active_leases now d (r_id r))\<rparr>"
  let ?agg = "\<lambda>rows. (sum_list (map rl_active rows),
      length (filter (\<lambda>r. rl_available r \<and> rl_active r > 0) rows), length (filter rl_available rows))"
  let ?val = "\<lambda>(a, u, t). \<lparr>sm_active_leases = a, sm_utilized_resources = u, sm_total_resources = t\<rparr>"
  have rows: "filter (\<lambda>r. rl_mode r = m) (per_resource now d) = map ?row (of_mode m d)"
    by (simp add: per_resource_direct [OF assms] of_mode_def filter_map comp_def)
  have keys: "m \<in> rl_mode ` set (per_resource now d) \<longleftrightarrow> of_mode m d \<noteq> []"
    by (force simp: per_resource_direct [OF assms] of_mode_def filter_empty_conv)
  have sr: "sharing_rows now d = map (\<lambda>(k, rows). (k, ?agg rows)) (group_by rl_mode (per_resource now d))"
    by (simp add: sharing_rows_def)
  have "distinct (map fst (sharing_rows now d))"
    using distinct_group_by [of rl_mode "per_resource now d"] by (simp add: sr comp_def case_prod_unfold)
  from foldl_upd_map_of [OF this, of ?val "\<lambda>_. None" m]
  have "ms_sharing (collect_database_metrics now d) m = map_option ?val (map_of (sharing_rows now d) m)"
    by (simp add: collect_database_metrics_def case_prod_unfold map_option_case cong: option.case_cong)
  moreover have "map_of (sharing_rows now d) m =
      (if of_mode m d \<noteq> [] then Some (?agg (map ?row (of_mode m d))) else None)"
    unfolding sr map_of_map [of ?agg] comp_def map_of_group_by keys rows by simp
  ultimately have look: "ms_sharing (collect_database_metrics now d) m =
      (if of_mode m d \<noteq> [] then Some (?val (?agg (map ?row (of_mode m d)))) else None)"
    by simp
  show ?thesis
  proof (cases "of_mode m d = []")
    case True
    then show ?thesis using look by (simp add: mode_metrics_def)
  next
    case False
    then show ?thesis using look by (simp add: mode_metrics_def comp_def filter_map)
  qed
qed

lemma length_filter_split:
  "r_id r \<notin> r_id ` set rs \<Longrightarrow>
    length (filter (\<lambda>l. active_lease now l \<and> (l_resource_id l = r_id r \<or> l_resource_id l \<in> r_id ` set rs)) ls) =
    length (filter (\<lambda>l. l_resource_id l = r_id r \<and> active_lease now l) ls) +
    length (filter (\<lambda>l. active_lease now l \<and> l_resource_id l \<in> r_id ` set rs) ls)"
  by (induction ls) auto

lemma sum_active_leases:
  "distinct (map r_id rs) \<Longrightarrow>
    sum_list (map (\<lambda>r. length (active_leases now d (r_id r))) rs) =
    length (filter (\<lambda>l. active_lease now l \<and> l_resource_id l \<in> r_id ` set rs) (db_leases d))"
proof (induction rs)
  case (Cons r rs)
  have "length (filter (\<lambda>l. active_lease now l \<and> l_resource_id l \<in> r_id ` set (r # rs)) (db_leases d)) =
      length (active_leases now d (r_id r)) +
      length (filter (\<lambda>l. active_lease now l \<and> l_resource_id l \<in> r_id ` set rs) (db_leases d))"
    using length_filter_split [OF Cons.prems [simplified, THEN conjunct1]] by (simp add: active_leases_def)
  with Cons show ?case by simp
qed simp

lemma foldl_min: "foldl min e es \<in> set (e # es) \<and> (\<forall>x \<in> set (e # es). foldl min e es \<le> x)"
  for e :: "'a :: linorder"
  by (induction es arbitrary: e) (fastforce simp: min_def)+

lemma expiration_row_direct:
  "fst (expiration_row now d) = due_count now d"
  "due_count now d = 0 \<Longrightarrow> snd (expiration_row now d) = 0"
  "l \<in> set (db_leases d) \<Longrightarrow> due_lease now l \<Longrightarrow> now - the (l_expires_at l) \<le> snd (expiration_row now d)"
  "due_count now d \<noteq> 0 \<Longrightarrow>
    \<exists>l \<in> set (db_leases d). due_lease now l \<and> snd (expiration_row now d) = now - the (l_expires_at l)"
proof -
  let ?es = "map (\<lambda>l. the (l_expires_at l)) (filter (due_lease now) (db_leases d))"
  show "fst (expiration_row now d) = due_count now d" by (simp add: expiration_row_def due_count_def Let_def)
  show "snd (expiration_row now d) = 0" if "due_count now d = 0"
    using that by (simp add: expiration_row_def due_count_def Let_def)
  show "now - the (l_expires_at l) \<le> snd (expiration_row now d)"
    if "l \<in> set (db_leases d)" "due_lease now l" for l
  proof -
    have "the (l_expires_at l) \<in> set ?es" using that by auto
    then show ?thesis using foldl_min [of "hd ?es" "tl ?es"] by (cases ?es) (auto simp: expiration_row_def Let_def)
  qed
  show "\<exists>l \<in> set (db_leases d). due_lease now l \<and> snd (expiration_row now d) = now - the (l_expires_at l)"
    if "due_count now d \<noteq> 0"
  proof -
    have "?es \<noteq> []" using that by (simp add: due_count_def)
    then obtain e es where es: "?es = e # es" by (cases ?es) auto
    then have "foldl min e es \<in> set ?es" using foldl_min [of e es] by simp
    then obtain l where "l \<in> set (db_leases d)" "due_lease now l" "foldl min e es = the (l_expires_at l)" by auto
    moreover have "snd (expiration_row now d) = now - foldl min e es"
      unfolding expiration_row_def Let_def es by simp
    ultimately show ?thesis by auto
  qed
qed

lemma sum_of_modes: "sum_list (map f (of_mode Exclusive d)) + sum_list (map f (of_mode Shared d)) =
    sum_list (map f (db_resources d))" for f :: "resource \<Rightarrow> nat"
proof -
  have "sum_list (map f (filter (\<lambda>r. r_sharing_mode r = Exclusive) rs)) +
      sum_list (map f (filter (\<lambda>r. r_sharing_mode r = Shared) rs)) = sum_list (map f rs)" for rs
    by (induction rs) (auto intro: sharing_mode.exhaust)
  then show ?thesis by (simp add: of_mode_def)
qed

text \<open>
  C35: the sharing gauges of a scrape count every active lease exactly once, under the mode of
  its resource; a mode is utilized by the unarchived active resources that hold an active lease, so
  the utilization ratio lies between 0 and 1.
\<close>

theorem sharing_gauges_count:
  assumes "db_ok d" and "v = mode_metrics (collect_database_metrics now d) m"
  shows "sm_active_leases v = length (filter (\<lambda>l. active_lease now l \<and>
      l_resource_id l \<in> r_id ` {r \<in> set (db_resources d). r_sharing_mode r = m}) (db_leases d)) \<and>
    sm_active_leases (mode_metrics (collect_database_metrics now d) Exclusive) +
      sm_active_leases (mode_metrics (collect_database_metrics now d) Shared) =
      length (filter (active_lease now) (db_leases d)) \<and>
    sm_utilized_resources v = length (filter (\<lambda>r. r_sharing_mode r = m \<and> available r \<and>
      active_leases now d (r_id r) \<noteq> []) (db_resources d)) \<and>
    0 \<le> utilization v \<and> utilization v \<le> 1"
proof (intro conjI)
  note direct = mode_metrics_direct [OF assms(1), of now]
  have ids: "distinct (map r_id (db_resources d))"
    using assms(1) by (auto simp: db_ok_def resources_valid_def unique_on_def)
  then have "distinct (map r_id (of_mode m d))" by (simp add: of_mode_def distinct_map_filter)
  from sum_active_leases [OF this, of now d]
  show "sm_active_leases v = length (filter (\<lambda>l. active_lease now l \<and>
      l_resource_id l \<in> r_id ` {r \<in> set (db_resources d). r_sharing_mode r = m}) (db_leases d))"
    by (simp add: assms(2) direct of_mode_def)
  have "filter (\<lambda>l. active_lease now l \<and> l_resource_id l \<in> r_id ` set (db_resources d)) (db_leases d) =
      filter (active_lease now) (db_leases d)"
    using assms(1) by (intro filter_cong) (force simp: db_ok_def leases_valid_def list_all_iff list_ex_iff resource_exists_def)+
  then show "sm_active_leases (mode_metrics (collect_database_metrics now d) Exclusive) +
      sm_active_leases (mode_metrics (collect_database_metrics now d) Shared) =
      length (filter (active_lease now) (db_leases d))"
    using sum_active_leases [OF ids, of now d]
    by (simp add: direct sum_of_modes)
  show "sm_utilized_resources v = length (filter (\<lambda>r. r_sharing_mode r = m \<and> available r \<and>
      active_leases now d (r_id r) \<noteq> []) (db_resources d))"
    by (simp add: assms(2) direct of_mode_def conj_commute conj_left_commute)
  have "sm_utilized_resources v \<le> sm_total_resources v"
    unfolding assms(2) direct sharing_metrics.simps by (rule length_filter_mono) simp
  then show "0 \<le> utilization v" "utilization v \<le> 1"
    by (auto simp: utilization_def divide_simps)
qed

text \<open>
  the expiration gauges of a scrape: the backlog is the number of leases a worker batch would
  find due, and the lag is the age of the oldest of them, 0 when there is none.
\<close>

theorem expiration_gauges_count:
  assumes "s = collect_database_metrics now d"
  shows "ms_backlog s = length (filter (due_lease now) (db_leases d)) \<and>
    (if ms_backlog s = 0 then ms_lag s = 0
     else (\<exists>l \<in> set (db_leases d). due_lease now l \<and> l_expires_at l = Some (now - ms_lag s))) \<and>
    list_all (\<lambda>l. due_lease now l = (l_ended_at l = None \<and> (\<exists>e. l_expires_at l = Some e \<and> now - ms_lag s \<le> e \<and> e \<le> now)))
      (db_leases d)"
proof (intro conjI)
  have lag: "ms_lag s = max 0 (snd (expiration_row now d))" and backlog: "ms_backlog s = due_count now d"
    by (simp_all add: assms collect_database_metrics_def expiration_row_direct(1))
  show "ms_backlog s = length (filter (due_lease now) (db_leases d))" by (simp add: backlog due_count_def)
  show "if ms_backlog s = 0 then ms_lag s = 0
     else (\<exists>l \<in> set (db_leases d). due_lease now l \<and> l_expires_at l = Some (now - ms_lag s))"
  proof (cases "due_count now d = 0")
    case True
    then show ?thesis by (simp add: lag backlog expiration_row_direct(2))
  next
    case False
    from expiration_row_direct(4) [OF this] obtain l where l: "l \<in> set (db_leases d)" "due_lease now l"
      "snd (expiration_row now d) = now - the (l_expires_at l)" by blast
    then show ?thesis using False by (auto simp: lag backlog due_lease_def max_def split: option.splits intro!: bexI [of _ l])
  qed
  have "due_lease now l = (l_ended_at l = None \<and> (\<exists>e. l_expires_at l = Some e \<and> now - ms_lag s \<le> e \<and> e \<le> now))"
    if "l \<in> set (db_leases d)" for l
    using expiration_row_direct(3) [OF that, of now] by (auto simp: due_lease_def lag split: option.splits)
  then show "list_all (\<lambda>l. due_lease now l = (l_ended_at l = None \<and>
      (\<exists>e. l_expires_at l = Some e \<and> now - ms_lag s \<le> e \<and> e \<le> now))) (db_leases d)"
    by (simp add: list_all_iff)
qed

subsection \<open>The totals of the worker\<close>

definition stamp_ok :: "(string \<Rightarrow> string) \<Rightarrow> string \<Rightarrow> bool" where
  "stamp_ok fo s \<longleftrightarrow> float_ok fo s \<and> \<not> negative s"

definition total_ok :: "int \<Rightarrow> bool" where
  "total_ok i \<longleftrightarrow> 0 \<le> i \<and> i < 10 ^ 18"

lemma json_ok_total: "total_ok i \<Longrightarrow> json_ok fo (JInt i)"
proof -
  assume i: "total_ok i"
  then have "nat i < 10 ^ 18" by (simp add: total_ok_def nat_less_iff)
  then have "length (dec_nat (nat i)) \<le> 18" by (rule length_dec_nat) simp
  with i show ?thesis by (simp add: total_ok_def)
qed

definition snapshot_of :: "string \<Rightarrow> int \<Rightarrow> int \<Rightarrow> int \<Rightarrow> string \<Rightarrow> string \<Rightarrow> worker_snapshot" where
  "snapshot_of revision s f e ls lf = \<lparr>wm_available = True, wm_revision = revision, wm_success = s, wm_failure = f,
     wm_expired = e, wm_last_success = ls, wm_last_failure = lf\<rparr>"

definition written_snapshot :: "string \<Rightarrow> int \<Rightarrow> int \<Rightarrow> int \<Rightarrow> string \<Rightarrow> string \<Rightarrow> json" where
  "written_snapshot revision s f e ls lf = JObj
     [(''revision'', JStr revision), (''success_total'', JInt s), (''failure_total'', JInt f),
      (''expired_leases_total'', JInt e), (''last_success_timestamp'', JFloat ls), (''last_failure_timestamp'', JFloat lf)]"

lemma load_written:
  assumes "total_ok s" "total_ok f" "total_ok e" "stamp_ok fo ls" "stamp_ok fo lf"
  shows "load_worker_metrics fo foi revision (Some (Some (utf8_encode (json_dumps False (written_snapshot revision s f e ls lf))))) =
    Inr (snapshot_of revision s f e ls lf)"
proof -
  have "json_ok fo (written_snapshot revision s f e ls lf)"
    using assms json_ok_total by (simp add: written_snapshot_def stamp_ok_def)
  from json_roundtrip_text [OF this, of False]
  have "json_loads fo (json_dumps False (written_snapshot revision s f e ls lf)) = Some (written_snapshot revision s f e ls lf)"
    by (simp add: written_snapshot_def)
  then show ?thesis
    using assms unfolding load_worker_metrics_def
    by (simp add: utf8_roundtrip written_snapshot_def dict_get_def total_ok_def stamp_ok_def snapshot_of_def)
qed

text \<open>What a reader finds: the totals, the last times, and whether they can still be counted on.\<close>

definition reports :: "(string \<Rightarrow> string) \<Rightarrow> (int \<Rightarrow> string option) \<Rightarrow> string \<Rightarrow> content \<Rightarrow> worker_snapshot \<Rightarrow> bool" where
  "reports fo foi revision content w \<longleftrightarrow> load_worker_metrics fo foi revision (Some content) = Inr w \<and>
     total_ok (wm_success w) \<and> total_ok (wm_failure w) \<and> total_ok (wm_expired w) \<and>
     stamp_ok fo (wm_last_success w) \<and> stamp_ok fo (wm_last_failure w)"

lemma reports_missing: "fo ''0.0'' = ''0.0'' \<Longrightarrow> reports fo foi revision None no_worker_snapshot"
  unfolding reports_def load_worker_metrics_def no_worker_snapshot_def
  by (simp add: total_ok_def stamp_ok_def float_ok_def float_literal_def ascii_text_def negative_def
      json_number_def take_int_def take_frac_def take_exp_def is_digit_def)

definition tally :: "worker_event \<Rightarrow> string \<Rightarrow> worker_snapshot \<Rightarrow> string \<Rightarrow> worker_snapshot" where
  "tally ev now w revision =
     (case ev of
        MetricsSuccess n \<Rightarrow> snapshot_of revision (wm_success w + 1) (wm_failure w) (wm_expired w + int n) now (wm_last_failure w)
      | MetricsFailure \<Rightarrow> snapshot_of revision (wm_success w) (wm_failure w + 1) (wm_expired w) (wm_last_success w) now
      | _ \<Rightarrow> w)"

lemma publish_step:
  assumes "reports fo foi revision content w" and "stamp_ok fo now"
    and "total_ok (wm_success (tally ev now w revision))" "total_ok (wm_failure (tally ev now w revision))"
      "total_ok (wm_expired (tally ev now w revision))"
  obtains content' where "publish_event fo foi revision ev False now (Some content) = Inr (Some content')"
    "reports fo foi revision content' (tally ev now w revision)"
proof (cases "\<exists>n. ev = MetricsSuccess n \<or> ev = MetricsFailure")
  case False
  then have "publish_event fo foi revision ev False now (Some content) = Inr (Some content)"
    "tally ev now w revision = w"
    by (auto simp: publish_event_def tally_def split: worker_event.splits)
  then show thesis using that assms(1) by simp
next
  case True
  let ?w = "tally ev now w revision"
  let ?j = "written_snapshot revision (wm_success ?w) (wm_failure ?w) (wm_expired ?w) (wm_last_success ?w) (wm_last_failure ?w)"
  have stamps: "stamp_ok fo (wm_last_success ?w)" "stamp_ok fo (wm_last_failure ?w)"
    using True assms(1,2) by (auto simp: tally_def snapshot_of_def reports_def)
  have "publish_event fo foi revision ev False now (Some content) = Inr (Some (Some (utf8_encode (json_dumps False ?j))))"
    using True assms(1)
    by (auto simp: publish_event_def publish_worker_metrics_def update_worker_metrics_def reports_def tally_def
        snapshot_of_def worker_payload_def written_snapshot_def)
  moreover have "reports fo foi revision (Some (utf8_encode (json_dumps False ?j))) ?w"
    using load_written [OF assms(3-5) stamps, of foi revision] assms(3-5) stamps True
    by (auto simp: reports_def tally_def snapshot_of_def)
  ultimately show thesis by (rule that)
qed

lemma publish_broken: "publish_event fo foi revision ev True now (Some content) = Inr (Some content)"
  by (simp add: publish_event_def publish_worker_metrics_def update_worker_metrics_def split: worker_event.splits)

text \<open>Iterations reported as successful and failed, and the leases reported as expired.\<close>

type_synonym signals = "(worker_event \<times> bool \<times> string) list"

definition successes :: "signals \<Rightarrow> nat" where
  "successes evs = length (filter (\<lambda>(ev, broken, now). \<not> broken \<and> (\<exists>n. ev = MetricsSuccess n)) evs)"

definition failures :: "signals \<Rightarrow> nat" where
  "failures evs = length (filter (\<lambda>(ev, broken, now). \<not> broken \<and> ev = MetricsFailure) evs)"

definition reported :: "worker_event \<Rightarrow> nat" where
  "reported ev = (case ev of MetricsSuccess n \<Rightarrow> n | _ \<Rightarrow> 0)"

definition expirations :: "signals \<Rightarrow> nat" where
  "expirations evs = sum_list (map (\<lambda>(ev, broken, now). if broken then 0 else reported ev) evs)"

lemmas signal_counts = successes_def failures_def expirations_def reported_def

lemma tally_totals:
  "wm_success (tally ev now w revision) = wm_success w + int (successes [(ev, False, now)])"
  "wm_failure (tally ev now w revision) = wm_failure w + int (failures [(ev, False, now)])"
  "wm_expired (tally ev now w revision) = wm_expired w + int (expirations [(ev, False, now)])"
  by (auto simp: tally_def snapshot_of_def signal_counts split: worker_event.splits)

lemma signal_counts_Cons:
  "successes (x # evs) = successes [x] + successes evs"
  "failures (x # evs) = failures [x] + failures evs"
  "expirations (x # evs) = expirations [x] + expirations evs"
  by (auto simp: signal_counts)

lemma signal_counts_broken [simp]:
  "successes [(ev, True, now)] = 0" "failures [(ev, True, now)] = 0" "expirations [(ev, True, now)] = 0"
  by (simp_all add: signal_counts)

lemma total_ok_mono: "total_ok (a + b) \<Longrightarrow> total_ok a' \<Longrightarrow> 0 \<le> b \<Longrightarrow> a' \<le> a \<Longrightarrow> 0 \<le> a \<Longrightarrow> total_ok a"
  by (simp add: total_ok_def)

lemma publish_events_tally:
  assumes "reports fo foi revision content w" and "\<forall>(ev, broken, now) \<in> set evs. stamp_ok fo now"
    and "total_ok (wm_success w + int (successes evs))" "total_ok (wm_failure w + int (failures evs))"
      "total_ok (wm_expired w + int (expirations evs))"
  shows "\<exists>content' w'. publish_events fo foi revision evs (Some content) = Inr (Some content') \<and>
    reports fo foi revision content' w' \<and> wm_success w' = wm_success w + int (successes evs) \<and>
    wm_failure w' = wm_failure w + int (failures evs) \<and> wm_expired w' = wm_expired w + int (expirations evs)"
  using assms
proof (induction evs arbitrary: content w)
  case Nil
  then show ?case by (auto simp: signal_counts)
next
  case (Cons x evs)
  obtain ev broken now where x: "x = (ev, broken, now)" by (cases x)
  note counts = signal_counts_Cons [of x evs]
  obtain c1 w1 where step: "publish_event fo foi revision ev broken now (Some content) = Inr (Some c1)"
    "reports fo foi revision c1 w1" "wm_success w1 = wm_success w + int (successes [x])"
    "wm_failure w1 = wm_failure w + int (failures [x])" "wm_expired w1 = wm_expired w + int (expirations [x])"
  proof (cases broken)
    case True
    then show thesis using that [of content w] publish_broken Cons.prems(1) by (simp add: x)
  next
    case False
    have parts: "successes [x] \<le> successes (x # evs)" "failures [x] \<le> failures (x # evs)"
      "expirations [x] \<le> expirations (x # evs)"
      by (simp_all only: counts le_add1)
    have pos: "0 \<le> wm_success w" "0 \<le> wm_failure w" "0 \<le> wm_expired w"
      using Cons.prems(1) by (simp_all add: reports_def total_ok_def)
    have "total_ok (wm_success (tally ev now w revision))" "total_ok (wm_failure (tally ev now w revision))"
      "total_ok (wm_expired (tally ev now w revision))"
      using Cons.prems(3-5) pos False parts by (simp_all add: tally_totals x total_ok_def)
    from publish_step [OF Cons.prems(1) _ this] obtain c1
      where "publish_event fo foi revision ev False now (Some content) = Inr (Some c1)"
        "reports fo foi revision c1 (tally ev now w revision)"
      using Cons.prems(2) x by auto
    then show thesis using that [of c1 "tally ev now w revision"] False by (simp add: tally_totals x)
  qed
  obtain c2 w2 where rest: "publish_events fo foi revision evs (Some c1) = Inr (Some c2)" "reports fo foi revision c2 w2"
    "wm_success w2 = wm_success w1 + int (successes evs)" "wm_failure w2 = wm_failure w1 + int (failures evs)"
    "wm_expired w2 = wm_expired w1 + int (expirations evs)"
    using Cons.IH [OF step(2)] Cons.prems(2-5) step(3-5) by (auto simp: counts add.assoc)
  have "publish_events fo foi revision (x # evs) (Some content) = Inr (Some c2)"
    using step(1) rest(1) by (simp add: x)
  with rest(2-5) step(3-5) show ?case
    by (intro exI [of _ c2] exI [of _ w2]) (simp add: counts)
qed

definition expired_leases :: "db \<Rightarrow> nat" where
  "expired_leases d = length (filter (\<lambda>l. l_end_reason l = Some Expired) (db_leases d))"

lemma batch_counts_expired:
  assumes "db_ok d" and "expire_due_leases cx b d = Inr (n, d')"
  shows "db_ok d' \<and> expired_leases d' = expired_leases d + n"
proof -
  let ?ls = "due_rows (cx_now cx) b d"
  let ?p = "\<lambda>x. l_id x \<in> l_id ` set ?ls"
  have d': "db_ok d'" "n = length ?ls" "db_leases d' = update_where ?p expire_row (db_leases d)"
    using expire_due_leases_run [OF assms(1) refl, of cx b] assms(2) by auto
  note facts = due_rows_facts [OF assms(1), of "cx_now cx" b]
  have mem: "?p x \<longleftrightarrow> x \<in> set ?ls" if "x \<in> set (db_leases d)" for x
    using lease_id_inj [OF assms(1) that] facts(1) by auto
  have open_row: "l_end_reason x \<noteq> Some Expired" if "x \<in> set ?ls" for x
  proof -
    have "x \<in> set (db_leases d)" "due_lease (cx_now cx) x" using facts(1) that by auto
    then show ?thesis
      using assms(1) by (auto simp: db_ok_def leases_valid_def list_all_iff lease_check_def due_lease_def)
  qed
  have "length (filter (\<lambda>l. l_end_reason l = Some Expired) (update_where ?p expire_row rows)) =
      length (filter (\<lambda>l. l_end_reason l = Some Expired) rows) + length (filter (\<lambda>x. x \<in> set ?ls) rows)"
    if "set rows \<subseteq> set (db_leases d)" for rows
    using that
  proof (induction rows)
    case (Cons x rows)
    then show ?case using mem [of x] open_row [of x] by (auto simp: update_where_def expire_row_def)
  qed (simp add: update_where_def)
  moreover have "length (filter (\<lambda>x. x \<in> set ?ls) (db_leases d)) = length ?ls"
  proof -
    have "distinct (db_leases d)" "distinct ?ls"
      using leases_unique [OF assms(1)] facts(2) by (auto simp: unique_on_def distinct_map)
    moreover have "set ?ls \<subseteq> set (db_leases d)" using facts(1) by auto
    ultimately show ?thesis using perm_length_filter [of "db_leases d" ?ls "\<lambda>_. True"] by simp
  qed
  ultimately show ?thesis using d' by (simp add: expired_leases_def)
qed

definition signals_of :: "worker_event list \<Rightarrow> string list \<Rightarrow> signals" where
  "signals_of evs nows = map (\<lambda>(ev, now). (ev, False, now)) (zip evs nows)"

lemma signals_of_counts:
  assumes "db_ok d" and "run_worker b its d = (evs, d')" and "length nows = length evs" and "published its"
  shows "successes (signals_of evs nows) = length its \<and> failures (signals_of evs nows) = 0 \<and>
    expired_leases d' = expired_leases d + expirations (signals_of evs nows)"
  using assms
proof (induction its arbitrary: d evs d' nows)
  case Nil
  then show ?case by (auto simp: signals_of_def signal_counts)
next
  case (Cons it its)
  obtain cx where it: "it = (cx, None)" "published its"
    using Cons.prems(4) by (cases it) (auto simp: published_def)
  obtain n d1 where d1: "expire_due_leases cx b d = Inr (n, d1)"
    using expire_due_leases_run [OF Cons.prems(1) refl, of cx b] by blast
  obtain evs1 where run: "run_worker b its d1 = (evs1, d')"
    "evs = MetricsSuccess n # (if n \<noteq> 0 then LogExpired n else Sleep) # evs1"
    using Cons.prems(2) d1 it(1) by (auto split: prod.splits)
  obtain t1 t2 ts where nows: "nows = t1 # t2 # ts" "length ts = length evs1"
    using Cons.prems(3) run(2) by (cases nows; cases "tl nows") auto
  let ?x = "(MetricsSuccess n, False, t1)" and ?y = "(if n \<noteq> 0 then LogExpired n else Sleep, False, t2)"
  have sig: "signals_of evs nows = ?x # ?y # signals_of evs1 ts"
    by (simp add: signals_of_def nows(1) run(2))
  have one: "successes [?x] = 1" "failures [?x] = 0" "expirations [?x] = n"
    "successes [?y] = 0" "failures [?y] = 0" "expirations [?y] = 0"
    by (simp_all add: signal_counts)
  show ?case
    using Cons.IH [OF _ run(1) nows(2) it(2)] batch_counts_expired [OF Cons.prems(1) d1]
    unfolding sig signal_counts_Cons [of ?x "_ # _"] signal_counts_Cons [of ?y "signals_of evs1 ts"] one by simp
qed

text \<open>
  C36: After a run of the worker's batches, one after the other, whose signals are all published, the snapshot the
  server reads accounts for the run: on top of the totals the file reported before (zero when it was missing,
  unreadable or of another revision) it counts one success per iteration, no further failure, and as many expired
  leases as the database gained. The publication never raises.
\<close>

theorem worker_totals_account:
  assumes "db_ok d" and "run_worker batch_size its d = (evs, d')" and "published its"
    and "length nows = length evs" and "list_all (stamp_ok fo) nows"
    and "reports fo float_of_int revision content w"
    and "wm_success w + int (length its) < 10 ^ 18"
    and "wm_expired w + (int (expired_leases d') - int (expired_leases d)) < 10 ^ 18"
  shows "\<exists>content' w'. publish_events fo float_of_int revision (signals_of evs nows) (Some content) = Inr (Some content') \<and>
    load_worker_metrics fo float_of_int revision (Some content') = Inr w' \<and>
    wm_success w' = wm_success w + int (length its) \<and> wm_failure w' = wm_failure w \<and>
    wm_expired w' = wm_expired w + (int (expired_leases d') - int (expired_leases d))"
proof -
  note counts = signals_of_counts [OF assms(1,2,4,3)]
  have "\<forall>(ev, broken, now) \<in> set (signals_of evs nows). stamp_ok fo now"
    using assms(5) by (auto simp: signals_of_def list_all_iff dest: set_zip_rightD)
  moreover have "total_ok (wm_success w)" "total_ok (wm_failure w)" "total_ok (wm_expired w)"
    using assms(6) by (simp_all add: reports_def)
  ultimately show ?thesis
    using publish_events_tally [OF assms(6), of "signals_of evs nows"] counts assms(7,8)
    by (auto simp: reports_def total_ok_def)
qed

end
