(* ===== verification/Application.thy ===== *)
theory Application
  imports Metrics Request_Limits
begin

text \<open>
  The application around the routes (\<open>application.py\<close>, \<open>models.py\<close>): exceptions become
  problem documents, a middleware correlates, counts and logs every request, the body limit
  lies outside of it, and the operational endpoints report health, readiness and metrics. A
  response body is a value of the route's own type or a problem; header names are lower
  case, as Starlette keeps them.
\<close>

subsection \<open>Problems\<close>

text \<open>\<open>Problem\<close>, whose \<open>type\<close> is always \<open>about:blank\<close> and whose \<open>instance\<close> is never set.\<close>

record problem =
  pb_title :: string
  pb_status :: int
  pb_detail :: string
  pb_correlation :: string

definition problem_json :: "problem \<Rightarrow> json" where
  "problem_json p = JObj
     [(''type'', JStr ''about:blank''), (''title'', JStr (pb_title p)), (''status'', JInt (pb_status p)),
      (''detail'', JStr (pb_detail p)), (''correlation_id'', JStr (pb_correlation p))]"

datatype 'a content_body = Content 'a | ProblemContent problem

record 'a response =
  rs_status :: int
  rs_headers :: "(string \<times> string) list"
  rs_content :: "'a content_body"

definition lower_name :: "string \<Rightarrow> string" where
  "lower_name = map lower_char"

definition problem_response :: "problem \<Rightarrow> (string \<times> string) list \<Rightarrow> 'a response" where
  "problem_response p headers =
     \<lparr>rs_status = pb_status p,
      rs_headers = map (\<lambda>(k, v). (lower_name k, v)) headers @ [(''content-type'', ''application/problem+json'')],
      rs_content = ProblemContent p\<rparr>"

definition http_problem :: "string \<Rightarrow> int \<Rightarrow> string \<Rightarrow> (string \<times> string) list \<Rightarrow> 'a response" where
  "http_problem correlation_id code detail headers = problem_response
     \<lparr>pb_title = ''Request failed'', pb_status = code, pb_detail = detail, pb_correlation = correlation_id\<rparr> headers"

definition validation_problem :: "string \<Rightarrow> 'a response" where
  "validation_problem correlation_id = problem_response
     \<lparr>pb_title = ''Request validation failed'', pb_status = 422,
      pb_detail = ''The request did not satisfy the API contract'', pb_correlation = correlation_id\<rparr> []"

text \<open>
  What happened below the middleware: the endpoint answered, FastAPI refused the request before
  it ran, or it raised. Only \<open>HTTPException\<close> has a handler; anything else reaches the
  server, which answers with a bare 500.
\<close>

datatype 'a endpoint_outcome = Answered "'a response" | RequestInvalid | Raised exc

definition handle_exceptions :: "string \<Rightarrow> 'a endpoint_outcome \<Rightarrow> exc + 'a response" where
  "handle_exceptions correlation_id out =
     (case out of
        Answered r \<Rightarrow> Inr r
      | RequestInvalid \<Rightarrow> Inr (validation_problem correlation_id)
      | Raised (HTTPException code detail headers) \<Rightarrow> Inr (http_problem correlation_id code detail headers)
      | Raised e \<Rightarrow> Inl e)"

text \<open>The answer of a route with its success status, as FastAPI makes it.\<close>

definition endpoint :: "int \<Rightarrow> exc + 'a \<Rightarrow> 'a endpoint_outcome" where
  "endpoint status result =
     (case result of
        Inl e \<Rightarrow> Raised e
      | Inr x \<Rightarrow> Answered \<lparr>rs_status = status, rs_headers = [(''content-type'', ''application/json'')], rs_content = Content x\<rparr>)"

subsection \<open>The correlation middleware\<close>

record http_request =
  hr_method :: string
  hr_path :: string
  hr_route :: "string option"
  hr_correlation :: "string option"
  hr_length :: "string option"
  hr_messages :: "message list"

text \<open>A structured log record: level, message, extra fields and the type of a logged exception.\<close>

record log_record =
  lg_level :: string
  lg_logger :: string
  lg_message :: string
  lg_fields :: "(string \<times> json) list"
  lg_exception :: "string option"

definition logged_path :: "http_request \<Rightarrow> string" where
  "logged_path rq = (case hr_route rq of Some route \<Rightarrow> route | None \<Rightarrow> ''<unmatched>'')"

definition request_log :: "string \<Rightarrow> string \<Rightarrow> string \<Rightarrow> http_request \<Rightarrow> int \<Rightarrow> string \<Rightarrow> log_record" where
  "request_log level message correlation_id rq status duration_ms =
     \<lparr>lg_level = level, lg_logger = ''shepherd_rm.application'', lg_message = message,
      lg_fields = [(''correlation_id'', JStr correlation_id), (''method'', JStr (hr_method rq)),
        (''path'', JStr (logged_path rq)), (''status_code'', JInt status), (''duration_ms'', JFloat duration_ms)],
      lg_exception = None\<rparr>"

definition infix_of :: "string \<Rightarrow> string \<Rightarrow> bool" where
  "infix_of p s \<longleftrightarrow> list_ex (\<lambda>n. take (length p) (drop n s) = p) [0..<Suc (length s)]"

definition suffix_of :: "string \<Rightarrow> string \<Rightarrow> bool" where
  "suffix_of p s \<longleftrightarrow> take (length p) (rev s) = rev p"

definition secret_access_path :: "string \<Rightarrow> bool" where
  "secret_access_path path \<longleftrightarrow> suffix_of ''/access'' path \<and> infix_of ''/secrets/'' path"

definition stamp_headers :: "string \<Rightarrow> string \<Rightarrow> (string \<times> string) list \<Rightarrow> (string \<times> string) list" where
  "stamp_headers correlation_id path headers =
     (let hs = dict_set ''x-correlation-id'' correlation_id headers in
      if secret_access_path path
      then dict_set ''pragma'' ''no-cache'' (dict_set ''cache-control'' ''no-store'' hs) else hs)"

text \<open>
  \<open>call_next\<close> answers under the correlation id. The duration, in seconds and as it is logged,
  is read from the clock.
\<close>

definition correlation_id_middleware ::
  "http_request \<Rightarrow> uuid \<Rightarrow> rat \<Rightarrow> string \<Rightarrow> (string \<Rightarrow> exc + 'a response) \<Rightarrow> process_metrics \<Rightarrow>
     (exc + 'a response) \<times> process_metrics \<times> log_record list" where
  "correlation_id_middleware rq fresh duration duration_ms call_next pm =
     (let correlation_id = select_correlation_id (hr_correlation rq) fresh in
      case call_next correlation_id of
        Inl e \<Rightarrow>
          (Inl e, record_http_request (hr_method rq) (logged_path rq) 500 duration pm,
           [request_log ''ERROR'' ''request failed'' correlation_id rq 500 duration_ms])
      | Inr response \<Rightarrow>
          (Inr (response\<lparr>rs_headers := stamp_headers correlation_id (hr_path rq) (rs_headers response)\<rparr>),
           record_http_request (hr_method rq) (logged_path rq) (rs_status response) duration pm,
           [request_log ''INFO'' ''request completed'' correlation_id rq (rs_status response) duration_ms]))"

text \<open>What the body limit answers, counts and logs when it rejects a request.\<close>

definition payload_too_large :: "string \<Rightarrow> 'a response" where
  "payload_too_large correlation_id = problem_response
     \<lparr>pb_title = ''Payload too large'', pb_status = 413,
      pb_detail = ''The request body exceeds the configured size limit'', pb_correlation = correlation_id\<rparr>
     [(''x-correlation-id'', correlation_id)]"

definition reject ::
  "string \<Rightarrow> http_request \<Rightarrow> rat \<Rightarrow> process_metrics \<Rightarrow> (exc + 'a response) \<times> process_metrics \<times> log_record list" where
  "reject correlation_id rq duration pm =
     (Inr (payload_too_large correlation_id), record_http_request (hr_method rq) ''<unrouted>'' 413 duration pm,
      [\<lparr>lg_level = ''INFO'', lg_logger = ''shepherd_rm.request_limits'', lg_message = ''request rejected'',
        lg_fields = [(''correlation_id'', JStr correlation_id), (''method'', JStr (hr_method rq)),
          (''path'', JStr ''<unrouted>''), (''status_code'', JInt 413)], lg_exception = None\<rparr>])"

text \<open>
  The whole stack: the body limit outside, then the correlation middleware, which chooses the
  correlation id again, around the exception handlers and the endpoint. \<open>None\<close> while the
  body is still arriving.
\<close>

definition serve ::
  "int \<Rightarrow> http_request \<Rightarrow> uuid \<Rightarrow> uuid \<Rightarrow> rat \<Rightarrow> string \<Rightarrow> (string \<Rightarrow> message list \<Rightarrow> 'a endpoint_outcome) \<Rightarrow>
     process_metrics \<Rightarrow> ((exc + 'a response) \<times> process_metrics \<times> log_record list) option" where
  "serve limit rq fresh fresh' duration duration_ms app pm =
     (case body_limit_middleware limit fresh ''http'' (hr_correlation rq) (hr_length rq) (hr_messages rq) of
        Reject413 correlation_id \<Rightarrow>
          Some (reject correlation_id rq duration pm)
      | CallApp ms \<Rightarrow>
          Some (correlation_id_middleware rq fresh' duration duration_ms
            (\<lambda>correlation_id. handle_exceptions correlation_id (app correlation_id ms)) pm)
      | PassThrough ms \<Rightarrow>
          Some (correlation_id_middleware rq fresh' duration duration_ms
            (\<lambda>correlation_id. handle_exceptions correlation_id (app correlation_id ms)) pm)
      | StillWaiting \<Rightarrow> None)"

subsection \<open>Log lines\<close>

definition log_field_names :: "string list" where
  "log_field_names = [''correlation_id'', ''method'', ''path'', ''status_code'', ''duration_ms'',
     ''expired_count'', ''version'', ''revision'']"

definition format_record :: "string \<Rightarrow> log_record \<Rightarrow> string" where
  "format_record timestamp r = json_dumps False (JObj
     ([(''timestamp'', JStr timestamp), (''level'', JStr (lg_level r)), (''logger'', JStr (lg_logger r)),
       (''message'', JStr (lg_message r))] @
      concat (map (\<lambda>f. case map_of (lg_fields r) f of None \<Rightarrow> [] | Some v \<Rightarrow> if v = JNull then [] else [(f, v)]) log_field_names) @
      (case lg_exception r of None \<Rightarrow> [] | Some e \<Rightarrow> [(''exception_type'', JStr e)])))"

subsection \<open>Operational endpoints\<close>

text \<open>
  The revisions of \<open>migrations/versions\<close> with the revision each follows; a head is one that no
  other follows (\<open>ScriptDirectory.get_heads\<close>). Readiness compares them with the rows of
  \<open>alembic_version\<close>, or fails with whatever the connection raised.
\<close>

definition migration_scripts :: "(string \<times> string option) list" where
  "migration_scripts =
     [(''7280c6a57e19'', None), (''4c7d9e2a6b31'', Some ''7280c6a57e19''),
      (''86ad7aa7c121'', Some ''4c7d9e2a6b31''), (''b1f4a7c9d203'', Some ''86ad7aa7c121'')]"

definition expected_migration_heads :: "(string \<times> string option) list \<Rightarrow> string list" where
  "expected_migration_heads scripts =
     filter (\<lambda>r. Some r \<notin> set (map snd scripts)) (map fst scripts)"

definition check_database :: "exc option \<Rightarrow> string list \<Rightarrow> exc + unit" where
  "check_database outage applied =
     (case outage of
        Some e \<Rightarrow> Inl e
      | None \<Rightarrow>
          if set applied = set (expected_migration_heads migration_scripts) then Inr ()
          else Inl (RuntimeError ''database migration heads do not match service migration heads''))"

definition get_health :: "string \<Rightarrow> message list \<Rightarrow> string endpoint_outcome" where
  "get_health correlation_id ms = endpoint 200 (Inr ''ok'')"

definition get_readiness ::
  "exc option \<Rightarrow> string list \<Rightarrow> string \<Rightarrow> message list \<Rightarrow> string endpoint_outcome" where
  "get_readiness outage applied correlation_id ms =
     (case check_database outage applied of
        Inr _ \<Rightarrow> endpoint 200 (Inr ''ready'')
      | Inl _ \<Rightarrow> Answered (problem_response
          \<lparr>pb_title = ''Service unavailable'', pb_status = 503,
           pb_detail = ''PostgreSQL is unavailable or its schema is incompatible'', pb_correlation = correlation_id\<rparr> []))"

text \<open>
  Authentication reaches the database only with a bearer token in hand; \<open>outage\<close> is what
  the connection raises there, and \<open>scrape_outage\<close> during the collection.
\<close>

definition reachable_administrator ::
  "exc option \<Rightarrow> (string \<Rightarrow> string) \<Rightarrow> request_env \<Rightarrow> db \<Rightarrow> (exc + authenticated_principal) \<times> db" where
  "reachable_administrator outage sha env d =
     (case (rv_credentials env, outage) of
        (Some (scheme, token), Some e) \<Rightarrow>
          if map lower_char scheme = ''bearer'' then (Inl e, d) else administrator sha env d
      | _ \<Rightarrow> administrator sha env d)"

definition metrics_unavailable :: exc where
  "metrics_unavailable = http 503 ''Metrics are unavailable because PostgreSQL cannot be queried''"

definition metrics_administrator ::
  "exc option \<Rightarrow> (string \<Rightarrow> string) \<Rightarrow> request_env \<Rightarrow> db \<Rightarrow> (exc + authenticated_principal) \<times> db" where
  "metrics_administrator outage sha env d =
     (case reachable_administrator outage sha env d of
        (Inl (HTTPException code detail headers), d') \<Rightarrow> (Inl (HTTPException code detail headers), d')
      | (Inl _, d') \<Rightarrow> (Inl metrics_unavailable, d')
      | r \<Rightarrow> r)"

text \<open>The worker snapshot is the one \<open>load_worker_metrics\<close> returned.\<close>

definition get_metrics ::
  "exc option \<Rightarrow> exc option \<Rightarrow> (string \<Rightarrow> string) \<Rightarrow> request_env \<Rightarrow> string \<Rightarrow> worker_snapshot \<Rightarrow> db \<Rightarrow>
     (string \<times> string list \<times> sample_value) list endpoint_outcome \<times> db" where
  "get_metrics outage scrape_outage sha env revision worker d =
     (case metrics_administrator outage sha env d of
        (Inl e, d') \<Rightarrow> (Raised e, d')
      | (Inr _, d') \<Rightarrow>
          (case scrape_outage of
             Some _ \<Rightarrow> (Raised metrics_unavailable, d')
           | None \<Rightarrow>
               (Answered \<lparr>rs_status = 200,
                  rs_headers = [(''content-type'', ''text/plain; version=1.0.0; charset=utf-8'')],
                  rs_content = Content (render_metrics revision
                    (collect_database_metrics (cx_now (rv_cx env)) d') worker)\<rparr>, d')))"

end
