(* ===== verification/Application_Laws.thy ===== *)
theory Application_Laws
  imports Application
begin

text \<open>
  What a client, a scraper and a log reader can rely on: correlated answers, uncached secrets,
  one count per request under bounded labels, single-line logs, and metrics for
  administrators only.
\<close>

subsection \<open>Headers\<close>

definition header :: "string \<Rightarrow> 'a response \<Rightarrow> string option" where
  "header k r = map_of (rs_headers r) k"

lemma header_stamped:
  "map_of (stamp_headers c path hs) ''x-correlation-id'' = Some c"
  "secret_access_path path \<Longrightarrow> map_of (stamp_headers c path hs) ''cache-control'' = Some ''no-store''"
  "secret_access_path path \<Longrightarrow> map_of (stamp_headers c path hs) ''pragma'' = Some ''no-cache''"
  "k \<notin> {''x-correlation-id'', ''cache-control'', ''pragma''} \<Longrightarrow> map_of (stamp_headers c path hs) k = map_of hs k"
  by (simp_all add: stamp_headers_def Let_def)

lemma handle_exceptions_Inl:
  "handle_exceptions c out = Inl e \<Longrightarrow> out = Raised e \<and> (\<nexists>code detail hs. e = HTTPException code detail hs)"
  by (auto simp: handle_exceptions_def split: endpoint_outcome.splits exc.splits)

text \<open>A problem answers with its own status and the correlation id the request runs under.\<close>

definition correlated :: "string \<Rightarrow> 'a response \<Rightarrow> bool" where
  "correlated c r \<longleftrightarrow> (case rs_content r of Content _ \<Rightarrow> True
     | ProblemContent p \<Rightarrow> pb_correlation p = c \<and> pb_status p = rs_status r)"

lemma correlated_problem: "correlated (pb_correlation p) (problem_response p hs)"
  by (simp add: correlated_def problem_response_def)

lemma correlated_http: "correlated c (http_problem c code detail hs)"
  using correlated_problem [of "\<lparr>pb_title = ''Request failed'', pb_status = code, pb_detail = detail, pb_correlation = c\<rparr>"]
  by (simp add: http_problem_def)

lemma correlated_validation: "correlated c (validation_problem c)"
  by (simp add: validation_problem_def correlated_def problem_response_def)

lemma handle_exceptions_correlated:
  assumes "handle_exceptions c out = Inr r" and "\<And>r. out = Answered r \<Longrightarrow> correlated c r"
  shows "correlated c r"
  using assms correlated_http correlated_validation
  by (auto simp: handle_exceptions_def split: endpoint_outcome.splits exc.splits)

lemma correlated_headers: "correlated c (r\<lparr>rs_headers := hs\<rparr>) = correlated c r"
  by (simp add: correlated_def cong: content_body.case_cong)

lemma middleware_cases:
  assumes "correlation_id_middleware rq fresh duration duration_ms call_next pm = (res, pm', logs)"
  obtains (answered) c r where "c = select_correlation_id (hr_correlation rq) fresh" "call_next c = Inr r"
      "res = Inr (r\<lparr>rs_headers := stamp_headers c (hr_path rq) (rs_headers r)\<rparr>)"
      "pm' = record_http_request (hr_method rq) (logged_path rq) (rs_status r) duration pm"
      "logs = [request_log ''INFO'' ''request completed'' c rq (rs_status r) duration_ms]"
    | (failed) c e where "c = select_correlation_id (hr_correlation rq) fresh" "call_next c = Inl e" "res = Inl e"
      "pm' = record_http_request (hr_method rq) (logged_path rq) 500 duration pm"
      "logs = [request_log ''ERROR'' ''request failed'' c rq 500 duration_ms]"
proof -
  define c where "c = select_correlation_id (hr_correlation rq) fresh"
  show thesis
  proof (cases "call_next c")
    case (Inl e)
    with assms show thesis by (intro failed [OF c_def Inl]) (auto simp: correlation_id_middleware_def Let_def c_def)
  next
    case (Inr r)
    with assms show thesis by (intro answered [OF c_def Inr]) (auto simp: correlation_id_middleware_def Let_def c_def)
  qed
qed

lemma serve_cases:
  assumes "serve limit rq fresh fresh' duration duration_ms app pm = Some (res, pm', logs)"
  obtains (rejected) c where "c = select_correlation_id (hr_correlation rq) fresh" "res = Inr (payload_too_large c)"
      "pm' = record_http_request (hr_method rq) ''<unrouted>'' 413 duration pm"
      "logs = [\<lparr>lg_level = ''INFO'', lg_logger = ''shepherd_rm.request_limits'', lg_message = ''request rejected'',
         lg_fields = [(''correlation_id'', JStr c), (''method'', JStr (hr_method rq)),
           (''path'', JStr ''<unrouted>''), (''status_code'', JInt 413)], lg_exception = None\<rparr>]"
    | (answered) c ms r where "c = select_correlation_id (hr_correlation rq) fresh'"
      "handle_exceptions c (app c ms) = Inr r"
      "res = Inr (r\<lparr>rs_headers := stamp_headers c (hr_path rq) (rs_headers r)\<rparr>)"
      "pm' = record_http_request (hr_method rq) (logged_path rq) (rs_status r) duration pm"
      "logs = [request_log ''INFO'' ''request completed'' c rq (rs_status r) duration_ms]"
    | (failed) c ms e where "c = select_correlation_id (hr_correlation rq) fresh'"
      "handle_exceptions c (app c ms) = Inl e" "res = Inl e"
      "pm' = record_http_request (hr_method rq) (logged_path rq) 500 duration pm"
      "logs = [request_log ''ERROR'' ''request failed'' c rq 500 duration_ms]"
proof (cases "body_limit_middleware limit fresh ''http'' (hr_correlation rq) (hr_length rq) (hr_messages rq)")
  case (Reject413 c)
  then have "c = select_correlation_id (hr_correlation rq) fresh"
    by (auto simp: body_limit_middleware_def Let_def split: if_splits buffering.splits)
  with Reject413 assms show thesis by (auto simp: serve_def reject_def intro: rejected)
next
  case (CallApp ms)
  with assms have "correlation_id_middleware rq fresh' duration duration_ms
      (\<lambda>c. handle_exceptions c (app c ms)) pm = (res, pm', logs)"
    by (simp add: serve_def)
  then show thesis by (rule middleware_cases) (erule (4) answered failed)+
next
  case (PassThrough ms)
  then show thesis by (auto simp: body_limit_middleware_def Let_def split: if_splits buffering.splits)
next
  case StillWaiting
  with assms show thesis by (simp add: serve_def)
qed

subsection \<open>Correlation\<close>

text \<open>
  Every request that is served has one correlation id: the caller's own when it is safe, a fresh UUID
  otherwise, never unsafe text. It is the id of the log record, and of whatever answer there is: of the header, and of a
  problem document in the body.
\<close>

lemma served_is_correlated:
  assumes "serve limit rq fresh fresh' duration duration_ms app pm = Some (res, pm', logs)"
    and "\<And>c ms r. app c ms = Answered r \<Longrightarrow> correlated c r"
  shows "\<exists>c. safe_correlation c \<and> (\<forall>s. hr_correlation rq = Some s \<and> safe_correlation s \<longrightarrow> c = s) \<and>
    (\<exists>entry. logs = [entry] \<and> map_of (lg_fields entry) ''correlation_id'' = Some (JStr c)) \<and>
    (\<forall>r. res = Inr r \<longrightarrow> header ''x-correlation-id'' r = Some c \<and> correlated c r)"
  using assms(1)
proof (cases rule: serve_cases)
  case (rejected c)
  then have "\<forall>r. res = Inr r \<longrightarrow> correlated c r"
    using correlated_problem by (auto simp: payload_too_large_def correlated_def problem_response_def)
  moreover have "\<forall>r. res = Inr r \<longrightarrow> header ''x-correlation-id'' r = Some c"
    using rejected(2) by (simp add: payload_too_large_def header_def problem_response_def lower_name_def lower_char_def)
  ultimately show ?thesis
    using rejected(1,4) safe_selected by (intro exI [of _ c]) (auto simp: select_correlation_id_def)
next
  case (answered c ms r')
  have "correlated c r'" by (rule handle_exceptions_correlated [OF answered(2) assms(2)])
  then show ?thesis
    using answered(1,3,5) safe_selected header_stamped(1)
    by (intro exI [of _ c]) (auto simp: header_def correlated_headers request_log_def select_correlation_id_def)
next
  case (failed c ms e)
  then show ?thesis
    using safe_selected by (intro exI [of _ c]) (auto simp: request_log_def select_correlation_id_def)
qed

subsection \<open>Secrets are not cached\<close>

lemma infix_of_append: "infix_of p (a @ p @ b)"
  by (auto simp: infix_of_def list_ex_iff intro!: bexI [of _ "length a"])

lemma suffix_of_append: "suffix_of p (a @ p)"
  by (simp add: suffix_of_def)

lemma secret_access_path_routes: "secret_access_path (pre @ ''/secrets/'' @ i @ ''/access'')"
  using infix_of_append [of "''/secrets/''" pre "i @ ''/access''"] suffix_of_append [of "''/access''" "pre @ ''/secrets/'' @ i"]
  by (simp add: secret_access_path_def)

text \<open>
  what the two secret access routes answer, material or error, may not be cached: a response
  that is not the body limit's own carries \<open>no-store\<close>.
\<close>

theorem secret_answers_not_cached:
  assumes "hr_path rq = pre @ ''/secrets/'' @ secret_id @ ''/access''"
    and "serve limit rq fresh fresh' duration duration_ms app pm = Some (Inr r, pm', logs)"
  shows "(\<exists>p. rs_content r = ProblemContent p \<and> pb_status p = 413) \<or>
    header ''cache-control'' r = Some ''no-store'' \<and> header ''pragma'' r = Some ''no-cache''"
  using assms(2)
proof (cases rule: serve_cases)
  case (rejected c)
  then show ?thesis by (simp add: payload_too_large_def problem_response_def)
next
  case (answered c ms r')
  then show ?thesis
    using header_stamped(2,3) [OF secret_access_path_routes] by (simp add: header_def assms(1))
next
  case (failed c ms e)
  then show ?thesis by simp
qed

subsection \<open>Counting\<close>

text \<open>
  every request that is answered or fails is counted once and logged once, under a method from
  a fixed set, under a route template rather than a path, and under the class of its status.
\<close>

theorem requests_counted_once:
  assumes "serve limit rq fresh fresh' duration duration_ms app pm = Some (res, pm', logs)"
  shows "\<exists>m route status. m \<in> set (''OTHER'' # http_methods) \<and>
    (Some route = hr_route rq \<or> route = ''<unmatched>'' \<or> route = ''<unrouted>'') \<and>
    status = (case res of Inl _ \<Rightarrow> 500 | Inr r \<Rightarrow> rs_status r) \<and>
    pm_requests pm' = (pm_requests pm)((m, route, status_class status) :=
      pm_requests pm (m, route, status_class status) + 1) \<and>
    pm_request_durations pm' = (pm_request_durations pm)((m, route) := pm_request_durations pm (m, route) @ [duration]) \<and>
    length logs = 1"
proof -
  have m: "method_label (hr_method rq) \<in> set (''OTHER'' # http_methods)" by (simp add: method_label_def)
  have route: "Some (logged_path rq) = hr_route rq \<or> logged_path rq = ''<unmatched>''"
    by (simp add: logged_path_def split: option.split)
  show ?thesis
    using assms
  proof (cases rule: serve_cases)
    case (rejected c)
    then show ?thesis
      using m by (intro exI [of _ "method_label (hr_method rq)"] exI [of _ "''<unrouted>''"] exI [of _ "413 :: int"])
        (simp add: record_http_request_def Let_def payload_too_large_def problem_response_def)
  next
    case (answered c ms r)
    then show ?thesis
      using m route by (intro exI [of _ "method_label (hr_method rq)"] exI [of _ "logged_path rq"] exI [of _ "rs_status r"])
        (auto simp: record_http_request_def Let_def)
  next
    case (failed c ms e)
    then show ?thesis
      using m route by (intro exI [of _ "method_label (hr_method rq)"] exI [of _ "logged_path rq"] exI [of _ "500 :: int"])
        (auto simp: record_http_request_def Let_def)
  qed
qed

subsection \<open>Log lines\<close>

definition printable :: "string \<Rightarrow> bool" where
  "printable s \<longleftrightarrow> list_all (\<lambda>c. 32 \<le> (of_char c :: nat) \<and> (of_char c :: nat) \<le> 126) s"

lemma printable_simps [simp]:
  "printable []"
  "printable (c # s) \<longleftrightarrow> 32 \<le> (of_char c :: nat) \<and> (of_char c :: nat) \<le> 126 \<and> printable s"
  "printable (s @ t) \<longleftrightarrow> printable s \<and> printable t"
  by (auto simp: printable_def)

lemma printable_intercalate: "printable sep \<Longrightarrow> list_all printable xs \<Longrightarrow> printable (intercalate sep xs)"
  by (induction xs rule: induct_list012) simp_all

lemma digit_char_printable: "n < 16 \<Longrightarrow> printable [digit_char n]"
proof -
  have "\<forall>n \<in> set [0..<16]. 32 \<le> (of_char (digit_char n) :: nat) \<and> (of_char (digit_char n) :: nat) \<le> 126" by code_simp
  moreover assume "n < 16"
  ultimately show ?thesis by simp
qed

lemma printable_escape: "printable (json_escape c)"
proof -
  have n: "(of_char c :: nat) < 256" by (rule nat_of_char_less_256)
  then have "(of_char c :: nat) div 16 < 16" "(of_char c :: nat) mod 16 < 16" by linarith+
  then show ?thesis using digit_char_printable by (simp add: json_escape_def)
qed

lemma printable_string: "printable (json_string s)"
  unfolding json_string_def by (induction s) (simp_all add: printable_escape)

lemma printable_dec_int: "printable (dec_int i)"
proof -
  have "printable s" if "list_all is_digit s" for s
    using that by (induction s) (auto simp: is_digit_def)
  then show ?thesis using dec_nat_digits by (simp add: dec_int_def)
qed

text \<open>Floats of a log record are times; nested values do not occur.\<close>

fun log_value :: "(string \<Rightarrow> string) \<Rightarrow> json \<Rightarrow> bool" where
  "log_value fo (JStr s) = True"
| "log_value fo (JInt i) = json_ok fo (JInt i)"
| "log_value fo (JFloat s) = (float_ok fo s \<and> printable s)"
| "log_value fo _ = False"

lemma log_value_facts:
  assumes "log_value fo j"
  shows "json_ok fo j" "printable (json_dumps sk j)" "json_sorted sk j = j" "j \<noteq> JNull"
  using assms printable_string printable_dec_int by (cases j; auto simp: float_token_def)+

definition logged_fields :: "log_record \<Rightarrow> (string \<times> json) list" where
  "logged_fields r = concat (map (\<lambda>f. case map_of (lg_fields r) f of None \<Rightarrow> [] | Some v \<Rightarrow> if v = JNull then [] else [(f, v)])
     log_field_names)"

definition log_object :: "string \<Rightarrow> log_record \<Rightarrow> (string \<times> json) list" where
  "log_object timestamp r =
     [(''timestamp'', JStr timestamp), (''level'', JStr (lg_level r)), (''logger'', JStr (lg_logger r)),
      (''message'', JStr (lg_message r))] @ logged_fields r @
     (case lg_exception r of None \<Rightarrow> [] | Some e \<Rightarrow> [(''exception_type'', JStr e)])"

lemma format_record_object: "format_record timestamp r = json_dumps False (JObj (log_object timestamp r))"
  by (simp add: format_record_def log_object_def logged_fields_def)

lemma optional_fields_distinct:
  fixes m :: "string \<Rightarrow> json option"
  defines "field \<equiv> \<lambda>f. case m f of None \<Rightarrow> [] | Some v \<Rightarrow> if v = JNull then [] else [(f, v)]"
  assumes "distinct fs"
  shows "distinct (map fst (concat (map field fs))) \<and> fst ` set (concat (map field fs)) \<subseteq> set fs"
  using assms(2)
proof (induction fs)
  case (Cons f fs)
  have "field f = [] \<or> (\<exists>v. field f = [(f, v)])" by (auto simp: field_def split: option.split)
  then show ?case
  proof
    assume "field f = []"
    with Cons show ?thesis by auto
  next
    assume "\<exists>v. field f = [(f, v)]"
    then obtain v where v: "field f = [(f, v)]" ..
    moreover have "f \<notin> fst ` set (concat (map field fs))" using Cons by auto
    ultimately show ?thesis using Cons by auto
  qed
qed simp

lemma log_object_ok:
  assumes "list_all (\<lambda>(k, v). log_value fo v) (lg_fields r)"
  shows "list_all (\<lambda>(k, v). log_value fo v) (log_object timestamp r)"
    and "distinct (map fst (log_object timestamp r))"
proof -
  have one: "list_all (\<lambda>(k, v). log_value fo v) (case map_of (lg_fields r) f of None \<Rightarrow> [] | Some v \<Rightarrow> if v = JNull then [] else [(f, v)])" for f
    using assms by (cases "map_of (lg_fields r) f") (auto simp: list_all_iff dest!: map_of_SomeD)
  then have "list_all (\<lambda>(k, v). log_value fo v) (logged_fields r)"
    by (auto simp: logged_fields_def list_all_iff simp del: split_paired_All)
  then show "list_all (\<lambda>(k, v). log_value fo v) (log_object timestamp r)"
    by (auto simp: log_object_def split: option.split)
  have "distinct log_field_names" by (simp add: log_field_names_def)
  from optional_fields_distinct [OF this, of "map_of (lg_fields r)"]
  have "distinct (map fst (logged_fields r))" "fst ` set (logged_fields r) \<subseteq> set log_field_names"
    by (simp_all add: logged_fields_def)
  then show "distinct (map fst (log_object timestamp r))"
    by (auto simp: log_object_def log_field_names_def split: option.split)
qed

text \<open>
  C37: a log line is one line of printable ASCII, whatever a client put into its method, path or
  correlation id, and a reader of the line gets exactly the logged fields back.
\<close>

theorem log_lines_are_faithful:
  assumes "list_all (\<lambda>(k, v). log_value fo v) (lg_fields r)"
  shows "list_all (\<lambda>c. 32 \<le> (of_char c :: nat) \<and> (of_char c :: nat) \<le> 126) (format_record timestamp r) \<and>
    json_loads fo (format_record timestamp r) = Some (JObj (log_object timestamp r))"
proof
  note ok = log_object_ok [OF assms, of timestamp]
  have vals: "json_ok fo v" "printable (json_dumps False v)" "json_sorted False v = v"
    if "(k, v) \<in> set (log_object timestamp r)" for k v
    using ok(1) that log_value_facts [of fo v] by (auto simp: list_all_iff)
  have "list_all printable (map (member_text False) (log_object timestamp r))"
    using vals(2) by (auto simp: list_all_iff member_text_def printable_string)
  then have "printable (format_record timestamp r)"
    unfolding format_record_object json_dumps_obj written_def by (simp add: printable_intercalate)
  then show "list_all (\<lambda>c. 32 \<le> (of_char c :: nat) \<and> (of_char c :: nat) \<le> 126) (format_record timestamp r)"
    by (simp add: printable_def)
  have "json_ok fo (JObj (log_object timestamp r))"
    using ok(2) vals(1) by (auto simp: list_all_iff)
  moreover have "json_sorted False (JObj (log_object timestamp r)) = JObj (log_object timestamp r)"
    unfolding json_sorted_obj written_def if_False json.inject
    by (rule map_idI) (metis vals(3) prod.collapse)
  ultimately show "json_loads fo (format_record timestamp r) = Some (JObj (log_object timestamp r))"
    using json_roundtrip_text [of fo "JObj (log_object timestamp r)" False] by (simp only: format_record_object)
qed

subsection \<open>Operational endpoints\<close>

lemma migration_heads: "expected_migration_heads migration_scripts = [''b1f4a7c9d203'']"
  by code_simp

text \<open>
  the service is ready exactly when the database answers and its recorded revisions are the
  one head of the packaged migrations; otherwise it answers 503 and still lives.
\<close>

theorem readiness_is_exact:
  shows "(\<exists>r. get_readiness outage applied c ms = Answered r \<and>
      rs_status r = (if outage = None \<and> set applied = {''b1f4a7c9d203''} then 200 else 503) \<and> correlated c r) \<and>
    (\<exists>r. get_health c ms = Answered r \<and> rs_status r = 200)"
  by (auto simp: get_readiness_def get_health_def check_database_def migration_heads endpoint_def correlated_def
      problem_response_def split: option.split)

lemma authenticated_administrator:
  "administrator sha env d = (Inr current, d') \<Longrightarrow>
    authenticated sha env d = (Inr current, d') \<and> p_role (ap_principal current) = Admin"
  by (cases "authenticated sha env d"; cases "fst (authenticated sha env d)")
    (auto simp: administrator_def then_tx_def split: sum.splits if_splits)

text \<open>
  the metrics go to administrators only: a scrape is answered with samples exactly when an
  administrator is authenticated and the database can be read, and the samples are those of the
  database the authentication left; any other scrape raises an HTTP error, which is
  \<open>503\<close> whenever the database is the cause.
\<close>

theorem metrics_for_administrators_only:
  assumes "get_metrics outage scrape_outage sha env revision worker d = (out, d')"
  shows "case out of
      Answered r \<Rightarrow> scrape_outage = None \<and>
        (\<exists>current. authenticated sha env d = (Inr current, d') \<and> p_role (ap_principal current) = Admin) \<and>
        rs_content r = Content (render_metrics revision (collect_database_metrics (cx_now (rv_cx env)) d') worker)
    | RequestInvalid \<Rightarrow> False
    | Raised e \<Rightarrow> \<exists>code detail headers. e = HTTPException code detail headers \<and>
        (outage = None \<and> scrape_outage \<noteq> None \<and> (\<exists>current d1. administrator sha env d = (Inr current, d1)) \<longrightarrow> code = 503)"
proof -
  let ?ra = "reachable_administrator outage sha env d"
  have ra: "fst ?ra = Inr current \<Longrightarrow> ?ra = administrator sha env d" for current
    by (auto simp: reachable_administrator_def split: option.splits prod.splits if_splits)
  have up: "outage = None \<Longrightarrow> ?ra = administrator sha env d"
    by (auto simp: reachable_administrator_def split: option.splits prod.splits)
  show ?thesis
  proof (cases "fst ?ra")
    case (Inl e)
    then obtain d1 where e: "?ra = (Inl e, d1)" by (cases ?ra) auto
    have "\<not> (outage = None \<and> scrape_outage \<noteq> None \<and> (\<exists>current d1. administrator sha env d = (Inr current, d1)))"
      using up e by auto
    moreover have "\<exists>code detail headers. out = Raised (HTTPException code detail headers)"
      using assms e by (cases e) (auto simp: get_metrics_def metrics_administrator_def metrics_unavailable_def)
    ultimately show ?thesis by auto
  next
    case (Inr current)
    then obtain d1 where a: "?ra = (Inr current, d1)" by (cases ?ra) auto
    then have "administrator sha env d = (Inr current, d1)" using ra [OF Inr] by simp
    from authenticated_administrator [OF this] show ?thesis
      using assms a by (cases scrape_outage) (auto simp: get_metrics_def metrics_administrator_def metrics_unavailable_def)
  qed
qed

end
