(* ===== verification/Witnesses_Service.thy ===== *)
theory Witnesses_Service
  imports Request_Digest Metrics_Laws Application_Laws Config Demo
begin

text \<open>
  The theorems about canonical texts, metrics, the application and the configuration applied
  at concrete inputs.
\<close>

subsection \<open>Canonical texts\<close>

definition demo_json :: json where
  "demo_json = JObj [(''size'', JInt (- 12)), (''name'', JStr [CHR 0x22, CHR 0xE9]), (''parts'', JList [JNull, JBool True, JFloat ''nan''])]"

lemma json_roundtrip_witness:
  "json_loads id (json_dumps True demo_json) =
     Some (JObj [(''name'', JStr [CHR 0x22, CHR 0xE9]), (''parts'', JList [JNull, JBool True, JFloat ''nan'']), (''size'', JInt (- 12))])"
proof -
  have "json_ok id demo_json" by (simp add: demo_json_def float_ok_def dec_nat.simps)
  from json_roundtrip [OF this, of True] show ?thesis by (simp add: demo_json_def)
qed

definition want_ordered :: lease_create where
  "want_ordered = want_box\<lparr>lc_labels := [(''os'', ''linux''), (''arch'', ''arm'')]\<rparr>"

definition want_reordered :: lease_create where
  "want_reordered = want_box\<lparr>lc_labels := [(''arch'', ''arm''), (''os'', ''linux'')]\<rparr>"

lemma request_digest_identifies_witness:
  "request_hash id want_ordered = request_hash id want_reordered \<and>
   request_hash id want_ordered \<noteq> request_hash id want_box"
proof -
  have ok: "request_ok id want_ordered" "request_ok id want_reordered" "request_ok id want_box" by code_simp+
  have "same_request want_ordered want_reordered" "\<not> same_request want_ordered want_box"
    by (auto simp: same_request_def want_ordered_def want_reordered_def want_box_def same_members_def fun_eq_iff)
  then show ?thesis
    using request_digest_identifies [OF ok(1,2), of id] request_digest_identifies [OF ok(1,3), of id] by simp
qed

subsection \<open>Metrics\<close>

lemma sharing_gauges_count_witness:
  "sm_active_leases (mode_metrics (collect_database_metrics 5 leased_db) Exclusive) = 1 \<and>
   utilization (mode_metrics (collect_database_metrics 5 leased_db) Exclusive) \<le> 1"
proof -
  have "length (filter (\<lambda>l. active_lease 5 l \<and> l_resource_id l \<in> r_id ` {r \<in> set (db_resources leased_db). r_sharing_mode r = Exclusive})
      (db_leases leased_db)) = 1"
    by code_simp
  with sharing_gauges_count [OF demo_ok(2) refl, of 5 Exclusive] show ?thesis by simp
qed

lemma expiration_gauges_count_witness:
  "ms_backlog (collect_database_metrics 90000000 leased_db) = 1 \<and>
   (\<exists>l \<in> set (db_leases leased_db). l_expires_at l = Some (90000000 - ms_lag (collect_database_metrics 90000000 leased_db)))"
proof -
  have "length (filter (due_lease 90000000) (db_leases leased_db)) = 1" by code_simp
  with expiration_gauges_count [OF refl, of 90000000 leased_db] show ?thesis by auto
qed

lemma worker_totals_account_witness:
  "\<exists>content w. publish_events id (\<lambda>_. None) ''0123abc''
      (signals_of (fst (run_worker 10 [(Demo.at 90000000, None)] leased_db)) [''1.5'', ''2.5'']) (Some None) = Inr (Some content) \<and>
    load_worker_metrics id (\<lambda>_. None) ''0123abc'' (Some content) = Inr w \<and> wm_success w = 1 \<and> wm_expired w = 1"
proof -
  have run: "run_worker 10 [(Demo.at 90000000, None)] leased_db = (fst (run_worker 10 [(Demo.at 90000000, None)] leased_db), snd (run_worker 10 [(Demo.at 90000000, None)] leased_db))"
    by simp
  have facts: "length [''1.5'', ''2.5''] = length (fst (run_worker 10 [(Demo.at 90000000, None)] leased_db))"
    "expired_leases (snd (run_worker 10 [(Demo.at 90000000, None)] leased_db)) = 1" "expired_leases leased_db = 0"
    by code_simp+
  have stamps: "list_all (stamp_ok id) [''1.5'', ''2.5'']" by code_simp
  have missing: "reports id (\<lambda>_. None) ''0123abc'' None no_worker_snapshot" by (rule reports_missing) simp
  have "published [(Demo.at 90000000, None)]" by (simp add: published_def)
  from worker_totals_account [OF demo_ok(2) run this facts(1) stamps missing] show ?thesis
    using facts(2,3) by (auto simp: no_worker_snapshot_def)
qed

subsection \<open>The application\<close>

text \<open>A secret is accessed by a caller with a correlation id of its own, and refused.\<close>

definition demo_request :: http_request where
  "demo_request = \<lparr>hr_method = ''POST'', hr_path = ''/v1/leases/7'' @ ''/secrets/'' @ ''9'' @ ''/access'',
     hr_route = Some ''/v1/leases/{lease_id}/secrets/{secret_id}/access'', hr_correlation = Some ''run-1'',
     hr_length = None, hr_messages = [HttpRequest [] False]\<rparr>"

definition refuse :: "string \<Rightarrow> message list \<Rightarrow> unit endpoint_outcome" where
  "refuse c ms = Raised (http 404 ''Secret not found'')"

lemma demo_served:
  "\<exists>r pm' logs. serve 100 demo_request (UUID 1) (UUID 2) 1 ''0.1'' refuse no_process_metrics = Some (Inr r, pm', logs) \<and>
     rs_status r = 404"
proof -
  have "case serve 100 demo_request (UUID 1) (UUID 2) 1 ''0.1'' refuse no_process_metrics of
      Some (Inr r, pm', logs) \<Rightarrow> rs_status r = 404 | _ \<Rightarrow> False"
    by (simp add: serve_def demo_request_def body_limit_middleware_def content_length_def Let_def
        correlation_id_middleware_def refuse_def handle_exceptions_def http_problem_def problem_response_def)
  then show ?thesis by (auto split: option.splits sum.splits) (metis sum.exhaust)
qed

lemma secret_answers_not_cached_witness:
  "\<exists>r pm' logs. serve 100 demo_request (UUID 1) (UUID 2) 1 ''0.1'' refuse no_process_metrics = Some (Inr r, pm', logs) \<and>
     ((\<exists>p. rs_content r = ProblemContent p \<and> pb_status p = 413) \<or> header ''cache-control'' r = Some ''no-store'')"
proof -
  obtain r pm' logs where run: "serve 100 demo_request (UUID 1) (UUID 2) 1 ''0.1'' refuse no_process_metrics = Some (Inr r, pm', logs)"
    using demo_served by blast
  have "hr_path demo_request = ''/v1/leases/7'' @ ''/secrets/'' @ ''9'' @ ''/access''" by (simp add: demo_request_def)
  from secret_answers_not_cached [OF this run] show ?thesis using run by blast
qed

lemma requests_counted_once_witness:
  "\<exists>res pm' logs m route status. serve 100 demo_request (UUID 1) (UUID 2) 1 ''0.1'' refuse no_process_metrics = Some (res, pm', logs) \<and>
     pm_requests pm' (m, route, status_class status) = 1 \<and> length logs = 1"
proof -
  obtain res pm' logs where run: "serve 100 demo_request (UUID 1) (UUID 2) 1 ''0.1'' refuse no_process_metrics = Some (res, pm', logs)"
    using demo_served by blast
  from requests_counted_once [OF this] obtain m route status where
    "pm_requests pm' = (pm_requests no_process_metrics)((m, route, status_class status) :=
      pm_requests no_process_metrics (m, route, status_class status) + 1)" "length logs = 1"
    by blast
  then have "pm_requests pm' (m, route, status_class status) = 1" by (simp add: no_process_metrics_def)
  with run show ?thesis using \<open>length logs = 1\<close> by blast
qed

text \<open>A caller cannot break a log line with a newline in its method.\<close>

lemma log_lines_are_faithful_witness:
  "list_all (\<lambda>c. 32 \<le> (of_char c :: nat) \<and> (of_char c :: nat) \<le> 126)
     (format_record ''now'' (request_log ''INFO'' ''request completed'' ''run-1'' (demo_request\<lparr>hr_method := [CHR 0x0A]\<rparr>) 404 ''nan''))"
proof -
  have "list_all (\<lambda>(k, v). log_value id v)
      (lg_fields (request_log ''INFO'' ''request completed'' ''run-1'' (demo_request\<lparr>hr_method := [CHR 0x0A]\<rparr>) 404 ''nan''))"
    by (simp add: request_log_def float_ok_def dec_nat.simps)
  from log_lines_are_faithful [OF this] show ?thesis by blast
qed

lemma metrics_for_administrators_only_witness:
  "\<exists>e d'. get_metrics None None id (as_alice 5) ''0123abc'' no_worker_snapshot demo_db = (Raised (http 403 e), d') \<and>
    (\<exists>code detail headers. http 403 e = HTTPException code detail headers)"
proof -
  have "case get_metrics None None id (as_alice 5) ''0123abc'' no_worker_snapshot demo_db of
      (Raised (HTTPException code e hs), d') \<Rightarrow> code = 403 \<and> hs = [] | _ \<Rightarrow> False"
    by code_simp
  then obtain e d' where run: "get_metrics None None id (as_alice 5) ''0123abc'' no_worker_snapshot demo_db = (Raised (http 403 e), d')"
    by (auto split: prod.splits endpoint_outcome.splits exc.splits)
  with metrics_for_administrators_only [OF run] show ?thesis by auto
qed

subsection \<open>Configuration\<close>

definition demo_files :: "string \<Rightarrow> content" where
  "demo_files path = (if path = ''keys.json'' then Some (utf8_encode ''{}'') else None)"

lemma secret_files_fill_in_witness:
  "\<exists>resolved ring. load_secret_files (\<lambda>u. Some u) (\<lambda>_. None) (\<lambda>u p. p) id demo_files
      [(''secret_encryption_keys_file'', JStr ''keys.json''), (''port'', JInt 80)] = Inr resolved \<and>
    map_of resolved ''secret_encryption_keys'' = Some (JObj ring) \<and> map_of resolved ''port'' = Some (JInt 80)"
proof -
  let ?given = "[(''secret_encryption_keys_file'', JStr ''keys.json''), (''port'', JInt 80)]"
  have "case load_secret_files (\<lambda>u. Some u) (\<lambda>_. None) (\<lambda>u p. p) id demo_files ?given of Inr resolved \<Rightarrow> True | _ \<Rightarrow> False"
    by code_simp
  then obtain resolved where run: "load_secret_files (\<lambda>u. Some u) (\<lambda>_. None) (\<lambda>u p. p) id demo_files ?given = Inr resolved"
    by (auto split: sum.splits)
  have "text_setting ''secret_encryption_keys_file'' ?given = Some ''keys.json''" "map_of ?given ''secret_encryption_keys'' = None"
    "map_of ?given ''port'' = Some (JInt 80)"
    by (simp_all add: text_setting_def)
  with secret_files_fill_in [OF run] show ?thesis using run by auto
qed

end
