(* ===== verification/Interleaving.thy ===== *)
theory Interleaving
  imports Leasing_Expiry
begin

text \<open>
  Concurrent lease transactions (\<open>leasing/persistence.py\<close>) statement by statement. PostgreSQL runs
  each statement of a READ COMMITTED transaction on the data committed when the statement starts,
  keeps the row and advisory locks a transaction takes until it ends, and publishes its writes when it
  commits. A transaction is therefore a phase: the locks it holds, what it has read, and what it
  does next. \<open>FOR UPDATE\<close> waits for a locked row, \<open>SKIP LOCKED\<close> passes over it, and both
  check the condition of the query again on the row they have locked, with the snapshot of the
  statement for everything else. The statements after the last lock only read rows that are
  locked or written by the transaction itself; they run with the commit. All clocks are one here:
  \<open>cx_now\<close> is the time a transaction started, \<open>datetime.now\<close> the time of the step that reads it.

  The locks are those the leasing statements take by name: the advisory lock of an idempotency key and the rows
  of leases and resources. Left out are the \<open>FOR KEY SHARE\<close> locks a foreign key takes on a principal
  when a lease or an audit event is inserted. They do not conflict with one another, only with the row locks of
  \<open>identity/persistence.py\<close> on principals, which an \<open>Other\<close> transaction may hold; as are all other locks of those
  transactions (principals, the advisory lock of administration, secrets, memberships). A lock that is left out means
  less waiting and so more interleavings: what holds in all of them holds in those the locks allow.
  What needs a step to be possible, the absence of deadlock, is stated for states in which no
  \<open>Other\<close> transaction is in progress, where none of those locks is held in a conflicting mode.
\<close>

subsection \<open>Phases of a transaction\<close>

record acquisition =
  aq_cx :: ctx
  aq_lease_id :: uuid
  aq_request :: lease_create
  aq_key :: string
  aq_principal :: uuid
  aq_admin :: bool

record renewal =
  rn_cx :: ctx
  rn_lease_id :: uuid
  rn_ttl :: "int option option"
  rn_principal :: uuid

record ending =
  en_cx :: ctx
  en_lease_id :: uuid
  en_principal :: uuid
  en_reason :: end_reason

text \<open>
  \<open>AcquireScanning\<close> carries the snapshot of the candidate query and the rows still to be tried,
  \<open>AcquireReady\<close> and \<open>RenewChecked\<close> the reading of the clock, \<open>ExpireScanning\<close> the room
  left in the batch, the rows to be tried and the leases locked so far, \<open>ExpireLocking\<close> the
  batch, the leases whose resources are still to be locked, and the resources locked so far.
  \<open>Other\<close> is a transaction of another component: the lease and the resource it wants to lock and
  those it has locked.
\<close>

datatype phase =
    Idle
  | AcquireBegun acquisition
  | AcquireKeyed acquisition
  | AcquireFresh acquisition
  | AcquireScanning acquisition db "resource list"
  | AcquireLocked acquisition resource
  | AcquireReady acquisition resource instant
  | RenewBegun renewal
  | RenewLeaseLocked renewal lease
  | RenewLocked renewal lease
  | RenewChecked renewal lease instant
  | EndBegun ending
  | EndLeaseLocked ending lease
  | EndLocked ending lease
  | ExpireScanning ctx nat "lease list" "uuid list"
  | ExpireLocking ctx "uuid list" "uuid list" "uuid list"
  | Other "uuid option" "uuid option" "uuid option" "uuid option"

subsection \<open>Locks\<close>

fun key_locks :: "phase \<Rightarrow> (uuid \<times> string) list" where
  "key_locks (AcquireKeyed a) = [(aq_principal a, aq_key a)]"
| "key_locks (AcquireFresh a) = [(aq_principal a, aq_key a)]"
| "key_locks (AcquireScanning a s rs) = [(aq_principal a, aq_key a)]"
| "key_locks (AcquireLocked a r) = [(aq_principal a, aq_key a)]"
| "key_locks (AcquireReady a r t) = [(aq_principal a, aq_key a)]"
| "key_locks _ = []"

fun lease_locks :: "phase \<Rightarrow> uuid list" where
  "lease_locks (RenewLeaseLocked n l) = [l_id l]"
| "lease_locks (RenewLocked n l) = [l_id l]"
| "lease_locks (RenewChecked n l t) = [l_id l]"
| "lease_locks (EndLeaseLocked e l) = [l_id l]"
| "lease_locks (EndLocked e l) = [l_id l]"
| "lease_locks (ExpireScanning cx n ls ids) = ids"
| "lease_locks (ExpireLocking cx ids todo rs) = ids"
| "lease_locks (Other wl wr hl hr) = (case hl of None \<Rightarrow> [] | Some i \<Rightarrow> [i])"
| "lease_locks _ = []"

fun resource_locks :: "phase \<Rightarrow> uuid list" where
  "resource_locks (AcquireLocked a r) = [r_id r]"
| "resource_locks (AcquireReady a r t) = [r_id r]"
| "resource_locks (RenewLocked n l) = [l_resource_id l]"
| "resource_locks (RenewChecked n l t) = [l_resource_id l]"
| "resource_locks (EndLocked e l) = [l_resource_id l]"
| "resource_locks (ExpireLocking cx ids todo rs) = rs"
| "resource_locks (Other wl wr hl hr) = (case hr of None \<Rightarrow> [] | Some i \<Rightarrow> [i])"
| "resource_locks _ = []"

text \<open>The identifiers \<open>uuid4\<close> gave to leases that are being acquired.\<close>

fun new_lease_ids :: "phase \<Rightarrow> uuid list" where
  "new_lease_ids (AcquireBegun a) = [aq_lease_id a]"
| "new_lease_ids (AcquireKeyed a) = [aq_lease_id a]"
| "new_lease_ids (AcquireFresh a) = [aq_lease_id a]"
| "new_lease_ids (AcquireScanning a s rs) = [aq_lease_id a]"
| "new_lease_ids (AcquireLocked a r) = [aq_lease_id a]"
| "new_lease_ids (AcquireReady a r t) = [aq_lease_id a]"
| "new_lease_ids _ = []"

text \<open>What the other transactions hold.\<close>

record locks =
  lk_key :: "uuid \<times> string \<Rightarrow> bool"
  lk_lease :: "uuid \<Rightarrow> bool"
  lk_resource :: "uuid \<Rightarrow> bool"
  lk_new :: "uuid \<Rightarrow> bool"

subsection \<open>Acquisition\<close>

definition leases_of_key :: "acquisition \<Rightarrow> db \<Rightarrow> lease list" where
  "leases_of_key a d =
     filter (\<lambda>l. l_acquired_by l = aq_principal a \<and> l_idempotency_key l = aq_key a) (db_leases d)"

definition eligible :: "acquisition \<Rightarrow> db \<Rightarrow> resource \<Rightarrow> bool" where
  "eligible a s r \<longleftrightarrow> candidate_ok (aq_cx a) (aq_request a) (aq_principal a) (aq_admin a) s r"

definition wants_exclusive :: "acquisition \<Rightarrow> bool" where
  "wants_exclusive a \<longleftrightarrow> lc_sharing_mode (aq_request a) = Exclusive"

text \<open>
  \<open>acquire_move sha K now d ph ph' d'\<close>: while others hold \<open>K\<close>, at time \<open>now\<close> and with \<open>d\<close>
  committed, the transaction may go from \<open>ph\<close> to \<open>ph'\<close>, leaving \<open>d'\<close> committed.
\<close>

inductive acquire_move ::
  "(string \<Rightarrow> string) \<Rightarrow> locks \<Rightarrow> instant \<Rightarrow> db \<Rightarrow> phase \<Rightarrow> phase \<Rightarrow> db \<Rightarrow> bool"
  for sha K now d where
  acquire_begin: "cx_now (aq_cx a) = now \<Longrightarrow> principal_exists d (aq_principal a) \<Longrightarrow>
    validate_lease_create (aq_request a) = Inr (aq_request a) \<Longrightarrow>
    aq_lease_id a \<notin> l_id ` set (db_leases d) \<Longrightarrow> \<not> lk_new K (aq_lease_id a) \<Longrightarrow>
    acquire_move sha K now d Idle (AcquireBegun a) d"
| acquire_key: "\<not> lk_key K (aq_principal a, aq_key a) \<Longrightarrow>
    acquire_move sha K now d (AcquireBegun a) (AcquireKeyed a) d"
| acquire_answer: "leases_of_key a d \<noteq> [] \<Longrightarrow> acquire_move sha K now d (AcquireKeyed a) Idle d"
| acquire_fresh: "leases_of_key a d = [] \<Longrightarrow> acquire_move sha K now d (AcquireKeyed a) (AcquireFresh a) d"
| acquire_scan: "acquire_move sha K now d (AcquireFresh a)
    (AcquireScanning a d (sort_key (candidate_key (aq_cx a) d) (filter (eligible a d) (db_resources d)))) d"
| acquire_skip: "wants_exclusive a \<Longrightarrow> lk_resource K (r_id r) \<Longrightarrow>
    acquire_move sha K now d (AcquireScanning a s (r # rs)) (AcquireScanning a s rs) d"
| acquire_miss: "\<not> lk_resource K (r_id r) \<Longrightarrow> r' \<in> set (db_resources d) \<Longrightarrow> r_id r' = r_id r \<Longrightarrow>
    \<not> eligible a s r' \<Longrightarrow>
    acquire_move sha K now d (AcquireScanning a s (r # rs)) (AcquireScanning a s rs) d"
| acquire_lock: "\<not> lk_resource K (r_id r) \<Longrightarrow> r' \<in> set (db_resources d) \<Longrightarrow> r_id r' = r_id r \<Longrightarrow>
    eligible a s r' \<Longrightarrow>
    acquire_move sha K now d (AcquireScanning a s (r # rs)) (AcquireLocked a r') d"
| acquire_none: "acquire_move sha K now d (AcquireScanning a s []) Idle d"
| acquire_taken: "wants_exclusive a \<Longrightarrow> first_row (active_leases (cx_now (aq_cx a)) d (r_id r)) \<noteq> None \<Longrightarrow>
    acquire_move sha K now d (AcquireLocked a r) Idle d"
| acquire_clear: "\<not> (wants_exclusive a \<and> first_row (active_leases (cx_now (aq_cx a)) d (r_id r)) \<noteq> None) \<Longrightarrow>
    acquire_move sha K now d (AcquireLocked a r) (AcquireReady a r now) d"
| acquire_commit: "create_lease (aq_cx a) t (aq_lease_id a) (aq_request a) (aq_key a)
      (request_hash sha (aq_request a)) (aq_principal a) r d = Inr (resp, d') \<Longrightarrow>
    acquire_move sha K now d (AcquireReady a r t) Idle d'"
| acquire_error: "create_lease (aq_cx a) t (aq_lease_id a) (aq_request a) (aq_key a)
      (request_hash sha (aq_request a)) (aq_principal a) r d = Inl e \<Longrightarrow>
    acquire_move sha K now d (AcquireReady a r t) Idle d"

subsection \<open>Renewal, release and revocation\<close>

text \<open>The lease is locked first, then its resource.\<close>

inductive renew_move :: "locks \<Rightarrow> instant \<Rightarrow> db \<Rightarrow> phase \<Rightarrow> phase \<Rightarrow> db \<Rightarrow> bool" for K now d where
  renew_begin: "cx_now (rn_cx n) = now \<Longrightarrow> renew_move K now d Idle (RenewBegun n) d"
| renew_missing: "\<not> (\<exists>l \<in> set (db_leases d). l_id l = rn_lease_id n \<and> l_acquired_by l = rn_principal n) \<Longrightarrow>
    renew_move K now d (RenewBegun n) Idle d"
| renew_lock_lease: "l \<in> set (db_leases d) \<Longrightarrow> l_id l = rn_lease_id n \<Longrightarrow> l_acquired_by l = rn_principal n \<Longrightarrow>
    \<not> lk_lease K (l_id l) \<Longrightarrow> renew_move K now d (RenewBegun n) (RenewLeaseLocked n l) d"
| renew_lock_resource: "\<not> lk_resource K (l_resource_id l) \<Longrightarrow>
    renew_move K now d (RenewLeaseLocked n l) (RenewLocked n l) d"
| renew_dead: "l_ended_at l \<noteq> None \<or> due_lease now l \<Longrightarrow> renew_move K now d (RenewLocked n l) Idle d"
| renew_live: "l_ended_at l = None \<Longrightarrow> \<not> due_lease now l \<Longrightarrow>
    renew_move K now d (RenewLocked n l) (RenewChecked n l now) d"
| renew_commit: "checked \<le> app_now \<Longrightarrow> app_now \<le> now \<Longrightarrow>
    renew_lease (rn_cx n) checked app_now (rn_lease_id n) (rn_ttl n) (rn_principal n) d = Inr (resp, d') \<Longrightarrow>
    renew_move K now d (RenewChecked n l checked) Idle d'"
| renew_error: "checked \<le> app_now \<Longrightarrow> app_now \<le> now \<Longrightarrow>
    renew_lease (rn_cx n) checked app_now (rn_lease_id n) (rn_ttl n) (rn_principal n) d = Inl e \<Longrightarrow>
    renew_move K now d (RenewChecked n l checked) Idle d"

inductive end_move :: "locks \<Rightarrow> instant \<Rightarrow> db \<Rightarrow> phase \<Rightarrow> phase \<Rightarrow> db \<Rightarrow> bool" for K now d where
  end_begin: "cx_now (en_cx e) = now \<Longrightarrow> end_move K now d Idle (EndBegun e) d"
| end_missing: "\<not> (\<exists>l \<in> set (db_leases d). l_id l = en_lease_id e \<and>
      (en_reason e = Released \<longrightarrow> l_acquired_by l = en_principal e)) \<Longrightarrow>
    end_move K now d (EndBegun e) Idle d"
| end_lock_lease: "l \<in> set (db_leases d) \<Longrightarrow> l_id l = en_lease_id e \<Longrightarrow>
    (en_reason e = Released \<longrightarrow> l_acquired_by l = en_principal e) \<Longrightarrow> \<not> lk_lease K (l_id l) \<Longrightarrow>
    end_move K now d (EndBegun e) (EndLeaseLocked e l) d"
| end_lock_resource: "\<not> lk_resource K (l_resource_id l) \<Longrightarrow>
    end_move K now d (EndLeaseLocked e l) (EndLocked e l) d"
| end_commit: "end_lease (en_cx e) (en_lease_id e) (en_principal e) (en_reason e) d = Inr (resp, d') \<Longrightarrow>
    end_move K now d (EndLocked e l) Idle d'"
| end_error: "end_lease (en_cx e) (en_lease_id e) (en_principal e) (en_reason e) d = Inl x \<Longrightarrow>
    end_move K now d (EndLocked e l) Idle d"

subsection \<open>Expiration\<close>

text \<open>
  The batch query locks due leases in order until the batch is full; then each lease's resource is
  locked in turn. The conditional updates and audit events are \<open>expire_ids\<close>.
\<close>

inductive expire_move :: "locks \<Rightarrow> instant \<Rightarrow> db \<Rightarrow> phase \<Rightarrow> phase \<Rightarrow> db \<Rightarrow> bool" for K now d where
  expire_begin: "cx_now cx = now \<Longrightarrow>
    expire_move K now d Idle (ExpireScanning cx (nat batch_size)
      (sort_key (\<lambda>l. (l_expires_at l, l_id l)) (filter (due_lease (cx_now cx)) (db_leases d))) []) d"
| expire_skip: "lk_lease K (l_id l) \<Longrightarrow>
    expire_move K now d (ExpireScanning cx (Suc n) (l # ls) ids) (ExpireScanning cx (Suc n) ls ids) d"
| expire_miss: "\<not> lk_lease K (l_id l) \<Longrightarrow> l' \<in> set (db_leases d) \<Longrightarrow> l_id l' = l_id l \<Longrightarrow>
    \<not> due_lease (cx_now cx) l' \<Longrightarrow>
    expire_move K now d (ExpireScanning cx (Suc n) (l # ls) ids) (ExpireScanning cx (Suc n) ls ids) d"
| expire_take: "\<not> lk_lease K (l_id l) \<Longrightarrow> l' \<in> set (db_leases d) \<Longrightarrow> l_id l' = l_id l \<Longrightarrow>
    due_lease (cx_now cx) l' \<Longrightarrow>
    expire_move K now d (ExpireScanning cx (Suc n) (l # ls) ids) (ExpireScanning cx n ls (ids @ [l_id l])) d"
| expire_scanned: "n = 0 \<or> ls = [] \<Longrightarrow>
    expire_move K now d (ExpireScanning cx n ls ids) (ExpireLocking cx ids ids []) d"
| expire_lock_resource: "l \<in> set (db_leases d) \<Longrightarrow> l_id l = lid \<Longrightarrow> \<not> lk_resource K (l_resource_id l) \<Longrightarrow>
    expire_move K now d (ExpireLocking cx ids (lid # todo) rs) (ExpireLocking cx ids todo (l_resource_id l # rs)) d"
| expire_commit: "expire_ids cx ids 0 d = Inr (n, d') \<Longrightarrow>
    expire_move K now d (ExpireLocking cx ids [] rs) Idle d'"
| expire_error: "expire_ids cx ids 0 d = Inl e \<Longrightarrow> expire_move K now d (ExpireLocking cx ids [] rs) Idle d"

subsection \<open>Transactions of the other components\<close>

text \<open>
  They lock at most a lease and then a resource. They leave the leases alone and may change the
  resource they have locked, add resources and change any other table, but turn no shared
  resource exclusive: a \<open>PATCH\<close> of the sharing mode to exclusive is not among them. \<open>Interleaving_Laws\<close> shows
  this of the catalog's other transactions.
\<close>

definition other_effect :: "uuid option \<Rightarrow> db \<Rightarrow> db \<Rightarrow> bool" where
  "other_effect locked d d' \<longleftrightarrow>
     (db_ok d \<longrightarrow> db_ok d' \<and> extends d d') \<and> db_leases d' = db_leases d \<and>
     (\<forall>r \<in> set (db_resources d). locked \<noteq> Some (r_id r) \<longrightarrow> r \<in> set (db_resources d')) \<and>
     (\<forall>r' \<in> set (db_resources d'). r_sharing_mode r' = Exclusive \<longrightarrow>
        \<not> resource_exists d (r_id r') \<or>
        (\<exists>r \<in> set (db_resources d). r_id r = r_id r' \<and> r_sharing_mode r = Exclusive))"

inductive other_move :: "locks \<Rightarrow> db \<Rightarrow> phase \<Rightarrow> phase \<Rightarrow> db \<Rightarrow> bool" for K d where
  other_begin: "other_move K d Idle (Other wl wr None None) d"
| other_lock_lease: "\<not> lk_lease K i \<Longrightarrow> other_move K d (Other (Some i) wr None None) (Other None wr (Some i) None) d"
| other_lock_resource: "\<not> lk_resource K i \<Longrightarrow>
    other_move K d (Other None (Some i) hl None) (Other None None hl (Some i)) d"
| other_commit: "other_effect hr d d' \<Longrightarrow> other_move K d (Other None None hl hr) Idle d'"

subsection \<open>The system\<close>

record world =
  w_db :: db
  w_now :: instant
  w_tx :: "nat \<Rightarrow> phase"

definition others :: "world \<Rightarrow> nat \<Rightarrow> locks" where
  "others w i =
     \<lparr>lk_key = (\<lambda>k. \<exists>j. j \<noteq> i \<and> k \<in> set (key_locks (w_tx w j))),
      lk_lease = (\<lambda>k. \<exists>j. j \<noteq> i \<and> k \<in> set (lease_locks (w_tx w j))),
      lk_resource = (\<lambda>k. \<exists>j. j \<noteq> i \<and> k \<in> set (resource_locks (w_tx w j))),
      lk_new = (\<lambda>k. \<exists>j. j \<noteq> i \<and> k \<in> set (new_lease_ids (w_tx w j)))\<rparr>"

definition moves :: "(string \<Rightarrow> string) \<Rightarrow> world \<Rightarrow> nat \<Rightarrow> phase \<Rightarrow> db \<Rightarrow> bool" where
  "moves sha w i ph d \<longleftrightarrow>
     acquire_move sha (others w i) (w_now w) (w_db w) (w_tx w i) ph d \<or>
     renew_move (others w i) (w_now w) (w_db w) (w_tx w i) ph d \<or>
     end_move (others w i) (w_now w) (w_db w) (w_tx w i) ph d \<or>
     expire_move (others w i) (w_now w) (w_db w) (w_tx w i) ph d \<or>
     other_move (others w i) (w_db w) (w_tx w i) ph d"

text \<open>Time passes, a transaction is rolled back (a failure, a lost connection), or it moves on.\<close>

inductive happens :: "(string \<Rightarrow> string) \<Rightarrow> world \<Rightarrow> world \<Rightarrow> bool" for sha where
  tick: "w_now w \<le> t \<Longrightarrow> happens sha w (w\<lparr>w_now := t\<rparr>)"
| rollback: "happens sha w (w\<lparr>w_tx := (w_tx w)(i := Idle)\<rparr>)"
| move: "moves sha w i ph d \<Longrightarrow> happens sha w (w\<lparr>w_db := d, w_tx := (w_tx w)(i := ph)\<rparr>)"

inductive runs :: "(string \<Rightarrow> string) \<Rightarrow> world \<Rightarrow> world \<Rightarrow> bool" for sha where
  runs_refl: "runs sha w w"
| runs_step: "runs sha w w' \<Longrightarrow> happens sha w' w'' \<Longrightarrow> runs sha w w''"

definition quiet :: "world \<Rightarrow> bool" where
  "quiet w \<longleftrightarrow> (\<forall>i. w_tx w i = Idle)"

end
