(* ===== verification/Interleaving_Laws.thy ===== *)
theory Interleaving_Laws
  imports Interleaving
begin

text \<open>
  Why the locks suffice. Every transaction knows facts about the rows it has locked
  (\<open>phase_ok\<close>) and changes only rows it has locked (\<open>touches\<close>), so no other transaction
  can spoil what it knows; the locale \<open>lock_discipline\<close> makes this an invariant of every
  interleaving.
\<close>

subsection \<open>What a transaction knows\<close>

definition requested :: "instant \<Rightarrow> db \<Rightarrow> acquisition \<Rightarrow> bool" where
  "requested now d a \<longleftrightarrow>
     cx_now (aq_cx a) \<le> now \<and> principal_exists d (aq_principal a) \<and>
     validate_lease_create (aq_request a) = Inr (aq_request a) \<and>
     aq_lease_id a \<notin> l_id ` set (db_leases d)"

definition alone :: "instant \<Rightarrow> db \<Rightarrow> uuid \<Rightarrow> uuid set \<Rightarrow> bool" where
  "alone now d rid ids \<longleftrightarrow>
     (\<forall>l \<in> set (db_leases d). l_resource_id l = rid \<longrightarrow> active_lease now l \<longrightarrow> l_id l \<in> ids)"

definition exclusive_resource :: "db \<Rightarrow> uuid \<Rightarrow> bool" where
  "exclusive_resource d rid \<longleftrightarrow>
     (\<exists>r \<in> set (db_resources d). r_id r = rid \<and> r_sharing_mode r = Exclusive)"

definition was_due :: "instant \<Rightarrow> db \<Rightarrow> uuid \<Rightarrow> bool" where
  "was_due t d i \<longleftrightarrow> (\<exists>l \<in> set (db_leases d). l_id l = i \<and> due_lease t l)"

fun phase_ok :: "instant \<Rightarrow> db \<Rightarrow> phase \<Rightarrow> bool" where
  "phase_ok now d (AcquireBegun a) = requested now d a"
| "phase_ok now d (AcquireKeyed a) = requested now d a"
| "phase_ok now d (AcquireFresh a) = (requested now d a \<and> leases_of_key a d = [])"
| "phase_ok now d (AcquireScanning a s rs) = (requested now d a \<and> leases_of_key a d = [] \<and>
     (\<forall>r \<in> set rs. resource_exists d (r_id r)))"
| "phase_ok now d (AcquireLocked a r) = (requested now d a \<and> leases_of_key a d = [] \<and>
     r \<in> set (db_resources d) \<and> (\<exists>s. eligible a s r))"
| "phase_ok now d (AcquireReady a r t) = (requested now d a \<and> leases_of_key a d = [] \<and>
     r \<in> set (db_resources d) \<and> (\<exists>s. eligible a s r) \<and> (wants_exclusive a \<longrightarrow> alone now d (r_id r) {}))"
| "phase_ok now d (RenewLeaseLocked n l) = (l \<in> set (db_leases d) \<and> l_id l = rn_lease_id n)"
| "phase_ok now d (RenewLocked n l) = (l \<in> set (db_leases d) \<and> l_id l = rn_lease_id n)"
| "phase_ok now d (RenewChecked n l t) = (l \<in> set (db_leases d) \<and> l_id l = rn_lease_id n \<and> t \<le> now \<and>
     (exclusive_resource d (l_resource_id l) \<longrightarrow> alone now d (l_resource_id l) {l_id l}))"
| "phase_ok now d (EndLeaseLocked e l) = (l \<in> set (db_leases d) \<and> l_id l = en_lease_id e)"
| "phase_ok now d (EndLocked e l) = (l \<in> set (db_leases d) \<and> l_id l = en_lease_id e)"
| "phase_ok now d (ExpireScanning cx n ls ids) = (cx_now cx \<le> now \<and> distinct (ids @ map l_id ls) \<and>
     l_id ` set ls \<subseteq> l_id ` set (db_leases d) \<and> (\<forall>i \<in> set ids. was_due (cx_now cx) d i))"
| "phase_ok now d (ExpireLocking cx ids todo rs) = (cx_now cx \<le> now \<and> distinct ids \<and>
     set todo \<subseteq> set ids \<and> (\<forall>i \<in> set ids. was_due (cx_now cx) d i))"
| "phase_ok now d (Other wl wr hl hr) = ((wl \<noteq> None \<longrightarrow> hl = None \<and> hr = None) \<and> (wr \<noteq> None \<longrightarrow> hr = None))"
| "phase_ok now d _ = True"

subsection \<open>What a commit changes\<close>

text \<open>Only the locked rows, only new leases on locked resources, for locked keys, with own identifiers.\<close>

definition touches :: "phase \<Rightarrow> db \<Rightarrow> db \<Rightarrow> bool" where
  "touches ph d d' \<longleftrightarrow> extends d d' \<and> l_id ` set (db_leases d) \<subseteq> l_id ` set (db_leases d') \<and>
     (\<forall>l \<in> set (db_leases d). l_id l \<notin> set (lease_locks ph) \<longrightarrow> l \<in> set (db_leases d')) \<and>
     (\<forall>r \<in> set (db_resources d). r_id r \<notin> set (resource_locks ph) \<longrightarrow> r \<in> set (db_resources d')) \<and>
     (\<forall>l \<in> set (db_leases d'). l_resource_id l \<notin> set (resource_locks ph) \<longrightarrow> l_ended_at l = None \<longrightarrow>
        l \<in> set (db_leases d)) \<and>
     (\<forall>l \<in> set (db_leases d').
        (\<exists>l0 \<in> set (db_leases d). l_id l0 = l_id l \<and> l_acquired_by l0 = l_acquired_by l \<and>
           l_idempotency_key l0 = l_idempotency_key l) \<or>
        (l_acquired_by l, l_idempotency_key l) \<in> set (key_locks ph) \<and> l_id l \<in> set (new_lease_ids ph))"

lemma touches_refl [simp]: "touches ph d d"
  by (auto simp: touches_def)

definition apart :: "phase \<Rightarrow> phase \<Rightarrow> bool" where
  "apart ph ph' \<longleftrightarrow>
     set (key_locks ph) \<inter> set (key_locks ph') = {} \<and> set (lease_locks ph) \<inter> set (lease_locks ph') = {} \<and>
     set (resource_locks ph) \<inter> set (resource_locks ph') = {} \<and>
     set (new_lease_ids ph) \<inter> set (new_lease_ids ph') = {}"

lemma apart_sym: "apart ph ph' \<Longrightarrow> apart ph' ph"
  by (auto simp: apart_def)

lemma apart_Idle [simp]: "apart ph Idle" "apart Idle ph"
  by (simp_all add: apart_def)

text \<open>What is known survives the commits of others and the passing of time.\<close>

lemma requested_kept:
  assumes "requested now d a" and "touches ph d d'" and "aq_lease_id a \<notin> set (new_lease_ids ph)"
  shows "requested now d' a"
proof -
  have "aq_lease_id a \<notin> l_id ` set (db_leases d')"
  proof
    assume "aq_lease_id a \<in> l_id ` set (db_leases d')"
    then obtain l where l: "l \<in> set (db_leases d')" "l_id l = aq_lease_id a" by force
    with assms(2,3) obtain l0 where "l0 \<in> set (db_leases d)" "l_id l0 = l_id l"
      unfolding touches_def by metis
    then have "aq_lease_id a \<in> l_id ` set (db_leases d)" using l(2) by (metis imageI)
    with assms(1) show False by (simp add: requested_def)
  qed
  with assms(1,2) show ?thesis by (simp add: requested_def touches_def extends_def)
qed

lemma leases_of_key_kept:
  assumes "leases_of_key a d = []" and "touches ph d d'" and "(aq_principal a, aq_key a) \<notin> set (key_locks ph)"
  shows "leases_of_key a d' = []"
proof -
  have "\<not> (l_acquired_by l = aq_principal a \<and> l_idempotency_key l = aq_key a)" if "l \<in> set (db_leases d')" for l
  proof
    assume l: "l_acquired_by l = aq_principal a \<and> l_idempotency_key l = aq_key a"
    with that assms(2,3) obtain l0 where "l0 \<in> set (db_leases d)" "l_acquired_by l0 = l_acquired_by l"
      "l_idempotency_key l0 = l_idempotency_key l" unfolding touches_def by metis
    with l assms(1) show False by (auto simp: leases_of_key_def filter_empty_conv)
  qed
  then show ?thesis by (auto simp: leases_of_key_def filter_empty_conv)
qed

lemma alone_kept:
  assumes "alone now d rid ids" and "touches ph d d'" and "rid \<notin> set (resource_locks ph)"
  shows "alone now d' rid ids"
  unfolding alone_def
proof (intro ballI impI)
  fix l assume l: "l \<in> set (db_leases d')" "l_resource_id l = rid" "active_lease now l"
  then have "l \<in> set (db_leases d)"
    using assms(2,3) by (auto simp: touches_def active_lease_def)
  with l assms(1) show "l_id l \<in> ids" by (simp add: alone_def)
qed

lemma lease_kept_by_others:
  "l \<in> set (db_leases d) \<Longrightarrow> touches ph d d' \<Longrightarrow> l_id l \<notin> set (lease_locks ph) \<Longrightarrow> l \<in> set (db_leases d')"
  by (simp add: touches_def)

lemma resource_kept_by_others:
  "r \<in> set (db_resources d) \<Longrightarrow> touches ph d d' \<Longrightarrow> r_id r \<notin> set (resource_locks ph) \<Longrightarrow>
     r \<in> set (db_resources d')"
  by (simp add: touches_def)

lemma was_due_kept:
  "was_due t d i \<Longrightarrow> touches ph d d' \<Longrightarrow> i \<notin> set (lease_locks ph) \<Longrightarrow> was_due t d' i"
  unfolding was_due_def using lease_kept_by_others by blast

lemma exclusive_resource_before:
  assumes "exclusive_resource d' rid" and "touches ph d d'" and "rid \<notin> set (resource_locks ph)"
    and "resource_exists d rid" and "db_ok d'"
  shows "exclusive_resource d rid"
proof -
  obtain r where r: "r \<in> set (db_resources d)" "r_id r = rid" using assms(4) by (auto simp: exists_iff)
  then have "r \<in> set (db_resources d')" using assms(2,3) by (simp add: touches_def)
  moreover obtain r' where "r' \<in> set (db_resources d')" "r_id r' = rid" "r_sharing_mode r' = Exclusive"
    using assms(1) by (auto simp: exclusive_resource_def)
  ultimately have "r_sharing_mode r = Exclusive"
    using resource_id_inj [OF assms(5), of r r'] r(2) by simp
  with r show ?thesis by (auto simp: exclusive_resource_def)
qed

lemma phase_kept:
  assumes "phase_ok now d ph" and "touches ph' d d'" and "apart ph ph'" and "db_ok d" and "db_ok d'"
  shows "phase_ok now d' ph"
proof (cases ph)
  case (RenewChecked n l t)
  have l: "l \<in> set (db_leases d)" "l_id l \<notin> set (lease_locks ph')" "l_resource_id l \<notin> set (resource_locks ph')"
    using assms(1,3) RenewChecked by (auto simp: apart_def)
  have ex: "resource_exists d (l_resource_id l)" using assms(4) l(1) by (rule lease_resource_exists)
  have "alone now d' (l_resource_id l) {l_id l}" if "exclusive_resource d' (l_resource_id l)"
    using exclusive_resource_before [OF that assms(2) l(3) ex assms(5)] assms(1) RenewChecked
    by (intro alone_kept [OF _ assms(2) l(3)]) auto
  with assms(1) RenewChecked lease_kept_by_others [OF l(1) assms(2) l(2)] show ?thesis by simp
next
  case (AcquireScanning a s rs)
  then show ?thesis
    using assms(1,2,3) requested_kept [OF _ assms(2)] leases_of_key_kept [OF _ assms(2)]
    by (simp add: apart_def touches_def extends_def)
next
  case (ExpireScanning cx n ls ids)
  have "l_id ` set (db_leases d) \<subseteq> l_id ` set (db_leases d')" using assms(2) by (simp add: touches_def)
  moreover have "was_due (cx_now cx) d' i" if "i \<in> set ids" for i
    using assms(1,3) that ExpireScanning by (intro was_due_kept [OF _ assms(2)]) (auto simp: apart_def)
  ultimately show ?thesis using assms(1) ExpireScanning by (simp, blast)
qed (use assms(1,2,3) in \<open>auto simp: apart_def intro: requested_kept [OF _ assms(2)]
      leases_of_key_kept [OF _ assms(2)] alone_kept [OF _ assms(2)] was_due_kept [OF _ assms(2)]
      lease_kept_by_others [OF _ assms(2)] resource_kept_by_others [OF _ assms(2)]\<close>)

lemma active_before: "active_lease t l \<Longrightarrow> now \<le> t \<Longrightarrow> active_lease now l"
  by (rule lease_activity.active_earlier)

lemma alone_later: "alone now d rid ids \<Longrightarrow> now \<le> t \<Longrightarrow> alone t d rid ids"
  unfolding alone_def using active_before by blast

lemma phase_later: "phase_ok now d ph \<Longrightarrow> now \<le> t \<Longrightarrow> phase_ok t d ph"
  by (cases ph) (auto simp: requested_def intro: alone_later)

subsection \<open>The discipline of a component\<close>

definition granted :: "locks \<Rightarrow> phase \<Rightarrow> phase \<Rightarrow> bool" where
  "granted K ph ph' \<longleftrightarrow>
     (\<forall>k \<in> set (key_locks ph'). k \<in> set (key_locks ph) \<or> \<not> lk_key K k) \<and>
     (\<forall>k \<in> set (lease_locks ph'). k \<in> set (lease_locks ph) \<or> \<not> lk_lease K k) \<and>
     (\<forall>k \<in> set (resource_locks ph'). k \<in> set (resource_locks ph) \<or> \<not> lk_resource K k) \<and>
     (\<forall>k \<in> set (new_lease_ids ph'). k \<in> set (new_lease_ids ph) \<or> \<not> lk_new K k)"

definition consistent :: "world \<Rightarrow> bool" where
  "consistent w \<longleftrightarrow> db_ok (w_db w) \<and> exclusive_ok (w_now w) (w_db w) \<and>
     (\<forall>i. phase_ok (w_now w) (w_db w) (w_tx w i)) \<and>
     (\<forall>i j. i \<noteq> j \<longrightarrow> apart (w_tx w i) (w_tx w j))"

lemma granted_apart:
  assumes "granted (others w i) (w_tx w i) ph" and "apart (w_tx w i) (w_tx w j)" and "j \<noteq> i"
  shows "apart ph (w_tx w j)"
  using assms unfolding granted_def apart_def others_def by simp (metis IntI disjoint_iff)

locale lock_discipline =
  fixes mv :: "locks \<Rightarrow> instant \<Rightarrow> db \<Rightarrow> phase \<Rightarrow> phase \<Rightarrow> db \<Rightarrow> bool"
  assumes keeps: "mv K now d ph ph' d' \<Longrightarrow> db_ok d \<Longrightarrow> exclusive_ok now d \<Longrightarrow> phase_ok now d ph \<Longrightarrow>
      db_ok d' \<and> exclusive_ok now d' \<and> phase_ok now d' ph'"
    and changes: "mv K now d ph ph' d' \<Longrightarrow> db_ok d \<Longrightarrow> phase_ok now d ph \<Longrightarrow> touches ph d d'"
    and locks: "mv K now d ph ph' d' \<Longrightarrow> granted K ph ph'"
begin

lemma world_consistent:
  assumes "mv (others w i) (w_now w) (w_db w) (w_tx w i) ph d" and "consistent w"
  shows "consistent (w\<lparr>w_db := d, w_tx := (w_tx w)(i := ph)\<rparr>)"
proof -
  have ok: "db_ok (w_db w)" "exclusive_ok (w_now w) (w_db w)" "phase_ok (w_now w) (w_db w) (w_tx w j)"
    "j \<noteq> k \<Longrightarrow> apart (w_tx w j) (w_tx w k)" for j k
    using assms(2) by (simp_all add: consistent_def)
  note new = keeps [OF assms(1) ok(1-3)]
  note touched = changes [OF assms(1) ok(1,3)]
  have "phase_ok (w_now w) d (w_tx w j)" if "j \<noteq> i" for j
    by (rule phase_kept [OF ok(3) touched ok(4) [OF that] ok(1)]) (use new in simp)
  moreover have "apart ph (w_tx w j)" if "j \<noteq> i" for j
    using granted_apart [OF locks [OF assms(1)] ok(4) that] that by simp
  ultimately show ?thesis
    using new ok(4) apart_sym by (auto simp: consistent_def)
qed

end

text \<open>Changing locked leases in place, ending those whose resource is not locked.\<close>

lemma touches_update:
  assumes "extends d d'" and "db_resources d' = db_resources d" and "db_leases d' = update_where p f (db_leases d)"
    and locked: "\<forall>x \<in> set (db_leases d). p x \<longrightarrow> l_id x \<in> set (lease_locks ph) \<and>
      (l_resource_id x \<in> set (resource_locks ph) \<or> l_ended_at (f x) \<noteq> None)"
    and same: "\<forall>x. l_id (f x) = l_id x \<and> l_resource_id (f x) = l_resource_id x \<and>
      l_acquired_by (f x) = l_acquired_by x \<and> l_idempotency_key (f x) = l_idempotency_key x"
  shows "touches ph d d'"
  unfolding touches_def
proof (intro conjI ballI impI)
  show "extends d d'" by fact
  show "l_id ` set (db_leases d) \<subseteq> l_id ` set (db_leases d')"
    using image_update_where [of l_id f p "db_leases d"] same by (simp add: assms(3))
  show "l \<in> set (db_leases d')" if "l \<in> set (db_leases d)" "l_id l \<notin> set (lease_locks ph)" for l
    using that locked by (auto simp: assms(3) set_update_where)
  show "r \<in> set (db_resources d')" if "r \<in> set (db_resources d)" for r
    using that by (simp add: assms(2))
next
  fix l assume l: "l \<in> set (db_leases d')"
  show "l \<in> set (db_leases d)" if "l_resource_id l \<notin> set (resource_locks ph)" "l_ended_at l = None"
    using l that locked same unfolding assms(3) by (cases rule: update_where_memE) auto
  show "(\<exists>l0 \<in> set (db_leases d). l_id l0 = l_id l \<and> l_acquired_by l0 = l_acquired_by l \<and>
      l_idempotency_key l0 = l_idempotency_key l) \<or>
    (l_acquired_by l, l_idempotency_key l) \<in> set (key_locks ph) \<and> l_id l \<in> set (new_lease_ids ph)"
    using l same unfolding assms(3) by (cases rule: update_where_memE) auto
qed

subsection \<open>Acquisition\<close>

lemma alone_none_iff: "alone t d rid {} \<longleftrightarrow> active_leases t d rid = []"
  by (auto simp: alone_def active_leases_def filter_empty_conv)

lemma candidate_mode: "eligible a s r \<Longrightarrow> r_sharing_mode r = lc_sharing_mode (aq_request a)"
  by (simp add: eligible_def candidate_ok_def)

lemma ready_commit:
  assumes "create_lease (aq_cx a) t (aq_lease_id a) (aq_request a) (aq_key a) hash (aq_principal a) r d
      = Inr (resp, d')" and "db_ok d" and "phase_ok now d (AcquireReady a r t)"
  shows "db_ok d'" and "exclusive_ok now d \<Longrightarrow> exclusive_ok now d'" and "touches (AcquireReady a r t) d d'"
proof -
  obtain ttl where leases: "db_leases d' = db_leases d @
        [new_lease (aq_lease_id a) (r_id r) (aq_principal a) (aq_request a) t ttl (aq_key a) hash]"
    and rows: "db_resources d' = update_where (\<lambda>x. r_id x = r_id r)
        (\<lambda>x. x\<lparr>r_last_leased_at := Some t, r_updated_at := cx_now (aq_cx a)\<rparr>) (db_resources d)"
    and ok: "db_ok d' \<and> extends d d'"
    using assms(1) by (rule create_lease_tables) (use assms(2) in blast)
  show "db_ok d'" using ok by simp
  have r: "r \<in> set (db_resources d)" using assms(3) by simp
  have "active_count now d (r_id r) = 0" if "r_sharing_mode r = Exclusive"
    using assms(3) that by (auto simp: active_count_def alone_none_iff wants_exclusive_def dest: candidate_mode)
  then show "exclusive_ok now d \<Longrightarrow> exclusive_ok now d'"
    by (intro exclusive_ok_created [OF assms(1,2) _ r]) simp_all
  show "touches (AcquireReady a r t) d d'"
    using ok by (auto simp: touches_def leases rows set_update_where new_lease_def)
qed

lemma ready_alone:
  assumes "requested now d a" and "first_row (active_leases (cx_now (aq_cx a)) d rid) = None"
  shows "alone now d rid {}"
proof -
  have "alone (cx_now (aq_cx a)) d rid {}"
    using assms(2) by (cases "active_leases (cx_now (aq_cx a)) d rid") (simp_all add: first_row_def alone_none_iff)
  then show ?thesis by (rule alone_later) (use assms(1) in \<open>simp add: requested_def\<close>)
qed

interpretation acquiring: lock_discipline "acquire_move sha" for sha
proof
  fix K now d ph ph' d'
  assume mv: "acquire_move sha K now d ph ph' d'"
  show "granted K ph ph'" using mv by cases (auto simp: granted_def)
  assume ok: "db_ok d" "phase_ok now d ph"
  show "touches ph d d'" using mv
  proof cases
    case (acquire_commit a t r resp)
    then show ?thesis using ready_commit(3) [OF acquire_commit(3)] ok by blast
  qed auto
  assume ex: "exclusive_ok now d"
  show "db_ok d' \<and> exclusive_ok now d' \<and> phase_ok now d' ph'" using mv
  proof cases
    case (acquire_commit a t r resp)
    then show ?thesis using ready_commit(1,2) [OF acquire_commit(3)] ok ex by fastforce
  next
    case (acquire_clear a r)
    then show ?thesis using ok ex ready_alone [of now d a "r_id r"] by auto
  qed (use ok ex in \<open>auto simp: requested_def exists_iff\<close>)
qed

subsection \<open>Renewal\<close>

lemma alone_count:
  assumes "db_ok d" and "alone t d rid {i}"
  shows "active_count t d rid \<le> 1"
proof -
  have "distinct (map l_id (active_leases t d rid))"
    using leases_unique [OF assms(1)] by (simp add: unique_on_def active_leases_def distinct_map_filter)
  moreover have "set (map l_id (active_leases t d rid)) \<subseteq> {i}"
    using assms(2) by (auto simp: alone_def active_leases_def)
  ultimately have "length (map l_id (active_leases t d rid)) \<le> card {i}"
    by (metis card_mono distinct_card finite.intros(1) finite_insert)
  then show ?thesis by (simp add: active_count_def)
qed

lemma count_alone:
  assumes "active_count t d rid \<le> 1" and "l \<in> set (db_leases d)" and "l_resource_id l = rid" and "active_lease t l"
  shows "alone t d rid {l_id l}"
proof -
  have "l \<in> set (active_leases t d rid)" using assms(2-4) by (simp add: active_leases_def)
  then have "set (active_leases t d rid) = {l}"
    using assms(1) by (cases "active_leases t d rid") (auto simp: active_count_def)
  then have "x = l" if "x \<in> set (db_leases d)" "l_resource_id x = rid" "active_lease t x" for x
    using that by (auto simp: active_leases_def)
  then show ?thesis by (simp add: alone_def)
qed

lemma checked_commit:
  assumes "renew_lease (rn_cx n) checked app_now (rn_lease_id n) (rn_ttl n) (rn_principal n) d = Inr (resp, d')"
    and ok: "db_ok d" "phase_ok now d (RenewChecked n l checked)"
  shows "db_ok d' \<and> (exclusive_ok now d \<longrightarrow> exclusive_ok now d') \<and> touches (RenewChecked n l checked) d d'"
  using assms(1)
proof (cases rule: renew_lease_tables)
  case (1 l' r ttl)
  let ?f = "\<lambda>x. x\<lparr>l_expires_at := expiry app_now ttl, l_last_renewed_at := Some app_now\<rparr>"
  have l: "l \<in> set (db_leases d)" "l_id l = rn_lease_id n" using ok(2) by simp_all
  have only: "x = l" if "x \<in> set (db_leases d)" "l_id x = rn_lease_id n" for x
    using lease_id_inj [OF ok(1) that(1) l(1)] that(2) l(2) by simp
  have ok': "db_ok d'" "extends d d'" using 1(9) ok(1) by simp_all
  have "touches (RenewChecked n l checked) d d'"
    by (rule touches_update [OF ok'(2) 1(7,6)]) (use l(2) only in fastforce)+
  moreover have "exclusive_ok now d'" if ex: "exclusive_ok now d"
    unfolding exclusive_ok_def list_all_iff 1(7)
  proof (intro ballI impI)
    fix x assume x: "x \<in> set (db_resources d)" "r_sharing_mode x = Exclusive"
    show "active_count now d' (r_id x) \<le> 1"
    proof (cases "r_id x = l_resource_id l")
      case True
      then have "alone now d (l_resource_id l) {l_id l}"
        using ok(2) x by (auto simp: exclusive_resource_def)
      then have "alone now d' (l_resource_id l) {l_id l}"
        using l by (auto simp: alone_def 1(6) set_update_where)
      then show ?thesis using alone_count [OF ok'(1)] True by metis
    next
      case False
      then have "active_count now d' (r_id x) \<le> active_count now d (r_id x)"
        unfolding active_count_def active_leases_def 1(6)
        by (intro length_filter_update_where_le) (use only in auto)
      also have "\<dots> \<le> 1" using ex x by (simp add: exclusive_ok_def list_all_iff)
      finally show ?thesis .
    qed
  qed
  ultimately show ?thesis using ok'(1) by simp
qed

lemma live_alone:
  assumes "exclusive_ok now d" and "l \<in> set (db_leases d)" and "l_ended_at l = None" and "\<not> due_lease now l"
    and "exclusive_resource d (l_resource_id l)"
  shows "alone now d (l_resource_id l) {l_id l}"
  using assms lease_activity.live [of l now]
  by (intro count_alone) (auto simp: exclusive_ok_def list_all_iff exclusive_resource_def)

interpretation renewing: lock_discipline renew_move
proof
  fix K now d ph ph' d'
  assume mv: "renew_move K now d ph ph' d'"
  show "granted K ph ph'" using mv by cases (auto simp: granted_def)
  assume ok: "db_ok d" "phase_ok now d ph"
  show "touches ph d d'" using mv
  proof cases
    case (renew_commit checked app_now n resp l)
    then show ?thesis using checked_commit [OF renew_commit(5)] ok by blast
  qed auto
  assume ex: "exclusive_ok now d"
  show "db_ok d' \<and> exclusive_ok now d' \<and> phase_ok now d' ph'" using mv
  proof cases
    case (renew_commit checked app_now n resp l)
    then show ?thesis using checked_commit [OF renew_commit(5)] ok ex by fastforce
  next
    case (renew_live l n)
    then show ?thesis using ok ex live_alone [OF ex, of l] by auto
  qed (use ok ex in auto)
qed

subsection \<open>Release, revocation and expiration\<close>

lemma end_commits:
  assumes "end_lease (en_cx e) (en_lease_id e) (en_principal e) (en_reason e) d = Inr (resp, d')"
    and ok: "db_ok d" "phase_ok now d (EndLocked e l)"
  shows "db_ok d' \<and> (exclusive_ok now d \<longrightarrow> exclusive_ok now d') \<and> touches (EndLocked e l) d d'"
  using assms(1)
proof (cases rule: end_lease_tables)
  case (1 l')
  have ok': "db_ok d'" "extends d d'" using 1(6) ok(1) by simp_all
  show ?thesis
  proof (cases "l_ended_at l' = None")
    case True
    then have leases: "db_leases d' = update_where (\<lambda>x. l_id x = en_lease_id e)
        (\<lambda>x. x\<lparr>l_ended_at := Some (cx_now (en_cx e)), l_end_reason := Some (en_reason e)\<rparr>) (db_leases d)"
      using 1(2) by simp
    have "touches (EndLocked e l) d d'"
      by (rule touches_update [OF ok'(2) 1(4) leases]) (use ok(2) in auto)
    moreover have "exclusive_ok now d'" if "exclusive_ok now d"
      by (rule exclusive_ok_count_le [OF 1(4) that], rule active_count_update_le [OF leases])
        (simp_all add: active_lease_def)
    ultimately show ?thesis using ok'(1) by simp
  next
    case False
    then show ?thesis using 1(3) ok by auto
  qed
qed

interpretation ending: lock_discipline end_move
proof
  fix K now d ph ph' d'
  assume mv: "end_move K now d ph ph' d'"
  show "granted K ph ph'" using mv by cases (auto simp: granted_def)
  assume ok: "db_ok d" "phase_ok now d ph"
  show "touches ph d d'" using mv
  proof cases
    case (end_commit e resp l)
    then show ?thesis using end_commits [OF end_commit(3)] ok by blast
  qed auto
  assume ex: "exclusive_ok now d"
  show "db_ok d' \<and> exclusive_ok now d' \<and> phase_ok now d' ph'" using mv
  proof cases
    case (end_commit e resp l)
    then show ?thesis using end_commits [OF end_commit(3)] ok ex by fastforce
  qed (use ok ex in auto)
qed

lemma batch_commit:
  assumes "expire_ids cx ids 0 d = Inr (n, d')" and ok: "db_ok d" "phase_ok now d (ExpireLocking cx ids [] rs)"
  shows "db_ok d' \<and> (exclusive_ok now d \<longrightarrow> exclusive_ok now d') \<and> touches (ExpireLocking cx ids [] rs) d d'"
proof -
  have "\<forall>i \<in> set ids. \<exists>l. l \<in> set (db_leases d) \<and> l_id l = i \<and> due_lease (cx_now cx) l"
    using ok(2) by (auto simp: was_due_def)
  then obtain f where f: "\<forall>i \<in> set ids. f i \<in> set (db_leases d) \<and> l_id (f i) = i \<and> due_lease (cx_now cx) (f i)"
    by metis
  have ids: "map l_id (map f ids) = ids" using f by (simp add: map_idI)
  have dist: "distinct (map l_id (map f ids))" using ids ok(2) by simp
  have sub: "set (map f ids) \<subseteq> set (filter (due_lease (cx_now cx)) (db_leases d))" using f by auto
  obtain d1 where run: "expire_ids cx (map l_id (map f ids)) 0 d = Inr (0 + length (map f ids), d1)" "db_ok d1"
    "d1 = d\<lparr>db_leases := update_where (\<lambda>x. l_id x \<in> l_id ` set (map f ids)) expire_row (db_leases d),
          db_audit := db_audit d @ map (expired_event cx) (map l_id (map f ids))\<rparr>"
    using expire_ids_run [OF ok(1) dist sub, where n = 0] by blast
  have d1: "d1 = d'" using run(1) assms(1) unfolding ids by simp
  have leases: "db_leases d' = update_where (\<lambda>x. l_id x \<in> set ids) expire_row (db_leases d)"
    using run(3) unfolding d1 set_map [symmetric] ids by simp
  have rest: "db_resources d' = db_resources d" "extends d d'"
    using run(3) unfolding d1 by (simp_all add: extends_def exists_iff)
  have due: "due_lease (cx_now cx) x" if "x \<in> set (db_leases d)" "l_id x \<in> set ids" for x
    using f that lease_id_inj [OF ok(1) that(1), of "f (l_id x)"] by metis
  have ends: "l_ended_at (expire_row x) \<noteq> None" if "due_lease (cx_now cx) x" for x
    using that by (auto simp: due_lease_def expire_row_def split: option.splits)
  have "touches (ExpireLocking cx ids [] rs) d d'"
    by (rule touches_update [OF rest(2,1) leases]) (use due ends in \<open>auto simp: expire_row_def\<close>)
  moreover have "exclusive_ok now d'" if "exclusive_ok now d"
    by (rule exclusive_ok_count_le [OF rest(1) that], rule active_count_update_le [OF leases])
      (use due ends in \<open>auto simp: active_lease_def\<close>)
  ultimately show ?thesis using run(2) d1 by simp
qed

interpretation expiring: lock_discipline expire_move
proof
  fix K now d ph ph' d'
  assume mv: "expire_move K now d ph ph' d'"
  show "granted K ph ph'" using mv by cases (auto simp: granted_def)
  assume ok: "db_ok d" "phase_ok now d ph"
  show "touches ph d d'" using mv
  proof cases
    case (expire_commit cx ids n rs)
    then show ?thesis using batch_commit [OF expire_commit(3)] ok by blast
  qed auto
  assume ex: "exclusive_ok now d"
  show "db_ok d' \<and> exclusive_ok now d' \<and> phase_ok now d' ph'" using mv
  proof cases
    case (expire_commit cx ids n rs)
    then show ?thesis using batch_commit [OF expire_commit(3)] ok ex by fastforce
  next
    case (expire_begin cx b)
    have "distinct (map l_id (filter (due_lease (cx_now cx)) (db_leases d)))"
      using leases_unique [OF ok(1)] by (simp add: unique_on_def distinct_map_filter)
    then show ?thesis using expire_begin ok ex by (auto simp: distinct_map)
  qed (use ok ex in \<open>auto simp: was_due_def\<close>)
qed

subsection \<open>The other components\<close>

lemma other_commits:
  assumes "other_effect hr d d'" and "db_ok d"
  shows "db_ok d' \<and> (exclusive_ok now d \<longrightarrow> exclusive_ok now d') \<and> touches (Other None None hl hr) d d'"
proof -
  have ok: "db_ok d'" and leases: "db_leases d' = db_leases d" using assms by (simp_all add: other_effect_def)
  have "exclusive_ok now d'" if ex: "exclusive_ok now d"
    unfolding exclusive_ok_def list_all_iff
  proof (intro ballI impI)
    fix r' assume r': "r' \<in> set (db_resources d')" "r_sharing_mode r' = Exclusive"
    show "active_count now d' (r_id r') \<le> 1"
    proof (cases "resource_exists d (r_id r')")
      case True
      then obtain r where "r \<in> set (db_resources d)" "r_id r = r_id r'" "r_sharing_mode r = Exclusive"
        using assms(1) r' unfolding other_effect_def by blast
      then show ?thesis using ex leases
        by (simp add: exclusive_ok_def list_all_iff active_count_def active_leases_def) metis
    next
      case False
      then have "active_leases now d (r_id r') = []"
        using lease_resource_exists [OF assms(2)] unfolding active_leases_def filter_empty_conv by metis
      then show ?thesis by (simp add: active_count_def active_leases_def leases)
    qed
  qed
  moreover have "touches (Other None None hl hr) d d'"
    using assms by (auto simp: other_effect_def touches_def split: option.splits)
  ultimately show ?thesis using ok by simp
qed

interpretation other: lock_discipline "\<lambda>K now. other_move K"
proof
  fix K now d ph ph' d'
  assume mv: "other_move K d ph ph' d'"
  show "granted K ph ph'" using mv by cases (auto simp: granted_def)
  assume ok: "db_ok d" "phase_ok now d ph"
  show "touches ph d d'" using mv
  proof cases
    case (other_commit hr hl)
    then show ?thesis using other_commits [OF other_commit(3) ok(1)] by blast
  qed auto
  assume ex: "exclusive_ok now d"
  show "db_ok d' \<and> exclusive_ok now d' \<and> phase_ok now d' ph'" using mv
  proof cases
    case (other_commit hr hl)
    then show ?thesis using other_commits [OF other_commit(3) ok(1)] ex by auto
  qed (use ok ex in auto)
qed

subsection \<open>Every interleaving\<close>

lemma happens_consistent:
  assumes "happens sha w w'" and "consistent w"
  shows "consistent w'"
  using assms(1)
proof cases
  case (tick t)
  with assms(2) show ?thesis
    by (auto simp: consistent_def intro: exclusive_ok_later phase_later)
next
  case (rollback i)
  with assms(2) show ?thesis by (auto simp: consistent_def)
next
  case (move i ph d)
  show ?thesis
    unfolding move(1) using move(2) unfolding moves_def
    by (elim disjE) (rule acquiring.world_consistent renewing.world_consistent ending.world_consistent
      expiring.world_consistent other.world_consistent, assumption, rule assms(2))+
qed

lemma runs_consistent: "runs sha w w' \<Longrightarrow> consistent w \<Longrightarrow> consistent w'"
  by (induction rule: runs.induct) (auto intro: happens_consistent)

lemma quiet_consistent: "quiet w \<Longrightarrow> db_ok (w_db w) \<Longrightarrow> exclusive_ok (w_now w) (w_db w) \<Longrightarrow> consistent w"
  by (simp add: quiet_def consistent_def)

subsection \<open>The transactions of the catalog\<close>

lemma row_change_other:
  assumes "update_resources cx (\<lambda>r. r_id r = rid) f d = Inr d1"
    and "record_audit_event cx actor act st sid m d1 = Inr d'" and "lock_row rid d = Inr t"
    and f: "\<And>r. r_id (f r) = r_id r" and mode: "\<And>r. r_sharing_mode (f r) = Exclusive \<Longrightarrow> r_sharing_mode r = Exclusive"
  shows "other_effect (Some rid) d d'"
proof -
  have id: "r_id (f r) = r_id r" for r by (rule f)
  note steps = row_change_steps [OF assms(1-3) id]
  show ?thesis
    unfolding other_effect_def steps(2)
    using steps(3,4) f mode by (auto simp: set_update_where)
qed

lemma unchanged_other: "other_effect hr d d"
  by (auto simp: other_effect_def)

lemma update_resource_other:
  assumes "update_resource cx rid rq actor d = Inr (resp, d')" and "ru_sharing_mode rq \<noteq> Some Exclusive"
  shows "other_effect (Some rid) d d'"
  using assms(1)
proof (cases rule: update_resource_cases)
  case (changed t d1)
  have "r_sharing_mode (apply_changes rq r) = Exclusive \<Longrightarrow> r_sharing_mode r = Exclusive" for r
    using assms(2) by (cases "ru_sharing_mode rq") (simp_all add: apply_changes_def set_field_def)
  then show ?thesis by (intro row_change_other [OF changed(5,6,1)]) simp_all
qed (simp add: unchanged_other)

lemma archive_resource_other:
  "archive_resource cx rid actor d = Inr (u, d') \<Longrightarrow> other_effect (Some rid) d d'"
  by (erule archive_resource_cases) (auto simp: unchanged_other intro: row_change_other)

lemma transition_resource_other:
  "transition_resource cx rid tr actor d = Inr (resp, d') \<Longrightarrow> other_effect (Some rid) d d'"
  by (erule transition_resource_cases) (auto intro: row_change_other)

lemma create_resource_other:
  assumes "create_resource cx i rq actor d = Inr (resp, d')"
  shows "other_effect None d d'"
proof -
  obtain d1 where w: "write_resources (db_resources d @ [new_resource cx i rq]) d = Inr d1"
    and a: "record_audit_event cx (Some actor) ''resource.created'' ''Resource'' i [] d1 = Inr d'"
    using assms by (rule create_resource_cases)
  have rows: "db_resources d' = db_resources d @ [new_resource cx i rq]" "db_leases d' = db_leases d"
    using w frame(7,11) [OF a] by (auto simp: write_resources_def split: if_splits)
  have "\<not> resource_exists d i" using resources.insert_fresh [OF w] by (simp add: exists_iff new_resource_def)
  moreover have "db_ok d \<longrightarrow> db_ok d' \<and> extends d d'" using create_resource_ok [OF assms] by blast
  ultimately show ?thesis by (auto simp: other_effect_def rows new_resource_def)
qed

lemma same_tables_other:
  "(db_ok d \<Longrightarrow> db_ok d' \<and> extends d d') \<Longrightarrow> db_resources d' = db_resources d \<Longrightarrow>
     db_leases d' = db_leases d \<Longrightarrow> other_effect hr d d'"
  by (auto simp: other_effect_def)

end
