(* ===== verification/Interleaving_Guarantees.thy ===== *)
theory Interleaving_Guarantees
  imports Interleaving_Laws
begin

text \<open>
  What holds of every interleaving of lease transactions: exclusivity, acquisitions that cannot fail
  after their recheck, progress with one expiration worker, and how two workers can deadlock. A
  serial run of a transaction is one of its interleavings.
\<close>

subsection \<open>Safety\<close>

text \<open>
  C2: No exclusive resource is ever double-booked by concurrent transactions. However the
  statements of any number of acquisitions, renewals, releases, revocations, expiration batches and
  transactions of other components interleave, and whichever of them are rolled back, at every
  moment an exclusive resource has at most one active lease. This is for application and database on one clock and
  for other transactions that turn no shared resource exclusive (\<open>other_effect\<close>); \<open>Findings\<close> shows that
  neither can be done without.
\<close>

theorem interleaved_never_double_booked:
  assumes "runs sha w w'" and "quiet w" and "db_ok (w_db w)" and "exclusive_ok (w_now w) (w_db w)"
    and "r \<in> set (db_resources (w_db w'))" and "r_sharing_mode r = Exclusive"
  shows "length (active_leases (w_now w') (w_db w') (r_id r)) \<le> 1"
proof -
  have "consistent w'" using runs_consistent [OF assms(1)] quiet_consistent assms(2-4) by blast
  then show ?thesis using assms(5,6) by (auto simp: consistent_def exclusive_ok_def list_all_iff active_count_def)
qed

text \<open>
  C3: The advisory lock makes acquisition safe against races: once the recheck has passed, creating the
  lease cannot fail, whatever the other transactions do in between, so no race between retries of one
  key, between rivals for one resource or with an administrator ends in a constraint violation.
\<close>

theorem interleaved_acquisition_commits:
  assumes "runs sha w w'" and "quiet w" and "db_ok (w_db w)" and "exclusive_ok (w_now w) (w_db w)"
    and "w_tx w' i = AcquireReady a r t"
  shows "\<exists>resp d'. create_lease (aq_cx a) t (aq_lease_id a) (aq_request a) (aq_key a)
      (request_hash sha (aq_request a)) (aq_principal a) r (w_db w') = Inr (resp, d') \<and>
    lr_id resp = aq_lease_id a \<and> rr_id (lr_resource resp) = r_id r"
proof -
  have c: "consistent w'" using runs_consistent [OF assms(1)] quiet_consistent assms(2-4) by blast
  then have ok: "db_ok (w_db w')" and ph: "phase_ok (w_now w') (w_db w') (AcquireReady a r t)"
    using assms(5) by (auto simp: consistent_def dest: spec [of _ i])
  obtain s where s: "candidate_ok (aq_cx a) (aq_request a) (aq_principal a) (aq_admin a) s r"
    using ph by (auto simp: eligible_def)
  have "\<exists>resp d'. create_lease (aq_cx a) t (aq_lease_id a) (aq_request a) (aq_key a)
      (request_hash sha (aq_request a)) (aq_principal a) r (w_db w') = Inr (resp, d')"
    by (rule create_lease_succeeds [OF ok _ _ _ s])
      (use ph in \<open>simp_all add: requested_def leases_of_key_def\<close>)
  then show ?thesis by (metis create_lease_tables)
qed

subsection \<open>Progress\<close>

text \<open>What a transaction waits for in its phase.\<close>

fun waits_key :: "phase \<Rightarrow> (uuid \<times> string) list" where
  "waits_key (AcquireBegun a) = [(aq_principal a, aq_key a)]"
| "waits_key _ = []"

fun waits_lease :: "phase \<Rightarrow> uuid list" where
  "waits_lease (RenewBegun n) = [rn_lease_id n]"
| "waits_lease (EndBegun e) = [en_lease_id e]"
| "waits_lease (Other (Some i) wr hl hr) = [i]"
| "waits_lease _ = []"

fun waits_resource :: "db \<Rightarrow> phase \<Rightarrow> uuid list" where
  "waits_resource d (AcquireScanning a s (r # rs)) = [r_id r]"
| "waits_resource d (RenewLeaseLocked n l) = [l_resource_id l]"
| "waits_resource d (EndLeaseLocked e l) = [l_resource_id l]"
| "waits_resource d (ExpireLocking cx ids (i # todo) rs) =
     map l_resource_id (filter (\<lambda>l. l_id l = i) (db_leases d))"
| "waits_resource d (Other None (Some i) hl hr) = [i]"
| "waits_resource d _ = []"

definition unobstructed :: "locks \<Rightarrow> db \<Rightarrow> phase \<Rightarrow> bool" where
  "unobstructed K d ph \<longleftrightarrow> (\<forall>k \<in> set (waits_key ph). \<not> lk_key K k) \<and>
     (\<forall>k \<in> set (waits_lease ph). \<not> lk_lease K k) \<and> (\<forall>k \<in> set (waits_resource d ph). \<not> lk_resource K k)"

lemma acquire_can_move:
  assumes "phase_ok now d ph" and "unobstructed K d ph"
    and "\<exists>a s rs r t. ph \<in> {AcquireBegun a, AcquireKeyed a, AcquireFresh a, AcquireScanning a s rs,
      AcquireLocked a r, AcquireReady a r t}"
  shows "\<exists>ph' d'. acquire_move sha K now d ph ph' d'"
proof (cases ph)
  case (AcquireScanning a s rs)
  show ?thesis
  proof (cases rs)
    case Nil
    then show ?thesis using AcquireScanning acquire_none by blast
  next
    case (Cons r rs')
    then obtain r' where r': "r' \<in> set (db_resources d)" "r_id r' = r_id r"
      using assms(1) AcquireScanning by (auto simp: exists_iff)
    moreover have "\<not> lk_resource K (r_id r)" using assms(2) AcquireScanning Cons by (simp add: unobstructed_def)
    ultimately show ?thesis using AcquireScanning Cons acquire_miss acquire_lock by (cases "eligible a s r'") blast+
  qed
next
  case (AcquireReady a r t)
  let ?r = "create_lease (aq_cx a) t (aq_lease_id a) (aq_request a) (aq_key a)
      (request_hash sha (aq_request a)) (aq_principal a) r d"
  show ?thesis
  proof (cases ?r)
    case (Inr p)
    then show ?thesis using AcquireReady acquire_commit by (cases p) blast
  qed (use AcquireReady acquire_error in blast)
next
  case (AcquireLocked a r)
  then show ?thesis
    using acquire_taken acquire_clear
    by (cases "wants_exclusive a \<and> first_row (active_leases (cx_now (aq_cx a)) d (r_id r)) \<noteq> None") blast+
next
  case (AcquireBegun a)
  then have "\<not> lk_key K (aq_principal a, aq_key a)" using assms(2) by (simp add: unobstructed_def)
  then show ?thesis using AcquireBegun acquire_key by blast
next
  case (AcquireKeyed a)
  then show ?thesis using acquire_answer acquire_fresh by (cases "leases_of_key a d = []") blast+
next
  case (AcquireFresh a)
  then show ?thesis using acquire_scan by blast
qed (use assms(3) in auto)

lemma renew_can_move:
  assumes "phase_ok now d ph" and "unobstructed K d ph"
    and "\<exists>n l t. ph \<in> {RenewBegun n, RenewLeaseLocked n l, RenewLocked n l, RenewChecked n l t}"
  shows "\<exists>ph' d'. renew_move K now d ph ph' d'"
proof (cases ph)
  case (RenewBegun n)
  then have "\<not> lk_lease K (rn_lease_id n)" using assms(2) by (simp add: unobstructed_def)
  then show ?thesis using RenewBegun renew_missing renew_lock_lease by metis
next
  case (RenewLeaseLocked n l)
  then have "\<not> lk_resource K (l_resource_id l)" using assms(2) by (simp add: unobstructed_def)
  then show ?thesis using RenewLeaseLocked renew_lock_resource by blast
next
  case (RenewLocked n l)
  then show ?thesis
    using renew_dead renew_live by (cases "l_ended_at l \<noteq> None \<or> due_lease now l") blast+
next
  case (RenewChecked n l t)
  let ?r = "renew_lease (rn_cx n) t now (rn_lease_id n) (rn_ttl n) (rn_principal n) d"
  have t: "t \<le> now" using assms(1) RenewChecked by simp
  show ?thesis
  proof (cases ?r)
    case (Inr p)
    then show ?thesis using RenewChecked renew_commit [OF t order_refl] by (cases p) blast
  qed (use RenewChecked renew_error [OF t order_refl] in blast)
qed (use assms(3) in auto)

lemma end_can_move:
  assumes "phase_ok now d ph" and "unobstructed K d ph"
    and "\<exists>e l. ph \<in> {EndBegun e, EndLeaseLocked e l, EndLocked e l}"
  shows "\<exists>ph' d'. end_move K now d ph ph' d'"
proof (cases ph)
  case (EndBegun e)
  then have "\<not> lk_lease K (en_lease_id e)" using assms(2) by (simp add: unobstructed_def)
  then show ?thesis using EndBegun end_missing end_lock_lease by metis
next
  case (EndLeaseLocked e l)
  then have "\<not> lk_resource K (l_resource_id l)" using assms(2) by (simp add: unobstructed_def)
  then show ?thesis using EndLeaseLocked end_lock_resource by blast
next
  case (EndLocked e l)
  let ?r = "end_lease (en_cx e) (en_lease_id e) (en_principal e) (en_reason e) d"
  show ?thesis
  proof (cases ?r)
    case (Inr p)
    then show ?thesis using EndLocked end_commit by (cases p) blast
  qed (use EndLocked end_error in blast)
qed (use assms(3) in auto)

lemma expire_can_move:
  assumes "phase_ok now d ph" and "unobstructed K d ph"
    and "\<exists>cx n ls ids todo rs. ph \<in> {ExpireScanning cx n ls ids, ExpireLocking cx ids todo rs}"
  shows "\<exists>ph' d'. expire_move K now d ph ph' d'"
proof (cases ph)
  case (ExpireScanning cx n ls ids)
  show ?thesis
  proof (cases "n = 0 \<or> ls = []")
    case True
    then show ?thesis using ExpireScanning expire_scanned by blast
  next
    case False
    then obtain m l ls' where eq: "n = Suc m" "ls = l # ls'" by (cases n; cases ls) auto
    then obtain l' where l': "l' \<in> set (db_leases d)" "l_id l' = l_id l"
      using assms(1) ExpireScanning by force
    note ph = ExpireScanning [unfolded eq]
    show ?thesis
    proof (cases "lk_lease K (l_id l)")
      case True
      show ?thesis unfolding ph by (rule exI, rule exI, rule expire_skip [OF True])
    next
      case False
      then show ?thesis
        unfolding ph using expire_miss [OF False l'] expire_take [OF False l']
        by (cases "due_lease (cx_now cx) l'") blast+
    qed
  qed
next
  case (ExpireLocking cx ids todo rs)
  show ?thesis
  proof (cases todo)
    case Nil
    then show ?thesis
    proof (cases "expire_ids cx ids 0 d")
      case (Inr p)
      then show ?thesis using ExpireLocking Nil expire_commit by (cases p) blast
    qed (use ExpireLocking expire_error in blast)
  next
    case (Cons i todo')
    then have "was_due (cx_now cx) d i" using assms(1) ExpireLocking by simp
    then obtain l where l: "l \<in> set (db_leases d)" "l_id l = i" by (auto simp: was_due_def)
    then have "\<not> lk_resource K (l_resource_id l)"
      using assms(2) ExpireLocking Cons by (auto simp: unobstructed_def)
    then show ?thesis using ExpireLocking Cons expire_lock_resource [OF l] by blast
  qed
qed (use assms(3) in auto)

lemma other_can_move:
  assumes "phase_ok now d ph" and "unobstructed K d ph" and ph: "ph = Other wl wr hl hr"
  shows "\<exists>ph' d'. other_move K d ph ph' d'"
proof (cases wl)
  case (Some i)
  then have "\<not> lk_lease K i" "ph = Other (Some i) wr None None" using assms by (auto simp: unobstructed_def)
  then show ?thesis using other_lock_lease by blast
next
  case None
  show ?thesis
  proof (cases wr)
    case (Some i)
    then have "\<not> lk_resource K i" "ph = Other None (Some i) hl None"
      using assms None by (auto simp: unobstructed_def)
    then show ?thesis using other_lock_resource by blast
  next
    case None
    then show ?thesis using ph \<open>wl = None\<close> other_commit [OF unchanged_other] by blast
  qed
qed

lemma can_move:
  assumes "consistent w" and "w_tx w i \<noteq> Idle" and "unobstructed (others w i) (w_db w) (w_tx w i)"
  shows "\<exists>ph d. moves sha w i ph d"
proof -
  have ok: "phase_ok (w_now w) (w_db w) (w_tx w i)" using assms(1) by (simp add: consistent_def)
  note can = acquire_can_move [OF ok assms(3), where sha = sha] renew_can_move [OF ok assms(3)] end_can_move [OF ok assms(3)]
    expire_can_move [OF ok assms(3)] other_can_move [OF ok assms(3)]
  have "(\<exists>a s rs r t. w_tx w i \<in> {AcquireBegun a, AcquireKeyed a, AcquireFresh a, AcquireScanning a s rs,
      AcquireLocked a r, AcquireReady a r t}) \<or>
    (\<exists>n l t. w_tx w i \<in> {RenewBegun n, RenewLeaseLocked n l, RenewLocked n l, RenewChecked n l t}) \<or>
    (\<exists>e l. w_tx w i \<in> {EndBegun e, EndLeaseLocked e l, EndLocked e l}) \<or>
    (\<exists>cx n ls ids todo rs. w_tx w i \<in> {ExpireScanning cx n ls ids, ExpireLocking cx ids todo rs}) \<or>
    (\<exists>wl wr hl hr. w_tx w i = Other wl wr hl hr)"
    using assms(2) by (cases "w_tx w i") auto
  then show ?thesis unfolding moves_def
    by - (elim disjE, (drule can(1), blast), (drule can(2), blast), (drule can(3), blast),
      (drule can(4), blast), use can(5) in blast)
qed

fun worker :: "phase \<Rightarrow> bool" where
  "worker (ExpireScanning cx n ls ids) = True"
| "worker (ExpireLocking cx ids todo rs) = True"
| "worker _ = False"

lemma resource_holder_free:
  "phase_ok now d ph \<Longrightarrow> \<not> worker ph \<Longrightarrow> i \<in> set (resource_locks ph) \<Longrightarrow>
     ph \<noteq> Idle \<and> waits_key ph = [] \<and> waits_lease ph = [] \<and> waits_resource d ph = []"
  by (cases ph) (auto split: option.splits)

lemma lease_holder_free:
  "phase_ok now d ph \<Longrightarrow> \<not> worker ph \<Longrightarrow> i \<in> set (lease_locks ph) \<Longrightarrow>
     ph \<noteq> Idle \<and> waits_key ph = [] \<and> waits_lease ph = []"
  by (cases ph) (auto split: option.splits)

lemma key_holder_free:
  "k \<in> set (key_locks ph) \<Longrightarrow> ph \<noteq> Idle \<and> waits_key ph = [] \<and> waits_lease ph = []"
  by (cases ph) auto

lemma worker_free: "worker ph \<Longrightarrow> ph \<noteq> Idle \<and> waits_key ph = [] \<and> waits_lease ph = []"
  by (cases ph) auto

text \<open>
  C4: With one expiration worker the lease transactions never deadlock: in every interleaving, whenever
  acquisitions, renewals, endings and the batch of one worker are in progress and no transaction of another
  component is, one of them can take its next step without waiting for a lock of another. Transactions of other
  components may have run before. (Those take locks that are not modelled, of principals, secrets and administration,
  and may deadlock among themselves; the shared locks that foreign keys take on principals do not
  conflict with each other.)
\<close>

theorem one_worker_never_deadlocks:
  assumes "runs sha w w'" and "quiet w" and "db_ok (w_db w)" and "exclusive_ok (w_now w) (w_db w)"
    and one: "\<forall>i j. worker (w_tx w' i) \<longrightarrow> worker (w_tx w' j) \<longrightarrow> i = j"
    and leasing: "\<forall>i wl wr hl hr. w_tx w' i \<noteq> Other wl wr hl hr" and "w_tx w' k \<noteq> Idle"
  shows "\<exists>i ph d. w_tx w' i \<noteq> Idle \<and> moves sha w' i ph d"
proof -
  have c: "consistent w'" using runs_consistent [OF assms(1)] quiet_consistent assms(2-4) by blast
  then have ok: "phase_ok (w_now w') (w_db w') (w_tx w' i)" for i by (simp add: consistent_def)
  have free: "\<exists>i ph d. w_tx w' i \<noteq> Idle \<and> moves sha w' i ph d"
    if "w_tx w' i \<noteq> Idle" "unobstructed (others w' i) (w_db w') (w_tx w' i)" for i
    using can_move [OF c that] that(1) by blast
  show ?thesis
  proof (rule ccontr)
    assume stuck: "\<nexists>i ph d. w_tx w' i \<noteq> Idle \<and> moves sha w' i ph d"
    have a: "worker (w_tx w' i)" if "r \<in> set (resource_locks (w_tx w' i))" for i r
    proof (rule ccontr)
      assume "\<not> worker (w_tx w' i)"
      note f = resource_holder_free [OF ok this that]
      then have "unobstructed (others w' i) (w_db w') (w_tx w' i)" by (simp add: unobstructed_def)
      then show False using f free stuck by blast
    qed
    have b: "\<not> worker (w_tx w' i)" for i
    proof
      assume w: "worker (w_tx w' i)"
      then have "\<not> lk_resource (others w' i) r" for r using a one by (auto simp: others_def)
      then have "unobstructed (others w' i) (w_db w') (w_tx w' i)"
        using worker_free [OF w] by (simp add: unobstructed_def)
      then show False using worker_free [OF w] free stuck by blast
    qed
    have res: "\<not> lk_resource (others w' i) r" for i r using a b by (auto simp: others_def)
    have "l \<notin> set (lease_locks (w_tx w' i))" for i l
    proof
      assume "l \<in> set (lease_locks (w_tx w' i))"
      note f = lease_holder_free [OF ok b this]
      then have "unobstructed (others w' i) (w_db w') (w_tx w' i)" using res by (simp add: unobstructed_def)
      then show False using f free stuck by blast
    qed
    then have lease: "\<not> lk_lease (others w' i) l" for i l by (simp add: others_def)
    have "l \<notin> set (key_locks (w_tx w' i))" for i l
    proof
      assume "l \<in> set (key_locks (w_tx w' i))"
      note f = key_holder_free [OF this]
      then have "unobstructed (others w' i) (w_db w') (w_tx w' i)" using res by (simp add: unobstructed_def)
      then show False using f free stuck by blast
    qed
    then have "\<not> lk_key (others w' i) l" for i l by (simp add: others_def)
    then have "unobstructed (others w' k) (w_db w') (w_tx w' k)" using res lease by (simp add: unobstructed_def)
    then show False using free stuck assms(7) by blast
  qed
qed

subsection \<open>Serial transactions are interleavings\<close>

definition solo :: "world \<Rightarrow> phase \<Rightarrow> db \<Rightarrow> world" where
  "solo w ph d = w\<lparr>w_db := d, w_tx := (w_tx w)(0 := ph)\<rparr>"

definition no_locks :: locks where
  "no_locks = \<lparr>lk_key = \<lambda>_. False, lk_lease = \<lambda>_. False, lk_resource = \<lambda>_. False, lk_new = \<lambda>_. False\<rparr>"

lemma solo_others: "quiet w \<Longrightarrow> others (solo w ph d) 0 = no_locks"
  by (simp add: quiet_def others_def solo_def no_locks_def)

lemma solo_simps [simp]:
  "w_db (solo w ph d) = d" "w_now (solo w ph d) = w_now w" "w_tx (solo w ph d) 0 = ph"
  "solo w ph d\<lparr>w_db := d', w_tx := (w_tx (solo w ph d))(0 := ph')\<rparr> = solo w ph' d'"
  by (simp_all add: solo_def)

lemma solo_Idle: "quiet w \<Longrightarrow> solo w Idle d = w\<lparr>w_db := d\<rparr>"
  by (simp add: quiet_def solo_def fun_upd_idem)

lemma solo_step:
  assumes "quiet w" and "runs sha w (solo w ph d)"
    and "acquire_move sha no_locks (w_now w) d ph ph' d' \<or> renew_move no_locks (w_now w) d ph ph' d' \<or>
      end_move no_locks (w_now w) d ph ph' d'"
  shows "runs sha w (solo w ph' d')"
proof -
  have "moves sha (solo w ph d) 0 ph' d'"
    using assms(3) by (auto simp: moves_def solo_others [OF assms(1)])
  then have "happens sha (solo w ph d) (solo w ph' d')"
    using happens.move [of sha "solo w ph d" 0 ph' d'] by simp
  with assms(2) show ?thesis by (rule runs_step)
qed

lemma solo_start: "quiet w \<Longrightarrow> runs sha w (solo w Idle (w_db w))"
  using runs_refl [of sha w] by (simp add: solo_Idle)

definition valid_request :: "world \<Rightarrow> acquisition \<Rightarrow> bool" where
  "valid_request w a \<longleftrightarrow> cx_now (aq_cx a) = w_now w \<and> principal_exists (w_db w) (aq_principal a) \<and>
     validate_lease_create (aq_request a) = Inr (aq_request a) \<and> aq_lease_id a \<notin> l_id ` set (db_leases (w_db w))"

lemma reaches_keyed:
  assumes "quiet w" and "valid_request w a"
  shows "runs sha w (solo w (AcquireKeyed a) (w_db w))"
proof -
  have "runs sha w (solo w (AcquireBegun a) (w_db w))"
    using acquire_begin assms(2)
    by (intro solo_step [OF assms(1) solo_start [OF assms(1)]] disjI1) (simp add: valid_request_def no_locks_def)
  then show ?thesis
    by (rule solo_step [OF assms(1)]) (simp add: acquire_key no_locks_def)
qed

lemma reaches_ready:
  assumes "quiet w" and "valid_request w a" and "leases_of_key a (w_db w) = []"
    and c: "select_candidate (aq_cx a) (aq_request a) (aq_principal a) (aq_admin a) (w_db w) = Some c"
  shows "runs sha w (solo w (AcquireReady a c (w_now w)) (w_db w))"
proof -
  let ?rows = "sort_key (candidate_key (aq_cx a) (w_db w)) (filter (eligible a (w_db w)) (db_resources (w_db w)))"
  obtain rs where rows: "?rows = c # rs"
    using c by (auto simp: select_candidate_def eligible_def [abs_def] first_row_def split: list.splits)
  have c': "c \<in> set (db_resources (w_db w))" "eligible a (w_db w) c"
    using select_candidateD(1,2) [OF c] by (simp_all add: eligible_def)
  have free: "wants_exclusive a \<longrightarrow> active_leases (cx_now (aq_cx a)) (w_db w) (r_id c) = []"
    using select_candidateD(2) [OF c] by (auto simp: candidate_ok_def wants_exclusive_def active_count_def)
  note step = solo_step [OF assms(1)]
  have "runs sha w (solo w (AcquireFresh a) (w_db w))"
    by (rule step [OF reaches_keyed [OF assms(1,2)]]) (simp add: acquire_fresh assms(3))
  then have "runs sha w (solo w (AcquireScanning a (w_db w) (c # rs)) (w_db w))"
    by (rule step) (use acquire_scan [of sha no_locks "w_now w" "w_db w" a] rows in simp)
  then have "runs sha w (solo w (AcquireLocked a c) (w_db w))"
    by (rule step) (use c' in \<open>simp add: acquire_lock no_locks_def\<close>)
  then show ?thesis
    by (rule step) (use free in \<open>simp add: acquire_clear first_row_def\<close>)
qed

text \<open>
  The serial model of an acquisition is a special case of the interleaved one: an acquisition that
  succeeds when it runs alone is one of the interleavings and commits the same database.
\<close>

lemma serial_acquisition_interleaves:
  assumes "quiet w" and "valid_request w a"
    and "acquire_lease sha (aq_cx a) (w_now w) (aq_lease_id a) (aq_request a) (aq_key a) (aq_principal a)
      (aq_admin a) (w_db w) = Inr (resp, d')"
  shows "runs sha w (w\<lparr>w_db := d'\<rparr>)"
  using assms(3)
proof (cases rule: acquire_lease_cases)
  case (replayed l)
  have "runs sha w (solo w Idle (w_db w))"
    by (rule solo_step [OF assms(1) reaches_keyed [OF assms(1,2)]])
      (use replayed(1) in \<open>simp add: acquire_answer leases_of_key_def\<close>)
  with replayed(4) show ?thesis by (simp add: solo_Idle [OF assms(1)])
next
  case (created c)
  have "runs sha w (solo w (AcquireReady a c (w_now w)) (w_db w))"
    by (rule reaches_ready [OF assms(1,2) _ created(2)]) (use created(1) in \<open>simp add: leases_of_key_def\<close>)
  then have "runs sha w (solo w Idle d')"
    by (rule solo_step [OF assms(1)]) (use acquire_commit [OF created(3)] in blast)
  then show ?thesis by (simp add: solo_Idle [OF assms(1)])
qed

end
