(* ===== verification/Interleaving_Demo.thy ===== *)
theory Interleaving_Demo
  imports Interleaving_Guarantees Demo
begin

text \<open>
  The theorems on interleavings applied to concrete runs on the database of \<open>Demo\<close>, and a run in which
  two expiration workers wait for each other.
\<close>

subsection \<open>Alice acquires the exclusive host\<close>

definition demo_world :: world where
  "demo_world = \<lparr>w_db = demo_db, w_now = 5, w_tx = \<lambda>_. Idle\<rparr>"

definition alice_wants :: acquisition where
  "alice_wants = \<lparr>aq_cx = at 5, aq_lease_id = lease_id, aq_request = want_box, aq_key = ''k'',
     aq_principal = alice_id, aq_admin = False\<rparr>"

definition alice_got :: "exc + (lease_response \<times> db)" where
  "alice_got = acquire_lease id (at 5) 5 lease_id want_box ''k'' alice_id False demo_db"

definition alice_ready :: world where
  "alice_ready = solo demo_world (AcquireReady alice_wants box 5) demo_db"

lemma demo_quiet: "quiet demo_world" "w_db demo_world = demo_db" "w_now demo_world = 5"
  by (simp_all add: quiet_def demo_world_def)

lemma demo_exclusive: "exclusive_ok 5 demo_db"
  by code_simp

lemma alice_valid: "valid_request demo_world alice_wants"
proof -
  have "principal_exists demo_db alice_id" by code_simp
  moreover have "validate_lease_create want_box = Inr want_box" by code_simp
  ultimately show ?thesis
    by (simp add: valid_request_def alice_wants_def at_def demo_world_def demo_db_def empty_db_def)
qed

lemma box_selected: "select_candidate (at 5) want_box alice_id False demo_db = Some box"
  by code_simp

lemma alice_ready_run: "runs id demo_world alice_ready"
proof -
  have "leases_of_key alice_wants demo_db = []" by (simp add: leases_of_key_def demo_db_def empty_db_def)
  then have "runs id demo_world (solo demo_world (AcquireReady alice_wants box (w_now demo_world)) (w_db demo_world))"
    by (intro reaches_ready [OF demo_quiet(1) alice_valid])
      (use box_selected in \<open>simp_all add: demo_quiet alice_wants_def\<close>)
  then show ?thesis by (simp add: alice_ready_def demo_quiet)
qed

definition alice_committed :: "exc + (lease_response \<times> db)" where
  "alice_committed = create_lease (at 5) 5 lease_id want_box ''k'' (request_hash id want_box) alice_id box demo_db"

lemma alice_commits:
  "\<exists>resp d'. alice_committed = Inr (resp, d') \<and> runs id demo_world (demo_world\<lparr>w_db := d'\<rparr>) \<and>
     length (active_leases 5 d' box_id) = 1"
proof -
  have "case alice_committed of Inl _ \<Rightarrow> False | Inr (_, d') \<Rightarrow> length (active_leases 5 d' box_id) = 1"
    by code_simp
  then obtain resp d' where c: "alice_committed = Inr (resp, d')" and n: "length (active_leases 5 d' box_id) = 1"
    by (auto split: sum.splits prod.splits)
  have "acquire_move id no_locks 5 demo_db (AcquireReady alice_wants box 5) Idle d'"
    by (rule acquire_commit) (use c in \<open>simp add: alice_committed_def alice_wants_def\<close>)
  then have "runs id demo_world (solo demo_world Idle d')"
    by (intro solo_step [OF demo_quiet(1) alice_ready_run [unfolded alice_ready_def]] disjI1)
      (simp only: demo_quiet)
  then have "runs id demo_world (demo_world\<lparr>w_db := d'\<rparr>)" by (simp only: solo_Idle [OF demo_quiet(1)])
  with c n show ?thesis by blast
qed

lemma interleaved_never_double_booked_witness:
  "\<exists>d'. runs id demo_world (demo_world\<lparr>w_db := d'\<rparr>) \<and> length (active_leases 5 d' box_id) = 1 \<and>
     (\<forall>r \<in> set (db_resources d'). r_sharing_mode r = Exclusive \<longrightarrow> length (active_leases 5 d' (r_id r)) \<le> 1)"
proof -
  obtain d' where run: "runs id demo_world (demo_world\<lparr>w_db := d'\<rparr>)" "length (active_leases 5 d' box_id) = 1"
    using alice_commits by blast
  have "exclusive_ok (w_now demo_world) (w_db demo_world)" using demo_exclusive by (simp add: demo_quiet)
  with interleaved_never_double_booked [OF run(1) demo_quiet(1)] run demo_ok(1) show ?thesis
    by (auto simp: demo_quiet)
qed

lemma interleaved_acquisition_commits_witness:
  "\<exists>resp d'. alice_committed = Inr (resp, d') \<and> lr_id resp = lease_id \<and> rr_id (lr_resource resp) = box_id"
proof -
  have "exclusive_ok (w_now demo_world) (w_db demo_world)" "db_ok (w_db demo_world)"
    using demo_exclusive demo_ok(1) by (simp_all add: demo_quiet)
  moreover have "w_tx alice_ready 0 = AcquireReady alice_wants box 5" by (simp add: alice_ready_def)
  ultimately show ?thesis
    using interleaved_acquisition_commits [OF alice_ready_run demo_quiet(1), of 0 alice_wants box 5]
    by (simp add: alice_committed_def alice_wants_def alice_ready_def box_def)
qed

lemma one_worker_never_deadlocks_witness: "\<exists>ph d. moves id alice_ready 0 ph d"
proof -
  have "exclusive_ok (w_now demo_world) (w_db demo_world)" "db_ok (w_db demo_world)"
    using demo_exclusive demo_ok(1) by (simp_all add: demo_quiet)
  note claim = one_worker_never_deadlocks [OF alice_ready_run demo_quiet(1) this(2,1)]
  have tx: "w_tx alice_ready i = (if i = 0 then AcquireReady alice_wants box 5 else Idle)" for i
    by (simp add: alice_ready_def solo_def demo_world_def)
  have "\<exists>i ph d. w_tx alice_ready i \<noteq> Idle \<and> moves id alice_ready i ph d"
    by (rule claim [where k = 0]) (simp_all add: tx)
  then obtain i ph d where "w_tx alice_ready i \<noteq> Idle" "moves id alice_ready i ph d" by blast
  then show ?thesis using tx [of i] by (cases "i = 0") auto
qed

lemma serial_acquisition_interleaves_witness:
  "\<exists>resp d'. acquire_lease id (at 5) 5 lease_id want_box ''k'' alice_id False demo_db = Inr (resp, d') \<and>
     runs id demo_world (demo_world\<lparr>w_db := d'\<rparr>)"
proof -
  have "\<not> isl (acquire_lease id (at 5) 5 lease_id want_box ''k'' alice_id False demo_db)" by code_simp
  then obtain resp d' where
    got: "acquire_lease id (at 5) 5 lease_id want_box ''k'' alice_id False demo_db = Inr (resp, d')"
    by (blast dest: ran)
  have "runs id demo_world (demo_world\<lparr>w_db := d'\<rparr>)"
    by (rule serial_acquisition_interleaves [OF demo_quiet(1) alice_valid])
      (use got in \<open>simp add: alice_wants_def demo_quiet\<close>)
  with got show ?thesis by blast
qed

subsection \<open>Two workers\<close>

text \<open>Four overdue leases on two resources, and the two workers that take two of them each.\<close>

definition overdue :: "uuid \<Rightarrow> uuid \<Rightarrow> instant \<Rightarrow> string \<Rightarrow> lease" where
  "overdue i rid e key = demo_lease\<lparr>l_id := i, l_resource_id := rid, l_expires_at := Some e, l_idempotency_key := key\<rparr>"

definition first :: lease where "first = overdue (UUID 51) box_id 1 ''1''"
definition second :: lease where "second = overdue (UUID 52) pool_id 2 ''2''"
definition third :: lease where "third = overdue (UUID 53) pool_id 3 ''3''"
definition fourth :: lease where "fourth = overdue (UUID 54) box_id 4 ''4''"

lemmas backlog_defs = first_def second_def third_def fourth_def overdue_def demo_lease_def demo_ids

definition backlog_db :: db where
  "backlog_db = demo_db\<lparr>db_leases := [first, second, third, fourth]\<rparr>"

definition workers :: "phase \<Rightarrow> phase \<Rightarrow> world" where
  "workers p q = \<lparr>w_db = backlog_db, w_now = 100, w_tx = (\<lambda>_. Idle)(0 := p, 2 := q)\<rparr>"

lemma workers_tx: "w_tx (workers p q) j = (if j = 0 then p else if j = 2 then q else Idle)"
  by (simp add: workers_def)

lemma workers_simps [simp]: "w_db (workers p q) = backlog_db" "w_now (workers p q) = 100"
  by (simp_all add: workers_def)

lemma workers_held:
  "lk_lease (others (workers p q) 0) = (\<lambda>k. k \<in> set (lease_locks q))"
  "lk_lease (others (workers p q) 2) = (\<lambda>k. k \<in> set (lease_locks p))"
  "lk_resource (others (workers p q) 0) = (\<lambda>k. k \<in> set (resource_locks q))"
  "lk_resource (others (workers p q) 2) = (\<lambda>k. k \<in> set (resource_locks p))"
  by (auto simp: others_def workers_tx fun_eq_iff intro: exI [of _ 0] exI [of _ 2] split: if_splits)

lemma first_worker:
  assumes "runs sha w (workers p q)"
    and "expire_move (others (workers p q) 0) 100 backlog_db p p' backlog_db"
  shows "runs sha w (workers p' q)"
proof -
  have "moves sha (workers p q) 0 p' backlog_db"
    using assms(2) by (simp add: moves_def workers_def)
  from happens.move [OF this] have "happens sha (workers p q) (workers p' q)"
    by (simp add: workers_def fun_upd_twist)
  with assms(1) show ?thesis by (rule runs_step)
qed

lemma second_worker:
  assumes "runs sha w (workers p q)"
    and "expire_move (others (workers p q) 2) 100 backlog_db q q' backlog_db"
  shows "runs sha w (workers p q')"
proof -
  have "moves sha (workers p q) 2 q' backlog_db"
    using assms(2) by (simp add: moves_def workers_def)
  from happens.move [OF this] have "happens sha (workers p q) (workers p q')"
    by (simp add: workers_def)
  with assms(1) show ?thesis by (rule runs_step)
qed

lemma backlog_rows:
  "sort_key (\<lambda>l. (l_expires_at l, l_id l)) (filter (due_lease 100) (db_leases backlog_db)) =
     [first, second, third, fourth]"
  by code_simp

lemma backlog_simps [simp]:
  "l_id first = UUID 51" "l_id second = UUID 52" "l_id third = UUID 53" "l_id fourth = UUID 54"
  "l_resource_id first = box_id" "l_resource_id second = pool_id"
  "l_resource_id third = pool_id" "l_resource_id fourth = box_id"
  "due_lease 100 first" "due_lease 100 second" "due_lease 100 third" "due_lease 100 fourth"
  "db_leases backlog_db = [first, second, third, fourth]" "box_id \<noteq> pool_id" "pool_id \<noteq> box_id"
  by (simp_all add: backlog_defs due_lease_def backlog_db_def)

definition late :: ctx where "late = at 100"

lemma late_now [simp]: "cx_now late = 100"
  by (simp add: late_def at_def)

definition batch :: "uuid list \<Rightarrow> uuid list \<Rightarrow> uuid list \<Rightarrow> phase" where
  "batch ids todo rs = ExpireLocking late ids todo rs"

text \<open>The first worker takes two leases, the second skips them and takes the next two.\<close>

lemma worker_begins:
  "expire_move K 100 backlog_db Idle (ExpireScanning late (Suc 1) [first, second, third, fourth] []) backlog_db"
  using expire_begin [of late 100 K backlog_db 2] backlog_rows by (simp add: numeral_2_eq_2)

lemma worker_takes:
  assumes "\<not> lk_lease K (l_id l)" and "l \<in> {first, second, third, fourth}"
  shows "expire_move K 100 backlog_db (ExpireScanning late (Suc n) (l # ls) ids)
    (ExpireScanning late n ls (ids @ [l_id l])) backlog_db"
  by (rule expire_take [OF assms(1) _ refl]) (use assms(2) in auto)

lemma first_scans:
  "runs sha (workers Idle Idle) (workers (batch [UUID 51, UUID 52] [UUID 51, UUID 52] []) Idle)"
proof -
  let ?w = "workers Idle Idle"
  have "runs sha ?w (workers (ExpireScanning late (Suc 1) [first, second, third, fourth] []) Idle)"
    by (rule first_worker [OF runs_refl worker_begins])
  then have "runs sha ?w (workers (ExpireScanning late 1 [second, third, fourth] ([] @ [l_id first])) Idle)"
    by (rule first_worker) (rule worker_takes, simp_all only: workers_held, simp_all)
  then have "runs sha ?w (workers (ExpireScanning late 0 [third, fourth] (([] @ [l_id first]) @ [l_id second])) Idle)"
    unfolding One_nat_def by (rule first_worker) (rule worker_takes, simp_all only: workers_held, simp_all)
  then show ?thesis
    unfolding batch_def by (rule first_worker) (simp add: expire_scanned)
qed

lemma second_scans:
  assumes "runs sha w (workers (batch [UUID 51, UUID 52] todo rs) Idle)"
  shows "runs sha w (workers (batch [UUID 51, UUID 52] todo rs) (batch [UUID 53, UUID 54] [UUID 53, UUID 54] []))"
proof -
  let ?p = "batch [UUID 51, UUID 52] todo rs"
  have p: "lease_locks ?p = [UUID 51, UUID 52]" by (simp add: batch_def)
  have "runs sha w (workers ?p (ExpireScanning late (Suc 1) [first, second, third, fourth] []))"
    by (rule second_worker [OF assms worker_begins])
  then have "runs sha w (workers ?p (ExpireScanning late (Suc 1) [second, third, fourth] []))"
    by (rule second_worker) (rule expire_skip, simp only: workers_held p, simp)
  then have "runs sha w (workers ?p (ExpireScanning late (Suc 1) [third, fourth] []))"
    by (rule second_worker) (rule expire_skip, simp only: workers_held p, simp)
  then have "runs sha w (workers ?p (ExpireScanning late 1 [fourth] ([] @ [l_id third])))"
    by (rule second_worker) (rule worker_takes, simp_all only: workers_held p, simp_all)
  then have "runs sha w (workers ?p (ExpireScanning late 0 [] (([] @ [l_id third]) @ [l_id fourth])))"
    unfolding One_nat_def by (rule second_worker) (rule worker_takes, simp_all only: workers_held p, simp_all)
  then show ?thesis
    unfolding batch_def by (rule second_worker) (simp add: expire_scanned)
qed

text \<open>Each locks the resource of its first lease; then each wants the resource the other has locked.\<close>

definition deadlocked :: world where
  "deadlocked = workers (batch [UUID 51, UUID 52] [UUID 52] [box_id]) (batch [UUID 53, UUID 54] [UUID 54] [pool_id])"

lemma worker_locks:
  assumes "l \<in> {first, second, third, fourth}" and "\<not> lk_resource K (l_resource_id l)"
  shows "expire_move K 100 backlog_db (ExpireLocking late ids (l_id l # todo) rs)
    (ExpireLocking late ids todo (l_resource_id l # rs)) backlog_db"
  by (rule expire_lock_resource [OF _ refl assms(2)]) (use assms(1) in auto)

lemma workers_deadlock_run: "runs sha (workers Idle Idle) deadlocked"
proof -
  let ?w = "workers Idle Idle"
  have "runs sha ?w (workers (batch [UUID 51, UUID 52] [UUID 52] [box_id]) Idle)"
    unfolding batch_def
    by (rule first_worker [OF first_scans [unfolded batch_def]])
      (rule worker_locks [of first, unfolded backlog_simps], simp_all add: workers_held)
  note both = second_scans [OF this]
  show ?thesis
    unfolding deadlocked_def batch_def
    by (rule second_worker [OF both [unfolded batch_def]])
      (rule worker_locks [of third, unfolded backlog_simps], simp_all add: workers_held)
qed

inductive_cases locking_moves: "expire_move K now d (ExpireLocking cx ids (i # todo) rs) ph' d'"

text \<open>
  Two expiration workers can deadlock: each batch locks its leases first and their resources in the
  order of the expiry of its leases, so there is an interleaving in which two workers wait for each
  other and nothing but the rollback of one of them can happen any more.
\<close>

theorem two_workers_deadlock:
  "\<exists>w w' i j. quiet w \<and> db_ok (w_db w) \<and> exclusive_ok (w_now w) (w_db w) \<and> runs sha w w' \<and> i \<noteq> j \<and>
     worker (w_tx w' i) \<and> worker (w_tx w' j) \<and> (\<nexists>k ph d. w_tx w' k \<noteq> Idle \<and> moves sha w' k ph d)"
proof -
  have quiet: "quiet (workers Idle Idle)" by (simp add: quiet_def workers_tx)
  have ok: "db_ok backlog_db" "exclusive_ok 100 backlog_db" by code_simp+
  have tx: "w_tx deadlocked i = (if i = 0 then batch [UUID 51, UUID 52] [UUID 52] [box_id]
      else if i = 2 then batch [UUID 53, UUID 54] [UUID 54] [pool_id] else Idle)" for i
    by (simp add: deadlocked_def workers_tx)
  have stuck: "\<not> moves sha deadlocked i ph d" if "i = 0 \<or> i = 2" for i ph d
  proof
    assume "moves sha deadlocked i ph d"
    then have "expire_move (others deadlocked i) 100 backlog_db (w_tx deadlocked i) ph d"
      using that by (auto simp: moves_def deadlocked_def workers_tx batch_def
          elim: acquire_move.cases renew_move.cases end_move.cases other_move.cases)
    then show False
      using that by (auto simp: deadlocked_def workers_tx batch_def workers_held elim!: locking_moves)
  qed
  have "worker (w_tx deadlocked 0)" "worker (w_tx deadlocked 2)" by (simp_all add: tx batch_def)
  moreover have "\<nexists>k ph d. w_tx deadlocked k \<noteq> Idle \<and> moves sha deadlocked k ph d"
  proof (intro notI, elim exE conjE)
    fix k ph d assume k: "w_tx deadlocked k \<noteq> Idle" "moves sha deadlocked k ph d"
    then have "k = 0 \<or> k = 2" by (auto simp: tx split: if_splits)
    then show False using stuck [of k ph d] k(2) by blast
  qed
  ultimately show ?thesis
    using quiet ok workers_deadlock_run [of sha]
    by (intro exI [of _ "workers Idle Idle"] exI [of _ deadlocked] exI [of _ 0] exI [of _ 2]) simp
qed

end
