(* ===== verification/Interleaving_Race.thy ===== *)
theory Interleaving_Race
  imports Interleaving_Guarantees Demo
begin

text \<open>
  An acquisition that loses a race for one host and is refused although another host is free: the
  snapshot of its candidate query is older than the lease of its rival.
\<close>

definition spare :: resource where
  "spare = box\<lparr>r_id := UUID 12, r_name := ''spare''\<rparr>"

definition race_db :: db where
  "race_db = demo_db\<lparr>db_resources := [box, spare, pool]\<rparr>"

definition loser :: acquisition where
  "loser = \<lparr>aq_cx = at 5, aq_lease_id = lease_id, aq_request = want_box, aq_key = ''k'',
     aq_principal = alice_id, aq_admin = False\<rparr>"

definition winner :: acquisition where
  "winner = loser\<lparr>aq_lease_id := UUID 51, aq_key := ''k2''\<rparr>"

text \<open>The database after the winner has leased the first host.\<close>

definition won :: "exc + (lease_response \<times> db)" where
  "won = create_lease (at 5) 5 (UUID 51) want_box ''k2'' (request_hash id want_box) alice_id box race_db"

definition won_db :: db where
  "won_db = (case won of Inr (_, d) \<Rightarrow> d | Inl _ \<Rightarrow> race_db)"

definition won_box :: resource where
  "won_box = box\<lparr>r_last_leased_at := Some 5, r_updated_at := 5\<rparr>"

definition race :: "db \<Rightarrow> phase \<Rightarrow> phase \<Rightarrow> world" where
  "race d p q = \<lparr>w_db = d, w_now = 5, w_tx = (\<lambda>_. Idle)(0 := p, 2 := q)\<rparr>"

lemma race_tx: "w_tx (race d p q) j = (if j = 0 then p else if j = 2 then q else Idle)"
  by (simp add: race_def)

lemma race_simps [simp]: "w_db (race d p q) = d" "w_now (race d p q) = 5"
  by (simp_all add: race_def)

lemma race_held:
  "lk_key (others (race d p q) 0) = (\<lambda>k. k \<in> set (key_locks q))"
  "lk_key (others (race d p q) 2) = (\<lambda>k. k \<in> set (key_locks p))"
  "lk_resource (others (race d p q) 0) = (\<lambda>k. k \<in> set (resource_locks q))"
  "lk_resource (others (race d p q) 2) = (\<lambda>k. k \<in> set (resource_locks p))"
  "lk_new (others (race d p q) 0) = (\<lambda>k. k \<in> set (new_lease_ids q))"
  "lk_new (others (race d p q) 2) = (\<lambda>k. k \<in> set (new_lease_ids p))"
  by (auto simp: others_def race_tx fun_eq_iff intro: exI [of _ 0] exI [of _ 2] split: if_splits)

lemma loser_step:
  assumes "runs sha w (race d p q)" and "acquire_move sha (others (race d p q) 0) 5 d p p' d'"
  shows "runs sha w (race d' p' q)"
proof -
  have "moves sha (race d p q) 0 p' d'" using assms(2) by (simp add: moves_def race_def)
  from happens.move [OF this] have "happens sha (race d p q) (race d' p' q)"
    by (simp add: race_def fun_upd_twist)
  with assms(1) show ?thesis by (rule runs_step)
qed

lemma winner_step:
  assumes "runs sha w (race d p q)" and "acquire_move sha (others (race d p q) 2) 5 d q q' d'"
  shows "runs sha w (race d' p q')"
proof -
  have "moves sha (race d p q) 2 q' d'" using assms(2) by (simp add: moves_def race_def)
  from happens.move [OF this] have "happens sha (race d p q) (race d' p q')"
    by (simp add: race_def)
  with assms(1) show ?thesis by (rule runs_step)
qed

lemma race_ok: "db_ok race_db" "exclusive_ok 5 race_db"
  by code_simp+

lemma race_begin:
  assumes "a = loser \<or> a = winner" and "\<not> lk_new K (aq_lease_id a)"
  shows "acquire_move sha K 5 race_db Idle (AcquireBegun a) race_db"
proof -
  have "principal_exists race_db alice_id" "validate_lease_create want_box = Inr want_box" by code_simp+
  then show ?thesis
    using assms by (intro acquire_begin)
      (auto simp: loser_def winner_def at_def race_db_def demo_db_def empty_db_def)
qed

text \<open>Both want the same hosts, in the same order.\<close>

definition hosts :: "acquisition \<Rightarrow> resource list" where
  "hosts a = sort_key (candidate_key (aq_cx a) race_db) (filter (eligible a race_db) (db_resources race_db))"

lemma race_hosts: "hosts loser = [box, spare]" "hosts winner = [box, spare]"
  by code_simp+

lemma race_scan:
  assumes "a = loser \<or> a = winner"
  shows "acquire_move sha K 5 race_db (AcquireKeyed a) (AcquireFresh a) race_db"
    and "acquire_move sha K 5 race_db (AcquireFresh a) (AcquireScanning a race_db [box, spare]) race_db"
proof -
  have "leases_of_key a race_db = []" by (simp add: leases_of_key_def race_db_def demo_db_def empty_db_def)
  then show "acquire_move sha K 5 race_db (AcquireKeyed a) (AcquireFresh a) race_db" by (rule acquire_fresh)
  show "acquire_move sha K 5 race_db (AcquireFresh a) (AcquireScanning a race_db [box, spare]) race_db"
    using acquire_scan [of sha K 5 race_db a] race_hosts assms by (auto simp: hosts_def)
qed

lemma race_facts:
  "eligible winner race_db box" "eligible loser race_db won_box" "eligible loser won_db spare"
  "first_row (active_leases 5 race_db box_id) = None" "first_row (active_leases 5 won_db box_id) \<noteq> None"
  "box \<in> set (db_resources race_db)" "won_box \<in> set (db_resources won_db)" "spare \<in> set (db_resources won_db)"
  "\<not> isl won" "wants_exclusive loser" "r_id won_box = box_id" "r_id box = box_id" "r_id spare \<noteq> box_id"
  "(alice_id, ''k'') \<noteq> (alice_id, ''k2'')" "lease_id \<noteq> UUID 51" "UUID 51 \<noteq> lease_id"
  "active_leases 5 won_db box_id \<noteq> []"
  by code_simp+

lemma won_run: "\<exists>resp. won = Inr (resp, won_db)"
proof (cases won)
  case (Inl e)
  with race_facts(9) show ?thesis by (metis sum.disc(1))
next
  case (Inr x)
  then show ?thesis by (metis won_db_def sum.case(2) prod.case surj_pair)
qed

text \<open>The loser takes its snapshot; the winner leases the first host; the loser locks that host.\<close>

lemma loser_scans: "runs id (race race_db Idle Idle) (race race_db (AcquireScanning loser race_db [box, spare]) Idle)"
proof -
  let ?w = "race race_db Idle Idle"
  have "runs id ?w (race race_db (AcquireBegun loser) Idle)"
    by (rule loser_step [OF runs_refl race_begin]) (simp_all add: race_held)
  then have "runs id ?w (race race_db (AcquireKeyed loser) Idle)"
    by (rule loser_step) (rule acquire_key, simp add: race_held)
  then have "runs id ?w (race race_db (AcquireFresh loser) Idle)"
    by (rule loser_step) (rule race_scan(1), simp)
  then show ?thesis by (rule loser_step) (rule race_scan(2), simp)
qed

lemma race_keys: "aq_key loser = ''k''" "aq_key winner = ''k2''" "aq_principal loser = alice_id" "aq_principal winner = alice_id"
  "aq_lease_id loser = lease_id" "aq_lease_id winner = UUID 51" "aq_request winner = want_box" "aq_cx winner = at 5"
  "cx_now (aq_cx loser) = 5" "cx_now (aq_cx winner) = 5"
  by (simp_all add: loser_def winner_def at_def)

lemma winner_wins:
  assumes "runs id w (race race_db (AcquireScanning loser race_db [box, spare]) Idle)"
  shows "runs id w (race won_db (AcquireScanning loser race_db [box, spare]) Idle)"
proof -
  let ?p = "AcquireScanning loser race_db [box, spare]"
  have "runs id w (race race_db ?p (AcquireBegun winner))"
    by (rule winner_step [OF assms race_begin]) (simp_all add: race_held race_keys race_facts)
  then have "runs id w (race race_db ?p (AcquireKeyed winner))"
    by (rule winner_step) (rule acquire_key, simp add: race_held race_keys)
  then have "runs id w (race race_db ?p (AcquireFresh winner))"
    by (rule winner_step) (rule race_scan(1), simp)
  then have "runs id w (race race_db ?p (AcquireScanning winner race_db [box, spare]))"
    by (rule winner_step) (rule race_scan(2), simp)
  then have "runs id w (race race_db ?p (AcquireLocked winner box))"
    by (rule winner_step) (rule acquire_lock, simp_all add: race_held race_facts)
  then have "runs id w (race race_db ?p (AcquireReady winner box 5))"
    by (rule winner_step) (rule acquire_clear, use race_facts(4) in \<open>simp add: race_keys at_def race_facts(12)\<close>)
  moreover obtain resp where "won = Inr (resp, won_db)" using won_run by blast
  then have "create_lease (aq_cx winner) 5 (aq_lease_id winner) (aq_request winner) (aq_key winner)
      (request_hash id (aq_request winner)) (aq_principal winner) box race_db = Inr (resp, won_db)"
    by (simp only: race_keys won_def)
  then have "acquire_move id (others (race race_db ?p (AcquireReady winner box 5)) 2) 5 race_db
      (AcquireReady winner box 5) Idle won_db"
    by (rule acquire_commit)
  ultimately show ?thesis by (rule winner_step)
qed

lemma loser_locks:
  assumes "runs id w (race won_db (AcquireScanning loser race_db [box, spare]) Idle)"
  shows "runs id w (race won_db (AcquireLocked loser won_box) Idle)"
  by (rule loser_step [OF assms acquire_lock]) (simp_all add: race_held race_facts)

inductive_cases locked_acquisition: "acquire_move sha K now d (AcquireLocked a r) ph d'"

text \<open>
  An exclusive acquisition can be refused with \<open>No matching resource is available\<close> while a matching
  resource is free and locked by nobody: the row it locks still passes the candidate query, whose
  subquery counts the leases of the old snapshot, so only the recheck notices that it is taken, and the
  recheck gives up instead of trying the next candidate.
\<close>

theorem acquisition_refused_beside_free_resource:
  "\<exists>w w' i a r c. quiet w \<and> db_ok (w_db w) \<and> exclusive_ok (w_now w) (w_db w) \<and> runs id w w' \<and>
     w_tx w' i = AcquireLocked a r \<and> wants_exclusive a \<and>
     c \<in> set (db_resources (w_db w')) \<and> eligible a (w_db w') c \<and> \<not> lk_resource (others w' i) (r_id c) \<and>
     (\<nexists>ph d. moves id w' i ph d \<and> (ph, d) \<noteq> (Idle, w_db w'))"
proof -
  let ?w = "race race_db Idle Idle" and ?w' = "race won_db (AcquireLocked loser won_box) Idle"
  have "quiet ?w" by (simp add: quiet_def race_tx)
  moreover have "runs id ?w ?w'" by (rule loser_locks [OF winner_wins [OF loser_scans]])
  moreover have "w_tx ?w' 0 = AcquireLocked loser won_box" by (simp add: race_tx)
  moreover have "\<not> lk_resource (others ?w' 0) (r_id spare)" by (simp add: race_held)
  moreover have "(ph, d) = (Idle, w_db ?w')" if "moves id ?w' 0 ph d" for ph d
  proof -
    have "acquire_move id (others ?w' 0) 5 won_db (AcquireLocked loser won_box) ph d"
      using that by (auto simp: moves_def race_tx elim: renew_move.cases end_move.cases expire_move.cases other_move.cases)
    then show ?thesis
      by (rule locked_acquisition) (simp_all add: race_facts race_keys)
  qed
  ultimately show ?thesis
    using race_ok race_facts
    by (intro exI [of _ ?w] exI [of _ ?w'] exI [of _ 0] exI [of _ loser] exI [of _ won_box] exI [of _ spare]) auto
qed

end
