(* ===== verification/Findings.thy ===== *)
theory Findings
  imports Demo
begin

text \<open>
  Behaviours at the edge of the guarantees, each shown on a concrete run: what happens when the
  application's clock is behind the database's, when a shared resource in use is made exclusive,
  and when a stored envelope is not an object.
\<close>

text \<open>
  Renewal judges a lease by the application's clock, acquisition by the database's: with the
  application two seconds behind, a lease that has already made room for another is renewed, and
  the exclusive resource has two active leases.
\<close>

definition booked_twice :: "(db \<times> db) option" where
  "booked_twice =
     (case acquire_lease id (at 61000000) 61000000 token_id want_box ''k2'' root_id True leased_db of
        Inl _ \<Rightarrow> None
      | Inr (_, d1) \<Rightarrow>
          (case renew_lease (at 61500000) 59500000 59500000 lease_id None alice_id d1 of
             Inl _ \<Rightarrow> None
           | Inr (_, d2) \<Rightarrow> Some (d1, d2)))"

lemma renewal_with_lagging_clock:
  "\<exists>d1 d2. booked_twice = Some (d1, d2) \<and> exclusive_ok 61500000 d1 \<and> \<not> exclusive_ok 61500000 d2"
proof -
  have "case booked_twice of None \<Rightarrow> False
      | Some (d1, d2) \<Rightarrow> exclusive_ok 61500000 d1 \<and> \<not> exclusive_ok 61500000 d2" by code_simp
  then show ?thesis by (auto split: option.splits)
qed

text \<open>
  A shared resource with two active leases can be made exclusive: the update checks the version
  and the expiration policy, not the leases.
\<close>

definition want_pool :: lease_create where
  "want_pool = \<lparr>lc_resource_type = ''pool'', lc_sharing_mode = Shared, lc_labels = [], lc_ttl = None,
     lc_consumer = None, lc_metadata = []\<rparr>"

definition make_exclusive :: resource_update where
  "make_exclusive = \<lparr>ru_version = 1, ru_name = None, ru_type = None, ru_sharing_mode = Some Exclusive,
     ru_visibility_mode = None, ru_expiration_mode = None, ru_default_ttl = None, ru_max_ttl = None,
     ru_labels = None\<rparr>"

definition shared_then_exclusive :: "db option" where
  "shared_then_exclusive =
     (case acquire_lease id (at 1) 1 token_id want_pool ''a'' alice_id False demo_db of
        Inl _ \<Rightarrow> None
      | Inr (_, d1) \<Rightarrow>
          (case acquire_lease id (at 2) 2 lease_id want_pool ''b'' alice_id False d1 of
             Inl _ \<Rightarrow> None
           | Inr (_, d2) \<Rightarrow>
               (case update_resource (at 3) pool_id make_exclusive root_id d2 of
                  Inl _ \<Rightarrow> None
                | Inr (_, d3) \<Rightarrow> Some d3)))"

lemma leased_resource_made_exclusive: "\<exists>d. shared_then_exclusive = Some d \<and> \<not> exclusive_ok 3 d"
proof -
  have "case shared_then_exclusive of None \<Rightarrow> False | Some d \<Rightarrow> \<not> exclusive_ok 3 d" by code_simp
  then show ?thesis by (auto split: option.splits)
qed

text \<open>
  A token whose expiry lies between the two clocks passes the route's check and breaks the
  table's: the constraint violation is not translated into a client error.
\<close>

lemma token_expiry_between_clocks:
  "fst (create_my_token id (as_alice 9) 7 key_id ''r'' \<lparr>tc_name = ''t'', tc_expires_at = Some 8\<rparr> demo_db) =
     Inl IntegrityError"
  by code_simp

text \<open>
  An envelope that is JSON but not an object makes decryption raise an exception that is not
  among those translated into the safe decryption problem.
\<close>

lemma envelope_not_an_object:
  "decrypt toy_aead id toy_cipher ''[]'' ''2026'' box_id key_id = Inl AttributeError"
  by code_simp

end
