(* ===== verification/Outcomes.thy ===== *)
theory Outcomes
  imports System_Laws Rate_Limits_Laws
begin

text \<open>
  Which exceptions a transaction can raise. \<open>only E r\<close> says that \<open>r\<close> raises nothing outside
  \<open>E\<close>; one rule per construct carries it through a transaction, and the constraints of the
  schema rule out the internal errors: rows found by a key are unique, and what the code writes is valid.
\<close>

subsection \<open>The calculus\<close>

definition only :: "exc set \<Rightarrow> exc + 'a \<Rightarrow> bool" where
  "only E r \<longleftrightarrow> (\<forall>e. r = Inl e \<longrightarrow> e \<in> E)"

text \<open>HTTP errors with a status in \<open>S\<close>.\<close>

definition answers :: "int set \<Rightarrow> exc set" where
  "answers S = {e. \<exists>c m h. e = HTTPException c m h \<and> c \<in> S}"

lemma answers_http [simp]: "HTTPException c m h \<in> answers S \<longleftrightarrow> c \<in> S"
  by (auto simp: answers_def)

lemma answers_not [simp]:
  "IntegrityError \<notin> answers S" "DataError \<notin> answers S" "AuthenticationError \<notin> answers S"
  "RateLimitExceeded n \<notin> answers S" "SecretEncryptionUnavailable m \<notin> answers S"
  "SecretDecryptionError m \<notin> answers S" "AttributeError \<notin> answers S"
  by (auto simp: answers_def)

lemma only_Inr [simp]: "only E (Inr x)"
  by (simp add: only_def)

lemma only_Inl [simp]: "only E (Inl e) \<longleftrightarrow> e \<in> E"
  by (simp add: only_def)

lemma only_bind [simp]: "only E (bindE r f) \<longleftrightarrow> only E r \<and> (\<forall>x. r = Inr x \<longrightarrow> only E (f x))"
  by (cases r) (simp_all add: only_def)

lemma only_bindI: "only E r \<Longrightarrow> (\<And>x. r = Inr x \<Longrightarrow> only E (f x)) \<Longrightarrow> only E (bindE r f)"
  by simp

lemma only_found_or [simp]: "only E (found_or e x) \<longleftrightarrow> (x = None \<longrightarrow> e \<in> E)"
  by (auto simp: only_def)

lemma only_mono: "only E r \<Longrightarrow> E \<subseteq> E' \<Longrightarrow> only E' r"
  by (auto simp: only_def)

lemma answers_mono: "S \<subseteq> S' \<Longrightarrow> answers S \<subseteq> answers S'"
  by (auto simp: answers_def)

lemma only_answers_mono: "only (answers S) r \<Longrightarrow> S \<subseteq> S' \<Longrightarrow> only (answers S') r"
  by (erule only_mono) (rule answers_mono)

lemma only_more: "only (answers S) r \<Longrightarrow> S \<subseteq> S' \<Longrightarrow> only (insert IntegrityError (answers S')) r"
  by (erule only_mono) (auto simp: answers_def)

lemma only_wide: "only (answers S) r \<Longrightarrow> S \<subseteq> S' \<Longrightarrow> only (insert IntegrityError (answers S' \<union> X)) r"
  by (erule only_mono) (auto simp: answers_def)

lemma only_ran: "\<exists>x. r = Inr x \<Longrightarrow> only E r"
  by auto

lemma only_unique [intro]:
  assumes "unique_on key rows" and "\<And>x. p x \<Longrightarrow> key x = k"
  shows "only E (one_or_none (filter p rows))"
  by (rule only_ran) (rule unique_on_one_or_none [of key rows p k, OF assms])

text \<open>A database in order with a known actor: what a transaction starts from and keeps.\<close>

definition ready :: "uuid \<Rightarrow> db \<Rightarrow> bool" where
  "ready i d \<longleftrightarrow> db_ok d \<and> principal_exists d i"

lemma ready_step: "ready i d \<Longrightarrow> db_ok d' \<and> extends d d' \<Longrightarrow> ready i d'"
  by (simp add: ready_def extends_def)

lemma calm_ready: "calm d d' \<Longrightarrow> ready i d \<Longrightarrow> ready i d'"
  by (auto simp: calm_def safe_def ready_def extends_def)

lemma only_record [intro]:
  "ready i d \<Longrightarrow> fst ` set m \<subseteq> set SAFE_METADATA_FIELDS \<Longrightarrow>
     only E (record_audit_event cx (Some i) act st sid m d)"
  using record_audit_event_exists [of d "Some i" m cx act st sid] by (auto simp: ready_def)

text \<open>Statements that touch no key raise nothing.\<close>

lemma ready_unique:
  assumes "ready i d"
  shows "unique_on p_id (db_principals d)" "unique_on pc_principal_id (db_credentials d)"
    "unique_on t_id (db_tokens d)" "unique_on g_id (db_groups d)" "unique_on r_id (db_resources d)"
    "unique_on s_id (db_secrets d)" "unique_on l_id (db_leases d)"
    "unique_on (\<lambda>l. (l_acquired_by l, l_idempotency_key l)) (db_leases d)"
  using assms by (auto simp: ready_def db_ok_def valid_defs)

lemma update_principals_runs:
  assumes "ready i d" and "\<And>x. p_id (f x) = p_id x" and "\<And>x. p_name (f x) = p_name x"
  shows "\<exists>d'. update_principals cx p f d = Inr d' \<and> ready i d'"
proof -
  let ?rows = "update_where p (\<lambda>r. (f r)\<lparr>p_updated_at := cx_now cx\<rparr>) (db_principals d)"
  have "principals_valid d ?rows"
    using assms by (simp add: ready_def db_ok_def principals_valid_def unique_on_update_where)
  then have w: "update_principals cx p f d = Inr (d\<lparr>db_principals := ?rows\<rparr>)"
    by (simp add: update_principals_def write_principals_def)
  moreover have "p_id ` set ?rows = p_id ` set (db_principals d)"
    by (rule image_update_where) (simp add: assms(2))
  ultimately show ?thesis
    using write_keeps_ok(1) [of d ?rows "d\<lparr>db_principals := ?rows\<rparr>"] assms(1)
    by (auto simp: update_principals_def ready_def extends_def)
qed

lemma update_groups_runs:
  assumes "ready i d" and "\<And>x. g_id (f x) = g_id x" and "\<And>x. g_name (f x) = g_name x"
  shows "\<exists>d'. update_groups cx p f d = Inr d' \<and> ready i d'"
proof -
  let ?rows = "update_where p (\<lambda>r. (f r)\<lparr>g_updated_at := cx_now cx\<rparr>) (db_groups d)"
  have "groups_valid d ?rows"
    using assms by (simp add: ready_def db_ok_def groups_valid_def unique_on_update_where)
  then have w: "update_groups cx p f d = Inr (d\<lparr>db_groups := ?rows\<rparr>)"
    by (simp add: update_groups_def write_groups_def)
  moreover have "g_id ` set ?rows = g_id ` set (db_groups d)"
    by (rule image_update_where) (simp add: assms(2))
  ultimately show ?thesis
    using write_keeps_ok(5) [of d ?rows "d\<lparr>db_groups := ?rows\<rparr>"] assms(1)
    by (auto simp: update_groups_def ready_def extends_def)
qed

lemma update_tokens_runs:
  assumes "ready i d"
    and "\<And>x. t_id (f x) = t_id x \<and> t_token_hash (f x) = t_token_hash x \<and>
      t_principal_id (f x) = t_principal_id x \<and> t_created_at (f x) = t_created_at x \<and>
      t_expires_at (f x) = t_expires_at x"
  shows "\<exists>d'. update_tokens p f d = Inr d' \<and> ready i d'"
proof -
  let ?rows = "update_where p f (db_tokens d)"
  have "list_all (\<lambda>t. api_token_check t \<and> principal_exists d (t_principal_id t)) ?rows"
    using assms by (intro list_all_update_where) (auto simp: ready_def db_ok_def tokens_valid_def api_token_check_def split: option.splits)
  then have "tokens_valid d ?rows"
    using assms by (simp add: ready_def db_ok_def tokens_valid_def unique_on_update_where)
  then have w: "update_tokens p f d = Inr (d\<lparr>db_tokens := ?rows\<rparr>)"
    by (simp add: update_tokens_def write_tokens_def)
  with assms(1) show ?thesis
    using write_keeps_ok(3) [of d ?rows "d\<lparr>db_tokens := ?rows\<rparr>"]
    by (auto simp: update_tokens_def ready_def extends_def)
qed

lemma update_credentials_runs:
  assumes "ready i d" and "\<And>x. pc_principal_id (f x) = pc_principal_id x"
  shows "\<exists>d'. update_credentials p f d = Inr d' \<and> ready i d'"
proof -
  let ?rows = "update_where p f (db_credentials d)"
  have "list_all (\<lambda>c. principal_exists d (pc_principal_id c)) ?rows"
    using assms by (intro list_all_update_where) (auto simp: ready_def db_ok_def credentials_valid_def)
  then have "credentials_valid d ?rows"
    using assms by (simp add: ready_def db_ok_def credentials_valid_def unique_on_update_where)
  then have w: "update_credentials p f d = Inr (d\<lparr>db_credentials := ?rows\<rparr>)"
    by (simp add: update_credentials_def write_credentials_def)
  with assms(1) show ?thesis
    using write_keeps_ok(2) [of d ?rows "d\<lparr>db_credentials := ?rows\<rparr>"]
    by (auto simp: update_credentials_def ready_def extends_def)
qed

lemma update_resources_runs:
  assumes "ready i d" and "\<And>r. r_id (f r) = r_id r" and "\<And>r. r_name (f r) = r_name r"
    and "\<And>r. resource_check r \<Longrightarrow> resource_check ((f r)\<lparr>r_updated_at := cx_now cx\<rparr>)"
  shows "\<exists>d'. update_resources cx p f d = Inr d' \<and> ready i d'"
proof -
  have "db_ok d" using assms(1) by (simp add: ready_def)
  then obtain d' where d': "update_resources cx p f d = Inr d'"
    using update_resources_succeeds assms(2-4) by blast
  with update_resources_ok [OF d' \<open>db_ok d\<close> assms(2)] assms(1) show ?thesis
    by (blast intro: ready_step)
qed

lemma update_leases_runs:
  assumes "ready i d"
    and "\<And>l. l \<in> set (db_leases d) \<Longrightarrow> p l \<Longrightarrow> lease_check l \<Longrightarrow> lease_check (f l)"
    and "\<And>l. l_id (f l) = l_id l \<and> l_acquired_by (f l) = l_acquired_by l \<and>
      l_idempotency_key (f l) = l_idempotency_key l \<and> l_resource_id (f l) = l_resource_id l"
  shows "\<exists>d'. update_leases p f d = Inr d' \<and> ready i d'"
proof -
  let ?rows = "update_where p f (db_leases d)"
  have "list_all (\<lambda>l. lease_check l \<and> resource_exists d (l_resource_id l) \<and> principal_exists d (l_acquired_by l)) ?rows"
    using assms by (intro list_all_update_where) (auto simp: ready_def db_ok_def leases_valid_def)
  then have "leases_valid d ?rows"
    using assms by (simp add: ready_def db_ok_def leases_valid_def unique_on_update_where)
  then have w: "update_leases p f d = Inr (d\<lparr>db_leases := ?rows\<rparr>)"
    by (simp add: update_leases_def write_leases_def)
  then show ?thesis using update_leases_ok [OF w] assms(1)
    by (auto simp: ready_def extends_def)
qed

text \<open>Inserting may collide with a key; the other statements below cannot.\<close>

lemma only_insert [simp]:
  "only E (write_principals ps d) \<longleftrightarrow> principals_valid d ps \<or> IntegrityError \<in> E"
  "only E (write_credentials cs d) \<longleftrightarrow> credentials_valid d cs \<or> IntegrityError \<in> E"
  "only E (write_tokens ts d) \<longleftrightarrow> tokens_valid d ts \<or> IntegrityError \<in> E"
  "only E (write_groups gs d) \<longleftrightarrow> groups_valid d gs \<or> IntegrityError \<in> E"
  "only E (write_memberships ms d) \<longleftrightarrow> memberships_valid d ms \<or> IntegrityError \<in> E"
  "only E (write_resources rs d) \<longleftrightarrow> resources_valid d rs \<or> IntegrityError \<in> E"
  "only E (write_pgrants pgs d) \<longleftrightarrow> pgrants_valid d pgs \<or> IntegrityError \<in> E"
  "only E (write_ggrants ggs d) \<longleftrightarrow> ggrants_valid d ggs \<or> IntegrityError \<in> E"
  "only E (write_secrets ss d) \<longleftrightarrow> secrets_valid d ss \<or> IntegrityError \<in> E"
  by (simp_all add: write_defs)

subsection \<open>Steps of a transaction\<close>

lemma only_step:
  assumes "\<exists>d'. u = Inr d' \<and> ready i d'" and "\<And>d'. u = Inr d' \<Longrightarrow> ready i d' \<Longrightarrow> only E (f d')"
  shows "only E (bindE u f)"
  using assms by auto

lemma only_lookup:
  assumes "unique_on key rows" and "\<And>x. p x \<Longrightarrow> key x = k" and "e \<in> E"
    and "\<And>r. filter p rows = [r] \<Longrightarrow> only E (f r)"
  shows "only E (bindE (one_or_none (filter p rows)) (\<lambda>row. bindE (found_or e row) f))"
proof -
  have "only E (one_or_none (filter p rows))" using assms(1,2) by (rule only_unique)
  with assms(3,4) show ?thesis by (auto simp del: only_bind simp: only_bind [of _ "found_or e _"] only_bind [of _ "one_or_none _"])
qed

lemmas only_lookups =
  only_lookup [OF ready_unique(1)] only_lookup [OF ready_unique(2)] only_lookup [OF ready_unique(3)]
  only_lookup [OF ready_unique(4)] only_lookup [OF ready_unique(5)] only_lookup [OF ready_unique(6)]
  only_lookup [OF ready_unique(7)]

lemma only_recorded:
  assumes "ready i d" and "fst ` set m \<subseteq> set SAFE_METADATA_FIELDS"
    and "\<And>d'. record_audit_event cx (Some i) act st sid m d = Inr d' \<Longrightarrow> ready i d' \<Longrightarrow> only E (f d')"
  shows "only E (bindE (record_audit_event cx (Some i) act st sid m d) f)"
proof -
  obtain d' where d': "record_audit_event cx (Some i) act st sid m d = Inr d'"
    using record_audit_event_exists [of d "Some i" m cx act st sid] assms(1,2) by (auto simp: ready_def)
  moreover have "ready i d'"
    using record_audit_event_ok [OF d'] assms(1) by (auto simp: ready_def extends_def)
  ultimately show ?thesis using assms(3) by simp
qed

text \<open>Writes of other rows; a principal, group or resource row is only ever added.\<close>

lemma ready_writes:
  assumes "ready i d"
  shows "write_principals (db_principals d @ [p]) d = Inr d' \<Longrightarrow> ready i d'"
    and "write_credentials cs d = Inr d' \<Longrightarrow> ready i d'"
    and "write_tokens ts d = Inr d' \<Longrightarrow> ready i d'"
    and "write_groups (db_groups d @ [g]) d = Inr d' \<Longrightarrow> ready i d'"
    and "write_memberships ms d = Inr d' \<Longrightarrow> ready i d'"
    and "write_resources (db_resources d @ [r]) d = Inr d' \<Longrightarrow> ready i d'"
    and "write_pgrants pgs d = Inr d' \<Longrightarrow> ready i d'"
    and "write_ggrants ggs d = Inr d' \<Longrightarrow> ready i d'"
    and "write_secrets ss d = Inr d' \<Longrightarrow> ready i d'"
    and "write_leases ls d = Inr d' \<Longrightarrow> ready i d'"
proof -
  have ok: "db_ok d" using assms by (simp add: ready_def)
  note step = ready_step [OF assms]
  show "write_principals (db_principals d @ [p]) d = Inr d' \<Longrightarrow> ready i d'"
    by (rule step [OF write_keeps_ok(1) [OF ok]]) auto
  show "write_groups (db_groups d @ [g]) d = Inr d' \<Longrightarrow> ready i d'"
    by (rule step [OF write_keeps_ok(5) [OF ok]]) auto
  show "write_resources (db_resources d @ [r]) d = Inr d' \<Longrightarrow> ready i d'"
    by (rule step [OF write_keeps_ok(7) [OF ok]]) auto
qed (rule ready_step [OF assms write_keeps_ok(2) [OF conjunct1 [OF assms [unfolded ready_def]]]]
    ready_step [OF assms write_keeps_ok(3) [OF conjunct1 [OF assms [unfolded ready_def]]]]
    ready_step [OF assms write_keeps_ok(6) [OF conjunct1 [OF assms [unfolded ready_def]]]]
    ready_step [OF assms write_keeps_ok(8) [OF conjunct1 [OF assms [unfolded ready_def]]]]
    ready_step [OF assms write_keeps_ok(9) [OF conjunct1 [OF assms [unfolded ready_def]]]]
    ready_step [OF assms write_keeps_ok(10) [OF conjunct1 [OF assms [unfolded ready_def]]]]
    ready_step [OF assms write_keeps_ok(11) [OF conjunct1 [OF assms [unfolded ready_def]]]], assumption)+

lemma only_write:
  assumes "only E u" and "\<And>d'. u = Inr d' \<Longrightarrow> ready i d'"
    and "\<And>d'. u = Inr d' \<Longrightarrow> ready i d' \<Longrightarrow> only E (f d')"
  shows "only E (bindE u f)"
  using assms by (auto simp: only_bind)

lemma only_if: "(c \<Longrightarrow> only E a) \<Longrightarrow> (\<not> c \<Longrightarrow> only E b) \<Longrightarrow> only E (if c then a else b)"
  by simp

lemma only_Inl_intro: "e \<in> E \<Longrightarrow> only E (Inl e)"
  by simp

lemma only_final: "only E (Inr x)"
  by simp

lemmas only_steps = only_lookups only_recorded only_if only_final

subsection \<open>Identity\<close>

lemma fetch_principal_only: "ready i d \<Longrightarrow> only (answers {404}) (fetch_principal pid kind d)"
  unfolding fetch_principal_def
  by (intro only_steps) auto

lemma archive_principal_only: "ready i d \<Longrightarrow> only (answers {404, 409}) (archive_principal cx pid kind i d)"
  unfolding archive_principal_def Let_def
  by (intro only_steps only_step [OF update_principals_runs]) auto

lemma create_principal_only:
  assumes "ready i d"
  shows "only (insert IntegrityError (answers {400})) (create_principal cx pid hashed rq kind i d)"
  unfolding create_principal_def Let_def
  by (intro only_steps only_write [where i = i])
    (use assms in \<open>auto dest: ready_writes split: if_splits\<close>)

lemma update_principal_only: "ready i d \<Longrightarrow> only (answers {404}) (update_principal cx pid rq kind i d)"
  unfolding update_principal_def Let_def
  by (intro only_steps only_step [OF update_principals_runs])
    (auto simp: fetch_principal_only apply_principal_update_def)

lemma guarded_update_only: "ready i d \<Longrightarrow> only (answers {404, 409}) (guarded_update cx pid rq i d)"
  unfolding guarded_update_def
  by (intro only_if) (auto intro: only_answers_mono [OF update_principal_only])

lemma set_password_runs: "ready i d \<Longrightarrow> \<exists>d'. set_password cx pid hashed d = Inr d' \<and> ready i d'"
  unfolding set_password_def by (rule update_credentials_runs) simp_all

lemma reset_password_only: "ready i d \<Longrightarrow> only (answers {404}) (reset_password cx pid hashed i d)"
  unfolding reset_password_def
  by (intro only_steps only_step [OF set_password_runs]) auto

lemma change_password_only: "ready i d \<Longrightarrow> only (answers {}) (change_password cx i hashed d)"
  unfolding change_password_def
  by (intro only_steps only_step [OF set_password_runs]) auto

text \<open>A token is issued when its identifier and digest are new and it expires after it is created.\<close>

definition token_fresh :: "(string \<Rightarrow> string) \<Rightarrow> uuid \<Rightarrow> string \<Rightarrow> db \<Rightarrow> bool" where
  "token_fresh sha token_id random d \<longleftrightarrow>
     list_all (\<lambda>t. t_id t \<noteq> token_id \<and> t_token_hash t \<noteq> sha (''srm_'' @ random)) (db_tokens d)"

lemma issue_token_runs:
  assumes "ready i d" and "principal_exists d pid" and "token_fresh sha tid random d"
    and "case e of None \<Rightarrow> True | Some x \<Rightarrow> cx_now cx < x"
  shows "\<exists>r d'. issue_token sha cx tid random pid name e d = Inr (r, d') \<and> ready i d'"
proof -
  let ?t = "\<lparr>t_id = tid, t_principal_id = pid, t_name = name, t_token_hash = token_hash sha (''srm_'' @ random),
      t_created_at = cx_now cx, t_expires_at = e, t_last_used_at = None, t_revoked_at = None\<rparr>"
  have "tokens_valid d (db_tokens d @ [?t])"
    using assms
    by (auto simp: ready_def db_ok_def tokens_valid_def token_fresh_def token_hash_def api_token_check_def list_all_iff
        split: option.splits)
  then have w: "write_tokens (db_tokens d @ [?t]) d = Inr (d\<lparr>db_tokens := db_tokens d @ [?t]\<rparr>)"
    by (simp add: write_tokens_def)
  with ready_writes(3) [OF assms(1) w] show ?thesis by (simp add: issue_token_def Let_def)
qed

lemma issue_my_token_only:
  assumes "ready i d" and "token_fresh sha tid random d"
    and "case tc_expires_at rq of None \<Rightarrow> True | Some x \<Rightarrow> cx_now cx < x"
  shows "only (answers {}) (issue_my_token sha cx tid random i rq d)"
proof -
  have "principal_exists d i" using assms(1) by (simp add: ready_def)
  from issue_token_runs [OF assms(1) this assms(2,3)] obtain r d'
    where "issue_token sha cx tid random i (tc_name rq) (tc_expires_at rq) d = Inr (r, d')" "ready i d'" by blast
  then show ?thesis by (auto simp: issue_my_token_def)
qed

lemma issue_service_token_only:
  assumes "ready i d" and "token_fresh sha tid random d"
    and "case tc_expires_at rq of None \<Rightarrow> True | Some x \<Rightarrow> cx_now cx < x"
  shows "only (answers {404}) (issue_service_token sha cx tid random pid rq i d)"
proof (cases "fetch_principal pid Service d")
  case (Inl e)
  with fetch_principal_only [OF assms(1), of pid Service] show ?thesis by (simp add: issue_service_token_def)
next
  case (Inr p)
  then obtain x where "filter (\<lambda>x. p_id x = pid \<and> p_kind x = Service) (db_principals d) = [x]"
    by (auto simp: fetch_principal_def bindE_eq_Inr)
  from filter_singleD(1,2) [OF this] have "principal_exists d pid" by (auto simp: exists_iff)
  from issue_token_runs [OF assms(1) this assms(2,3)] obtain r d'
    where "issue_token sha cx tid random pid (tc_name rq) (tc_expires_at rq) d = Inr (r, d')" "ready i d'" by blast
  with Inr show ?thesis by (auto simp: issue_service_token_def)
qed

lemma revoke_token_only: "ready i d \<Longrightarrow> only (answers {404}) (revoke_token cx tid pid i d)"
  unfolding revoke_token_def Let_def
  by (intro only_steps only_step [OF update_tokens_runs]) auto

lemma create_group_only: "ready i d \<Longrightarrow> only (insert IntegrityError (answers {})) (create_group cx gid rq i d)"
  unfolding create_group_def Let_def
  by (intro only_steps only_write [where i = i]) (auto dest: ready_writes)

lemma fetch_group_only: "ready i d \<Longrightarrow> only (answers {404}) (fetch_group gid d)"
  unfolding fetch_group_def by (intro only_steps) auto

lemma update_group_only: "ready i d \<Longrightarrow> only (answers {404}) (update_group cx gid rq i d)"
proof (cases rq)
  case (Some description)
  assume "ready i d"
  then show ?thesis unfolding update_group_def Some option.case Let_def
    by (intro only_steps only_step [OF update_groups_runs]) auto
qed (simp add: update_group_def fetch_group_only)

lemma archive_group_only: "ready i d \<Longrightarrow> only (answers {404}) (archive_group cx gid i d)"
  unfolding archive_group_def Let_def
  by (intro only_steps only_step [OF update_groups_runs]) auto

lemma add_member_only:
  "ready i d \<Longrightarrow> only (insert IntegrityError (answers {404, 409})) (add_member cx gid uid i d)"
  unfolding add_member_def
  by (auto intro!: only_recorded only_more [OF fetch_principal_only] dest: ready_writes split: if_splits)

lemma delete_valid:
  assumes "ready i d"
  shows "memberships_valid d (delete_where p1 (db_memberships d))"
    and "pgrants_valid d (delete_where p2 (db_pgrants d))"
    and "ggrants_valid d (delete_where p3 (db_ggrants d))"
    and "secrets_valid d (delete_where p4 (db_secrets d))"
  using assms
  by (auto simp: ready_def db_ok_def memberships_valid_def pgrants_valid_def ggrants_valid_def secrets_valid_def
      delete_where_def list_all_iff intro: unique_on_filter)

lemma remove_member_only: "ready i d \<Longrightarrow> only (answers {}) (remove_member cx gid uid i d)"
  unfolding remove_member_def
  by (intro only_steps only_write [where i = i]) (auto dest: ready_writes simp: delete_valid)

subsection \<open>Catalog\<close>

lemma resource_statement_lookup:
  "one_or_none (resource_statement t d p) =
     bindE (one_or_none (filter p (db_resources d))) (\<lambda>row. Inr (map_option (project_resource t d) row))"
  by (auto simp: resource_statement_def one_or_none_def split: list.splits)

lemma fetch_resource_only: "ready i d \<Longrightarrow> only (answers {404}) (fetch_resource cx rid d)"
  unfolding fetch_resource_def resource_statement_lookup
  by (auto intro!: only_unique [OF ready_unique(5), where k = rid])

lemma fetch_visible_resource_only: "ready i d \<Longrightarrow> only (answers {404}) (fetch_visible_resource cx rid pid d)"
  unfolding fetch_visible_resource_def resource_statement_lookup
  by (auto intro!: only_unique [OF ready_unique(5), where k = rid])

lemma lock_row_only: "ready i d \<Longrightarrow> only (answers {404}) (lock_row rid d)"
  unfolding lock_row_def
  by (auto intro!: only_unique [OF ready_unique(5), where k = rid])

lemma fetch_resource_access_only: "ready i d \<Longrightarrow> only (answers {404}) (fetch_resource_access cx rid d)"
  unfolding fetch_resource_access_def by (simp add: fetch_resource_only)

lemma create_resource_only:
  assumes "ready i d"
  shows "only (insert IntegrityError (answers {})) (create_resource cx rid rq i d)"
proof -
  have "only E (fetch_resource cx rid d2)"
    if "ready i d2" "write_resources (db_resources d @ [new_resource cx rid rq]) d = Inr d1"
      "record_audit_event cx (Some i) act st sid m d1 = Inr d2" for E d1 d2 act st sid m
  proof -
    have "db_resources d2 = db_resources d @ [new_resource cx rid rq]"
      using that(2) record_audit_event_frame(7) [OF that(3)] by (auto simp: write_resources_def split: if_splits)
    then have "resource_exists d2 rid" by (simp add: exists_iff new_resource_def)
    with that(1) show ?thesis using fetch_resource_exists [of d2 rid cx] by (auto simp: ready_def)
  qed
  then show ?thesis
    unfolding create_resource_def using assms
    by (intro only_steps only_write [where i = i]) (auto dest: ready_writes)
qed

lemma lock_managed_resource_only: "ready i d \<Longrightarrow> only (answers {404, 409}) (lock_managed_resource rid d)"
  unfolding lock_managed_resource_def
  by (auto intro: only_answers_mono [OF lock_row_only])

lemma write_grant_runs:
  assumes "ready i d" and "resource_exists d rid" and "granted \<Longrightarrow> target_exists t target d"
  shows "\<exists>b d'. write_grant cx t rid target granted d = Inr (b, d') \<and> ready i d'"
proof -
  have "principal_exists d target" if "t = Principal" granted
    using assms(3) that by (auto simp: target_exists_def exists_iff list_ex_iff)
  moreover have "group_exists d target" if "t = Group" granted
    using assms(3) that by (auto simp: target_exists_def exists_iff list_ex_iff)
  ultimately have "\<exists>b d'. write_grant cx t rid target granted d = Inr (b, d')"
    using assms(1,2) delete_valid [OF assms(1)]
    by (cases t)
      (auto simp: write_grant_def write_pgrants_def write_ggrants_def has_grant_def list_ex_iff
        ready_def db_ok_def pgrants_valid_def ggrants_valid_def)
  then obtain b d' where w: "write_grant cx t rid target granted d = Inr (b, d')" by blast
  with calm_ready [OF write_grant_calm [OF w] assms(1)] show ?thesis by blast
qed

lemma set_resource_grant_only:
  assumes "ready i d"
  shows "only (answers {404, 409}) (set_resource_grant cx rid target t granted i d)"
proof (cases "lock_managed_resource rid d")
  case (Inl e)
  with lock_managed_resource_only [OF assms, of rid] show ?thesis by (simp add: set_resource_grant_def)
next
  case (Inr r)
  then have "lock_row rid d = Inr r"
    by (auto simp: lock_managed_resource_def bindE_eq_Inr split: if_splits)
  from lock_rowD [OF this] have "resource_exists d rid" by (auto simp: exists_iff)
  from write_grant_runs [OF assms this, of granted t target cx] Inr show ?thesis
    by (auto simp: set_resource_grant_def SAFE_METADATA_FIELDS_def intro!: only_recorded)
qed

lemma policy_conflict_only: "409 \<in> S \<Longrightarrow> only (answers S) (policy_conflict (validate_expiration_policy m t t'))"
  by (auto simp: validate_expiration_policy_def policy_conflict_def split: option.splits)

lemma resource_change_only:
  assumes "ready i d" and "\<And>r. r_id (f r) = r_id r" and "404 \<in> S"
  shows "only (insert IntegrityError (answers S)) (bindE (update_resources cx p f d) (\<lambda>d1.
      bindE (record_audit_event cx (Some i) act st sid [] d1) (\<lambda>d2.
      bindE (fetch_resource cx rid d2) (\<lambda>resp. Inr (resp, d2)))))"
    (is "only ?E _")
proof (rule only_write [where i = i])
  show "only ?E (update_resources cx p f d)" by (simp add: update_resources_def)
  show "ready i d1" if "update_resources cx p f d = Inr d1" for d1
    using update_resources_ok [OF that _ assms(2)] assms(1) by (auto simp: ready_def extends_def)
  show "only ?E (bindE (record_audit_event cx (Some i) act st sid [] d1)
      (\<lambda>d2. bindE (fetch_resource cx rid d2) (\<lambda>resp. Inr (resp, d2))))" if "ready i d1" for d1
    using assms(3) by (intro only_recorded [OF that]) (auto intro: only_more [OF fetch_resource_only])
qed

lemma update_resource_only:
  assumes "ready i d"
  shows "only (insert IntegrityError (answers {404, 409})) (update_resource cx rid rq i d)"
  unfolding update_resource_def
  by (intro only_if only_bindI [of _ "lock_row rid d"] only_bindI [of _ "policy_conflict x" for x]
      only_bindI [of _ "fetch_resource cx rid d"] resource_change_only [OF assms])
    (use assms in \<open>auto intro: only_more [OF lock_row_only] only_more [OF fetch_resource_only] only_more [OF policy_conflict_only]\<close>)

lemma archive_resource_only: "ready i d \<Longrightarrow> only (answers {404, 409}) (archive_resource cx rid i d)"
  unfolding archive_resource_def only_bind [of _ "lock_row rid d"]
  by (intro conjI allI impI only_steps only_step [OF update_resources_runs] only_answers_mono [OF lock_row_only])
    (auto simp: resource_check_def)

lemma transition_resource_only: "ready i d \<Longrightarrow> only (answers {404, 409}) (transition_resource cx rid t i d)"
  unfolding transition_resource_def only_bind [of _ "lock_row rid d"] split_beta
  by (intro conjI allI impI only_steps only_step [OF update_resources_runs] only_answers_mono [OF lock_row_only])
    (auto simp: resource_check_def intro: only_answers_mono [OF fetch_resource_only])

lemma parse_labels_only: "only (answers {400}) (parse_labels ls)"
proof -
  have "only (answers {400}) (parse_labels_from acc ls)" for acc
    by (induction ls arbitrary: acc) (auto simp: parse_labels_from.simps split: prod.splits)
  then show ?thesis by (simp add: parse_labels_def)
qed

subsection \<open>Leases\<close>

lemma lease_from_row_runs:
  "ready i d \<Longrightarrow> l \<in> set (db_leases d) \<Longrightarrow> \<exists>r. lease_from_row cx l d = Inr r"
  using lease_from_row_succeeds [of d l cx] by (auto simp: ready_def)

lemma acquire_lease_only:
  assumes "ready i d" and "validate_lease_create rq = Inr rq" and "lid \<notin> l_id ` set (db_leases d)"
  shows "only (answers {409}) (acquire_lease sha cx app_now lid rq key i adm d)"
proof -
  let ?key = "\<lambda>l. l_acquired_by l = i \<and> l_idempotency_key l = key"
  have lookup: "only (answers {409}) (one_or_none (filter ?key (db_leases d)))"
    by (rule only_unique [OF ready_unique(8) [OF assms(1)], where k = "(i, key)"]) simp
  have replay: "only (answers {409}) (lease_from_row cx l d)" if "filter ?key (db_leases d) = [l]" for l
    using lease_from_row_runs [OF assms(1) filter_singleD(1) [OF that]] by (rule only_ran)
  have create: "only (answers {409}) (create_lease cx app_now lid rq key hash i c d)"
    if "filter ?key (db_leases d) = []" "select_candidate cx rq i adm d = Some c" for c hash
  proof (rule only_ran)
    from assms(1) have "db_ok d" "principal_exists d i" by (simp_all add: ready_def)
    from create_lease_succeeds [OF this assms(2) select_candidateD(1,2) [OF that(2)] assms(3) that(1)]
    show "\<exists>x. create_lease cx app_now lid rq key hash i c d = Inr x" by blast
  qed
  show ?thesis
    unfolding acquire_lease_def
    by (rule only_bindI [OF lookup]) (auto simp: replay intro: create split: option.split)
qed

lemma fetch_lease_only: "ready i d \<Longrightarrow> only (answers {404}) (fetch_lease cx lid pid adm d)"
  unfolding fetch_lease_def
proof (rule only_bindI)
  assume r: "ready i d"
  show "only (answers {404}) (one_or_none (filter (\<lambda>l. l_id l = lid \<and> authorized_lease pid adm l) (db_leases d)))"
    by (rule only_unique [OF ready_unique(7) [OF r], where k = lid]) simp
  show "only (answers {404}) (case row of None \<Rightarrow> Inl (http 404 ''Lease not found'') | Some l \<Rightarrow> lease_from_row cx l d)"
    if "one_or_none (filter (\<lambda>l. l_id l = lid \<and> authorized_lease pid adm l) (db_leases d)) = Inr row" for row
  proof (cases row)
    case (Some l)
    with that have "l \<in> set (db_leases d)" by (auto dest: filter_singleD(1))
    with Some show ?thesis using only_ran [OF lease_from_row_runs [OF r]] by simp
  qed simp
qed

lemma list_leases_only: "ready i d \<Longrightarrow> only (answers {}) (list_leases cx q pid adm d)"
proof -
  assume r: "ready i d"
  have "only (answers {}) (map_rows (\<lambda>l. lease_from_row cx l d) ls)" if "set ls \<subseteq> set (db_leases d)" for ls
    using that by (induction ls) (use lease_from_row_runs [OF r] in \<open>auto intro: only_ran\<close>)
  moreover have "set (page a b (sort_key k (filter f (db_leases d)))) \<subseteq> set (db_leases d)"
    for a b f and k :: "lease \<Rightarrow> int \<times> uuid"
    using set_page_subset [of a b "sort_key k (filter f (db_leases d))"] by auto
  ultimately show ?thesis by (simp add: list_leases_def Let_def)
qed

lemma lock_lease_only: "ready i d \<Longrightarrow> only (answers {404}) (lock_lease_for_change lid pid owner d)"
  unfolding lock_lease_for_change_def
  by (auto intro!: only_unique [OF ready_unique(7), where k = lid])

lemma resolve_ttl_only: "only (answers {409}) (resolve_ttl r t supplied)"
  by (auto simp: resolve_ttl_def Let_def split: option.splits)

lemma renew_lease_only:
  assumes "ready i d" and "positive_ttl (supplied_ttl ttl)"
    and "\<And>l. l \<in> set (db_leases d) \<Longrightarrow> l_id l = lid \<Longrightarrow> l_acquired_at l \<le> app_now"
  shows "only (answers {404, 409}) (renew_lease cx checked_at app_now lid ttl i d)"
  unfolding renew_lease_def
proof (intro only_bindI only_if)
  fix l assume lock: "lock_lease_for_change lid i True d = Inr l"
  have "db_ok d" using assms(1) by (simp add: ready_def)
  from lease_resource_exists [OF this lock_leaseD(1) [OF lock]]
  obtain r where r: "r \<in> set (db_resources d)" "r_id r = l_resource_id l" by (auto simp: exists_iff)
  then have one: "filter (\<lambda>x. r_id x = l_resource_id l) (db_resources d) = [r]"
    by (intro unique_on_filter_single [OF ready_unique(5) [OF assms(1)]]) simp_all
  then show "only (answers {404, 409}) (one (filter (\<lambda>x. r_id x = l_resource_id l) (db_resources d)))" by simp
  fix resource t
  assume "one (filter (\<lambda>x. r_id x = l_resource_id l) (db_resources d)) = Inr resource"
    and t: "resolve_ttl resource (supplied_ttl ttl) (ttl \<noteq> None) = Inr t"
  then have "resource = r" using one by simp
  then have "resource_check resource"
    using r(1) \<open>db_ok d\<close> by (simp add: db_ok_def resources_valid_def list_all_iff)
  then have pos: "positive_ttl t"
    using t assms(2) by (auto simp: resolve_ttl_Inr resource_check_def)
  have runs: "\<exists>d'. update_leases (\<lambda>x. l_id x = lid)
      (\<lambda>x. x\<lparr>l_expires_at := expiry app_now t, l_last_renewed_at := Some app_now\<rparr>) d = Inr d' \<and> ready i d'"
  proof (rule update_leases_runs [OF assms(1)])
    fix x assume "x \<in> set (db_leases d)" "l_id x = lid" "lease_check x"
    with assms(3) [of x] pos
    show "lease_check (x\<lparr>l_expires_at := expiry app_now t, l_last_renewed_at := Some app_now\<rparr>)"
      by (auto simp: lease_check_def expiry_def positive_ttl_def split: option.splits)
  qed simp
  then show "only (answers {404, 409}) (update_leases (\<lambda>x. l_id x = lid)
      (\<lambda>x. x\<lparr>l_expires_at := expiry app_now t, l_last_renewed_at := Some app_now\<rparr>) d)" by auto
  fix d1 assume "update_leases (\<lambda>x. l_id x = lid)
      (\<lambda>x. x\<lparr>l_expires_at := expiry app_now t, l_last_renewed_at := Some app_now\<rparr>) d = Inr d1"
  with runs have d1: "ready i d1" by auto
  then show "only (answers {404, 409}) (record_audit_event cx (Some i) ''lease.renewed'' ''Lease'' lid [] d1)"
    by auto
  fix d2 assume d2: "record_audit_event cx (Some i) ''lease.renewed'' ''Lease'' lid [] d1 = Inr d2"
  then have "ready i d2" using record_audit_event_ok [OF d2] d1 by (auto simp: ready_def extends_def)
  then show "only (answers {404, 409}) (fetch_lease cx lid i False d2)"
    by (auto intro: only_answers_mono [OF fetch_lease_only])
qed (auto intro: only_answers_mono [OF lock_lease_only [OF assms(1)]] only_answers_mono [OF resolve_ttl_only])

lemma end_lease_only: "ready i d \<Longrightarrow> only (answers {404}) (end_lease cx lid i reason d)"
  unfolding end_lease_def
proof (intro only_bindI)
  assume r: "ready i d"
  then show "only (answers {404}) (lock_lease_for_change lid i (reason = Released) d)" by (rule lock_lease_only)
  fix l
  let ?up = "update_leases (\<lambda>x. l_id x = lid)
      (\<lambda>x. x\<lparr>l_ended_at := Some (cx_now cx), l_end_reason := Some reason\<rparr>) d"
  have runs: "\<exists>d'. ?up = Inr d' \<and> ready i d'"
    by (rule update_leases_runs [OF r]) (auto simp: lease_check_def split: option.splits)
  let ?ended = "if l_ended_at l = None
     then bindE ?up (\<lambda>d1. record_audit_event cx (Some i) (''lease.'' @ reason_lower reason) ''Lease'' lid [] d1) else Inr d"
  show "only (answers {404}) ?ended" using runs by auto
  fix d2 assume "?ended = Inr d2"
  then have "ready i d2"
    using r runs record_audit_event_ok by (fastforce simp: ready_def extends_def split: if_splits)
  then show "only (answers {404}) (fetch_lease cx lid i (reason = Revoked) d2)" by (rule fetch_lease_only)
qed simp

subsection \<open>Managed secrets\<close>

text \<open>The exceptions of encryption and decryption, which the routes translate.\<close>

definition crypto_errors :: "exc set" where
  "crypto_errors = {e. \<exists>m. e = SecretEncryptionUnavailable m \<or> e = SecretDecryptionError m}"

definition sealing_errors :: "exc set" where
  "sealing_errors = {e. \<exists>m. e = SecretEncryptionUnavailable m}"

lemma crypto_error_mem [simp]:
  "SecretEncryptionUnavailable m \<in> crypto_errors" "SecretDecryptionError m \<in> crypto_errors"
  "SecretEncryptionUnavailable m \<in> sealing_errors"
  by (simp_all add: crypto_errors_def sealing_errors_def)

lemma lock_secret_resource_only: "ready i d \<Longrightarrow> only (answers {404, 409}) (lock_secret_resource rid active d)"
  unfolding lock_secret_resource_def by (intro only_steps) auto

lemma lock_secret_resource_read: "ready i d \<Longrightarrow> only (answers {404}) (lock_secret_resource rid False d)"
  unfolding lock_secret_resource_def by (intro only_steps) auto

lemma lock_secret_only: "ready i d \<Longrightarrow> only (answers {404}) (lock_secret rid sid d)"
  unfolding lock_secret_def
  by (auto intro!: only_unique [OF ready_unique(6), where k = sid])

lemma material_values_only: "only sealing_errors (material_values ae cipher nonce m rid sid)"
  by (auto simp: material_values_def encrypt_def split: material.splits option.splits)

lemma create_secret_only:
  assumes "ready i d"
  shows "only (insert IntegrityError (answers {404, 409} \<union> sealing_errors))
    (create_resource_secret ae cipher cx sid nonce rid rq i d)"
  unfolding create_resource_secret_def Let_def
proof (intro only_bindI only_final)
  fix d1 cols row
  assume "write_secrets (db_secrets d @ [row]) d = Inr d1"
  with assms have "ready i d1" by (rule ready_writes)
  then show "only (insert IntegrityError (answers {404, 409} \<union> sealing_errors))
      (record_audit_event cx (Some i) ''resource_secret.created'' ''ResourceSecret'' sid
        [(''resource_id'', uuid_str rid), (''mode'', mode_name (sc_material rq))] d1)"
    by (auto simp: SAFE_METADATA_FIELDS_def)
qed (use assms in \<open>auto intro: only_mono [OF lock_secret_resource_only] only_mono [OF material_values_only]\<close>)

lemma list_secrets_only: "ready i d \<Longrightarrow> only (answers {404}) (list_resource_secrets coll rid d)"
  unfolding list_resource_secrets_def by (simp add: lock_secret_resource_read)

lemma get_secret_only: "ready i d \<Longrightarrow> only (answers {404}) (get_resource_secret rid sid d)"
  unfolding get_resource_secret_def by (simp add: lock_secret_resource_read lock_secret_only)

lemma update_secret_only:
  assumes "ready i d"
  shows "only (insert IntegrityError (answers {404, 409} \<union> sealing_errors))
    (update_resource_secret ae cipher cx nonce rid sid rq i d)" (is "only ?E _")
  unfolding update_resource_secret_def
proof (intro only_bindI only_if only_final)
  fix target replace d1 row
  assume lock: "lock_secret rid sid d = Inr target"
    and replace: "(case su_material rq of None \<Rightarrow> Inr (\<lambda>s. s)
      | Some m \<Rightarrow> bindE (material_values ae cipher nonce m rid sid) (\<lambda>cols. Inr (set_material cols))) = Inr replace"
    and w: "write_secrets (update_where (\<lambda>s. s_id s = sid)
      (\<lambda>s. (replace (set_secret_fields rq s))\<lparr>s_version := s_version s + 1, s_updated_at := cx_now cx\<rparr>)
      (db_secrets d)) d = Inr d1"
  have "s_id (replace s) = s_id s" for s
    using replace by (auto simp: bindE_eq_Inr split: option.splits)
  then have "s_id ((replace (set_secret_fields rq s))\<lparr>s_version := s_version s + 1, s_updated_at := cx_now cx\<rparr>) = s_id s" for s
    by (simp add: set_secret_fields_def)
  then have ids: "s_id ` set (db_secrets d1) = s_id ` set (db_secrets d)"
    unfolding secrets.write_InrD(2) [OF w] by (intro image_update_where) simp
  have "target \<in> set (db_secrets d)" "s_id target = sid"
    using filter_singleD(1,2) [OF lock [unfolded lock_secret_Inr]] by simp_all
  then obtain s where s: "s \<in> set (db_secrets d1)" "s_id s = sid" using ids by (metis image_iff)
  have "unique_on s_id (db_secrets d1)"
    using secrets.write_InrD(2,3) [OF w] by simp
  then have "filter (\<lambda>s. s_id s = sid) (db_secrets d1) = [s]"
    using s by (intro unique_on_filter_single [where key = s_id]) simp_all
  then show "only ?E (one (filter (\<lambda>s. s_id s = sid) (db_secrets d1)))" by simp
  from assms w have "ready i d1" by (rule ready_writes)
  then show "only ?E (record_audit_event cx (Some i) ''resource_secret.updated'' ''ResourceSecret'' sid
      [(''resource_id'', uuid_str rid)] d1)"
    by (auto simp: SAFE_METADATA_FIELDS_def)
qed (use assms in \<open>auto intro: only_wide [OF lock_secret_resource_only] only_wide [OF lock_secret_only]
    only_mono [OF material_values_only] split: option.split\<close>)

lemma delete_secret_only: "ready i d \<Longrightarrow> only (answers {404}) (delete_resource_secret cx rid sid i d)"
  unfolding delete_resource_secret_def Let_def
proof (intro only_bindI)
  assume r: "ready i d"
  fix d1 del
  assume "write_secrets (delete_where (\<lambda>s. s_id s = sid \<and> s_resource_id s = rid) (db_secrets d)) d = Inr d1"
  with r have "ready i d1" by (rule ready_writes)
  then show "only (answers {404}) (case del of None \<Rightarrow> Inr ((), d1)
      | Some _ \<Rightarrow> bindE (record_audit_event cx (Some i) ''resource_secret.deleted'' ''ResourceSecret'' sid
          [(''resource_id'', uuid_str rid)] d1) (\<lambda>d2. Inr ((), d2)))"
    by (auto simp: SAFE_METADATA_FIELDS_def split: option.split)
qed (auto simp: delete_valid intro: lock_secret_resource_read only_unique [OF ready_unique(6), where k = sid])

text \<open>An envelope at rest is an object, or nothing JSON at all.\<close>

definition envelope_ok :: "(string \<Rightarrow> string) \<Rightarrow> secret \<Rightarrow> bool" where
  "envelope_ok float_of s \<longleftrightarrow> (case s_encrypted_value s of None \<Rightarrow> True
     | Some e \<Rightarrow> (case json_loads float_of e of None \<Rightarrow> True | Some j \<Rightarrow> (case j of JObj _ \<Rightarrow> True | _ \<Rightarrow> False)))"

lemma decrypt_only:
  "(case json_loads float_of e of None \<Rightarrow> True | Some j \<Rightarrow> (case j of JObj _ \<Rightarrow> True | _ \<Rightarrow> False)) \<Longrightarrow>
     only crypto_errors (decrypt ae float_of cipher e key rid sid)"
  by (auto simp: decrypt_def Let_def split: option.split json.split)

lemma reveal_only:
  assumes "secret_check s" and "envelope_ok float_of s"
  shows "only crypto_errors (reveal ae float_of cipher s)"
proof (cases "s_mode s")
  case Managed
  with assms(1) obtain e k where "s_encrypted_value s = Some e" "s_encryption_key_id s = Some k"
    by (auto simp: secret_check_def)
  with Managed assms(2) show ?thesis by (auto simp: reveal_def envelope_ok_def intro: decrypt_only)
next
  case External
  with assms(1) show ?thesis by (auto simp: reveal_def secret_check_def)
qed

lemma access_locked_secret_only:
  assumes "ready i d" and "s \<in> set (db_secrets d)" and "list_all (envelope_ok float_of) (db_secrets d)"
  shows "only (answers {} \<union> crypto_errors) (access_locked_secret ae float_of cipher cx s i path d)"
proof -
  have "secret_check s" "envelope_ok float_of s"
    using assms by (auto simp: ready_def db_ok_def secrets_valid_def list_all_iff)
  then have "only (answers {} \<union> crypto_errors) (reveal ae float_of cipher s)"
    by (auto intro: only_mono [OF reveal_only])
  then show ?thesis
    unfolding access_locked_secret_def using assms(1)
    by (auto simp: SAFE_METADATA_FIELDS_def access_metadata_def split: access_path.split)
qed

lemma lock_secret_mem: "lock_secret rid sid d = Inr s \<Longrightarrow> s \<in> set (db_secrets d)"
  unfolding lock_secret_Inr by (rule filter_singleD(1))

lemma access_as_admin_only:
  assumes "ready i d" and "list_all (envelope_ok float_of) (db_secrets d)"
  shows "only (answers {404} \<union> crypto_errors) (access_resource_secret_as_admin ae float_of cipher cx rid sid i d)"
  unfolding access_resource_secret_as_admin_def
  by (intro only_bindI only_mono [OF lock_secret_resource_read [OF assms(1)]] only_mono [OF lock_secret_only [OF assms(1)]]
      only_mono [OF access_locked_secret_only [OF assms(1) lock_secret_mem assms(2)]])
    (auto simp: answers_def)

lemma lock_active_lease_only:
  "ready i d \<Longrightarrow> only (answers {404}) (lock_active_authorized_lease cx lid i adm d)"
  unfolding lock_active_authorized_lease_def by (intro only_steps) auto

lemma list_lease_secrets_only: "ready i d \<Longrightarrow> only (answers {404}) (list_lease_secrets coll cx lid i adm d)"
  unfolding list_lease_secrets_def by (simp add: lock_active_lease_only)

lemma access_lease_secret_only:
  assumes "ready i d" and "list_all (envelope_ok float_of) (db_secrets d)"
  shows "only (answers {404} \<union> crypto_errors) (access_lease_secret ae float_of cipher cx lid sid i adm d)"
  unfolding access_lease_secret_def
  by (intro only_bindI only_mono [OF lock_active_lease_only [OF assms(1)]] only_mono [OF lock_secret_only [OF assms(1)]]
      only_mono [OF access_locked_secret_only [OF assms(1) lock_secret_mem assms(2)]])
    (auto simp: answers_def)

subsection \<open>Login and the limiter\<close>

text \<open>No window is about to overflow its 32-bit counter.\<close>

definition counters_ok :: "db \<Rightarrow> bool" where
  "counters_ok d \<longleftrightarrow> list_all (\<lambda>w. w_attempts w < MAX_ATTEMPTS) (db_windows d)"

lemma count_attempt_runs:
  assumes "db_ok d" and "0 < width" and "counters_ok d"
  shows "\<exists>r ws. count_attempt cx sc su width d = Inr (r, d\<lparr>db_windows := ws\<rparr>)"
proof -
  let ?ws = "cleanup_windows (cx_now cx) (db_windows d)"
  show ?thesis
  proof (cases "filter (is_window sc su) ?ws")
    case Nil
    then show ?thesis by (auto simp: count_attempt_run [OF assms(1,2) refl])
  next
    case (Cons w rest)
    then have "w \<in> set (filter (is_window sc su) ?ws)" by simp
    then have "w \<in> set (db_windows d)" using cleanup_subset by auto
    with assms(3) have "w_attempts w < MAX_ATTEMPTS" by (simp add: counters_ok_def list_all_iff)
    then have "w_attempts (bump_window (cx_now cx) width w) \<le> MAX_ATTEMPTS"
      by (simp add: bump_window_def MAX_ATTEMPTS_def)
    with Cons show ?thesis by (auto simp: count_attempt_run [OF assms(1,2) refl] Let_def)
  qed
qed

lemma enforce_rate_limit_outcome:
  assumes "db_ok d" and "0 < width" and "counters_ok d"
  shows "\<exists>ws r. enforce_rate_limit cx sc su n width d = (r, d\<lparr>db_windows := ws\<rparr>) \<and>
    db_ok (d\<lparr>db_windows := ws\<rparr>) \<and> (r = Inr () \<or> (\<exists>k. r = Inl (RateLimitExceeded k)))"
proof -
  obtain a b ws where run: "count_attempt cx sc su width d = Inr ((a, b), d\<lparr>db_windows := ws\<rparr>)"
    using count_attempt_runs [OF assms] by fastforce
  from count_attempt_sound [OF run] assms(1) have "db_ok (d\<lparr>db_windows := ws\<rparr>)"
    by (auto simp: sound_def calm_def safe_def)
  with run show ?thesis by (auto simp: enforce_rate_limit_def run_tx_def)
qed

lemma login_only:
  assumes "db_ok d" and "token_fresh sha tid random d" and "cx_now cx < app_now + ttl * 1000000"
    and "\<And>h. h \<in> insert dummy (pc_password_hash ` set (db_credentials d)) \<Longrightarrow> verify h password \<noteq> InvalidHash"
  shows "only {AuthenticationError} (login sha verify dummy ttl cx app_now tid random username password d)"
proof (cases "\<exists>p c. account d username p c")
  case True
  then obtain p c where a: "account d username p c" by blast
  then have mem: "p \<in> set (db_principals d)" "c \<in> set (db_credentials d)" by (simp_all add: account_def)
  then have "ready (p_id p) d" using assms(1) by (auto simp: ready_def exists_iff)
  moreover from this have "principal_exists d (p_id p)" by (simp add: ready_def)
  ultimately obtain r d1 where "issue_token sha cx tid random (p_id p) ''login'' (Some (app_now + ttl * 1000000)) d = Inr (r, d1)"
      "ready (p_id p) d1"
    using issue_token_runs [of "p_id p" d "p_id p" sha tid random cx "Some (app_now + ttl * 1000000)" "''login''"] assms(2,3)
    by auto
  moreover have "verify (pc_password_hash c) password \<noteq> InvalidHash" using assms(4) mem(2) by auto
  ultimately show ?thesis
    unfolding login_def login_rows_account [OF assms(1) a]
    by (auto simp: verify_password_def Let_def split: argon2_result.splits)
next
  case False
  then have "login_rows username d = []" by (intro login_rows_none) auto
  moreover have "verify dummy password \<noteq> InvalidHash" using assms(4) by simp
  ultimately show ?thesis
    by (auto simp: login_def verify_password_def split: argon2_result.splits)
qed

subsection \<open>Authentication\<close>

text \<open>Authenticating touches one token's time of last use and nothing else.\<close>

definition touched :: "db \<Rightarrow> db \<Rightarrow> bool" where
  "touched d d' \<longleftrightarrow> d' = d\<lparr>db_tokens := db_tokens d'\<rparr> \<and>
     (\<forall>sha i r. token_fresh sha i r d' = token_fresh sha i r d)"

lemma list_all_touched:
  "(\<And>x. P (f x) = P x) \<Longrightarrow> list_all P (update_where p f xs) = list_all P xs"
  by (induction xs) auto

lemma touched_refl [simp]: "touched d d"
  by (simp add: touched_def)

lemma authenticate_token_outcome:
  assumes "db_ok d"
  shows "authenticate_token sha cx token d = Inl AuthenticationError \<or>
    (\<exists>a d'. authenticate_token sha cx token d = Inr (a, d') \<and> touched d d' \<and> ready (p_id (ap_principal a)) d')"
proof (cases "token_rows (sha token) cx d")
  case Nil
  then show ?thesis by (simp add: authenticate_token_Inl)
next
  case (Cons row rest)
  obtain p t where "row = (p, t)" by (cases row)
  with Cons have mem: "(p, t) \<in> set (token_rows (sha token) cx d)" by simp
  then have p: "ready (p_id p) d" using assms by (auto simp: token_rows_mem ready_def exists_iff)
  obtain d' where run: "authenticate_token sha cx token d = Inr (\<lparr>ap_principal = p, ap_token_id = t_id t\<rparr>, d')"
    using authenticate_token_Inr [of d p t sha token cx, OF assms mem] by blast
  from calm_ready [OF authenticate_token_tables [OF run] p] have "ready (p_id p) d'" .
  moreover have "touched d d'"
  proof -
    have "d' = d\<lparr>db_tokens := update_where (\<lambda>x. t_id x = t_id t) (\<lambda>x. x\<lparr>t_last_used_at := Some (cx_now cx)\<rparr>) (db_tokens d)\<rparr>"
      using run token_rows_single [of d p t "sha token" cx, OF assms mem]
      by (auto simp: authenticate_token_def token_hash_def bindE_eq_Inr dest: update_tokensD)
    then show ?thesis by (simp add: touched_def token_fresh_def list_all_touched)
  qed
  ultimately show ?thesis using run by auto
qed

lemma authenticated_outcome:
  assumes "db_ok d"
  obtains (refused) "authenticated sha env d = (Inl (http 401 ''Authentication required''), d) \<or>
      authenticated sha env d = (Inl (http 401 ''Invalid bearer token''), d)"
  | (accepted) a d' where "authenticated sha env d = (Inr a, d')" "touched d d'" "ready (actor_of a) d'"
proof (cases "rv_credentials env")
  case None
  then show ?thesis by (intro refused) (simp add: authenticated_def)
next
  case (Some c)
  obtain scheme token where c: "c = (scheme, token)" by (cases c)
  from authenticate_token_outcome [OF assms, of sha "rv_auth env" token] show ?thesis
  proof
    assume "authenticate_token sha (rv_auth env) token d = Inl AuthenticationError"
    then show ?thesis using Some c by (intro refused) (simp add: authenticated_def run_tx_def)
  next
    assume "\<exists>a d'. authenticate_token sha (rv_auth env) token d = Inr (a, d') \<and> touched d d' \<and> ready (actor_of a) d'"
    then obtain a d' where r: "authenticate_token sha (rv_auth env) token d = Inr (a, d')" "touched d d'" "ready (actor_of a) d'"
      by blast
    show ?thesis
    proof (cases "map lower_char scheme = ''bearer''")
      case True
      with r Some c show ?thesis by (intro accepted [of a d']) (simp_all add: authenticated_def run_tx_def)
    next
      case False
      with Some c show ?thesis by (intro refused) (simp add: authenticated_def)
    qed
  qed
qed

end
