(* ===== verification/Contract.thy ===== *)
theory Contract
  imports Outcomes Application
begin

text \<open>
  The status code of every answer of the API, as FastAPI makes it from what a route returns or
  raises, against the responses the published contract (\<open>openapi/openapi.yaml\<close>) lists for the operation.
\<close>

subsection \<open>Replies\<close>

text \<open>What the routes return, by their response models; a \<open>204\<close> has no content.\<close>

datatype (discs_sels) body =
    NoContent
  | LoginBody login_response
  | PrincipalBody principal
  | PrincipalsBody "principal list"
  | TokenBody token_issued
  | TokensBody "token_response list"
  | GroupBody group_row
  | GroupsBody "group_row list"
  | ResourceBody resource_response
  | ResourcesBody "resource_response page_response"
  | AccessBody resource_access
  | LeaseBody lease_response
  | LeasesBody "lease_response page_response"
  | SecretBody secret_metadata
  | SecretsBody "secret_metadata list"
  | DisclosureBody secret_access

type_synonym reply = "exc + body response"

text \<open>
  The success status of a route's decorator with the rendered result, or what the exception handlers make
  of an exception. What they do not handle is left and becomes a bare 500.
\<close>

definition reply :: "request_env \<Rightarrow> int \<Rightarrow> ('a \<Rightarrow> body) \<Rightarrow> (exc + 'a) \<times> db \<Rightarrow> reply \<times> db" where
  "reply env success render r =
     (handle_exceptions (cx_correlation (rv_cx env)) (endpoint success (map_sum id render (fst r))), snd r)"

definition status_of :: "reply \<Rightarrow> int" where
  "status_of r = (case r of Inr response \<Rightarrow> rs_status response | Inl _ \<Rightarrow> 500)"

text \<open>Each router answers the operations it declares.\<close>

definition auth_router :: "config \<Rightarrow> request_env \<Rightarrow> identity_call \<Rightarrow> db \<Rightarrow> (reply \<times> db) option" where
  "auth_router cf env call d = (case call of
       Login cx_limit app_now i random username password \<Rightarrow>
         Some (reply env 200 LoginBody (login_route (cf_sha_bytes cf) (cf_sha cf) (cf_verify cf) (cf_dummy_hash cf)
           (cf_login_ttl cf) (cf_login_attempts cf) (cf_login_window cf) cx_limit (rv_cx env) app_now i random
           username password d))
     | _ \<Rightarrow> None)"

definition me_router :: "config \<Rightarrow> request_env \<Rightarrow> identity_call \<Rightarrow> db \<Rightarrow> (reply \<times> db) option" where
  "me_router cf env call d = (case call of
       GetMe \<Rightarrow> Some (reply env 200 PrincipalBody (get_me (cf_sha cf) env d))
     | ChangeMyPassword hashed \<Rightarrow> Some (reply env 204 (\<lambda>_. NoContent) (change_my_password (cf_sha cf) env hashed d))
     | CreateMyToken app_now i random rq \<Rightarrow>
         Some (reply env 201 TokenBody (create_my_token (cf_sha cf) env app_now i random rq d))
     | ListMyTokens \<Rightarrow> Some (reply env 200 TokensBody (list_my_tokens (cf_sha cf) env d))
     | RevokeMyToken i \<Rightarrow> Some (reply env 204 (\<lambda>_. NoContent) (revoke_my_token (cf_sha cf) env i d))
     | _ \<Rightarrow> None)"

definition users_router :: "config \<Rightarrow> request_env \<Rightarrow> identity_call \<Rightarrow> db \<Rightarrow> (reply \<times> db) option" where
  "users_router cf env call d = (case call of
       CreateUser i hashed rq \<Rightarrow> Some (reply env 201 PrincipalBody (create_user (cf_sha cf) env i hashed rq d))
     | ListUsers \<Rightarrow> Some (reply env 200 PrincipalsBody (list_users (cf_sha cf) (cf_coll cf) env d))
     | GetUser i \<Rightarrow> Some (reply env 200 PrincipalBody (get_user (cf_sha cf) env i d))
     | UpdateUser i rq \<Rightarrow> Some (reply env 200 PrincipalBody (update_user (cf_sha cf) env i rq d))
     | ArchiveUser i \<Rightarrow> Some (reply env 204 (\<lambda>_. NoContent) (archive_user (cf_sha cf) env i d))
     | ResetUserPassword i hashed \<Rightarrow> Some (reply env 204 (\<lambda>_. NoContent) (reset_user_password (cf_sha cf) env i hashed d))
     | _ \<Rightarrow> None)"

definition services_router :: "config \<Rightarrow> request_env \<Rightarrow> identity_call \<Rightarrow> db \<Rightarrow> (reply \<times> db) option" where
  "services_router cf env call d = (case call of
       CreateService i hashed rq \<Rightarrow> Some (reply env 201 PrincipalBody (create_service (cf_sha cf) env i hashed rq d))
     | ListServices \<Rightarrow> Some (reply env 200 PrincipalsBody (list_services (cf_sha cf) (cf_coll cf) env d))
     | GetService i \<Rightarrow> Some (reply env 200 PrincipalBody (get_service (cf_sha cf) env i d))
     | UpdateService i rq \<Rightarrow> Some (reply env 200 PrincipalBody (update_service (cf_sha cf) env i rq d))
     | ArchiveService i \<Rightarrow> Some (reply env 204 (\<lambda>_. NoContent) (archive_service (cf_sha cf) env i d))
     | CreateServiceToken app_now i random pid rq \<Rightarrow>
         Some (reply env 201 TokenBody (create_service_token (cf_sha cf) env app_now i random pid rq d))
     | ListServiceTokens i \<Rightarrow> Some (reply env 200 TokensBody (list_service_tokens (cf_sha cf) env i d))
     | RevokeServiceToken pid i \<Rightarrow> Some (reply env 204 (\<lambda>_. NoContent) (revoke_service_token (cf_sha cf) env pid i d))
     | _ \<Rightarrow> None)"

definition groups_router :: "config \<Rightarrow> request_env \<Rightarrow> identity_call \<Rightarrow> db \<Rightarrow> (reply \<times> db) option" where
  "groups_router cf env call d = (case call of
       CreateGroup i rq \<Rightarrow> Some (reply env 201 GroupBody (create_group_route (cf_sha cf) env i rq d))
     | ListGroups \<Rightarrow> Some (reply env 200 GroupsBody (list_groups_route (cf_sha cf) (cf_coll cf) env d))
     | GetGroup i \<Rightarrow> Some (reply env 200 GroupBody (get_group (cf_sha cf) env i d))
     | UpdateGroup i rq \<Rightarrow> Some (reply env 200 GroupBody (update_group_route (cf_sha cf) env i rq d))
     | ArchiveGroup i \<Rightarrow> Some (reply env 204 (\<lambda>_. NoContent) (archive_group_route (cf_sha cf) env i d))
     | AddGroupMember gid uid \<Rightarrow> Some (reply env 204 (\<lambda>_. NoContent) (add_group_member (cf_sha cf) env gid uid d))
     | RemoveGroupMember gid uid \<Rightarrow> Some (reply env 204 (\<lambda>_. NoContent) (remove_group_member (cf_sha cf) env gid uid d))
     | _ \<Rightarrow> None)"

text \<open>
  The routers are asked in the order of their inclusion. Together they declare every call, so the last case, a
  path none of them declares, does not arise here.
\<close>

fun first_answer :: "(reply \<times> db) option list \<Rightarrow> db \<Rightarrow> reply \<times> db" where
  "first_answer [] d = (Inr (http_problem [] 404 ''Not Found'' []), d)"
| "first_answer (Some r # _) d = r"
| "first_answer (None # rest) d = first_answer rest d"

definition identity_router :: "config \<Rightarrow> request_env \<Rightarrow> identity_call \<Rightarrow> db \<Rightarrow> reply \<times> db" where
  "identity_router cf env call d = first_answer
     [auth_router cf env call d, me_router cf env call d, users_router cf env call d,
      services_router cf env call d, groups_router cf env call d] d"

definition catalog_router :: "config \<Rightarrow> request_env \<Rightarrow> catalog_call \<Rightarrow> db \<Rightarrow> reply \<times> db" where
  "catalog_router cf env call d = (case call of
       CreateResource i rq \<Rightarrow> reply env 201 ResourceBody (create_resource_route (cf_sha cf) env i rq d)
     | ListCatalog labels q \<Rightarrow> reply env 200 ResourcesBody (list_catalog (cf_sha cf) (cf_coll cf) env labels q d)
     | GetResource i \<Rightarrow> reply env 200 ResourceBody (get_resource_route (cf_sha cf) env i d)
     | UpdateCatalog i rq \<Rightarrow> reply env 200 ResourceBody (update_catalog (cf_sha cf) env i rq d)
     | ArchiveResource i \<Rightarrow> reply env 204 (\<lambda>_. NoContent) (archive_resource_route (cf_sha cf) env i d)
     | TransitionResource t i \<Rightarrow> reply env 200 ResourceBody (transition_route (cf_sha cf) env t i d)
     | GetAccess i \<Rightarrow> reply env 200 AccessBody (get_access_route (cf_sha cf) env i d)
     | SetGrant t granted i target \<Rightarrow> reply env 204 (\<lambda>_. NoContent) (grant_route (cf_sha cf) env t granted i target d))"

definition leasing_router :: "config \<Rightarrow> request_env \<Rightarrow> lease_call \<Rightarrow> db \<Rightarrow> reply \<times> db" where
  "leasing_router cf env call d = (case call of
       Acquire app_now i rq key \<Rightarrow> reply env 201 LeaseBody (fst (acquire_route (cf_sha cf) env app_now i rq key d))
     | ListLeases q \<Rightarrow> reply env 200 LeasesBody (list_leases_route (cf_sha cf) env q d)
     | GetLease i \<Rightarrow> reply env 200 LeaseBody (get_lease_route (cf_sha cf) env i d)
     | Renew checked_at app_now i ttl \<Rightarrow> reply env 200 LeaseBody (renew_route (cf_sha cf) env checked_at app_now i ttl d)
     | Release i \<Rightarrow> reply env 200 LeaseBody (release_route (cf_sha cf) env i d)
     | Revoke i \<Rightarrow> reply env 200 LeaseBody (revoke_route (cf_sha cf) env i d))"

definition secrets_router :: "config \<Rightarrow> request_env \<Rightarrow> secret_call \<Rightarrow> db \<Rightarrow> reply \<times> db" where
  "secrets_router cf env call d = (case call of
       CreateSecret i nonce rid rq \<Rightarrow>
         reply env 201 SecretBody (create_secret_route (cf_sha cf) (cf_aead cf) (cf_cipher cf) env i nonce rid rq d)
     | ListSecrets rid \<Rightarrow> reply env 200 SecretsBody (list_for_resource_route (cf_sha cf) (cf_coll cf) env rid d)
     | GetSecret rid i \<Rightarrow> reply env 200 SecretBody (get_secret_route (cf_sha cf) env rid i d)
     | UpdateSecret nonce rid i rq \<Rightarrow>
         reply env 200 SecretBody (update_secret_route (cf_sha cf) (cf_aead cf) (cf_cipher cf) env nonce rid i rq d)
     | DeleteSecret rid i \<Rightarrow> reply env 204 (\<lambda>_. NoContent) (delete_secret_route (cf_sha cf) env rid i d)
     | AccessAsAdmin cx_limit rid i \<Rightarrow>
         reply env 200 (\<lambda>(x, _). DisclosureBody x) (access_as_admin_route (cf_sha cf) (cf_sha_bytes cf) (cf_aead cf) (cf_float_of cf)
           (cf_cipher cf) (cf_secret_attempts cf) (cf_secret_window cf) cx_limit env rid i d)
     | ListForLease lid \<Rightarrow> reply env 200 SecretsBody (list_for_lease_route (cf_sha cf) (cf_coll cf) env lid d)
     | AccessThroughLease cx_limit lid i \<Rightarrow>
         reply env 200 (\<lambda>(x, _). DisclosureBody x) (access_through_lease_route (cf_sha cf) (cf_sha_bytes cf) (cf_aead cf) (cf_float_of cf)
           (cf_cipher cf) (cf_secret_attempts cf) (cf_secret_window cf) cx_limit env lid i d))"

definition answer :: "config \<Rightarrow> request_env \<Rightarrow> call \<Rightarrow> db \<Rightarrow> reply \<times> db" where
  "answer cf env call d = (case call of
       Identity c \<Rightarrow> identity_router cf env c d
     | Catalog c \<Rightarrow> catalog_router cf env c d
     | Leases c \<Rightarrow> leasing_router cf env c d
     | Secrets c \<Rightarrow> secrets_router cf env c d)"

definition answer_status :: "config \<Rightarrow> request_env \<Rightarrow> call \<Rightarrow> db \<Rightarrow> int" where
  "answer_status cf env call d = status_of (fst (answer cf env call d))"

subsection \<open>Response models\<close>

text \<open>The model and the success status the decorator of an operation declares.\<close>

definition declared_identity :: "identity_call \<Rightarrow> body \<Rightarrow> bool" where
  "declared_identity call b = (case call of
       Login _ _ _ _ _ _ \<Rightarrow> is_LoginBody b
     | CreateMyToken _ _ _ _ \<Rightarrow> is_TokenBody b
     | CreateServiceToken _ _ _ _ _ \<Rightarrow> is_TokenBody b
     | ListMyTokens \<Rightarrow> is_TokensBody b
     | ListServiceTokens _ \<Rightarrow> is_TokensBody b
     | GetMe \<Rightarrow> is_PrincipalBody b
     | CreateUser _ _ _ \<Rightarrow> is_PrincipalBody b
     | GetUser _ \<Rightarrow> is_PrincipalBody b
     | UpdateUser _ _ \<Rightarrow> is_PrincipalBody b
     | CreateService _ _ _ \<Rightarrow> is_PrincipalBody b
     | GetService _ \<Rightarrow> is_PrincipalBody b
     | UpdateService _ _ \<Rightarrow> is_PrincipalBody b
     | ListUsers \<Rightarrow> is_PrincipalsBody b
     | ListServices \<Rightarrow> is_PrincipalsBody b
     | CreateGroup _ _ \<Rightarrow> is_GroupBody b
     | GetGroup _ \<Rightarrow> is_GroupBody b
     | UpdateGroup _ _ \<Rightarrow> is_GroupBody b
     | ListGroups \<Rightarrow> is_GroupsBody b
     | _ \<Rightarrow> b = NoContent)"

definition declared :: "call \<Rightarrow> body \<Rightarrow> bool" where
  "declared call b = (case call of
       Identity c \<Rightarrow> declared_identity c b
     | Catalog (ListCatalog _ _) \<Rightarrow> is_ResourcesBody b
     | Catalog (GetAccess _) \<Rightarrow> is_AccessBody b
     | Catalog (ArchiveResource _) \<Rightarrow> b = NoContent
     | Catalog (SetGrant _ _ _ _) \<Rightarrow> b = NoContent
     | Catalog _ \<Rightarrow> is_ResourceBody b
     | Leases (ListLeases _) \<Rightarrow> is_LeasesBody b
     | Leases _ \<Rightarrow> is_LeaseBody b
     | Secrets (ListSecrets _) \<Rightarrow> is_SecretsBody b
     | Secrets (ListForLease _) \<Rightarrow> is_SecretsBody b
     | Secrets (DeleteSecret _ _) \<Rightarrow> b = NoContent
     | Secrets (AccessAsAdmin _ _ _) \<Rightarrow> is_DisclosureBody b
     | Secrets (AccessThroughLease _ _ _) \<Rightarrow> is_DisclosureBody b
     | Secrets _ \<Rightarrow> is_SecretBody b)"

subsection \<open>The published contract\<close>

fun documented_identity :: "identity_call \<Rightarrow> int list" where
  "documented_identity (Login _ _ _ _ _ _) = [200, 401, 413, 422, 429]"
| "documented_identity GetMe = [200, 401]"
| "documented_identity (ChangeMyPassword _) = [204, 400, 401, 413, 422]"
| "documented_identity (CreateMyToken _ _ _ _) = [201, 401, 400, 413, 422]"
| "documented_identity ListMyTokens = [200, 401]"
| "documented_identity (RevokeMyToken _) = [204, 401, 404, 422]"
| "documented_identity (CreateUser _ _ _) = [201, 400, 401, 403, 409, 413, 422]"
| "documented_identity ListUsers = [200, 401, 403]"
| "documented_identity (GetUser _) = [200, 401, 403, 404, 422]"
| "documented_identity (UpdateUser _ _) = [200, 401, 403, 404, 409, 413, 422]"
| "documented_identity (ArchiveUser _) = [204, 401, 403, 404, 409, 422]"
| "documented_identity (ResetUserPassword _ _) = [204, 401, 403, 404, 413, 422]"
| "documented_identity (CreateService _ _ _) = [201, 400, 401, 403, 409, 413, 422]"
| "documented_identity ListServices = [200, 401, 403]"
| "documented_identity (GetService _) = [200, 401, 403, 404, 422]"
| "documented_identity (UpdateService _ _) = [200, 401, 403, 404, 413, 422]"
| "documented_identity (ArchiveService _) = [204, 401, 403, 404, 422]"
| "documented_identity (CreateServiceToken _ _ _ _ _) = [201, 401, 403, 400, 413, 422]"
| "documented_identity (ListServiceTokens _) = [200, 401, 403, 422]"
| "documented_identity (RevokeServiceToken _ _) = [204, 401, 403, 404, 422]"
| "documented_identity (CreateGroup _ _) = [201, 401, 403, 409, 413, 422]"
| "documented_identity ListGroups = [200, 401, 403]"
| "documented_identity (GetGroup _) = [200, 401, 403, 404, 422]"
| "documented_identity (UpdateGroup _ _) = [200, 401, 403, 404, 413, 422]"
| "documented_identity (ArchiveGroup _) = [204, 401, 403, 404, 422]"
| "documented_identity (AddGroupMember _ _) = [204, 401, 403, 404, 409, 422]"
| "documented_identity (RemoveGroupMember _ _) = [204, 401, 403, 422]"

fun documented_catalog :: "catalog_call \<Rightarrow> int list" where
  "documented_catalog (CreateResource _ _) = [201, 401, 403, 409, 413, 422]"
| "documented_catalog (ListCatalog _ _) = [200, 400, 401, 403, 422]"
| "documented_catalog (GetResource _) = [200, 401, 404, 422]"
| "documented_catalog (UpdateCatalog _ _) = [200, 401, 403, 404, 409, 413, 422]"
| "documented_catalog (ArchiveResource _) = [204, 401, 403, 404, 409, 422]"
| "documented_catalog (TransitionResource _ _) = [200, 401, 403, 404, 409, 422]"
| "documented_catalog (GetAccess _) = [200, 401, 403, 404, 422]"
| "documented_catalog (SetGrant _ _ _ _) = [204, 401, 403, 404, 409, 422]"

fun documented_leases :: "lease_call \<Rightarrow> int list" where
  "documented_leases (Acquire _ _ _ _) = [201, 401, 409, 413, 422]"
| "documented_leases (ListLeases _) = [200, 401, 422]"
| "documented_leases (GetLease _) = [200, 401, 404, 422]"
| "documented_leases (Renew _ _ _ _) = [200, 401, 404, 409, 413, 422]"
| "documented_leases (Release _) = [200, 401, 404, 422]"
| "documented_leases (Revoke _) = [200, 401, 403, 404, 422]"

fun documented_secrets :: "secret_call \<Rightarrow> int list" where
  "documented_secrets (CreateSecret _ _ _ _) = [201, 401, 403, 404, 409, 413, 422, 503]"
| "documented_secrets (ListSecrets _) = [200, 401, 403, 404, 422]"
| "documented_secrets (GetSecret _ _) = [200, 401, 403, 404, 422]"
| "documented_secrets (UpdateSecret _ _ _ _) = [200, 401, 403, 404, 409, 413, 422, 503]"
| "documented_secrets (DeleteSecret _ _) = [204, 401, 403, 404, 422]"
| "documented_secrets (AccessAsAdmin _ _ _) = [200, 401, 403, 404, 422, 429, 503]"
| "documented_secrets (ListForLease _) = [200, 401, 404, 422]"
| "documented_secrets (AccessThroughLease _ _ _) = [200, 401, 404, 422, 429, 503]"

definition documented :: "call \<Rightarrow> int list" where
  "documented call = (case call of
       Identity c \<Rightarrow> documented_identity c
     | Catalog c \<Rightarrow> documented_catalog c
     | Leases c \<Rightarrow> documented_leases c
     | Secrets c \<Rightarrow> documented_secrets c)"

text \<open>
  Answers the contract does not list: issuing or listing the tokens of a service identity that does not
  exist answers 404, and a disclosure whose envelope cannot be opened answers 500.
\<close>

definition undocumented :: "call \<Rightarrow> int list" where
  "undocumented call = (case call of
       Identity (CreateServiceToken _ _ _ _ _) \<Rightarrow> [404]
     | Identity (ListServiceTokens _) \<Rightarrow> [404]
     | Secrets (AccessAsAdmin _ _ _) \<Rightarrow> [500]
     | Secrets (AccessThroughLease _ _ _) \<Rightarrow> [500]
     | _ \<Rightarrow> [])"

subsection \<open>What the server counts on\<close>

text \<open>
  Random identifiers and tokens are new; the clocks of application and database agree well enough for
  a token to expire after it is created and for a renewal not to precede the acquisition; the request body
  passed its validation; stored Argon2 hashes are hashes and stored envelopes are objects; a rate-limit
  counter is below the limit of its column.
\<close>

definition token_expected :: "config \<Rightarrow> request_env \<Rightarrow> uuid \<Rightarrow> string \<Rightarrow> token_create \<Rightarrow> db \<Rightarrow> bool" where
  "token_expected cf env i random rq d \<longleftrightarrow> token_fresh (cf_sha cf) i random d \<and>
     (case tc_expires_at rq of None \<Rightarrow> True | Some e \<Rightarrow> cx_now (rv_cx env) < e)"

definition expected :: "config \<Rightarrow> request_env \<Rightarrow> call \<Rightarrow> db \<Rightarrow> bool" where
  "expected cf env call d \<longleftrightarrow> (case call of
       Identity (Login cx_limit app_now i random username password) \<Rightarrow>
         token_fresh (cf_sha cf) i random d \<and> cx_now (rv_cx env) < app_now + cf_login_ttl cf * 1000000 \<and>
         0 < cf_login_window cf \<and> counters_ok d \<and>
         list_all (\<lambda>h. cf_verify cf h password \<noteq> InvalidHash) (cf_dummy_hash cf # map pc_password_hash (db_credentials d))
     | Identity (CreateServiceToken app_now i random pid rq) \<Rightarrow> token_expected cf env i random rq d
     | Identity (CreateMyToken app_now i random rq) \<Rightarrow> token_expected cf env i random rq d
     | Leases (Acquire app_now i rq key) \<Rightarrow>
         validate_lease_create rq = Inr rq \<and> list_all (\<lambda>l. l_id l \<noteq> i) (db_leases d)
     | Leases (Renew checked_at app_now i ttl) \<Rightarrow>
         positive_ttl (supplied_ttl ttl) \<and> list_all (\<lambda>l. l_id l = i \<longrightarrow> l_acquired_at l \<le> app_now) (db_leases d)
     | Secrets (AccessAsAdmin cx_limit rid i) \<Rightarrow>
         0 < cf_secret_window cf \<and> counters_ok d \<and> list_all (envelope_ok (cf_float_of cf)) (db_secrets d)
     | Secrets (AccessThroughLease cx_limit lid i) \<Rightarrow>
         0 < cf_secret_window cf \<and> counters_ok d \<and> list_all (envelope_ok (cf_float_of cf)) (db_secrets d)
     | _ \<Rightarrow> True)"

end
