(* ===== verification/Contract_Laws.thy ===== *)
theory Contract_Laws
  imports Contract
begin

text \<open>
  Every answer of the API has a status its contract lists, so no request ends in an internal error
  as long as the database keeps its constraints: the analysis of \<open>Outcomes\<close> lifted through
  authentication, transactions and the translations of the routes.
\<close>

subsection \<open>Routes\<close>

lemma only_run_tx: "only E (body d) \<Longrightarrow> only E (fst (run_tx body d))"
  by (auto simp: run_tx_def split: sum.splits)

lemma only_read_tx: "only E (body d) \<Longrightarrow> only E (fst (read_tx body d))"
  by (simp add: read_tx_def)

lemma only_catch_integrity:
  "only (insert IntegrityError (answers S)) (fst r) \<Longrightarrow> c \<in> S \<Longrightarrow> only (answers S) (fst (catch_integrity (http c m) r))"
  by (auto simp: catch_integrity_def only_def split: prod.splits sum.splits exc.splits)

lemma only_catch_sealing:
  "only (insert IntegrityError (answers S \<union> sealing_errors)) (fst r) \<Longrightarrow> 503 \<in> S \<Longrightarrow>
     only (insert IntegrityError (answers S)) (fst (catch_crypto r))"
  by (auto simp: catch_crypto_def only_def safe_crypto_problem_def answers_def sealing_errors_def
      split: prod.splits sum.splits exc.splits)

lemma only_catch_crypto:
  "only (answers S \<union> crypto_errors) (fst r) \<Longrightarrow> {500, 503} \<subseteq> S \<Longrightarrow> only (answers S) (fst (catch_crypto r))"
  by (auto simp: catch_crypto_def only_def safe_crypto_problem_def answers_def crypto_errors_def
      split: prod.splits sum.splits exc.splits)

lemma only_prevent_caching: "only E (fst r) \<Longrightarrow> only E (fst (prevent_caching r))"
  by (auto simp: prevent_caching_def only_def split: prod.splits sum.splits)

lemma only_as_user:
  assumes "db_ok d" and "401 \<in> S"
    and "\<And>a d'. touched d d' \<Longrightarrow> ready (actor_of a) d' \<Longrightarrow> only (answers S) (fst (f a d'))"
  shows "only (answers S) (fst (then_tx (authenticated sha env d) f))"
  using assms(1)
proof (cases rule: authenticated_outcome [of d sha env])
  case refused
  with assms(2) show ?thesis by auto
next
  case (accepted a d')
  with assms(3) show ?thesis by simp
qed

lemma only_as_admin:
  assumes "db_ok d" and "{401, 403} \<subseteq> S"
    and "\<And>a d'. touched d d' \<Longrightarrow> ready (actor_of a) d' \<Longrightarrow> only (answers S) (fst (f a d'))"
  shows "only (answers S) (fst (then_tx (administrator sha env d) f))"
  using assms(1)
proof (cases rule: authenticated_outcome [of d sha env])
  case refused
  with assms(2) show ?thesis by (auto simp: administrator_def)
next
  case (accepted a d')
  with assms(2,3) show ?thesis by (auto simp: administrator_def)
qed

lemma status_in:
  assumes "only (answers S) (fst r)" and "insert success S \<subseteq> T"
  shows "status_of (fst (reply env success render r)) \<in> T"
proof (cases "fst r")
  case (Inl e)
  with assms(1) obtain c m h where "e = HTTPException c m h" "c \<in> S" by (auto simp: answers_def)
  with Inl assms(2) show ?thesis
    by (auto simp: reply_def status_of_def endpoint_def handle_exceptions_def http_problem_def problem_response_def)
next
  case (Inr x)
  with assms(2) show ?thesis by (simp add: reply_def status_of_def endpoint_def handle_exceptions_def)
qed

text \<open>What a touched token leaves alone.\<close>

lemma touched_same:
  assumes "touched d d'"
  shows "db_leases d' = db_leases d" "db_windows d' = db_windows d" "db_secrets d' = db_secrets d"
    "token_fresh sha i r d' = token_fresh sha i r d"
proof -
  have eq: "d' = d\<lparr>db_tokens := db_tokens d'\<rparr>" using assms by (simp add: touched_def)
  show "db_leases d' = db_leases d" by (subst eq) simp
  show "db_windows d' = db_windows d" by (subst eq) simp
  show "db_secrets d' = db_secrets d" by (subst eq) simp
  show "token_fresh sha i r d' = token_fresh sha i r d" using assms by (simp add: touched_def)
qed

lemma ready_db_ok: "ready i d \<Longrightarrow> db_ok d"
  by (simp add: ready_def)

lemma only_fst_if:
  "(c \<Longrightarrow> only E (fst a)) \<Longrightarrow> (\<not> c \<Longrightarrow> only E (fst b)) \<Longrightarrow> only E (fst (if c then a else b))"
  by simp

lemmas route_only =
  only_fst_if only_as_user only_as_admin only_run_tx only_read_tx only_catch_integrity only_if

lemmas widened =
  only_answers_mono [OF fetch_principal_only] only_answers_mono [OF archive_principal_only]
  only_answers_mono [OF update_principal_only] only_answers_mono [OF guarded_update_only]
  only_answers_mono [OF reset_password_only] only_answers_mono [OF change_password_only]
  only_answers_mono [OF revoke_token_only] only_answers_mono [OF fetch_group_only]
  only_answers_mono [OF update_group_only] only_answers_mono [OF archive_group_only]
  only_answers_mono [OF remove_member_only] only_answers_mono [OF fetch_resource_only]
  only_answers_mono [OF fetch_visible_resource_only] only_answers_mono [OF archive_resource_only]
  only_answers_mono [OF transition_resource_only] only_answers_mono [OF fetch_resource_access_only]
  only_answers_mono [OF set_resource_grant_only] only_answers_mono [OF parse_labels_only]
  only_answers_mono [OF list_leases_only] only_answers_mono [OF fetch_lease_only]
  only_answers_mono [OF end_lease_only] only_answers_mono [OF list_secrets_only]
  only_answers_mono [OF get_secret_only] only_answers_mono [OF delete_secret_only]
  only_answers_mono [OF list_lease_secrets_only]

lemma archive_service_only: "ready i d \<Longrightarrow> only (answers {404}) (archive_principal cx pid Service i d)"
  unfolding archive_principal_def Let_def
  by (intro only_steps only_step [OF update_principals_runs]) auto

lemma create_service_only:
  "ready i d \<Longrightarrow> only (insert IntegrityError (answers {400})) (create_principal cx pid hashed rq kind i d)"
  by (rule create_principal_only)

lemma only_more_set:
  "only (insert IntegrityError (answers S)) r \<Longrightarrow> S \<subseteq> S' \<Longrightarrow> only (insert IntegrityError (answers S')) r"
  by (erule only_mono) (auto simp: answers_def)

lemmas widened_more =
  only_more_set [OF create_principal_only] only_more_set [OF create_group_only]
  only_more_set [OF add_member_only] only_more_set [OF create_resource_only]
  only_more_set [OF update_resource_only]

lemma answered:
  "only (answers (set T)) (fst r) \<Longrightarrow> success \<in> set T \<Longrightarrow>
     status_of (fst (reply env success render r)) \<in> set T"
  by (rule status_in) auto

lemmas identity_routers =
  identity_router_def auth_router_def me_router_def users_router_def services_router_def groups_router_def
  first_answer.simps

lemma login_route_only:
  assumes "db_ok d" and "expected cf env (Identity (Login cx_limit app_now i random username password)) d"
  shows "only (answers {401, 429}) (fst (login_route (cf_sha_bytes cf) (cf_sha cf) (cf_verify cf) (cf_dummy_hash cf)
    (cf_login_ttl cf) (cf_login_attempts cf) (cf_login_window cf) cx_limit (rv_cx env) app_now i random username password d))"
proof -
  from assms(2) have e: "token_fresh (cf_sha cf) i random d" "cx_now (rv_cx env) < app_now + cf_login_ttl cf * 1000000"
      "0 < cf_login_window cf" "counters_ok d"
      "\<And>h. h \<in> insert (cf_dummy_hash cf) (pc_password_hash ` set (db_credentials d)) \<Longrightarrow> cf_verify cf h password \<noteq> InvalidHash"
    by (auto simp: expected_def list_all_iff)
  obtain ws r where lim: "enforce_rate_limit cx_limit ''login'' (login_subject (cf_sha_bytes cf) username) (cf_login_attempts cf)
        (cf_login_window cf) d = (r, d\<lparr>db_windows := ws\<rparr>)"
      "db_ok (d\<lparr>db_windows := ws\<rparr>)" "r = Inr () \<or> (\<exists>k. r = Inl (RateLimitExceeded k))"
    using enforce_rate_limit_outcome [OF assms(1) e(3,4)] by blast
  have "only {AuthenticationError} (login (cf_sha cf) (cf_verify cf) (cf_dummy_hash cf) (cf_login_ttl cf) (rv_cx env)
      app_now i random username password (d\<lparr>db_windows := ws\<rparr>))"
    using e(1,2,5) by (intro login_only [OF lim(2)]) (auto simp: token_fresh_def)
  then have "only {AuthenticationError} (fst (run_tx (login (cf_sha cf) (cf_verify cf) (cf_dummy_hash cf) (cf_login_ttl cf)
      (rv_cx env) app_now i random username password) (d\<lparr>db_windows := ws\<rparr>)))"
    by (rule only_run_tx)
  with lim(1,3) show ?thesis
    by (auto simp: login_route_def only_def split: prod.splits sum.splits exc.splits)
qed

lemma identity_statuses:
  assumes "db_ok d" and "expected cf env (Identity c) d"
  shows "status_of (fst (identity_router cf env c d)) \<in> set (documented (Identity c) @ undocumented (Identity c))"
proof (cases c)
  case (Login cx_limit app_now i random username password)
  show ?thesis
    unfolding Login identity_routers identity_call.case documented_def undocumented_def call.case documented_identity.simps
    by (rule answered, rule only_answers_mono [OF login_route_only [OF assms(1) assms(2) [unfolded Login]]]) auto
next
  case (CreateServiceToken app_now i random pid rq)
  with assms(2) have e: "token_fresh (cf_sha cf) i random d"
      "case tc_expires_at rq of None \<Rightarrow> True | Some e \<Rightarrow> cx_now (rv_cx env) < e"
    by (simp_all add: expected_def token_expected_def)
  show ?thesis
    unfolding CreateServiceToken identity_routers identity_call.case documented_def undocumented_def call.case
      documented_identity.simps create_service_token_def
    by (rule answered, intro route_only only_answers_mono [OF issue_service_token_only])
      (use assms(1) e touched_same(4) in auto)
next
  case (CreateMyToken app_now i random rq)
  with assms(2) have e: "token_fresh (cf_sha cf) i random d"
      "case tc_expires_at rq of None \<Rightarrow> True | Some e \<Rightarrow> cx_now (rv_cx env) < e"
    by (simp_all add: expected_def token_expected_def)
  show ?thesis
    unfolding CreateMyToken identity_routers identity_call.case documented_def undocumented_def call.case
      documented_identity.simps create_my_token_def
    by (rule answered, intro route_only only_answers_mono [OF issue_my_token_only])
      (use assms(1) e touched_same(4) in auto)
qed (simp_all only: identity_routers identity_call.case documented_def undocumented_def call.case
    documented_identity.simps append_Nil2 identity_routes,
  (rule answered; (intro route_only widened widened_more only_answers_mono [OF archive_service_only] only_bindI only_final)?;
    (use assms(1) in \<open>auto intro: ready_db_ok\<close>))+)

lemma catalog_statuses:
  assumes "db_ok d"
  shows "status_of (fst (catalog_router cf env c d)) \<in> set (documented (Catalog c) @ undocumented (Catalog c))"
  by (cases c)
    (simp_all only: catalog_router_def catalog_call.case documented_def undocumented_def call.case
      documented_catalog.simps append_Nil2 catalog_routes,
     (rule answered; (intro route_only widened widened_more only_bindI only_final)?;
       (use assms in \<open>auto intro: ready_db_ok\<close>))+)

lemma lease_statuses:
  assumes "db_ok d" and "expected cf env (Leases c) d"
  shows "status_of (fst (leasing_router cf env c d)) \<in> set (documented (Leases c) @ undocumented (Leases c))"
proof (cases c)
  case (Acquire app_now i rq key)
  with assms(2) have e: "validate_lease_create rq = Inr rq" "i \<notin> l_id ` set (db_leases d)"
    by (auto simp: expected_def list_all_iff)
  have "only (answers {401, 409}) (fst (fst (acquire_route (cf_sha cf) env app_now i rq key d)))"
    using assms(1)
  proof (cases rule: authenticated_outcome [of d "cf_sha cf" env])
    case refused
    then show ?thesis by (auto simp: acquire_route_def)
  next
    case (accepted a d')
    from e touched_same(1) [OF accepted(2)]
    have "only (answers {409}) (acquire_lease (cf_sha cf) (rv_cx env) app_now i rq key (actor_of a) (is_admin a) d')"
      by (intro acquire_lease_only [OF accepted(3)]) simp_all
    then have "only (answers {401, 409}) (fst (run_tx (acquire_lease (cf_sha cf) (rv_cx env) app_now i rq key
        (actor_of a) (is_admin a)) d'))"
      by (intro only_run_tx) (auto intro: only_answers_mono)
    with accepted(1) show ?thesis by (simp add: acquire_route_def Let_def)
  qed
  then show ?thesis
    unfolding Acquire leasing_router_def lease_call.case documented_def undocumented_def call.case documented_leases.simps
    by (intro answered) (auto intro: only_answers_mono)
next
  case (Renew checked_at app_now i ttl)
  with assms(2) have e: "positive_ttl (supplied_ttl ttl)"
      "\<And>l. l \<in> set (db_leases d) \<Longrightarrow> l_id l = i \<Longrightarrow> l_acquired_at l \<le> app_now"
    by (simp_all add: expected_def list_all_iff)
  show ?thesis
    unfolding Renew leasing_router_def lease_call.case documented_def undocumented_def call.case
      documented_leases.simps renew_route_def
    by (rule answered, intro route_only only_answers_mono [OF renew_lease_only])
      (use assms(1) e touched_same(1) in auto)
qed (simp_all only: leasing_router_def lease_call.case documented_def undocumented_def call.case
    documented_leases.simps append_Nil2 lease_routes,
  (rule answered; (intro route_only widened)?; (use assms(1) in \<open>auto intro: ready_db_ok\<close>))+)

subsection \<open>Secrets\<close>

lemma secret_limit_outcome:
  assumes "db_ok d" and "0 < width" and "counters_ok d"
  shows "\<exists>ws. enforce_secret_access_limit sb n width cx a d = (Inr (), d\<lparr>db_windows := ws\<rparr>) \<and> db_ok (d\<lparr>db_windows := ws\<rparr>) \<or>
    (\<exists>m h. enforce_secret_access_limit sb n width cx a d = (Inl (HTTPException 429 m h), d\<lparr>db_windows := ws\<rparr>))"
proof -
  obtain ws r where "enforce_rate_limit cx ''secret_access'' (principal_subject sb (actor_of a)) n width d = (r, d\<lparr>db_windows := ws\<rparr>)"
      "db_ok (d\<lparr>db_windows := ws\<rparr>)" "r = Inr () \<or> (\<exists>k. r = Inl (RateLimitExceeded k))"
    using enforce_rate_limit_outcome [OF assms] by blast
  then show ?thesis by (auto simp: enforce_secret_access_limit_def)
qed

lemma only_after_limit:
  assumes "ready i d" and "0 < width" and "counters_ok d" and "429 \<in> S"
    and "\<And>ws. ready i (d\<lparr>db_windows := ws\<rparr>) \<Longrightarrow> only (answers S) (fst (f () (d\<lparr>db_windows := ws\<rparr>)))"
  shows "only (answers S) (fst (then_tx (enforce_secret_access_limit sb n width cx a d) f))"
proof -
  have "db_ok d" using assms(1) by (simp add: ready_def)
  from secret_limit_outcome [OF this assms(2,3), of sb n cx a] obtain ws where
    "enforce_secret_access_limit sb n width cx a d = (Inr (), d\<lparr>db_windows := ws\<rparr>) \<and> db_ok (d\<lparr>db_windows := ws\<rparr>) \<or>
      (\<exists>m h. enforce_secret_access_limit sb n width cx a d = (Inl (HTTPException 429 m h), d\<lparr>db_windows := ws\<rparr>))"
    by blast
  then show ?thesis
  proof
    assume *: "enforce_secret_access_limit sb n width cx a d = (Inr (), d\<lparr>db_windows := ws\<rparr>) \<and> db_ok (d\<lparr>db_windows := ws\<rparr>)"
    then have "ready i (d\<lparr>db_windows := ws\<rparr>)" using assms(1) by (simp add: ready_def)
    from assms(5) [OF this] * show ?thesis by simp
  qed (use assms(4) in auto)
qed

lemma touched_counters: "touched d d' \<Longrightarrow> counters_ok d' = counters_ok d"
  by (simp add: counters_ok_def touched_same(2))

lemma access_as_admin_route_only:
  assumes "db_ok d" and "0 < width" and "counters_ok d" and "list_all (envelope_ok fl) (db_secrets d)"
  shows "only (answers {401, 403, 404, 429, 500, 503})
    (fst (access_as_admin_route sha sb ae fl cipher n width cx_limit env rid i d))"
  unfolding access_as_admin_route_def
  by (intro only_as_admin only_after_limit only_prevent_caching only_catch_crypto only_run_tx
      only_mono [OF access_as_admin_only])
    (use assms touched_counters touched_same(3) in \<open>auto simp: answers_def\<close>)

lemma access_through_lease_route_only:
  assumes "db_ok d" and "0 < width" and "counters_ok d" and "list_all (envelope_ok fl) (db_secrets d)"
  shows "only (answers {401, 404, 429, 500, 503})
    (fst (access_through_lease_route sha sb ae fl cipher n width cx_limit env lid i d))"
  unfolding access_through_lease_route_def
  by (intro only_as_user only_after_limit only_prevent_caching only_catch_crypto only_run_tx
      only_mono [OF access_lease_secret_only])
    (use assms touched_counters touched_same(3) in \<open>auto simp: answers_def\<close>)

lemma secret_statuses:
  assumes "db_ok d" and "expected cf env (Secrets c) d"
  shows "status_of (fst (secrets_router cf env c d)) \<in> set (documented (Secrets c) @ undocumented (Secrets c))"
proof (cases c)
  case (AccessAsAdmin cx_limit rid i)
  with assms(2) have e: "0 < cf_secret_window cf" "counters_ok d" "list_all (envelope_ok (cf_float_of cf)) (db_secrets d)"
    by (simp_all add: expected_def)
  show ?thesis
    unfolding AccessAsAdmin secrets_router_def secret_call.case documented_def undocumented_def call.case
      documented_secrets.simps
    by (rule answered, rule only_answers_mono [OF access_as_admin_route_only [OF assms(1) e]]) auto
next
  case (AccessThroughLease cx_limit lid i)
  with assms(2) have e: "0 < cf_secret_window cf" "counters_ok d" "list_all (envelope_ok (cf_float_of cf)) (db_secrets d)"
    by (simp_all add: expected_def)
  show ?thesis
    unfolding AccessThroughLease secrets_router_def secret_call.case documented_def undocumented_def call.case
      documented_secrets.simps
    by (rule answered, rule only_answers_mono [OF access_through_lease_route_only [OF assms(1) e]]) auto
next
  case (CreateSecret i nonce rid rq)
  show ?thesis
    unfolding CreateSecret secrets_router_def secret_call.case documented_def undocumented_def call.case
      documented_secrets.simps create_secret_route_def
    by (rule answered, intro only_as_admin only_catch_integrity only_catch_sealing only_run_tx
        only_mono [OF create_secret_only])
      (use assms(1) in \<open>auto simp: answers_def\<close>)
next
  case (UpdateSecret nonce rid i rq)
  show ?thesis
    unfolding UpdateSecret secrets_router_def secret_call.case documented_def undocumented_def call.case
      documented_secrets.simps update_secret_route_def
    by (rule answered, intro only_as_admin only_catch_integrity only_catch_sealing only_run_tx
        only_mono [OF update_secret_only])
      (use assms(1) in \<open>auto simp: answers_def\<close>)
qed (simp_all only: secrets_router_def secret_call.case documented_def undocumented_def call.case
    documented_secrets.simps append_Nil2 list_for_resource_route_def get_secret_route_def delete_secret_route_def
    list_for_lease_route_def,
  (rule answered; (intro route_only widened)?; (use assms(1) in \<open>auto intro: ready_db_ok\<close>))+)

subsection \<open>The contract\<close>

lemma status_documented:
  assumes "db_ok d" and "expected cf env call d"
  shows "answer_status cf env call d \<in> set (documented call @ undocumented call)"
proof (cases call)
  case (Identity c)
  with identity_statuses [OF assms(1), of cf env c] assms(2) show ?thesis
    by (simp only: answer_status_def answer_def call.case)
next
  case (Catalog c)
  with catalog_statuses [OF assms(1), of cf env c] show ?thesis
    by (simp only: answer_status_def answer_def call.case)
next
  case (Leases c)
  with lease_statuses [OF assms(1), of cf env c] assms(2) show ?thesis
    by (simp only: answer_status_def answer_def call.case)
next
  case (Secrets c)
  with secret_statuses [OF assms(1), of cf env c] assms(2) show ?thesis
    by (simp only: answer_status_def answer_def call.case)
qed

text \<open>Nothing is left unhandled: the only answers of status 500 are those of \<open>safe_crypto_problem\<close>.\<close>

lemma reply_handled: "only (answers S) (fst r) \<Longrightarrow> \<exists>response. fst (reply env success render r) = Inr response"
  by (cases "fst r") (auto simp: only_def answers_def reply_def endpoint_def handle_exceptions_def)

lemma disclosures_only_500:
  "500 \<in> set (documented call @ undocumented call) \<Longrightarrow>
     \<exists>cx_limit i j. call = Secrets (AccessAsAdmin cx_limit i j) \<or> call = Secrets (AccessThroughLease cx_limit i j)"
proof (cases call)
  case (Identity c)
  then show "500 \<in> set (documented call @ undocumented call) \<Longrightarrow> ?thesis"
    by (cases c) (simp_all add: documented_def undocumented_def)
next
  case (Catalog c)
  then show "500 \<in> set (documented call @ undocumented call) \<Longrightarrow> ?thesis"
    by (cases c) (simp_all add: documented_def undocumented_def)
next
  case (Leases c)
  then show "500 \<in> set (documented call @ undocumented call) \<Longrightarrow> ?thesis"
    by (cases c) (simp_all add: documented_def undocumented_def)
next
  case (Secrets c)
  then show "500 \<in> set (documented call @ undocumented call) \<Longrightarrow> ?thesis"
    by (cases c) (simp_all add: documented_def undocumented_def)
qed

lemma expected_is_answered:
  assumes "db_ok d" and "expected cf env call d"
  shows "\<exists>response. fst (answer cf env call d) = Inr response"
proof (cases "fst (answer cf env call d)")
  case (Inl e)
  then have "500 \<in> set (documented call @ undocumented call)"
    using status_documented [OF assms] by (simp add: answer_status_def status_of_def)
  then obtain cx_limit i j
    where "call = Secrets (AccessAsAdmin cx_limit i j) \<or> call = Secrets (AccessThroughLease cx_limit i j)"
    using disclosures_only_500 by blast
  then show ?thesis
  proof
    assume call: "call = Secrets (AccessAsAdmin cx_limit i j)"
    with assms(2) have "0 < cf_secret_window cf" "counters_ok d" "list_all (envelope_ok (cf_float_of cf)) (db_secrets d)"
      by (simp_all add: expected_def)
    from reply_handled [OF access_as_admin_route_only [OF assms(1) this]] show ?thesis
      unfolding call answer_def call.case secrets_router_def secret_call.case .
  next
    assume call: "call = Secrets (AccessThroughLease cx_limit i j)"
    with assms(2) have "0 < cf_secret_window cf" "counters_ok d" "list_all (envelope_ok (cf_float_of cf)) (db_secrets d)"
      by (simp_all add: expected_def)
    from reply_handled [OF access_through_lease_route_only [OF assms(1) this]] show ?thesis
      unfolding call answer_def call.case secrets_router_def secret_call.case .
  qed
qed simp

text \<open>Answering a request leaves the database that the event of the request leads to.\<close>

lemma reply_snd [simp]: "snd (reply env success render r) = snd r"
  by (simp add: reply_def)

lemma answer_handles: "snd (answer cf env call d) = handle cf (Request env call) d"
proof (cases call)
  case (Identity c)
  then show ?thesis by (cases c) (simp_all add: answer_def identity_routers)
next
  case (Catalog c)
  then show ?thesis by (cases c) (simp_all add: answer_def catalog_router_def)
next
  case (Leases c)
  then show ?thesis by (cases c) (simp_all add: answer_def leasing_router_def)
next
  case (Secrets c)
  then show ?thesis by (cases c) (simp_all add: answer_def secrets_router_def)
qed


lemma typed_reply:
  assumes "\<And>x. P (render x)"
  shows "case fst (reply env success render r) of Inl e \<Rightarrow> True | Inr response \<Rightarrow>
    (case rs_content response of
       Content b \<Rightarrow> rs_status response = success \<and> P b
     | ProblemContent p \<Rightarrow> rs_status response = pb_status p \<and> pb_correlation p = cx_correlation (rv_cx env))"
  using assms
  by (cases "fst r") (auto simp: reply_def endpoint_def handle_exceptions_def http_problem_def problem_response_def
      split: exc.splits)

text \<open>
  A success has the status the contract lists first and content of the declared model, anything else is a problem
  document with the status of the response and the correlation id of the request.
\<close>

lemma answers_are_typed:
  "case fst (answer cf env call d) of Inl e \<Rightarrow> True | Inr response \<Rightarrow>
    (case rs_content response of
       Content b \<Rightarrow> rs_status response = hd (documented call) \<and> declared call b
     | ProblemContent p \<Rightarrow> rs_status response = pb_status p \<and> pb_correlation p = cx_correlation (rv_cx env))"
proof (cases call)
  case (Identity c)
  then show ?thesis
    by (cases c) (simp_all only: answer_def identity_routers identity_call.case documented_def call.case
      documented_identity.simps list.sel,
      (rule typed_reply, simp add: declared_def declared_identity_def)+)
next
  case (Catalog c)
  then show ?thesis
    by (cases c) (simp_all only: answer_def catalog_router_def catalog_call.case documented_def call.case
      documented_catalog.simps list.sel,
      (rule typed_reply, simp add: declared_def)+)
next
  case (Leases c)
  then show ?thesis
    by (cases c) (simp_all only: answer_def leasing_router_def lease_call.case documented_def call.case
      documented_leases.simps list.sel,
      (rule typed_reply, simp add: declared_def)+)
next
  case (Secrets c)
  then show ?thesis
    by (cases c) (simp_all only: answer_def secrets_router_def secret_call.case documented_def call.case
      documented_secrets.simps list.sel,
      (rule typed_reply, simp add: declared_def split: prod.split)+)
qed

end
