(* ===== verification/Contract_Demo.thy ===== *)
theory Contract_Demo
  imports Contract_Laws Witnesses
begin


text \<open>An administrator with a token.\<close>

definition staffed_db :: db where
  "staffed_db = demo_db\<lparr>db_tokens := [demo_token, demo_token\<lparr>t_id := UUID 41, t_principal_id := root_id, t_token_hash := ''srm_root''\<rparr>]\<rparr>"

definition as_root :: "instant \<Rightarrow> request_env" where
  "as_root t = \<lparr>rv_credentials = Some (''Bearer'', ''srm_root''), rv_auth = Demo.at t, rv_cx = Demo.at t\<rparr>"

text \<open>The tokens of a service identity that does not exist: 404, which the contract does not list.\<close>

lemma unknown_identity_undocumented:
  "answer_status demo_cf (as_root 5) (Identity (ListServiceTokens robot_id)) staffed_db = 404 \<and>
   404 \<notin> set (documented (Identity (ListServiceTokens robot_id)))"
  "answer_status demo_cf (as_root 5) (Identity (CreateServiceToken 5 key_id ''r'' robot_id \<lparr>tc_name = ''t'', tc_expires_at = None\<rparr>))
     staffed_db = 404 \<and>
   404 \<notin> set (documented (Identity (CreateServiceToken 5 key_id ''r'' robot_id \<lparr>tc_name = ''t'', tc_expires_at = None\<rparr>)))"
  by code_simp+

text \<open>
  A renewal by an instance whose clock is behind the acquisition by more than the TTL breaks the check
  constraint of the table, which nothing translates.
\<close>

lemma renewal_before_acquisition:
  "answer_status demo_cf (as_alice 5) (Leases (Renew (- 61000000) (- 61000000) lease_id None)) leased_db = 500"
  by code_simp

end
