(* ===== verification/Scripting.thy ===== *)
theory Scripting
  imports Request_Limits Identity_Api
begin

text \<open>
  The release scripts under \<open>src/scripts\<close> as programs over an outside: sockets, processes, files,
  clock and entropy. A script runs on a scene, which is the state of the outside, the reading of
  \<open>time.monotonic\<close> and the trace of what the script has done so far; it may raise, and its loops need
  not end, so it is a partial function into results. Then the JSON client of
  \<open>release_acceptance.py\<close> and the part of Python's dynamic typing its scripts rely on.
\<close>

subsection \<open>The outside\<close>

text \<open>
  Exceptions of the scripts. \<open>Unreachable\<close> is an \<open>OSError\<close> of the connection, \<open>URLError\<close> included.
  \<open>WrongType\<close> is a \<open>TypeError\<close> or an \<open>AttributeError\<close>.
\<close>

datatype fault =
    ScriptError string
  | Unreachable
  | BrokenProtocol
  | MissingKey string
  | WrongType
  | BadValue
  | FileTrouble
  | ProcessFailed int
  | FileNotFound string

record wire_request =
  hq_method :: string
  hq_url :: string
  hq_headers :: "(string \<times> string) list"
  hq_body :: "bytes option"
  hq_timeout :: int

record http_result =
  ht_status :: int
  ht_body :: json
  ht_headers :: "(string \<times> string) list"

record process =
  ps_command :: "string list"
  ps_cwd :: "string option"
  ps_environment :: "(string \<times> string) list"
  ps_input :: "bytes option"
  ps_capture :: bool
  ps_check :: bool

datatype file_op = Chmod string int | WriteText string string | RemoveTree string

text \<open>
  What a script does to the outside, each with its outcome: a request as it is handed to \<open>urllib\<close>, a
  process, an operation on a file, and a temporary directory (its prefix and its path).
\<close>

datatype effect =
    Sent wire_request "fault + http_result"
  | Ran process "fault + int"
  | Did file_op "fault + unit"
  | Made string "fault + string"

text \<open>
  \<open>ob_open\<close> is \<open>urlopen\<close> and the reading of its answer, with the redirects that \<open>urllib\<close> follows
  by itself; every request has a timeout and is taken to end. A process has none: \<open>ob_process\<close> is \<open>None\<close>
  for a command that never ends, and so is the script then. Requests, processes and sleeping take time, so the clock never goes back, and \<open>sleep\<close> lasts at least as
  long as asked. \<open>ob_rank\<close> orders the requests of a thread pool. Beyond ASCII and for bytes that are not
  UTF-8 the decoding of a response is left to \<open>ob_replace\<close> and \<open>ob_loads\<close>.
\<close>

record 's outside =
  ob_open :: "wire_request \<Rightarrow> 's \<Rightarrow> (fault + int \<times> bytes \<times> (string \<times> string) list) \<times> nat \<times> 's"
  ob_process :: "process \<Rightarrow> 's \<Rightarrow> ((fault + int \<times> bytes) \<times> nat \<times> 's) option"
  ob_file :: "file_op \<Rightarrow> 's \<Rightarrow> (fault + unit) \<times> 's"
  ob_exists :: "string \<Rightarrow> 's \<Rightarrow> bool"
  ob_read :: "string \<Rightarrow> 's \<Rightarrow> fault + bytes"
  ob_rglob :: "string \<Rightarrow> string \<Rightarrow> 's \<Rightarrow> string list"
  ob_mkdtemp :: "string \<Rightarrow> 's \<Rightarrow> (fault + string) \<times> 's"
  ob_bind_port :: "'s \<Rightarrow> (fault + int) \<times> 's"
  ob_uuid_hex :: "'s \<Rightarrow> string \<times> 's"
  ob_token_urlsafe :: "nat \<Rightarrow> 's \<Rightarrow> string \<times> 's"
  ob_token_bytes :: "nat \<Rightarrow> 's \<Rightarrow> bytes \<times> 's"
  ob_oversleep :: "'s \<Rightarrow> nat \<times> 's"
  ob_rank :: "'s \<Rightarrow> nat \<Rightarrow> nat"
  ob_replace :: "bytes \<Rightarrow> string"
  ob_loads :: "string \<Rightarrow> json option"
  ob_float :: "string \<Rightarrow> string"
  ob_sha256 :: "bytes \<Rightarrow> string"
  ob_root :: string

record 's scene =
  sc_now :: int
  sc_rest :: 's
  sc_trace :: "effect list"

type_synonym ('s, 'a) script = "'s scene \<Rightarrow> ((fault + 'a) \<times> 's scene) option"

subsection \<open>Sequencing\<close>

definition give :: "'a \<Rightarrow> ('s, 'a) script" where
  "give x w = Some (Inr x, w)"

definition throw :: "fault \<Rightarrow> ('s, 'a) script" where
  "throw e w = Some (Inl e, w)"

definition yield :: "fault + 'a \<Rightarrow> ('s, 'a) script" where
  "yield r w = Some (r, w)"

definition and_then :: "('s, 'a) script \<Rightarrow> ('a \<Rightarrow> ('s, 'b) script) \<Rightarrow> ('s, 'b) script" where
  "and_then m f w = (case m w of None \<Rightarrow> None | Some (r, w') \<Rightarrow>
     (case r of Inl e \<Rightarrow> Some (Inl e, w') | Inr x \<Rightarrow> f x w'))"

text \<open>\<open>try ... finally\<close>: an exception of the last part replaces the outcome.\<close>

definition finally_do :: "('s, 'a) script \<Rightarrow> ('s, unit) script \<Rightarrow> ('s, 'a) script" where
  "finally_do m final w = (case m w of None \<Rightarrow> None | Some (r, w') \<Rightarrow>
     (case final w' of None \<Rightarrow> None | Some (r', w'') \<Rightarrow>
        Some (case r' of Inl e \<Rightarrow> Inl e | Inr _ \<Rightarrow> r, w'')))"

definition demand :: "bool \<Rightarrow> fault \<Rightarrow> ('s, unit) script" where
  "demand c e = (if c then give () else throw e)"

fun for_each :: "'a list \<Rightarrow> ('a \<Rightarrow> ('s, 'b) script) \<Rightarrow> ('s, 'b list) script" where
  "for_each [] f = give []"
| "for_each (x # xs) f = and_then (f x) (\<lambda>y. and_then (for_each xs f) (\<lambda>ys. give (y # ys)))"

subsection \<open>Dynamic typing of decoded bodies\<close>

text \<open>\<open>repr\<close> and \<open>str\<close> of what \<open>json.loads\<close> returns; a text that is no JSON stays a text.\<close>

fun py_repr :: "json \<Rightarrow> string" where
  "py_repr JNull = ''None''"
| "py_repr (JBool b) = (if b then ''True'' else ''False'')"
| "py_repr (JInt i) = dec_int i"
| "py_repr (JFloat s) = s"
| "py_repr (JStr s) = repr_text s"
| "py_repr (JList js) = ''['' @ intercalate '', '' (map py_repr js) @ '']''"
| "py_repr (JObj kvs) =
     ''{'' @ intercalate '', '' (map (\<lambda>(k, t). repr_text k @ '': '' @ t) (map (\<lambda>(k, v). (k, py_repr v)) kvs)) @ ''}''"

definition py_str :: "json \<Rightarrow> string" where
  "py_str j = (case j of JStr s \<Rightarrow> s | _ \<Rightarrow> py_repr j)"

text \<open>\<open>body["key"]\<close>, \<open>body.get("key")\<close>, \<open>"key" in body\<close> and the items of an iteration.\<close>

definition subscript :: "json \<Rightarrow> string \<Rightarrow> fault + json" where
  "subscript j k = (case j of
       JObj kvs \<Rightarrow> (case map_of kvs k of None \<Rightarrow> Inl (MissingKey k) | Some v \<Rightarrow> Inr v)
     | _ \<Rightarrow> Inl WrongType)"

definition py_get :: "json \<Rightarrow> string \<Rightarrow> fault + json" where
  "py_get j k = (case j of
       JObj kvs \<Rightarrow> Inr (case map_of kvs k of None \<Rightarrow> JNull | Some v \<Rightarrow> v)
     | _ \<Rightarrow> Inl WrongType)"

fun has_infix :: "'a list \<Rightarrow> 'a list \<Rightarrow> bool" where
  "has_infix p [] \<longleftrightarrow> p = []"
| "has_infix p (c # cs) \<longleftrightarrow> take (length p) (c # cs) = p \<or> has_infix p cs"

definition py_in :: "string \<Rightarrow> json \<Rightarrow> fault + bool" where
  "py_in k j = (case j of
       JObj kvs \<Rightarrow> Inr (k \<in> set (map fst kvs))
     | JList js \<Rightarrow> Inr (JStr k \<in> set js)
     | JStr s \<Rightarrow> Inr (has_infix k s)
     | _ \<Rightarrow> Inl WrongType)"

definition py_items :: "json \<Rightarrow> fault + json list" where
  "py_items j = (case j of
       JList js \<Rightarrow> Inr js
     | JObj kvs \<Rightarrow> Inr (map (\<lambda>kv. JStr (fst kv)) kvs)
     | JStr s \<Rightarrow> Inr (map (\<lambda>c. JStr [c]) s)
     | _ \<Rightarrow> Inl WrongType)"

text \<open>\<open>dict(items)\<close>, and \<open>json.dumps(value)\<close> with its default separators.\<close>

definition dict_of :: "('k \<times> 'v) list \<Rightarrow> ('k \<times> 'v) list" where
  "dict_of items = fold (\<lambda>(k, v) d. dict_set k v d) items []"

fun dumps_spaced :: "json \<Rightarrow> string" where
  "dumps_spaced (JList js) = ''['' @ intercalate '', '' (map dumps_spaced js) @ '']''"
| "dumps_spaced (JObj kvs) =
     ''{'' @ intercalate '', '' (map (\<lambda>(k, t). json_string k @ '': '' @ t) (map (\<lambda>(k, v). (k, dumps_spaced v)) kvs)) @ ''}''"
| "dumps_spaced j = json_dumps False j"

subsection \<open>The client\<close>

record api_client =
  ac_base_url :: string
  ac_timeout :: int

definition new_client :: "string \<Rightarrow> api_client" where
  "new_client base_url = \<lparr>ac_base_url = rev (dropWhile (\<lambda>c. c = CHR ''/'') (rev base_url)), ac_timeout = 15000000\<rparr>"

record call_options =
  co_token :: "string option"
  co_json :: "json option"
  co_raw :: "bytes option"
  co_headers :: "(string \<times> string) list"

definition no_options :: call_options where
  "no_options = \<lparr>co_token = None, co_json = None, co_raw = None, co_headers = []\<rparr>"

definition build_request :: "api_client \<Rightarrow> string \<Rightarrow> string \<Rightarrow> call_options \<Rightarrow> wire_request" where
  "build_request api method path co =
     (let h1 = dict_of (co_headers co);
          h2 = (case co_token co of None \<Rightarrow> h1 | Some t \<Rightarrow> dict_set ''Authorization'' (''Bearer '' @ t) h1);
          (body, h3) = (case co_json co of
             None \<Rightarrow> (co_raw co, h2)
           | Some j \<Rightarrow> (Some (utf8_encode (json_dumps False j)), dict_set ''Content-Type'' ''application/json'' h2))
      in \<lparr>hq_method = method, hq_url = ac_base_url api @ path, hq_headers = h3, hq_body = body,
          hq_timeout = ac_timeout api\<rparr>)"

text \<open>An answer of any status is a result; its body is JSON, a text that is none, or nothing.\<close>

definition decode_body :: "'s outside \<Rightarrow> bytes \<Rightarrow> json" where
  "decode_body ob body =
     (let text = (case utf8_decode body of Some s \<Rightarrow> s | None \<Rightarrow> ob_replace ob body);
          loaded = (if list_all (\<lambda>c. (of_char c :: nat) < 128) text then json_loads (ob_float ob) text else ob_loads ob text)
      in if text = [] then JNull else (case loaded of Some j \<Rightarrow> j | None \<Rightarrow> JStr text))"

definition api_result :: "'s outside \<Rightarrow> int \<Rightarrow> bytes \<Rightarrow> (string \<times> string) list \<Rightarrow> http_result" where
  "api_result ob status body headers =
     \<lparr>ht_status = status, ht_body = decode_body ob body,
      ht_headers = dict_of (map (\<lambda>(k, v). (map lower_char k, v)) (dict_of headers))\<rparr>"

definition send :: "'s outside \<Rightarrow> api_client \<Rightarrow> string \<Rightarrow> string \<Rightarrow> call_options \<Rightarrow> 's scene \<Rightarrow> (fault + http_result) \<times> 's scene" where
  "send ob api method path co w =
     (let rq = build_request api method path co;
          (answer, elapsed, rest) = ob_open ob rq (sc_rest w);
          outcome = (case answer of Inl e \<Rightarrow> Inl e | Inr (status, body, headers) \<Rightarrow> Inr (api_result ob status body headers))
      in (outcome, \<lparr>sc_now = sc_now w + int elapsed, sc_rest = rest, sc_trace = sc_trace w @ [Sent rq outcome]\<rparr>))"

definition request :: "'s outside \<Rightarrow> api_client \<Rightarrow> string \<Rightarrow> string \<Rightarrow> call_options \<Rightarrow> ('s, http_result) script" where
  "request ob api method path co w = Some (send ob api method path co w)"

text \<open>\<open>time.sleep\<close>, in microseconds.\<close>

definition nap :: "'s outside \<Rightarrow> nat \<Rightarrow> 's scene \<Rightarrow> 's scene" where
  "nap ob us w = (let (more, rest) = ob_oversleep ob (sc_rest w)
     in w\<lparr>sc_now := sc_now w + int (us + more), sc_rest := rest\<rparr>)"

definition sleep :: "'s outside \<Rightarrow> nat \<Rightarrow> ('s, unit) script" where
  "sleep ob us w = Some (Inr (), nap ob us w)"

definition monotonic :: "('s, int) script" where
  "monotonic w = Some (Inr (sc_now w), w)"

definition draw :: "('s \<Rightarrow> 'a \<times> 's) \<Rightarrow> ('s, 'a) script" where
  "draw f w = (let (x, rest) = f (sc_rest w) in Some (Inr x, w\<lparr>sc_rest := rest\<rparr>))"

definition try_draw :: "('s \<Rightarrow> (fault + 'a) \<times> 's) \<Rightarrow> ('s, 'a) script" where
  "try_draw f w = (let (r, rest) = f (sc_rest w) in Some (r, w\<lparr>sc_rest := rest\<rparr>))"

subsection \<open>Processes and files\<close>

text \<open>
  \<open>subprocess.run\<close>: the return code and standard output; a failing command raises if asked to check.
  The environment of a process is the one of the script with \<open>ps_environment\<close> over it.
\<close>

definition launch :: "'s outside \<Rightarrow> process \<Rightarrow> ('s, int \<times> bytes) script" where
  "launch ob p w =
     map_option (\<lambda>(outcome, elapsed, rest).
       (outcome, \<lparr>sc_now = sc_now w + int elapsed, sc_rest = rest, sc_trace = sc_trace w @ [Ran p (map_sum id fst outcome)]\<rparr>))
       (ob_process ob p (sc_rest w))"

definition checked :: "process \<Rightarrow> int \<Rightarrow> fault + unit" where
  "checked p code = (if ps_check p \<and> code \<noteq> 0 then Inl (ProcessFailed code) else Inr ())"

text \<open>Captured text is decoded, and its line ends read as line feeds, before the return code is looked at.\<close>

fun universal_newlines :: "string \<Rightarrow> string" where
  "universal_newlines [] = []"
| "universal_newlines (c # cs) =
     (if c = CHR 0x0D
      then CHR 0x0A # (case cs of d # ds \<Rightarrow> if d = CHR 0x0A then universal_newlines ds else universal_newlines cs | [] \<Rightarrow> [])
      else c # universal_newlines cs)"

definition captured_text :: "process \<Rightarrow> bytes \<Rightarrow> fault + string option" where
  "captured_text p out =
     (if ps_capture p
      then (case utf8_decode out of None \<Rightarrow> Inl BadValue | Some s \<Rightarrow> Inr (Some (universal_newlines s)))
      else Inr None)"

definition run_text :: "'s outside \<Rightarrow> process \<Rightarrow> ('s, string option) script" where
  "run_text ob p =
     and_then (launch ob p) (\<lambda>(code, out).
     and_then (yield (captured_text p out)) (\<lambda>text.
     and_then (yield (checked p code)) (\<lambda>_. give text)))"

definition file_do :: "'s outside \<Rightarrow> file_op \<Rightarrow> ('s, unit) script" where
  "file_do ob op w =
     (let (outcome, rest) = ob_file ob op (sc_rest w)
      in Some (outcome, w\<lparr>sc_rest := rest, sc_trace := sc_trace w @ [Did op outcome]\<rparr>))"

text \<open>\<open>with TemporaryDirectory(prefix) as directory\<close>: made on entry, removed with all it holds on exit.\<close>

definition make_directory :: "'s outside \<Rightarrow> string \<Rightarrow> ('s, string) script" where
  "make_directory ob prefix w =
     (let (outcome, rest) = ob_mkdtemp ob prefix (sc_rest w)
      in Some (outcome, w\<lparr>sc_rest := rest, sc_trace := sc_trace w @ [Made prefix outcome]\<rparr>))"

definition with_temporary_directory :: "'s outside \<Rightarrow> string \<Rightarrow> (string \<Rightarrow> ('s, 'a) script) \<Rightarrow> ('s, 'a) script" where
  "with_temporary_directory ob prefix body =
     and_then (make_directory ob prefix) (\<lambda>directory.
       finally_do (body directory) (file_do ob (RemoveTree directory)))"

end
