(* ===== verification/Acceptance.thy ===== *)
theory Acceptance
  imports Scripting
begin

text \<open>
  \<open>scripts/release_acceptance.py\<close>: the probes a release runs through the public HTTP contract. Time is in
  microseconds, so \<open>time.sleep(1)\<close> is \<open>sleep 1000000\<close>.
\<close>

subsection \<open>Expectations\<close>

definition expect :: "http_result \<Rightarrow> int \<Rightarrow> string \<Rightarrow> fault + json" where
  "expect result status context =
     (if ht_status result \<noteq> status
      then Inl (ScriptError (context @ '': expected HTTP '' @ dec_int status @ '', got '' @
        dec_int (ht_status result) @ '': '' @ py_repr (ht_body result)))
      else Inr (ht_body result))"

text \<open>\<open>expect(api.request(...), status, context)\<close>, and an entry of its body.\<close>

definition expected_call ::
  "'s outside \<Rightarrow> api_client \<Rightarrow> string \<Rightarrow> string \<Rightarrow> call_options \<Rightarrow> int \<Rightarrow> string \<Rightarrow> ('s, json) script" where
  "expected_call ob api method path co status context =
     and_then (request ob api method path co) (\<lambda>result. yield (expect result status context))"

definition text_at :: "json \<Rightarrow> string \<Rightarrow> fault + string" where
  "text_at body k = map_sum id py_str (subscript body k)"

abbreviation with_token :: "string \<Rightarrow> call_options" where
  "with_token token \<equiv> no_options\<lparr>co_token := Some token\<rparr>"

text \<open>\<open>dict(body)\<close>: an object as it is, otherwise a sequence of pairs with hashable keys.\<close>

definition pair_of :: "json \<Rightarrow> fault + json \<times> json" where
  "pair_of item = (case py_items item of
       Inl e \<Rightarrow> Inl e
     | Inr [k, v] \<Rightarrow> (case k of JList _ \<Rightarrow> Inl WrongType | JObj _ \<Rightarrow> Inl WrongType | _ \<Rightarrow> Inr (k, v))
     | Inr _ \<Rightarrow> Inl BadValue)"

fun pairs_of :: "json list \<Rightarrow> fault + (json \<times> json) list" where
  "pairs_of [] = Inr []"
| "pairs_of (item # items) =
     (case pair_of item of Inl e \<Rightarrow> Inl e | Inr p \<Rightarrow> map_sum id ((#) p) (pairs_of items))"

definition py_dict :: "json \<Rightarrow> fault + json" where
  "py_dict body = (case body of
       JObj kvs \<Rightarrow> Inr body
     | _ \<Rightarrow> (case py_items body of Inl e \<Rightarrow> Inl e | Inr items \<Rightarrow>
         map_sum id (\<lambda>ps. JObj (dict_of (concat (map (\<lambda>(k, v). case k of JStr s \<Rightarrow> [(s, v)] | _ \<Rightarrow> []) ps)))) (pairs_of items)))"

subsection \<open>Waiting\<close>

partial_function (option) poll_ready ::
  "'s outside \<Rightarrow> api_client \<Rightarrow> bool \<Rightarrow> int \<Rightarrow> int option \<Rightarrow> 's scene \<Rightarrow> ((fault + unit) \<times> 's scene) option" where
  "poll_ready ob api ready deadline last_status w =
     (if sc_now w < deadline then
        (case send ob api ''GET'' ''/ready'' no_options w of (outcome, w1) \<Rightarrow>
          (case outcome of
             Inr result \<Rightarrow>
               if (ht_status result = 200) = ready then Some (Inr (), w1)
               else poll_ready ob api ready deadline (Some (ht_status result)) (nap ob 1000000 w1)
           | Inl e \<Rightarrow>
               if e = Unreachable
               then (if \<not> ready then Some (Inr (), w1) else poll_ready ob api ready deadline last_status (nap ob 1000000 w1))
               else Some (Inl e, w1)))
      else Some (Inl (ScriptError (''API did not become '' @ (if ready then ''ready'' else ''unavailable'') @
        ''; last readiness status was '' @ (case last_status of None \<Rightarrow> ''None'' | Some n \<Rightarrow> dec_int n))), w))"

definition wait_ready :: "'s outside \<Rightarrow> api_client \<Rightarrow> bool \<Rightarrow> int \<Rightarrow> ('s, unit) script" where
  "wait_ready ob api ready timeout =
     and_then monotonic (\<lambda>now. poll_ready ob api ready (now + timeout) None)"

definition lease_state_seen :: "http_result \<Rightarrow> fault + string" where
  "lease_state_seen result =
     (case expect result 200 ''read lease state'' of Inl e \<Rightarrow> Inl e | Inr lease \<Rightarrow> text_at lease ''state'')"

partial_function (option) poll_lease ::
  "'s outside \<Rightarrow> api_client \<Rightarrow> string \<Rightarrow> string \<Rightarrow> string \<Rightarrow> int \<Rightarrow> string option \<Rightarrow> 's scene \<Rightarrow>
    ((fault + unit) \<times> 's scene) option" where
  "poll_lease ob api token lease_id wanted deadline last_state w =
     (if sc_now w < deadline then
        (case send ob api ''GET'' (''/v1/leases/'' @ lease_id) (with_token token) w of (outcome, w1) \<Rightarrow>
          (case outcome of
             Inl e \<Rightarrow> Some (Inl e, w1)
           | Inr result \<Rightarrow>
               (case lease_state_seen result of
                  Inl e \<Rightarrow> Some (Inl e, w1)
                | Inr seen \<Rightarrow>
                    if seen = wanted then Some (Inr (), w1)
                    else poll_lease ob api token lease_id wanted deadline (Some seen) (nap ob 1000000 w1))))
      else Some (Inl (ScriptError (''Lease '' @ lease_id @ '' did not reach '' @ wanted @ ''; last state was '' @
        (case last_state of None \<Rightarrow> ''None'' | Some s \<Rightarrow> s))), w))"

definition wait_lease_state :: "'s outside \<Rightarrow> api_client \<Rightarrow> string \<Rightarrow> string \<Rightarrow> string \<Rightarrow> int \<Rightarrow> ('s, unit) script" where
  "wait_lease_state ob api token lease_id wanted timeout =
     and_then monotonic (\<lambda>now. poll_lease ob api token lease_id wanted (now + timeout) None)"

subsection \<open>Identity, resource, lease and secret\<close>

record acceptance_state =
  as_run_id :: string
  as_admin_token :: string
  as_user_token :: string
  as_resource_id :: string
  as_secret_id :: string
  as_released_lease_id :: string
  as_secret_value :: string

definition client_login :: "'s outside \<Rightarrow> api_client \<Rightarrow> string \<Rightarrow> string \<Rightarrow> ('s, string) script" where
  "client_login ob api username password =
     and_then (expected_call ob api ''POST'' ''/v1/auth/login''
         (no_options\<lparr>co_json := Some (JObj [(''username'', JStr username), (''password'', JStr password)])\<rparr>)
         200 (''login for '' @ username))
       (\<lambda>body. yield (text_at body ''access_token''))"

definition release_resource ::
  "'s outside \<Rightarrow> api_client \<Rightarrow> string \<Rightarrow> string \<Rightarrow> string \<Rightarrow> string \<Rightarrow> string \<Rightarrow> ('s, json) script" where
  "release_resource ob api token name resource_type run_id visibility =
     and_then (expected_call ob api ''POST'' ''/v1/resources''
         ((with_token token)\<lparr>co_json := Some (JObj
            [(''name'', JStr name), (''type'', JStr resource_type), (''sharing_mode'', JStr ''Exclusive''),
             (''visibility_mode'', JStr visibility), (''expiration_mode'', JStr ''Required''),
             (''default_ttl_seconds'', JInt 60), (''max_ttl_seconds'', JInt 300),
             (''labels'', JObj [(''release_acceptance'', JStr run_id)])])\<rparr>)
         201 (''create resource '' @ name))
       (\<lambda>body. yield (py_dict body))"

text \<open>\<open>any("value" in item or "reference" in item for item in metadata)\<close>, which stops at the first.\<close>

fun any_exposed :: "json list \<Rightarrow> fault + bool" where
  "any_exposed [] = Inr False"
| "any_exposed (item # items) =
     (case py_in ''value'' item of
        Inl e \<Rightarrow> Inl e
      | Inr True \<Rightarrow> Inr True
      | Inr False \<Rightarrow>
          (case py_in ''reference'' item of
             Inl e \<Rightarrow> Inl e
           | Inr True \<Rightarrow> Inr True
           | Inr False \<Rightarrow> any_exposed items))"

definition lease_body :: "string \<Rightarrow> string \<Rightarrow> (string \<times> json) list \<Rightarrow> json" where
  "lease_body resource_type run_id extra =
     JObj ([(''resource_type'', JStr resource_type), (''sharing_mode'', JStr ''Exclusive''),
       (''labels'', JObj [(''release_acceptance'', JStr run_id)])] @ extra)"

definition lease_options :: "string \<Rightarrow> string \<Rightarrow> json \<Rightarrow> call_options" where
  "lease_options token key body =
     (with_token token)\<lparr>co_json := Some body, co_headers := [(''Idempotency-Key'', key)]\<rparr>"

definition smoke_identities ::
  "'s outside \<Rightarrow> api_client \<Rightarrow> string \<Rightarrow> string \<Rightarrow> string \<Rightarrow> string \<Rightarrow> ('s, string \<times> string) script" where
  "smoke_identities ob api run_id admin_username admin_password user_password =
     and_then (client_login ob api admin_username admin_password) (\<lambda>admin_token.
     and_then (expected_call ob api ''GET'' ''/v1/me'' (with_token admin_token) 200 ''read admin'') (\<lambda>principal.
     and_then (yield (subscript principal ''role'')) (\<lambda>role.
     and_then (demand (role = JStr ''Admin'') (ScriptError ''Bootstrapped principal is not an administrator'')) (\<lambda>_.
     let username = ''acceptance-'' @ run_id in
     and_then (expected_call ob api ''POST'' ''/v1/users''
         ((with_token admin_token)\<lparr>co_json := Some (JObj [(''name'', JStr username),
            (''display_name'', JStr ''Release acceptance user''), (''password'', JStr user_password)])\<rparr>)
         201 ''create acceptance user'') (\<lambda>_.
     and_then (client_login ob api username user_password) (\<lambda>user_token. give (admin_token, user_token)))))))"

definition smoke_secret ::
  "'s outside \<Rightarrow> api_client \<Rightarrow> string \<Rightarrow> string \<Rightarrow> string \<Rightarrow> ('s, string) script" where
  "smoke_secret ob api admin_token resource_id secret_value =
     and_then (expected_call ob api ''POST'' (''/v1/resources/'' @ resource_id @ ''/secrets'')
         ((with_token admin_token)\<lparr>co_json := Some (JObj [(''name'', JStr ''acceptance-secret''),
            (''material'', JObj [(''mode'', JStr ''Managed''), (''value'', JStr secret_value)])])\<rparr>)
         201 ''create managed secret'') (\<lambda>secret.
     and_then (yield (text_at secret ''id'')) (\<lambda>secret_id.
     and_then (expected_call ob api ''GET'' (''/v1/resources/'' @ resource_id @ ''/secrets'') (with_token admin_token)
         200 ''list secret metadata'') (\<lambda>metadata.
     and_then (yield (py_items metadata)) (\<lambda>items.
     and_then (yield (any_exposed items)) (\<lambda>exposed.
     and_then (demand (\<not> exposed) (ScriptError ''Secret metadata exposed material'')) (\<lambda>_.
     give secret_id))))))"

definition access_path :: "string \<Rightarrow> string \<Rightarrow> string" where
  "access_path lease_id secret_id = ''/v1/leases/'' @ lease_id @ ''/secrets/'' @ secret_id @ ''/access''"

definition smoke_lease ::
  "'s outside \<Rightarrow> api_client \<Rightarrow> string \<Rightarrow> string \<Rightarrow> string \<Rightarrow> string \<Rightarrow> ('s, string) script" where
  "smoke_lease ob api run_id user_token secret_id secret_value =
     and_then (expected_call ob api ''POST'' ''/v1/leases''
         (lease_options user_token (''acceptance-'' @ run_id) (lease_body (''acceptance-'' @ run_id) run_id []))
         201 ''acquire acceptance lease'') (\<lambda>lease.
     and_then (yield (text_at lease ''id'')) (\<lambda>lease_id.
     and_then (expected_call ob api ''POST'' (access_path lease_id secret_id) (with_token user_token)
         200 ''access secret through lease'') (\<lambda>accessed.
     and_then (yield (py_get accessed ''value'')) (\<lambda>value.
     and_then (demand (value = JStr secret_value) (ScriptError ''Managed-secret round trip changed the value'')) (\<lambda>_.
     and_then (expected_call ob api ''POST'' (''/v1/leases/'' @ lease_id @ ''/release'') (with_token user_token)
         200 ''release acceptance lease'') (\<lambda>released.
     and_then (yield (subscript released ''state'')) (\<lambda>state.
     and_then (demand (state = JStr ''Released'') (ScriptError ''Released lease did not reach Released state'')) (\<lambda>_.
     and_then (expected_call ob api ''POST'' (access_path lease_id secret_id) (with_token user_token)
         404 ''deny secret access after release'') (\<lambda>_.
     give lease_id)))))))))"

definition run_api_smoke ::
  "'s outside \<Rightarrow> api_client \<Rightarrow> string \<Rightarrow> string \<Rightarrow> string \<Rightarrow> ('s, acceptance_state) script" where
  "run_api_smoke ob api admin_username admin_password user_password =
     and_then (draw (ob_uuid_hex ob)) (\<lambda>run_id.
     and_then (smoke_identities ob api run_id admin_username admin_password user_password) (\<lambda>(admin_token, user_token).
     and_then (release_resource ob api admin_token (''acceptance-resource-'' @ run_id) (''acceptance-'' @ run_id) run_id ''Public'') (\<lambda>resource.
     and_then (yield (text_at resource ''id'')) (\<lambda>resource_id.
     and_then (draw (ob_uuid_hex ob)) (\<lambda>hex.
     let secret_value = ''release-secret-'' @ hex in
     and_then (smoke_secret ob api admin_token resource_id secret_value) (\<lambda>secret_id.
     and_then (smoke_lease ob api run_id user_token secret_id secret_value) (\<lambda>lease_id.
     give \<lparr>as_run_id = run_id, as_admin_token = admin_token, as_user_token = user_token, as_resource_id = resource_id,
       as_secret_id = secret_id, as_released_lease_id = lease_id, as_secret_value = secret_value\<rparr>)))))))"

subsection \<open>Abuse\<close>

definition run_security_probes :: "'s outside \<Rightarrow> api_client \<Rightarrow> acceptance_state \<Rightarrow> ('s, string) script" where
  "run_security_probes ob api st =
     and_then (request ob api ''GET'' ''/v1/me'' (no_options\<lparr>co_headers := [(''Authorization'', ''Basic invalid'')]\<rparr>)) (\<lambda>malformed.
     and_then (yield (expect malformed 401 ''reject malformed authorization'')) (\<lambda>_.
     and_then (draw (ob_uuid_hex ob)) (\<lambda>hex.
     let correlation_canary = ''hostile/correlation/'' @ hex in
     and_then (expected_call ob api ''GET'' ''/health'' (no_options\<lparr>co_headers := [(''X-Correlation-ID'', correlation_canary)]\<rparr>)
         200 ''health with hostile correlation ID'') (\<lambda>health.
     and_then (demand (\<not> has_infix correlation_canary (dumps_spaced health))
         (ScriptError ''Hostile correlation ID was reflected'')) (\<lambda>_.
     and_then (release_resource ob api (as_admin_token st) (''restricted-'' @ as_run_id st) (''restricted-'' @ as_run_id st)
         (as_run_id st) ''Restricted'') (\<lambda>restricted.
     and_then (yield (text_at restricted ''id'')) (\<lambda>restricted_id.
     and_then (expected_call ob api ''GET'' (''/v1/resources/'' @ restricted_id) (with_token (as_user_token st))
         404 ''hide inaccessible resource'') (\<lambda>_.
     and_then (draw (ob_uuid_hex ob)) (\<lambda>hex2.
     let body_canary = ''oversized-secret-'' @ hex2 in
     and_then (request ob api ''POST'' ''/v1/auth/login'' (no_options\<lparr>
         co_raw := Some (utf8_encode body_canary @ replicate 1048576 120),
         co_headers := [(''Content-Type'', ''application/json'')]\<rparr>)) (\<lambda>oversized.
     and_then (yield (expect oversized 413 ''reject oversized request'')) (\<lambda>_.
     and_then (demand (\<not> has_infix body_canary (dumps_spaced (ht_body oversized)))
         (ScriptError ''Oversized request reflected secret material'')) (\<lambda>_.
     and_then (for_each [0::nat..<11] (\<lambda>_. and_then (request ob api ''POST'' ''/v1/auth/login''
         (no_options\<lparr>co_json := Some (JObj [(''username'', JStr (''missing-'' @ as_run_id st)), (''password'', JStr ''wrong-password'')])\<rparr>))
         (\<lambda>result. give (ht_status result)))) (\<lambda>statuses.
     and_then (demand (last statuses = 429 \<and> list_all (\<lambda>s. s = 401 \<or> s = 429) statuses)
         (ScriptError (''Login abuse was not rate limited: '' @ py_repr (JList (map JInt statuses))))) (\<lambda>_.
     give body_canary))))))))))))))"

subsection \<open>Concurrent acquisitions\<close>

text \<open>
  A thread pool runs every call once, in any order, and hands the results out in the order of the inputs;
  the first exception among them is raised. A request is one step of the outside.
\<close>

definition attempt_run :: "('s, 'a) script \<Rightarrow> ('s, fault + 'a) script" where
  "attempt_run m w = (case m w of None \<Rightarrow> None | Some (r, w') \<Rightarrow> Some (Inr r, w'))"

fun collect :: "(fault + 'a) list \<Rightarrow> fault + 'a list" where
  "collect [] = Inr []"
| "collect (Inl e # rs) = Inl e"
| "collect (Inr x # rs) = map_sum id ((#) x) (collect rs)"

definition run_in_order :: "(nat \<Rightarrow> ('s, 'a) script) \<Rightarrow> nat list \<Rightarrow> ('s, 'a list) script" where
  "run_in_order f order =
     and_then (for_each order (\<lambda>i. and_then (attempt_run (f i)) (\<lambda>r. give (i, r))))
       (\<lambda>done. yield (collect (map snd (sort_key fst done))))"

definition pool_map :: "'s outside \<Rightarrow> (nat \<Rightarrow> ('s, 'a) script) \<Rightarrow> nat \<Rightarrow> ('s, 'a list) script" where
  "pool_map ob f n w = run_in_order f (sort_key (ob_rank ob (sc_rest w)) [0..<n]) w"

text \<open>\<open>round(num / den, 3)\<close> of microseconds as the text of a float, ties to even.\<close>

definition round_millis :: "int \<Rightarrow> int \<Rightarrow> int" where
  "round_millis num den =
     (let d = 1000 * den; q = num div d; r = num mod d
      in if 2 * r < d \<or> 2 * r = d \<and> even q then q else q + 1)"

definition seconds_text :: "int \<Rightarrow> string" where
  "seconds_text ms =
     (let f = ms mod 1000;
          digits = [digit_char (nat (f div 100)), digit_char (nat (f div 10 mod 10)), digit_char (nat (f mod 10))];
          trimmed = rev (dropWhile (\<lambda>c. c = CHR ''0'') (rev digits))
      in dec_int (ms div 1000) @ ''.'' @ (if trimmed = [] then ''0'' else trimmed))"

definition acquire_in_thread ::
  "'s outside \<Rightarrow> api_client \<Rightarrow> acceptance_state \<Rightarrow> string \<Rightarrow> nat \<Rightarrow> ('s, http_result \<times> int) script" where
  "acquire_in_thread ob api st resource_type i =
     and_then monotonic (\<lambda>started.
     and_then (request ob api ''POST'' ''/v1/leases'' (lease_options (as_user_token st)
         (''concurrency-'' @ as_run_id st @ ''-'' @ dec_nat i) (lease_body resource_type (as_run_id st) []))) (\<lambda>result.
     and_then monotonic (\<lambda>now. give (result, now - started))))"

fun leased_resource :: "http_result list \<Rightarrow> fault + string list" where
  "leased_resource [] = Inr []"
| "leased_resource (result # results) =
     (case subscript (ht_body result) ''resource'' of
        Inl e \<Rightarrow> Inl e
      | Inr resource \<Rightarrow>
          (case text_at resource ''id'' of Inl e \<Rightarrow> Inl e | Inr i \<Rightarrow> map_sum id ((#) i) (leased_resource results)))"

text \<open>What the probe makes of the eight outcomes before it releases the leases again.\<close>

definition judge_outcomes :: "nat \<Rightarrow> nat \<Rightarrow> http_result list \<Rightarrow> fault + http_result list" where
  "judge_outcomes resource_count request_count results =
     (let successes = filter (\<lambda>r. ht_status r = 201) results;
          conflicts = filter (\<lambda>r. ht_status r = 409) results
      in if length successes \<noteq> resource_count \<or> int (length conflicts) \<noteq> int request_count - int resource_count
         then Inl (ScriptError (''Unexpected parallel allocation outcomes: '' @ dec_nat (length successes) @ '' acquired, '' @
           dec_nat (length conflicts) @ '' unavailable''))
         else (case leased_resource successes of
             Inl e \<Rightarrow> Inl e
           | Inr ids \<Rightarrow>
               if length (remdups ids) \<noteq> resource_count
               then Inl (ScriptError ''Parallel exclusive acquisitions reused a resource'')
               else Inr successes))"

definition run_concurrency_probe :: "'s outside \<Rightarrow> api_client \<Rightarrow> acceptance_state \<Rightarrow> ('s, json) script" where
  "run_concurrency_probe ob api st =
     (let resource_type = ''concurrency-'' @ as_run_id st in
     and_then (for_each [0::nat..<4] (\<lambda>i. release_resource ob api (as_admin_token st)
         (''concurrency-'' @ dec_nat i @ ''-'' @ as_run_id st) resource_type (as_run_id st) ''Public'')) (\<lambda>_.
     and_then (pool_map ob (acquire_in_thread ob api st resource_type) 8) (\<lambda>outcomes.
     and_then (yield (judge_outcomes 4 8 (map fst outcomes))) (\<lambda>successes.
     and_then (for_each successes (\<lambda>result.
         and_then (yield (text_at (ht_body result) ''id'')) (\<lambda>lease_id.
         expected_call ob api ''POST'' (''/v1/leases/'' @ lease_id @ ''/release'') (with_token (as_user_token st))
           200 ''release concurrent lease''))) (\<lambda>_.
     let durations = map snd outcomes in
     give (JObj [(''requests'', JInt 8), (''acquired'', JInt (int (length successes))),
       (''unavailable'', JInt (int (length (filter (\<lambda>r. ht_status r = 409) (map fst outcomes))))),
       (''maximum_seconds'', JFloat (seconds_text (round_millis (fold max durations 0) 1))),
       (''mean_seconds'', JFloat (seconds_text (round_millis (sum_list durations) (int (length durations)))))]))))))"

definition create_expiring_lease :: "'s outside \<Rightarrow> api_client \<Rightarrow> acceptance_state \<Rightarrow> ('s, string) script" where
  "create_expiring_lease ob api st =
     (let resource_type = ''expiration-'' @ as_run_id st in
     and_then (release_resource ob api (as_admin_token st) resource_type resource_type (as_run_id st) ''Public'') (\<lambda>_.
     and_then (expected_call ob api ''POST'' ''/v1/leases'' (lease_options (as_user_token st)
         (''expiration-'' @ as_run_id st) (lease_body resource_type (as_run_id st) [(''ttl_seconds'', JInt 1)]))
         201 ''create expiring lease'') (\<lambda>lease.
     yield (text_at lease ''id''))))"

end
