(* ===== verification/Deployment.thy ===== *)
theory Deployment
  imports Acceptance
begin

text \<open>
  \<open>scripts/verify_release_deployment.py\<close>: the release image deployed twice under Compose, with restarts,
  a backup, its restoration and the loss of the key ring in between.
\<close>

subsection \<open>Compose stacks\<close>

definition available_port :: "'s outside \<Rightarrow> ('s, int) script" where
  "available_port ob = try_draw (ob_bind_port ob)"

record compose_stack =
  sk_project :: string
  sk_port :: int
  sk_environment :: "(string \<times> string) list"

definition new_stack :: "string \<Rightarrow> string \<Rightarrow> string \<Rightarrow> int \<Rightarrow> compose_stack" where
  "new_stack project image_ref secrets_dir port =
     \<lparr>sk_project = project, sk_port = port, sk_environment =
       [(''SHEPHERD_IMAGE'', image_ref), (''SHEPHERD_SECRETS_DIR'', secrets_dir), (''SHEPHERD_PORT'', dec_int port),
        (''SHEPHERD_BIND_ADDRESS'', ''127.0.0.1''), (''SHEPHERD_SECRET_ENCRYPTION_ACTIVE_KEY_ID'', ''acceptance'')]\<rparr>"

definition stack_api :: "compose_stack \<Rightarrow> api_client" where
  "stack_api sk = new_client (''http://127.0.0.1:'' @ dec_int (sk_port sk))"

definition stack_command :: "'s outside \<Rightarrow> compose_stack \<Rightarrow> string list \<Rightarrow> string list" where
  "stack_command ob sk arguments =
     [''docker'', ''compose'', ''--project-name'', sk_project sk, ''--file'', ob_root ob @ ''/compose.production.yaml''] @ arguments"

definition stack_process :: "'s outside \<Rightarrow> compose_stack \<Rightarrow> string list \<Rightarrow> process" where
  "stack_process ob sk arguments =
     \<lparr>ps_command = stack_command ob sk arguments, ps_cwd = Some (ob_root ob), ps_environment = sk_environment sk, ps_input = None,
      ps_capture = False, ps_check = True\<rparr>"

definition stack_run ::
  "'s outside \<Rightarrow> compose_stack \<Rightarrow> string list \<Rightarrow> string option \<Rightarrow> bool \<Rightarrow> bool \<Rightarrow> ('s, string option) script" where
  "stack_run ob sk arguments input_text capture_output check =
     run_text ob ((stack_process ob sk arguments)\<lparr>ps_input := map_option utf8_encode input_text,
       ps_capture := capture_output, ps_check := check\<rparr>)"

abbreviation stack_do :: "'s outside \<Rightarrow> compose_stack \<Rightarrow> string list \<Rightarrow> ('s, string option) script" where
  "stack_do ob sk arguments \<equiv> stack_run ob sk arguments None False True"

definition stack_run_bytes :: "'s outside \<Rightarrow> compose_stack \<Rightarrow> string list \<Rightarrow> bytes option \<Rightarrow> ('s, bytes) script" where
  "stack_run_bytes ob sk arguments input_bytes =
     (let p = (stack_process ob sk arguments)\<lparr>ps_input := input_bytes, ps_capture := True\<rparr>
      in and_then (launch ob p) (\<lambda>(code, out). and_then (yield (checked p code)) (\<lambda>_. give out)))"

definition start_database :: "'s outside \<Rightarrow> compose_stack \<Rightarrow> ('s, unit) script" where
  "start_database ob sk = and_then (stack_do ob sk [''up'', ''-d'', ''--wait'', ''postgres'']) (\<lambda>_. give ())"

definition await_ready :: "'s outside \<Rightarrow> compose_stack \<Rightarrow> bool \<Rightarrow> ('s, unit) script" where
  "await_ready ob sk ready = wait_ready ob (stack_api sk) ready 60000000"

definition migrate_and_start :: "'s outside \<Rightarrow> compose_stack \<Rightarrow> ('s, unit) script" where
  "migrate_and_start ob sk =
     and_then (stack_do ob sk [''run'', ''--rm'', ''migrate'']) (\<lambda>_.
     and_then (stack_do ob sk [''up'', ''-d'', ''--no-deps'', ''shepherd-rm'', ''worker'']) (\<lambda>_.
     await_ready ob sk True))"

definition stack_bootstrap :: "'s outside \<Rightarrow> compose_stack \<Rightarrow> string \<Rightarrow> string \<Rightarrow> ('s, unit) script" where
  "stack_bootstrap ob sk username password =
     and_then (stack_run ob sk
         [''run'', ''--rm'', ''--no-deps'', ''-T'', ''shepherd-rm'', ''shepherd-rm-bootstrap-admin'', username]
         (Some (password @ [CHR 0x0A] @ password @ [CHR 0x0A])) True True) (\<lambda>_. give ())"

definition stack_cleanup :: "'s outside \<Rightarrow> compose_stack \<Rightarrow> ('s, unit) script" where
  "stack_cleanup ob sk =
     and_then (stack_run ob sk [''down'', ''--volumes'', ''--remove-orphans''] None False False) (\<lambda>_. give ())"

definition write_secret :: "'s outside \<Rightarrow> string \<Rightarrow> string \<Rightarrow> ('s, unit) script" where
  "write_secret ob path contents =
     and_then (draw (\<lambda>s. (ob_exists ob path s, s))) (\<lambda>exists.
     and_then (if exists then file_do ob (Chmod path 384) else give ()) (\<lambda>_.
     and_then (file_do ob (WriteText path contents)) (\<lambda>_.
     file_do ob (Chmod path 292))))"

subsection \<open>Recovery\<close>

definition read_lease :: "'s outside \<Rightarrow> compose_stack \<Rightarrow> string \<Rightarrow> string \<Rightarrow> string \<Rightarrow> ('s, json) script" where
  "read_lease ob sk lease_id token context =
     expected_call ob (stack_api sk) ''GET'' (''/v1/leases/'' @ lease_id) (with_token token) 200 context"

definition verify_restart_and_expiration ::
  "'s outside \<Rightarrow> compose_stack \<Rightarrow> acceptance_state \<Rightarrow> string \<Rightarrow> ('s, unit) script" where
  "verify_restart_and_expiration ob sk st admin_password =
     and_then (stack_do ob sk [''restart'', ''shepherd-rm'']) (\<lambda>_.
     and_then (await_ready ob sk True) (\<lambda>_.
     and_then (client_login ob (stack_api sk) ''release-admin'' admin_password) (\<lambda>_.
     and_then (stack_do ob sk [''stop'', ''postgres'']) (\<lambda>_.
     and_then (await_ready ob sk False) (\<lambda>_.
     and_then (stack_do ob sk [''start'', ''postgres'']) (\<lambda>_.
     and_then (await_ready ob sk True) (\<lambda>_.
     and_then (stack_do ob sk [''stop'', ''worker'']) (\<lambda>_.
     and_then (create_expiring_lease ob (stack_api sk) st) (\<lambda>lease_id.
     and_then (sleep ob 2000000) (\<lambda>_.
     and_then (read_lease ob sk lease_id (as_user_token st) ''read overdue lease while worker is stopped'') (\<lambda>lease.
     and_then (yield (subscript lease ''state'')) (\<lambda>state.
     and_then (demand (state = JStr ''Active'')
         (ScriptError ''Stopped worker did not preserve the overdue lease for catch-up'')) (\<lambda>_.
     and_then (stack_do ob sk [''up'', ''-d'', ''--no-deps'', ''worker'']) (\<lambda>_.
     and_then (wait_lease_state ob (stack_api sk) (as_user_token st) lease_id ''Expired'' 30000000) (\<lambda>_.
     and_then (read_lease ob sk lease_id (as_user_token st) ''read caught-up lease'') (\<lambda>expired.
     and_then (yield (subscript expired ''end_reason'')) (\<lambda>reason.
     demand (reason = JStr ''Expired'')
       (ScriptError ''Expiration catch-up did not record the Expired end reason''))))))))))))))))))"

definition pg_login :: string where
  "pg_login = ''--username=\"$POSTGRES_USER\" --dbname=\"$POSTGRES_DB\" ''"

definition in_postgres :: "string \<Rightarrow> string list" where
  "in_postgres command = [''exec'', ''-T'', ''postgres'', ''sh'', ''-c'', command]"

definition database_dump :: "'s outside \<Rightarrow> compose_stack \<Rightarrow> ('s, bytes) script" where
  "database_dump ob sk =
     and_then (stack_run_bytes ob sk (in_postgres (''pg_dump '' @ pg_login @ ''--format=custom --create'')) None) (\<lambda>dump.
     and_then (demand (dump \<noteq> []) (ScriptError ''PostgreSQL backup was empty'')) (\<lambda>_.
     and_then (stack_run_bytes ob sk [''exec'', ''-T'', ''postgres'', ''pg_restore'', ''--list''] (Some dump)) (\<lambda>listing.
     and_then (demand (has_infix (utf8_encode ''TABLE DATA public'') listing)
         (ScriptError ''PostgreSQL backup did not contain application table data'')) (\<lambda>_.
     give dump))))"

definition restore_database :: "'s outside \<Rightarrow> compose_stack \<Rightarrow> bytes \<Rightarrow> ('s, unit) script" where
  "restore_database ob sk dump =
     and_then (start_database ob sk) (\<lambda>_.
     and_then (stack_run_bytes ob sk (in_postgres
         ''pg_restore --username=\"$POSTGRES_USER\" --clean --if-exists --create --dbname=postgres'') (Some dump)) (\<lambda>_.
     migrate_and_start ob sk))"

definition secret_path :: "acceptance_state \<Rightarrow> string" where
  "secret_path st = ''/v1/resources/'' @ as_resource_id st @ ''/secrets/'' @ as_secret_id st @ ''/access''"

definition verify_restored_state ::
  "'s outside \<Rightarrow> compose_stack \<Rightarrow> acceptance_state \<Rightarrow> string \<Rightarrow> string \<Rightarrow> ('s, unit) script" where
  "verify_restored_state ob sk st admin_username admin_password =
     and_then (client_login ob (stack_api sk) admin_username admin_password) (\<lambda>token.
     and_then (expected_call ob (stack_api sk) ''GET'' (''/v1/resources/'' @ as_resource_id st) (with_token token)
         200 ''read restored resource'') (\<lambda>resource.
     and_then (yield (text_at resource ''id'')) (\<lambda>resource_id.
     and_then (demand (resource_id = as_resource_id st) (ScriptError ''Restored resource identity changed'')) (\<lambda>_.
     and_then (read_lease ob sk (as_released_lease_id st) token ''read restored lease history'') (\<lambda>lease.
     and_then (yield (subscript lease ''state'')) (\<lambda>state.
     and_then (demand (state = JStr ''Released'') (ScriptError ''Restored lease history changed'')) (\<lambda>_.
     and_then (expected_call ob (stack_api sk) ''POST'' (secret_path st) (with_token token)
         200 ''access restored managed secret'') (\<lambda>accessed.
     and_then (yield (subscript accessed ''value'')) (\<lambda>value.
     and_then (demand (value = JStr (as_secret_value st))
         (ScriptError ''Restored key ring could not decrypt managed-secret material'')) (\<lambda>_.
     and_then (stack_run ob sk (in_postgres (''psql '' @ pg_login @
         ''--tuples-only --no-align --command=\"SELECT count(*) FROM audit_events\"'')) None True True) (\<lambda>counted.
     and_then (yield (case counted of None \<Rightarrow> Inl WrongType
         | Some text \<Rightarrow> (case parse_int (strip_header text) of None \<Rightarrow> Inl BadValue | Some n \<Rightarrow> Inr n))) (\<lambda>audit_count.
     demand (0 < audit_count) (ScriptError ''Restored database lost audit history'')))))))))))))"

definition verify_key_ring_boundary ::
  "'s outside \<Rightarrow> compose_stack \<Rightarrow> string \<Rightarrow> string \<Rightarrow> acceptance_state \<Rightarrow> string \<Rightarrow> string \<Rightarrow> ('s, unit) script" where
  "verify_key_ring_boundary ob sk key_ring_path key_ring st admin_username admin_password =
     and_then (write_secret ob key_ring_path ''{}'') (\<lambda>_.
     and_then (stack_do ob sk [''restart'', ''shepherd-rm'']) (\<lambda>_.
     and_then (await_ready ob sk True) (\<lambda>_.
     and_then (client_login ob (stack_api sk) admin_username admin_password) (\<lambda>token.
     and_then (expected_call ob (stack_api sk) ''POST'' (secret_path st) (with_token token)
         503 ''deny managed-secret access without the key ring'') (\<lambda>_.
     and_then (write_secret ob key_ring_path key_ring) (\<lambda>_.
     and_then (stack_do ob sk [''restart'', ''shepherd-rm'']) (\<lambda>_.
     and_then (await_ready ob sk True) (\<lambda>_.
     verify_restored_state ob sk st admin_username admin_password))))))))"

abbreviation quote :: string where
  "quote \<equiv> [CHR 0x27]"

definition verify_corrupt_ciphertext ::
  "'s outside \<Rightarrow> compose_stack \<Rightarrow> acceptance_state \<Rightarrow> string \<Rightarrow> string \<Rightarrow> ('s, unit) script" where
  "verify_corrupt_ciphertext ob sk st admin_username admin_password =
     and_then (stack_do ob sk (in_postgres (''psql '' @ pg_login @
         ''--command=\"UPDATE resource_secrets SET encrypted_value = decode('' @ quote @ ''00'' @ quote @ '', '' @ quote @
         ''hex'' @ quote @ '') WHERE id = '' @ quote @ as_secret_id st @ quote @ ''\"''))) (\<lambda>_.
     and_then (client_login ob (stack_api sk) admin_username admin_password) (\<lambda>token.
     and_then (request ob (stack_api sk) ''POST'' (secret_path st) (with_token token)) (\<lambda>result.
     and_then (yield (expect result 500 ''deny invalid managed ciphertext'')) (\<lambda>body.
     demand (\<not> list_ex (\<lambda>text. has_infix text (dumps_spaced body))
         [as_secret_value st, ''SecretDecryptionError'', ''ciphertext'', ''nonce'', ''key''])
       (ScriptError ''Invalid ciphertext response exposed crypto or secret material'')))))"

definition verify_logs_do_not_contain :: "'s outside \<Rightarrow> compose_stack \<Rightarrow> string list \<Rightarrow> ('s, unit) script" where
  "verify_logs_do_not_contain ob sk canaries =
     and_then (stack_run ob sk [''logs'', ''--no-color'', ''shepherd-rm'', ''worker''] None True True) (\<lambda>captured.
     and_then (yield (case captured of None \<Rightarrow> Inl WrongType | Some logs \<Rightarrow> Inr logs)) (\<lambda>logs.
     demand (filter (\<lambda>canary. has_infix canary logs) canaries = [])
       (ScriptError ''Release logs contained a submitted secret canary'')))"

subsection \<open>The release\<close>

definition exercise_source ::
  "'s outside \<Rightarrow> compose_stack \<Rightarrow> string \<Rightarrow> string \<Rightarrow> string \<Rightarrow> ('s, acceptance_state \<times> json) script" where
  "exercise_source ob source admin_username admin_password user_password =
     and_then (start_database ob source) (\<lambda>_.
     and_then (migrate_and_start ob source) (\<lambda>_.
     and_then (stack_bootstrap ob source admin_username admin_password) (\<lambda>_.
     and_then (run_api_smoke ob (stack_api source) admin_username admin_password user_password) (\<lambda>st.
     and_then (run_security_probes ob (stack_api source) st) (\<lambda>security_canary.
     and_then (run_concurrency_probe ob (stack_api source) st) (\<lambda>concurrency.
     and_then (verify_restart_and_expiration ob source st admin_password) (\<lambda>_.
     and_then (verify_logs_do_not_contain ob source [security_canary, as_secret_value st]) (\<lambda>_.
     give (st, concurrency)))))))))"

definition exercise_restored ::
  "'s outside \<Rightarrow> compose_stack \<Rightarrow> bytes \<Rightarrow> string \<Rightarrow> string \<Rightarrow> acceptance_state \<Rightarrow> string \<Rightarrow> string \<Rightarrow> ('s, unit) script" where
  "exercise_restored ob restored dump key_ring_path key_ring st admin_username admin_password =
     and_then (restore_database ob restored dump) (\<lambda>_.
     and_then (verify_restored_state ob restored st admin_username admin_password) (\<lambda>_.
     and_then (verify_key_ring_boundary ob restored key_ring_path key_ring st admin_username admin_password) (\<lambda>_.
     and_then (verify_corrupt_ciphertext ob restored st admin_username admin_password) (\<lambda>_.
     verify_logs_do_not_contain ob restored [as_secret_value st]))))"

definition release_evidence :: "'s outside \<Rightarrow> string \<Rightarrow> bytes \<Rightarrow> json \<Rightarrow> json" where
  "release_evidence ob image_ref dump concurrency =
     JObj [(''image'', JStr image_ref), (''database_backup_sha256'', JStr (ob_sha256 ob dump)), (''concurrency'', concurrency),
       (''checks'', JList (map JStr [''artifact-smoke'', ''security-abuse'', ''api-database-worker-recovery'',
          ''expiration-catch-up'', ''backup-restore'', ''managed-secret-key-boundary'', ''invalid-ciphertext'']))]"

text \<open>The two stacks between their creation and their removal.\<close>

definition exercise_stacks ::
  "'s outside \<Rightarrow> string \<Rightarrow> compose_stack \<Rightarrow> compose_stack \<Rightarrow> string \<Rightarrow> string \<Rightarrow> string \<Rightarrow> string \<Rightarrow> string \<Rightarrow> ('s, json) script" where
  "exercise_stacks ob image_ref source restored key_ring_path key_ring admin_username admin_password user_password =
     finally_do
       (and_then (exercise_source ob source admin_username admin_password user_password) (\<lambda>(st, concurrency).
        and_then (database_dump ob source) (\<lambda>dump.
        and_then (exercise_restored ob restored dump key_ring_path key_ring st admin_username admin_password) (\<lambda>_.
        give (release_evidence ob image_ref dump concurrency)))))
       (and_then (stack_cleanup ob restored) (\<lambda>_. stack_cleanup ob source))"

text \<open>What happens inside of the temporary directory.\<close>

definition deploy_release ::
  "'s outside \<Rightarrow> string \<Rightarrow> string \<Rightarrow> string \<Rightarrow> string \<Rightarrow> string \<Rightarrow> string \<Rightarrow> ('s, json) script" where
  "deploy_release ob image_ref run_id admin_password user_password key_ring secrets_dir =
     (let key_ring_path = secrets_dir @ ''/secret_encryption_keys.json'' in
     and_then (draw (ob_token_urlsafe ob 24)) (\<lambda>database_password.
     and_then (write_secret ob (secrets_dir @ ''/postgres_password'') database_password) (\<lambda>_.
     and_then (write_secret ob key_ring_path key_ring) (\<lambda>_.
     and_then (available_port ob) (\<lambda>source_port.
     and_then (available_port ob) (\<lambda>restored_port.
     exercise_stacks ob image_ref
       (new_stack (''shepherdrm-r4-'' @ run_id) image_ref secrets_dir source_port)
       (new_stack (''shepherdrm-r4-restore-'' @ run_id) image_ref secrets_dir restored_port)
       key_ring_path key_ring ''release-admin'' admin_password user_password))))))"

definition verify_release :: "'s outside \<Rightarrow> string \<Rightarrow> ('s, json) script" where
  "verify_release ob image_ref =
     and_then (draw (ob_uuid_hex ob)) (\<lambda>hex.
     and_then (draw (ob_token_urlsafe ob 24)) (\<lambda>admin_password.
     and_then (draw (ob_token_urlsafe ob 24)) (\<lambda>user_password.
     and_then (draw (ob_token_bytes ob 32)) (\<lambda>key.
     let key_ring = json_dumps False (JObj [(''acceptance'', JStr (b64encode key))]) in
     with_temporary_directory ob ''shepherdrm-acceptance-''
       (deploy_release ob image_ref (take 12 hex) admin_password user_password key_ring)))))"

text \<open>\<open>main\<close> up to the printing of the evidence.\<close>

definition release_main :: "'s outside \<Rightarrow> string \<Rightarrow> ('s, json) script" where
  "release_main ob image_ref =
     and_then monotonic (\<lambda>started.
     and_then (verify_release ob image_ref) (\<lambda>evidence.
     and_then monotonic (\<lambda>now.
     give (case evidence of
         JObj kvs \<Rightarrow> JObj (dict_set ''duration_seconds'' (JFloat (seconds_text (round_millis (now - started) 1))) kvs)
       | _ \<Rightarrow> evidence))))"

end
