(* ===== verification/Dev_Tasks.thy ===== *)
theory Dev_Tasks
  imports Scripting
begin

text \<open>
  The task runner \<open>scripts/dev.py\<close> and the check of a built image, \<open>scripts/verify_image.py\<close>.
\<close>

subsection \<open>Tasks\<close>

definition plain_process :: "string option \<Rightarrow> string list \<Rightarrow> process" where
  "plain_process cwd command =
     \<lparr>ps_command = command, ps_cwd = cwd, ps_environment = [], ps_input = None, ps_capture = False, ps_check = True\<rparr>"

definition dev_run :: "'s outside \<Rightarrow> string list \<Rightarrow> ('s, unit) script" where
  "dev_run ob command = and_then (run_text ob (plain_process (Some (ob_root ob)) command)) (\<lambda>_. give ())"

definition uv_run :: "'s outside \<Rightarrow> string list \<Rightarrow> ('s, unit) script" where
  "uv_run ob command = dev_run ob ([''uv'', ''run'', ''--locked''] @ command)"

definition dev_install :: "'s outside \<Rightarrow> ('s, unit) script" where
  "dev_install ob = dev_run ob [''uv'', ''sync'', ''--locked'']"

definition dev_test :: "'s outside \<Rightarrow> ('s, unit) script" where
  "dev_test ob = uv_run ob [''pytest'']"

definition dev_lint :: "'s outside \<Rightarrow> ('s, unit) script" where
  "dev_lint ob = uv_run ob [''ruff'', ''check'', ''.'']"

definition format_code :: "'s outside \<Rightarrow> ('s, unit) script" where
  "format_code ob = and_then (uv_run ob [''ruff'', ''format'', ''.'']) (\<lambda>_. uv_run ob [''ruff'', ''check'', ''--fix'', ''.''])"

definition format_check :: "'s outside \<Rightarrow> ('s, unit) script" where
  "format_check ob = uv_run ob [''ruff'', ''format'', ''--check'', ''.'']"

definition typecheck :: "'s outside \<Rightarrow> ('s, unit) script" where
  "typecheck ob = uv_run ob [''mypy'']"

definition dev_docs :: "'s outside \<Rightarrow> ('s, unit) script" where
  "dev_docs ob = uv_run ob [''sphinx-build'', ''-W'', ''--keep-going'', ''-b'', ''html'', ''docs'', ''docs/_build/html'']"

definition dev_serve :: "'s outside \<Rightarrow> ('s, unit) script" where
  "dev_serve ob = uv_run ob [''uvicorn'', ''shepherd_rm.main:app'', ''--reload'', ''--host'', ''127.0.0.1'',
     ''--port'', ''8000'', ''--no-access-log'']"

definition dev_check :: "'s outside \<Rightarrow> ('s, unit) script" where
  "dev_check ob = and_then (for_each [dev_lint, format_check, typecheck, dev_test, dev_docs] (\<lambda>task. task ob)) (\<lambda>_. give ())"

definition db_up :: "'s outside \<Rightarrow> ('s, unit) script" where
  "db_up ob = dev_run ob [''docker'', ''compose'', ''up'', ''-d'', ''postgres'']"

definition db_down :: "'s outside \<Rightarrow> ('s, unit) script" where
  "db_down ob = dev_run ob [''docker'', ''compose'', ''down'']"

definition dev_migrate :: "'s outside \<Rightarrow> ('s, unit) script" where
  "dev_migrate ob = uv_run ob [''alembic'', ''upgrade'', ''head'']"

definition migration_check :: "'s outside \<Rightarrow> ('s, unit) script" where
  "migration_check ob = uv_run ob [''alembic'', ''check'']"

text \<open>The trimmed standard output of a command.\<close>

definition output_of :: "'s outside \<Rightarrow> string option \<Rightarrow> string list \<Rightarrow> ('s, string) script" where
  "output_of ob cwd command =
     and_then (run_text ob ((plain_process cwd command)\<lparr>ps_capture := True\<rparr>)) (\<lambda>captured.
     yield (case captured of None \<Rightarrow> Inl WrongType | Some text \<Rightarrow> Inr (strip_header text)))"

definition build_image :: "'s outside \<Rightarrow> string \<Rightarrow> ('s, unit) script" where
  "build_image ob tag =
     and_then (output_of ob (Some (ob_root ob)) [''git'', ''rev-parse'', ''HEAD'']) (\<lambda>revision.
     dev_run ob [''docker'', ''build'', ''--build-arg'', ''SHEPHERD_BUILD_VERSION=0.1.0'', ''--build-arg'',
       ''SHEPHERD_BUILD_REVISION='' @ revision, ''--tag'', tag, ''.''])"

definition image_check :: "'s outside \<Rightarrow> ('s, unit) script" where
  "image_check ob =
     (let tag = ''shepherd-rm:check'' in
     and_then (build_image ob tag) (\<lambda>_. dev_run ob [''python3'', ''scripts/verify_image.py'', tag]))"

definition release_check :: "'s outside \<Rightarrow> ('s, unit) script" where
  "release_check ob =
     (let tag = ''shepherd-rm:acceptance'' in
     and_then (build_image ob tag) (\<lambda>_.
     and_then (dev_run ob [''python3'', ''scripts/verify_image.py'', tag]) (\<lambda>_.
     dev_run ob [''python3'', ''scripts/verify_release_deployment.py'', tag])))"

definition dev_clean :: "'s outside \<Rightarrow> ('s, unit) script" where
  "dev_clean ob =
     and_then (for_each [''.pytest_cache'', ''.mypy_cache'', ''.ruff_cache'', ''docs/_build'', ''htmlcov''] (\<lambda>relative_path.
       let path = ob_root ob @ ''/'' @ relative_path in
       and_then (draw (\<lambda>s. (ob_exists ob path s, s))) (\<lambda>exists.
       if exists then file_do ob (RemoveTree path) else give ()))) (\<lambda>_. give ())"

definition TASKS :: "(string \<times> ('s outside \<Rightarrow> ('s, unit) script)) list" where
  "TASKS = [(''install'', dev_install), (''test'', dev_test), (''lint'', dev_lint), (''format'', format_code),
     (''format-check'', format_check), (''typecheck'', typecheck), (''docs'', dev_docs), (''serve'', dev_serve),
     (''check'', dev_check), (''db-up'', db_up), (''db-down'', db_down), (''migrate'', dev_migrate),
     (''migration-check'', migration_check), (''image-check'', image_check), (''release-check'', release_check),
     (''clean'', dev_clean)]"

text \<open>
  How the runner ends: with a status, with a message and status 1, by a refusal of its arguments (status 2),
  or by an exception it does not handle.
\<close>

datatype ending = ExitStatus int | ExitMessage string | UsageError | Traceback fault

definition dev_main :: "'s outside \<Rightarrow> string list \<Rightarrow> 's scene \<Rightarrow> (ending \<times> 's scene) option" where
  "dev_main ob arguments w =
     (case arguments of
        [name] \<Rightarrow>
          (case map_of TASKS name of
             None \<Rightarrow> Some (UsageError, w)
           | Some task \<Rightarrow> map_option (\<lambda>(outcome, w'). (case outcome of
                 Inr _ \<Rightarrow> ExitStatus 0
               | Inl (FileNotFound name) \<Rightarrow> ExitMessage (''Required command is not installed: '' @ name)
               | Inl (ProcessFailed code) \<Rightarrow> ExitStatus code
               | Inl e \<Rightarrow> Traceback e, w')) (task ob w))
      | _ \<Rightarrow> Some (UsageError, w))"

subsection \<open>The image\<close>

definition read_file :: "'s outside \<Rightarrow> string \<Rightarrow> ('s, bytes) script" where
  "read_file ob path w = Some (ob_read ob path (sc_rest w), w)"

fun path_parts :: "string \<Rightarrow> string list" where
  "path_parts [] = [[]]"
| "path_parts (c # cs) =
     (if c = CHR ''/'' then [] # path_parts cs
      else (case path_parts cs of p # ps \<Rightarrow> (c # p) # ps | [] \<Rightarrow> [[c]]))"

definition contract_manifest :: "'s outside \<Rightarrow> string \<Rightarrow> ('s, (string \<times> string) list) script" where
  "contract_manifest ob directory =
     and_then (draw (\<lambda>s. (ob_rglob ob (directory @ ''/migrations'') ''*.py'' s, s))) (\<lambda>found.
     and_then (for_each (''openapi/openapi.yaml'' # sort_key path_parts (map ((@) ''migrations/'') found)) (\<lambda>path.
         and_then (read_file ob (directory @ ''/'' @ path)) (\<lambda>contents. give (path, ob_sha256 ob contents)))) (\<lambda>entries.
     give (dict_of entries)))"

text \<open>Equality of a decoded value with a dictionary of texts, whatever the order of the keys.\<close>

definition equals_dict :: "json \<Rightarrow> (string \<times> string) list \<Rightarrow> bool" where
  "equals_dict j kvs = (case j of
       JObj members \<Rightarrow> list_all (\<lambda>k. map_of members k = map_option JStr (map_of kvs k)) (map fst members @ map fst kvs)
     | _ \<Rightarrow> False)"

definition script_lines :: "string list \<Rightarrow> string" where
  "script_lines ls = CHR 0x0A # concat (map (\<lambda>l. l @ [CHR 0x0A]) ls)"

definition runtime_check :: string where
  "runtime_check = script_lines
     [''import importlib.util'', ''import os'', ''import pathlib'', ''import shutil'', [],
      ''assert os.getuid() == 10001'',
      ''state_directory = pathlib.Path('/var/lib/shepherd-rm')'',
      ''assert state_directory.is_dir()'',
      ''assert os.access(state_directory, os.W_OK)'',
      ''for package in ('mypy', 'pytest', 'ruff', 'sphinx'):'',
      ''    assert importlib.util.find_spec(package) is None, package'',
      ''for command in ('uv', 'uvx'):'',
      ''    assert shutil.which(command) is None, command'',
      ''for path in ('/app/.env', '/app/pyproject.toml', '/app/uv.lock', '/app/src'):'',
      ''    assert not pathlib.Path(path).exists(), path'',
      ''import shepherd_rm'']"

definition manifest_script :: string where
  "manifest_script = script_lines
     [''import hashlib'', ''import json'', ''import pathlib'', [],
      ''root = pathlib.Path('/app')'',
      ''paths = [root / 'openapi' / 'openapi.yaml', *sorted((root / 'migrations').rglob('*.py'))]'',
      ''print(json.dumps({'',
      ''    path.relative_to(root).as_posix(): hashlib.sha256(path.read_bytes()).hexdigest()'',
      ''    for path in paths'',
      ''}, sort_keys=True))'']"

definition inspect_image :: "'s outside \<Rightarrow> string \<Rightarrow> string \<Rightarrow> ('s, string) script" where
  "inspect_image ob template tag = output_of ob None [''docker'', ''image'', ''inspect'', ''--format'', template, tag]"

definition image_label :: "string \<Rightarrow> string" where
  "image_label name = ''{{index .Config.Labels \"org.opencontainers.image.'' @ name @ ''\"}}''"

definition in_image :: "string \<Rightarrow> string \<Rightarrow> string list" where
  "in_image tag program = [''docker'', ''run'', ''--rm'', ''--entrypoint'', ''python'', tag, ''-c'', program]"

definition verify_image :: "'s outside \<Rightarrow> string \<Rightarrow> string \<Rightarrow> ('s, unit) script" where
  "verify_image ob tag expected_version =
     and_then (inspect_image ob ''{{.Config.User}}'' tag) (\<lambda>configured_user.
     and_then (demand (configured_user = ''shepherd'')
         (ScriptError (''Image user is '' @ repr_text configured_user @ '', expected '' @ repr_text ''shepherd''))) (\<lambda>_.
     and_then (inspect_image ob (image_label ''version'') tag) (\<lambda>version.
     and_then (inspect_image ob (image_label ''revision'') tag) (\<lambda>revision.
     and_then (demand (version = expected_version)
         (ScriptError (''Image version label is '' @ repr_text version @ '', expected '' @ repr_text expected_version))) (\<lambda>_.
     and_then (demand (revision \<noteq> ''unknown'' \<and> 7 \<le> length revision)
         (ScriptError ''Image revision label must identify the source commit'')) (\<lambda>_.
     and_then (run_text ob (plain_process None (in_image tag runtime_check))) (\<lambda>_.
     and_then (output_of ob None (in_image tag manifest_script)) (\<lambda>text.
     and_then (yield (case (if list_all (\<lambda>c. (of_char c :: nat) < 128) text then json_loads (ob_float ob) text else ob_loads ob text)
         of None \<Rightarrow> Inl BadValue | Some j \<Rightarrow> Inr j)) (\<lambda>embedded_manifest.
     and_then (contract_manifest ob (ob_root ob)) (\<lambda>manifest.
     demand (equals_dict embedded_manifest manifest)
       (ScriptError ''Image contract or migration sources differ from the release tree'')))))))))))"

text \<open>\<open>main\<close> with its defaults.\<close>

definition image_main :: "'s outside \<Rightarrow> string option \<Rightarrow> string option \<Rightarrow> ('s, unit) script" where
  "image_main ob expected_version tag =
     verify_image ob (case tag of None \<Rightarrow> ''shepherd-rm:check'' | Some t \<Rightarrow> t)
       (case expected_version of None \<Rightarrow> ''0.1.0'' | Some v \<Rightarrow> v)"

end
