(* ===== verification/Scripting_Laws.thy ===== *)
theory Scripting_Laws
  imports Acceptance
begin

text \<open>
  A script that \<open>performs P\<close> always returns, never turns the clock back, and adds to the trace only
  effects that satisfy \<open>P\<close>. The rules of the collection \<open>performing\<close> lead from the primitives to
  the probes; both waiting loops end because every round sleeps.
\<close>

named_theorems performing \<open>scripts that return and keep to allowed effects\<close>

definition follows :: "(effect \<Rightarrow> bool) \<Rightarrow> 's scene \<Rightarrow> 's scene \<Rightarrow> bool" where
  "follows P w w' \<longleftrightarrow> (\<exists>es. sc_trace w' = sc_trace w @ es \<and> list_all P es) \<and> sc_now w \<le> sc_now w'"

definition performs :: "(effect \<Rightarrow> bool) \<Rightarrow> ('s, 'a) script \<Rightarrow> bool" where
  "performs P m \<longleftrightarrow> (\<forall>w. \<exists>r w'. m w = Some (r, w') \<and> follows P w w')"

lemma follows_refl [simp]: "follows P w w"
  by (simp add: follows_def)

lemma follows_trans: "follows P w w1 \<Longrightarrow> follows P w1 w2 \<Longrightarrow> follows P w w2"
  by (auto simp: follows_def)

lemma follows_effect: "sc_trace w' = sc_trace w @ [e] \<Longrightarrow> P e \<Longrightarrow> sc_now w \<le> sc_now w' \<Longrightarrow> follows P w w'"
  by (simp add: follows_def)

lemma follows_quiet: "sc_trace w' = sc_trace w \<Longrightarrow> sc_now w \<le> sc_now w' \<Longrightarrow> follows P w w'"
  by (simp add: follows_def)

lemma performsI: "(\<And>w. \<exists>r w'. m w = Some (r, w') \<and> follows P w w') \<Longrightarrow> performs P m"
  by (simp add: performs_def)

lemma performsD:
  assumes "performs P m"
  obtains r w' where "m w = Some (r, w')" "follows P w w'"
  using assms unfolding performs_def by blast

lemma follows_mono: "follows P w w' \<Longrightarrow> (\<And>e. P e \<Longrightarrow> Q e) \<Longrightarrow> follows Q w w'"
  unfolding follows_def using list.pred_mono_strong by blast

lemma performs_mono: "performs P m \<Longrightarrow> (\<And>e. P e \<Longrightarrow> Q e) \<Longrightarrow> performs Q m"
  unfolding performs_def using follows_mono [of P _ _ Q] by blast

subsection \<open>Sequencing\<close>

lemma performs_give [performing]: "performs P (give x)"
  by (simp add: performs_def give_def)

lemma performs_throw [performing]: "performs P (throw e)"
  by (simp add: performs_def throw_def)

lemma performs_yield [performing]: "performs P (yield r)"
  by (simp add: performs_def yield_def)

lemma performs_monotonic [performing]: "performs P monotonic"
  by (simp add: performs_def monotonic_def)

lemma performs_demand [performing]: "performs P (demand c e)"
  by (simp add: demand_def performing)

lemma performs_draw [performing]: "performs P (draw f)"
  by (auto simp: performs_def draw_def follows_def split: prod.split)

lemma performs_try_draw [performing]: "performs P (try_draw f)"
  by (auto simp: performs_def try_draw_def follows_def split: prod.split)

lemma performs_and_then [performing]:
  assumes "performs P m" and "\<And>x. performs P (f x)"
  shows "performs P (and_then m f)"
proof (rule performsI)
  fix w
  obtain r w1 where m: "m w = Some (r, w1)" "follows P w w1" using assms(1) by (rule performsD)
  show "\<exists>r w'. and_then m f w = Some (r, w') \<and> follows P w w'"
  proof (cases r)
    case (Inl e)
    with m show ?thesis by (simp add: and_then_def)
  next
    case (Inr x)
    obtain r' w2 where "f x w1 = Some (r', w2)" "follows P w1 w2" using assms(2) by (rule performsD)
    with m Inr show ?thesis by (auto simp: and_then_def intro: follows_trans)
  qed
qed

lemma and_then_cases:
  assumes "and_then m f w = Some (r, w')"
  obtains (raised) e where "m w = Some (Inl e, w')" "r = Inl e"
    | (went_on) x w1 where "m w = Some (Inr x, w1)" "f x w1 = Some (r, w')"
  using assms by (auto simp: and_then_def split: option.splits sum.splits)

lemma and_then_draw: "and_then (draw g) f w = f (fst (g (sc_rest w))) (w\<lparr>sc_rest := snd (g (sc_rest w))\<rparr>)"
  by (simp add: and_then_def draw_def split: prod.split)

lemma performs_finally_do [performing]:
  assumes "performs P m" and "performs P final"
  shows "performs P (finally_do m final)"
proof (rule performsI)
  fix w
  obtain r w1 where m: "m w = Some (r, w1)" "follows P w w1" using assms(1) by (rule performsD)
  obtain r' w2 where "final w1 = Some (r', w2)" "follows P w1 w2" using assms(2) by (rule performsD)
  with m show "\<exists>r w'. finally_do m final w = Some (r, w') \<and> follows P w w'"
    by (auto simp: finally_do_def intro: follows_trans)
qed

lemma performs_attempt_run [performing]: "performs P m \<Longrightarrow> performs P (attempt_run m)"
  unfolding performs_def attempt_run_def by (metis (no_types, lifting) option.simps(5) prod.case)

lemma performs_for_each [performing]: "(\<And>x. performs P (f x)) \<Longrightarrow> performs P (for_each xs f)"
  by (induction xs) (simp_all add: performing)

lemma performs_Let [performing]: "performs P (f x) \<Longrightarrow> performs P (Let x f)"
  by simp

lemma performs_if [performing]: "performs P a \<Longrightarrow> performs P b \<Longrightarrow> performs P (if c then a else b)"
  by simp

lemma performs_case_prod [performing]: "(\<And>a b. performs P (f a b)) \<Longrightarrow> performs P (case p of (a, b) \<Rightarrow> f a b)"
  by (cases p) simp

lemma performs_run_in_order [performing]: "(\<And>i. performs P (f i)) \<Longrightarrow> performs P (run_in_order f order)"
  unfolding run_in_order_def by (intro performing)

lemma performs_pool_map [performing]: "(\<And>i. performs P (f i)) \<Longrightarrow> performs P (pool_map ob f n)"
  using performs_run_in_order [of P f] by (auto simp: performs_def pool_map_def)

subsection \<open>Primitives\<close>

text \<open>\<open>P\<close> allows every request of a client, every operation on files.\<close>

definition talks :: "(effect \<Rightarrow> bool) \<Rightarrow> api_client \<Rightarrow> bool" where
  "talks P api \<longleftrightarrow> (\<forall>method path co outcome. P (Sent (build_request api method path co) outcome))"

lemma send_follows: "talks P api \<Longrightarrow> send ob api method path co w = (outcome, w') \<Longrightarrow> follows P w w'"
  by (auto simp: send_def Let_def talks_def follows_def split: prod.splits)

lemma performs_request [performing]: "talks P api \<Longrightarrow> performs P (request ob api method path co)"
  unfolding performs_def request_def by (metis send_follows surj_pair)

lemma performs_expected_call [performing]: "talks P api \<Longrightarrow> performs P (expected_call ob api method path co status context)"
  unfolding expected_call_def by (intro performing)

lemma nap_scene: "sc_trace (nap ob us w) = sc_trace w" "sc_now w + int us \<le> sc_now (nap ob us w)"
  by (simp_all add: nap_def split: prod.split)

lemma nap_follows: "follows P w (nap ob us w)"
  using nap_scene [where ob = ob and us = us and w = w] by (intro follows_quiet) simp_all

lemma performs_sleep [performing]: "performs P (sleep ob us)"
  by (simp add: performs_def sleep_def nap_follows)

text \<open>Every command ends.\<close>

definition ends :: "'s outside \<Rightarrow> bool" where
  "ends ob \<longleftrightarrow> (\<forall>p s. ob_process ob p s \<noteq> None)"

lemma performs_launch [performing]:
  fixes ob :: "'s outside"
  assumes "ends ob" and "\<And>outcome. P (Ran p outcome)"
  shows "performs P (launch ob p)"
proof (rule performsI)
  fix w :: "'s scene"
  obtain outcome elapsed rest where "ob_process ob p (sc_rest w) = Some (outcome, elapsed, rest)"
    using assms(1) unfolding ends_def by (metis not_Some_eq prod_cases3)
  with assms(2) show "\<exists>r w'. launch ob p w = Some (r, w') \<and> follows P w w'" by (simp add: launch_def follows_def)
qed

lemma performs_run_text [performing]: "ends ob \<Longrightarrow> (\<And>outcome. P (Ran p outcome)) \<Longrightarrow> performs P (run_text ob p)"
  unfolding run_text_def by (intro performing)

lemma performs_file_do [performing]: "(\<And>outcome. P (Did op outcome)) \<Longrightarrow> performs P (file_do ob op)"
  by (auto simp: performs_def file_do_def follows_def split: prod.split)

subsection \<open>Waiting ends\<close>

lemma round_ends_sooner:
  assumes "follows P w w1" and "sc_now w < deadline"
  shows "nat (deadline - sc_now (nap ob 1000000 w1)) < nat (deadline - sc_now w)"
  using assms nap_scene(2) [of w1 1000000 ob] by (simp add: follows_def)

lemma poll_ready_returns:
  assumes "talks P api"
  shows "\<exists>r w'. poll_ready ob api ready deadline status w = Some (r, w') \<and> follows P w w'"
proof (induction "nat (deadline - sc_now w)" arbitrary: w status rule: less_induct)
  case less
  obtain outcome w1 where s: "send ob api ''GET'' ''/ready'' no_options w = (outcome, w1)" by fastforce
  note f = send_follows [OF assms s]
  show ?case
  proof (cases "sc_now w < deadline")
    case True
    have again: "\<exists>r w'. poll_ready ob api ready deadline status' (nap ob 1000000 w1) = Some (r, w') \<and> follows P w w'" for status'
      using less.hyps [OF round_ends_sooner [OF f True, of ob], of status'] f nap_follows follows_trans by meson
    then show ?thesis using True s f by (subst poll_ready.simps) (auto split: sum.split)
  qed (subst poll_ready.simps, simp)
qed

lemma performs_wait_ready [performing]: "talks P api \<Longrightarrow> performs P (wait_ready ob api ready timeout)"
  unfolding wait_ready_def by (intro performing performsI poll_ready_returns)

lemma poll_lease_returns:
  assumes "talks P api"
  shows "\<exists>r w'. poll_lease ob api token lid wanted deadline seen w = Some (r, w') \<and> follows P w w'"
proof (induction "nat (deadline - sc_now w)" arbitrary: w seen rule: less_induct)
  case less
  obtain outcome w1 where s: "send ob api ''GET'' (''/v1/leases/'' @ lid) (with_token token) w = (outcome, w1)" by fastforce
  note f = send_follows [OF assms s]
  show ?case
  proof (cases "sc_now w < deadline")
    case True
    have again: "\<exists>r w'. poll_lease ob api token lid wanted deadline seen' (nap ob 1000000 w1) = Some (r, w') \<and> follows P w w'" for seen'
      using less.hyps [OF round_ends_sooner [OF f True, of ob], of seen'] f nap_follows follows_trans by meson
    then show ?thesis using True s f by (subst poll_lease.simps) (auto split: sum.split)
  qed (subst poll_lease.simps, simp)
qed

lemma performs_wait_lease_state [performing]: "talks P api \<Longrightarrow> performs P (wait_lease_state ob api token lid wanted timeout)"
  unfolding wait_lease_state_def by (intro performing performsI poll_lease_returns)

subsection \<open>The probes\<close>

lemma performs_client_login [performing]: "talks P api \<Longrightarrow> performs P (client_login ob api username password)"
  unfolding client_login_def by (intro performing)

lemma performs_release_resource [performing]:
  "talks P api \<Longrightarrow> performs P (release_resource ob api token name resource_type run_id visibility)"
  unfolding release_resource_def by (intro performing)

lemma performs_smoke [performing]:
  assumes "talks P api"
  shows "performs P (smoke_identities ob api run_id admin_username admin_password user_password)"
    and "performs P (smoke_secret ob api admin_token resource_id secret_value)"
    and "performs P (smoke_lease ob api run_id user_token secret_id secret_value)"
  unfolding smoke_identities_def smoke_secret_def smoke_lease_def by (intro performing assms)+

lemma performs_probes [performing]:
  assumes "talks P api"
  shows "performs P (run_api_smoke ob api admin_username admin_password user_password)"
    and "performs P (run_security_probes ob api st)"
    and "performs P (run_concurrency_probe ob api st)"
    and "performs P (create_expiring_lease ob api st)"
  unfolding run_api_smoke_def run_security_probes_def run_concurrency_probe_def create_expiring_lease_def
    acquire_in_thread_def by (intro performing assms)+

end
