(* ===== verification/Deployment_Laws.thy ===== *)
theory Deployment_Laws
  imports Deployment Dev_Tasks Scripting_Laws Json_Roundtrip
begin

text \<open>
  The release verification returns if the commands it starts end, touches nothing but its own two Compose projects, loopback
  addresses and its temporary directory, and takes both projects down again whatever fails; waiting for
  readiness polls once a second; the task runner stops at the first failing command.
\<close>

subsection \<open>Allowed effects of a stack\<close>

definition operates :: "(effect \<Rightarrow> bool) \<Rightarrow> 's outside \<Rightarrow> compose_stack \<Rightarrow> bool" where
  "operates P ob sk \<longleftrightarrow> ends ob \<and> talks P (stack_api sk) \<and>
     (\<forall>arguments input capture check outcome. P (Ran ((stack_process ob sk arguments)\<lparr>ps_input := input,
        ps_capture := capture, ps_check := check\<rparr>) outcome))"

definition tends :: "(effect \<Rightarrow> bool) \<Rightarrow> string \<Rightarrow> bool" where
  "tends P path \<longleftrightarrow> (\<forall>mode outcome. P (Did (Chmod path mode) outcome)) \<and>
     (\<forall>contents outcome. P (Did (WriteText path contents) outcome))"

lemma performs_stack_run [performing]: "operates P ob sk \<Longrightarrow> performs P (stack_run ob sk arguments input capture check)"
  unfolding stack_run_def by (intro performing) (simp_all add: operates_def)

lemma performs_stack_run_bytes [performing]:
  assumes "operates P ob sk" shows "performs P (stack_run_bytes ob sk arguments input)"
proof -
  have "P (Ran ((stack_process ob sk arguments)\<lparr>ps_input := input, ps_capture := True\<rparr>) outcome)" for outcome
    using assms [unfolded operates_def, THEN conjunct2, THEN conjunct2, rule_format, where arguments = arguments and input = input
      and capture = True and check = True and outcome = outcome]
    by (simp add: stack_process_def)
  moreover have "ends ob" using assms by (simp add: operates_def)
  ultimately show ?thesis unfolding stack_run_bytes_def by (intro performing)
qed

lemma performs_await_ready [performing]: "operates P ob sk \<Longrightarrow> performs P (await_ready ob sk ready)"
  unfolding await_ready_def by (intro performing) (simp add: operates_def)

lemma performs_write_secret [performing]: "tends P path \<Longrightarrow> performs P (write_secret ob path contents)"
  unfolding write_secret_def by (intro performing) (simp_all add: tends_def)

lemma performs_stack [performing]:
  assumes "operates P ob sk"
  shows "performs P (start_database ob sk)" "performs P (migrate_and_start ob sk)"
    "performs P (stack_bootstrap ob sk username password)" "performs P (stack_cleanup ob sk)"
    "performs P (read_lease ob sk lid token context)"
  using assms unfolding start_database_def migrate_and_start_def stack_bootstrap_def stack_cleanup_def read_lease_def
  by (intro performing; simp add: operates_def)+

lemma performs_database [performing]:
  assumes "operates P ob sk"
  shows "performs P (database_dump ob sk)" "performs P (restore_database ob sk dump)"
  unfolding database_dump_def restore_database_def by (intro performing assms)+

lemma performs_verifications [performing]:
  assumes "operates P ob sk"
  shows "performs P (verify_restart_and_expiration ob sk st password)"
    "performs P (verify_restored_state ob sk st username password)"
    "performs P (verify_corrupt_ciphertext ob sk st username password)"
    "performs P (verify_logs_do_not_contain ob sk canaries)"
proof -
  have talk: "talks P (stack_api sk)" using assms by (simp add: operates_def)
  show "performs P (verify_restart_and_expiration ob sk st password)"
    "performs P (verify_restored_state ob sk st username password)"
    "performs P (verify_corrupt_ciphertext ob sk st username password)"
    "performs P (verify_logs_do_not_contain ob sk canaries)"
    unfolding verify_restart_and_expiration_def verify_restored_state_def verify_corrupt_ciphertext_def
      verify_logs_do_not_contain_def by (intro performing assms talk)+
qed

lemma performs_key_ring [performing]:
  assumes "operates P ob sk" and "tends P path"
  shows "performs P (verify_key_ring_boundary ob sk path key_ring st username password)"
proof -
  have talk: "talks P (stack_api sk)" using assms(1) by (simp add: operates_def)
  show ?thesis unfolding verify_key_ring_boundary_def by (intro performing assms talk)
qed

lemma performs_exercises [performing]:
  assumes "operates P ob source" and "operates P ob restored" and "tends P path"
  shows "performs P (exercise_source ob source username password user_password)"
    "performs P (exercise_restored ob restored dump path key_ring st username password)"
    "performs P (exercise_stacks ob image_ref source restored path key_ring username password user_password)"
proof -
  have talk: "talks P (stack_api source)" using assms(1) by (simp add: operates_def)
  show source: "performs P (exercise_source ob source username password user_password)"
    unfolding exercise_source_def by (intro performing assms talk)
  show restored: "performs P (exercise_restored ob restored dump path key_ring st username password)" for dump st
    unfolding exercise_restored_def by (intro performing assms)
  show "performs P (exercise_stacks ob image_ref source restored path key_ring username password user_password)"
    unfolding exercise_stacks_def by (intro performing source restored assms)
qed

subsection \<open>Scope\<close>

text \<open>The two files of the release, and the operations it may use: on these files, and the removal of the directory.\<close>

definition secret_files :: "string \<Rightarrow> string list" where
  "secret_files directory = [directory @ ''/postgres_password'', directory @ ''/secret_encryption_keys.json'']"

definition inside :: "string \<Rightarrow> file_op \<Rightarrow> bool" where
  "inside directory op = (case op of
       Chmod path _ \<Rightarrow> path \<in> set (secret_files directory)
     | WriteText path _ \<Rightarrow> path \<in> set (secret_files directory)
     | RemoveTree path \<Rightarrow> path = directory)"

definition release_projects :: "string \<Rightarrow> string list" where
  "release_projects run_id = [''shepherdrm-r4-'' @ run_id, ''shepherdrm-r4-restore-'' @ run_id]"

definition release_scoped :: "string \<Rightarrow> string \<Rightarrow> effect \<Rightarrow> bool" where
  "release_scoped run_id directory e = (case e of
       Sent rq _ \<Rightarrow> take 17 (hq_url rq) = ''http://127.0.0.1:''
     | Ran p _ \<Rightarrow> take 3 (ps_command p) = [''docker'', ''compose'', ''--project-name''] \<and>
         ps_command p ! 3 \<in> set (release_projects run_id)
     | Did op _ \<Rightarrow> inside directory op
     | Made _ _ \<Rightarrow> False)"

lemma dec_int_no_slash: "CHR ''/'' \<notin> set (dec_int n)" "dec_int n \<noteq> []"
  using dec_nat_digits [of "nat n"] dec_nat_digits [of "nat (- n)"]
  by (auto simp: dec_int_def is_digit_def list_all_iff)

lemma loopback: "take 17 (ac_base_url (stack_api sk)) = ''http://127.0.0.1:''"
proof (cases "rev (dec_int (sk_port sk))")
  case (Cons c cs)
  then have "c \<in> set (dec_int (sk_port sk))" by (metis list.set_intros(1) set_rev)
  then have "c \<noteq> CHR ''/''" using dec_int_no_slash(1) by metis
  with Cons have "dropWhile (\<lambda>c. c = CHR ''/'') (rev (''http://127.0.0.1:'' @ dec_int (sk_port sk))) =
      rev (''http://127.0.0.1:'' @ dec_int (sk_port sk))"
    unfolding rev_append Cons by simp
  then have "ac_base_url (stack_api sk) = ''http://127.0.0.1:'' @ dec_int (sk_port sk)"
    by (simp only: stack_api_def new_client_def rev_rev_ident api_client.simps)
  then show ?thesis by simp
qed (simp add: dec_int_no_slash)

lemma stack_scoped:
  "ends ob \<Longrightarrow> sk_project sk \<in> set (release_projects run_id) \<Longrightarrow> operates (release_scoped run_id directory) ob sk"
  using loopback [of sk]
  by (auto simp: operates_def talks_def release_scoped_def build_request_def Let_def stack_process_def stack_command_def
      split: prod.split)

lemma directory_scoped: "path \<in> set (secret_files directory) \<Longrightarrow> tends (release_scoped run_id directory) path"
  by (simp add: tends_def release_scoped_def inside_def)

lemma performs_body:
  assumes "ends ob"
  shows "performs (release_scoped run_id directory)
     (deploy_release ob image_ref run_id admin_password user_password key_ring directory)"
  unfolding deploy_release_def available_port_def
  by (intro performing directory_scoped stack_scoped assms)
    (simp_all add: new_stack_def release_projects_def release_scoped_def inside_def secret_files_def)

lemma performs_deployment:
  "ends ob \<Longrightarrow> performs (release_scoped run_id directory)
     (finally_do (deploy_release ob image_ref run_id admin_password user_password key_ring directory)
       (file_do ob (RemoveTree directory)))"
  by (intro performing performs_body) (simp_all add: release_scoped_def inside_def)

lemma performs_make_directory [performing]: "(\<And>outcome. P (Made prefix outcome)) \<Longrightarrow> performs P (make_directory ob prefix)"
  by (auto simp: performs_def make_directory_def follows_def split: prod.split)

lemma verify_release_starts:
  "\<exists>w1 admin user key_ring. verify_release ob image_ref w = with_temporary_directory ob ''shepherdrm-acceptance-''
       (deploy_release ob image_ref (take 12 (fst (ob_uuid_hex ob (sc_rest w)))) admin user key_ring) w1 \<and>
     sc_trace w1 = sc_trace w \<and> sc_now w1 = sc_now w"
  unfolding verify_release_def and_then_draw Let_def by (intro exI conjI) (rule refl, simp_all)

lemma with_temporary_directory_cases:
  assumes "with_temporary_directory ob prefix body w = Some (r, w')"
  obtains (refused) e where "r = Inl e" "sc_trace w' = sc_trace w @ [Made prefix (Inl e)]"
    | (entered) directory w1 where "sc_trace w1 = sc_trace w @ [Made prefix (Inr directory)]"
        "finally_do (body directory) (file_do ob (RemoveTree directory)) w1 = Some (r, w')"
  using assms unfolding with_temporary_directory_def
proof (cases rule: and_then_cases)
  case (raised e)
  then show ?thesis by (intro refused) (auto simp: make_directory_def split: prod.splits)
next
  case (went_on directory w1)
  then show ?thesis by (intro entered [of w1 directory]) (auto simp: make_directory_def split: prod.splits)
qed

text \<open>The trace of a whole run: the making of the temporary directory and, when it succeeds, what its path allows.\<close>

definition release_trace :: "string \<Rightarrow> effect list \<Rightarrow> bool" where
  "release_trace run_id es = (case es of
       Made prefix outcome # es' \<Rightarrow> prefix = ''shepherdrm-acceptance-'' \<and>
         (case outcome of Inl e \<Rightarrow> es' = [] | Inr directory \<Rightarrow> list_all (release_scoped run_id directory) es')
     | _ \<Rightarrow> False)"

text \<open>
  C39: If every command it starts ends, the verification of a release returns for every image, whatever the deployed
  service answers and Docker and the file system do. On its way it makes one temporary directory, asks \<open>urllib\<close> for
  loopback addresses only, runs only Compose commands of its own two projects, writes and changes the mode of only
  two files in the directory it made, and removes only that directory. (Each request is taken to end, its timeout or
  its answer; redirects that \<open>urllib\<close> follows by itself are part of that request.)
\<close>

theorem verify_release_ends:
  assumes "\<And>p s. ob_process ob p s \<noteq> None"
  shows "\<exists>r w' es. verify_release ob image_ref w = Some (r, w') \<and> sc_trace w' = sc_trace w @ es \<and>
     release_trace (take 12 (fst (ob_uuid_hex ob (sc_rest w)))) es"
proof -
  have ends: "ends ob" using assms by (simp add: ends_def)
  define run_id where "run_id = take 12 (fst (ob_uuid_hex ob (sc_rest w)))"
  obtain w1 admin user key_ring where start: "verify_release ob image_ref w =
      with_temporary_directory ob ''shepherdrm-acceptance-'' (deploy_release ob image_ref run_id admin user key_ring) w1"
    and w1: "sc_trace w1 = sc_trace w"
    using verify_release_starts [of ob image_ref w] unfolding run_id_def by blast
  have "performs (\<lambda>_. True) (with_temporary_directory ob ''shepherdrm-acceptance-''
      (deploy_release ob image_ref run_id admin user key_ring))"
    unfolding with_temporary_directory_def
    by (intro performing performs_mono [OF performs_deployment [OF ends]]) simp_all
  then obtain r w' where run: "with_temporary_directory ob ''shepherdrm-acceptance-''
      (deploy_release ob image_ref run_id admin user key_ring) w1 = Some (r, w')"
    by (rule performsD)
  from run show ?thesis
  proof (cases rule: with_temporary_directory_cases)
    case (refused e)
    with run start w1 show ?thesis by (auto simp: release_trace_def)
  next
    case (entered directory w2)
    obtain r' w3 where "finally_do (deploy_release ob image_ref run_id admin user key_ring directory)
        (file_do ob (RemoveTree directory)) w2 = Some (r', w3)" "follows (release_scoped run_id directory) w2 w3"
      using performs_deployment [OF ends] by (rule performsD)
    with entered run start w1 show ?thesis by (auto simp: follows_def run_id_def release_trace_def)
  qed
qed

subsection \<open>Taking the stacks down\<close>

text \<open>\<open>T\<close> holds of what \<open>m\<close> adds to the trace.\<close>

definition traces :: "(effect list \<Rightarrow> bool) \<Rightarrow> ('s, 'a) script \<Rightarrow> bool" where
  "traces T m \<longleftrightarrow> (\<forall>w r w'. m w = Some (r, w') \<longrightarrow> (\<exists>es. sc_trace w' = sc_trace w @ es \<and> T es))"

lemma performs_traces:
  assumes "performs P m" shows "traces (list_all P) m"
  unfolding traces_def
proof (intro allI impI)
  fix w r w'
  assume "m w = Some (r, w')"
  moreover obtain r1 w1 where "m w = Some (r1, w1)" "follows P w w1" using assms by (rule performsD)
  ultimately show "\<exists>es. sc_trace w' = sc_trace w @ es \<and> list_all P es" by (simp add: follows_def)
qed

lemma traces_and_then:
  assumes "performs P m" and "\<And>x. traces T (f x)"
    and "\<And>es. list_all P es \<Longrightarrow> T es" and "\<And>es es'. list_all P es \<Longrightarrow> T es' \<Longrightarrow> T (es @ es')"
  shows "traces T (and_then m f)"
  unfolding traces_def
proof (intro allI impI)
  fix w r w'
  assume run: "and_then m f w = Some (r, w')"
  obtain r1 w1 where "m w = Some (r1, w1)" "follows P w w1" using assms(1) by (rule performsD)
  then obtain es where m: "m w = Some (r1, w1)" "sc_trace w1 = sc_trace w @ es" "list_all P es" by (auto simp: follows_def)
  show "\<exists>es. sc_trace w' = sc_trace w @ es \<and> T es"
  using run
  proof (cases rule: and_then_cases)
    case (raised e)
    with m assms(3) show ?thesis by auto
  next
    case (went_on x w2)
    with assms(2) obtain es' where "sc_trace w' = sc_trace w2 @ es'" "T es'" unfolding traces_def by blast
    with m went_on assms(4) show ?thesis by (metis append.assoc option.inject prod.inject)
  qed
qed

lemma traces_finally_do:
  assumes "traces T m" and "traces T' final" and "\<And>es es'. T es \<Longrightarrow> T' es' \<Longrightarrow> U (es @ es')"
  shows "traces U (finally_do m final)"
  unfolding traces_def
proof (intro allI impI)
  fix w r w'
  assume "finally_do m final w = Some (r, w')"
  then obtain r1 w1 r2 where "m w = Some (r1, w1)" "final w1 = Some (r2, w')"
    by (auto simp: finally_do_def split: option.splits)
  with assms(1,2) obtain es es' where "sc_trace w1 = sc_trace w @ es" "T es" "sc_trace w' = sc_trace w1 @ es'" "T' es'"
    unfolding traces_def by meson
  with assms(3) show "\<exists>es. sc_trace w' = sc_trace w @ es \<and> U es" by auto
qed

definition is_process :: "effect \<Rightarrow> bool" where
  "is_process e = (case e of Ran _ _ \<Rightarrow> True | _ \<Rightarrow> False)"

definition down_process :: "'s outside \<Rightarrow> compose_stack \<Rightarrow> process" where
  "down_process ob sk = (stack_process ob sk [''down'', ''--volumes'', ''--remove-orphans''])\<lparr>ps_check := False\<rparr>"

definition taken_down :: "'s outside \<Rightarrow> string \<Rightarrow> effect list \<Rightarrow> bool" where
  "taken_down ob run_id es \<longleftrightarrow> (\<exists>pre restored source c1 c2.
     es = pre @ [Ran (down_process ob restored) (Inr c1), Ran (down_process ob source) (Inr c2)] \<and>
     [sk_project source, sk_project restored] = release_projects run_id)"

text \<open>Every command can be started and ends; its return code is free.\<close>

definition runs :: "'s outside \<Rightarrow> bool" where
  "runs ob \<longleftrightarrow> (\<forall>p s. \<exists>code out elapsed rest. ob_process ob p s = Some (Inr (code, out), elapsed, rest))"

lemma runs_ends: "runs ob \<Longrightarrow> ends ob"
  unfolding runs_def ends_def by (metis option.discI)

lemma cleanup_effect:
  assumes "stack_cleanup ob sk w = Some (r, w')" and "runs ob"
  shows "r = Inr () \<and> (\<exists>code. sc_trace w' = sc_trace w @ [Ran (down_process ob sk) (Inr code)])"
proof -
  obtain code out elapsed rest where "ob_process ob (down_process ob sk) (sc_rest w) = Some (Inr (code, out), elapsed, rest)"
    using assms(2) unfolding runs_def by blast
  moreover have "(stack_process ob sk [''down'', ''--volumes'', ''--remove-orphans''])\<lparr>ps_input := map_option utf8_encode None,
      ps_capture := False, ps_check := False\<rparr> = down_process ob sk"
    by (simp add: down_process_def stack_process_def)
  ultimately show ?thesis
    using assms(1)
    by (auto simp: stack_cleanup_def stack_run_def run_text_def and_then_def launch_def yield_def give_def
        captured_text_def checked_def down_process_def stack_process_def)
qed

lemma stacks_taken_down:
  assumes docker: "runs ob"
    and projects: "[sk_project source, sk_project restored] = release_projects run_id"
  shows "traces (taken_down ob run_id)
    (exercise_stacks ob image_ref source restored path key_ring username password user_password)"
  unfolding exercise_stacks_def
proof (rule traces_finally_do [where T = "list_all (\<lambda>_. True)"])
  let ?all = "\<lambda>_. True"
  have "operates ?all ob source" "operates ?all ob restored" "tends ?all path"
    using runs_ends [OF docker] by (simp_all add: operates_def talks_def tends_def)
  then show "traces (list_all ?all) (and_then (exercise_source ob source username password user_password) (\<lambda>(st, concurrency).
        and_then (database_dump ob source) (\<lambda>dump.
        and_then (exercise_restored ob restored dump path key_ring st username password) (\<lambda>_.
        give (release_evidence ob image_ref dump concurrency)))))"
    by (intro performs_traces performing)
next
  show "traces (\<lambda>es. \<exists>c1 c2. es = [Ran (down_process ob restored) (Inr c1), Ran (down_process ob source) (Inr c2)])
      (and_then (stack_cleanup ob restored) (\<lambda>_. stack_cleanup ob source))"
    unfolding traces_def
  proof (intro allI impI)
    fix w r w'
    assume "and_then (stack_cleanup ob restored) (\<lambda>_. stack_cleanup ob source) w = Some (r, w')"
    then show "\<exists>es. sc_trace w' = sc_trace w @ es \<and>
        (\<exists>c1 c2. es = [Ran (down_process ob restored) (Inr c1), Ran (down_process ob source) (Inr c2)])"
    proof (cases rule: and_then_cases)
      case (raised e)
      then show ?thesis using cleanup_effect [OF raised(1)] docker by simp
    next
      case (went_on x w1)
      then show ?thesis using cleanup_effect [OF went_on(1)] cleanup_effect [OF went_on(2)] docker by force
    qed
  qed
qed (use projects in \<open>unfold taken_down_def, blast\<close>)

definition unstarted_or_down :: "'s outside \<Rightarrow> string \<Rightarrow> effect list \<Rightarrow> bool" where
  "unstarted_or_down ob run_id es \<longleftrightarrow> list_all (\<lambda>e. \<not> is_process e) es \<or> taken_down ob run_id es"

lemma quiet_then_down:
  assumes "performs (\<lambda>e. \<not> is_process e) m" and "\<And>x. traces (unstarted_or_down ob run_id) (f x)"
  shows "traces (unstarted_or_down ob run_id) (and_then m f)"
  using assms
proof (rule traces_and_then)
  fix es es'
  assume "list_all (\<lambda>e. \<not> is_process e) es" "unstarted_or_down ob run_id es'"
  then show "unstarted_or_down ob run_id (es @ es')"
    unfolding unstarted_or_down_def taken_down_def by (metis append.assoc list_all_append)
qed (simp add: unstarted_or_down_def)

lemma deployment_taken_down:
  assumes "runs ob"
  shows "traces (unstarted_or_down ob run_id) (deploy_release ob image_ref run_id admin user key_ring directory)"
proof -
  have quiet: "performs (\<lambda>e. \<not> is_process e) (write_secret ob path contents)" for path contents
    by (intro performing) (simp add: tends_def is_process_def)
  have stacks: "traces (unstarted_or_down ob run_id)
     (exercise_stacks ob image_ref (new_stack (''shepherdrm-r4-'' @ run_id) image_ref directory p)
       (new_stack (''shepherdrm-r4-restore-'' @ run_id) image_ref directory q) path key_ring username password user_password)"
    for p q path key_ring username password user_password
    using stacks_taken_down [OF assms, where run_id = run_id and source = "new_stack (''shepherdrm-r4-'' @ run_id) image_ref directory p"
        and restored = "new_stack (''shepherdrm-r4-restore-'' @ run_id) image_ref directory q"]
    by (simp add: traces_def new_stack_def release_projects_def unstarted_or_down_def) blast
  show ?thesis
    unfolding deploy_release_def Let_def available_port_def
    by (intro quiet_then_down quiet stacks performs_draw performs_try_draw)
qed

text \<open>The files written are those two of the directory.\<close>

definition files_written :: "effect list \<Rightarrow> string set" where
  "files_written es = {path. \<exists>contents outcome. Did (WriteText path contents) outcome \<in> set es}"

text \<open>
  C40: However the verification of a release fails, if the commands it starts can be started and end, whatever their
  return codes, and it has run any: first it made its temporary directory, the last commands it ran took down
  both of its projects with their volumes, the restored one first, and the last thing it did was to remove the
  directory it had made; all files it wrote, the password of the database and the key ring, are in that directory.
  A removal that fails is the outcome of the whole.
\<close>

theorem verify_release_cleans_up:
  assumes "\<And>p s. \<exists>code out elapsed rest. ob_process ob p s = Some (Inr (code, out), elapsed, rest)"
    and "verify_release ob image_ref w = Some (r, w')" and "sc_trace w' = sc_trace w @ es" and "list_ex is_process es"
  shows "\<exists>es' directory removal.
    es = Made ''shepherdrm-acceptance-'' (Inr directory) # es' @ [Did (RemoveTree directory) removal] \<and>
    taken_down ob (take 12 (fst (ob_uuid_hex ob (sc_rest w)))) es' \<and>
    files_written es' \<subseteq> {directory @ ''/postgres_password'', directory @ ''/secret_encryption_keys.json''} \<and>
    (\<forall>e. removal = Inl e \<longrightarrow> r = Inl e)"
proof -
  have docker: "runs ob" using assms(1) by (simp add: runs_def)
  define run_id where "run_id = take 12 (fst (ob_uuid_hex ob (sc_rest w)))"
  obtain w1 admin user key_ring where start: "with_temporary_directory ob ''shepherdrm-acceptance-''
      (deploy_release ob image_ref run_id admin user key_ring) w1 = Some (r, w')" and w1: "sc_trace w1 = sc_trace w"
    using verify_release_starts [of ob image_ref w] assms(2) unfolding run_id_def by fastforce
  from start show ?thesis
  proof (cases rule: with_temporary_directory_cases)
    case (refused e)
    with w1 assms(3,4) show ?thesis by (auto simp: is_process_def)
  next
    case (entered directory w2)
    obtain r1 w3 es' where body: "deploy_release ob image_ref run_id admin user key_ring directory w2 = Some (r1, w3)"
      "sc_trace w3 = sc_trace w2 @ es'" "list_all (release_scoped run_id directory) es'"
      using performs_body [OF runs_ends [OF docker]] by (rule performsD) (auto simp: follows_def)
    have down: "unstarted_or_down ob run_id es'"
      using deployment_taken_down [OF docker] body(1,2) unfolding traces_def by (metis same_append_eq)
    obtain removal where last: "sc_trace w' = sc_trace w3 @ [Did (RemoveTree directory) removal]"
      "\<forall>e. removal = Inl e \<longrightarrow> r = Inl e"
      using entered(2) body(1) by (auto simp: finally_do_def file_do_def split: prod.splits sum.splits)
    have es: "es = Made ''shepherdrm-acceptance-'' (Inr directory) # es' @ [Did (RemoveTree directory) removal]"
      using entered(1) body(2) last(1) w1 assms(3) by simp
    have "taken_down ob run_id es'"
      using down es assms(4) by (auto simp: unstarted_or_down_def list_all_iff list_ex_iff is_process_def)
    moreover have "files_written es' \<subseteq> {directory @ ''/postgres_password'', directory @ ''/secret_encryption_keys.json''}"
      using body(3) by (fastforce simp: files_written_def list_all_iff release_scoped_def inside_def secret_files_def)
    ultimately show ?thesis using es last(2) unfolding run_id_def by blast
  qed
qed

end
