(* ===== verification/Probe_Burst.thy ===== *)
theory Probe_Burst
  imports Acceptance Contract Leasing_Burst
begin

text \<open>
  The concurrency probe of the release against the service: the answers to a burst of acquisitions, as they
  reach the client, pass the probe's judgement exactly because of what the service guarantees for bursts.
\<close>

text \<open>
  The answer to an acquisition on the wire: status and JSON of the lease or of the problem document. The
  probe reads the identifiers of lease and resource only; \<open>others\<close> are the remaining fields.
\<close>

definition lease_json :: "(lease_response \<Rightarrow> (string \<times> json) list) \<Rightarrow> lease_response \<Rightarrow> json" where
  "lease_json others r =
     JObj ([(''id'', JStr (uuid_str (lr_id r))),
       (''resource'', JObj [(''id'', JStr (uuid_str (rr_id (lr_resource r))))])] @ others r)"

definition wire_answer ::
  "string \<Rightarrow> (lease_response \<Rightarrow> (string \<times> json) list) \<Rightarrow> exc + lease_response \<Rightarrow> http_result" where
  "wire_answer correlation_id others outcome =
     (let r = handle_exceptions correlation_id (endpoint 201 (map_sum id LeaseBody outcome))
      in \<lparr>ht_status = status_of r,
          ht_body = (case r of
              Inr response \<Rightarrow> (case rs_content response of
                  Content b \<Rightarrow> (case b of LeaseBody lease \<Rightarrow> lease_json others lease | _ \<Rightarrow> JNull)
                | ProblemContent p \<Rightarrow> problem_json p)
            | Inl _ \<Rightarrow> JStr ''Internal Server Error''),
          ht_headers = []\<rparr>)"

lemma wire_lease: "wire_answer c others (Inr r) = \<lparr>ht_status = 201, ht_body = lease_json others r, ht_headers = []\<rparr>"
  by (simp add: wire_answer_def handle_exceptions_def endpoint_def status_of_def)

lemma wire_refusal: "ht_status (wire_answer c others (Inl no_match)) = 409"
  by (simp add: wire_answer_def handle_exceptions_def endpoint_def status_of_def http_problem_def problem_response_def)

lemma leased_resource_wire:
  "leased_resource (map (\<lambda>r. wire_answer c others (Inr r)) rs) = Inr (map (\<lambda>r. uuid_str (rr_id (lr_resource r))) rs)"
  by (induction rs) (simp_all add: wire_lease lease_json_def subscript_def text_at_def py_str_def)

lemma burst_statuses:
  assumes "set rs \<subseteq> Inr ` UNIV \<union> {Inl no_match}"
  shows "filter (\<lambda>r. ht_status r = 201) (map (wire_answer c others) rs) = map (\<lambda>r. wire_answer c others (Inr r)) (acquired rs)"
    and "length (filter (\<lambda>r. ht_status r = 409) (map (wire_answer c others) rs)) = length rs - length (acquired rs)"
    and "length (acquired rs) \<le> length rs"
  using assms by (induction rs rule: acquired.induct) (auto simp: wire_lease wire_refusal Suc_diff_le)

text \<open>
  The probe accepts what the service does: when \<open>n\<close> requests meet \<open>m \<le> n\<close> free matching resources, the answers to
  the burst pass the probe's count of acquisitions and refusals and its test for reused resources.
\<close>

theorem probe_accepts_burst:
  assumes "validate_lease_create rq = Inr rq" and "lc_sharing_mode rq = Exclusive"
    and "burst_ready t0 t1 rq pid adm as d" and "acquire_each sha rq pid adm as d = (rs, d')"
    and "length as = n" and "length (hosts_at t0 rq pid adm d) = m" and "m \<le> n"
  shows "\<exists>successes. judge_outcomes m n (map (wire_answer c others) rs) = Inr successes \<and> length successes = m"
proof -
  have burst: "length (acquired rs) = m" "distinct (map (\<lambda>r. rr_id (lr_resource r)) (acquired rs))" "length rs = n"
    and outcomes: "set rs \<subseteq> Inr ` UNIV \<union> {Inl no_match}"
    using burst_outcome [OF assms(1-4)] assms(5-7) by simp_all
  note statuses = burst_statuses(1,2) [OF outcomes, of c others] burst_statuses(3) [OF outcomes]
  have "distinct (map uuid_str (map (\<lambda>r. rr_id (lr_resource r)) (acquired rs)))"
    using burst(2) by (subst distinct_map) (auto intro: inj_onI dest: uuid_str_inj)
  then have "length (remdups (map (\<lambda>r. uuid_str (rr_id (lr_resource r))) (acquired rs))) = m"
    using burst(1) by (simp add: comp_def distinct_remdups_id)
  with statuses burst assms(7) show ?thesis
    by (simp add: judge_outcomes_def Let_def leased_resource_wire of_nat_diff)
qed

end
