(* ===== verification/Scripting_Demo.thy ===== *)
theory Scripting_Demo
  imports Deployment_Laws Probe_Burst Witnesses_Leases
begin

text \<open>
  The release verification on an outside where Docker runs and every command of it fails, and the
  probe's judgement of three requests for two hosts.
\<close>

definition failing_docker :: "unit outside" where
  "failing_docker =
     \<lparr>ob_open = (\<lambda>_ s. (Inl Unreachable, 5, s)), ob_process = (\<lambda>_ s. Some (Inr (1, []), 7, s)),
      ob_file = (\<lambda>_ s. (Inr (), s)), ob_exists = (\<lambda>_ _. False), ob_read = (\<lambda>_ _. Inl FileTrouble),
      ob_rglob = (\<lambda>_ _ _. []), ob_mkdtemp = (\<lambda>p s. (Inr (''/tmp/'' @ p), s)), ob_bind_port = (\<lambda>s. (Inr 8000, s)),
      ob_uuid_hex = (\<lambda>s. (''0123456789abcdef'', s)), ob_token_urlsafe = (\<lambda>_ s. (''token'', s)),
      ob_token_bytes = (\<lambda>n s. (replicate n 7, s)), ob_oversleep = (\<lambda>s. (0, s)), ob_rank = (\<lambda>_ i. i),
      ob_replace = (\<lambda>_. []), ob_loads = (\<lambda>_. None), ob_float = id, ob_sha256 = (\<lambda>_. []), ob_root = ''/repo''\<rparr>"

definition first_scene :: "unit scene" where
  "first_scene = \<lparr>sc_now = 0, sc_rest = (), sc_trace = []\<rparr>"

lemma failing_docker_simps [simp]:
  "ob_process failing_docker p s = Some (Inr (1, []), 7, s)" "ob_file failing_docker op s = (Inr (), s)"
  "ob_exists failing_docker path s = False" "ob_mkdtemp failing_docker prefix s = (Inr (''/tmp/'' @ prefix), s)"
  "ob_bind_port failing_docker s = (Inr 8000, s)"
  by (simp_all add: failing_docker_def)

lemma writes [simp]: "write_secret failing_docker path contents w =
    Some (Inr (), w\<lparr>sc_trace := sc_trace w @ [Did (WriteText path contents) (Inr ()), Did (Chmod path 292) (Inr ())]\<rparr>)"
  by (simp add: write_secret_def draw_def and_then_def give_def file_do_def)

lemma database_fails [simp]: "start_database failing_docker sk w =
    Some (Inl (ProcessFailed 1), w\<lparr>sc_now := sc_now w + 7,
      sc_trace := sc_trace w @ [Ran (stack_process failing_docker sk [''up'', ''-d'', ''--wait'', ''postgres'']) (Inr 1)]\<rparr>)"
  by (simp add: start_database_def stack_run_def run_text_def and_then_def launch_def yield_def captured_text_def
      checked_def stack_process_def)

lemma cleanup_returns [simp]: "stack_cleanup failing_docker sk w =
    Some (Inr (), w\<lparr>sc_now := sc_now w + 7, sc_trace := sc_trace w @ [Ran (down_process failing_docker sk) (Inr 1)]\<rparr>)"
  by (simp add: stack_cleanup_def stack_run_def run_text_def and_then_def launch_def yield_def give_def captured_text_def
      checked_def stack_process_def down_process_def)

lemma failed_release:
  "\<exists>w'. verify_release failing_docker ''shepherd-rm:acceptance'' first_scene = Some (Inl (ProcessFailed 1), w') \<and>
     list_ex is_process (sc_trace w')"
  by (simp add: verify_release_def with_temporary_directory_def make_directory_def deploy_release_def available_port_def
      exercise_stacks_def exercise_source_def finally_do_def and_then_def draw_def try_draw_def file_do_def is_process_def
      Let_def split: prod.split)

lemma failing_docker_runs: "\<exists>code out elapsed rest. ob_process failing_docker p s = Some (Inr (code, out), elapsed, rest)"
  by simp

lemma failing_docker_run_id: "take 12 (fst (ob_uuid_hex failing_docker (sc_rest first_scene))) = ''0123456789ab''"
  by (simp add: failing_docker_def)

lemma verify_release_ends_witness:
  "\<exists>r w'. verify_release failing_docker ''shepherd-rm:acceptance'' first_scene = Some (r, w') \<and>
     release_trace ''0123456789ab'' (sc_trace w')"
proof -
  have "ob_process failing_docker p s \<noteq> None" for p s by simp
  from verify_release_ends [OF this, of "''shepherd-rm:acceptance''" first_scene]
  show ?thesis unfolding failing_docker_run_id by (simp add: first_scene_def)
qed

lemma verify_release_cleans_up_witness:
  "\<exists>w' es' directory. verify_release failing_docker ''shepherd-rm:acceptance'' first_scene = Some (Inl (ProcessFailed 1), w') \<and>
     (\<exists>removal. sc_trace w' = Made ''shepherdrm-acceptance-'' (Inr directory) # es' @ [Did (RemoveTree directory) removal]) \<and>
     taken_down failing_docker ''0123456789ab'' es' \<and>
     files_written es' \<subseteq> {directory @ ''/postgres_password'', directory @ ''/secret_encryption_keys.json''}"
proof -
  obtain w' where run: "verify_release failing_docker ''shepherd-rm:acceptance'' first_scene = Some (Inl (ProcessFailed 1), w')"
    "list_ex is_process (sc_trace w')"
    using failed_release by blast
  have "sc_trace w' = sc_trace first_scene @ sc_trace w'" by (simp add: first_scene_def)
  from verify_release_cleans_up [OF failing_docker_runs run(1) this run(2)] run(1)
  show ?thesis unfolding failing_docker_run_id by blast
qed

lemma probe_accepts_burst_witness:
  "\<exists>rs d' successes. acquire_each id want_box alice_id False burst twin_db = (rs, d') \<and>
     judge_outcomes 2 3 (map (wire_answer ''c'' (\<lambda>_. [])) rs) = Inr successes \<and> length successes = 2"
proof -
  have ready: "validate_lease_create want_box = Inr want_box" "lc_sharing_mode want_box = Exclusive"
    "burst_ready 5 9 want_box alice_id False burst twin_db"
    and counts: "length burst = 3" "length (hosts_at 5 want_box alice_id False twin_db) = 2" "(2::nat) \<le> 3" by code_simp+
  obtain rs d' where run: "acquire_each id want_box alice_id False burst twin_db = (rs, d')" by fastforce
  from probe_accepts_burst [OF ready run counts, of "''c''" "\<lambda>_. []"] run show ?thesis by blast
qed

end
