(* ===== verification/Scripting_Verdicts.thy ===== *)
theory Scripting_Verdicts
  imports Scripting_Laws Dev_Tasks
begin

text \<open>
  What the outcome of a script says: waiting for readiness, and the \<open>check\<close> task of the runner.
\<close>

subsection \<open>Waiting for readiness\<close>

text \<open>The effect of a poll, and whether it ends the waiting.\<close>

definition ready_poll :: "api_client \<Rightarrow> fault + http_result \<Rightarrow> effect" where
  "ready_poll api outcome = Sent (build_request api ''GET'' ''/ready'' no_options) outcome"

definition poll_meets :: "bool \<Rightarrow> fault + http_result \<Rightarrow> bool" where
  "poll_meets ready outcome = (case outcome of
       Inr result \<Rightarrow> (ht_status result = 200) = ready
     | Inl e \<Rightarrow> e = Unreachable \<and> \<not> ready)"

definition poll_breaks :: "fault + http_result \<Rightarrow> bool" where
  "poll_breaks outcome = (case outcome of Inr _ \<Rightarrow> False | Inl e \<Rightarrow> e \<noteq> Unreachable)"

text \<open>The verdict on the polls made: success exactly if the last one meets the wish.\<close>

definition polls_decide :: "bool \<Rightarrow> int \<Rightarrow> (fault + http_result) list \<Rightarrow> fault + unit \<Rightarrow> int \<Rightarrow> bool" where
  "polls_decide ready deadline polls r now \<longleftrightarrow>
     list_all (\<lambda>p. \<not> poll_meets ready p \<and> \<not> poll_breaks p) (butlast polls) \<and>
     (if polls \<noteq> [] \<and> poll_meets ready (last polls) then r = Inr ()
      else isl r \<and> (polls \<noteq> [] \<and> poll_breaks (last polls) \<or> deadline \<le> now))"

lemma send_ready:
  "send ob api ''GET'' ''/ready'' no_options w = (outcome, w1) \<Longrightarrow>
     sc_trace w1 = sc_trace w @ [ready_poll api outcome] \<and> sc_now w \<le> sc_now w1"
  by (auto simp: send_def Let_def ready_poll_def split: prod.splits)

lemma polls_decide_more:
  assumes "polls_decide ready deadline polls r now" and "\<not> poll_meets ready outcome" and "\<not> poll_breaks outcome"
  shows "polls_decide ready deadline (outcome # polls) r now"
  using assms by (cases polls) (auto simp: polls_decide_def)

lemma poll_ready_verdict:
  "\<exists>r w' polls. poll_ready ob api ready deadline status w = Some (r, w') \<and>
     sc_trace w' = sc_trace w @ map (ready_poll api) polls \<and> polls_decide ready deadline polls r (sc_now w') \<and>
     int (length polls) \<le> max 0 ((deadline - sc_now w + 999999) div 1000000)"
proof (induction "nat (deadline - sc_now w)" arbitrary: w status rule: less_induct)
  case less
  obtain outcome w1 where s: "send ob api ''GET'' ''/ready'' no_options w = (outcome, w1)" by fastforce
  note w1 = send_ready [OF s]
  have f: "follows (\<lambda>_. True) w w1" using w1 by (simp add: follows_def)
  show ?case
  proof (cases "sc_now w < deadline")
    case False
    then show ?thesis by (subst poll_ready.simps) (auto simp: polls_decide_def intro!: exI [of _ "[]"])
  next
    case True
    then have one: "1 \<le> (deadline - sc_now w + 999999) div 1000000" by linarith
    show ?thesis
    proof (cases "poll_meets ready outcome \<or> poll_breaks outcome")
      case True
      then show ?thesis using s w1 \<open>sc_now w < deadline\<close> one
        by (subst poll_ready.simps)
          (auto simp: polls_decide_def poll_meets_def poll_breaks_def split: sum.splits if_splits intro!: exI [of _ "[outcome]"])
    next
      case False
      let ?w2 = "nap ob 1000000 w1"
      have w2: "sc_trace ?w2 = sc_trace w @ [ready_poll api outcome]" "sc_now w + 1000000 \<le> sc_now ?w2"
        using w1 nap_scene(1) [of ob 1000000 w1] nap_scene(2) [of w1 1000000 ob] by simp_all
      define status' where "status' = (case outcome of Inr result \<Rightarrow> Some (ht_status result) | Inl _ \<Rightarrow> status)"
      have again: "poll_ready ob api ready deadline status w = poll_ready ob api ready deadline status' ?w2"
        using s False \<open>sc_now w < deadline\<close>
        by (subst poll_ready.simps) (auto simp: poll_meets_def poll_breaks_def status'_def split: sum.splits)
      obtain r w' polls where rest: "poll_ready ob api ready deadline status' ?w2 = Some (r, w')"
        "sc_trace w' = sc_trace ?w2 @ map (ready_poll api) polls" "polls_decide ready deadline polls r (sc_now w')"
        "int (length polls) \<le> max 0 ((deadline - sc_now ?w2 + 999999) div 1000000)"
        using less.hyps [OF round_ends_sooner [OF f \<open>sc_now w < deadline\<close>, of ob], of status'] by blast
      have "(deadline - sc_now ?w2 + 999999) div 1000000 \<le> (deadline - sc_now w + 999999 - 1000000) div 1000000"
        using w2(2) by (intro zdiv_mono1) simp_all
      then have "int (length (outcome # polls)) \<le> max 0 ((deadline - sc_now w + 999999) div 1000000)"
        using rest(4) one by simp
      with rest w2(1) again polls_decide_more [OF rest(3)] False show ?thesis
        by (intro exI [of _ r] exI [of _ w'] exI [of _ "outcome # polls"]) auto
    qed
  qed
qed

text \<open>
  Waiting for readiness ends. It polls at most once a second within its timeout, whatever the service
  answers and however long it takes; it succeeds exactly when the last poll found the state asked for (an unreachable service counts
  as unavailable), and it fails only on a broken protocol or when the time is up.
\<close>

theorem wait_ready_ends:
  "\<exists>r w' polls. wait_ready ob api ready timeout w = Some (r, w') \<and>
     sc_trace w' = sc_trace w @ map (ready_poll api) polls \<and>
     polls_decide ready (sc_now w + timeout) polls r (sc_now w') \<and>
     int (length polls) \<le> max 0 ((timeout + 999999) div 1000000)"
  using poll_ready_verdict [of ob api ready "sc_now w + timeout" None w]
  by (simp add: wait_ready_def and_then_def monotonic_def)

subsection \<open>The check task\<close>

definition check_commands :: "string list list" where
  "check_commands = map ((@) [''uv'', ''run'', ''--locked''])
     [[''ruff'', ''check'', ''.''], [''ruff'', ''format'', ''--check'', ''.''], [''mypy''], [''pytest''],
      [''sphinx-build'', ''-W'', ''--keep-going'', ''-b'', ''html'', ''docs'', ''docs/_build/html'']]"

text \<open>The commands that ran with their outcomes, and the ending they lead to.\<close>

definition ending_of :: "fault + int \<Rightarrow> ending" where
  "ending_of outcome = (case outcome of
       Inr code \<Rightarrow> ExitStatus code
     | Inl (FileNotFound name) \<Rightarrow> ExitMessage (''Required command is not installed: '' @ name)
     | Inl (ProcessFailed code) \<Rightarrow> ExitStatus code
     | Inl e \<Rightarrow> Traceback e)"

fun stops_at_first_failure :: "string list list \<Rightarrow> (fault + int) list \<Rightarrow> bool" where
  "stops_at_first_failure [] outcomes \<longleftrightarrow> outcomes = []"
| "stops_at_first_failure (c # cs) [] \<longleftrightarrow> False"
| "stops_at_first_failure (c # cs) (o1 # os) \<longleftrightarrow>
     (if o1 = Inr 0 then stops_at_first_failure cs os else os = [])"

definition run_all :: "'s outside \<Rightarrow> string list list \<Rightarrow> ('s, unit list) script" where
  "run_all ob cs = for_each cs (dev_run ob)"

lemma dev_run_effect:
  assumes "ends ob"
  shows "\<exists>r w' outcome. dev_run ob c w = Some (r, w') \<and> sc_trace w' = sc_trace w @ [Ran (plain_process (Some (ob_root ob)) c) outcome] \<and>
     (case outcome of Inr code \<Rightarrow> r = (if code = 0 then Inr () else Inl (ProcessFailed code)) | Inl e \<Rightarrow> r = Inl e)"
proof -
  obtain outcome elapsed rest where "ob_process ob (plain_process (Some (ob_root ob)) c) (sc_rest w) = Some (outcome, elapsed, rest)"
    using assms unfolding ends_def by (metis not_Some_eq prod_cases3)
  then show ?thesis
    by (auto simp: dev_run_def run_text_def and_then_def launch_def yield_def give_def captured_text_def checked_def
        plain_process_def split: prod.split sum.split)
qed

lemma run_all_effect:
  assumes "ends ob"
  shows "\<exists>r w' outcomes. run_all ob cs w = Some (r, w') \<and>
     sc_trace w' = sc_trace w @ map2 (\<lambda>c. Ran (plain_process (Some (ob_root ob)) c)) cs outcomes \<and> stops_at_first_failure cs outcomes \<and>
     (if list_all ((=) (Inr 0)) outcomes then \<not> isl r
      else \<exists>e. r = Inl e \<and> (case last outcomes of Inr code \<Rightarrow> e = ProcessFailed code | Inl e' \<Rightarrow> e = e'))"
proof (induction cs arbitrary: w)
  case Nil
  then show ?case by (auto simp: run_all_def give_def)
next
  case (Cons c cs)
  obtain r w1 outcome where first: "dev_run ob c w = Some (r, w1)" "sc_trace w1 = sc_trace w @ [Ran (plain_process (Some (ob_root ob)) c) outcome]"
    "case outcome of Inr code \<Rightarrow> r = (if code = 0 then Inr () else Inl (ProcessFailed code)) | Inl e \<Rightarrow> r = Inl e"
    using dev_run_effect [OF assms] by blast
  show ?case
  proof (cases "outcome = Inr 0")
    case True
    obtain r' w' outcomes where rest: "run_all ob cs w1 = Some (r', w')"
      "sc_trace w' = sc_trace w1 @ map2 (\<lambda>c. Ran (plain_process (Some (ob_root ob)) c)) cs outcomes" "stops_at_first_failure cs outcomes"
      "if list_all ((=) (Inr 0)) outcomes then \<not> isl r'
       else \<exists>e. r' = Inl e \<and> (case last outcomes of Inr code \<Rightarrow> e = ProcessFailed code | Inl e' \<Rightarrow> e = e')"
      using Cons.IH [of w1] by blast
    have "r = Inr ()" using first(3) True by simp
    then have "run_all ob (c # cs) w = Some (case r' of Inl e \<Rightarrow> Inl e | Inr xs \<Rightarrow> Inr (() # xs), w')"
      using first(1) rest(1) by (simp add: run_all_def and_then_def give_def split: sum.split)
    with first(2) rest True show ?thesis
      by (intro exI [of _ "case r' of Inl e \<Rightarrow> Inl e | Inr xs \<Rightarrow> Inr (() # xs)"] exI [of _ w'] exI [of _ "outcome # outcomes"])
        (cases "last outcomes"; auto split: sum.splits if_splits)
  next
    case False
    then obtain e where "r = Inl e" "case outcome of Inr code \<Rightarrow> e = ProcessFailed code | Inl e' \<Rightarrow> e = e'"
      using first(3) by (cases outcome) (auto split: if_splits)
    with first(1,2) False show ?thesis
      by (intro exI [of _ "Inl e"] exI [of _ w1] exI [of _ "[outcome]"]) (auto simp: run_all_def and_then_def)
  qed
qed

lemma dev_check_runs_all: "dev_check ob = and_then (run_all ob check_commands) (\<lambda>_. give ())"
  by (simp add: dev_check_def run_all_def check_commands_def dev_lint_def format_check_def typecheck_def dev_test_def
      dev_docs_def uv_run_def)

text \<open>
  \<open>dev.py check\<close> runs the linter, the format check, the type checker, the tests and the documentation
  build in this order and stops at the first that fails; its exit status is 0 exactly when all five succeed,
  and otherwise that of the failing command (a command that is not installed is named), if the commands end at all.
\<close>

theorem dev_check_verdict:
  assumes "ends ob"
  shows "\<exists>outcomes w' last_outcome. dev_main ob [''check''] w = Some (ending_of last_outcome, w') \<and>
     sc_trace w' = sc_trace w @ map2 (\<lambda>c. Ran (plain_process (Some (ob_root ob)) c)) check_commands outcomes \<and>
     stops_at_first_failure check_commands outcomes \<and> outcomes \<noteq> [] \<and> last_outcome = last outcomes"
proof -
  obtain r w' outcomes where run: "run_all ob check_commands w = Some (r, w')"
    "sc_trace w' = sc_trace w @ map2 (\<lambda>c. Ran (plain_process (Some (ob_root ob)) c)) check_commands outcomes"
    "stops_at_first_failure check_commands outcomes"
    "if list_all ((=) (Inr 0)) outcomes then \<not> isl r
     else \<exists>e. r = Inl e \<and> (case last outcomes of Inr code \<Rightarrow> e = ProcessFailed code | Inl e' \<Rightarrow> e = e')"
    using run_all_effect [OF assms] by blast
  have some: "outcomes \<noteq> []" using run(3) by (auto simp: check_commands_def)
  have task: "map_of TASKS ''check'' = Some dev_check" by (simp add: TASKS_def)
  have "dev_main ob [''check''] w = Some (ending_of (last outcomes), w')"
  proof (cases "list_all ((=) (Inr 0)) outcomes")
    case True
    then have "last outcomes = Inr 0" using some by (auto simp: list_all_iff dest: last_in_set)
    with True run(1,4) show ?thesis
      by (cases r) (simp_all add: dev_main_def task dev_check_runs_all and_then_def give_def ending_of_def)
  next
    case False
    then obtain e where "r = Inl e" "case last outcomes of Inr code \<Rightarrow> e = ProcessFailed code | Inl e' \<Rightarrow> e = e'"
      using run(4) by auto
    with run(1) show ?thesis
      by (cases "last outcomes")
        (auto simp: dev_main_def task dev_check_runs_all and_then_def ending_of_def split: fault.split)
  qed
  with run some show ?thesis by blast
qed

end
