(* ===== verification/Migrations.thy ===== *)
theory Migrations
  imports Application
begin

text \<open>
  The revisions under \<open>src/migrations/versions\<close> as the DDL statements they issue, over a catalog of tables,
  indexes, functions and triggers with PostgreSQL's rules for names and dependencies. The columns and check
  constraints of the tables are in \<open>Schema\<close>.
\<close>

subsection \<open>Statements\<close>

text \<open>A table is created with the tables it references and the indexes of its keys.\<close>

datatype ddl =
    CreateTable string "string list" "string list"
  | CreateIndex string string
  | CreateFunction string
  | CreateTrigger string string string
  | DropTable string
  | DropIndex string
  | DropIndexIfExists string
  | DropFunction string
  | DropTrigger string string

datatype ddl_error = DuplicateObject string | UndefinedObject string | DependentObjects string

record objects =
  so_tables :: "(string \<times> string list) list"
  so_keys :: "(string \<times> string) list"
  so_indexes :: "(string \<times> string) list"
  so_functions :: "string list"
  so_triggers :: "(string \<times> string \<times> string) list"

definition no_objects :: objects where
  "no_objects = \<lparr>so_tables = [], so_keys = [], so_indexes = [], so_functions = [], so_triggers = []\<rparr>"

text \<open>Tables and indexes share one namespace.\<close>

definition relations :: "objects \<Rightarrow> string list" where
  "relations s = map fst (so_tables s) @ map fst (so_keys s) @ map fst (so_indexes s)"

definition has_table :: "objects \<Rightarrow> string \<Rightarrow> bool" where
  "has_table s t \<longleftrightarrow> t \<in> set (map fst (so_tables s))"

definition execute :: "ddl \<Rightarrow> objects \<Rightarrow> ddl_error + objects" where
  "execute statement s = (case statement of
       CreateTable t references keys \<Rightarrow>
         if list_ex (\<lambda>n. n \<in> set (relations s)) (t # keys) then Inl (DuplicateObject t)
         else if \<not> list_all (has_table s) references then Inl (UndefinedObject t)
         else Inr (s\<lparr>so_tables := so_tables s @ [(t, references)], so_keys := so_keys s @ map (\<lambda>k. (k, t)) keys\<rparr>)
     | CreateIndex i t \<Rightarrow>
         if i \<in> set (relations s) then Inl (DuplicateObject i)
         else if \<not> has_table s t then Inl (UndefinedObject t)
         else Inr (s\<lparr>so_indexes := so_indexes s @ [(i, t)]\<rparr>)
     | CreateFunction f \<Rightarrow>
         if f \<in> set (so_functions s) then Inl (DuplicateObject f)
         else Inr (s\<lparr>so_functions := so_functions s @ [f]\<rparr>)
     | CreateTrigger g t f \<Rightarrow>
         if \<not> has_table s t then Inl (UndefinedObject t)
         else if f \<notin> set (so_functions s) then Inl (UndefinedObject f)
         else if list_ex (\<lambda>(g', t', _). g' = g \<and> t' = t) (so_triggers s) then Inl (DuplicateObject g)
         else Inr (s\<lparr>so_triggers := so_triggers s @ [(g, t, f)]\<rparr>)
     | DropTable t \<Rightarrow>
         if \<not> has_table s t then Inl (UndefinedObject t)
         else if list_ex (\<lambda>(t', references). t' \<noteq> t \<and> t \<in> set references) (so_tables s) then Inl (DependentObjects t)
         else Inr (s\<lparr>so_tables := filter (\<lambda>(t', _). t' \<noteq> t) (so_tables s),
           so_keys := filter (\<lambda>(_, t'). t' \<noteq> t) (so_keys s), so_indexes := filter (\<lambda>(_, t'). t' \<noteq> t) (so_indexes s),
           so_triggers := filter (\<lambda>(_, t', _). t' \<noteq> t) (so_triggers s)\<rparr>)
     | DropIndex i \<Rightarrow>
         if i \<in> set (map fst (so_keys s)) then Inl (DependentObjects i)
         else if i \<notin> set (map fst (so_indexes s)) then Inl (UndefinedObject i)
         else Inr (s\<lparr>so_indexes := filter (\<lambda>(i', _). i' \<noteq> i) (so_indexes s)\<rparr>)
     | DropIndexIfExists i \<Rightarrow>
         if i \<in> set (map fst (so_keys s)) then Inl (DependentObjects i)
         else Inr (s\<lparr>so_indexes := filter (\<lambda>(i', _). i' \<noteq> i) (so_indexes s)\<rparr>)
     | DropFunction f \<Rightarrow>
         if f \<notin> set (so_functions s) then Inl (UndefinedObject f)
         else if list_ex (\<lambda>(_, _, f'). f' = f) (so_triggers s) then Inl (DependentObjects f)
         else Inr (s\<lparr>so_functions := filter (\<lambda>f'. f' \<noteq> f) (so_functions s)\<rparr>)
     | DropTrigger g t \<Rightarrow>
         if \<not> list_ex (\<lambda>(g', t', _). g' = g \<and> t' = t) (so_triggers s) then Inl (UndefinedObject g)
         else Inr (s\<lparr>so_triggers := filter (\<lambda>(g', t', _). \<not> (g' = g \<and> t' = t)) (so_triggers s)\<rparr>))"

fun execute_all :: "ddl list \<Rightarrow> objects \<Rightarrow> ddl_error + objects" where
  "execute_all [] s = Inr s"
| "execute_all (statement # rest) s =
     (case execute statement s of Inl e \<Rightarrow> Inl e | Inr s' \<Rightarrow> execute_all rest s')"

subsection \<open>The initial schema\<close>

definition create_resources_tables :: "ddl list" where
  "create_resources_tables =
     [CreateTable ''groups'' [] [''pk_groups'', ''uq_groups_name''],
      CreateTable ''principals'' [] [''pk_principals'', ''uq_principals_name''],
      CreateTable ''resources'' [] [''pk_resources'', ''uq_resources_name''],
      CreateIndex ''ix_resources_archived_at'' ''resources'',
      CreateIndex ''ix_resources_match'' ''resources'',
      CreateIndex ''ix_resources_labels_gin'' ''resources'',
      CreateIndex ''ix_resources_type'' ''resources'']"

definition create_identity_tables :: "ddl list" where
  "create_identity_tables =
     [CreateTable ''audit_events'' [''principals''] [''pk_audit_events''],
      CreateIndex ''ix_audit_events_actor_id'' ''audit_events'',
      CreateIndex ''ix_audit_events_correlation_id'' ''audit_events'',
      CreateIndex ''ix_audit_events_created_at'' ''audit_events'',
      CreateIndex ''ix_audit_events_subject'' ''audit_events'',
      CreateTable ''group_memberships'' [''groups'', ''principals''] [''pk_group_memberships''],
      CreateIndex ''ix_group_memberships_principal_id'' ''group_memberships'',
      CreateTable ''api_tokens'' [''principals''] [''pk_api_tokens'', ''uq_api_tokens_token_hash''],
      CreateIndex ''ix_api_tokens_expires_at'' ''api_tokens'',
      CreateIndex ''ix_api_tokens_principal_active'' ''api_tokens'',
      CreateIndex ''ix_api_tokens_principal_id'' ''api_tokens'',
      CreateIndex ''ix_api_tokens_revoked_at'' ''api_tokens'',
      CreateTable ''password_credentials'' [''principals''] [''pk_password_credentials'']]"

definition create_grant_and_lease_tables :: "ddl list" where
  "create_grant_and_lease_tables =
     [CreateTable ''resource_principal_grants'' [''principals'', ''resources''] [''pk_resource_principal_grants''],
      CreateIndex ''ix_resource_principal_grants_principal_id'' ''resource_principal_grants'',
      CreateTable ''resource_group_grants'' [''groups'', ''resources''] [''pk_resource_group_grants''],
      CreateIndex ''ix_resource_group_grants_group_id'' ''resource_group_grants'',
      CreateTable ''leases'' [''principals'', ''resources''] [''pk_leases'', ''uq_leases_principal_idempotency''],
      CreateIndex ''ix_leases_acquired_by'' ''leases'',
      CreateIndex ''ix_leases_expires_at'' ''leases'',
      CreateIndex ''ix_leases_resource_active'' ''leases'',
      CreateIndex ''ix_leases_resource_id'' ''leases'']"

definition updated_at_trigger :: "string \<Rightarrow> string" where
  "updated_at_trigger table_name = ''trg_'' @ table_name @ ''_set_updated_at''"

definition stamped_tables :: "string list" where
  "stamped_tables = [''principals'', ''groups'', ''resources'']"

definition create_updated_at_triggers :: "ddl list" where
  "create_updated_at_triggers =
     CreateFunction ''shepherd_set_updated_at'' #
     map (\<lambda>t. CreateTrigger (updated_at_trigger t) t ''shepherd_set_updated_at'') stamped_tables"

definition initial_upgrade :: "ddl list" where
  "initial_upgrade = create_resources_tables @ create_identity_tables @ create_grant_and_lease_tables @ create_updated_at_triggers"

definition initial_downgrade :: "ddl list" where
  "initial_downgrade = map (\<lambda>t. DropTrigger (updated_at_trigger t) t) stamped_tables @
     [DropFunction ''shepherd_set_updated_at'',
      DropIndex ''ix_leases_resource_id'', DropIndex ''ix_leases_resource_active'', DropIndex ''ix_leases_expires_at'',
      DropIndex ''ix_leases_acquired_by'', DropTable ''leases'',
      DropIndex ''ix_resource_group_grants_group_id'', DropTable ''resource_group_grants'',
      DropIndex ''ix_resource_principal_grants_principal_id'', DropTable ''resource_principal_grants'',
      DropTable ''password_credentials'',
      DropIndex ''ix_api_tokens_revoked_at'', DropIndex ''ix_api_tokens_principal_id'',
      DropIndex ''ix_api_tokens_principal_active'', DropIndex ''ix_api_tokens_expires_at'', DropTable ''api_tokens'',
      DropIndex ''ix_group_memberships_principal_id'', DropTable ''group_memberships'',
      DropIndex ''ix_audit_events_subject'', DropIndex ''ix_audit_events_created_at'',
      DropIndex ''ix_audit_events_correlation_id'', DropIndex ''ix_audit_events_actor_id'', DropTable ''audit_events'',
      DropIndex ''ix_resources_type'', DropIndex ''ix_resources_labels_gin'', DropIndex ''ix_resources_match'',
      DropIndex ''ix_resources_archived_at'', DropTable ''resources'',
      DropTable ''principals'', DropTable ''groups'']"

subsection \<open>The later revisions\<close>

definition secrets_upgrade :: "ddl list" where
  "secrets_upgrade =
     [CreateTable ''resource_secrets'' [''resources''] [''pk_resource_secrets'', ''uq_resource_secrets_resource_name''],
      CreateIndex ''ix_resource_secrets_resource_id'' ''resource_secrets'',
      CreateTrigger ''trg_resource_secrets_set_updated_at'' ''resource_secrets'' ''shepherd_set_updated_at'']"

definition secrets_downgrade :: "ddl list" where
  "secrets_downgrade =
     [DropTrigger ''trg_resource_secrets_set_updated_at'' ''resource_secrets'',
      DropIndex ''ix_resource_secrets_resource_id'', DropTable ''resource_secrets'']"

definition windows_upgrade :: "ddl list" where
  "windows_upgrade =
     [CreateTable ''rate_limit_windows'' [] [''pk_rate_limit_windows''],
      CreateIndex ''ix_rate_limit_windows_expires_at'' ''rate_limit_windows'']"

definition windows_downgrade :: "ddl list" where
  "windows_downgrade = [DropIndexIfExists ''ix_rate_limit_windows_expires_at'', DropTable ''rate_limit_windows'']"

definition expiration_upgrade :: "ddl list" where
  "expiration_upgrade = [CreateIndex ''ix_leases_active_expiration'' ''leases'']"

definition expiration_downgrade :: "ddl list" where
  "expiration_downgrade = [DropIndex ''ix_leases_active_expiration'']"

subsection \<open>Running revisions\<close>

record migration =
  mg_revision :: string
  mg_down_revision :: "string option"
  mg_upgrade :: "ddl list"
  mg_downgrade :: "ddl list"

definition MIGRATIONS :: "migration list" where
  "MIGRATIONS =
     [\<lparr>mg_revision = ''7280c6a57e19'', mg_down_revision = None,
       mg_upgrade = initial_upgrade, mg_downgrade = initial_downgrade\<rparr>,
      \<lparr>mg_revision = ''4c7d9e2a6b31'', mg_down_revision = Some ''7280c6a57e19'',
       mg_upgrade = secrets_upgrade, mg_downgrade = secrets_downgrade\<rparr>,
      \<lparr>mg_revision = ''86ad7aa7c121'', mg_down_revision = Some ''4c7d9e2a6b31'',
       mg_upgrade = windows_upgrade, mg_downgrade = windows_downgrade\<rparr>,
      \<lparr>mg_revision = ''b1f4a7c9d203'', mg_down_revision = Some ''86ad7aa7c121'',
       mg_upgrade = expiration_upgrade, mg_downgrade = expiration_downgrade\<rparr>]"

text \<open>
  A database with the revision in its version table. A step runs in the transaction \<open>env.py\<close> begins,
  so a failing one leaves the database as it was.
\<close>

type_synonym versioned = "string option \<times> objects"

definition upgrade_step :: "versioned \<Rightarrow> (ddl_error + versioned) option" where
  "upgrade_step vs = (case first_row (filter (\<lambda>m. mg_down_revision m = fst vs) MIGRATIONS) of
       None \<Rightarrow> None
     | Some m \<Rightarrow> Some (map_sum id (Pair (Some (mg_revision m))) (execute_all (mg_upgrade m) (snd vs))))"

definition downgrade_step :: "versioned \<Rightarrow> (ddl_error + versioned) option" where
  "downgrade_step vs = (case first_row (filter (\<lambda>m. Some (mg_revision m) = fst vs) MIGRATIONS) of
       None \<Rightarrow> None
     | Some m \<Rightarrow> Some (map_sum id (Pair (mg_down_revision m)) (execute_all (mg_downgrade m) (snd vs))))"

end
