(* ===== verification/Migrations_Laws.thy ===== *)
theory Migrations_Laws
  imports Migrations
begin

text \<open>
  Every revision can be applied and taken back: in a database whose other objects have names of their own and do not
  depend on the schema, each upgrade succeeds, its downgrade restores exactly the objects there were, and only
  the last revision makes the service ready. Statements are local, so it is enough to run the revisions in an
  empty database.
\<close>

subsection \<open>Locality\<close>

definition beside :: "objects \<Rightarrow> objects \<Rightarrow> objects" where
  "beside c s = \<lparr>so_tables = so_tables c @ so_tables s, so_keys = so_keys c @ so_keys s,
     so_indexes = so_indexes c @ so_indexes s, so_functions = so_functions c @ so_functions s,
     so_triggers = so_triggers c @ so_triggers s\<rparr>"

lemma beside_nothing [simp]: "beside c no_objects = c"
  by (simp add: beside_def no_objects_def)

definition ddl_names :: "ddl \<Rightarrow> string list" where
  "ddl_names statement = (case statement of
       CreateTable t references keys \<Rightarrow> t # references @ keys
     | CreateIndex i t \<Rightarrow> [i, t]
     | CreateFunction f \<Rightarrow> [f]
     | CreateTrigger g t f \<Rightarrow> [t, f]
     | DropTable t \<Rightarrow> [t]
     | DropIndex i \<Rightarrow> [i]
     | DropIndexIfExists i \<Rightarrow> [i]
     | DropFunction f \<Rightarrow> [f]
     | DropTrigger g t \<Rightarrow> [t])"

definition foreign_to :: "string list \<Rightarrow> objects \<Rightarrow> bool" where
  "foreign_to names c \<longleftrightarrow>
     list_all (\<lambda>(t, references). t \<notin> set names \<and> list_all (\<lambda>r. r \<notin> set names) references) (so_tables c) \<and>
     list_all (\<lambda>(k, t). k \<notin> set names \<and> t \<notin> set names) (so_keys c @ so_indexes c) \<and>
     list_all (\<lambda>f. f \<notin> set names) (so_functions c) \<and>
     list_all (\<lambda>(g, t, f). t \<notin> set names \<and> f \<notin> set names) (so_triggers c)"

lemma foreign_kept:
  assumes "foreign_to names c" and "x \<in> set names"
  shows "filter (\<lambda>(t, _). t \<noteq> x) (so_tables c) = so_tables c"
    "filter (\<lambda>(_, t). t \<noteq> x) (so_keys c) = so_keys c" "filter (\<lambda>(_, t). t \<noteq> x) (so_indexes c) = so_indexes c"
    "filter (\<lambda>(i, _). i \<noteq> x) (so_indexes c) = so_indexes c" "filter (\<lambda>f. f \<noteq> x) (so_functions c) = so_functions c"
    "filter (\<lambda>(_, t, _). t \<noteq> x) (so_triggers c) = so_triggers c"
    "filter (\<lambda>(g, t, _). \<not> (g = y \<and> t = x)) (so_triggers c) = so_triggers c"
  using assms by (auto simp: foreign_to_def list_all_iff intro!: filter_True)

lemma foreign_absent:
  assumes "foreign_to names c" and "x \<in> set names"
  shows "\<not> has_table c x" "x \<notin> set (relations c)" "x \<notin> set (map fst (so_keys c))" "x \<notin> set (map fst (so_indexes c))"
    "x \<notin> set (so_functions c)" "\<not> list_ex (\<lambda>(g, t, _). g = y \<and> t = x) (so_triggers c)"
    "\<not> list_ex (\<lambda>(_, _, f). f = x) (so_triggers c)" "\<not> list_ex (\<lambda>(t, references). t \<noteq> x \<and> x \<in> set references) (so_tables c)"
  using assms by (fastforce simp: foreign_to_def list_all_iff list_ex_iff has_table_def relations_def)+

lemma beside_simps:
  "has_table (beside c s) x \<longleftrightarrow> has_table c x \<or> has_table s x"
  "x \<in> set (relations (beside c s)) \<longleftrightarrow> x \<in> set (relations c) \<or> x \<in> set (relations s)"
  by (auto simp: beside_def has_table_def relations_def)

lemma execute_beside:
  assumes "foreign_to names c" and "set (ddl_names statement) \<subseteq> set names"
  shows "execute statement (beside c s) = map_sum id (beside c) (execute statement s)"
proof (cases statement)
  case (CreateTable t references keys)
  then have inside: "\<And>x. x \<in> set (t # references @ keys) \<Longrightarrow> x \<in> set names" using assms(2) by (auto simp: ddl_names_def)
  have "list_ex (\<lambda>n. n \<in> set (relations (beside c s))) (t # keys) = list_ex (\<lambda>n. n \<in> set (relations s)) (t # keys)"
    using inside foreign_absent(2) [OF assms(1)] by (auto simp: list_ex_iff beside_simps(2))
  moreover have "list_all (has_table (beside c s)) references = list_all (has_table s) references"
    using inside foreign_absent(1) [OF assms(1)] by (auto simp: list_all_iff beside_simps(1))
  ultimately show ?thesis by (simp add: CreateTable execute_def) (simp add: beside_def)
next
  case (CreateIndex i t)
  then have "i \<in> set names" "t \<in> set names" using assms(2) by (auto simp: ddl_names_def)
  with foreign_absent(1,2) [OF assms(1)] show ?thesis
    by (simp add: CreateIndex execute_def beside_simps) (simp add: beside_def)
next
  case (CreateFunction f)
  then have "f \<in> set names" using assms(2) by (auto simp: ddl_names_def)
  with foreign_absent(5) [OF assms(1)] show ?thesis by (simp add: CreateFunction execute_def beside_def)
next
  case (CreateTrigger g t f)
  then have "t \<in> set names" "f \<in> set names" using assms(2) by (auto simp: ddl_names_def)
  with foreign_absent(1,5,6) [OF assms(1)] show ?thesis
    by (simp add: CreateTrigger execute_def beside_simps) (simp add: beside_def)
next
  case (DropTable t)
  then have "t \<in> set names" using assms(2) by (auto simp: ddl_names_def)
  with foreign_absent(1,8) [OF assms(1)] foreign_kept [OF assms(1)] show ?thesis
    by (simp add: DropTable execute_def beside_simps) (simp add: beside_def)
next
  case (DropIndex i)
  then have "i \<in> set names" using assms(2) by (auto simp: ddl_names_def)
  with foreign_absent(3,4) [OF assms(1)] foreign_kept [OF assms(1)] show ?thesis
    by (simp add: DropIndex execute_def beside_def)
next
  case (DropIndexIfExists i)
  then have "i \<in> set names" using assms(2) by (auto simp: ddl_names_def)
  with foreign_absent(3) [OF assms(1)] foreign_kept [OF assms(1)] show ?thesis
    by (simp add: DropIndexIfExists execute_def beside_def)
next
  case (DropFunction f)
  then have "f \<in> set names" using assms(2) by (auto simp: ddl_names_def)
  with foreign_absent(5,7) [OF assms(1)] foreign_kept [OF assms(1)] show ?thesis
    by (simp add: DropFunction execute_def beside_def)
next
  case (DropTrigger g t)
  then have "t \<in> set names" using assms(2) by (auto simp: ddl_names_def)
  with foreign_absent(6) [OF assms(1)] foreign_kept(7) [OF assms(1)] show ?thesis
    by (simp add: DropTrigger execute_def beside_def)
qed

lemma execute_all_beside:
  assumes "foreign_to names c" and "list_all (\<lambda>st. set (ddl_names st) \<subseteq> set names) statements"
  shows "execute_all statements (beside c s) = map_sum id (beside c) (execute_all statements s)"
  using assms(2)
proof (induction statements arbitrary: s)
  case (Cons st rest)
  then show ?case using execute_beside [OF assms(1), of st s] by (cases "execute st s") simp_all
qed simp

subsection \<open>The revisions\<close>

definition schema_names :: "string list" where
  "schema_names = concat (map ddl_names (concat (map (\<lambda>m. mg_upgrade m @ mg_downgrade m) MIGRATIONS)))"

text \<open>The database after \<open>k\<close> upgrade steps from the objects \<open>c\<close>.\<close>

fun schema_at :: "objects \<Rightarrow> nat \<Rightarrow> ddl_error + versioned" where
  "schema_at c 0 = Inr (None, c)"
| "schema_at c (Suc k) = (case schema_at c k of
     Inl e \<Rightarrow> Inl e
   | Inr vs \<Rightarrow> (case upgrade_step vs of None \<Rightarrow> Inr vs | Some r \<Rightarrow> r))"

definition lift :: "objects \<Rightarrow> ddl_error + versioned \<Rightarrow> ddl_error + versioned" where
  "lift c r = (case r of Inl e \<Rightarrow> Inl e | Inr (v, s) \<Rightarrow> Inr (v, beside c s))"

lemma lift_simps [simp]: "lift c (Inl e) = Inl e" "lift c (Inr (v, s)) = Inr (v, beside c s)"
  by (simp_all add: lift_def)

lemma names_of_revisions:
  "m \<in> set MIGRATIONS \<Longrightarrow> list_all (\<lambda>st. set (ddl_names st) \<subseteq> set schema_names) (mg_upgrade m) \<and>
     list_all (\<lambda>st. set (ddl_names st) \<subseteq> set schema_names) (mg_downgrade m)"
  by (auto simp: schema_names_def list_all_iff)

lemma first_row_mem: "first_row (filter P xs) = Some x \<Longrightarrow> x \<in> set xs"
  by (cases "filter P xs") (auto simp: first_row_def filter_eq_Cons_iff)

lemma revision_beside:
  assumes "foreign_to schema_names c" and "m \<in> set MIGRATIONS"
  shows "map_sum id (Pair v) (execute_all (mg_upgrade m) (beside c s)) = lift c (map_sum id (Pair v) (execute_all (mg_upgrade m) s))"
    and "map_sum id (Pair v) (execute_all (mg_downgrade m) (beside c s)) = lift c (map_sum id (Pair v) (execute_all (mg_downgrade m) s))"
  using execute_all_beside [OF assms(1), of "mg_upgrade m" s] execute_all_beside [OF assms(1), of "mg_downgrade m" s]
    names_of_revisions [OF assms(2)]
  by (cases "execute_all (mg_upgrade m) s"; cases "execute_all (mg_downgrade m) s"; simp)+

lemma steps_beside:
  assumes "foreign_to schema_names c"
  shows "upgrade_step (v, beside c s) = map_option (lift c) (upgrade_step (v, s))"
    and "downgrade_step (v, beside c s) = map_option (lift c) (downgrade_step (v, s))"
  using revision_beside [OF assms] first_row_mem [of _ MIGRATIONS]
  by (auto simp: upgrade_step_def downgrade_step_def split: option.split)

lemma schema_at_beside:
  assumes "foreign_to schema_names c"
  shows "schema_at c k = lift c (schema_at no_objects k)"
proof (induction k)
  case (Suc k)
  show ?case
  proof (cases "schema_at no_objects k")
    case (Inr vs)
    then show ?thesis using Suc steps_beside(1) [OF assms] by (cases vs) (auto split: option.split)
  qed (simp add: Suc)
qed simp

definition step_reverses :: "nat \<Rightarrow> bool" where
  "step_reverses k = (case schema_at no_objects k of Inl _ \<Rightarrow> False | Inr vs \<Rightarrow>
     (case upgrade_step vs of
        Some (Inr vs') \<Rightarrow> fst vs' = Some (mg_revision (MIGRATIONS ! k)) \<and> downgrade_step vs' = Some (Inr vs)
      | _ \<Rightarrow> False))"

lemma all_steps_reverse: "list_all step_reverses [0, 1, 2, 3]"
  by code_simp

text \<open>
  C38: Migrations go forward and back without loss: beside any foreign objects the first \<open>k\<close> revisions apply, the next one
  applies to what they leave and its downgrade restores that exactly, so no object is left behind and none is
  dropped while another depends on it; the readiness check passes at the last revision and at no other.
\<close>

theorem migrations_reverse:
  assumes "foreign_to schema_names c" and "k < 4"
  shows "\<exists>vs vs'. schema_at c k = Inr vs \<and> upgrade_step vs = Some (Inr vs') \<and>
     fst vs' = Some (mg_revision (MIGRATIONS ! k)) \<and> downgrade_step vs' = Some (Inr vs) \<and>
     (check_database None [mg_revision (MIGRATIONS ! k)] = Inr () \<longleftrightarrow> k = 3)"
proof -
  have "k \<in> {0, 1, 2, 3}" using assms(2) by auto
  then have "step_reverses k" using all_steps_reverse by auto
  then obtain v s v' s' where "schema_at no_objects k = Inr (v, s)" "upgrade_step (v, s) = Some (Inr (v', s'))"
    "v' = Some (mg_revision (MIGRATIONS ! k))" "downgrade_step (v', s') = Some (Inr (v, s))"
    by (auto simp: step_reverses_def split: sum.splits option.splits) (metis obj_sumE surj_pair)
  moreover have "check_database None [mg_revision (MIGRATIONS ! k)] = Inr () \<longleftrightarrow> k = 3"
    using \<open>k \<in> {0, 1, 2, 3}\<close> by (auto simp: check_database_def expected_migration_heads_def migration_scripts_def MIGRATIONS_def)
  ultimately show ?thesis
    using schema_at_beside [OF assms(1), of k] steps_beside [OF assms(1)]
    by (intro exI [of _ "(v, beside c s)"] exI [of _ "(v', beside c s')"]) simp
qed

lemma migrations_reverse_witness:
  "\<exists>vs vs'. schema_at (no_objects\<lparr>so_tables := [(''alembic_version'', [])]\<rparr>) 2 = Inr vs \<and>
     upgrade_step vs = Some (Inr vs') \<and> downgrade_step vs' = Some (Inr vs)"
proof -
  have "foreign_to schema_names (no_objects\<lparr>so_tables := [(''alembic_version'', [])]\<rparr>)" by code_simp
  from migrations_reverse [OF this, of 2] show ?thesis by auto
qed

end
