(* ===== verification/Set_Up.thy ===== *)
theory Set_Up
  imports Config Metrics
begin

text \<open>
  The set-up around the service: the OpenAPI document, the log handler, the correlation variable, engines and
  transactions, the start of the server, and the database URL on its way through Alembic's configuration.
\<close>

subsection \<open>The OpenAPI document\<close>

datatype contract_error = NoContractFile | ContractNotText | ContractNotYaml | ContractNotMapping string

text \<open>\<open>load\<close> is \<open>yaml.safe_load\<close>.\<close>

definition load_openapi_contract ::
  "(string \<Rightarrow> bytes option) \<Rightarrow> (string \<Rightarrow> json option) \<Rightarrow> string \<Rightarrow> contract_error + (string \<times> json) list" where
  "load_openapi_contract files load path =
     (case files path of
        None \<Rightarrow> Inl NoContractFile
      | Some bs \<Rightarrow>
          (case utf8_decode bs of
             None \<Rightarrow> Inl ContractNotText
           | Some text \<Rightarrow>
               (case load text of
                  None \<Rightarrow> Inl ContractNotYaml
                | Some (JObj contract) \<Rightarrow> Inr contract
                | Some _ \<Rightarrow> Inl (ContractNotMapping (''OpenAPI contract at '' @ path @ '' must contain a mapping'')))))"

subsection \<open>Logging\<close>

datatype log_handler = JsonHandler | OtherHandler string

record root_logger =
  rl_handlers :: "log_handler list"
  rl_level :: string

definition known_levels :: "string list" where
  "known_levels = [''CRITICAL'', ''FATAL'', ''ERROR'', ''WARN'', ''WARNING'', ''INFO'', ''DEBUG'', ''NOTSET'']"

text \<open>The handler is in place before an unknown level raises.\<close>

definition configure_logging :: "(string \<Rightarrow> string) \<Rightarrow> string \<Rightarrow> root_logger \<Rightarrow> (exc + unit) \<times> root_logger" where
  "configure_logging upper level logger =
     (let installed = logger\<lparr>rl_handlers := [JsonHandler]\<rparr>
      in if upper level \<in> set known_levels then (Inr (), installed\<lparr>rl_level := upper level\<rparr>)
         else (Inl (ValueError (''Unknown level: '' @ upper level)), installed))"

lemma configure_logging_again:
  "snd (configure_logging upper level (snd (configure_logging upper level logger))) =
     snd (configure_logging upper level logger)"
  by (simp add: configure_logging_def Let_def)

subsection \<open>The correlation variable\<close>

text \<open>A context variable with a default; setting it returns the token that resets it.\<close>

type_synonym context_var = "string option"

definition set_correlation_id :: "string \<Rightarrow> context_var \<Rightarrow> context_var \<times> context_var" where
  "set_correlation_id correlation_id var = (var, Some correlation_id)"

definition reset_correlation_id :: "context_var \<Rightarrow> context_var \<Rightarrow> context_var" where
  "reset_correlation_id token var = token"

definition get_correlation_id :: "context_var \<Rightarrow> string" where
  "get_correlation_id var = (case var of None \<Rightarrow> ''unknown'' | Some correlation_id \<Rightarrow> correlation_id)"

lemma correlation_restored:
  "set_correlation_id c var = (token, var') \<Longrightarrow> get_correlation_id var' = c \<and> reset_correlation_id token var'' = var"
  by (auto simp: set_correlation_id_def get_correlation_id_def reset_correlation_id_def)

subsection \<open>Engines and transactions\<close>

text \<open>\<open>@lru_cache\<close> keeps the 128 engines used last; an engine is a number and the URL it connects to.\<close>

type_synonym engine = "nat \<times> string"

record engines =
  en_cached :: "(string \<times> engine) list"
  en_created :: nat

definition identity_engine :: "string \<Rightarrow> engines \<Rightarrow> engine \<times> engines" where
  "identity_engine database_url en =
     (let others = filter (\<lambda>(u, _). u \<noteq> database_url) (en_cached en)
      in case map_of (en_cached en) database_url of
           Some e \<Rightarrow> (e, en\<lparr>en_cached := (database_url, e) # others\<rparr>)
         | None \<Rightarrow>
             (let e = (en_created en, sqlalchemy_database_url database_url)
              in (e, \<lparr>en_cached = take 128 ((database_url, e) # others), en_created = en_created en + 1\<rparr>)))"

lemma engine_reused:
  "identity_engine u en = (e, en') \<Longrightarrow> fst (identity_engine u en') = e"
  by (auto simp: identity_engine_def Let_def split: option.splits)

definition identity_transaction :: "(db \<Rightarrow> exc + ('a \<times> db)) \<Rightarrow> db \<Rightarrow> (exc + 'a) \<times> db" where
  "identity_transaction = run_tx"

definition catalog_transaction :: "(db \<Rightarrow> exc + ('a \<times> db)) \<Rightarrow> db \<Rightarrow> (exc + 'a) \<times> db" where
  "catalog_transaction = run_tx"

definition leasing_transaction :: "(db \<Rightarrow> exc + ('a \<times> db)) \<Rightarrow> db \<Rightarrow> (exc + 'a) \<times> db" where
  "leasing_transaction = run_tx"

definition resource_secret_transaction :: "(db \<Rightarrow> exc + ('a \<times> db)) \<Rightarrow> db \<Rightarrow> (exc + 'a) \<times> db" where
  "resource_secret_transaction = run_tx"

definition psycopg_transaction :: "(db \<Rightarrow> exc + ('a \<times> db)) \<Rightarrow> db \<Rightarrow> (exc + 'a) \<times> db" where
  "psycopg_transaction = run_tx"

definition lock_resource :: "uuid \<Rightarrow> db \<Rightarrow> bool" where
  "lock_resource resource_id d = (first_row (filter (\<lambda>r. r_id r = resource_id) (db_resources d)) \<noteq> None)"

lemma lock_resource_finds: "lock_resource i d \<longleftrightarrow> resource_exists d i"
  by (auto simp: lock_resource_def first_row_def resource_exists_def list_ex_iff filter_empty_conv filter_eq_Cons_iff split: list.splits)

subsection \<open>The server\<close>

definition package_version :: string where
  "package_version = ''0.1.0''"

definition server_start :: "string \<Rightarrow> string \<Rightarrow> int \<Rightarrow> log_record \<times> string \<times> string \<times> int" where
  "server_start revision host port =
     (\<lparr>lg_level = ''INFO'', lg_logger = ''shepherd_rm.main'', lg_message = ''service starting'',
       lg_fields = [(''version'', JStr package_version), (''revision'', JStr revision)], lg_exception = None\<rparr>,
      ''shepherd_rm.main:app'', host, port)"

subsection \<open>Alembic\<close>

text \<open>
  \<open>env.py\<close> doubles percent signs, since the configuration interpolates its values when they are read: a
  doubled sign is a sign, a reference to another option is replaced (\<open>refer\<close> gives its value and length),
  and any other sign is an error.
\<close>

definition escape_percent :: "string \<Rightarrow> string" where
  "escape_percent url = concat (map (\<lambda>c. if c = CHR ''%'' then ''%%'' else [c]) url)"

function interpolate :: "(string \<Rightarrow> (string \<times> nat) option) \<Rightarrow> string \<Rightarrow> string option" where
  "interpolate refer [] = Some []"
| "interpolate refer (c # cs) =
     (if c \<noteq> CHR ''%'' then map_option ((#) c) (interpolate refer cs)
      else (case cs of
          [] \<Rightarrow> None
        | d # ds \<Rightarrow>
            if d = CHR ''%'' then map_option ((#) d) (interpolate refer ds)
            else if d = CHR ''('' then
              (case refer ds of None \<Rightarrow> None | Some (text, n) \<Rightarrow> map_option ((@) text) (interpolate refer (drop n ds)))
            else None))"
  by pat_completeness auto
termination
  by (relation "measure (\<lambda>(_, s). length s)") auto

definition migration_url :: "string \<Rightarrow> string" where
  "migration_url database_url = escape_percent (sqlalchemy_database_url database_url)"

text \<open>Alembic connects to the URL of the settings, whatever signs its password contains.\<close>

lemma migration_url_read_back:
  "interpolate refer (migration_url database_url) = Some (sqlalchemy_database_url database_url)"
proof -
  have "interpolate refer (escape_percent s) = Some s" for s
    by (induction s) (simp_all add: escape_percent_def)
  then show ?thesis by (simp add: migration_url_def)
qed

end
