(* ===== verification/Service.thy ===== *)
theory Service
  imports Contract Metrics
begin

text \<open>
  The server as a whole: the ASGI stack of \<open>Application\<close> around the routers of \<open>Contract\<close> and
  the operational endpoints, over a database and the process counters. What FastAPI makes of a request (its route,
  its validated parameters) is an argument of each incoming request.
\<close>

subsection \<open>Routed requests\<close>

text \<open>
  A body that is no JSON is refused at once. Then the dependency of the route runs, and only then are
  the parameters and the body validated. Paths and methods without a route are answered by the framework.
\<close>

datatype guard = Open | AnyPrincipal | Administrator

datatype routed =
    Operation request_env call
  | Malformed
  | Invalid guard request_env
  | Health
  | Readiness "exc option" "string list"
  | Scrape "exc option" "exc option" request_env string worker_snapshot
  | Unrouted int string "(string \<times> string) list"

datatype page =
    ApiPage body
  | StatusPage string
  | SamplesPage "(string \<times> string list \<times> sample_value) list"
  | DetailPage string

definition retype :: "('a \<Rightarrow> 'b) \<Rightarrow> 'a response \<Rightarrow> 'b response" where
  "retype f r = \<lparr>rs_status = rs_status r, rs_headers = rs_headers r, rs_content =
     (case rs_content r of Content x \<Rightarrow> Content (f x) | ProblemContent p \<Rightarrow> ProblemContent p)\<rparr>"

fun retype_outcome :: "('a \<Rightarrow> 'b) \<Rightarrow> 'a endpoint_outcome \<Rightarrow> 'b endpoint_outcome" where
  "retype_outcome f (Answered r) = Answered (retype f r)"
| "retype_outcome f RequestInvalid = RequestInvalid"
| "retype_outcome f (Raised e) = Raised e"

text \<open>The transactions of a request record the correlation id the middleware has set.\<close>

definition under_correlation :: "string \<Rightarrow> request_env \<Rightarrow> request_env" where
  "under_correlation c env = env\<lparr>rv_cx := (rv_cx env)\<lparr>cx_correlation := c\<rparr>\<rparr>"

definition run_guard :: "config \<Rightarrow> guard \<Rightarrow> request_env \<Rightarrow> db \<Rightarrow> (exc + authenticated_principal option) \<times> db" where
  "run_guard cf g env d = (case g of
       Open \<Rightarrow> (Inr None, d)
     | AnyPrincipal \<Rightarrow> apfst (map_sum id Some) (authenticated (cf_sha cf) env d)
     | Administrator \<Rightarrow> apfst (map_sum id Some) (administrator (cf_sha cf) env d))"

definition dispatch :: "config \<Rightarrow> string \<Rightarrow> message list \<Rightarrow> routed \<Rightarrow> db \<Rightarrow> page endpoint_outcome \<times> db" where
  "dispatch cf c ms target d = (case target of
       Operation env call \<Rightarrow>
         (case answer cf (under_correlation c env) call d of
            (Inr r, d') \<Rightarrow> (Answered (retype ApiPage r), d')
          | (Inl e, d') \<Rightarrow> (Raised e, d'))
     | Malformed \<Rightarrow> (RequestInvalid, d)
     | Invalid g env \<Rightarrow>
         (case run_guard cf g (under_correlation c env) d of
            (Inl e, d') \<Rightarrow> (Raised e, d')
          | (Inr _, d') \<Rightarrow> (RequestInvalid, d'))
     | Health \<Rightarrow> (retype_outcome StatusPage (get_health c ms), d)
     | Readiness outage applied \<Rightarrow> (retype_outcome StatusPage (get_readiness outage applied c ms), d)
     | Scrape outage scrape_outage env revision worker \<Rightarrow>
         apfst (retype_outcome SamplesPage)
           (get_metrics outage scrape_outage (cf_sha cf) (under_correlation c env) revision worker d)
     | Unrouted code detail headers \<Rightarrow>
         (Answered \<lparr>rs_status = code, rs_headers = headers @ [(''content-type'', ''application/json'')],
            rs_content = Content (DetailPage detail)\<rparr>, d))"

subsection \<open>The server\<close>

record server =
  sv_db :: db
  sv_metrics :: process_metrics

text \<open>
  A request as it arrives, with the identifiers drawn for it, its duration, and what FastAPI finds in its messages.
\<close>

record incoming =
  ic_request :: http_request
  ic_fresh :: uuid
  ic_fresh' :: uuid
  ic_duration :: rat
  ic_duration_ms :: string
  ic_route :: "message list \<Rightarrow> routed"

text \<open>The messages the body limit lets through.\<close>

definition accepted :: "int \<Rightarrow> incoming \<Rightarrow> message list option" where
  "accepted limit ic =
     (case body_limit_middleware limit (ic_fresh ic) ''http'' (hr_correlation (ic_request ic))
         (hr_length (ic_request ic)) (hr_messages (ic_request ic)) of
        PassThrough ms \<Rightarrow> Some ms
      | CallApp ms \<Rightarrow> Some ms
      | _ \<Rightarrow> None)"

definition correlation_of :: "incoming \<Rightarrow> string" where
  "correlation_of ic = select_correlation_id (hr_correlation (ic_request ic)) (ic_fresh' ic)"

definition service ::
  "config \<Rightarrow> int \<Rightarrow> incoming \<Rightarrow> server \<Rightarrow> ((exc + page response) \<times> server \<times> log_record list) option" where
  "service cf limit ic s =
     (case serve limit (ic_request ic) (ic_fresh ic) (ic_fresh' ic) (ic_duration ic) (ic_duration_ms ic)
         (\<lambda>c ms. fst (dispatch cf c ms (ic_route ic ms) (sv_db s))) (sv_metrics s) of
        None \<Rightarrow> None
      | Some (r, pm, logs) \<Rightarrow>
          Some (r, \<lparr>sv_db = (case accepted limit ic of
                None \<Rightarrow> sv_db s
              | Some ms \<Rightarrow> snd (dispatch cf (correlation_of ic) ms (ic_route ic ms) (sv_db s))),
              sv_metrics = pm\<rparr>, logs))"

text \<open>Requests one after the other; one whose body has not arrived yet leaves the server as it is.\<close>

fun service_all :: "config \<Rightarrow> int \<Rightarrow> incoming list \<Rightarrow> server \<Rightarrow> server" where
  "service_all cf limit [] s = s"
| "service_all cf limit (ic # rest) s =
     service_all cf limit rest (case service cf limit ic s of None \<Rightarrow> s | Some (_, s', _) \<Rightarrow> s')"

end
