(* ===== verification/Service_Laws.thy ===== *)
theory Service_Laws
  imports Service Contract_Laws Application_Laws
begin

text \<open>
  The server refines the transition system of \<open>System\<close>: whatever arrives over HTTP, its database
  moves by events of that system, so every theorem about runs holds of the server, and its answers keep the contract.
\<close>

subsection \<open>Requests and events\<close>

text \<open>
  The event of a request, if it touches the database: an operation is itself; a request that only
  authenticates does what \<open>GET /me\<close> does. The recorded correlation id is the one of the middleware.
\<close>

fun routed_event :: "string \<Rightarrow> routed \<Rightarrow> event option" where
  "routed_event c (Operation env call) = Some (Request (under_correlation c env) call)"
| "routed_event c (Invalid g env) =
     (if g = Open then None else Some (Request (under_correlation c env) (Identity GetMe)))"
| "routed_event c (Scrape outage scrape_outage env revision worker) =
     (if outage = None then Some (Request (under_correlation c env) (Identity GetMe)) else None)"
| "routed_event c _ = None"

definition event_of :: "int \<Rightarrow> incoming \<Rightarrow> event option" where
  "event_of limit ic = Option.bind (accepted limit ic) (\<lambda>ms. routed_event (correlation_of ic) (ic_route ic ms))"

definition events :: "int \<Rightarrow> incoming list \<Rightarrow> event list" where
  "events limit ics = List.map_filter (event_of limit) ics"

definition in_order :: "instant \<Rightarrow> event list \<Rightarrow> bool" where
  "in_order t evs = sorted (t # map event_time evs)"

definition clock_after :: "instant \<Rightarrow> event list \<Rightarrow> instant" where
  "clock_after t evs = last (t # map event_time evs)"

text \<open>What happens to the database is what the events of \<open>System\<close> do.\<close>

definition happens :: "config \<Rightarrow> event option \<Rightarrow> db \<Rightarrow> db" where
  "happens cf ev d = (case ev of None \<Rightarrow> d | Some e \<Rightarrow> handle cf e d)"

lemma then_tx_pure: "(\<And>x d'. snd (k x d') = d') \<Longrightarrow> snd (then_tx r k) = snd r"
  by (cases r) (auto simp: then_tx_def split: sum.splits)

lemma get_me_db: "handle cf (Request env (Identity GetMe)) d = snd (authenticated (cf_sha cf) env d)"
  by (simp add: get_me_def then_tx_pure)

lemma administrator_db: "snd (administrator sha env d) = snd (authenticated sha env d)"
  by (simp add: administrator_def then_tx_pure)

lemma guard_db: "snd (run_guard cf g env d) = (if g = Open then d else handle cf (Request env (Identity GetMe)) d)"
  unfolding get_me_db by (cases g) (simp_all add: run_guard_def administrator_db)

text \<open>While the database cannot be reached nothing is written; without a token it is not even asked.\<close>

lemma metrics_administrator_db:
  "snd (metrics_administrator outage sha env d) = (if outage = None then snd (authenticated sha env d) else d)"
proof -
  have "snd (metrics_administrator outage sha env d) = snd (reachable_administrator outage sha env d)"
    by (simp add: metrics_administrator_def split: prod.splits sum.splits exc.splits)
  also have "\<dots> = (if outage = None then snd (authenticated sha env d) else d)"
    by (auto simp: reachable_administrator_def administrator_db authenticated_def split: option.splits prod.splits)
  finally show ?thesis .
qed

lemma get_metrics_db:
  "snd (get_metrics outage scrape_outage sha env revision worker d) = snd (metrics_administrator outage sha env d)"
  by (simp add: get_metrics_def split: prod.splits sum.splits option.splits)

lemma dispatch_event: "snd (dispatch cf c ms target d) = happens cf (routed_event c target) d"
proof (cases target)
  case (Operation env call)
  then show ?thesis
    using answer_handles [of cf "under_correlation c env" call d]
    by (auto simp: dispatch_def happens_def split: prod.split sum.split)
next
  case (Invalid g env)
  then have "snd (dispatch cf c ms target d) = snd (run_guard cf g (under_correlation c env) d)"
    by (simp add: dispatch_def split: prod.split sum.split)
  then show ?thesis by (simp only: Invalid guard_db routed_event.simps) (simp add: happens_def)
next
  case (Scrape outage scrape_outage env revision worker)
  then show ?thesis
    by (simp add: dispatch_def happens_def get_metrics_db metrics_administrator_db get_me_db del: handle.simps)
qed (simp_all add: dispatch_def happens_def)

subsection \<open>Runs of the server\<close>

lemma service_event:
  "sv_db (case service cf limit ic s of None \<Rightarrow> s | Some (_, s', _) \<Rightarrow> s') = happens cf (event_of limit ic) (sv_db s)"
  by (auto simp: service_def serve_def accepted_def correlation_of_def event_of_def dispatch_event happens_def
      split: option.splits prod.splits handling.splits)

lemma service_all_events: "sv_db (service_all cf limit ics s) = fold (handle cf) (events limit ics) (sv_db s)"
  by (induction ics arbitrary: s)
    (simp_all add: events_def map_filter_simps service_event happens_def split: option.split)

lemma ordered_events_reach:
  "in_order t evs \<Longrightarrow> reaches (\<lambda>ev. ev \<in> set evs) cf (t, d) (clock_after t evs, fold (handle cf) evs d)"
proof (induction evs rule: rev_induct)
  case Nil
  then show ?case by (simp add: clock_after_def start)
next
  case (snoc ev evs)
  have order: "in_order t evs" "clock_after t evs \<le> event_time ev"
    using snoc.prems by (auto simp: in_order_def clock_after_def sorted_append last_map)
  have "reaches (\<lambda>e. e \<in> set (evs @ [ev])) cf (t, d) (clock_after t evs, fold (handle cf) evs d)"
    by (rule reaches_weaken [OF snoc.IH [OF order(1)]]) simp
  from happen [OF this _ order(2)] show ?case by (simp add: clock_after_def)
qed

text \<open>
  The server refines the transition system of runs: its database goes through the events of the requests that
  get as far as a transaction, in the order they arrive and under the correlation id their answers carry.
\<close>

lemma server_runs_history:
  assumes "in_order t (events limit ics)"
  shows "sv_db (service_all cf limit ics s) = fold (handle cf) (events limit ics) (sv_db s) \<and>
    reaches (\<lambda>ev. ev \<in> set (events limit ics)) cf (t, sv_db s)
      (clock_after t (events limit ics), sv_db (service_all cf limit ics s))"
  by (simp add: service_all_events ordered_events_reach [OF assms])

subsection \<open>Answers\<close>

lemma under_correlation_time [simp]:
  "cx_now (rv_cx (under_correlation c env)) = cx_now (rv_cx env)"
  by (simp add: under_correlation_def)

lemma expected_under_correlation [simp]: "expected cf (under_correlation c env) call d = expected cf env call d"
  unfolding expected_def token_expected_def under_correlation_time ..

text \<open>An exception that leaves the routers has no handler.\<close>

definition unhandled :: "exc \<Rightarrow> bool" where
  "unhandled e \<longleftrightarrow> (case e of HTTPException _ _ _ \<Rightarrow> False | _ \<Rightarrow> True)"

lemma reply_unhandled: "fst (reply env success render r) = Inl e \<Longrightarrow> unhandled e"
  by (auto simp: reply_def endpoint_def handle_exceptions_def unhandled_def split: sum.splits exc.splits)

lemma unhandled_raised: "unhandled e \<Longrightarrow> handle_exceptions c (Raised e) = Inl e"
  by (auto simp: handle_exceptions_def unhandled_def split: exc.splits)

lemma answer_unhandled: "fst (answer cf env call d) = Inl e \<Longrightarrow> unhandled e"
proof (cases call)
  case (Identity c)
  then show "fst (answer cf env call d) = Inl e \<Longrightarrow> unhandled e"
    by (cases c) (simp_all only: answer_def identity_routers identity_call.case call.case, (erule reply_unhandled)+)
next
  case (Catalog c)
  then show "fst (answer cf env call d) = Inl e \<Longrightarrow> unhandled e"
    by (cases c) (simp_all only: answer_def catalog_router_def catalog_call.case call.case, (erule reply_unhandled)+)
next
  case (Leases c)
  then show "fst (answer cf env call d) = Inl e \<Longrightarrow> unhandled e"
    by (cases c) (simp_all only: answer_def leasing_router_def lease_call.case call.case, (erule reply_unhandled)+)
next
  case (Secrets c)
  then show "fst (answer cf env call d) = Inl e \<Longrightarrow> unhandled e"
    by (cases c) (simp_all only: answer_def secrets_router_def secret_call.case call.case, (erule reply_unhandled)+)
qed

text \<open>The status of what a client receives: an exception that nothing handles becomes a bare 500.\<close>

definition sent_status :: "exc + 'a response \<Rightarrow> int" where
  "sent_status res = (case res of Inr r \<Rightarrow> rs_status r | Inl _ \<Rightarrow> 500)"

lemma dispatched_status:
  "sent_status (handle_exceptions c (fst (dispatch cf c ms (Operation env call) d))) =
     answer_status cf (under_correlation c env) call d"
  using answer_unhandled [of cf "under_correlation c env" call d]
  by (cases "answer cf (under_correlation c env) call d")
    (auto simp: dispatch_def answer_status_def status_of_def sent_status_def retype_def unhandled_raised
      split: sum.split simp add: handle_exceptions_def [of _ "Answered _"])

lemma service_answers:
  assumes "service cf limit ic s = Some (res, s', logs)" and "accepted limit ic = Some ms"
  shows "sent_status res =
    sent_status (handle_exceptions (correlation_of ic) (fst (dispatch cf (correlation_of ic) ms (ic_route ic ms) (sv_db s))))"
  using assms
  by (auto simp: service_def serve_def accepted_def correlation_of_def correlation_id_middleware_def Let_def
      sent_status_def split: option.splits prod.splits handling.splits sum.splits)

lemma server_keeps_contract:
  assumes "in_order t (events limit ics)" and "db_ok (sv_db s)"
    and "service cf limit ic (service_all cf limit ics s) = Some (res, s', logs)"
    and "accepted limit ic = Some ms" and "ic_route ic ms = Operation env call"
    and "expected cf env call (sv_db (service_all cf limit ics s))"
  shows "sent_status res \<in> set (documented call @ undocumented call)"
proof -
  have "db_ok (sv_db (service_all cf limit ics s))"
    unfolding service_all_events
    using run_safe [OF ordered_events_reach [OF assms(1)] assms(2)] assms(2) by (rule safe_ok)
  then show ?thesis
    unfolding service_answers [OF assms(3,4)] assms(5) dispatched_status
    by (rule status_documented) (simp add: assms(6))
qed

text \<open>A body above the limit is answered 413 and runs no transaction.\<close>

lemma refused_body:
  assumes "service cf limit ic s = Some (res, s', logs)" and "accepted limit ic = None"
  shows "sent_status res = 413 \<and> sv_db s' = sv_db s"
  using assms
  by (auto simp: service_def serve_def accepted_def reject_def payload_too_large_def problem_response_def
      sent_status_def Let_def split: option.splits prod.splits handling.splits)

subsection \<open>Failed requests\<close>

text \<open>
  What a request that fails may leave behind: only what its authentication and its rate limit have committed. The
  rules say this of a route by the transactions it is made of.
\<close>

definition untouched :: "db \<Rightarrow> db \<Rightarrow> bool" where
  "untouched d d' \<longleftrightarrow> accounted d d' \<and> db_audit d' = db_audit d"

definition fails_untouched :: "db \<Rightarrow> (exc + 'a) \<times> db \<Rightarrow> bool" where
  "fails_untouched d r \<longleftrightarrow> (\<forall>e. fst r = Inl e \<longrightarrow> untouched d (snd r))"

lemma untouched_refl: "untouched d d"
  by (simp add: untouched_def)

lemma untouched_trans: "untouched a b \<Longrightarrow> untouched b c \<Longrightarrow> untouched a c"
  using accounted_trans by (auto simp: untouched_def)

lemma fails_tx: "fails_untouched d (run_tx body d)"
  using run_tx_rollback [of body d] by (auto simp: fails_untouched_def untouched_refl)

lemma fails_read: "fails_untouched d (read_tx body d)"
  by (simp add: fails_untouched_def untouched_refl)

lemma fails_stop: "fails_untouched d (x, d)"
  by (simp add: fails_untouched_def untouched_refl)

lemma fails_then:
  assumes "untouched d (snd r)" and "\<And>x s. fails_untouched s (f x s)"
  shows "fails_untouched d (then_tx r f)"
proof (cases rule: then_tx_cases [of r f])
  case (stopped e s)
  then show ?thesis using assms(1) by (simp add: fails_untouched_def)
next
  case (went_on x s)
  then show ?thesis using assms(1) assms(2) [of s x] by (auto simp: fails_untouched_def intro: untouched_trans)
qed

lemma fails_integrity: "fails_untouched d r \<Longrightarrow> fails_untouched d (catch_integrity e r)"
  by (cases r; cases "fst r") (auto simp: fails_untouched_def)

lemma fails_crypto: "fails_untouched d r \<Longrightarrow> fails_untouched d (catch_crypto r)"
  by (cases r; cases "fst r") (auto simp: fails_untouched_def catch_crypto_def)

lemma fails_caching: "fails_untouched d r \<Longrightarrow> fails_untouched d (prevent_caching r)"
  by (auto simp: fails_untouched_def prevent_caching_def split: prod.splits sum.splits)

lemma authenticated_untouched: "untouched d (snd (authenticated sha env d))"
  unfolding untouched_def by (rule unaccounted.authentication)

lemma administrator_untouched: "untouched d (snd (administrator sha env d))"
  unfolding administrator_db by (rule authenticated_untouched)

lemma enforce_rate_limit_untouched: "untouched d (snd (enforce_rate_limit cx sc su n w d))"
proof -
  have "untouched d d'" if "count_attempt cx sc su w d = Inr (r, d')" for r d'
    using that by (auto simp: count_attempt_def bindE_eq_Inr write_windows_def untouched_def accounted_def split: if_splits)
  then have "untouched d (snd (run_tx (count_attempt cx sc su w) d))"
    by (cases rule: run_tx_cases [of "count_attempt cx sc su w" d]) (simp_all add: untouched_refl)
  then show ?thesis
    by (cases "run_tx (count_attempt cx sc su w) d"; cases "fst (run_tx (count_attempt cx sc su w) d)")
      (auto simp: enforce_rate_limit_def)
qed

lemma secret_limit_untouched: "untouched d (snd (enforce_secret_access_limit sb n w cx who d))"
proof -
  have "snd (enforce_secret_access_limit sb n w cx who d) =
      snd (enforce_rate_limit cx ''secret_access'' (principal_subject sb (actor_of who)) n w d)"
    by (auto simp: enforce_secret_access_limit_def split: prod.split sum.split exc.split)
  then show ?thesis by (simp add: enforce_rate_limit_untouched)
qed

lemmas fails =
  fails_tx fails_read fails_stop fails_integrity fails_crypto fails_caching
  fails_then [OF authenticated_untouched] fails_then [OF administrator_untouched] fails_then [OF secret_limit_untouched]

lemma fails_if: "fails_untouched d a \<Longrightarrow> fails_untouched d b \<Longrightarrow> fails_untouched d (if c then a else b)"
  by simp

lemma login_fails:
  "fails_untouched d (login_route sb sha verify dummy ttl n w cxl cx app_now i random username password d)"
proof -
  let ?r = "then_tx (enforce_rate_limit cxl ''login'' (login_subject sb username) n w d)
      (\<lambda>_. run_tx (login sha verify dummy ttl cx app_now i random username password))"
  have "fails_untouched d ?r" by (rule fails_then [OF enforce_rate_limit_untouched fails_tx])
  then show ?thesis
    by (cases ?r; cases "fst ?r") (auto simp: login_route_def fails_untouched_def split: exc.splits)
qed

lemma acquire_fails: "fails_untouched d (fst (acquire_route sha env app_now i rq key d))"
proof -
  have "fst (acquire_route sha env app_now i rq key d) = then_tx (authenticated sha env d)
      (\<lambda>who. run_tx (acquire_lease sha (rv_cx env) app_now i rq key (actor_of who) (is_admin who)))"
    by (auto simp: acquire_route_def then_tx_def Let_def split: prod.split sum.split)
  then show ?thesis by (simp add: fails)
qed

lemma reply_fails:
  assumes "400 \<le> status_of (fst (reply env success render r))" and "success < 400" and "fails_untouched d r"
  shows "untouched d (snd (reply env success render r))"
  using assms
  by (cases r; cases "fst r") (auto simp: reply_def endpoint_def handle_exceptions_def status_of_def fails_untouched_def)

lemma answer_fails: "400 \<le> answer_status cf env call d \<Longrightarrow> untouched d (snd (answer cf env call d))"
proof (cases call)
  case (Identity c)
  then show "400 \<le> answer_status cf env call d \<Longrightarrow> untouched d (snd (answer cf env call d))"
    by (cases c) (simp_all only: answer_status_def answer_def identity_routers identity_call.case call.case,
      (erule reply_fails, simp, (rule login_fails | simp only: identity_routes, intro fails fails_if))+)
next
  case (Catalog c)
  then show "400 \<le> answer_status cf env call d \<Longrightarrow> untouched d (snd (answer cf env call d))"
    by (cases c) (simp_all only: answer_status_def answer_def catalog_router_def catalog_call.case call.case,
      (erule reply_fails, simp, simp only: catalog_routes, intro fails fails_if)+)
next
  case (Leases c)
  then show "400 \<le> answer_status cf env call d \<Longrightarrow> untouched d (snd (answer cf env call d))"
    by (cases c) (simp_all only: answer_status_def answer_def leasing_router_def lease_call.case call.case,
      (erule reply_fails, simp, (rule acquire_fails | simp only: lease_routes, intro fails fails_if))+)
next
  case (Secrets c)
  then show "400 \<le> answer_status cf env call d \<Longrightarrow> untouched d (snd (answer cf env call d))"
    by (cases c) (simp_all only: answer_status_def answer_def secrets_router_def secret_call.case call.case,
      (erule reply_fails, simp,
       simp only: secret_routes access_as_admin_route_def access_through_lease_route_def, intro fails fails_if)+)
qed

lemma authentication_untouched: "untouched d (handle cf (Request env (Identity GetMe)) d)"
  unfolding get_me_db by (rule authenticated_untouched)

lemma dispatch_fails:
  assumes "400 \<le> sent_status (handle_exceptions c (fst (dispatch cf c ms target d)))"
  shows "untouched d (snd (dispatch cf c ms target d))"
proof (cases "\<exists>env call. target = Operation env call")
  case True
  then obtain env call where target: "target = Operation env call" by blast
  have "snd (dispatch cf c ms target d) = snd (answer cf (under_correlation c env) call d)"
    by (auto simp: target dispatch_def split: prod.split sum.split)
  with assms answer_fails show ?thesis by (simp add: target dispatched_status)
next
  case False
  then show ?thesis
    unfolding dispatch_event
    by (cases target) (auto simp: happens_def authentication_untouched untouched_refl simp del: handle.simps)
qed

text \<open>
  C5: A request that fails leaves no trace of its work. Whenever the server answers with an error status
  (from the body limit, the framework, a route, or the bare 500 of an exception that nothing handles), no
  principal, credential, group, membership, resource, grant, secret, lease or token has changed and no audit event
  has been added: what a route had begun is rolled back as a whole. Only the time a token was last used and the
  rate-limit windows, which are committed beforehand, may differ.
\<close>

theorem failed_request_leaves_no_trace:
  assumes "service cf limit ic s = Some (res, s', logs)" and "400 \<le> sent_status res"
  shows "accounted (sv_db s) (sv_db s') \<and> db_audit (sv_db s') = db_audit (sv_db s)"
proof (cases "accepted limit ic")
  case None
  with assms(1) refused_body show ?thesis by fastforce
next
  case (Some ms)
  then have "sv_db s' = snd (dispatch cf (correlation_of ic) ms (ic_route ic ms) (sv_db s))"
    using assms(1) by (auto simp: service_def split: option.splits prod.splits)
  with dispatch_fails [of "correlation_of ic" cf ms "ic_route ic ms" "sv_db s"] assms(2)
  show ?thesis unfolding service_answers [OF assms(1) Some] untouched_def by simp
qed

subsection \<open>Correlation\<close>

lemma retype_correlated: "correlated c (retype f r) = correlated c r"
  by (simp add: correlated_def retype_def split: content_body.split)

lemma dispatch_correlated:
  assumes "fst (dispatch cf c ms target d) = Answered r"
  shows "correlated c r"
proof (cases target)
  case (Operation env call)
  obtain x d' where a: "answer cf (under_correlation c env) call d = (x, d')" by fastforce
  with assms Operation obtain r' where r': "x = Inr r'" "r = retype ApiPage r'"
    by (cases x) (auto simp: dispatch_def)
  with answers_are_typed [where cf = cf and env = "under_correlation c env" and call = call and d = d] a have "correlated c r'"
    by (auto simp: correlated_def under_correlation_def split: content_body.splits)
  then show ?thesis unfolding r'(2) retype_correlated .
next
  case (Readiness outage applied)
  then show ?thesis
    using assms by (auto simp: dispatch_def get_readiness_def endpoint_def retype_def correlated_def problem_response_def
        split: sum.splits)
next
  case (Scrape outage scrape_outage env revision worker)
  then show ?thesis
    using assms by (auto simp: dispatch_def get_metrics_def retype_def correlated_def
        split: sum.splits prod.splits option.splits)
qed (use assms in \<open>auto simp: dispatch_def get_health_def endpoint_def retype_def correlated_def
    split: sum.splits prod.splits\<close>)

text \<open>
  C34: Every request to the server has one correlation id: the caller's own when it is safe, a fresh UUID otherwise,
  never unsafe text. It is the id of its one log record, of the header of its answer, whoever gives it (the body limit, the
  framework, a route or an operational endpoint), and of a problem document in the body. Only the bare 500 of an exception
  that nothing handles is sent without it, and is logged under it.
\<close>

theorem answers_are_correlated:
  assumes "service cf limit ic s = Some (res, s', logs)"
  shows "\<exists>c. safe_correlation c \<and> (\<forall>x. hr_correlation (ic_request ic) = Some x \<and> safe_correlation x \<longrightarrow> c = x) \<and>
    (\<exists>entry. logs = [entry] \<and> map_of (lg_fields entry) ''correlation_id'' = Some (JStr c)) \<and>
    (case res of
       Inr r \<Rightarrow> header ''x-correlation-id'' r = Some c \<and> correlated c r
     | Inl e \<Rightarrow> sent_status res = 500)"
proof -
  obtain pm where "serve limit (ic_request ic) (ic_fresh ic) (ic_fresh' ic) (ic_duration ic) (ic_duration_ms ic)
      (\<lambda>c ms. fst (dispatch cf c ms (ic_route ic ms) (sv_db s))) (sv_metrics s) = Some (res, pm, logs)"
    using assms by (auto simp: service_def split: option.splits prod.splits)
  from served_is_correlated [OF this dispatch_correlated] show ?thesis
    by (cases res) (auto simp: sent_status_def)
qed

end
