(* ===== verification/Service_Demo.thy ===== *)
theory Service_Demo
  imports Service_Laws Demo
begin

text \<open>A day at the server of \<open>Demo\<close>: what its database goes through is exactly what the events do.\<close>

definition over_http :: "message list \<Rightarrow> (message list \<Rightarrow> routed) \<Rightarrow> incoming" where
  "over_http ms route = \<lparr>ic_request = \<lparr>hr_method = ''POST'', hr_path = ''/v1/leases'', hr_route = Some ''/v1/leases'',
       hr_correlation = Some ''run-1'', hr_length = None, hr_messages = ms\<rparr>,
     ic_fresh = UUID 1, ic_fresh' = UUID 2, ic_duration = 1, ic_duration_ms = ''0.1'', ic_route = route\<rparr>"

text \<open>
  Alice acquires the host; a body too long; a body that has not arrived; one that is no JSON; a page that does not exist;
  a scrape that may not be made and one while the database is away; she sends what fails validation; she releases the lease.
\<close>

definition a_day :: "incoming list" where
  "a_day = [
     over_http [HttpRequest [1, 2] False] (\<lambda>_. Operation (as_alice 5) (Leases (Acquire 5 lease_id want_box ''k''))),
     over_http [HttpRequest [1, 2, 3, 4, 5] False] (\<lambda>_. Operation (as_alice 6) (Leases (Release lease_id))),
     over_http [HttpRequest [1] True] (\<lambda>_. Operation (as_alice 6) (Leases (Release lease_id))),
     over_http [HttpRequest [9] False] (\<lambda>_. Malformed),
     over_http [HttpRequest [] False] (\<lambda>_. Unrouted 404 ''Not Found'' []),
     over_http [HttpRequest [] False] (\<lambda>_. Scrape None None (as_alice 7) ''0123abc'' no_worker_snapshot),
     over_http [HttpRequest [] False] (\<lambda>_. Scrape (Some IntegrityError) None (as_alice 3) ''0123abc'' no_worker_snapshot),
     over_http [HttpRequest [2] False] (\<lambda>_. Invalid AnyPrincipal (as_alice 8)),
     over_http [HttpRequest [] False] (\<lambda>_. Operation (as_alice 9) (Leases (Release lease_id)))]"

definition new_server :: server where
  "new_server = \<lparr>sv_db = demo_db, sv_metrics = no_process_metrics\<rparr>"

lemma a_day_events:
  "in_order 0 (events 4 a_day)" "map event_time (events 4 a_day) = [5, 7, 8, 9]" "clock_after 0 (events 4 a_day) = 9"
  by code_simp+

lemma a_day_runs:
  "reaches (\<lambda>ev. ev \<in> set (events 4 a_day)) demo_cf (0, demo_db) (9, sv_db (service_all demo_cf 4 a_day new_server)) \<and>
   map l_end_reason (db_leases (sv_db (service_all demo_cf 4 a_day new_server))) = [Some Released]"
proof -
  note run = server_runs_history [OF a_day_events(1), of demo_cf new_server, unfolded a_day_events(3)]
  have new: "sv_db new_server = demo_db" by (simp add: new_server_def)
  have "map l_end_reason (db_leases (fold (handle demo_cf) (events 4 a_day) demo_db)) = [Some Released]"
    by code_simp
  then have "map l_end_reason (db_leases (sv_db (service_all demo_cf 4 a_day new_server))) = [Some Released]"
    by (simp only: run [THEN conjunct1] new)
  with run [THEN conjunct2] show ?thesis unfolding new by simp
qed

text \<open>
  While the host is Alice's, the next request for it fails: it has spent a token use, nothing else.
\<close>

definition late_request :: incoming where
  "late_request = over_http [HttpRequest [2] False]
     (\<lambda>_. Operation (as_alice 6) (Leases (Acquire 6 key_id want_box ''other'')))"

lemma failed_request_leaves_no_trace_witness:
  "\<exists>res s' logs. service demo_cf 4 late_request (service_all demo_cf 4 (take 1 a_day) new_server) = Some (res, s', logs) \<and>
     sent_status res = 409 \<and> accounted (sv_db (service_all demo_cf 4 (take 1 a_day) new_server)) (sv_db s') \<and>
     length (db_audit (sv_db s')) = 1 \<and> length (db_leases (sv_db s')) = 1"
proof -
  let ?s = "service_all demo_cf 4 (take 1 a_day) new_server"
  have "case service demo_cf 4 late_request ?s of Some (res, s', logs) \<Rightarrow> sent_status res = 409 | None \<Rightarrow> False"
    by code_simp
  moreover have "length (db_audit (sv_db ?s)) = 1" by code_simp
  moreover have "length (db_leases (sv_db ?s)) = 1" by code_simp
  ultimately obtain res s' logs where r: "service demo_cf 4 late_request ?s = Some (res, s', logs)" "sent_status res = 409"
      "length (db_audit (sv_db ?s)) = 1" "length (db_leases (sv_db ?s)) = 1"
    by (auto split: option.splits prod.splits)
  have "400 \<le> sent_status res" using r(2) by simp
  from failed_request_leaves_no_trace [OF r(1) this] have "accounted (sv_db ?s) (sv_db s')"
    "db_audit (sv_db s') = db_audit (sv_db ?s)" by blast+
  moreover from this have "db_leases (sv_db s') = db_leases (sv_db ?s)" by (simp add: accounted_def)
  ultimately show ?thesis using r by simp
qed

lemma answers_are_correlated_witness:
  "\<exists>res s' logs. service demo_cf 4 late_request new_server = Some (res, s', logs) \<and>
     (\<exists>entry. logs = [entry] \<and> map_of (lg_fields entry) ''correlation_id'' = Some (JStr ''run-1'')) \<and>
     (\<exists>r. res = Inr r \<and> header ''x-correlation-id'' r = Some ''run-1'')"
proof -
  have "case service demo_cf 4 late_request new_server of Some (res, s', logs) \<Rightarrow> \<not> isl res | None \<Rightarrow> False"
    by code_simp
  then obtain r s' logs where r: "service demo_cf 4 late_request new_server = Some (Inr r, s', logs)"
    by (auto split: option.splits prod.splits) (metis isl_def sum.exhaust)
  have "hr_correlation (ic_request late_request) = Some ''run-1''" "safe_correlation ''run-1''"
    by (simp add: late_request_def over_http_def) code_simp
  with answers_are_correlated [OF r] r show ?thesis by auto
qed

text \<open>While the host is Alice's, the next request for it is refused with a status of the contract.\<close>

lemma second_acquisition:
  "case service demo_cf 4 (over_http [HttpRequest [2] False]
       (\<lambda>_. Operation (as_alice 6) (Leases (Acquire 6 key_id want_box ''other'')))) (service_all demo_cf 4 (take 1 a_day) new_server) of
     Some (res, s', logs) \<Rightarrow> sent_status res = 409 | None \<Rightarrow> False"
  by code_simp

end
