(* ===== verification/Columns.thy ===== *)
theory Columns
  imports System Audit_Trail
begin

text \<open>
  The sizes of the columns (\<open>String(n)\<close> and \<open>Integer\<close> in \<open>database_models.py\<close>), which PostgreSQL
  enforces with an error nobody translates, and the validation that stands between a request and them.
\<close>

subsection \<open>Rows that fit\<close>

definition principal_fits :: "principal \<Rightarrow> bool" where
  "principal_fits p \<longleftrightarrow> text_ok 0 255 (p_name p) \<and> text_ok 0 255 (p_display_name p)"

definition token_fits :: "api_token \<Rightarrow> bool" where
  "token_fits t \<longleftrightarrow> text_ok 0 255 (t_name t) \<and> text_ok 0 64 (t_token_hash t)"

definition window_fits :: "rate_window \<Rightarrow> bool" where
  "window_fits w \<longleftrightarrow> text_ok 0 64 (w_scope w) \<and> text_ok 0 64 (w_subject_hash w) \<and> w_attempts w \<le> 2147483647"

definition group_fits :: "group_row \<Rightarrow> bool" where
  "group_fits g \<longleftrightarrow> text_ok 0 255 (g_name g)"

definition resource_fits :: "resource \<Rightarrow> bool" where
  "resource_fits r \<longleftrightarrow> text_ok 0 255 (r_name r) \<and> text_ok 0 255 (r_type r) \<and>
     opt_ok (\<lambda>n. n \<le> 2147483647) (r_default_ttl r) \<and> opt_ok (\<lambda>n. n \<le> 2147483647) (r_max_ttl r)"

text \<open>The labels are JSON of any size; what bounds them is \<open>validate_labels\<close>.\<close>

definition labels_bounded :: "resource \<Rightarrow> bool" where
  "labels_bounded r \<longleftrightarrow> validate_labels (r_labels r) = Inr (r_labels r)"

definition secret_fits :: "secret \<Rightarrow> bool" where
  "secret_fits s \<longleftrightarrow> text_ok 0 255 (s_name s) \<and> opt_ok (text_ok 0 1000) (s_description s) \<and>
     opt_ok (text_ok 0 255) (s_encryption_key_id s) \<and> opt_ok (text_ok 0 255) (s_external_provider s)"

definition lease_fits :: "lease \<Rightarrow> bool" where
  "lease_fits l \<longleftrightarrow> opt_ok (text_ok 0 500) (l_consumer l) \<and> text_ok 0 255 (l_idempotency_key l) \<and>
     text_ok 0 64 (l_request_hash l)"

definition audit_fits :: "audit_event \<Rightarrow> bool" where
  "audit_fits a \<longleftrightarrow> text_ok 0 255 (a_action a) \<and> text_ok 0 100 (a_subject_type a) \<and>
     text_ok 0 255 (a_subject_id a) \<and> text_ok 0 255 (a_correlation_id a)"

text \<open>
  The other tables have no column of limited size but the enumerated ones. The version numbers of resources
  and secrets are \<open>Integer\<close> columns as well; nothing bounds them but the number of updates, each of which
  leaves an audit event: \<open>counted c d\<close> says that no version exceeds \<open>c\<close> plus the length of the audit trail.
\<close>

definition sizes_fit :: "db \<Rightarrow> bool" where
  "sizes_fit d \<longleftrightarrow>
     list_all principal_fits (db_principals d) \<and> list_all token_fits (db_tokens d) \<and>
     list_all window_fits (db_windows d) \<and> list_all group_fits (db_groups d) \<and>
     list_all (\<lambda>r. resource_fits r \<and> labels_bounded r) (db_resources d) \<and> list_all secret_fits (db_secrets d) \<and>
     list_all lease_fits (db_leases d) \<and> list_all audit_fits (db_audit d)"

definition versions_within :: "int \<Rightarrow> db \<Rightarrow> bool" where
  "versions_within n d \<longleftrightarrow> list_all (\<lambda>r. r_version r \<le> n) (db_resources d) \<and> list_all (\<lambda>s. s_version s \<le> n) (db_secrets d)"

definition counted :: "int \<Rightarrow> db \<Rightarrow> bool" where
  "counted c d \<longleftrightarrow> versions_within (c + int (length (db_audit d))) d"

definition columns_fit :: "db \<Rightarrow> bool" where
  "columns_fit d \<longleftrightarrow> sizes_fit d \<and> versions_within 2147483647 d"

subsection \<open>Validated requests\<close>

definition validate_group_create :: "group_create \<Rightarrow> exc + group_create" where
  "validate_group_create rq = bindE (check_fields (text_ok 1 255 (gn_name rq))) (\<lambda>_. Inr rq)"

definition validate_idempotency_key :: "string \<Rightarrow> exc + unit" where
  "validate_idempotency_key key = check_fields (text_ok 1 255 key)"

text \<open>The bounds of the query parameters \<open>offset\<close> and \<open>limit\<close>.\<close>

definition page_bounds :: "int \<Rightarrow> int \<Rightarrow> bool" where
  "page_bounds offset limit \<longleftrightarrow> 0 \<le> offset \<and> 1 \<le> limit \<and> limit \<le> 200"

text \<open>What the body, as far as it is stored, has passed before the route runs.\<close>

definition validated :: "call \<Rightarrow> bool" where
  "validated call = (case call of
       Identity (CreateUser i hashed rq) \<Rightarrow> validate_principal_create rq = Inr rq
     | Identity (UpdateUser i rq) \<Rightarrow> validate_principal_update rq = Inr rq
     | Identity (CreateService i hashed rq) \<Rightarrow> validate_principal_create rq = Inr rq
     | Identity (UpdateService i rq) \<Rightarrow> validate_principal_update rq = Inr rq
     | Identity (CreateServiceToken app_now i random pid rq) \<Rightarrow> validate_token_create rq = Inr rq
     | Identity (CreateMyToken app_now i random rq) \<Rightarrow> validate_token_create rq = Inr rq
     | Identity (CreateGroup i rq) \<Rightarrow> validate_group_create rq = Inr rq
     | Catalog (CreateResource i rq) \<Rightarrow> validate_resource_create rq = Inr rq
     | Catalog (UpdateCatalog i rq) \<Rightarrow> validate_resource_update rq = Inr rq
     | Catalog (ListCatalog labels q) \<Rightarrow> page_bounds (rq_offset q) (rq_limit q)
     | Leases (ListLeases q) \<Rightarrow> page_bounds (lq_offset q) (lq_limit q)
     | Leases (Acquire app_now i rq key) \<Rightarrow> validate_lease_create rq = Inr rq \<and> validate_idempotency_key key = Inr ()
     | Secrets (CreateSecret i nonce rid rq) \<Rightarrow> validate_secret_create rq = Inr rq
     | Secrets (UpdateSecret nonce rid i rq) \<Rightarrow> validate_secret_update rq = Inr rq
     | _ \<Rightarrow> True)"

text \<open>
  A SHA-256 digest has 64 hexadecimal digits. Nothing in the configuration limits the identifier of the
  active key, nor the command line of \<open>bootstrap\<close> its names.
\<close>

definition config_fits :: "config \<Rightarrow> bool" where
  "config_fits cf \<longleftrightarrow> (\<forall>s. length (cf_sha cf s) = 64) \<and> (\<forall>b. length (cf_sha_bytes cf b) = 64) \<and>
     opt_ok (text_ok 0 255) (ci_active (cf_cipher cf))"

definition event_fits :: "event \<Rightarrow> bool" where
  "event_fits ev = (case ev of
       Request env call \<Rightarrow> text_ok 0 255 (cx_correlation (rv_cx env)) \<and> validated call
     | BootstrapCommand cx i hashed username display_name password confirmation \<Rightarrow>
         text_ok 0 255 username \<and> opt_ok (text_ok 0 255) display_name
     | ExpireBatch cx batch_size \<Rightarrow> text_ok 0 255 (cx_correlation cx))"

end
