(* ===== verification/Columns_Laws.thy ===== *)
theory Columns_Laws
  imports Columns System_Laws
begin

text \<open>
  Validated requests fit the columns: in no run does a statement meet a value that its column cannot hold.
\<close>

subsection \<open>Statements\<close>

text \<open>
  Both bounds are kept together, the one on versions for every \<open>c\<close>. A statement that raises a version breaks it by
  one (\<open>bumps\<close>) until the audit event of its transaction is recorded.
\<close>

definition fits :: "db \<Rightarrow> db \<Rightarrow> bool" where
  "fits d d' \<longleftrightarrow> (\<forall>c \<ge> 1. sizes_fit d \<and> counted c d \<longrightarrow> sizes_fit d' \<and> counted c d')"

definition bumps :: "db \<Rightarrow> db \<Rightarrow> bool" where
  "bumps d d' \<longleftrightarrow> (\<forall>c \<ge> 1. sizes_fit d \<and> counted c d \<longrightarrow> sizes_fit d' \<and> counted (c + 1) d')"

lemmas fit_defs = fits_def bumps_def sizes_fit_def counted_def versions_within_def

lemma fits_refl [simp]: "fits d d"
  by (simp add: fits_def)

lemma fits_trans: "fits a b \<Longrightarrow> fits b c \<Longrightarrow> fits a c"
  by (simp add: fits_def)

lemma list_all_le: "list_all (\<lambda>x. f x \<le> (n :: int)) xs \<Longrightarrow> n \<le> m \<Longrightarrow> list_all (\<lambda>x. f x \<le> m) xs"
  by (auto simp: list_all_iff)

lemma versions_le: "versions_within n d \<Longrightarrow> n \<le> m \<Longrightarrow> versions_within m d"
  by (auto simp: versions_within_def elim: list_all_le)

text \<open>Tables without a limited column may be written freely, the others with rows that fit.\<close>

lemma write_fits:
  shows "write_credentials cs d = Inr d' \<Longrightarrow> fits d d'"
    and "write_memberships ms d = Inr d' \<Longrightarrow> fits d d'"
    and "write_pgrants pgs d = Inr d' \<Longrightarrow> fits d d'"
    and "write_ggrants ggs d = Inr d' \<Longrightarrow> fits d d'"
    and "write_principals ps d = Inr d' \<Longrightarrow> (list_all principal_fits (db_principals d) \<Longrightarrow> list_all principal_fits ps) \<Longrightarrow> fits d d'"
    and "write_tokens ts d = Inr d' \<Longrightarrow> (list_all token_fits (db_tokens d) \<Longrightarrow> list_all token_fits ts) \<Longrightarrow> fits d d'"
    and "write_windows ws d = Inr d' \<Longrightarrow> (list_all window_fits (db_windows d) \<Longrightarrow> list_all window_fits ws) \<Longrightarrow> fits d d'"
    and "write_groups gs d = Inr d' \<Longrightarrow> (list_all group_fits (db_groups d) \<Longrightarrow> list_all group_fits gs) \<Longrightarrow> fits d d'"
    and "write_resources rs d = Inr d' \<Longrightarrow> (list_all (\<lambda>r. resource_fits r \<and> labels_bounded r) (db_resources d) \<Longrightarrow>
        list_all (\<lambda>r. resource_fits r \<and> labels_bounded r) rs) \<Longrightarrow>
      (\<And>n. 1 \<le> n \<Longrightarrow> list_all (\<lambda>r. r_version r \<le> n) (db_resources d) \<Longrightarrow> list_all (\<lambda>r. r_version r \<le> n) rs) \<Longrightarrow> fits d d'"
    and "write_secrets ss d = Inr d' \<Longrightarrow> (list_all secret_fits (db_secrets d) \<Longrightarrow> list_all secret_fits ss) \<Longrightarrow>
      (\<And>n. 1 \<le> n \<Longrightarrow> list_all (\<lambda>s. s_version s \<le> n) (db_secrets d) \<Longrightarrow> list_all (\<lambda>s. s_version s \<le> n) ss) \<Longrightarrow> fits d d'"
    and "write_leases ls d = Inr d' \<Longrightarrow> (list_all lease_fits (db_leases d) \<Longrightarrow> list_all lease_fits ls) \<Longrightarrow> fits d d'"
  by (simp_all only: write_defs split: if_splits) (auto simp: fit_defs)

lemma write_audit_fits:
  assumes "write_audit es d = Inr d'" and "list_all audit_fits (db_audit d) \<Longrightarrow> list_all audit_fits es"
    and "length (db_audit d) \<le> length es"
  shows "fits d d'"
proof -
  have "d' = d\<lparr>db_audit := es\<rparr>" using assms(1) by (simp add: write_defs split: if_splits)
  moreover have "versions_within (c + int (length (db_audit d))) d \<Longrightarrow> versions_within (c + int (length es)) d" for c
    by (erule versions_le) (use assms(3) in simp)
  ultimately show ?thesis
    using assms(2) by (auto simp: fits_def counted_def sizes_fit_def) (simp add: versions_within_def)
qed

lemma write_bumps:
  shows "write_resources rs d = Inr d' \<Longrightarrow> (list_all (\<lambda>r. resource_fits r \<and> labels_bounded r) (db_resources d) \<Longrightarrow>
        list_all (\<lambda>r. resource_fits r \<and> labels_bounded r) rs) \<Longrightarrow>
      (\<And>n. list_all (\<lambda>r. r_version r \<le> n) (db_resources d) \<Longrightarrow> list_all (\<lambda>r. r_version r \<le> 1 + n) rs) \<Longrightarrow> bumps d d'"
    and "write_secrets ss d = Inr d' \<Longrightarrow> (list_all secret_fits (db_secrets d) \<Longrightarrow> list_all secret_fits ss) \<Longrightarrow>
      (\<And>n. list_all (\<lambda>s. s_version s \<le> n) (db_secrets d) \<Longrightarrow> list_all (\<lambda>s. s_version s \<le> 1 + n) ss) \<Longrightarrow> bumps d d'"
proof -
  have eq: "c + 1 + int n = 1 + (c + int n)" for c n by simp
  show "write_resources rs d = Inr d' \<Longrightarrow> (list_all (\<lambda>r. resource_fits r \<and> labels_bounded r) (db_resources d) \<Longrightarrow>
        list_all (\<lambda>r. resource_fits r \<and> labels_bounded r) rs) \<Longrightarrow>
      (\<And>n. list_all (\<lambda>r. r_version r \<le> n) (db_resources d) \<Longrightarrow> list_all (\<lambda>r. r_version r \<le> 1 + n) rs) \<Longrightarrow> bumps d d'"
    by (clarsimp simp: write_defs fit_defs eq split: if_splits) (erule list_all_le, simp)
  show "write_secrets ss d = Inr d' \<Longrightarrow> (list_all secret_fits (db_secrets d) \<Longrightarrow> list_all secret_fits ss) \<Longrightarrow>
      (\<And>n. list_all (\<lambda>s. s_version s \<le> n) (db_secrets d) \<Longrightarrow> list_all (\<lambda>s. s_version s \<le> 1 + n) ss) \<Longrightarrow> bumps d d'"
    by (clarsimp simp: write_defs fit_defs eq split: if_splits) (erule list_all_le, simp)
qed

lemma list_all_updated: "list_all P xs \<Longrightarrow> (\<And>x. P x \<Longrightarrow> P (f x)) \<Longrightarrow> list_all P (update_where p f xs)"
  by (auto simp: list_all_iff update_where_def)

lemma list_all_deleted: "list_all P xs \<Longrightarrow> list_all P (delete_where p xs)"
  by (simp add: list_all_iff delete_where_def)

lemma text_ok_le: "text_ok lo hi s \<Longrightarrow> hi \<le> n \<Longrightarrow> text_ok 0 n s"
  by (simp add: text_ok_def)

lemma opt_ok_mono: "opt_ok P x \<Longrightarrow> (\<And>y. P y \<Longrightarrow> Q y) \<Longrightarrow> opt_ok Q x"
  by (cases x) (simp_all add: opt_ok_def)

lemma record_fits:
  assumes "record_audit_event cx actor act st sid m d = Inr d'" and "text_ok 0 255 (cx_correlation cx)"
    and "length act \<le> 255" and "length st \<le> 100"
  shows "fits d d'"
  using record_audit_eventD [OF assms(1)] assms(2-4)
  by (auto simp: fit_defs audit_fits_def text_ok_def length_uuid_str elim: list_all_le)

lemma recorded_fits:
  assumes "fits d d1" and "record_audit_event cx actor act st sid m d1 = Inr d'"
    and "text_ok 0 255 (cx_correlation cx)" and "length act \<le> 255" and "length st \<le> 100"
  shows "fits d d'"
  using fits_trans [OF assms(1) record_fits [OF assms(2-5)]] .

lemma bumped_fits:
  assumes "bumps d d1" and "record_audit_event cx actor act st sid m d1 = Inr d'"
    and "text_ok 0 255 (cx_correlation cx)" and "length act \<le> 255" and "length st \<le> 100"
  shows "fits d d'"
  using assms(1) record_audit_eventD [OF assms(2)] assms(3-5)
  by (auto simp: fit_defs audit_fits_def text_ok_def length_uuid_str algebra_simps)

lemma update_fits:
  shows "update_tokens p f d = Inr d' \<Longrightarrow> (\<And>t. token_fits t \<Longrightarrow> token_fits (f t)) \<Longrightarrow> fits d d'"
    and "update_leases q g d = Inr d' \<Longrightarrow> (\<And>l. lease_fits l \<Longrightarrow> lease_fits (g l)) \<Longrightarrow> fits d d'"
    and "update_credentials u h d = Inr d' \<Longrightarrow> fits d d'"
  unfolding update_tokens_def update_leases_def update_credentials_def
  by (erule write_fits, erule list_all_updated, blast, erule write_fits, erule list_all_updated, blast, erule write_fits)

lemma update_stamped_fits:
  shows "update_principals cx p f d = Inr d' \<Longrightarrow> (\<And>r. principal_fits r \<Longrightarrow> principal_fits (f r)) \<Longrightarrow> fits d d'"
    and "update_groups cx q g d = Inr d' \<Longrightarrow> (\<And>r. group_fits r \<Longrightarrow> group_fits (g r)) \<Longrightarrow> fits d d'"
    and "update_resources cx u h d = Inr d' \<Longrightarrow> (\<And>r. resource_fits r \<and> labels_bounded r \<Longrightarrow> resource_fits (h r) \<and> labels_bounded (h r)) \<Longrightarrow>
      (\<And>r. r_version (h r) = r_version r) \<Longrightarrow> fits d d'"
proof -
  show "update_principals cx p f d = Inr d' \<Longrightarrow> (\<And>r. principal_fits r \<Longrightarrow> principal_fits (f r)) \<Longrightarrow> fits d d'"
    unfolding update_principals_def
    by (erule write_fits, erule list_all_updated) (simp add: principal_fits_def)
  show "update_groups cx q g d = Inr d' \<Longrightarrow> (\<And>r. group_fits r \<Longrightarrow> group_fits (g r)) \<Longrightarrow> fits d d'"
    unfolding update_groups_def by (erule write_fits, erule list_all_updated) (simp add: group_fits_def)
  show "update_resources cx u h d = Inr d' \<Longrightarrow> (\<And>r. resource_fits r \<and> labels_bounded r \<Longrightarrow> resource_fits (h r) \<and> labels_bounded (h r)) \<Longrightarrow>
      (\<And>r. r_version (h r) = r_version r) \<Longrightarrow> fits d d'"
    unfolding update_resources_def
    by (erule write_fits, erule list_all_updated) (simp add: resource_fits_def labels_bounded_def, simp add: list_all_updated)
qed

lemma list_all_bumped:
  "list_all (\<lambda>x. v x \<le> (n :: int)) xs \<Longrightarrow> (\<And>x. v (f x) \<le> v x + 1) \<Longrightarrow> list_all (\<lambda>x. v x \<le> 1 + n) (update_where p f xs)"
  by (force simp: list_all_iff update_where_def add.commute [of 1] intro: order_trans)

lemma update_resources_bumps:
  assumes "update_resources cx u h d = Inr d'"
    and "\<And>r. resource_fits r \<and> labels_bounded r \<Longrightarrow> resource_fits (h r) \<and> labels_bounded (h r)"
    and "\<And>r. r_version (h r) = r_version r + 1"
  shows "bumps d d'"
  using assms unfolding update_resources_def
  by (elim write_bumps(1)) (auto simp: resource_fits_def labels_bounded_def intro!: list_all_updated list_all_bumped)

subsection \<open>Identity\<close>

definition noted :: "ctx \<Rightarrow> bool" where
  "noted cx \<longleftrightarrow> text_ok 0 255 (cx_correlation cx)"

lemma close_fits:
  assumes "fits d d1" and "record_audit_event cx actor act st sid m d1 = Inr d'" and "noted cx"
    and "length act \<le> 255" and "length st \<le> 100"
  shows "fits d d'"
  using assms by (auto simp: noted_def intro: recorded_fits)

lemma close_bumped:
  assumes "bumps d d1" and "record_audit_event cx actor act st sid m d1 = Inr d'" and "noted cx"
    and "length act \<le> 255" and "length st \<le> 100"
  shows "fits d d'"
  using assms by (auto simp: noted_def intro: bumped_fits)

lemma authenticate_token_fits: "authenticate_token sha cx token d = Inr (a, d') \<Longrightarrow> fits d d'"
  by (auto simp: authenticate_token_def bindE_eq_Inr split: option.splits
      elim!: update_fits(1) simp: token_fits_def)

lemma issue_token_fits:
  "issue_token sha cx i random pid name e d = Inr (r, d') \<Longrightarrow> text_ok 0 255 name \<Longrightarrow> (\<And>x. length (sha x) = 64) \<Longrightarrow>
     fits d d'"
  by (auto simp: issue_token_def Let_def bindE_eq_Inr token_fits_def token_hash_def text_ok_def elim!: write_fits(6))

lemma login_fits:
  assumes "login sha verify dummy ttl cx app_now i random username password d = Inr (r, d')" and "noted cx"
    and sha: "\<And>x. length (sha x) = 64"
  shows "fits d d'"
proof -
  obtain d1 pid e issued where issue: "issue_token sha cx i random pid ''login'' e d = Inr (issued, d1)"
    and ev: "record_audit_event cx (Some pid) ''authentication.login'' ''ApiToken'' (tr_id issued) [] d1 = Inr d'"
    using assms(1) by (auto simp: login_def Let_def bindE_eq_Inr split: option.splits if_splits)
  have "fits d d1" by (rule issue_token_fits [OF issue _ sha]) (simp add: text_ok_def)
  then show ?thesis by (rule close_fits [OF _ ev assms(2)]) simp_all
qed

lemma create_principal_fits:
  assumes "create_principal cx i hashed rq kind actor d = Inr (r, d')" and "noted cx"
    and "validate_principal_create rq = Inr rq"
  shows "fits d d'"
proof -
  let ?row = "\<lparr>p_id = i, p_kind = kind, p_role = pn_role rq, p_name = pn_name rq,
    p_display_name = pn_display_name rq, p_archived_at = None, p_created_at = cx_now cx, p_updated_at = cx_now cx\<rparr>"
  obtain d1 d2 where w: "write_principals (db_principals d @ [?row]) d = Inr d1"
    "(if pn_password rq \<noteq> None then write_credentials (db_credentials d1 @
        [\<lparr>pc_principal_id = i, pc_password_hash = hashed, pc_updated_at = cx_now cx\<rparr>]) d1 else Inr d1) = Inr d2"
    "record_audit_event cx (Some actor) ''principal.created'' ''Principal'' i [] d2 = Inr d'"
    using assms(1) by (cases kind; cases "pn_password rq") (auto simp: create_principal_def Let_def bindE_eq_Inr)
  have "principal_fits ?row"
    using assms(3) by (auto simp: validate_principal_create_def check_fields_def principal_fits_def text_ok_def split: if_splits)
  then have "fits d d1" by (intro write_fits(5) [OF w(1)]) simp
  moreover have "fits d1 d2" using w(2) by (auto split: if_splits elim: write_fits(1))
  ultimately have "fits d d2" by (rule fits_trans)
  then show ?thesis by (rule close_fits [OF _ w(3) assms(2)]) simp_all
qed

lemma bootstrap_fits:
  assumes "bootstrap_administrator cx i hashed username shown d = Inr (j, d')"
    and "text_ok 0 255 username" and "text_ok 0 255 shown"
  shows "fits d d'"
proof -
  obtain d1 d2 where w: "write_principals (db_principals d @ [\<lparr>p_id = i, p_kind = User, p_role = Admin, p_name = username,
            p_display_name = shown, p_archived_at = None, p_created_at = cx_now cx, p_updated_at = cx_now cx\<rparr>]) d = Inr d1"
      "write_credentials (db_credentials d1 @
          [\<lparr>pc_principal_id = i, pc_password_hash = hashed, pc_updated_at = cx_now cx\<rparr>]) d1 = Inr d2"
      "write_audit (db_audit d2 @ [\<lparr>a_actor_id = None, a_action = ''administrator.bootstrapped'', a_subject_type = ''Principal'',
            a_subject_id = uuid_str i, a_correlation_id = ''bootstrap'', a_metadata = [], a_created_at = cx_now cx\<rparr>]) d2 = Inr d'"
    using assms(1) by (auto simp: bootstrap_administrator_def bindE_eq_Inr split: if_splits)
  have "fits d d1" using assms(2,3) by (intro write_fits(5) [OF w(1)]) (simp add: principal_fits_def)
  moreover have "fits d1 d2" using w(2) by (rule write_fits(1))
  moreover have "fits d2 d'" by (rule write_audit_fits [OF w(3)]) (simp_all add: audit_fits_def text_ok_def length_uuid_str)
  ultimately show ?thesis using fits_trans by blast
qed

lemma update_principal_fits:
  assumes "update_principal cx i rq kind actor d = Inr (r, d')" and "noted cx"
    and "validate_principal_update rq = Inr rq"
  shows "fits d d'"
  using assms(1)
proof (cases rule: update_principal_cases)
  case (updated d1 row)
  have "opt_ok (text_ok 1 255) (pu_display_name rq)"
    using assms(3) by (auto simp: validate_principal_update_def check_fields_def split: if_splits)
  then have "principal_fits (apply_principal_update rq p)" if "principal_fits p" for p
    using that by (cases "pu_display_name rq")
      (auto simp: apply_principal_update_def principal_fits_def opt_ok_def text_ok_def coalesce_def)
  then have "fits d d1" by (rule update_stamped_fits(1) [OF updated(1)])
  then show ?thesis by (rule close_fits [OF _ updated(4) assms(2)]) simp_all
qed simp

lemma guarded_update_fits:
  "guarded_update cx i rq actor d = Inr (r, d') \<Longrightarrow> noted cx \<Longrightarrow> validate_principal_update rq = Inr rq \<Longrightarrow> fits d d'"
  by (auto simp: guarded_update_def split: if_splits dest: update_principal_fits)

lemma archive_principal_fits:
  assumes "archive_principal cx i kind actor d = Inr (u, d')" and "noted cx"
  shows "fits d d'"
  using assms(1) [simplified]
proof (cases rule: archive_principal_cases)
  case (1 target d1)
  have "fits d d1" by (rule update_stamped_fits(1) [OF 1(3)]) (simp add: principal_fits_def)
  then show ?thesis by (rule close_fits [OF _ 1(4) assms(2)]) simp_all
qed

lemma set_password_fits: "set_password cx i hashed d = Inr d' \<Longrightarrow> fits d d'"
  unfolding set_password_def by (rule update_fits(3))

lemma passwords_fit:
  "reset_password cx i hashed actor d = Inr (r, d') \<Longrightarrow> noted cx \<Longrightarrow> fits d d'"
  "change_password cx i hashed d = Inr (u, d') \<Longrightarrow> noted cx \<Longrightarrow> fits d d'"
  by (auto simp: reset_password_def change_password_def bindE_eq_Inr dest!: set_password_fits intro: close_fits)

lemma token_create_fits: "validate_token_create rq = Inr rq \<Longrightarrow> text_ok 0 255 (tc_name rq)"
  by (auto simp: validate_token_create_def check_fields_def text_ok_def split: if_splits)

lemma issued_tokens_fit:
  assumes "noted cx" and "validate_token_create rq = Inr rq" and "\<And>x. length (sha x) = 64"
  shows "issue_service_token sha cx i random pid rq actor d = Inr (r, d') \<Longrightarrow> fits d d'"
    and "issue_my_token sha cx i random pid rq d = Inr (r, d') \<Longrightarrow> fits d d'"
  using assms(1) token_create_fits [OF assms(2)] assms(3)
  by (auto simp: issue_service_token_def issue_my_token_def bindE_eq_Inr dest!: issue_token_fits intro: close_fits)

lemma revoke_token_fits: "revoke_token cx i pid actor d = Inr (r, d') \<Longrightarrow> noted cx \<Longrightarrow> fits d d'"
  by (auto simp: revoke_token_def Let_def bindE_eq_Inr token_fits_def dest!: update_fits(1) intro: close_fits)

lemma create_group_fits:
  "create_group cx i rq actor d = Inr (r, d') \<Longrightarrow> noted cx \<Longrightarrow> validate_group_create rq = Inr rq \<Longrightarrow> fits d d'"
  by (auto simp: create_group_def Let_def bindE_eq_Inr group_fits_def validate_group_create_def check_fields_def
      text_ok_def split: if_splits dest!: write_fits(8) intro: close_fits)

lemma changed_groups_fit:
  "update_group cx i gq actor d = Inr (r, d') \<Longrightarrow> noted cx \<Longrightarrow> fits d d'"
  "archive_group cx i actor d = Inr (u, d') \<Longrightarrow> noted cx \<Longrightarrow> fits d d'"
  by (auto simp: update_group_def archive_group_def Let_def bindE_eq_Inr group_fits_def split: option.splits
      dest!: update_stamped_fits(2) intro: close_fits)

lemma members_fit:
  "add_member cx gid uid actor d = Inr (u, d') \<Longrightarrow> noted cx \<Longrightarrow> fits d d'"
  "remove_member cx gid uid actor d = Inr (u, d') \<Longrightarrow> noted cx \<Longrightarrow> fits d d'"
  by (auto simp: add_member_def remove_member_def bindE_eq_Inr split: if_splits
      dest!: write_fits(2) intro: close_fits [OF fits_refl] close_fits)

subsection \<open>Catalog and secrets\<close>

lemma validate_labels_self: "validate_labels ls = Inr ls' \<Longrightarrow> ls' = ls"
  by (auto simp: validate_labels_def split: if_splits)

lemma create_resource_fits:
  assumes "create_resource cx i rq actor d = Inr (r, d')" and "noted cx" and "validate_resource_create rq = Inr rq"
  shows "fits d d'"
  using assms(1)
proof (cases rule: create_resource_cases)
  case (1 d1)
  have "resource_fits (new_resource cx i rq)"
    using assms(3)
    by (auto simp: validate_resource_create_def bindE_eq_Inr check_fields_def new_resource_def resource_fits_def
        text_ok_def ttl_seconds_ok_def MAX_TTL_SECONDS_def opt_ok_def split: if_splits option.splits)
  moreover have "labels_bounded (new_resource cx i rq)"
    using assms(3)
    by (auto simp: validate_resource_create_def bindE_eq_Inr new_resource_def labels_bounded_def dest: validate_labels_self)
  ultimately have "fits d d1" by (intro write_fits(9) [OF 1(1)]) (simp_all add: new_resource_def)
  then show ?thesis by (rule close_fits [OF _ 1(2) assms(2)]) simp_all
qed

lemma update_resource_fits:
  assumes "update_resource cx i rq actor d = Inr (r, d')" and "noted cx" and "validate_resource_update rq = Inr rq"
  shows "fits d d'"
  using assms(1)
proof (cases rule: update_resource_cases)
  case (changed t d1)
  have "resource_fits ((apply_changes rq x)\<lparr>r_version := r_version x + 1\<rparr>)" if "resource_fits x" for x
    using that assms(3)
    by (auto simp: validate_resource_update_def bindE_eq_Inr check_fields_def apply_changes_def set_field_def
        resource_fits_def text_ok_def ttl_seconds_ok_def MAX_TTL_SECONDS_def opt_ok_def split: if_splits option.splits)
  moreover have "labels_bounded ((apply_changes rq x)\<lparr>r_version := r_version x + 1\<rparr>)" if "labels_bounded x" for x
    using that assms(3) by (cases "ru_labels rq")
      (auto simp: validate_resource_update_def bindE_eq_Inr apply_changes_def set_field_def labels_bounded_def
        dest: validate_labels_self)
  ultimately have "bumps d d1" by (intro update_resources_bumps [OF changed(5)]) simp_all
  then show ?thesis by (rule close_bumped [OF _ changed(6) assms(2)]) simp_all
qed simp

lemma archive_resource_fits:
  assumes "archive_resource cx i actor d = Inr (u, d')" and "noted cx"
  shows "fits d d'"
  using assms(1)
proof (cases rule: archive_resource_cases)
  case (archived t d1)
  have "bumps d d1" by (rule update_resources_bumps [OF archived(4)]) (simp_all add: resource_fits_def labels_bounded_def)
  then show ?thesis by (rule close_bumped [OF _ archived(5) assms(2)]) simp_all
qed simp

lemma transition_resource_fits:
  assumes "transition_resource cx i tr actor d = Inr (r, d')" and "noted cx"
  shows "fits d d'"
  using assms(1)
proof (cases rule: transition_resource_cases)
  case (1 t d1)
  have "bumps d d1" by (rule update_resources_bumps [OF 1(4)]) (simp_all add: resource_fits_def labels_bounded_def)
  moreover have "length (transition_action tr) \<le> 255" by (cases tr) (simp_all add: transition_action_def)
  ultimately show ?thesis by (intro close_bumped [OF _ 1(5) assms(2)]) simp_all
qed

lemma write_grant_fits: "write_grant cx t rid i granted d = Inr (b, d') \<Longrightarrow> fits d d'"
  by (auto simp: write_grant_def bindE_eq_Inr split: if_splits grant_target.splits dest: write_fits(3,4))

lemma set_resource_grant_fits:
  assumes "set_resource_grant cx rid i t granted actor d = Inr (u, d')" and "noted cx"
  shows "fits d d'"
  using assms(1)
proof (cases rule: set_resource_grant_cases)
  case (noop r)
  from write_grant_fits [OF noop(5)] show ?thesis .
next
  case (changed r d1)
  show ?thesis by (rule close_fits [OF write_grant_fits [OF changed(5)] changed(6) assms(2)]) simp_all
qed simp

definition key_fits :: "cipher \<Rightarrow> bool" where
  "key_fits cipher \<longleftrightarrow> opt_ok (text_ok 0 255) (ci_active cipher)"

lemma set_material_fits:
  assumes "material_values ae cipher nonce m rid sid = Inr cols" and "material_ok m" and "key_fits cipher"
    and "text_ok 0 255 (s_name s)" and "opt_ok (text_ok 0 1000) (s_description s)"
  shows "secret_fits (set_material cols s)"
  using assms
  by (auto simp: material_values_def encrypt_def Let_def bindE_eq_Inr set_material_def secret_fits_def material_ok_def
      key_fits_def opt_ok_def text_ok_def split: material.splits option.splits)

lemma material_version [simp]: "s_version (set_material cols s) = s_version s"
  by (simp add: set_material_def split: prod.splits)

lemma create_secret_fits:
  assumes "create_resource_secret ae cipher cx sid nonce rid rq actor d = Inr (r, d')" and "noted cx"
    and "validate_secret_create rq = Inr rq" and "key_fits cipher"
  shows "fits d d'"
  using assms(1)
proof (cases rule: create_resource_secret_cases)
  case (1 cols row d1 u)
  have "text_ok 0 255 (sc_name rq)" "opt_ok (text_ok 0 1000) (sc_description rq)" "material_ok (sc_material rq)"
    using assms(3) by (auto simp: validate_secret_create_def check_fields_def text_ok_def split: if_splits)
  then have "secret_fits row" unfolding 1(3) by (intro set_material_fits [OF 1(2) _ assms(4)]) simp_all
  moreover have "s_version row = 1" unfolding 1(3) by simp
  ultimately have "fits d d1" by (intro write_fits(10) [OF 1(4)]) simp_all
  then show ?thesis by (rule close_fits [OF _ 1(5) assms(2)]) simp_all
qed

lemma update_secret_fits:
  assumes "update_resource_secret ae cipher cx nonce rid sid rq actor d = Inr (r, d')" and "noted cx"
    and "validate_secret_update rq = Inr rq" and "key_fits cipher"
  shows "fits d d'"
  using assms(1)
proof (cases rule: update_resource_secret_cases)
  case (updated s r replace d1 row)
  have ok: "opt_ok (text_ok 1 255) (su_name rq)" "opt_ok (opt_ok (text_ok 0 1000)) (su_description rq)"
      "opt_ok material_ok (su_material rq)"
    using assms(3) by (auto simp: validate_secret_update_def check_fields_def split: if_splits)
  have fields: "secret_fits (set_secret_fields rq x)" if "secret_fits x" for x
    using that ok(1,2) by (cases "su_name rq"; cases "su_description rq")
      (auto simp: set_secret_fields_def secret_fits_def opt_ok_def text_ok_def coalesce_def split: option.splits)
  have "secret_fits (replace (set_secret_fields rq x))" if "secret_fits x" for x
    using updated(4)
  proof
    assume "\<exists>m cols. su_material rq = Some m \<and> material_values ae cipher nonce m rid sid = Inr cols \<and> replace = set_material cols"
    then obtain m cols where m: "su_material rq = Some m" "material_values ae cipher nonce m rid sid = Inr cols" "replace = set_material cols"
      by blast
    with fields [OF that] ok(3) show ?thesis
      by (auto simp: opt_ok_def secret_fits_def [of "set_secret_fields rq x"] intro!: set_material_fits [OF _ _ assms(4)])
  qed (simp add: fields that)
  then have "secret_fits ((replace (set_secret_fields rq x))\<lparr>s_version := n, s_updated_at := t\<rparr>)" if "secret_fits x" for x n t
    using that by (simp add: secret_fits_def)
  then have "bumps d d1" by (intro write_bumps(2) [OF updated(5)] list_all_updated list_all_bumped) simp_all
  then show ?thesis by (rule close_bumped [OF _ updated(8) assms(2)]) simp_all
qed simp

lemma delete_secret_fits:
  "delete_resource_secret cx rid sid actor d = Inr (u, d') \<Longrightarrow> noted cx \<Longrightarrow> fits d d'"
  by (auto simp: delete_resource_secret_def Let_def bindE_eq_Inr split: option.splits
      dest!: write_fits(10) intro: list_all_deleted close_fits)

lemma access_fits:
  "access_resource_secret_as_admin ae float_of cipher cx rid sid actor d = Inr (r, d') \<Longrightarrow> noted cx \<Longrightarrow> fits d d'"
  "access_lease_secret ae float_of cipher cx lid sid actor adm d = Inr (r, d') \<Longrightarrow> noted cx \<Longrightarrow> fits d d'"
  by (auto simp: access_resource_secret_as_admin_def access_lease_secret_def access_locked_secret_def bindE_eq_Inr
      intro: close_fits [OF fits_refl])

subsection \<open>Leases and rate limits\<close>

lemma acquire_lease_fits:
  assumes "acquire_lease sha cx app_now i rq key pid adm d = Inr (r, d')" and "noted cx"
    and "validate_lease_create rq = Inr rq" and "validate_idempotency_key key = Inr ()" and "\<And>x. length (sha x) = 64"
  shows "fits d d'"
  using assms(1)
proof (cases rule: acquire_lease_cases)
  case (created c)
  from created(3) show ?thesis
  proof (cases rule: create_lease_cases)
    case (1 ttl l d1 d2)
    have "lease_fits l"
      using assms(3-5)
      by (auto simp: 1(2) new_lease_def lease_fits_def validate_lease_create_def validate_idempotency_key_def
          bindE_eq_Inr check_fields_def text_ok_def opt_ok_def request_hash_def split: if_splits option.splits)
    then have "fits d d1" by (intro write_fits(11) [OF 1(3)]) simp
    moreover have "fits d1 d2" by (rule update_stamped_fits(3) [OF 1(4)]) (simp_all add: resource_fits_def labels_bounded_def)
    ultimately have "fits d d2" by (rule fits_trans)
    then show ?thesis by (rule close_fits [OF _ 1(5) assms(2)]) simp_all
  qed
qed simp

lemma renew_lease_fits:
  assumes "renew_lease cx checked_at app_now i ttl pid d = Inr (r, d')" and "noted cx"
  shows "fits d d'"
  using assms(1)
proof (cases rule: renew_lease_cases)
  case (1 l r ttl d1)
  have "fits d d1" by (rule update_fits(2) [OF 1(6)]) (simp add: lease_fits_def)
  then show ?thesis by (rule close_fits [OF _ 1(7) assms(2)]) simp_all
qed

lemma end_lease_fits:
  assumes "end_lease cx i pid reason d = Inr (r, d')" and "noted cx"
  shows "fits d d'"
  using assms(1)
proof (cases rule: end_lease_cases)
  case (ended l d1)
  have "fits d d1" by (rule update_fits(2) [OF ended(3)]) (simp add: lease_fits_def)
  moreover have "length (''lease.'' @ reason_lower reason) \<le> 255" by (cases reason) (simp_all add: reason_lower_def)
  ultimately show ?thesis by (intro close_fits [OF _ ended(4) assms(2)]) simp_all
qed simp

lemma expire_ids_fits: "expire_ids cx ids n d = Inr (m, d') \<Longrightarrow> noted cx \<Longrightarrow> fits d d'"
proof (induction ids arbitrary: n d)
  case (Cons i ids)
  let ?p = "\<lambda>x. l_id x = i \<and> due_lease (cx_now cx) x"
  have up: "update_leases ?p expire_row d = Inr d1 \<Longrightarrow> fits d d1" for d1
    by (erule update_fits(2)) (simp add: expire_row_def lease_fits_def)
  obtain d1 where d1: "update_leases ?p expire_row d = Inr d1"
    using Cons.prems(1) by (auto simp: Let_def bindE_eq_Inr)
  show ?case
  proof (cases "filter ?p (db_leases d) = []")
    case True
    with Cons.prems(1) d1 have "expire_ids cx ids n d1 = Inr (m, d')" by (auto simp: Let_def bindE_eq_Inr)
    with fits_trans [OF up [OF d1]] Cons.IH Cons.prems(2) show ?thesis by blast
  next
    case False
    with Cons.prems(1) d1 obtain d2 where d2: "record_audit_event cx None ''lease.expired'' ''Lease'' i [] d1 = Inr d2"
        "expire_ids cx ids (Suc n) d2 = Inr (m, d')"
      by (auto simp: Let_def bindE_eq_Inr)
    have "fits d d2" by (rule close_fits [OF up [OF d1] d2(1) Cons.prems(2)]) simp_all
    then show ?thesis by (rule fits_trans) (rule Cons.IH [OF d2(2) Cons.prems(2)])
  qed
qed simp

lemma expire_due_leases_fits: "expire_due_leases cx batch_size d = Inr (m, d') \<Longrightarrow> noted cx \<Longrightarrow> fits d d'"
  unfolding expire_due_leases_def by (rule expire_ids_fits)

lemma count_attempt_fits:
  assumes "count_attempt cx scope subject window d = Inr (r, d')" and "length scope \<le> 64" and "length subject \<le> 64"
  shows "fits d d'"
proof -
  obtain d1 ws where w: "write_windows (cleanup_windows (cx_now cx) (db_windows d)) d = Inr d1"
      "upsert_window (cx_now cx) scope subject window (db_windows d1) = Inr ws" "write_windows ws d1 = Inr d'"
    using assms(1) by (auto simp: count_attempt_def bindE_eq_Inr)
  have "fits d d1" by (rule write_fits(7) [OF w(1)]) (simp add: cleanup_windows_def Let_def list_all_deleted)
  moreover have "list_all window_fits ws" if "list_all window_fits (db_windows d1)"
    using that w(2) assms(2,3)
    by (auto simp: upsert_window_def fresh_window_def bump_window_def window_fits_def text_ok_def list_all_iff
        list_ex_iff set_update_where MAX_ATTEMPTS_def not_less split: if_splits) fastforce
  then have "fits d1 d'" by (rule write_fits(7) [OF w(3)])
  ultimately show ?thesis by (rule fits_trans)
qed

subsection \<open>Every event\<close>

interpretation columns: route_relation fits
  by unfold_locales (auto intro: fits_trans authenticate_token_fits)

lemma enforce_rate_limit_fits: "length sc \<le> 64 \<Longrightarrow> length su \<le> 64 \<Longrightarrow> fits d (snd (enforce_rate_limit cx sc su n w d))"
  unfolding enforce_rate_limit_def
  by (rule columns.sequence, rule columns.transaction)
    (auto intro: count_attempt_fits split: prod.split)

lemma secret_limit_fits:
  assumes "\<And>b. length (sb b) = 64"
  shows "fits d (snd (enforce_secret_access_limit sb n w cx who d))"
proof -
  let ?r = "enforce_rate_limit cx ''secret_access'' (principal_subject sb (actor_of who)) n w d"
  have "snd (enforce_secret_access_limit sb n w cx who d) = snd ?r"
    by (auto simp: enforce_secret_access_limit_def split: prod.split sum.split exc.split)
  then show ?thesis by (simp add: enforce_rate_limit_fits principal_subject_def assms)
qed

lemma login_route_fits:
  assumes "\<And>b. length (sb b) = 64" and "\<And>x. length (sha x) = 64" and "noted cx"
  shows "fits d (snd (login_route sb sha verify dummy ttl n w cx_limit cx app_now i random username password d))"
proof -
  let ?r = "then_tx (enforce_rate_limit cx_limit ''login'' (login_subject sb username) n w d)
    (\<lambda>_. run_tx (login sha verify dummy ttl cx app_now i random username password))"
  have "snd (login_route sb sha verify dummy ttl n w cx_limit cx app_now i random username password d) = snd ?r"
    by (auto simp: login_route_def split: prod.split sum.split exc.split)
  moreover have "fits d (snd ?r)"
    by (rule columns.sequence, simp add: enforce_rate_limit_fits login_subject_def assms(1), rule columns.transaction)
      (erule login_fits [OF _ assms(3,2)])
  ultimately show ?thesis by simp
qed

lemmas column_steps =
  columns.as_admin columns.as_user columns.conditional columns.transaction columns.read columns.refused

lemmas identity_fits =
  create_principal_fits guarded_update_fits update_principal_fits archive_principal_fits passwords_fit
  issued_tokens_fit [rotated -1] revoke_token_fits create_group_fits changed_groups_fit members_fit

lemmas validated_defs = validated_def call.case identity_call.case catalog_call.case lease_call.case secret_call.case

lemma handle_identity_fits:
  assumes "config_fits cf" and "noted (rv_cx env)" and "validated (Identity c)"
  shows "fits d (handle_identity cf env c d)"
proof -
  have sha: "length (cf_sha cf x) = 64" "length (cf_sha_bytes cf b) = 64" for x b
    using assms(1) by (simp_all add: config_fits_def)
  show ?thesis
    using assms(2,3)
    by (cases c)
      (simp_all only: handle_identity.simps identity_routes catch_integrity_snd validated_defs,
       (simp add: login_route_fits sha | (intro column_steps; ((elim identity_fits; simp add: sha) | simp)))+)
qed

lemmas catalog_fits =
  create_resource_fits update_resource_fits archive_resource_fits transition_resource_fits set_resource_grant_fits

lemma handle_catalog_fits:
  assumes "noted (rv_cx env)" and "validated (Catalog c)"
  shows "fits d (handle_catalog cf env c d)"
  using assms
  by (cases c)
    (simp_all only: handle_catalog.simps catalog_routes catch_integrity_snd validated_defs,
     (intro column_steps; ((elim catalog_fits; simp) | simp))+)

lemma handle_leases_fits:
  assumes "config_fits cf" and "noted (rv_cx env)" and "validated (Leases c)"
  shows "fits d (handle_leases cf env c d)"
proof -
  have sha: "length (cf_sha cf x) = 64" for x using assms(1) by (simp add: config_fits_def)
  show ?thesis
    using assms(2,3)
    by (cases c)
      (simp_all only: handle_leases.simps lease_routes acquire_route_run validated_defs,
       (intro column_steps; ((elim acquire_lease_fits renew_lease_fits end_lease_fits; simp add: sha) | simp))+)
qed

lemma disclosure_fits:
  assumes "\<And>x d'. body d = Inr (x, d') \<Longrightarrow> fits d d'"
  shows "fits d (snd (prevent_caching (catch_crypto (run_tx body d))))"
  using columns.transaction [of body d] assms by simp

lemma disclosure_routes_fit:
  assumes "\<And>b. length (sb b) = 64" and "noted (rv_cx env)"
  shows "fits d (snd (access_as_admin_route sha sb ae fl cipher n w cxl env rid i d))"
    and "fits d (snd (access_through_lease_route sha sb ae fl cipher n w cxl env lid i d))"
  unfolding access_as_admin_route_def access_through_lease_route_def
  by (intro columns.as_admin columns.as_user columns.sequence [OF secret_limit_fits] disclosure_fits assms(1);
      elim access_fits; intro assms(2))+

lemma handle_secrets_fits:
  assumes "config_fits cf" and "noted (rv_cx env)" and "validated (Secrets c)"
  shows "fits d (handle_secrets cf env c d)"
proof -
  have cf: "length (cf_sha_bytes cf b) = 64" "key_fits (cf_cipher cf)" for b
    using assms(1) by (simp_all add: config_fits_def key_fits_def)
  show ?thesis
    using assms(2,3)
    by (cases c)
      (simp_all only: handle_secrets.simps secret_routes catch_integrity_snd catch_crypto_snd validated_defs,
       (simp add: disclosure_routes_fit cf |
         (intro column_steps; ((elim create_secret_fits update_secret_fits delete_secret_fits; simp add: cf) | simp)))+)
qed

lemma bootstrap_command_fits:
  assumes "text_ok 0 255 username" and "opt_ok (text_ok 0 255) shown"
  shows "fits d (snd (bootstrap_command cx i hashed username shown password confirmation d))"
proof -
  have "fits d (snd (run_tx (bootstrap_administrator cx i hashed username name) d))" if "text_ok 0 255 name" for name
    by (rule columns.transaction) (erule bootstrap_fits [OF _ assms(1) that])
  with assms show ?thesis
    by (auto simp: bootstrap_command_def Let_def opt_ok_def split: prod.split sum.split exc.split option.splits)
      (metis snd_conv)+
qed

lemma handle_fits:
  assumes "config_fits cf" and "event_fits ev"
  shows "fits d (handle cf ev d)"
proof (cases ev)
  case (Request env c)
  with assms show ?thesis
    by (cases c) (auto simp: event_fits_def noted_def
        intro: handle_identity_fits handle_catalog_fits handle_leases_fits handle_secrets_fits)
next
  case (BootstrapCommand cx i hashed username shown password confirmation)
  with assms(2) show ?thesis by (simp add: event_fits_def bootstrap_command_fits)
next
  case (ExpireBatch cx batch_size)
  with assms(2) have "noted cx" by (simp add: event_fits_def noted_def)
  then show ?thesis
    unfolding ExpireBatch handle.simps by (intro columns.transaction) (rule expire_due_leases_fits)
qed

text \<open>The correlation id of a request fits whatever the client sends.\<close>

lemma correlation_fits: "text_ok 0 255 (select_correlation_id supplied fresh)"
  by (auto simp: select_correlation_id_def safe_correlation_def text_ok_def length_uuid_str split: option.split)

lemma columns_kept:
  assumes "reaches event_fits cf (t, d) (t', d')" and "config_fits cf"
  shows "fits d d'"
proof -
  have "fits (snd s) (snd s')" if "reaches event_fits cf s s'" for s s'
    using that
    by (induction rule: reaches.induct) (use handle_fits [OF assms(2)] in \<open>auto intro: fits_trans\<close>)
  from this [OF assms(1)] show ?thesis by simp
qed

text \<open>Every database has its versions counted from somewhere, so the sizes are kept in any case.\<close>

lemma some_count: "\<exists>c \<ge> 1. counted c d"
proof -
  let ?vs = "map r_version (db_resources d) @ map s_version (db_secrets d)"
  obtain m where "\<forall>v \<in> set ?vs. v \<le> m" using finite_set [of ?vs] by (meson Max_ge)
  then have "versions_within m d" by (simp add: versions_within_def list_all_iff)
  then have "versions_within (max 1 m + int (length (db_audit d))) d" by (rule versions_le) simp
  then show ?thesis unfolding counted_def by (intro exI [of _ "max 1 m"]) simp
qed

lemma sizes_kept: "fits d d' \<Longrightarrow> sizes_fit d \<Longrightarrow> sizes_fit d'"
  using some_count [of d] by (auto simp: fits_def)

text \<open>
  C30: In every run of validated requests, bootstraps with names of at most 255 characters and expirations, under
  an active key whose identifier has at most 255 characters, every value fits its column: the limits the request
  models declare are within the sizes the database declares, and what the service composes itself (digests, audit
  actions, subjects, key identifiers, attempts) is within them as well; and a version number never exceeds the number
  of audit events by more than one, so it fits while these are fewer than two thousand million. So PostgreSQL never
  refuses a value as too long or out of range.
\<close>

theorem stored_values_fit:
  assumes "reaches event_fits cf (t, d) (t', d')" and "columns_fit d" and "config_fits cf"
    and "counted 1 d" and "length (db_audit d') < 2147483647"
  shows "columns_fit d' \<and> counted 1 d'"
proof -
  have "sizes_fit d'" "counted 1 d'"
    using columns_kept [OF assms(1,3), unfolded fits_def, rule_format, of 1] assms(2,4)
    by (simp_all add: columns_fit_def)
  moreover have "1 + int (length (db_audit d')) \<le> 2147483647" using assms(5) by simp
  ultimately show ?thesis using versions_le by (auto simp: columns_fit_def counted_def)
qed

end
