(* ===== verification/Columns_Demo.thy ===== *)
theory Columns_Demo
  imports Columns_Laws Witnesses
begin

text \<open>
  An acquisition under a digest of 64 characters, whose row fits, and what happens where nothing
  validates: names given on the command line.
\<close>

definition sized :: "string \<Rightarrow> string" where
  "sized s = take 64 (s @ replicate 64 (CHR ''0''))"

definition sized_cf :: config where
  "sized_cf = demo_cf\<lparr>cf_sha := sized, cf_sha_bytes := (\<lambda>b. sized (map char_of b))\<rparr>"

definition sized_db :: db where
  "sized_db = demo_db\<lparr>db_tokens := [demo_token\<lparr>t_token_hash := sized ''srm_alice''\<rparr>]\<rparr>"

lemma sized_length: "length (sized s) = 64"
  by (simp add: sized_def)

lemma sized_cf_fits: "config_fits sized_cf"
  by (simp add: config_fits_def sized_cf_def sized_length demo_cf_def toy_cipher_def opt_ok_def text_ok_def)

lemma stored_values_fit_witness:
  "columns_fit (handle sized_cf acquire_event sized_db) \<and>
   map l_idempotency_key (db_leases (handle sized_cf acquire_event sized_db)) = [''k'']"
proof -
  let ?d = "handle sized_cf acquire_event sized_db"
  have ev: "event_fits acquire_event" "event_time acquire_event = 5" by code_simp+
  then have run: "reaches event_fits sized_cf (0, sized_db) (5, ?d)"
    using happen [of event_fits sized_cf "(0, sized_db)" 0 sized_db acquire_event] start by simp
  have start: "columns_fit sized_db" "counted 1 sized_db" by code_simp+
  have "length (db_audit ?d) = 1" by code_simp
  then have few: "length (db_audit ?d) < 2147483647" by simp
  have "map l_idempotency_key (db_leases ?d) = [''k'']" by code_simp
  then show ?thesis using stored_values_fit [OF run start(1) sized_cf_fits start(2) few] by blast
qed

text \<open>
  The bootstrap command takes an empty user name, which the login refuses to read; and then there is an
  administrator, so it cannot be run again.
\<close>

lemma nameless_administrator:
  "case bootstrap_command (Demo.at 0) root_id ''hash'' [] None ''correct horse'' ''correct horse'' empty_db of
     (r, d) \<Rightarrow> r = Created root_id \<and>
       fst (bootstrap_command (Demo.at 1) alice_id ''hash'' ''admin'' None ''correct horse'' ''correct horse'' d) =
         Exit ''an administrator already exists''"
  "\<not> (\<exists>u. validate_login_request [] ''correct horse'' = Inr u)"
  by (code_simp, simp add: validate_login_request_def check_fields_def text_ok_def)

text \<open>A longer one is not refused by the command but by the column.\<close>

lemma long_name_does_not_fit:
  "fst (bootstrap_command (Demo.at 0) root_id ''hash'' (replicate 256 (CHR ''a'')) None ''correct horse'' ''correct horse'' empty_db) =
     Created root_id \<and>
   \<not> columns_fit (snd (bootstrap_command (Demo.at 0) root_id ''hash'' (replicate 256 (CHR ''a'')) None
       ''correct horse'' ''correct horse'' empty_db))"
  by code_simp

text \<open>
  The identifier of the active key has no bound in \<open>config.py\<close>, and a secret sealed under it does not fit.
\<close>

definition long_key :: string where "long_key = replicate 256 (CHR ''k'')"

definition long_cipher :: cipher where
  "long_cipher = \<lparr>ci_active = Some long_key, ci_keys = [(long_key, replicate 32 7)]\<rparr>"

lemma long_key_does_not_fit:
  "case create_resource_secret toy_aead long_cipher (Demo.at 3) key_id (replicate 12 1) box_id
       \<lparr>sc_name = ''ssh'', sc_description = None, sc_material = ManagedMaterial ''s3cret''\<rparr> root_id demo_db of
     Inl _ \<Rightarrow> False | Inr (_, d) \<Rightarrow> sizes_fit demo_db \<and> \<not> sizes_fit d"
  by code_simp

end
