(* ===== verification/Schemas.thy ===== *)
theory Schemas
  imports Contract
begin

text \<open>
  The schemas of \<open>openapi/openapi.yaml\<close> as data and what it means for a JSON value to conform to one. The text
  of a date and of a float is Pydantic's.
\<close>

subsection \<open>Schemas and conformance\<close>

text \<open>
  \<open>Text lo hi\<close> bounds the length, \<open>Integer lo hi\<close> the value, which JSON Schema also lets be written with a
  fraction of zero. \<open>Record\<close> is an object with
  \<open>additionalProperties: false\<close>, its properties and the required ones; \<open>OpenRecord\<close> allows others.
  \<open>Dictionary n lo hi m\<close> has at most \<open>n\<close> properties, with bounded names and text values.
\<close>

datatype schema =
    Text nat "nat option"
  | Uuid
  | DateTime
  | Enum "string list"
  | Integer int "int option"
  | Number rat
  | Boolean
  | Nullable schema
  | Array schema
  | Record "(string \<times> schema) list" "string list"
  | OpenRecord "(string \<times> schema) list"
  | Dictionary nat nat nat nat
  | AnyObject
  | OneOf schema schema

text \<open>
  How Pydantic writes an instant and a duration in microseconds, what counts as a date, and the value of a float. Of the
  float it writes for a duration only the sign is relied on.
\<close>

record formats =
  fm_time :: "instant \<Rightarrow> string"
  fm_is_time :: "string \<Rightarrow> bool"
  fm_seconds :: "int \<Rightarrow> string"
  fm_number :: "string \<Rightarrow> rat"

definition formats_ok :: "formats \<Rightarrow> bool" where
  "formats_ok fm \<longleftrightarrow> (\<forall>t. fm_is_time fm (fm_time fm t)) \<and> (\<forall>us. fm_number fm (fm_seconds fm us) < 0 \<longleftrightarrow> us < 0)"

definition hex_digit :: "char \<Rightarrow> bool" where
  "hex_digit c \<longleftrightarrow> c \<in> set ''0123456789abcdefABCDEF''"

text \<open>The form of a UUID of RFC 4122: groups of 8, 4, 4, 4 and 12 hexadecimal digits.\<close>

definition is_uuid :: "string \<Rightarrow> bool" where
  "is_uuid s \<longleftrightarrow>
     map (\<lambda>c. if hex_digit c then CHR ''0'' else c) s = ''00000000-0000-0000-0000-000000000000''"

definition bounded_text :: "nat \<Rightarrow> nat option \<Rightarrow> string \<Rightarrow> bool" where
  "bounded_text lo hi s \<longleftrightarrow> lo \<le> length s \<and> opt_ok (\<lambda>n. length s \<le> n) hi"

fun conforms :: "formats \<Rightarrow> schema \<Rightarrow> json \<Rightarrow> bool" where
  "conforms fm (Text lo hi) j = (case j of JStr s \<Rightarrow> bounded_text lo hi s | _ \<Rightarrow> False)"
| "conforms fm Uuid j = (case j of JStr s \<Rightarrow> is_uuid s | _ \<Rightarrow> False)"
| "conforms fm DateTime j = (case j of JStr s \<Rightarrow> fm_is_time fm s | _ \<Rightarrow> False)"
| "conforms fm (Enum names) j = (case j of JStr s \<Rightarrow> s \<in> set names | _ \<Rightarrow> False)"
| "conforms fm (Integer lo hi) j = (case j of
       JInt n \<Rightarrow> lo \<le> n \<and> opt_ok (\<lambda>m. n \<le> m) hi
     | JFloat s \<Rightarrow> (let x = fm_number fm s; n = floor x in x = of_int n \<and> lo \<le> n \<and> opt_ok (\<lambda>m. n \<le> m) hi)
     | _ \<Rightarrow> False)"
| "conforms fm (Number lo) j = (case j of JInt n \<Rightarrow> lo \<le> of_int n | JFloat s \<Rightarrow> lo \<le> fm_number fm s | _ \<Rightarrow> False)"
| "conforms fm Boolean j = (case j of JBool _ \<Rightarrow> True | _ \<Rightarrow> False)"
| "conforms fm (Nullable s) j = (j = JNull \<or> conforms fm s j)"
| "conforms fm (Array s) j = (case j of JList js \<Rightarrow> list_all (conforms fm s) js | _ \<Rightarrow> False)"
| "conforms fm (Record props required) j = (case j of
       JObj kvs \<Rightarrow>
         list_all (\<lambda>(k, _). k \<in> set (map fst props)) kvs \<and> list_all (\<lambda>k. k \<in> set (map fst kvs)) required \<and>
         list_all (\<lambda>(k, s). case map_of kvs k of None \<Rightarrow> True | Some v \<Rightarrow> conforms fm s v) props
     | _ \<Rightarrow> False)"
| "conforms fm (OpenRecord props) j = (case j of
       JObj kvs \<Rightarrow> list_all (\<lambda>(k, s). case map_of kvs k of None \<Rightarrow> True | Some v \<Rightarrow> conforms fm s v) props
     | _ \<Rightarrow> False)"
| "conforms fm (Dictionary n lo hi m) j = (case j of
       JObj kvs \<Rightarrow> length kvs \<le> n \<and>
         list_all (\<lambda>(k, v). text_ok lo hi k \<and> (case v of JStr s \<Rightarrow> length s \<le> m | _ \<Rightarrow> False)) kvs
     | _ \<Rightarrow> False)"
| "conforms fm AnyObject j = (case j of JObj _ \<Rightarrow> True | _ \<Rightarrow> False)"
| "conforms fm (OneOf s t) j = (conforms fm s j \<noteq> conforms fm t j)"

subsection \<open>The schemas of the responses\<close>

definition SharingMode :: schema where "SharingMode = Enum [''Exclusive'', ''Shared'']"

definition OperationalStatus :: schema where
  "OperationalStatus = Enum [''Active'', ''Cleaning'', ''Quarantined'', ''Disabled'']"

definition VisibilityMode :: schema where "VisibilityMode = Enum [''Public'', ''Restricted'']"

definition ExpirationMode :: schema where "ExpirationMode = Enum [''Required'', ''Optional'']"

definition Labels :: schema where "Labels = Dictionary 64 1 128 255"

definition Ttl :: schema where "Ttl = Nullable (Integer 1 (Some 2147483647))"

text \<open>Most objects require every property.\<close>

definition strict :: "(string \<times> schema) list \<Rightarrow> schema" where
  "strict props = Record props (map fst props)"

definition ResourceSchema :: schema where
  "ResourceSchema = strict
     [(''id'', Uuid), (''name'', Text 0 None), (''type'', Text 0 None), (''labels'', Labels),
      (''sharing_mode'', SharingMode), (''visibility_mode'', VisibilityMode), (''expiration_mode'', ExpirationMode),
      (''default_ttl_seconds'', Ttl), (''max_ttl_seconds'', Ttl), (''operational_status'', OperationalStatus),
      (''version'', Integer 1 None), (''available'', Boolean), (''active_lease_count'', Integer 0 None),
      (''archived_at'', Nullable DateTime), (''created_at'', DateTime), (''updated_at'', DateTime)]"

definition PageSchema :: "schema \<Rightarrow> schema" where
  "PageSchema s = strict
     [(''items'', Array s), (''offset'', Integer 0 None), (''limit'', Integer 1 (Some 200)), (''total'', Integer 0 None)]"

definition ResourceAccessSchema :: schema where
  "ResourceAccessSchema = strict [(''principal_ids'', Array Uuid), (''group_ids'', Array Uuid)]"

definition LeaseState :: schema where "LeaseState = Enum [''Active'', ''Released'', ''Expired'', ''Revoked'']"

definition LeaseSchema :: schema where
  "LeaseSchema = strict
     [(''id'', Uuid), (''resource'', ResourceSchema), (''acquired_by'', Uuid), (''consumer'', Nullable (Text 0 None)),
      (''state'', LeaseState), (''acquired_at'', DateTime), (''expires_at'', Nullable DateTime),
      (''last_renewed_at'', Nullable DateTime), (''ended_at'', Nullable DateTime),
      (''end_reason'', Nullable (Enum [''Released'', ''Expired'', ''Revoked''])), (''duration_seconds'', Number 0),
      (''metadata'', AnyObject)]"

definition SecretMetadataSchema :: schema where
  "SecretMetadataSchema = strict
     [(''id'', Uuid), (''resource_id'', Uuid), (''name'', Text 0 None), (''description'', Nullable (Text 0 None)),
      (''mode'', Enum [''Managed'', ''External'']), (''version'', Integer 1 None), (''created_at'', DateTime),
      (''updated_at'', DateTime)]"

definition SecretAccessSchema :: schema where
  "SecretAccessSchema = OneOf
     (strict [(''id'', Uuid), (''name'', Text 0 None), (''mode'', Enum [''Managed'']), (''value'', Text 0 None)])
     (strict [(''id'', Uuid), (''name'', Text 0 None), (''mode'', Enum [''External'']), (''provider'', Text 0 None),
        (''reference'', Text 0 None)])"

definition LoginResponseSchema :: schema where
  "LoginResponseSchema = strict [(''access_token'', Text 0 None), (''token_type'', Enum [''bearer'']), (''expires_at'', DateTime)]"

definition PrincipalSchema :: schema where
  "PrincipalSchema = strict
     [(''id'', Uuid), (''kind'', Enum [''User'', ''Service'']), (''role'', Enum [''Admin'', ''User'']),
      (''name'', Text 0 None), (''display_name'', Text 0 None), (''archived_at'', Nullable DateTime),
      (''created_at'', DateTime), (''updated_at'', DateTime)]"

definition token_properties :: "(string \<times> schema) list" where
  "token_properties =
     [(''id'', Uuid), (''name'', Text 0 None), (''created_at'', DateTime), (''expires_at'', Nullable DateTime),
      (''last_used_at'', Nullable DateTime), (''revoked_at'', Nullable DateTime)]"

definition TokenSchema :: schema where "TokenSchema = strict token_properties"

definition TokenIssuedSchema :: schema where
  "TokenIssuedSchema = strict (token_properties @ [(''token'', Text 0 None)])"

definition GroupSchema :: schema where
  "GroupSchema = strict
     [(''id'', Uuid), (''name'', Text 0 None), (''description'', Nullable (Text 0 None)),
      (''archived_at'', Nullable DateTime), (''created_at'', DateTime), (''updated_at'', DateTime)]"

definition ProblemSchema :: schema where
  "ProblemSchema = OpenRecord
     [(''type'', Text 0 None), (''title'', Text 0 None), (''status'', Integer 100 (Some 599)), (''detail'', Text 0 None),
      (''instance'', Text 0 None), (''correlation_id'', Text 0 None)]"

subsection \<open>The schemas of the requests\<close>

definition ResourceCreateSchema :: schema where
  "ResourceCreateSchema = Record
     [(''name'', Text 1 (Some 255)), (''type'', Text 1 (Some 255)), (''sharing_mode'', SharingMode),
      (''visibility_mode'', VisibilityMode), (''expiration_mode'', ExpirationMode), (''default_ttl_seconds'', Ttl),
      (''max_ttl_seconds'', Ttl), (''labels'', Labels)]
     [''name'', ''type'', ''sharing_mode'']"

definition ResourceUpdateSchema :: schema where
  "ResourceUpdateSchema = Record
     [(''version'', Integer 1 None), (''name'', Text 1 (Some 255)), (''type'', Text 1 (Some 255)),
      (''sharing_mode'', SharingMode), (''visibility_mode'', VisibilityMode), (''expiration_mode'', ExpirationMode),
      (''default_ttl_seconds'', Ttl), (''max_ttl_seconds'', Ttl), (''labels'', Labels)]
     [''version'']"

definition LeaseCreateSchema :: schema where
  "LeaseCreateSchema = Record
     [(''resource_type'', Text 1 (Some 255)), (''sharing_mode'', SharingMode), (''labels'', Labels), (''ttl_seconds'', Ttl),
      (''consumer'', Nullable (Text 1 (Some 500))), (''metadata'', AnyObject)]
     [''resource_type'', ''sharing_mode'']"

definition LeaseRenewSchema :: schema where
  "LeaseRenewSchema = Record [(''ttl_seconds'', Ttl)] []"

definition ManagedSecretMaterial :: schema where
  "ManagedSecretMaterial = strict [(''mode'', Enum [''Managed'']), (''value'', Text 1 (Some 65536))]"

definition ExternalSecretMaterial :: schema where
  "ExternalSecretMaterial = strict
     [(''mode'', Enum [''External'']), (''provider'', Text 1 (Some 255)), (''reference'', Text 1 (Some 2048))]"

definition SecretMaterial :: schema where
  "SecretMaterial = OneOf ManagedSecretMaterial ExternalSecretMaterial"

definition SecretCreateSchema :: schema where
  "SecretCreateSchema = Record
     [(''name'', Text 1 (Some 255)), (''description'', Nullable (Text 0 (Some 1000))), (''material'', SecretMaterial)]
     [''name'', ''material'']"

definition SecretUpdateSchema :: schema where
  "SecretUpdateSchema = Record
     [(''version'', Integer 1 None), (''name'', Text 1 (Some 255)), (''description'', Nullable (Text 0 (Some 1000))),
      (''material'', SecretMaterial)]
     [''version'']"

definition LoginRequestSchema :: schema where
  "LoginRequestSchema = strict [(''username'', Text 1 (Some 255)), (''password'', Text 1 (Some 1024))]"

definition PasswordRequestSchema :: schema where
  "PasswordRequestSchema = strict [(''password'', Text 12 (Some 1024))]"

definition PrincipalCreateSchema :: schema where
  "PrincipalCreateSchema = Record
     [(''name'', Text 1 (Some 255)), (''display_name'', Text 1 (Some 255)), (''role'', Enum [''Admin'', ''User'']),
      (''password'', Nullable (Text 12 (Some 1024)))]
     [''name'', ''display_name'']"

definition PrincipalUpdateSchema :: schema where
  "PrincipalUpdateSchema = Record
     [(''display_name'', Nullable (Text 1 (Some 255))), (''role'', Nullable (Enum [''Admin'', ''User'']))] []"

definition TokenCreateSchema :: schema where
  "TokenCreateSchema = Record [(''name'', Text 1 (Some 255)), (''expires_at'', Nullable DateTime)] [''name'']"

definition GroupCreateSchema :: schema where
  "GroupCreateSchema = Record [(''name'', Text 1 (Some 255)), (''description'', Nullable (Text 0 None))] [''name'']"

definition GroupUpdateSchema :: schema where
  "GroupUpdateSchema = Record [(''description'', Nullable (Text 0 None))] []"

subsection \<open>The schemas of the operations\<close>

text \<open>The schema the contract lists for the success of an operation; a 204 has no content.\<close>

definition identity_schema :: "identity_call \<Rightarrow> schema option" where
  "identity_schema call = (case call of
       Login _ _ _ _ _ _ \<Rightarrow> Some LoginResponseSchema
     | CreateUser _ _ _ \<Rightarrow> Some PrincipalSchema
     | ListUsers \<Rightarrow> Some (Array PrincipalSchema)
     | GetUser _ \<Rightarrow> Some PrincipalSchema
     | UpdateUser _ _ \<Rightarrow> Some PrincipalSchema
     | CreateService _ _ _ \<Rightarrow> Some PrincipalSchema
     | ListServices \<Rightarrow> Some (Array PrincipalSchema)
     | GetService _ \<Rightarrow> Some PrincipalSchema
     | UpdateService _ _ \<Rightarrow> Some PrincipalSchema
     | CreateServiceToken _ _ _ _ _ \<Rightarrow> Some TokenIssuedSchema
     | ListServiceTokens _ \<Rightarrow> Some (Array TokenSchema)
     | GetMe \<Rightarrow> Some PrincipalSchema
     | CreateMyToken _ _ _ _ \<Rightarrow> Some TokenIssuedSchema
     | ListMyTokens \<Rightarrow> Some (Array TokenSchema)
     | CreateGroup _ _ \<Rightarrow> Some GroupSchema
     | ListGroups \<Rightarrow> Some (Array GroupSchema)
     | GetGroup _ \<Rightarrow> Some GroupSchema
     | UpdateGroup _ _ \<Rightarrow> Some GroupSchema
     | _ \<Rightarrow> None)"

definition response_schema :: "call \<Rightarrow> schema option" where
  "response_schema call = (case call of
       Identity c \<Rightarrow> identity_schema c
     | Catalog (CreateResource _ _) \<Rightarrow> Some ResourceSchema
     | Catalog (ListCatalog _ _) \<Rightarrow> Some (PageSchema ResourceSchema)
     | Catalog (GetResource _) \<Rightarrow> Some ResourceSchema
     | Catalog (UpdateCatalog _ _) \<Rightarrow> Some ResourceSchema
     | Catalog (ArchiveResource _) \<Rightarrow> None
     | Catalog (TransitionResource _ _) \<Rightarrow> Some ResourceSchema
     | Catalog (GetAccess _) \<Rightarrow> Some ResourceAccessSchema
     | Catalog (SetGrant _ _ _ _) \<Rightarrow> None
     | Leases (ListLeases _) \<Rightarrow> Some (PageSchema LeaseSchema)
     | Leases _ \<Rightarrow> Some LeaseSchema
     | Secrets (CreateSecret _ _ _ _) \<Rightarrow> Some SecretMetadataSchema
     | Secrets (ListSecrets _) \<Rightarrow> Some (Array SecretMetadataSchema)
     | Secrets (GetSecret _ _) \<Rightarrow> Some SecretMetadataSchema
     | Secrets (UpdateSecret _ _ _ _) \<Rightarrow> Some SecretMetadataSchema
     | Secrets (DeleteSecret _ _) \<Rightarrow> None
     | Secrets (ListForLease _) \<Rightarrow> Some (Array SecretMetadataSchema)
     | Secrets _ \<Rightarrow> Some SecretAccessSchema)"

end
