(* ===== verification/Rendering.thy ===== *)
theory Rendering
  imports Schemas
begin

text \<open>
  The JSON a response model is rendered as: its fields in the order of the class, an identifier as its text,
  an instant and a duration as Pydantic writes them, an absent value as null.
\<close>

definition uuid_json :: "uuid \<Rightarrow> json" where "uuid_json i = JStr (uuid_str i)"

definition time_json :: "formats \<Rightarrow> instant \<Rightarrow> json" where "time_json fm t = JStr (fm_time fm t)"

definition labels_json :: "labels \<Rightarrow> json" where "labels_json ls = JObj (map (\<lambda>(k, v). (k, JStr v)) ls)"

definition visibility_name :: "visibility_mode \<Rightarrow> string" where
  "visibility_name m = (case m of Public \<Rightarrow> ''Public'' | Restricted \<Rightarrow> ''Restricted'')"

definition expiration_name :: "expiration_mode \<Rightarrow> string" where
  "expiration_name m = (case m of Required \<Rightarrow> ''Required'' | Optional \<Rightarrow> ''Optional'')"

definition end_reason_name :: "end_reason \<Rightarrow> string" where
  "end_reason_name r = (case r of Released \<Rightarrow> ''Released'' | Expired \<Rightarrow> ''Expired'' | Revoked \<Rightarrow> ''Revoked'')"

definition lease_state_name :: "lease_state \<Rightarrow> string" where
  "lease_state_name st = (case st of ActiveLease \<Rightarrow> ''Active'' | EndedLease r \<Rightarrow> end_reason_name r)"

definition kind_name :: "principal_kind \<Rightarrow> string" where
  "kind_name k = (case k of User \<Rightarrow> ''User'' | Service \<Rightarrow> ''Service'')"

definition role_name :: "principal_role \<Rightarrow> string" where
  "role_name r = (case r of Admin \<Rightarrow> ''Admin'' | RegularUser \<Rightarrow> ''User'')"

definition secret_mode_name :: "secret_mode \<Rightarrow> string" where
  "secret_mode_name m = (case m of Managed \<Rightarrow> ''Managed'' | External \<Rightarrow> ''External'')"

definition principal_json :: "formats \<Rightarrow> principal \<Rightarrow> json" where
  "principal_json fm p = JObj
     [(''id'', uuid_json (p_id p)), (''kind'', JStr (kind_name (p_kind p))), (''role'', JStr (role_name (p_role p))),
      (''name'', JStr (p_name p)), (''display_name'', JStr (p_display_name p)),
      (''archived_at'', opt_json (time_json fm) (p_archived_at p)), (''created_at'', time_json fm (p_created_at p)),
      (''updated_at'', time_json fm (p_updated_at p))]"

definition token_fields :: "formats \<Rightarrow> 'a token_response_scheme \<Rightarrow> (string \<times> json) list" where
  "token_fields fm t =
     [(''id'', uuid_json (tr_id t)), (''name'', JStr (tr_name t)), (''created_at'', time_json fm (tr_created_at t)),
      (''expires_at'', opt_json (time_json fm) (tr_expires_at t)),
      (''last_used_at'', opt_json (time_json fm) (tr_last_used_at t)),
      (''revoked_at'', opt_json (time_json fm) (tr_revoked_at t))]"

definition token_json :: "formats \<Rightarrow> token_response \<Rightarrow> json" where
  "token_json fm t = JObj (token_fields fm t)"

definition token_issued_json :: "formats \<Rightarrow> token_issued \<Rightarrow> json" where
  "token_issued_json fm t = JObj (token_fields fm t @ [(''token'', JStr (ti_token t))])"

definition login_json :: "formats \<Rightarrow> login_response \<Rightarrow> json" where
  "login_json fm r = JObj
     [(''access_token'', JStr (lo_access_token r)), (''token_type'', JStr ''bearer''),
      (''expires_at'', time_json fm (lo_expires_at r))]"

definition group_json :: "formats \<Rightarrow> group_row \<Rightarrow> json" where
  "group_json fm g = JObj
     [(''id'', uuid_json (g_id g)), (''name'', JStr (g_name g)), (''description'', opt_json JStr (g_description g)),
      (''archived_at'', opt_json (time_json fm) (g_archived_at g)), (''created_at'', time_json fm (g_created_at g)),
      (''updated_at'', time_json fm (g_updated_at g))]"

definition resource_json :: "formats \<Rightarrow> resource_response \<Rightarrow> json" where
  "resource_json fm r = JObj
     [(''id'', uuid_json (rr_id r)), (''name'', JStr (rr_name r)), (''type'', JStr (rr_type r)),
      (''labels'', labels_json (rr_labels r)), (''sharing_mode'', JStr (sharing_name (rr_sharing_mode r))),
      (''visibility_mode'', JStr (visibility_name (rr_visibility_mode r))),
      (''expiration_mode'', JStr (expiration_name (rr_expiration_mode r))),
      (''default_ttl_seconds'', opt_json JInt (rr_default_ttl r)), (''max_ttl_seconds'', opt_json JInt (rr_max_ttl r)),
      (''operational_status'', JStr (status_name (rr_status r))), (''version'', JInt (rr_version r)),
      (''available'', JBool (rr_available r)), (''active_lease_count'', JInt (int (rr_active_lease_count r))),
      (''archived_at'', opt_json (time_json fm) (rr_archived_at r)), (''created_at'', time_json fm (rr_created_at r)),
      (''updated_at'', time_json fm (rr_updated_at r))]"

definition page_json :: "('a \<Rightarrow> json) \<Rightarrow> 'a page_response \<Rightarrow> json" where
  "page_json item p = JObj
     [(''items'', JList (map item (pr_items p))), (''offset'', JInt (pr_offset p)), (''limit'', JInt (pr_limit p)),
      (''total'', JInt (int (pr_total p)))]"

definition access_json :: "resource_access \<Rightarrow> json" where
  "access_json a = JObj
     [(''principal_ids'', JList (map uuid_json (ra_principal_ids a))), (''group_ids'', JList (map uuid_json (ra_group_ids a)))]"

definition lease_json :: "formats \<Rightarrow> lease_response \<Rightarrow> json" where
  "lease_json fm l = JObj
     [(''id'', uuid_json (lr_id l)), (''resource'', resource_json fm (lr_resource l)),
      (''acquired_by'', uuid_json (lr_acquired_by l)), (''consumer'', opt_json JStr (lr_consumer l)),
      (''state'', JStr (lease_state_name (lr_state l))), (''acquired_at'', time_json fm (lr_acquired_at l)),
      (''expires_at'', opt_json (time_json fm) (lr_expires_at l)),
      (''last_renewed_at'', opt_json (time_json fm) (lr_last_renewed_at l)),
      (''ended_at'', opt_json (time_json fm) (lr_ended_at l)),
      (''end_reason'', opt_json (\<lambda>r. JStr (end_reason_name r)) (lr_end_reason l)),
      (''duration_seconds'', JFloat (fm_seconds fm (lr_duration l))), (''metadata'', JObj (lr_metadata l))]"

definition secret_metadata_json :: "formats \<Rightarrow> secret_metadata \<Rightarrow> json" where
  "secret_metadata_json fm s = JObj
     [(''id'', uuid_json (sm_id s)), (''resource_id'', uuid_json (sm_resource_id s)), (''name'', JStr (sm_name s)),
      (''description'', opt_json JStr (sm_description s)), (''mode'', JStr (secret_mode_name (sm_mode s))),
      (''version'', JInt (sm_version s)), (''created_at'', time_json fm (sm_created_at s)),
      (''updated_at'', time_json fm (sm_updated_at s))]"

definition secret_access_json :: "secret_access \<Rightarrow> json" where
  "secret_access_json s = (case s of
       ManagedSecretAccess i name v \<Rightarrow>
         JObj [(''id'', uuid_json i), (''name'', JStr name), (''mode'', JStr ''Managed''), (''value'', JStr v)]
     | ExternalSecretAccess i name provider reference \<Rightarrow>
         JObj [(''id'', uuid_json i), (''name'', JStr name), (''mode'', JStr ''External''),
           (''provider'', JStr provider), (''reference'', JStr reference)])"

definition body_json :: "formats \<Rightarrow> body \<Rightarrow> json option" where
  "body_json fm b = (case b of
       NoContent \<Rightarrow> None
     | LoginBody r \<Rightarrow> Some (login_json fm r)
     | PrincipalBody p \<Rightarrow> Some (principal_json fm p)
     | PrincipalsBody ps \<Rightarrow> Some (JList (map (principal_json fm) ps))
     | TokenBody t \<Rightarrow> Some (token_issued_json fm t)
     | TokensBody ts \<Rightarrow> Some (JList (map (token_json fm) ts))
     | GroupBody g \<Rightarrow> Some (group_json fm g)
     | GroupsBody gs \<Rightarrow> Some (JList (map (group_json fm) gs))
     | ResourceBody r \<Rightarrow> Some (resource_json fm r)
     | ResourcesBody p \<Rightarrow> Some (page_json (resource_json fm) p)
     | AccessBody a \<Rightarrow> Some (access_json a)
     | LeaseBody l \<Rightarrow> Some (lease_json fm l)
     | LeasesBody p \<Rightarrow> Some (page_json (lease_json fm) p)
     | SecretBody s \<Rightarrow> Some (secret_metadata_json fm s)
     | SecretsBody ss \<Rightarrow> Some (JList (map (secret_metadata_json fm) ss))
     | DisclosureBody s \<Rightarrow> Some (secret_access_json s))"

text \<open>The content of an answer against what the contract lists: a schema for a success, the problem schema otherwise.\<close>

definition content_conforms :: "formats \<Rightarrow> call \<Rightarrow> body content_body \<Rightarrow> bool" where
  "content_conforms fm call content = (case content of
       Content b \<Rightarrow> (case (response_schema call, body_json fm b) of
          (Some s, Some j) \<Rightarrow> conforms fm s j
        | (None, None) \<Rightarrow> True
        | _ \<Rightarrow> False)
     | ProblemContent p \<Rightarrow> conforms fm ProblemSchema (problem_json p))"

end
