(* ===== verification/Schemas_Laws.thy ===== *)
theory Schemas_Laws
  imports Rendering Columns_Laws Contract_Laws
begin

text \<open>
  Every answer conforms to the schema the published contract gives for it: what the routes return is read from
  rows of the database they leave, and the constraints of the schema and the validation bound those rows.
\<close>

subsection \<open>Values\<close>

lemma digit_char_hex: "hex_digit (digit_char n)"
proof -
  have "digit_char n \<in> set ''0123456789abcdef''"
    unfolding digit_char_def by (rule nth_mem) simp
  then show ?thesis by (auto simp: hex_digit_def)
qed

lemma uuid_str_is_uuid: "is_uuid (uuid_str u)"
proof -
  have "map (\<lambda>c. if hex_digit c then CHR ''0'' else c) (hex_run w is) = replicate (length is) (CHR ''0'')" for w "is"
    by (simp add: hex_run_def digit_char_hex comp_def map_replicate_const)
  then show ?thesis
    by (simp add: is_uuid_def uuid_str_def Let_def hex_digit_def numeral_eq_Suc)
qed

text \<open>An object that gives every property in the order of the schema.\<close>

lemma strict_conforms:
  assumes "list_all2 (\<lambda>(k, s) (k', v). k' = k \<and> conforms fm s v) props kvs" and "distinct (map fst props)"
  shows "conforms fm (strict props) (JObj kvs)"
proof -
  have keys: "map fst kvs = map fst props"
    using assms(1) by (induction props kvs rule: list_all2_induct) auto
  have "\<exists>v. map_of kvs k = Some v \<and> conforms fm s v" if entry: "(k, s) \<in> set props" for k s
  proof -
    obtain n where n: "n < length props" "props ! n = (k, s)" using entry by (auto simp: in_set_conv_nth)
    obtain k' v where kv: "kvs ! n = (k', v)" by (cases "kvs ! n")
    have len: "length kvs = length props" using assms(1) by (simp add: list_all2_lengthD)
    have "k' = k" "conforms fm s v" using list_all2_nthD [OF assms(1) n(1)] n(2) kv by simp_all
    moreover have "(k', v) \<in> set kvs" using n(1) kv len by (metis nth_mem)
    moreover have "distinct (map fst kvs)" using assms(2) keys by simp
    ultimately show ?thesis by simp
  qed
  then have "list_all (\<lambda>(k, s). case map_of kvs k of None \<Rightarrow> True | Some v \<Rightarrow> conforms fm s v) props"
    by (fastforce simp: list_all_iff)
  moreover have "list_all (\<lambda>(k, _). k \<in> set (map fst props)) kvs" "list_all (\<lambda>k. k \<in> set (map fst kvs)) (map fst props)"
    unfolding keys [symmetric] by (force simp: list_all_iff)+
  ultimately show ?thesis by (simp add: strict_def)
qed

named_theorems rendered \<open>what a renderer produces conforms\<close>

lemma leaf_conforms [rendered]:
  "conforms fm (Text 0 None) (JStr s)"
  "conforms fm Uuid (uuid_json i)"
  "formats_ok fm \<Longrightarrow> conforms fm DateTime (time_json fm t)"
  "conforms fm Boolean (JBool b)"
  "conforms fm AnyObject (JObj kvs)"
  "list_all (conforms fm sc) js \<Longrightarrow> conforms fm (Array sc) (JList js)"
  by (simp_all add: bounded_text_def opt_ok_def uuid_json_def uuid_str_is_uuid time_json_def formats_ok_def)

lemma nullable_conforms [rendered]:
  "(\<And>y. x = Some y \<Longrightarrow> conforms fm sc (f y)) \<Longrightarrow> conforms fm (Nullable sc) (opt_json f x)"
  by (cases x) (simp_all add: opt_json_def)

lemma names_conform [rendered]:
  "conforms fm SharingMode (JStr (sharing_name m))"
  "conforms fm OperationalStatus (JStr (status_name st))"
  "conforms fm VisibilityMode (JStr (visibility_name v))"
  "conforms fm ExpirationMode (JStr (expiration_name e))"
  "conforms fm LeaseState (JStr (lease_state_name ls))"
  "conforms fm (Enum [''Released'', ''Expired'', ''Revoked'']) (JStr (end_reason_name r))"
  "conforms fm (Enum [''Managed'', ''External'']) (JStr (secret_mode_name sm))"
  "conforms fm (Enum [''User'', ''Service'']) (JStr (kind_name k))"
  "conforms fm (Enum [''Admin'', ''User'']) (JStr (role_name p))"
  by (auto simp: SharingMode_def sharing_name_def OperationalStatus_def status_name_def VisibilityMode_def
      visibility_name_def ExpirationMode_def expiration_name_def LeaseState_def lease_state_name_def
      end_reason_name_def secret_mode_name_def kind_name_def role_name_def
      split: sharing_mode.split operational_status.split visibility_mode.split expiration_mode.split
        lease_state.split end_reason.split secret_mode.split principal_kind.split principal_role.split)


subsection \<open>Response models\<close>

lemma enum_conforms [rendered]: "s \<in> set names \<Longrightarrow> conforms fm (Enum names) (JStr s)"
  by simp

lemmas render_defs =
  PrincipalSchema_def principal_json_def TokenSchema_def TokenIssuedSchema_def token_properties_def token_json_def
  token_issued_json_def token_fields_def LoginResponseSchema_def login_json_def GroupSchema_def group_json_def
  ResourceAccessSchema_def access_json_def

lemma identity_conforms [rendered]:
  assumes "formats_ok fm"
  shows "conforms fm PrincipalSchema (principal_json fm p)" and "conforms fm TokenSchema (token_json fm t)"
    and "conforms fm TokenIssuedSchema (token_issued_json fm ti)" and "conforms fm LoginResponseSchema (login_json fm lo)"
    and "conforms fm GroupSchema (group_json fm g)" and "conforms fm ResourceAccessSchema (access_json a)"
  unfolding render_defs
  by (rule strict_conforms; simp add: rendered assms list_all_iff del: conforms.simps)+

subsection \<open>Bounded models\<close>

definition ttl_fits :: "int option \<Rightarrow> bool" where
  "ttl_fits t \<longleftrightarrow> positive_ttl t \<and> opt_ok (\<lambda>n. n \<le> 2147483647) t"

text \<open>What the constraints and the validation say of a resource that is read, and of the models built on it.\<close>

definition resource_sound :: "resource_response \<Rightarrow> bool" where
  "resource_sound r \<longleftrightarrow> validate_labels (rr_labels r) = Inr (rr_labels r) \<and> ttl_fits (rr_default_ttl r) \<and>
     ttl_fits (rr_max_ttl r) \<and> 1 \<le> rr_version r"

definition lease_sound :: "lease_response \<Rightarrow> bool" where
  "lease_sound l \<longleftrightarrow> resource_sound (lr_resource l) \<and> 0 \<le> lr_duration l"

definition page_sound :: "('a \<Rightarrow> bool) \<Rightarrow> 'a page_response \<Rightarrow> bool" where
  "page_sound P p \<longleftrightarrow> list_all P (pr_items p) \<and> page_bounds (pr_offset p) (pr_limit p)"

fun body_sound :: "body \<Rightarrow> bool" where
  "body_sound (ResourceBody r) = resource_sound r"
| "body_sound (ResourcesBody p) = page_sound resource_sound p"
| "body_sound (LeaseBody l) = lease_sound l"
| "body_sound (LeasesBody p) = page_sound lease_sound p"
| "body_sound (SecretBody s) = (1 \<le> sm_version s)"
| "body_sound (SecretsBody ss) = list_all (\<lambda>s. 1 \<le> sm_version s) ss"
| "body_sound _ = True"

lemma integer_conforms [rendered]: "lo \<le> n \<Longrightarrow> opt_ok (\<lambda>m. n \<le> m) hi \<Longrightarrow> conforms fm (Integer lo hi) (JInt n)"
  by simp

lemma ttl_conforms [rendered]: "ttl_fits t \<Longrightarrow> conforms fm Ttl (opt_json JInt t)"
  by (cases t) (auto simp: Ttl_def ttl_fits_def positive_ttl_def opt_json_def opt_ok_def)

lemma labels_conform [rendered]: "validate_labels ls = Inr ls \<Longrightarrow> conforms fm Labels (labels_json ls)"
  by (fastforce simp: Labels_def labels_json_def validate_labels_def text_ok_def list_all_iff list_ex_iff not_less
      Suc_le_eq split: if_splits)

lemma resource_conforms [rendered]:
  "formats_ok fm \<Longrightarrow> resource_sound r \<Longrightarrow> conforms fm ResourceSchema (resource_json fm r)"
  unfolding ResourceSchema_def resource_json_def
  by (rule strict_conforms) (simp_all add: rendered resource_sound_def opt_ok_def del: conforms.simps)

lemma duration_conforms [rendered]:
  assumes "formats_ok fm" and "0 \<le> us"
  shows "conforms fm (Number 0) (JFloat (fm_seconds fm us))"
proof -
  have "fm_number fm (fm_seconds fm us) < 0 \<longleftrightarrow> us < 0"
    using assms(1) unfolding formats_ok_def by blast
  with assms(2) show ?thesis by simp
qed

lemma lease_conforms [rendered]:
  "formats_ok fm \<Longrightarrow> lease_sound l \<Longrightarrow> conforms fm LeaseSchema (lease_json fm l)"
  unfolding LeaseSchema_def lease_json_def
  by (rule strict_conforms) (simp_all add: rendered lease_sound_def del: conforms.simps)

lemma secret_conforms [rendered]:
  "formats_ok fm \<Longrightarrow> 1 \<le> sm_version s \<Longrightarrow> conforms fm SecretMetadataSchema (secret_metadata_json fm s)"
  unfolding SecretMetadataSchema_def secret_metadata_json_def
  by (rule strict_conforms) (simp_all add: rendered opt_ok_def del: conforms.simps)

text \<open>A disclosure conforms to one of the alternatives and not to the other.\<close>

lemma disclosure_conforms [rendered]: "conforms fm SecretAccessSchema (secret_access_json s)"
  by (cases s) (simp_all add: SecretAccessSchema_def secret_access_json_def strict_def uuid_json_def uuid_str_is_uuid
    bounded_text_def opt_ok_def)

lemma page_conforms [rendered]:
  assumes "page_sound P p" and "\<And>x. P x \<Longrightarrow> conforms fm sc (item x)"
  shows "conforms fm (PageSchema sc) (page_json item p)"
  unfolding PageSchema_def page_json_def
  by (rule strict_conforms)
    (use assms in \<open>simp_all add: rendered page_sound_def page_bounds_def opt_ok_def list_all_iff del: conforms.simps\<close>)

subsection \<open>Rows behind the answers\<close>

text \<open>What the database holds where the clock of the application was not ahead when a lease was acquired.\<close>

definition clocks_agree :: "instant \<Rightarrow> db \<Rightarrow> bool" where
  "clocks_agree now d \<longleftrightarrow> list_all (\<lambda>l. l_acquired_at l \<le> coalesce (l_ended_at l) now) (db_leases d)"

definition sane :: "instant \<Rightarrow> db \<Rightarrow> bool" where
  "sane now d \<longleftrightarrow> db_ok d \<and> sizes_fit d \<and> clocks_agree now d"

lemma resource_row_sound:
  assumes "sane now d" and "r \<in> set (db_resources d)"
  shows "resource_sound (project_resource n d r)"
  using assms
  by (auto simp: sane_def db_ok_def resources_valid_def sizes_fit_def list_all_iff resource_check_def resource_fits_def
      labels_bounded_def resource_sound_def project_resource_def ttl_fits_def)

lemma fetched_resource_sound: "sane now d \<Longrightarrow> fetch_resource cx i d = Inr r \<Longrightarrow> resource_sound r"
  by (auto simp: fetch_resource_Inr dest: filter_singleD(1) intro: resource_row_sound)

lemma visible_resource_sound: "sane now d \<Longrightarrow> fetch_visible_resource cx i pid d = Inr r \<Longrightarrow> resource_sound r"
  by (auto simp: fetch_visible_resource_def resource_statement_def bindE_eq_Inr dest: filter_singleD(1)
      intro: resource_row_sound)

lemma lease_row_sound:
  assumes "sane (cx_now cx) d" and "l \<in> set (db_leases d)" and "lease_from_row cx l d = Inr r"
  shows "lease_sound r"
  using assms
  by (auto simp: lease_from_row_def project_lease_def lease_sound_def sane_def clocks_agree_def list_all_iff bindE_eq_Inr
      intro: fetched_resource_sound [of "cx_now cx" d])

lemma fetched_lease_sound: "sane (cx_now cx) d \<Longrightarrow> fetch_lease cx i pid adm d = Inr r \<Longrightarrow> lease_sound r"
  by (auto simp: fetch_lease_Inr dest: filter_singleD(1) intro: lease_row_sound)

lemma secret_row_sound: "sane now d \<Longrightarrow> s \<in> set (db_secrets d) \<Longrightarrow> 1 \<le> sm_version (metadata_from_row s)"
  by (auto simp: sane_def db_ok_def secrets_valid_def secret_check_def metadata_from_row_def list_all_iff)

subsection \<open>Routes\<close>

text \<open>What a route returns satisfies \<open>P\<close> if the database it leaves is sane.\<close>

definition gives :: "instant \<Rightarrow> ('a \<Rightarrow> bool) \<Rightarrow> (exc + 'a) \<times> db \<Rightarrow> bool" where
  "gives now P r \<longleftrightarrow> (\<forall>x. fst r = Inr x \<longrightarrow> sane now (snd r) \<longrightarrow> P x)"

lemma gives_trivial [simp]: "gives now (\<lambda>_. True) r"
  by (simp add: gives_def)

lemma gives_run: "(\<And>x d'. body d = Inr (x, d') \<Longrightarrow> sane now d' \<Longrightarrow> P x) \<Longrightarrow> gives now P (run_tx body d)"
  by (auto simp: gives_def run_tx_def split: sum.splits prod.splits)

lemma gives_read: "(\<And>x. body d = Inr x \<Longrightarrow> sane now d \<Longrightarrow> P x) \<Longrightarrow> gives now P (read_tx body d)"
  by (auto simp: gives_def read_tx_def)

lemma gives_then: "(\<And>x d'. gives now P (f x d')) \<Longrightarrow> gives now P (then_tx r f)"
  by (cases rule: then_tx_cases [of r f]) (auto simp: gives_def)

lemma gives_if: "gives now P a \<Longrightarrow> gives now P b \<Longrightarrow> gives now P (if c then a else b)"
  by simp

lemma gives_refused: "gives now P (Inl e, d)"
  by (simp add: gives_def)

lemma gives_caught: "gives now P r \<Longrightarrow> gives now P (catch_integrity e r)" "gives now P r \<Longrightarrow> gives now P (catch_crypto r)"
  by (auto simp: gives_def catch_integrity_def catch_crypto_def split: prod.splits sum.splits exc.splits)

lemma reply_sound:
  assumes "gives now (\<lambda>x. body_sound (render x)) r" and "fst (reply env s render r) = Inr response"
    and "rs_content response = Content b" and "sane now (snd r)"
  shows "body_sound b"
  using assms
  by (cases "fst r") (auto simp: gives_def reply_def endpoint_def handle_exceptions_def http_problem_def problem_response_def
      split: exc.splits)

lemma resource_results_sound:
  "create_resource cx i rq actor d = Inr (r, d') \<Longrightarrow> sane now d' \<Longrightarrow> resource_sound r"
  "update_resource cx i uq actor d = Inr (r, d') \<Longrightarrow> sane now d' \<Longrightarrow> resource_sound r"
  "transition_resource cx i t actor d = Inr (r, d') \<Longrightarrow> sane now d' \<Longrightarrow> resource_sound r"
  by (auto simp: create_resource_def update_resource_def transition_resource_def bindE_eq_Inr split: if_splits prod.splits
      intro: fetched_resource_sound)

lemma listed_resources_sound:
  assumes "sane now d" and "page_bounds (rq_offset q) (rq_limit q)"
  shows "page_sound resource_sound (list_resources coll cx q pid adm d)"
  using assms
  by (auto simp: list_resources_def Let_def page_sound_def page_def matching_resources_def resource_statement_def list_all_iff
      dest!: in_set_takeD in_set_dropD intro: resource_row_sound)

lemma lease_results_sound:
  "acquire_lease sha cx app_now i rq key pid adm d = Inr (r, d') \<Longrightarrow> sane (cx_now cx) d' \<Longrightarrow> lease_sound r"
  "renew_lease cx checked_at app_now i ttl pid d = Inr (r, d') \<Longrightarrow> sane (cx_now cx) d' \<Longrightarrow> lease_sound r"
  "end_lease cx i pid reason d = Inr (r, d') \<Longrightarrow> sane (cx_now cx) d' \<Longrightarrow> lease_sound r"
proof -
  show "lease_sound r" if r: "acquire_lease sha cx app_now i rq key pid adm d = Inr (r, d')" and s: "sane (cx_now cx) d'"
    using r
  proof (cases rule: acquire_lease_cases)
    case (replayed l)
    then show ?thesis using s by (auto dest: filter_singleD(1) intro: lease_row_sound)
  next
    case (created c)
    from created(3) show ?thesis
      by (cases rule: create_lease_cases) (use s in \<open>auto simp: lease_sound_def project_lease_def intro: fetched_resource_sound\<close>)
  qed
qed (auto elim!: renew_lease_cases end_lease_cases intro: fetched_lease_sound)

lemma rows_sound:
  assumes "map_rows (\<lambda>l. lease_from_row cx l d) ls = Inr rs" and "set ls \<subseteq> set (db_leases d)" and "sane (cx_now cx) d"
  shows "list_all lease_sound rs"
  unfolding list_all_iff
proof
  fix r assume "r \<in> set rs"
  from map_rows_mem [OF assms(1) this] assms(2,3) show "lease_sound r" by (auto intro: lease_row_sound)
qed

lemma listed_leases_sound:
  assumes "list_leases cx q pid adm d = Inr p" and "sane (cx_now cx) d" and "page_bounds (lq_offset q) (lq_limit q)"
  shows "page_sound lease_sound p"
proof -
  have sub: "set (page offset limit (sort_key key (filter f ls))) \<subseteq> set ls"
    for offset limit f and key :: "lease \<Rightarrow> instant \<times> uuid" and ls
    using set_take_drop_subset [of "nat limit" "nat offset" "sort_key key (filter f ls)"] by (auto simp: page_def)
  from assms show ?thesis
    by (auto simp: list_leases_def Let_def page_sound_def bindE_eq_Inr split: if_splits elim!: rows_sound
        dest: subsetD [OF sub])
qed

lemma secret_results_sound:
  "create_resource_secret ae cipher cx sid nonce rid rq pid d = Inr (s, d') \<Longrightarrow> 1 \<le> sm_version s"
  "update_resource_secret ae cipher cx nonce rid sid uq pid d = Inr (s, d') \<Longrightarrow> sane now d' \<Longrightarrow> 1 \<le> sm_version s"
  "list_resource_secrets coll rid d = Inr ss \<Longrightarrow> sane now d \<Longrightarrow> list_all (\<lambda>s. 1 \<le> sm_version s) ss"
  "get_resource_secret rid sid d = Inr s \<Longrightarrow> sane now d \<Longrightarrow> 1 \<le> sm_version s"
  "list_lease_secrets coll cx lid pid adm d = Inr ss \<Longrightarrow> sane now d \<Longrightarrow> list_all (\<lambda>s. 1 \<le> sm_version s) ss"
proof -
  show "1 \<le> sm_version s" if "create_resource_secret ae cipher cx sid nonce rid rq pid d = Inr (s, d')"
    using that by (cases rule: create_resource_secret_cases) (simp add: metadata_from_row_def set_material_def split: prod.split)
  show "1 \<le> sm_version s"
    if u: "update_resource_secret ae cipher cx nonce rid sid uq pid d = Inr (s, d')" and sane: "sane now d'"
    using u
  proof (cases rule: update_resource_secret_cases)
    case (updated t r replace d1 row)
    have "db_secrets d' = db_secrets d1" using record_audit_eventD [OF updated(8)] by simp
    then have "row \<in> set (db_secrets d')" using filter_singleD(1) [OF updated(6)] by simp
    with updated(7) sane show ?thesis by (simp add: secret_row_sound)
  qed (use sane in \<open>auto simp: lock_secret_Inr dest: filter_singleD(1) intro: secret_row_sound\<close>)
qed (auto simp: list_resource_secrets_def list_lease_secrets_def secrets_of_def get_resource_secret_def lock_secret_Inr
    list_all_iff bindE_eq_Inr dest: filter_singleD(1) intro: secret_row_sound)

subsection \<open>Every answer\<close>

lemma gives_acquired:
  "gives (cx_now (rv_cx env)) lease_sound (fst (acquire_route sha env app_now i rq key d))"
  by (auto simp: acquire_route_def gives_def Let_def run_tx_def split: prod.splits sum.splits intro: lease_results_sound(1))

lemmas gives_rules = gives_then gives_caught gives_if gives_run gives_read gives_refused

lemma resource_routes_give:
  "gives now resource_sound (create_resource_route sha env i rq d)"
  "gives now resource_sound (get_resource_route sha env i d)"
  "gives now resource_sound (update_catalog sha env i uq d)"
  "gives now resource_sound (transition_route sha env t i d)"
  "page_bounds (rq_offset q) (rq_limit q) \<Longrightarrow> gives now (page_sound resource_sound) (list_catalog sha coll env ls q d)"
  unfolding create_resource_route_def get_resource_route_def update_catalog_def transition_route_def list_catalog_def
  by (intro gives_rules; auto intro: resource_results_sound fetched_resource_sound visible_resource_sound
      listed_resources_sound split: if_splits)+

lemma lease_routes_give:
  "gives (cx_now (rv_cx env)) lease_sound (get_lease_route sha env i d)"
  "gives (cx_now (rv_cx env)) lease_sound (renew_route sha env checked_at app_now i ttl d)"
  "gives (cx_now (rv_cx env)) lease_sound (release_route sha env i d)"
  "gives (cx_now (rv_cx env)) lease_sound (revoke_route sha env i d)"
  "page_bounds (lq_offset q) (lq_limit q) \<Longrightarrow>
     gives (cx_now (rv_cx env)) (page_sound lease_sound) (list_leases_route sha env q d)"
  unfolding lease_routes
  by (intro gives_rules; auto intro: lease_results_sound fetched_lease_sound listed_leases_sound)+

lemma secret_routes_give:
  "gives now (\<lambda>s. 1 \<le> sm_version s) (create_secret_route sha ae cipher env i nonce rid rq d)"
  "gives now (\<lambda>s. 1 \<le> sm_version s) (update_secret_route sha ae cipher env nonce rid i uq d)"
  "gives now (\<lambda>s. 1 \<le> sm_version s) (get_secret_route sha env rid i d)"
  "gives now (list_all (\<lambda>s. 1 \<le> sm_version s)) (list_for_resource_route sha coll env rid d)"
  "gives now (list_all (\<lambda>s. 1 \<le> sm_version s)) (list_for_lease_route sha coll env lid d)"
  unfolding secret_routes
  by (intro gives_rules; auto intro: secret_results_sound)+

lemma answer_sound:
  assumes "fst (answer cf env call d) = Inr response" and "rs_content response = Content b"
    and "sane (cx_now (rv_cx env)) (snd (answer cf env call d))" and "validated call"
  shows "body_sound b"
proof (cases call)
  case (Identity c)
  have "declared call b" using answers_are_typed [where cf = cf and env = env and call = call and d = d] assms(1,2) by simp
  then show ?thesis
    unfolding Identity declared_def call.case declared_identity_def by (cases c; cases b) simp_all
next
  case (Catalog c)
  show ?thesis
    using assms unfolding Catalog answer_def call.case
    by (cases c) (simp_all only: catalog_router_def catalog_call.case reply_snd validated_defs,
      (erule reply_sound [rotated]; simp add: resource_routes_give)+)
next
  case (Leases c)
  show ?thesis
    using assms unfolding Leases answer_def call.case
    by (cases c) (simp_all only: leasing_router_def lease_call.case reply_snd validated_defs,
      (erule reply_sound [rotated]; simp; (intro gives_acquired lease_routes_give; assumption)?)+)
next
  case (Secrets c)
  show ?thesis
    using assms unfolding Secrets answer_def call.case
    by (cases c) (simp_all only: secrets_router_def secret_call.case reply_snd validated_defs,
      (erule reply_sound [rotated]; simp add: secret_routes_give split: prod.split)+)
qed

lemma typed_conforms:
  assumes "formats_ok fm" and "declared call b" and "body_sound b"
  shows "content_conforms fm call (Content b)"
proof (cases call)
  case (Identity c)
  show ?thesis
    using assms unfolding Identity
    by (cases c; cases b) (simp_all add: declared_def declared_identity_def content_conforms_def response_schema_def
      identity_schema_def body_json_def rendered list_all_iff del: conforms.simps)
next
  case (Catalog c)
  show ?thesis
    using assms unfolding Catalog
    by (cases c; cases b) (simp_all add: declared_def content_conforms_def response_schema_def body_json_def rendered
      page_conforms [of resource_sound] del: conforms.simps)
next
  case (Leases c)
  show ?thesis
    using assms unfolding Leases
    by (cases c; cases b) (simp_all add: declared_def content_conforms_def response_schema_def body_json_def rendered
      page_conforms [of lease_sound] del: conforms.simps)
next
  case (Secrets c)
  show ?thesis
    using assms unfolding Secrets
    by (cases c; cases b) (simp_all add: declared_def content_conforms_def response_schema_def body_json_def rendered
      list_all_iff del: conforms.simps)
qed

lemma statuses_in_range: "list_all (\<lambda>s. 100 \<le> s \<and> s \<le> 599) (documented call @ undocumented call)"
proof (cases call)
  case (Identity c)
  then show ?thesis by (cases c) (simp_all add: documented_def undocumented_def)
next
  case (Catalog c)
  then show ?thesis by (cases c) (simp_all add: documented_def undocumented_def)
next
  case (Leases c)
  then show ?thesis by (cases c) (simp_all add: documented_def undocumented_def)
next
  case (Secrets c)
  then show ?thesis by (cases c) (simp_all add: documented_def undocumented_def)
qed

lemma problem_conforms: "100 \<le> pb_status p \<Longrightarrow> pb_status p \<le> 599 \<Longrightarrow> conforms fm ProblemSchema (problem_json p)"
  by (simp add: ProblemSchema_def problem_json_def bounded_text_def opt_ok_def)


end
