(* ===== verification/Bodies.thy ===== *)
theory Bodies
  imports Schemas Columns
begin

text \<open>
  The request models of the API as readers of JSON: which bodies FastAPI hands to a route, and as which request. A
  body that is not read is answered with 422. The schemas the contract gives for the same bodies stand beside them.
\<close>

subsection \<open>Fields\<close>

text \<open>
  Pydantic's reading of an integer that is not declared strict, and of a date, which says whether it has an offset;
  whatever they are, texts, numbers and objects are not taken for each other.
\<close>

record pydantic =
  pd_int :: "json \<Rightarrow> int option"
  pd_datetime :: "json \<Rightarrow> (instant \<times> bool) option"

type_synonym 'a reader = "json \<Rightarrow> 'a option"
type_synonym object = "(string \<times> json) list"

definition as_text :: "nat \<Rightarrow> nat option \<Rightarrow> string reader" where
  "as_text lo hi v = (case v of JStr s \<Rightarrow> if bounded_text lo hi s then Some s else None | _ \<Rightarrow> None)"

definition literal :: "(string \<times> 'a) list \<Rightarrow> 'a reader" where
  "literal names v = (case v of JStr s \<Rightarrow> map_of names s | _ \<Rightarrow> None)"

definition or_null :: "'a reader \<Rightarrow> 'a option reader" where
  "or_null r v = (if v = JNull then Some None else map_option Some (r v))"

definition as_object :: "object reader" where
  "as_object v = (case v of JObj kvs \<Rightarrow> Some kvs | _ \<Rightarrow> None)"

text \<open>A field without a default, one with a default, and one that may be omitted.\<close>

definition field :: "string \<Rightarrow> 'a reader \<Rightarrow> object \<Rightarrow> 'a option" where
  "field k r kvs = Option.bind (map_of kvs k) r"

definition field_or :: "string \<Rightarrow> 'a \<Rightarrow> 'a reader \<Rightarrow> object \<Rightarrow> 'a option" where
  "field_or k dflt r kvs = (case map_of kvs k of None \<Rightarrow> Some dflt | Some v \<Rightarrow> r v)"

definition given :: "string \<Rightarrow> 'a reader \<Rightarrow> object \<Rightarrow> 'a option option" where
  "given k r = field_or k None (\<lambda>v. map_option Some (r v))"

text \<open>\<open>extra="forbid"\<close>, and the object a model is read from.\<close>

definition only_fields :: "string list \<Rightarrow> object \<Rightarrow> bool" where
  "only_fields names kvs \<longleftrightarrow> list_all (\<lambda>(k, _). k \<in> set names) kvs"

definition strict_model :: "string list \<Rightarrow> (object \<Rightarrow> 'a option) \<Rightarrow> 'a reader" where
  "strict_model names read v = Option.bind (as_object v) (\<lambda>kvs. if only_fields names kvs then read kvs else None)"

subsection \<open>Identity\<close>

definition read_login :: "(string \<times> string) reader" where
  "read_login = strict_model [''username'', ''password''] (\<lambda>kvs.
     Option.bind (field ''username'' (as_text 1 (Some 255)) kvs) (\<lambda>username.
     Option.bind (field ''password'' (as_text 1 (Some 1024)) kvs) (\<lambda>password. Some (username, password))))"

definition read_password :: "string reader" where
  "read_password = strict_model [''password''] (field ''password'' (as_text 12 (Some 1024)))"

definition role_names :: "(string \<times> principal_role) list" where
  "role_names = [(''Admin'', Admin), (''User'', RegularUser)]"

definition read_principal_create :: "principal_create reader" where
  "read_principal_create = strict_model [''name'', ''display_name'', ''role'', ''password''] (\<lambda>kvs.
     Option.bind (field ''name'' (as_text 1 (Some 255)) kvs) (\<lambda>name.
     Option.bind (field ''display_name'' (as_text 1 (Some 255)) kvs) (\<lambda>display_name.
     Option.bind (field_or ''role'' RegularUser (literal role_names) kvs) (\<lambda>role.
     Option.bind (field_or ''password'' None (or_null (as_text 12 (Some 1024))) kvs) (\<lambda>password.
       Some \<lparr>pn_name = name, pn_display_name = display_name, pn_role = role, pn_password = password\<rparr>)))))"

text \<open>An update takes null for an omitted field (\<open>exclude_none\<close>).\<close>

definition read_principal_update :: "principal_update reader" where
  "read_principal_update = strict_model [''display_name'', ''role''] (\<lambda>kvs.
     Option.bind (field_or ''display_name'' None (or_null (as_text 1 (Some 255))) kvs) (\<lambda>display_name.
     Option.bind (field_or ''role'' None (or_null (literal role_names)) kvs) (\<lambda>role.
       Some \<lparr>pu_display_name = display_name, pu_role = role\<rparr>)))"

text \<open>\<open>require_timezone\<close>.\<close>

definition as_expiry :: "pydantic \<Rightarrow> instant reader" where
  "as_expiry pd v = (case pd_datetime pd v of Some (t, offset) \<Rightarrow> if offset then Some t else None | None \<Rightarrow> None)"

definition read_token_create :: "pydantic \<Rightarrow> token_create reader" where
  "read_token_create pd = strict_model [''name'', ''expires_at''] (\<lambda>kvs.
     Option.bind (field ''name'' (as_text 1 (Some 255)) kvs) (\<lambda>name.
     Option.bind (field_or ''expires_at'' None (or_null (as_expiry pd)) kvs) (\<lambda>expires_at.
       Some \<lparr>tc_name = name, tc_expires_at = expires_at\<rparr>)))"

definition read_group_create :: "group_create reader" where
  "read_group_create = strict_model [''name'', ''description''] (\<lambda>kvs.
     Option.bind (field ''name'' (as_text 1 (Some 255)) kvs) (\<lambda>name.
     Option.bind (field_or ''description'' None (or_null (as_text 0 None)) kvs) (\<lambda>description.
       Some \<lparr>gn_name = name, gn_description = description\<rparr>)))"

definition read_group_update :: "group_update reader" where
  "read_group_update = strict_model [''description''] (given ''description'' (or_null (as_text 0 None)))"

subsection \<open>Catalog and leases\<close>

definition sharing_names :: "(string \<times> sharing_mode) list" where
  "sharing_names = [(''Exclusive'', Exclusive), (''Shared'', Shared)]"

definition visibility_names :: "(string \<times> visibility_mode) list" where
  "visibility_names = [(''Public'', Public), (''Restricted'', Restricted)]"

definition expiration_names :: "(string \<times> expiration_mode) list" where
  "expiration_names = [(''Required'', Required), (''Optional'', Optional)]"

text \<open>\<open>TtlSeconds\<close> is strict: no number with a point, no text, no boolean.\<close>

definition as_ttl :: "int reader" where
  "as_ttl v = (case v of JInt n \<Rightarrow> if 1 \<le> n \<and> n \<le> MAX_TTL_SECONDS then Some n else None | _ \<Rightarrow> None)"

definition as_version :: "pydantic \<Rightarrow> int reader" where
  "as_version pd v = Option.bind (pd_int pd v) (\<lambda>n. if 1 \<le> n then Some n else None)"

definition as_label :: "string \<times> json \<Rightarrow> (string \<times> string) option" where
  "as_label kv = (case snd kv of JStr s \<Rightarrow> Some (fst kv, s) | _ \<Rightarrow> None)"

definition as_labels :: "labels reader" where
  "as_labels v = Option.bind (as_object v) (\<lambda>kvs. Option.bind (those (map as_label kvs)) (\<lambda>ls.
     case validate_labels ls of Inr checked \<Rightarrow> Some checked | Inl _ \<Rightarrow> None))"

definition read_resource_create :: "resource_create reader" where
  "read_resource_create = strict_model [''name'', ''type'', ''sharing_mode'', ''visibility_mode'', ''expiration_mode'',
       ''default_ttl_seconds'', ''max_ttl_seconds'', ''labels''] (\<lambda>kvs.
     Option.bind (field ''name'' (as_text 1 (Some 255)) kvs) (\<lambda>name.
     Option.bind (field ''type'' (as_text 1 (Some 255)) kvs) (\<lambda>type.
     Option.bind (field ''sharing_mode'' (literal sharing_names) kvs) (\<lambda>sharing.
     Option.bind (field_or ''visibility_mode'' Restricted (literal visibility_names) kvs) (\<lambda>visibility.
     Option.bind (field_or ''expiration_mode'' Optional (literal expiration_names) kvs) (\<lambda>expiration.
     Option.bind (field_or ''default_ttl_seconds'' None (or_null as_ttl) kvs) (\<lambda>default_ttl.
     Option.bind (field_or ''max_ttl_seconds'' None (or_null as_ttl) kvs) (\<lambda>max_ttl.
     Option.bind (field_or ''labels'' [] as_labels kvs) (\<lambda>labels.
       case validate_expiration_policy expiration default_ttl max_ttl of
         Inl _ \<Rightarrow> None
       | Inr _ \<Rightarrow> Some \<lparr>rc_name = name, rc_type = type, rc_sharing_mode = sharing, rc_visibility_mode = visibility,
           rc_expiration_mode = expiration, rc_default_ttl = default_ttl, rc_max_ttl = max_ttl,
           rc_labels = labels\<rparr>)))))))))"

text \<open>The validators that reject a null where a field can only be omitted.\<close>

definition no_nulls :: "string list \<Rightarrow> object \<Rightarrow> bool" where
  "no_nulls names kvs \<longleftrightarrow> list_all (\<lambda>k. map_of kvs k \<noteq> Some JNull) names"

definition read_resource_update :: "pydantic \<Rightarrow> resource_update reader" where
  "read_resource_update pd = strict_model [''version'', ''name'', ''type'', ''sharing_mode'', ''visibility_mode'',
       ''expiration_mode'', ''default_ttl_seconds'', ''max_ttl_seconds'', ''labels''] (\<lambda>kvs.
     if \<not> no_nulls [''name'', ''type'', ''sharing_mode'', ''visibility_mode'', ''expiration_mode'', ''labels''] kvs then None
     else
     Option.bind (field ''version'' (as_version pd) kvs) (\<lambda>version.
     Option.bind (field_or ''name'' None (or_null (as_text 1 (Some 255))) kvs) (\<lambda>name.
     Option.bind (field_or ''type'' None (or_null (as_text 1 (Some 255))) kvs) (\<lambda>type.
     Option.bind (field_or ''sharing_mode'' None (or_null (literal sharing_names)) kvs) (\<lambda>sharing.
     Option.bind (field_or ''visibility_mode'' None (or_null (literal visibility_names)) kvs) (\<lambda>visibility.
     Option.bind (field_or ''expiration_mode'' None (or_null (literal expiration_names)) kvs) (\<lambda>expiration.
     Option.bind (given ''default_ttl_seconds'' (or_null as_ttl) kvs) (\<lambda>default_ttl.
     Option.bind (given ''max_ttl_seconds'' (or_null as_ttl) kvs) (\<lambda>max_ttl.
     Option.bind (field_or ''labels'' None (or_null as_labels) kvs) (\<lambda>labels.
       Some \<lparr>ru_version = version, ru_name = name, ru_type = type, ru_sharing_mode = sharing,
         ru_visibility_mode = visibility, ru_expiration_mode = expiration, ru_default_ttl = default_ttl,
         ru_max_ttl = max_ttl, ru_labels = labels\<rparr>))))))))))"

definition read_lease_create :: "lease_create reader" where
  "read_lease_create = strict_model [''resource_type'', ''sharing_mode'', ''labels'', ''ttl_seconds'', ''consumer'',
       ''metadata''] (\<lambda>kvs.
     Option.bind (field ''resource_type'' (as_text 1 (Some 255)) kvs) (\<lambda>type.
     Option.bind (field ''sharing_mode'' (literal sharing_names) kvs) (\<lambda>sharing.
     Option.bind (field_or ''labels'' [] as_labels kvs) (\<lambda>labels.
     Option.bind (given ''ttl_seconds'' (or_null as_ttl) kvs) (\<lambda>ttl.
     Option.bind (field_or ''consumer'' None (or_null (as_text 1 (Some 500))) kvs) (\<lambda>consumer.
     Option.bind (field_or ''metadata'' [] as_object kvs) (\<lambda>metadata.
       Some \<lparr>lc_resource_type = type, lc_sharing_mode = sharing, lc_labels = labels, lc_ttl = ttl,
         lc_consumer = consumer, lc_metadata = metadata\<rparr>)))))))"

definition read_lease_renew :: "int option option reader" where
  "read_lease_renew = strict_model [''ttl_seconds''] (given ''ttl_seconds'' (or_null as_ttl))"

subsection \<open>Secrets\<close>

definition read_managed :: "material reader" where
  "read_managed = strict_model [''mode'', ''value''] (\<lambda>kvs.
     Option.bind (field ''mode'' (literal [(''Managed'', ())]) kvs) (\<lambda>_.
     map_option ManagedMaterial (field ''value'' (as_text 1 (Some 65536)) kvs)))"

definition read_external :: "material reader" where
  "read_external = strict_model [''mode'', ''provider'', ''reference''] (\<lambda>kvs.
     Option.bind (field ''mode'' (literal [(''External'', ())]) kvs) (\<lambda>_.
     Option.bind (field ''provider'' (as_text 1 (Some 255)) kvs) (\<lambda>provider.
     map_option (ExternalMaterial provider) (field ''reference'' (as_text 1 (Some 2048)) kvs))))"

text \<open>The discriminator chooses the model.\<close>

definition as_material :: "material reader" where
  "as_material v = Option.bind (as_object v) (\<lambda>kvs.
     case map_of kvs ''mode'' of
       Some (JStr m) \<Rightarrow> if m = ''Managed'' then read_managed v else if m = ''External'' then read_external v else None
     | _ \<Rightarrow> None)"

definition read_secret_create :: "secret_create reader" where
  "read_secret_create = strict_model [''name'', ''description'', ''material''] (\<lambda>kvs.
     Option.bind (field ''name'' (as_text 1 (Some 255)) kvs) (\<lambda>name.
     Option.bind (field_or ''description'' None (or_null (as_text 0 (Some 1000))) kvs) (\<lambda>description.
     Option.bind (field ''material'' as_material kvs) (\<lambda>material.
       Some \<lparr>sc_name = name, sc_description = description, sc_material = material\<rparr>))))"

definition read_secret_update :: "pydantic \<Rightarrow> secret_update reader" where
  "read_secret_update pd = strict_model [''version'', ''name'', ''description'', ''material''] (\<lambda>kvs.
     if \<not> no_nulls [''name'', ''material''] kvs then None
     else
     Option.bind (field ''version'' (as_version pd) kvs) (\<lambda>version.
     Option.bind (field_or ''name'' None (or_null (as_text 1 (Some 255))) kvs) (\<lambda>name.
     Option.bind (given ''description'' (or_null (as_text 0 (Some 1000))) kvs) (\<lambda>description.
     Option.bind (field_or ''material'' None (or_null as_material) kvs) (\<lambda>material.
       Some \<lparr>su_version = version, su_name = name, su_description = description, su_material = material\<rparr>)))))"

subsection \<open>Bodies against the contract\<close>

datatype body_model =
    LoginRequest
  | PasswordRequest
  | PrincipalCreate
  | PrincipalUpdate
  | TokenCreate
  | GroupCreate
  | GroupUpdate
  | ResourceCreate
  | ResourceUpdate
  | LeaseCreate
  | LeaseRenew
  | ResourceSecretCreate
  | ResourceSecretUpdate

definition accepts :: "pydantic \<Rightarrow> body_model \<Rightarrow> json \<Rightarrow> bool" where
  "accepts pd m v = (case m of
       LoginRequest \<Rightarrow> read_login v \<noteq> None
     | PasswordRequest \<Rightarrow> read_password v \<noteq> None
     | PrincipalCreate \<Rightarrow> read_principal_create v \<noteq> None
     | PrincipalUpdate \<Rightarrow> read_principal_update v \<noteq> None
     | TokenCreate \<Rightarrow> read_token_create pd v \<noteq> None
     | GroupCreate \<Rightarrow> read_group_create v \<noteq> None
     | GroupUpdate \<Rightarrow> read_group_update v \<noteq> None
     | ResourceCreate \<Rightarrow> read_resource_create v \<noteq> None
     | ResourceUpdate \<Rightarrow> read_resource_update pd v \<noteq> None
     | LeaseCreate \<Rightarrow> read_lease_create v \<noteq> None
     | LeaseRenew \<Rightarrow> read_lease_renew v \<noteq> None
     | ResourceSecretCreate \<Rightarrow> read_secret_create v \<noteq> None
     | ResourceSecretUpdate \<Rightarrow> read_secret_update pd v \<noteq> None)"

definition request_schema :: "body_model \<Rightarrow> schema" where
  "request_schema m = (case m of
       LoginRequest \<Rightarrow> LoginRequestSchema
     | PasswordRequest \<Rightarrow> PasswordRequestSchema
     | PrincipalCreate \<Rightarrow> PrincipalCreateSchema
     | PrincipalUpdate \<Rightarrow> PrincipalUpdateSchema
     | TokenCreate \<Rightarrow> TokenCreateSchema
     | GroupCreate \<Rightarrow> GroupCreateSchema
     | GroupUpdate \<Rightarrow> GroupUpdateSchema
     | ResourceCreate \<Rightarrow> ResourceCreateSchema
     | ResourceUpdate \<Rightarrow> ResourceUpdateSchema
     | LeaseCreate \<Rightarrow> LeaseCreateSchema
     | LeaseRenew \<Rightarrow> LeaseRenewSchema
     | ResourceSecretCreate \<Rightarrow> SecretCreateSchema
     | ResourceSecretUpdate \<Rightarrow> SecretUpdateSchema)"

text \<open>
  Values which Pydantic and JSON Schema take alike. Elsewhere they differ: a version may be the text of a number, a
  duration may not be written with a fraction of zero, and an expiry may be any form of date Pydantic knows.
\<close>

definition plain :: "pydantic \<Rightarrow> formats \<Rightarrow> object \<Rightarrow> bool" where
  "plain pd fm kvs \<longleftrightarrow>
     (\<forall>(k, v) \<in> set kvs.
        (k = ''version'' \<longrightarrow> pd_int pd v = (case v of JInt n \<Rightarrow> Some n | _ \<Rightarrow> None) \<and> (\<forall>s. v \<noteq> JFloat s)) \<and>
        (k \<in> {''ttl_seconds'', ''default_ttl_seconds'', ''max_ttl_seconds''} \<longrightarrow> (\<forall>s. v \<noteq> JFloat s)) \<and>
        (k = ''expires_at'' \<longrightarrow>
           (\<exists>t. pd_datetime pd v = Some (t, True)) \<longleftrightarrow> (case v of JStr s \<Rightarrow> fm_is_time fm s | _ \<Rightarrow> False)))"

text \<open>What the schema of a new resource cannot express: its expiration policy.\<close>

definition mode_in :: "object \<Rightarrow> expiration_mode" where
  "mode_in kvs = (if map_of kvs ''expiration_mode'' = Some (JStr ''Required'') then Required else Optional)"

definition ttl_in :: "string \<Rightarrow> object \<Rightarrow> int option" where
  "ttl_in k kvs = (case map_of kvs k of Some (JInt n) \<Rightarrow> Some n | _ \<Rightarrow> None)"

definition coherent :: "body_model \<Rightarrow> object \<Rightarrow> bool" where
  "coherent m kvs \<longleftrightarrow> (m = ResourceCreate \<longrightarrow>
     validate_expiration_policy (mode_in kvs) (ttl_in ''default_ttl_seconds'' kvs) (ttl_in ''max_ttl_seconds'' kvs) = Inr ())"

text \<open>The calls whose request body is \<open>v\<close>; the others have none.\<close>

definition carries :: "pydantic \<Rightarrow> call \<Rightarrow> json \<Rightarrow> bool" where
  "carries pd call v \<longleftrightarrow> (case call of
       Identity (Login cx_limit app_now i random username password) \<Rightarrow> read_login v = Some (username, password)
     | Identity (CreateUser i hashed rq) \<Rightarrow> read_principal_create v = Some rq
     | Identity (UpdateUser i rq) \<Rightarrow> read_principal_update v = Some rq
     | Identity (ResetUserPassword i hashed) \<Rightarrow> read_password v \<noteq> None
     | Identity (CreateService i hashed rq) \<Rightarrow> read_principal_create v = Some rq
     | Identity (UpdateService i rq) \<Rightarrow> read_principal_update v = Some rq
     | Identity (CreateServiceToken app_now i random pid rq) \<Rightarrow> read_token_create pd v = Some rq
     | Identity (ChangeMyPassword hashed) \<Rightarrow> read_password v \<noteq> None
     | Identity (CreateMyToken app_now i random rq) \<Rightarrow> read_token_create pd v = Some rq
     | Identity (CreateGroup i rq) \<Rightarrow> read_group_create v = Some rq
     | Identity (UpdateGroup i rq) \<Rightarrow> read_group_update v = Some rq
     | Catalog (CreateResource i rq) \<Rightarrow> read_resource_create v = Some rq
     | Catalog (UpdateCatalog i rq) \<Rightarrow> read_resource_update pd v = Some rq
     | Leases (Acquire app_now i rq key) \<Rightarrow> read_lease_create v = Some rq
     | Leases (Renew checked_at app_now i ttl) \<Rightarrow> read_lease_renew v = Some ttl
     | Secrets (CreateSecret i nonce rid rq) \<Rightarrow> read_secret_create v = Some rq
     | Secrets (UpdateSecret nonce rid i rq) \<Rightarrow> read_secret_update pd v = Some rq
     | _ \<Rightarrow> True)"

text \<open>What the routes declare of the other parameters: the idempotency key and the bounds of a page.\<close>

definition parameters_ok :: "call \<Rightarrow> bool" where
  "parameters_ok call = (case call of
       Catalog (ListCatalog labels q) \<Rightarrow> page_bounds (rq_offset q) (rq_limit q)
     | Leases (ListLeases q) \<Rightarrow> page_bounds (lq_offset q) (lq_limit q)
     | Leases (Acquire app_now i rq key) \<Rightarrow> validate_idempotency_key key = Inr ()
     | _ \<Rightarrow> True)"

end
