(* ===== verification/Bodies_Laws.thy ===== *)
theory Bodies_Laws
  imports Bodies
begin

text \<open>
  FastAPI accepts exactly the bodies that conform to the contract, and what it hands to the routes is validated in the
  sense the rest of the development assumes.
\<close>

subsection \<open>Fields and properties\<close>

text \<open>The value of a field, where there is one, is read; it conforms.\<close>

definition readable :: "string \<Rightarrow> 'a reader \<Rightarrow> object \<Rightarrow> bool" where
  "readable k r kvs \<longleftrightarrow> (\<forall>v. map_of kvs k = Some v \<longrightarrow> r v \<noteq> None)"

definition holds :: "formats \<Rightarrow> string \<Rightarrow> schema \<Rightarrow> object \<Rightarrow> bool" where
  "holds fm k s kvs \<longleftrightarrow> (\<forall>v. map_of kvs k = Some v \<longrightarrow> conforms fm s v)"

lemma field_None [simp]:
  "field k r kvs = None \<longleftrightarrow> map_of kvs k = None \<or> \<not> readable k r kvs"
  "field_or k d r kvs = None \<longleftrightarrow> \<not> readable k r kvs"
  "given k r kvs = None \<longleftrightarrow> \<not> readable k r kvs"
  by (cases "map_of kvs k"; auto simp: field_def field_or_def given_def readable_def)+

lemma readable_or_null: "readable k (or_null r) kvs \<longleftrightarrow> map_of kvs k = Some JNull \<or> readable k r kvs"
  by (auto simp: readable_def or_null_def)

lemma holds_Nullable: "holds fm k (Nullable s) kvs \<longleftrightarrow> map_of kvs k = Some JNull \<or> holds fm k s kvs"
  by (auto simp: holds_def)

lemma record_conforms:
  "conforms fm (Record props required) (JObj kvs) \<longleftrightarrow>
     only_fields (map fst props) kvs \<and> list_all (\<lambda>k. map_of kvs k \<noteq> None) required \<and>
     list_all (\<lambda>(k, s). holds fm k s kvs) props"
  by (auto simp: only_fields_def holds_def list_all_iff map_of_eq_None_iff split: option.splits)

lemma strict_model_None [simp]:
  "strict_model names f (JObj kvs) = None \<longleftrightarrow> \<not> only_fields names kvs \<or> f kvs = None"
  by (simp add: strict_model_def as_object_def)

named_theorems agrees \<open>a property holds when its field is read\<close>

lemma holds_leaf [agrees]:
  "holds fm k (Text lo hi) kvs \<longleftrightarrow> readable k (as_text lo hi) kvs"
  "holds fm k AnyObject kvs \<longleftrightarrow> readable k as_object kvs"
  "holds fm k SharingMode kvs \<longleftrightarrow> readable k (literal sharing_names) kvs"
  "holds fm k VisibilityMode kvs \<longleftrightarrow> readable k (literal visibility_names) kvs"
  "holds fm k ExpirationMode kvs \<longleftrightarrow> readable k (literal expiration_names) kvs"
  "holds fm k (Enum [''Admin'', ''User'']) kvs \<longleftrightarrow> readable k (literal role_names) kvs"
  by (auto simp: holds_def readable_def as_text_def as_object_def literal_def SharingMode_def sharing_names_def
      VisibilityMode_def visibility_names_def ExpirationMode_def expiration_names_def role_names_def split: json.splits)

lemma validate_labels_iff:
  "validate_labels ls = Inr ls \<longleftrightarrow> length ls \<le> 64 \<and> list_all (\<lambda>(k, v). text_ok 1 128 k \<and> length v \<le> 255) ls"
proof -
  have "list_all (\<lambda>(k, v). text_ok 1 128 k \<and> length v \<le> 255) ls \<longleftrightarrow>
      \<not> list_ex (\<lambda>(k, v). k = [] \<or> length k > 128) ls \<and> \<not> list_ex (\<lambda>(k, v). length v > 255) ls"
    by (induction ls) (auto simp: text_ok_def Suc_le_eq not_less)
  then show ?thesis by (simp add: validate_labels_def not_less)
qed

lemma validate_labels_same: "validate_labels ls = Inr x \<Longrightarrow> x = ls"
  by (simp add: validate_labels_def split: if_splits)

lemma labels_reader: "conforms fm Labels v \<longleftrightarrow> as_labels v \<noteq> None"
proof (cases "\<exists>kvs. v = JObj kvs")
  case True
  then obtain kvs where v: "v = JObj kvs" ..
  show ?thesis
  proof (cases "those (map as_label kvs)")
    case None
    then have "\<exists>kv \<in> set kvs. as_label kv = None" by (induction kvs) (auto split: option.splits)
    then obtain k w where kv: "(k, w) \<in> set kvs" "as_label (k, w) = None" by auto
    then have "\<not> conforms fm Labels v"
      by (cases w) (auto simp: v Labels_def list_all_iff as_label_def intro!: bexI [OF _ kv(1)])
    with None show ?thesis by (simp add: v as_labels_def as_object_def)
  next
    case (Some ls)
    then have kvs: "kvs = map (\<lambda>(k, s). (k, JStr s)) ls"
      by (induction kvs arbitrary: ls) (auto simp: as_label_def split: option.splits json.splits)
    have "conforms fm Labels v \<longleftrightarrow> length ls \<le> 64 \<and> list_all (\<lambda>(k, s). text_ok 1 128 k \<and> length s \<le> 255) ls"
      by (simp add: v kvs Labels_def list.pred_map comp_def split_def)
    also have "\<dots> \<longleftrightarrow> as_labels v \<noteq> None"
      using Some validate_labels_iff [of ls] validate_labels_same [of ls] by (cases "validate_labels ls") (auto simp: v as_labels_def as_object_def)
    finally show ?thesis .
  qed
next
  case False
  then show ?thesis by (cases v) (simp_all add: Labels_def as_labels_def as_object_def)
qed

lemma holds_labels [agrees]: "holds fm k Labels kvs \<longleftrightarrow> readable k as_labels kvs"
  by (simp add: holds_def readable_def labels_reader)

lemma plainD:
  assumes "plain pd fm kvs" and "map_of kvs k = Some v"
  shows "k = ''version'' \<Longrightarrow> pd_int pd v = (case v of JInt n \<Rightarrow> Some n | _ \<Rightarrow> None) \<and> (\<forall>s. v \<noteq> JFloat s)"
    and "k \<in> {''ttl_seconds'', ''default_ttl_seconds'', ''max_ttl_seconds''} \<Longrightarrow> \<forall>s. v \<noteq> JFloat s"
    and "k = ''expires_at'' \<Longrightarrow> (\<exists>t. pd_datetime pd v = Some (t, True)) \<longleftrightarrow> (case v of JStr s \<Rightarrow> fm_is_time fm s | _ \<Rightarrow> False)"
  using bspec [OF assms(1) [unfolded plain_def] map_of_SomeD [OF assms(2)]] by (simp_all only: prod.case) blast+

lemma holds_ttl [agrees]:
  assumes "plain pd fm kvs" and "k \<in> {''ttl_seconds'', ''default_ttl_seconds'', ''max_ttl_seconds''}"
  shows "holds fm k Ttl kvs \<longleftrightarrow> map_of kvs k = Some JNull \<or> readable k as_ttl kvs"
  using plainD(2) [OF assms(1) _ assms(2)]
  by (auto simp: Ttl_def holds_def readable_def as_ttl_def MAX_TTL_SECONDS_def opt_ok_def split: json.splits)

lemma holds_version [agrees]:
  assumes "plain pd fm kvs"
  shows "holds fm ''version'' (Integer 1 None) kvs \<longleftrightarrow> readable ''version'' (as_version pd) kvs"
  using plainD(1) [OF assms]
  by (auto simp: holds_def readable_def as_version_def opt_ok_def split: json.splits)

lemma holds_expiry [agrees]:
  assumes "plain pd fm kvs"
  shows "holds fm ''expires_at'' DateTime kvs \<longleftrightarrow> readable ''expires_at'' (as_expiry pd) kvs"
proof -
  have "as_expiry pd v \<noteq> None \<longleftrightarrow> (\<exists>t. pd_datetime pd v = Some (t, True))" for v
    by (auto simp: as_expiry_def split: option.splits if_splits)
  then show ?thesis using plainD(3) [OF assms] by (auto simp: holds_def readable_def)
qed

lemma mode_agrees: "holds fm k (Enum [n]) kvs \<longleftrightarrow> readable k (literal [(n, ())]) kvs"
  by (auto simp: holds_def readable_def literal_def split: json.splits)

lemma managed_reader: "conforms fm ManagedSecretMaterial (JObj kvs) \<longleftrightarrow> read_managed (JObj kvs) \<noteq> None"
  unfolding ManagedSecretMaterial_def strict_def record_conforms
  by (auto simp: agrees mode_agrees read_managed_def bind_eq_None_conv)

lemma external_reader: "conforms fm ExternalSecretMaterial (JObj kvs) \<longleftrightarrow> read_external (JObj kvs) \<noteq> None"
  unfolding ExternalSecretMaterial_def strict_def record_conforms
  by (auto simp: agrees mode_agrees read_external_def bind_eq_None_conv)

lemma literal_value: "map_of kvs k \<noteq> None \<Longrightarrow> readable k (literal [(n, ())]) kvs \<Longrightarrow> map_of kvs k = Some (JStr n)"
  unfolding readable_def literal_def by (cases "the (map_of kvs k)") (auto split: if_splits)

lemma material_mode:
  "read_managed (JObj kvs) \<noteq> None \<Longrightarrow> map_of kvs ''mode'' = Some (JStr ''Managed'')"
  "read_external (JObj kvs) \<noteq> None \<Longrightarrow> map_of kvs ''mode'' = Some (JStr ''External'')"
  by (rule literal_value; simp add: read_managed_def read_external_def bind_eq_None_conv)+

lemma material_reader: "conforms fm SecretMaterial v \<longleftrightarrow> as_material v \<noteq> None"
proof (cases "\<exists>kvs. v = JObj kvs")
  case True
  then obtain kvs where v: "v = JObj kvs" ..
  have "conforms fm SecretMaterial v \<longleftrightarrow> (read_managed v \<noteq> None) \<noteq> (read_external v \<noteq> None)"
    unfolding SecretMaterial_def conforms.simps v managed_reader external_reader ..
  also have "\<dots> \<longleftrightarrow> as_material v \<noteq> None"
    using material_mode [of kvs] unfolding v as_material_def as_object_def
    by (cases "read_managed (JObj kvs) = None"; cases "read_external (JObj kvs) = None")
      (auto split: option.splits json.splits)
  finally show ?thesis .
next
  case False
  then show ?thesis
    by (cases v) (simp_all add: SecretMaterial_def ManagedSecretMaterial_def ExternalSecretMaterial_def strict_def
      as_material_def as_object_def)
qed

lemma holds_material [agrees]: "holds fm k SecretMaterial kvs \<longleftrightarrow> readable k as_material kvs"
  by (simp add: holds_def readable_def material_reader)

subsection \<open>Models\<close>

text \<open>A field that is read is not null, unless it may be.\<close>

lemma readable_not_null:
  "readable k r kvs \<Longrightarrow> r JNull = None \<Longrightarrow> map_of kvs k \<noteq> Some JNull"
  by (auto simp: readable_def)

lemma null_not_read [simp]: "as_text lo hi JNull = None" "literal names JNull = None" "as_labels JNull = None" "as_material JNull = None"
  by (simp_all add: as_text_def literal_def as_labels_def as_material_def as_object_def)

lemma nulls:
  "readable k (as_text lo hi) kvs \<Longrightarrow> map_of kvs k \<noteq> Some JNull"
  "readable k (literal names) kvs \<Longrightarrow> map_of kvs k \<noteq> Some JNull"
  "readable k as_labels kvs \<Longrightarrow> map_of kvs k \<noteq> Some JNull"
  "readable k as_material kvs \<Longrightarrow> map_of kvs k \<noteq> Some JNull"
  by (erule readable_not_null, simp)+

lemmas body_schemas =
  LoginRequestSchema_def PasswordRequestSchema_def PrincipalCreateSchema_def PrincipalUpdateSchema_def
  TokenCreateSchema_def GroupCreateSchema_def GroupUpdateSchema_def ResourceCreateSchema_def ResourceUpdateSchema_def
  LeaseCreateSchema_def LeaseRenewSchema_def SecretCreateSchema_def SecretUpdateSchema_def strict_def

lemmas body_readers =
  read_login_def read_password_def read_principal_create_def read_principal_update_def read_token_create_def
  read_group_create_def read_group_update_def read_resource_update_def
  read_lease_create_def read_lease_renew_def read_secret_create_def read_secret_update_def

lemma guarded_None: "(if b then None else x) = None \<longleftrightarrow> b \<or> x = None"
  by simp

lemma resource_update_agrees:
  assumes "plain pd fm kvs"
  shows "read_resource_update pd (JObj kvs) \<noteq> None \<longleftrightarrow> conforms fm ResourceUpdateSchema (JObj kvs)"
  unfolding body_schemas record_conforms body_readers no_nulls_def
  by (simp add: guarded_None agrees bind_eq_None_conv holds_Nullable readable_or_null holds_version [OF assms]
      holds_ttl [OF assms] del: not_None_eq split del: if_split)
    (blast dest: nulls)

lemma secret_update_agrees:
  assumes "plain pd fm kvs"
  shows "read_secret_update pd (JObj kvs) \<noteq> None \<longleftrightarrow> conforms fm SecretUpdateSchema (JObj kvs)"
  unfolding body_schemas record_conforms body_readers no_nulls_def
  by (simp add: guarded_None agrees bind_eq_None_conv holds_Nullable readable_or_null holds_version [OF assms]
      del: not_None_eq split del: if_split) (blast dest: nulls)

lemma ttl_field: "field_or k None (or_null as_ttl) kvs = Some t \<Longrightarrow> t = ttl_in k kvs"
  by (auto simp: field_or_def or_null_def as_ttl_def ttl_in_def split: option.splits if_splits json.splits)

lemma mode_field: "field_or ''expiration_mode'' Optional (literal expiration_names) kvs = Some m \<Longrightarrow> m = mode_in kvs"
  by (auto simp: field_or_def literal_def expiration_names_def mode_in_def split: option.splits if_splits json.splits)

lemma resource_create_agrees:
  assumes "plain pd fm kvs"
  shows "read_resource_create (JObj kvs) \<noteq> None \<longleftrightarrow>
    conforms fm ResourceCreateSchema (JObj kvs) \<and> coherent ResourceCreate kvs"
proof -
  let ?policy = "validate_expiration_policy (mode_in kvs) (ttl_in ''default_ttl_seconds'' kvs) (ttl_in ''max_ttl_seconds'' kvs)"
  have policy: "validate_expiration_policy (the (field_or ''expiration_mode'' Optional (literal expiration_names) kvs))
      (the (field_or ''default_ttl_seconds'' None (or_null as_ttl) kvs)) (the (field_or ''max_ttl_seconds'' None (or_null as_ttl) kvs)) =
      ?policy"
    if "readable ''expiration_mode'' (literal expiration_names) kvs" "readable ''default_ttl_seconds'' (or_null as_ttl) kvs"
      "readable ''max_ttl_seconds'' (or_null as_ttl) kvs"
    using that field_None(2) [of _ _ _ kvs] by (metis mode_field ttl_field option.collapse)
  have ttl: "holds fm k Ttl kvs \<longleftrightarrow> readable k (or_null as_ttl) kvs"
    if "k \<in> {''ttl_seconds'', ''default_ttl_seconds'', ''max_ttl_seconds''}" for k
    using holds_ttl [OF assms that] by (simp add: readable_or_null)
  have unit: "(case ?policy of Inl _ \<Rightarrow> None | Inr _ \<Rightarrow> Some x) = None \<longleftrightarrow> ?policy \<noteq> Inr ()" for x :: 'a
    by (cases ?policy) simp_all
  show ?thesis
    unfolding body_schemas record_conforms read_resource_create_def
    by (simp add: agrees ttl bind_eq_None_conv coherent_def policy unit cong: conj_cong) blast
qed

lemma bodies_agree:
  assumes "plain pd fm kvs"
  shows "accepts pd m (JObj kvs) \<longleftrightarrow> conforms fm (request_schema m) (JObj kvs) \<and> coherent m kvs"
proof (cases "m \<in> {ResourceCreate, ResourceUpdate, ResourceSecretUpdate}")
  case True
  then show ?thesis
    using resource_create_agrees [OF assms] resource_update_agrees [OF assms] secret_update_agrees [OF assms]
    by (auto simp: accepts_def request_schema_def coherent_def)
next
  case False
  then show ?thesis
    unfolding accepts_def request_schema_def coherent_def
    by (cases m) (simp_all only: body_model.case body_schemas record_conforms body_readers,
      (simp add: agrees bind_eq_None_conv holds_Nullable readable_or_null holds_ttl [OF assms] holds_expiry [OF assms]; blast?)+)
qed

text \<open>
  C15: FastAPI accepts exactly the bodies the published contract allows: for each of the thirteen request models, a JSON
  value is read as a request if and only if it conforms to the schema the contract gives for it and, where a resource is
  created, its expiration policy is coherent. Extra properties, missing ones, nulls, lengths, names and bounds are all
  decided alike. The value is one that Pydantic and JSON Schema take alike where they differ by design: versions and
  durations are written as integers and a date has the form of RFC 3339.
\<close>

theorem bodies_follow_contract:
  assumes "case v of JObj kvs \<Rightarrow> plain pd fm kvs | _ \<Rightarrow> True"
  shows "accepts pd m v \<longleftrightarrow>
    conforms fm (request_schema m) v \<and> (case v of JObj kvs \<Rightarrow> coherent m kvs | _ \<Rightarrow> True)"
proof (cases "\<exists>kvs. v = JObj kvs")
  case True
  with assms bodies_agree show ?thesis by auto
next
  case False
  then have "as_object v = None" by (cases v) (simp_all add: as_object_def)
  then have "strict_model names f v = None" for names and f :: "object \<Rightarrow> 'a option"
    by (simp add: strict_model_def)
  then have "\<not> accepts pd m v"
    by (cases m) (simp_all add: accepts_def strict_model_def body_readers read_resource_create_def \<open>as_object v = None\<close>)
  moreover have "\<not> conforms fm (request_schema m) v"
    using False by (cases m; cases v) (simp_all add: request_schema_def body_schemas)
  ultimately show ?thesis by simp
qed

subsection \<open>What is read is valid\<close>

lemma strict_model_Some: "strict_model names f v = Some x \<Longrightarrow> \<exists>kvs. v = JObj kvs \<and> f kvs = Some x"
  by (auto simp: strict_model_def as_object_def bind_eq_Some_conv split: json.splits if_splits)

lemma text_Some: "as_text lo hi v = Some s \<Longrightarrow> bounded_text lo hi s"
  by (auto simp: as_text_def split: json.splits if_splits)

lemma bounded_text_ok: "bounded_text lo (Some hi) s \<longleftrightarrow> text_ok lo hi s"
  by (simp add: bounded_text_def text_ok_def opt_ok_def)

lemma field_Some:
  "field k r kvs = Some x \<Longrightarrow> (\<And>v. r v = Some x \<Longrightarrow> P x) \<Longrightarrow> P x"
  "field_or k d r kvs = Some x \<Longrightarrow> P d \<Longrightarrow> (\<And>v. r v = Some x \<Longrightarrow> P x) \<Longrightarrow> P x"
  by (auto simp: field_def field_or_def bind_eq_Some_conv split: option.splits)

lemma or_null_Some: "or_null r v = Some x \<Longrightarrow> (\<And>y. r v = Some y \<Longrightarrow> P y) \<Longrightarrow> opt_ok P x"
  by (auto simp: or_null_def opt_ok_def split: if_splits)

lemma read_text:
  "field k (as_text lo (Some hi)) kvs = Some s \<Longrightarrow> text_ok lo hi s"
  "field_or k None (or_null (as_text lo (Some hi))) kvs = Some x \<Longrightarrow> opt_ok (text_ok lo hi) x"
  by (erule field_Some; auto simp: opt_ok_def or_null_def bounded_text_ok split: if_splits option.splits dest: text_Some)+

lemma given_Some: "given k (or_null r) kvs = Some x \<Longrightarrow> (\<And>v y. r v = Some y \<Longrightarrow> P y) \<Longrightarrow> opt_ok (opt_ok P) x"
  by (auto simp: given_def field_or_def or_null_def opt_ok_def split: option.splits if_splits)

lemma read_given_text:
  "given k (or_null (as_text lo (Some hi))) kvs = Some x \<Longrightarrow> opt_ok (opt_ok (text_ok lo hi)) x"
  by (erule given_Some) (auto simp: bounded_text_ok dest: text_Some)

lemma ttl_Some: "as_ttl v = Some n \<Longrightarrow> 1 \<le> n \<and> n \<le> MAX_TTL_SECONDS"
  by (auto simp: as_ttl_def split: json.splits if_splits)

lemma read_ttl:
  "field_or k None (or_null as_ttl) kvs = Some x \<Longrightarrow> ttl_seconds_ok x"
  "given k (or_null as_ttl) kvs = Some y \<Longrightarrow> opt_ok ttl_seconds_ok y \<and> ttl_seconds_ok (supplied_ttl y)"
  by (auto simp: field_or_def given_def or_null_def ttl_seconds_ok_def opt_ok_def supplied_ttl_def split: option.splits if_splits
      dest: ttl_Some)

lemma read_version: "field ''version'' (as_version pd) kvs = Some n \<Longrightarrow> 1 \<le> n"
  by (auto simp: field_def as_version_def bind_eq_Some_conv split: if_splits)

lemma checked_Some: "(case r of Inl e \<Rightarrow> None | Inr u \<Rightarrow> Some (f u)) = Some x \<longleftrightarrow> (\<exists>u. r = Inr u \<and> x = f u)"
  by (auto split: sum.split)

lemma labels_Some: "as_labels v = Some ls \<Longrightarrow> validate_labels ls = Inr ls"
  unfolding as_labels_def checked_Some by (auto simp: bind_eq_Some_conv checked_Some dest: validate_labels_same)

lemma read_labels:
  "field_or ''labels'' [] as_labels kvs = Some ls \<Longrightarrow> validate_labels ls = Inr ls"
  "field_or ''labels'' None (or_null as_labels) kvs = Some x \<Longrightarrow> opt_ok (\<lambda>ls. validate_labels ls = Inr ls) x"
  by (auto simp: field_or_def or_null_def opt_ok_def split: option.splits if_splits dest: labels_Some)
    (simp add: validate_labels_def)

lemma bindO: "Option.bind a f = Some y \<Longrightarrow> (\<And>x. a = Some x \<Longrightarrow> f x = Some y \<Longrightarrow> P) \<Longrightarrow> P"
  by (auto simp: bind_eq_Some_conv)

lemma guardO: "(if b then None else x) = Some y \<Longrightarrow> (x = Some y \<Longrightarrow> P) \<Longrightarrow> P"
  by (simp split: if_splits)

lemma managed_Some: "read_managed v = Some m \<Longrightarrow> material_ok m"
  unfolding read_managed_def
  by (drule strict_model_Some) (auto elim!: bindO simp: material_ok_def dest!: read_text(1))

lemma external_Some: "read_external v = Some m \<Longrightarrow> material_ok m"
  unfolding read_external_def
  by (drule strict_model_Some) (auto elim!: bindO simp: material_ok_def dest!: read_text(1))

lemma material_Some:
  assumes "as_material v = Some m"
  shows "material_ok m"
proof -
  have "read_managed v = Some m \<or> read_external v = Some m"
    using assms unfolding as_material_def by (elim bindO) (simp split: option.splits json.splits if_splits)
  then show ?thesis using managed_Some external_Some by blast
qed

lemma read_material:
  "field ''material'' as_material kvs = Some m \<Longrightarrow> material_ok m"
  "field_or ''material'' None (or_null as_material) kvs = Some x \<Longrightarrow> opt_ok material_ok x"
  by (auto simp: field_def field_or_def or_null_def opt_ok_def bind_eq_Some_conv split: option.splits if_splits dest: material_Some)

lemmas read_facts =
  read_text read_given_text read_ttl read_version read_labels read_material

lemma read_principal_create_valid: "read_principal_create v = Some rq \<Longrightarrow> validate_principal_create rq = Inr rq"
  unfolding read_principal_create_def
  by (drule strict_model_Some) (auto elim!: bindO simp: validate_principal_create_def check_fields_def dest!: read_facts)

lemma read_principal_update_valid: "read_principal_update v = Some rq \<Longrightarrow> validate_principal_update rq = Inr rq"
  unfolding read_principal_update_def
  by (drule strict_model_Some) (auto elim!: bindO simp: validate_principal_update_def check_fields_def dest!: read_facts)

lemma read_token_create_valid: "read_token_create pd v = Some rq \<Longrightarrow> validate_token_create rq = Inr rq"
  unfolding read_token_create_def
  by (drule strict_model_Some) (auto elim!: bindO simp: validate_token_create_def check_fields_def dest!: read_facts)

lemma read_group_create_valid: "read_group_create v = Some rq \<Longrightarrow> validate_group_create rq = Inr rq"
  unfolding read_group_create_def
  by (drule strict_model_Some) (auto elim!: bindO simp: validate_group_create_def check_fields_def dest!: read_facts)

lemma read_lease_create_valid: "read_lease_create v = Some rq \<Longrightarrow> validate_lease_create rq = Inr rq"
  unfolding read_lease_create_def
  by (drule strict_model_Some) (auto elim!: bindO simp: validate_lease_create_def check_fields_def dest!: read_facts)

lemma read_secret_create_valid: "read_secret_create v = Some rq \<Longrightarrow> validate_secret_create rq = Inr rq"
  unfolding read_secret_create_def
  by (drule strict_model_Some) (auto elim!: bindO simp: validate_secret_create_def check_fields_def dest!: read_facts)

lemma read_secret_update_valid: "read_secret_update pd v = Some rq \<Longrightarrow> validate_secret_update rq = Inr rq"
  unfolding read_secret_update_def
  by (drule strict_model_Some) (auto elim!: bindO guardO simp: validate_secret_update_def check_fields_def dest!: read_facts)

lemma read_resource_update_valid:
  assumes "read_resource_update pd v = Some rq"
  shows "validate_resource_update rq = Inr rq"
proof -
  have "1 \<le> ru_version rq \<and> opt_ok (text_ok 1 255) (ru_name rq) \<and> opt_ok (text_ok 1 255) (ru_type rq) \<and>
      opt_ok ttl_seconds_ok (ru_default_ttl rq) \<and> opt_ok ttl_seconds_ok (ru_max_ttl rq) \<and>
      opt_ok (\<lambda>ls. validate_labels ls = Inr ls) (ru_labels rq)"
    using strict_model_Some [OF assms [unfolded read_resource_update_def]]
    by (auto elim!: bindO guardO dest!: read_facts)
  then show ?thesis
    by (cases "ru_labels rq") (simp_all add: validate_resource_update_def check_fields_def opt_ok_def)
qed

lemmas read_valid =
  read_principal_create_valid read_principal_update_valid read_token_create_valid read_group_create_valid
  read_lease_create_valid read_secret_create_valid read_secret_update_valid read_resource_update_valid

lemma read_resource_create_valid:
  assumes "read_resource_create v = Some rc"
  shows "validate_resource_create rc = Inr rc"
proof -
  obtain kvs name type sharing visibility expiration d m ls u where
    f: "field ''name'' (as_text 1 (Some 255)) kvs = Some name" "field ''type'' (as_text 1 (Some 255)) kvs = Some type"
      "field_or ''default_ttl_seconds'' None (or_null as_ttl) kvs = Some d"
      "field_or ''max_ttl_seconds'' None (or_null as_ttl) kvs = Some m" "field_or ''labels'' [] as_labels kvs = Some ls"
    and policy: "validate_expiration_policy expiration d m = Inr u"
    and rc: "rc = \<lparr>rc_name = name, rc_type = type, rc_sharing_mode = sharing, rc_visibility_mode = visibility,
      rc_expiration_mode = expiration, rc_default_ttl = d, rc_max_ttl = m, rc_labels = ls\<rparr>"
    using strict_model_Some [OF assms [unfolded read_resource_create_def]]
    unfolding bind_eq_Some_conv checked_Some by blast
  show ?thesis
    using f(1,2) [THEN read_text(1)] f(3,4) [THEN read_ttl(1)] read_labels(1) [OF f(5)] policy
    by (simp add: rc validate_resource_create_def check_fields_def)
qed

lemma carried_bodies_are_validated:
  assumes "carries pd call v" and "parameters_ok call"
  shows "validated call"
  using assms unfolding carries_def parameters_ok_def validated_def
  by (auto split: call.splits identity_call.splits catalog_call.splits lease_call.splits secret_call.splits
      dest: read_valid read_resource_create_valid)

end
