(* ===== verification/Schemas_Demo.thy ===== *)
theory Schemas_Demo
  imports Schemas_Laws Bodies_Laws Columns_Demo Json_Roundtrip
begin

text \<open>
  An acquisition whose answer conforms, under instants written as numbers and durations in the notation with an
  exponent; and the answer that does not conform, to a request right after an acquisition by a clock that is ahead.
\<close>

definition read_int :: "string \<Rightarrow> int" where
  "read_int s = (case s of
       [] \<Rightarrow> 0
     | c # ds \<Rightarrow> if c = CHR ''-'' then - digits_value ds else digits_value s)"

definition toy_formats :: formats where
  "toy_formats = \<lparr>fm_time = dec_int, fm_is_time = (\<lambda>s. s \<noteq> []), fm_seconds = (\<lambda>us. dec_int us @ ''e-6''),
     fm_number = (\<lambda>s. of_int (read_int (take (length s - 3) s)) / 1000000)\<rparr>"

lemma dec_int_nonempty: "dec_int i \<noteq> []"
  by (auto simp: dec_int_def)

lemma read_dec_int: "read_int (dec_int i) = i"
proof (cases "i < 0")
  case False
  obtain c cs where c: "dec_nat (nat i) = c # cs" by (cases "dec_nat (nat i)") auto
  with False dec_nat_no_minus [OF c] digits_value_dec_nat [of "nat i"] show ?thesis
    by (simp add: read_int_def dec_int_def)
qed (simp add: read_int_def dec_int_def digits_value_dec_nat)

lemma toy_formats_ok: "formats_ok toy_formats"
  by (simp add: formats_ok_def toy_formats_def dec_int_nonempty read_dec_int)

definition acquire_call :: call where
  "acquire_call = Leases (Acquire 5 lease_id want_box ''k'')"


text \<open>
  The duration of a lease is the time of the transaction of the database less the time of the application at which
  the lease was acquired: in a transaction that began before, it is negative, and the contract promises at least zero.
\<close>

lemma negative_does_not_conform:
  assumes "formats_ok fm" and "lr_duration l < 0"
  shows "\<not> conforms fm LeaseSchema (lease_json fm l)"
proof
  assume c: "conforms fm LeaseSchema (lease_json fm l)"
  have "map_of [(''id'', uuid_json (lr_id l)), (''resource'', resource_json fm (lr_resource l)),
      (''acquired_by'', uuid_json (lr_acquired_by l)), (''consumer'', opt_json JStr (lr_consumer l)),
      (''state'', JStr (lease_state_name (lr_state l))), (''acquired_at'', time_json fm (lr_acquired_at l)),
      (''expires_at'', opt_json (time_json fm) (lr_expires_at l)),
      (''last_renewed_at'', opt_json (time_json fm) (lr_last_renewed_at l)),
      (''ended_at'', opt_json (time_json fm) (lr_ended_at l)),
      (''end_reason'', opt_json (\<lambda>r. JStr (end_reason_name r)) (lr_end_reason l)),
      (''duration_seconds'', JFloat (fm_seconds fm (lr_duration l))), (''metadata'', JObj (lr_metadata l))] ''duration_seconds'' =
    Some (JFloat (fm_seconds fm (lr_duration l)))"
    by simp
  with c have "conforms fm (Number 0) (JFloat (fm_seconds fm (lr_duration l)))"
    unfolding LeaseSchema_def lease_json_def strict_def by simp
  moreover have "fm_number fm (fm_seconds fm (lr_duration l)) < 0"
    using assms unfolding formats_ok_def by blast
  ultimately show False by simp
qed

lemma negative_duration:
  "\<exists>l. fst (get_lease_route sized (as_alice 6) lease_id
        (handle sized_cf (Request (as_alice 5) (Leases (Acquire 9 lease_id want_box ''k''))) sized_db)) = Inr l \<and>
     lr_duration l = - 3 \<and> \<not> conforms toy_formats LeaseSchema (lease_json toy_formats l)"
proof -
  let ?r = "fst (get_lease_route sized (as_alice 6) lease_id
        (handle sized_cf (Request (as_alice 5) (Leases (Acquire 9 lease_id want_box ''k''))) sized_db))"
  have r: "\<not> isl ?r" "lr_duration (projr ?r) = - 3" by code_simp+
  then have "\<not> conforms toy_formats LeaseSchema (lease_json toy_formats (projr ?r))"
    by (intro negative_does_not_conform toy_formats_ok) simp
  with r show ?thesis by (cases ?r) auto
qed

subsection \<open>Request bodies\<close>

text \<open>
  A body that is accepted and conforms, and the two ways in which the request models and the contract differ on how an
  integer may be written.
\<close>

text \<open>Pydantic's reading of integers where it is not strict, of which the digits of a text are one case.\<close>

definition toy_pydantic :: pydantic where
  "toy_pydantic = \<lparr>
     pd_int = (\<lambda>v. case v of
         JInt n \<Rightarrow> Some n
       | JStr s \<Rightarrow> if s \<noteq> [] \<and> list_all is_digit s then Some (digits_value s) else None
       | _ \<Rightarrow> None),
     pd_datetime = (\<lambda>v. case v of JStr s \<Rightarrow> if s = [] then None else Some (read_int s, True) | _ \<Rightarrow> None)\<rparr>"

definition box_body :: json where
  "box_body = JObj
     [(''name'', JStr ''box''), (''type'', JStr ''host''), (''sharing_mode'', JStr ''Exclusive''),
      (''expiration_mode'', JStr ''Required''), (''default_ttl_seconds'', JInt 60), (''max_ttl_seconds'', JNull),
      (''labels'', JObj [(''os'', JStr ''linux'')])]"

lemma bodies_follow_contract_witness:
  "conforms toy_formats (request_schema ResourceCreate) box_body \<and>
   read_resource_create box_body = Some \<lparr>rc_name = ''box'', rc_type = ''host'', rc_sharing_mode = Exclusive,
     rc_visibility_mode = Restricted, rc_expiration_mode = Required, rc_default_ttl = Some 60, rc_max_ttl = None,
     rc_labels = [(''os'', ''linux'')]\<rparr>"
proof -
  have plain: "case box_body of JObj kvs \<Rightarrow> plain toy_pydantic toy_formats kvs | _ \<Rightarrow> True"
    by (simp add: box_body_def plain_def)
  have read: "read_resource_create box_body = Some \<lparr>rc_name = ''box'', rc_type = ''host'', rc_sharing_mode = Exclusive,
     rc_visibility_mode = Restricted, rc_expiration_mode = Required, rc_default_ttl = Some 60, rc_max_ttl = None,
     rc_labels = [(''os'', ''linux'')]\<rparr>"
    by code_simp
  then have "accepts toy_pydantic ResourceCreate box_body" by (simp add: accepts_def)
  with bodies_follow_contract [OF plain, of ResourceCreate] read show ?thesis by blast
qed

text \<open>A version is read from a text of digits, which the contract does not allow.\<close>

lemma version_as_text:
  "accepts toy_pydantic ResourceUpdate (JObj [(''version'', JStr ''1'')])"
  "\<not> conforms toy_formats ResourceUpdateSchema (JObj [(''version'', JStr ''1'')])"
  by code_simp (simp add: ResourceUpdateSchema_def)

text \<open>A duration may not be written with a fraction of zero, which the contract allows: JSON Schema takes it for an integer.\<close>

lemma duration_with_fraction:
  "\<not> accepts toy_pydantic LeaseRenew (JObj [(''ttl_seconds'', JFloat (dec_int 60000000 @ ''e-6''))])"
  "conforms toy_formats LeaseRenewSchema (JObj [(''ttl_seconds'', JFloat (dec_int 60000000 @ ''e-6''))])"
proof -
  have "fm_number toy_formats (dec_int 60000000 @ ''e-6'') = 60" by (simp add: toy_formats_def read_dec_int)
  then show "conforms toy_formats LeaseRenewSchema (JObj [(''ttl_seconds'', JFloat (dec_int 60000000 @ ''e-6''))])"
    by (simp add: LeaseRenewSchema_def Ttl_def opt_ok_def Let_def)
  show "\<not> accepts toy_pydantic LeaseRenew (JObj [(''ttl_seconds'', JFloat (dec_int 60000000 @ ''e-6''))])"
    by (simp add: accepts_def read_lease_renew_def strict_model_def as_object_def only_fields_def readable_def or_null_def
      as_ttl_def)
qed

end
