(* ===== verification/Spec2Isabelle.thy ===== *)
theory Spec2Isabelle
  imports Witnesses Witnesses_Leases Witnesses_Access Witnesses_Service Interleaving_Demo
    Interleaving_Race Findings Contract_Demo Scripting_Demo Scripting_Verdicts Migrations_Laws Set_Up
    Service_Demo Columns_Demo Schemas_Demo
begin

text \<open>
  Shepherd RM, a resource manager: users and pipelines register, find, lease, renew and release
  resources through an HTTP API over one PostgreSQL database. This development models the server
  package \<open>src/src/shepherd_rm\<close>, its migrations, the contract it publishes and the scripts that release
  it, and proves what makes them correct.

  \<^bold>\<open>How the program is put together.\<close> A request passes the body-size middleware, gets a correlation
  id and reaches a route. The route authenticates the bearer token in a transaction of its own,
  checks the role, and then runs one or two transactions of a component: the catalog of
  resources and access grants, leasing, the identities (principals, groups, tokens, passwords), or
  the managed secrets of resources. Each change is recorded in the audit trail by the transaction
  that makes it. Login and secret disclosure first pass a rate limiter that commits on its own. A
  worker process ends expired leases batch by batch, and a bootstrap command creates the first
  administrator.

  \<^bold>\<open>The theories and the code they model.\<close> File names are relative to \<open>src/src/shepherd_rm\<close>.

    \<^item> \<open>Prelude\<close>, \<open>Tables\<close>, \<open>Json\<close>, \<open>Encoding\<close>: exceptions as values of
      \<open>exc + 'a\<close>, transactions (\<open>run_tx\<close> commits or rolls back), UUIDs as 128-bit words, the
      row operations of SQL on lists, JSON printing and parsing, UTF-8 and Base64 as the Python
      library defines them.
    \<^item> \<open>Schema\<close>, \<open>Store\<close>: the rows of \<open>database_models.py\<close> as records and every
      constraint of the migrations as the validity predicate of its table; \<open>db_ok\<close> says that all
      hold. The locale \<open>db_table\<close> is what the components rely on; every table interprets it.
    \<^item> \<open>Audit_Trail\<close>: \<open>audit.py\<close> and the correlation id of \<open>request_context.py\<close>.
    \<^item> \<open>Catalog\<close>, \<open>Catalog_Laws\<close>, \<open>Catalog_Access\<close>: \<open>catalog/models.py\<close> and
      \<open>catalog/persistence.py\<close>; optimistic concurrency, the status automaton, visibility,
      listing and label parameters.
    \<^item> \<open>Leasing\<close>, \<open>Leasing_Laws\<close>, \<open>Leasing_Acquire\<close>, \<open>Leasing_Lifecycle\<close>,
      \<open>Leasing_Expiry\<close>: \<open>leasing/models.py\<close>, \<open>leasing/persistence.py\<close> and
      \<open>leasing/worker.py\<close>; selection, idempotency, time limits, the life of a lease, the worker.
    \<^item> \<open>Identity\<close>, \<open>Identity_Api\<close>, \<open>Identity_Laws\<close>, \<open>Identity_Access\<close>:
      \<open>identity/\<close>; tokens, login, the final-administrator guard, archiving.
    \<^item> \<open>Rate_Limits\<close>, \<open>Rate_Limits_Laws\<close>: \<open>rate_limits.py\<close>.
    \<^item> \<open>Cipher\<close>, \<open>Cipher_Laws\<close>, \<open>Secrets\<close>, \<open>Secrets_Laws\<close>:
      \<open>resource_secrets/\<close>; the envelope, disclosure and its authorization.
    \<^item> \<open>Service_Api\<close>: the routes of \<open>catalog/api.py\<close> and \<open>leasing/api.py\<close>.
    \<^item> \<open>Request_Limits\<close>: the ASGI middleware of \<open>request_limits.py\<close>.
    \<^item> \<open>Evolution\<close>, \<open>Operations\<close>, \<open>System\<close>, \<open>System_Laws\<close>, \<open>Guarantees\<close>: the whole
      service as a transition system (\<open>reaches\<close>) whose events are all routes, the bootstrap
      command and worker batches; what each transaction preserves, lifted to routes and runs by
      the locales \<open>route_relation\<close> and \<open>run_invariant\<close>, and the guarantees over all runs.
    \<^item> \<open>Interleaving\<close>, \<open>Interleaving_Laws\<close>, \<open>Interleaving_Guarantees\<close>: the leasing
      transactions of \<open>leasing/persistence.py\<close> again, statement by statement, with the row and advisory
      locks they hold, as READ COMMITTED lets them interleave. The locale \<open>lock_discipline\<close> says how
      a kind of transaction uses its locks; acquisition, renewal, ending, expiration and the transactions
      of the other components interpret it. Shown are exclusivity, the absence of races after the recheck and
      progress of lease transactions with one worker; the serial acquisition of \<open>Leasing\<close> is one of the interleavings.
    \<^item> \<open>Json_Roundtrip\<close>, \<open>Request_Digest\<close>: reading back what \<open>json.dumps\<close> writes, and what
      the idempotency digest of a request identifies.
    \<^item> \<open>Metrics\<close>, \<open>Metrics_Laws\<close>: \<open>observability.py\<close> and the publication of signals by
      \<open>leasing/worker.py\<close>; the aggregations against direct counts, the snapshot file against the run.
    \<^item> \<open>Application\<close>, \<open>Application_Laws\<close>: \<open>application.py\<close>, \<open>models.py\<close>, the
      formatter of \<open>logging.py\<close>, the rejection of \<open>request_limits.py\<close> and \<open>check_database\<close>;
      correlation, caching, counting, log lines and the operational endpoints.
    \<^item> \<open>Outcomes\<close>, \<open>Contract\<close>, \<open>Contract_Laws\<close>, \<open>Contract_Demo\<close>: the routers and the status and model
      of every answer against \<open>src/openapi/openapi.yaml\<close>. \<open>Outcomes\<close> has one lemma per operation on
      the exceptions it can raise in a valid database (the calculus of \<open>only\<close> and \<open>answers\<close>).
    \<^item> \<open>Service\<close>, \<open>Service_Laws\<close>, \<open>Service_Demo\<close>: the middleware, the routers and the operational endpoints
      put together over a database: a failed request leaves no trace of its work, every answer is correlated, and
      the history of the server is a run of \<open>System\<close>.
    \<^item> \<open>Columns\<close>, \<open>Columns_Laws\<close>, \<open>Columns_Demo\<close>: the sizes of the columns against the limits of the request
      models, and the version numbers against the number of audit events; a value that does not fit would be an error nothing
      translates. The identifier of the active key is taken to fit its column, which nothing enforces.
    \<^item> \<open>Schemas\<close>, \<open>Rendering\<close>, \<open>Schemas_Laws\<close>, \<open>Schemas_Demo\<close>: the schemas of \<open>src/openapi/openapi.yaml\<close> as data, the
      response models as JSON, and that every answer conforms. The rules of \<open>gives\<close> carry what a transaction reads
      from the rows to the answer of the route; the constraints and the validation bound the rows.
    \<^item> \<open>Bodies\<close>, \<open>Bodies_Laws\<close>: the request models of \<open>identity/models.py\<close>, \<open>catalog/models.py\<close>,
      \<open>leasing/models.py\<close> and \<open>resource_secrets/models.py\<close> as readers of JSON, against the schemas of the
      contract; what is read is \<open>validated\<close>, which \<open>Columns\<close> and \<open>Schemas\<close> take for granted of a request.
    \<^item> \<open>Leasing_Burst\<close>: acquisitions one after the other share the free exclusive resources out.
    \<^item> \<open>Scripting\<close>, \<open>Acceptance\<close>, \<open>Deployment\<close>, \<open>Dev_Tasks\<close>: the scripts of \<open>src/scripts\<close>
      as programs over an arbitrary outside (sockets, processes, files, clock), with the trace of their
      effects. \<open>Scripting_Laws\<close>, \<open>Deployment_Laws\<close>, \<open>Scripting_Verdicts\<close>: they end if the commands they
      start do, keep to their scope, clean up, and what their outcomes say. \<open>Probe_Burst\<close> connects the concurrency probe with
      \<open>Leasing_Burst\<close>.
    \<^item> \<open>Migrations\<close>, \<open>Migrations_Laws\<close>: the revisions of \<open>src/migrations\<close> as DDL statements, forward
      and back.
    \<^item> \<open>Set_Up\<close>: loading the contract document, log handler, correlation variable, engines and
      transaction helpers, the start of the server and Alembic's configuration.
    \<^item> \<open>Config\<close>: the secret files and bounds of \<open>config.py\<close> and the driver prefix of
      \<open>database.py\<close>.
    \<^item> \<open>Demo\<close>, \<open>Interleaving_Demo\<close>, \<open>Scripting_Demo\<close> and the \<open>Witnesses\<close> theories apply the theorems to a
      concrete database; \<open>Findings\<close>, \<open>Interleaving_Race\<close> and the ends of \<open>Interleaving_Demo\<close>, \<open>Contract_Demo\<close>, \<open>Columns_Demo\<close> and
      \<open>Schemas_Demo\<close> prove what the model showed to go wrong.

  \<^bold>\<open>What the model takes for granted.\<close> In \<open>System\<close> transactions are atomic and serial; that
  the row locks the code takes (\<open>FOR UPDATE\<close>, \<open>SKIP LOCKED\<close>) make this sound for leasing is the subject of
  \<open>Interleaving\<close>, where a statement reads what is committed when it starts, a locked row is checked
  against the query once more, and all clocks are one. Its locks are the advisory locks of idempotency keys and the locks of
  lease and resource rows; the shared locks that foreign keys take on principals, and the locks of principals, secrets and
  administration that transactions of other components take, are left out, so progress is shown while no transaction of
  another component is running, and those transactions are taken to turn no shared resource exclusive. Time is in microseconds. A transaction reads the database's clock once (\<open>cx_now\<close>, SQL \<open>now()\<close>); where the code
  reads the clock of the application (\<open>datetime.now\<close>) the model has an argument of its own, since the
  two may differ; events commit in the order of the database's clock. Fresh UUIDs, random bytes and
  Argon2 hashes of new passwords are arguments of the operations. Code that is not in the repository is a parameter:
  SHA-256 (\<open>sha\<close>), Argon2 verification (\<open>verify\<close>), AES-GCM (record \<open>aead\<close>; the law used is
  \<open>aead_correct\<close>, opening inverts sealing), the collation of text columns (\<open>coll\<close>) and the printing of
  floats in JSON (\<open>float_of\<close>), \<open>make_url\<close> of SQLAlchemy (\<open>parse_url\<close>), how Pydantic writes dates and
  durations (record \<open>formats\<close>; \<open>formats_ok\<close> says that a date has the form of a date and a duration its sign), and how it
  reads dates and integers that are not strict (record \<open>pydantic\<close>). A float is the text \<open>repr\<close>
  gives it. The metrics file is read and replaced under its lock as a whole.

  \<^bold>\<open>Bounds and fuel.\<close> JSON parsing runs on fuel, the length of the document, since every step consumes a
  character. The worker's loop runs over the finite list of its iterations, each with the exception that escapes the publication of
  its metrics, if any. The two waiting loops of
  the release scripts are partial functions that are shown to return, since every round sleeps a second
  before a deadline; a command a script starts may never end, and the script with it. All other loops are structural recursions. Integers are unbounded as in Python; of the 32-bit columns, the attempts of a
  rate-limit window raise beyond \<open>MAX_ATTEMPTS\<close>, and the version numbers are shown to stay within the number of audit events.

  \<^bold>\<open>Not modelled.\<close> Interleavings of transactions other than those of leasing, of which \<open>Interleaving\<close>
  only knows the locks and what they leave alone; characters beyond code point 255, since a HOL \<open>char\<close> is a byte; NUL characters and
  offsets beyond 64 bits, which PostgreSQL refuses with an error of its own; the parameters and
  headers of the OpenAPI document, the text format of Prometheus and the buckets of histograms (\<open>prometheus_client\<close>); the
  reading of the environment by Pydantic, and which of several faults of a body its 422 names; Uvicorn and the
  connections of the drivers; Docker and the programs the scripts start, a request of the scripts that never ends (each has a timeout) and the redirects \<open>urllib\<close>
  follows by itself; the printing of the release's evidence.
\<close>

end
